(* ===== verification/Prelude.thy ===== *)
theory Prelude
  imports Main
begin

text \<open>
  Shared vocabulary of the development: the errors a request can end in, JavaScript's
  string operations on Latin-1 strings, and generic list lemmas.

  A JavaScript string is modelled by \<^typ>\<open>string\<close>, one \<^typ>\<open>char\<close> per UTF-16 code
  unit, for the code units below 256. Case mapping and white space follow ECMAScript on that
  range; the two letters whose upper case lies outside it (code units 181 and 255) are left
  unchanged by \<open>toUpperCase\<close>.
\<close>

named_theorems js_string \<open>definitions of the JavaScript string operations\<close>
named_theorems handler_defs \<open>definitions of the request handlers\<close>

section \<open>Errors and results\<close>

text \<open>
  The exceptions of \<open>@nestjs/common\<close> the services throw, with their message, and the two
  errors of the database client that reach or are caught by a handler.
\<close>

datatype prisma_code = P2002 | P2025

datatype http_error =
    BadRequestException string
  | UnauthorizedException string
  | ForbiddenException string
  | NotFoundException string
  | ConflictException string
  | TooManyRequests string
  | ServiceUnavailableException string
  | PrismaKnownError prisma_code
  | InternalError string

type_synonym 'a result = "http_error + 'a"

text \<open>A handler runs on a state and leaves a state, whether it returns or throws.\<close>

type_synonym ('s, 'a) handler = "'s \<Rightarrow> 'a result \<times> 's"

definition bindE :: "'e + 'a \<Rightarrow> ('a \<Rightarrow> 'e + 'b) \<Rightarrow> 'e + 'b" where
  "bindE r f = (case r of Inl e \<Rightarrow> Inl e | Inr a \<Rightarrow> f a)"

lemma bindE_simps [simp]:
  "bindE (Inl e) f = Inl e"
  "bindE (Inr a) f = f a"
  by (simp_all add: bindE_def)

lemma bindE_eq_Inr: "bindE r f = Inr b \<longleftrightarrow> (\<exists>a. r = Inr a \<and> f a = Inr b)"
  by (cases r) auto

section \<open>Options as JavaScript's nullable values\<close>

text \<open>\<open>x ?? d\<close>\<close>

definition coalesce :: "'a option \<Rightarrow> 'a \<Rightarrow> 'a" where
  "coalesce x d = (case x of None \<Rightarrow> d | Some a \<Rightarrow> a)"

lemma coalesce_simps [simp]: "coalesce None d = d" "coalesce (Some a) d = a"
  by (simp_all add: coalesce_def)

text \<open>
  An optional field of a request body: the validation of the body lets \<open>null\<close> through an
  optional field, so a field is absent, null or has a value.
\<close>

datatype 'a nullable = Undefined | Null | Value 'a

definition nn :: "'a nullable \<Rightarrow> 'a \<Rightarrow> 'a" where
  "nn x d = (case x of Value a \<Rightarrow> a | _ \<Rightarrow> d)"

definition to_option :: "'a nullable \<Rightarrow> 'a option" where
  "to_option x = (case x of Value a \<Rightarrow> Some a | _ \<Rightarrow> None)"

lemma nullable_simps [simp]:
  "nn Undefined d = d" "nn Null d = d" "nn (Value a) d = a"
  "to_option Undefined = None" "to_option Null = None" "to_option (Value a) = Some a"
  by (simp_all add: nn_def to_option_def)

text \<open>A string is falsy when it is empty.\<close>

definition truthy :: "string option \<Rightarrow> bool" where
  "truthy x = (case x of None \<Rightarrow> False | Some s \<Rightarrow> s \<noteq> [])"

lemma truthy_simps [simp]: "\<not> truthy None" "truthy (Some s) \<longleftrightarrow> s \<noteq> []"
  by (simp_all add: truthy_def)

text \<open>\<open>s || null\<close>\<close>

definition or_null :: "string \<Rightarrow> string option" where
  "or_null s = (if s = [] then None else Some s)"

section \<open>Reasoning about handlers\<close>

text \<open>
  \<open>ensures Q p\<close> says that the result and the state a handler ends in satisfy \<open>Q\<close>. The
  rules follow the shape of a handler: one for each construct its body is written with.
\<close>

named_theorems ensures_intros \<open>rules for the bodies of handlers\<close>

definition ensures :: "('a \<Rightarrow> 's \<Rightarrow> bool) \<Rightarrow> 'a \<times> 's \<Rightarrow> bool" where
  "ensures Q p = (case p of (r, s) \<Rightarrow> Q r s)"

lemma ensures_pair [ensures_intros]: "Q r s \<Longrightarrow> ensures Q (r, s)"
  by (simp add: ensures_def)

lemma ensures_sum [ensures_intros]:
  "(\<And>e. x = Inl e \<Longrightarrow> ensures Q (f e)) \<Longrightarrow> (\<And>a. x = Inr a \<Longrightarrow> ensures Q (g a))
   \<Longrightarrow> ensures Q (case x of Inl e \<Rightarrow> f e | Inr a \<Rightarrow> g a)"
  by (cases x) simp_all

lemma ensures_option [ensures_intros]:
  "(x = None \<Longrightarrow> ensures Q f) \<Longrightarrow> (\<And>a. x = Some a \<Longrightarrow> ensures Q (g a))
   \<Longrightarrow> ensures Q (case x of None \<Rightarrow> f | Some a \<Rightarrow> g a)"
  by (cases x) simp_all

lemma ensures_list [ensures_intros]:
  "(xs = [] \<Longrightarrow> ensures Q f) \<Longrightarrow> (\<And>a as. xs = a # as \<Longrightarrow> ensures Q (g a as))
   \<Longrightarrow> ensures Q (case xs of [] \<Rightarrow> f | a # as \<Rightarrow> g a as)"
  by (cases xs) simp_all

lemma ensures_if [ensures_intros]:
  "(b \<Longrightarrow> ensures Q x) \<Longrightarrow> (\<not> b \<Longrightarrow> ensures Q y) \<Longrightarrow> ensures Q (if b then x else y)"
  by simp

lemma ensures_prod [ensures_intros]:
  "(\<And>a b. x = (a, b) \<Longrightarrow> ensures Q (f a b)) \<Longrightarrow> ensures Q (case x of (a, b) \<Rightarrow> f a b)"
  by (cases x) simp

lemma ensures_let [ensures_intros]: "(\<And>x. x = t \<Longrightarrow> ensures Q (f x)) \<Longrightarrow> ensures Q (Let t f)"
  by simp

lemma ensures_snd: "ensures (\<lambda>r s. I s) p \<longleftrightarrow> I (snd p)"
  by (simp add: ensures_def case_prod_unfold)

lemma ensuresD: "ensures Q p \<Longrightarrow> p = (r, s) \<Longrightarrow> Q r s"
  by (simp add: ensures_def)

lemma ensures_mono: "ensures P p \<Longrightarrow> (\<And>r s. P r s \<Longrightarrow> Q r s) \<Longrightarrow> ensures Q p"
  by (auto simp: ensures_def)

section \<open>String operations\<close>

definition ccode :: "char \<Rightarrow> nat" where
  "ccode c = of_char c"

definition is_ws :: "char \<Rightarrow> bool" where
  "is_ws c = ((9 \<le> ccode c \<and> ccode c \<le> 13) \<or> ccode c = 32 \<or> ccode c = 160)"

definition is_digit :: "char \<Rightarrow> bool" where
  "is_digit c = (48 \<le> ccode c \<and> ccode c \<le> 57)"

definition is_lower :: "char \<Rightarrow> bool" where
  "is_lower c = (97 \<le> ccode c \<and> ccode c \<le> 122)"

definition is_upper :: "char \<Rightarrow> bool" where
  "is_upper c = (65 \<le> ccode c \<and> ccode c \<le> 90)"

definition trim :: "string \<Rightarrow> string" where
  "trim s = rev (dropWhile is_ws (rev (dropWhile is_ws s)))"

definition lower_char :: "char \<Rightarrow> char" where
  "lower_char c = (if is_upper c \<or> (192 \<le> ccode c \<and> ccode c \<le> 222 \<and> ccode c \<noteq> 215)
                   then char_of (ccode c + 32) else c)"

definition upper_char :: "char \<Rightarrow> string" where
  "upper_char c = (if is_lower c \<or> (224 \<le> ccode c \<and> ccode c \<le> 254 \<and> ccode c \<noteq> 247)
                   then [char_of (ccode c - 32)] else if ccode c = 223 then ''SS'' else [c])"

text \<open>The same on binary integers, which the kernel evaluates faster than natural numbers.\<close>

lemma ccode_int: "int (ccode c) = of_char c"
  by (simp add: ccode_def of_nat_of_char)

lemma char_class_code [code]:
  "is_ws c = (let k = (of_char c :: int) in (9 \<le> k \<and> k \<le> 13) \<or> k = 32 \<or> k = 160)"
  "is_digit c = (let k = (of_char c :: int) in 48 \<le> k \<and> k \<le> 57)"
  "is_lower c = (let k = (of_char c :: int) in 97 \<le> k \<and> k \<le> 122)"
  "is_upper c = (let k = (of_char c :: int) in 65 \<le> k \<and> k \<le> 90)"
  by (auto simp: is_ws_def is_digit_def is_lower_def is_upper_def ccode_int [symmetric])

lemma char_of_shift: "char_of (ccode c + n) = char_of ((of_char c :: int) + int n)"
  "n \<le> ccode c \<Longrightarrow> char_of (ccode c - n) = char_of ((of_char c :: int) - int n)"
  by (simp_all add: ccode_int [symmetric] flip: of_nat_add of_nat_diff)

lemma char_case_code [code]:
  "lower_char c = (let k = (of_char c :: int) in
     if (65 \<le> k \<and> k \<le> 90) \<or> (192 \<le> k \<and> k \<le> 222 \<and> k \<noteq> 215) then char_of (k + 32) else c)"
  "upper_char c = (let k = (of_char c :: int) in
     if (97 \<le> k \<and> k \<le> 122) \<or> (224 \<le> k \<and> k \<le> 254 \<and> k \<noteq> 247) then [char_of (k - 32)]
     else if k = 223 then ''SS'' else [c])"
  using char_of_shift [where c = c and n = 32]
  by (auto simp: lower_char_def upper_char_def is_lower_def is_upper_def ccode_int [symmetric])

definition toLowerCase :: "string \<Rightarrow> string" where
  "toLowerCase s = map lower_char s"

definition toUpperCase :: "string \<Rightarrow> string" where
  "toUpperCase s = concat (map upper_char s)"

definition onlyDigits :: "string \<Rightarrow> string" where
  "onlyDigits s = filter is_digit s"

fun startsWith :: "string \<Rightarrow> string \<Rightarrow> bool" where
  "startsWith s [] = True"
| "startsWith [] (p # ps) = False"
| "startsWith (c # cs) (p # ps) = (c = p \<and> startsWith cs ps)"

fun includes_str :: "string \<Rightarrow> string \<Rightarrow> bool" where
  "includes_str [] p = (p = [])"
| "includes_str (c # cs) p = (startsWith (c # cs) p \<or> includes_str cs p)"

fun split_on :: "char \<Rightarrow> string \<Rightarrow> string list" where
  "split_on d [] = [[]]"
| "split_on d (c # cs) =
     (if c = d then [] # split_on d cs
      else (case split_on d cs of [] \<Rightarrow> [[c]] | w # ws \<Rightarrow> (c # w) # ws))"

fun join :: "string \<Rightarrow> string list \<Rightarrow> string" where
  "join sep [] = []"
| "join sep [s] = s"
| "join sep (s # t # ss) = s @ sep @ join sep (t # ss)"

definition digit_char :: "nat \<Rightarrow> char" where
  "digit_char n = char_of (48 + n)"

definition digit_val :: "char \<Rightarrow> nat" where
  "digit_val c = ccode c - 48"

fun nat_str :: "nat \<Rightarrow> string" where
  "nat_str n = (if n < 10 then [digit_char n] else nat_str (n div 10) @ [digit_char (n mod 10)])"

declare nat_str.simps [simp del]

text \<open>\<open>Number(s)\<close> for a string of decimal digits (\<open>0\<close> for the empty string).\<close>

definition number_of_digits :: "string \<Rightarrow> nat" where
  "number_of_digits s = foldl (\<lambda>n c. 10 * n + digit_val c) 0 s"

definition optionalText :: "string option \<Rightarrow> string option" where
  "optionalText v = (case v of None \<Rightarrow> None | Some s \<Rightarrow> or_null (trim s))"

lemmas char_class_defs = is_ws_def is_digit_def is_lower_def is_upper_def ccode_def

lemma onlyDigits_append [simp]: "onlyDigits (s @ t) = onlyDigits s @ onlyDigits t"
  by (simp add: onlyDigits_def)

lemma onlyDigits_idem [simp]: "onlyDigits (onlyDigits s) = onlyDigits s"
  by (simp add: onlyDigits_def)

lemma onlyDigits_digits: "\<forall>c \<in> set (onlyDigits s). is_digit c"
  by (simp add: onlyDigits_def)

lemma split_on_nonempty [simp]: "split_on d s \<noteq> []"
  by (induction s) (auto split: list.splits)

lemma join_split_on: "join [d] (split_on d s) = s"
proof (induction s)
  case (Cons c cs)
  show ?case
    using Cons split_on_nonempty [of d cs]
    by (cases "split_on d cs"; cases "tl (split_on d cs)") auto
qed simp

lemma split_on_append: "split_on c (s @ c # t) = split_on c s @ split_on c t"
  by (induction s) (auto split: list.splits)

lemma split_on_no_sep: "w \<in> set (split_on c s) \<Longrightarrow> c \<notin> set w"
  by (induction s arbitrary: w) (auto split: list.splits if_splits)

lemma split_on_single: "c \<notin> set s \<Longrightarrow> split_on c s = [s]"
  by (induction s) auto

lemma dropWhile_ws_idem: "dropWhile is_ws (dropWhile is_ws s) = dropWhile is_ws s"
  by (induction s) auto

section \<open>Lists\<close>

lemma find_SomeD: "find p xs = Some x \<Longrightarrow> x \<in> set xs \<and> p x"
  by (induction xs) (auto split: if_splits)

lemma find_None_iff_set: "find p xs = None \<longleftrightarrow> (\<forall>x \<in> set xs. \<not> p x)"
  by (induction xs) auto

lemma find_append: "find p (xs @ ys) = (case find p xs of None \<Rightarrow> find p ys | Some x \<Rightarrow> Some x)"
  by (induction xs) auto

lemma find_ex: "x \<in> set xs \<Longrightarrow> p x \<Longrightarrow> \<exists>y. find p xs = Some y \<and> p y"
  by (cases "find p xs") (auto simp: find_None_iff_set dest: find_SomeD)

text \<open>\<open>Math.ceil(total / perPage)\<close> on natural numbers.\<close>

definition ceil_div :: "nat \<Rightarrow> nat \<Rightarrow> nat" where
  "ceil_div a b = (a + b - 1) div b"

text \<open>The page of a list a query with \<open>skip: (page - 1) * perPage, take: perPage\<close> returns.\<close>

definition page_of :: "nat \<Rightarrow> nat \<Rightarrow> 'a list \<Rightarrow> 'a list" where
  "page_of page perPage xs = take perPage (drop ((page - 1) * perPage) xs)"

lemma set_page_of: "set (page_of page perPage xs) \<subseteq> set xs"
  unfolding page_of_def by (meson set_drop_subset set_take_subset subset_trans)

lemma length_page_of: "length (page_of page perPage xs) \<le> perPage"
  by (simp add: page_of_def)

end
