(* ===== verification/Store.thy ===== *)
theory Store
  imports Prelude "HOL-Library.List_Lexorder" "HOL-Library.Char_ord"
begin

text \<open>
  Database tables. A table is the list of its rows; its order is arbitrary, since no theorem
  fixes it. The operations are the ones the services call on the database client: reads by a
  predicate, creation and update of one row under the unique constraints of the schema, and
  updates and deletions of every row a predicate selects. The locale \<open>table\<close> is the
  contract between them and the services: what a unique constraint keeps.
\<close>

named_theorems table_defs \<open>definitions of the table operations\<close>

section \<open>Operations\<close>

definition findFirst :: "('r \<Rightarrow> bool) \<Rightarrow> 'r list \<Rightarrow> 'r option" where
  "findFirst p t = find p t"

definition findMany :: "('r \<Rightarrow> bool) \<Rightarrow> 'r list \<Rightarrow> 'r list" where
  "findMany p t = filter p t"

definition count_rows :: "('r \<Rightarrow> bool) \<Rightarrow> 'r list \<Rightarrow> nat" where
  "count_rows p t = length (filter p t)"

definition updateMany :: "('r \<Rightarrow> bool) \<Rightarrow> ('r \<Rightarrow> 'r) \<Rightarrow> 'r list \<Rightarrow> 'r list" where
  "updateMany p f t = map (\<lambda>r. if p r then f r else r) t"

definition deleteMany :: "('r \<Rightarrow> bool) \<Rightarrow> 'r list \<Rightarrow> 'r list" where
  "deleteMany p t = filter (\<lambda>r. \<not> p r) t"

text \<open>
  \<open>conflict r x\<close> says that the rows share the key of some unique constraint. Creating a row
  fails with \<open>P2002\<close> on a conflict; updating by identifier fails with \<open>P2025\<close> when no
  row has the identifier.
\<close>

definition create_row :: "('r \<Rightarrow> 'r \<Rightarrow> bool) \<Rightarrow> 'r \<Rightarrow> 'r list \<Rightarrow> prisma_code + 'r list" where
  "create_row conflict r t = (if \<exists>x \<in> set t. conflict r x then Inl P2002 else Inr (t @ [r]))"

definition update_row ::
  "('r \<Rightarrow> string) \<Rightarrow> ('r \<Rightarrow> 'r \<Rightarrow> bool) \<Rightarrow> string \<Rightarrow> ('r \<Rightarrow> 'r) \<Rightarrow> 'r list
    \<Rightarrow> prisma_code + ('r \<times> 'r list)" where
  "update_row rid conflict i f t =
     (case find (\<lambda>r. rid r = i) t of
        None \<Rightarrow> Inl P2025
      | Some r \<Rightarrow>
          if \<exists>x \<in> set t. rid x \<noteq> i \<and> conflict (f r) x then Inl P2002
          else Inr (f r, map (\<lambda>x. if rid x = i then f x else x) t))"

definition no_conflict :: "'r \<Rightarrow> 'r \<Rightarrow> bool" where
  "no_conflict r x = False"

lemmas [table_defs] = findFirst_def findMany_def count_rows_def updateMany_def deleteMany_def
  create_row_def update_row_def no_conflict_def

lemma findFirst_SomeD: "findFirst p t = Some r \<Longrightarrow> r \<in> set t \<and> p r"
  unfolding findFirst_def by (rule find_SomeD)

lemma findFirst_None: "findFirst p t = None \<longleftrightarrow> (\<forall>r \<in> set t. \<not> p r)"
  by (simp add: findFirst_def find_None_iff_set)

lemma count_rows_0: "count_rows p t = 0 \<longleftrightarrow> (\<forall>r \<in> set t. \<not> p r)"
  by (simp add: count_rows_def filter_empty_conv)

lemma create_Inr: "create_row conflict r t = Inr t' \<longleftrightarrow> (\<forall>x \<in> set t. \<not> conflict r x) \<and> t' = t @ [r]"
  by (auto simp: create_row_def)

lemma create_Inl: "create_row conflict r t = Inl e \<longleftrightarrow> (\<exists>x \<in> set t. conflict r x) \<and> e = P2002"
  by (auto simp: create_row_def)

lemma update_InrD:
  assumes "update_row rid conflict i f t = Inr (r', t')"
  shows "\<exists>r. r \<in> set t \<and> rid r = i \<and> r' = f r
    \<and> t' = map (\<lambda>x. if rid x = i then f x else x) t
    \<and> (\<forall>x \<in> set t. rid x \<noteq> i \<longrightarrow> \<not> conflict (f r) x)"
  using assms by (auto simp: update_row_def split: option.splits if_splits dest: find_SomeD)

lemma update_updateMany:
  "update_row rid conflict i f t = Inr (r', t')
   \<Longrightarrow> t' = updateMany (\<lambda>x. rid x = i) f t \<and> (\<exists>r. r \<in> set t \<and> rid r = i \<and> r' = f r)"
  unfolding updateMany_def by (auto dest: update_InrD)

lemma map_id_row_update: "(\<And>x. g (f x) = g x) \<Longrightarrow> map g (map (\<lambda>x. if p x then f x else x) t) = map g t"
  by simp

lemma set_updateMany: "set (updateMany p f t) = (\<lambda>r. if p r then f r else r) ` set t"
  by (simp add: updateMany_def)

lemma map_updateMany: "(\<And>r. g (f r) = g r) \<Longrightarrow> map g (updateMany p f t) = map g t"
  by (simp add: updateMany_def)

section \<open>Ordered reads\<close>

text \<open>
  \<open>orderBy\<close> with one or several keys: a strict order built from keys with \<open>asc\<close>,
  \<open>desc\<close> and \<open>then_by\<close>, and a stable insertion sort by it. Strings are compared
  by code unit.
\<close>

definition asc :: "('r \<Rightarrow> 'k::linorder) \<Rightarrow> 'r \<Rightarrow> 'r \<Rightarrow> bool" where
  "asc k a b = (k a < k b)"

definition desc :: "('r \<Rightarrow> 'k::linorder) \<Rightarrow> 'r \<Rightarrow> 'r \<Rightarrow> bool" where
  "desc k a b = (k b < k a)"

definition then_by :: "('r \<Rightarrow> 'r \<Rightarrow> bool) \<Rightarrow> ('r \<Rightarrow> 'r \<Rightarrow> bool) \<Rightarrow> 'r \<Rightarrow> 'r \<Rightarrow> bool" where
  "then_by p q a b = (p a b \<or> (\<not> p b a \<and> q a b))"

fun insert_by :: "('r \<Rightarrow> 'r \<Rightarrow> bool) \<Rightarrow> 'r \<Rightarrow> 'r list \<Rightarrow> 'r list" where
  "insert_by lt x [] = [x]"
| "insert_by lt x (y # ys) = (if lt y x then y # insert_by lt x ys else x # y # ys)"

definition orderBy :: "('r \<Rightarrow> 'r \<Rightarrow> bool) \<Rightarrow> 'r list \<Rightarrow> 'r list" where
  "orderBy lt xs = foldr (insert_by lt) xs []"

lemmas order_defs = asc_def desc_def then_by_def

lemma set_insert_by [simp]: "set (insert_by lt x xs) = insert x (set xs)"
  by (induction xs) auto

lemma length_insert_by [simp]: "length (insert_by lt x xs) = Suc (length xs)"
  by (induction xs) auto

lemma set_orderBy [simp]: "set (orderBy lt xs) = set xs"
  by (induction xs) (simp_all add: orderBy_def)

lemma length_orderBy [simp]: "length (orderBy lt xs) = length xs"
  by (induction xs) (simp_all add: orderBy_def)

lemma orderBy_Nil [simp]: "orderBy lt [] = []"
  by (simp add: orderBy_def)

lemma orderBy_Cons: "orderBy lt (x # xs) = insert_by lt x (orderBy lt xs)"
  by (simp add: orderBy_def)

text \<open>For a transitive order whose negation is transitive too, the result is sorted.\<close>

lemma sorted_orderBy:
  assumes "\<And>a b c. \<not> lt b a \<Longrightarrow> \<not> lt c b \<Longrightarrow> \<not> lt c a" "\<And>a b. lt a b \<Longrightarrow> \<not> lt b a"
  shows "sorted_wrt (\<lambda>a b. \<not> lt b a) (orderBy lt xs)"
proof -
  have "sorted_wrt (\<lambda>a b. \<not> lt b a) (insert_by lt x ys)" if "sorted_wrt (\<lambda>a b. \<not> lt b a) ys" for x ys
    using that
  proof (induction ys)
    case (Cons y ys)
    then have *: "\<forall>b \<in> set ys. \<not> lt b y" "sorted_wrt (\<lambda>a b. \<not> lt b a) (insert_by lt x ys)"
      by simp_all
    show ?case
    proof (cases "lt y x")
      case True
      then show ?thesis using * assms(2) by simp
    next
      case False
      then have "\<forall>b \<in> set ys. \<not> lt b x" using assms(1) *(1) by blast
      then show ?thesis using False Cons.prems by simp
    qed
  qed simp
  then show ?thesis
    by (induction xs) (simp_all add: orderBy_Cons)
qed

text \<open>\<open>in\<close> filters, \<open>_max\<close> aggregates and \<open>contains\<close> filters.\<close>

definition in_list :: "('r \<Rightarrow> string) \<Rightarrow> string list \<Rightarrow> 'r \<Rightarrow> bool" where
  "in_list k ids r = (k r \<in> set ids)"

definition max_of :: "('r \<Rightarrow> nat) \<Rightarrow> 'r list \<Rightarrow> nat option" where
  "max_of k t = (if t = [] then None else Some (foldl max 0 (map k t)))"

lemma foldl_max_ge: "(n::nat) \<le> foldl max n xs \<and> (\<forall>x \<in> set xs. x \<le> foldl max n xs)"
proof (induction xs arbitrary: n)
  case (Cons a xs)
  have "max n a \<le> foldl max (max n a) xs" "\<forall>x \<in> set xs. x \<le> foldl max (max n a) xs"
    using Cons [of "max n a"] by auto
  then show ?case by auto
qed simp

lemma max_of_ge: "max_of k t = Some m \<Longrightarrow> r \<in> set t \<Longrightarrow> k r \<le> m"
  using foldl_max_ge [of 0 "map k t"] by (auto simp: max_of_def split: if_splits)

lemma max_of_None [simp]: "max_of k t = None \<longleftrightarrow> t = []"
  by (simp add: max_of_def)

section \<open>The rows of one tenant\<close>

text \<open>\<open>others ten tn t\<close> are the rows of \<open>t\<close> that belong to other tenants than \<open>tn\<close>.\<close>

definition others :: "('r \<Rightarrow> string) \<Rightarrow> string \<Rightarrow> 'r list \<Rightarrow> 'r list" where
  "others ten tn t = filter (\<lambda>r. ten r \<noteq> tn) t"

lemma others_append: "others ten tn (t @ u) = others ten tn t @ others ten tn u"
  by (simp add: others_def)

lemma others_single: "ten r = tn \<Longrightarrow> others ten tn [r] = []"
  by (simp add: others_def)

lemma others_create: "create_row conflict r t = Inr t' \<Longrightarrow> ten r = tn \<Longrightarrow> others ten tn t' = others ten tn t"
  by (auto simp: others_def create_Inr)

lemma others_map:
  assumes "\<And>r. r \<in> set t \<Longrightarrow> p r \<Longrightarrow> ten r = tn" "\<And>r. ten (f r) = ten r"
  shows "others ten tn (map (\<lambda>r. if p r then f r else r) t) = others ten tn t"
  using assms(1) by (induction t) (auto simp: others_def assms(2))

lemma others_updateMany:
  "(\<And>r. r \<in> set t \<Longrightarrow> p r \<Longrightarrow> ten r = tn) \<Longrightarrow> (\<And>r. ten (f r) = ten r)
   \<Longrightarrow> others ten tn (updateMany p f t) = others ten tn t"
  unfolding updateMany_def by (rule others_map)

lemma others_deleteMany:
  "(\<And>r. r \<in> set t \<Longrightarrow> p r \<Longrightarrow> ten r = tn) \<Longrightarrow> others ten tn (deleteMany p t) = others ten tn t"
  by (induction t) (auto simp: others_def deleteMany_def)

section \<open>Unique constraints\<close>

locale table =
  fixes rid :: "'r \<Rightarrow> string" and conflict :: "'r \<Rightarrow> 'r \<Rightarrow> bool"
  assumes conflict_sym: "conflict r x \<Longrightarrow> conflict x r"

text \<open>A well-formed table: distinct identifiers and no two rows in conflict.\<close>

definition wf_table :: "('r \<Rightarrow> string) \<Rightarrow> ('r \<Rightarrow> 'r \<Rightarrow> bool) \<Rightarrow> 'r list \<Rightarrow> bool" where
  "wf_table rid conflict t \<longleftrightarrow>
     distinct (map rid t) \<and> (\<forall>x \<in> set t. \<forall>y \<in> set t. rid x \<noteq> rid y \<longrightarrow> \<not> conflict x y)"

lemma wf_table_unique:
  "wf_table rid conflict t \<Longrightarrow> x \<in> set t \<Longrightarrow> y \<in> set t \<Longrightarrow> rid x = rid y \<Longrightarrow> x = y"
  by (auto simp: wf_table_def distinct_map inj_on_def)

lemma wf_table_find:
  assumes "wf_table rid conflict t" "r \<in> set t"
  shows "find (\<lambda>x. rid x = rid r) t = Some r"
  using find_ex [of r t "\<lambda>x. rid x = rid r"] assms
  by (metis find_SomeD wf_table_unique)

lemma others_update:
  assumes "update_row rid conflict i f t = Inr (r', t')" "wf_table rid conflict t"
    and "r \<in> set t" "rid r = i" "ten r = tn" "\<And>x. ten (f x) = ten x"
  shows "others ten tn t' = others ten tn t"
proof -
  have "t' = map (\<lambda>x. if rid x = i then f x else x) t"
    using update_InrD [OF assms(1)] by blast
  moreover have "\<And>x. x \<in> set t \<Longrightarrow> rid x = i \<Longrightarrow> ten x = tn"
    using wf_table_unique [OF assms(2)] assms(3-5) by blast
  ultimately show ?thesis using assms(6) by (simp add: others_map)
qed

context table
begin

lemma wf_create:
  assumes "create_row conflict r t = Inr t'" "wf_table rid conflict t" "rid r \<notin> rid ` set t"
  shows "wf_table rid conflict t'"
  using assms conflict_sym by (auto simp: create_Inr wf_table_def)

lemma wf_update:
  assumes "update_row rid conflict i f t = Inr (r', t')" "wf_table rid conflict t"
    and "\<And>x. rid (f x) = rid x"
  shows "wf_table rid conflict t'"
proof -
  obtain r where r: "r \<in> set t" "rid r = i" "t' = map (\<lambda>x. if rid x = i then f x else x) t"
    "\<forall>x \<in> set t. rid x \<noteq> i \<longrightarrow> \<not> conflict (f r) x"
    using update_InrD [OF assms(1)] by blast
  have ids: "map rid t' = map rid t"
    by (simp add: r(3) assms(3))
  have one: "x = r" if "x \<in> set t" "rid x = i" for x
    using wf_table_unique [OF assms(2) that(1) r(1)] that(2) r(2) by simp
  have "\<not> conflict x y" if "x \<in> set t'" "y \<in> set t'" "rid x \<noteq> rid y" for x y
  proof -
    note xy = that
    obtain a b where ab: "a \<in> set t" "b \<in> set t"
      "x = (if rid a = i then f a else a)" "y = (if rid b = i then f b else b)"
      using xy by (auto simp: r(3))
    have rids: "rid x = rid a" "rid y = rid b"
      by (simp_all add: ab(3,4) assms(3))
    show ?thesis
    proof (cases "rid a = i")
      case True
      then have "rid b \<noteq> i" using xy(3) rids by simp
      then show ?thesis using True ab one r(4) by simp
    next
      case False
      show ?thesis
      proof (cases "rid b = i")
        case True
        then have "\<not> conflict (f r) a" using False ab(1) r(4) by simp
        then show ?thesis using True False ab one conflict_sym by auto
      next
        case no: False
        then show ?thesis using False ab xy(3) assms(2) by (simp add: wf_table_def)
      qed
    qed
  qed
  then show ?thesis
    using assms(2) ids by (simp add: wf_table_def)
qed

lemma wf_updateMany:
  assumes "wf_table rid conflict t" "\<And>x. rid (f x) = rid x"
    and "\<And>x y. conflict (f x) y = conflict x y"
  shows "wf_table rid conflict (updateMany p f t)"
proof -
  have "conflict x (f y) = conflict x y" for x y
    using assms(3) conflict_sym by blast
  then show ?thesis
    using assms by (auto simp: wf_table_def set_updateMany map_updateMany)
qed

end

end
