(* ===== verification/Rounding.thy ===== *)
theory Rounding
  imports Complex_Main Prelude "HOL-Library.Log_Nat"
begin

text \<open>
  Numbers. A JavaScript \<open>number\<close> and a \<open>Prisma.Decimal\<close> are both modelled by the
  rational they denote. What distinguishes them is the rounding of the result of an operation:
  to 53 significant binary digits, ties to even, for a double; to 20 significant decimal digits,
  ties away from zero, for the decimal library in its default configuration. Both are instances
  of one operation \<open>round_sig\<close>, proved correct here for every rule that breaks ties
  sensibly. Overflow to infinity, the subnormal range and \<open>NaN\<close> are outside the model.
\<close>

section \<open>Rounding to an integer\<close>

definition half_up :: "rat \<Rightarrow> int" where
  "half_up x = (if 0 \<le> x then \<lfloor>x + 1/2\<rfloor> else - \<lfloor>- x + 1/2\<rfloor>)"

definition half_even :: "rat \<Rightarrow> int" where
  "half_even x = (let f = \<lfloor>x\<rfloor>; r = x - of_int f in
     if r < 1/2 then f else if r > 1/2 then f + 1 else if even f then f else f + 1)"

text \<open>\<open>Math.round\<close>: ties go up.\<close>

definition math_round :: "rat \<Rightarrow> int" where
  "math_round x = \<lfloor>x + 1/2\<rfloor>"

lemma floor_rat_numeral [simp]:
  "\<lfloor>numeral a / numeral b :: rat\<rfloor> = numeral a div numeral b"
  "\<lfloor>- (numeral a / numeral b) :: rat\<rfloor> = - numeral a div numeral b"
  "\<lfloor>1 / numeral b :: rat\<rfloor> = 1 div numeral b"
  using floor_divide_of_int_eq [of "numeral a" "numeral b", where ?'a = rat]
    floor_divide_of_int_eq [of "- numeral a" "numeral b", where ?'a = rat]
    floor_divide_of_int_eq [of "1" "numeral b", where ?'a = rat]
  by simp_all

locale tie_rule =
  fixes rd :: "rat \<Rightarrow> int"
  assumes rd_int: "rd (of_int n) = n"
    and rd_mono: "x \<le> y \<Longrightarrow> rd x \<le> rd y"
    and rd_minus: "rd (- x) = - rd x"
    and rd_near: "\<bar>of_int (rd x) - x\<bar> \<le> 1/2"

lemma half_up_near: "\<bar>of_int (half_up x) - x\<bar> \<le> 1/2"
proof (cases "0 \<le> x")
  case True
  then show ?thesis unfolding half_up_def abs_le_iff by simp linarith
next
  case False
  then show ?thesis unfolding half_up_def abs_le_iff by simp linarith
qed

lemma half_up_mono: "x \<le> y \<Longrightarrow> half_up x \<le> half_up y"
proof (cases "0 \<le> x \<or> y < 0")
  case True
  assume "x \<le> y"
  then have "\<lfloor>x + 1/2\<rfloor> \<le> \<lfloor>y + 1/2\<rfloor>" "\<lfloor>- y + 1/2\<rfloor> \<le> \<lfloor>- x + 1/2\<rfloor>"
    by (auto intro!: floor_mono)
  then show ?thesis
    using True \<open>x \<le> y\<close> by (auto simp: half_up_def)
next
  case False
  then have "0 \<le> \<lfloor>- x + 1/2\<rfloor>" "0 \<le> \<lfloor>y + 1/2\<rfloor>"
    by simp_all
  then have "- \<lfloor>- x + 1/2\<rfloor> \<le> \<lfloor>y + 1/2\<rfloor>"
    by linarith
  with False show ?thesis
    by (simp only: half_up_def) auto
qed

lemma half_even_near: "\<bar>of_int (half_even x) - x\<bar> \<le> 1/2"
proof -
  have "of_int \<lfloor>x\<rfloor> \<le> x" "x < of_int \<lfloor>x\<rfloor> + 1" by linarith+
  then show ?thesis
    unfolding half_even_def Let_def abs_le_iff by (simp split: if_splits) linarith
qed

lemma half_even_bounds: "\<lfloor>x\<rfloor> \<le> half_even x \<and> half_even x \<le> \<lfloor>x\<rfloor> + 1"
  by (simp add: half_even_def Let_def)

lemma half_even_mono: "x \<le> y \<Longrightarrow> half_even x \<le> half_even y"
proof -
  assume "x \<le> y"
  then have "\<lfloor>x\<rfloor> \<le> \<lfloor>y\<rfloor>" by (rule floor_mono)
  then consider "\<lfloor>x\<rfloor> = \<lfloor>y\<rfloor>" | "\<lfloor>x\<rfloor> + 1 \<le> \<lfloor>y\<rfloor>" by linarith
  then show ?thesis
  proof cases
    case 1
    with \<open>x \<le> y\<close> show ?thesis
      by (auto simp: half_even_def Let_def)
  next
    case 2
    then show ?thesis
      using half_even_bounds [of x] half_even_bounds [of y] by linarith
  qed
qed

lemma half_even_minus: "half_even (- x) = - half_even x"
proof (cases "x = of_int \<lfloor>x\<rfloor>")
  case True
  then obtain n where n: "x = of_int n" by blast
  have "half_even (of_int m) = m" for m :: int
    by (simp add: half_even_def)
  from this [of n] this [of "- n"] n show ?thesis by simp
next
  case False
  then have f: "\<lfloor>- x\<rfloor> = - \<lfloor>x\<rfloor> - 1"
    by linarith
  have "\<lfloor>x\<rfloor> + 1 = \<lceil>x\<rceil>" using False by linarith
  then show ?thesis
    by (auto simp: half_even_def Let_def f)
qed

interpretation half_up: tie_rule half_up
proof
  show "half_up (of_int n) = n" for n
    by (auto simp: half_up_def floor_eq_iff)
  show "half_up (- x) = - half_up x" for x
    by (cases x "0 :: rat" rule: linorder_cases) (simp_all add: half_up_def)
qed (fact half_up_mono half_up_near)+

interpretation half_even: tie_rule half_even
proof
  show "half_even (of_int n) = n" for n
    by (simp add: half_even_def)
qed (fact half_even_mono half_even_near half_even_minus)+

section \<open>Rounding to decimal places\<close>

text \<open>
  \<open>toDecimalPlaces(d, ROUND_HALF_UP)\<close> of the decimal library: the nearest multiple of
  \<open>10 ^ -d\<close>, ties away from zero.
\<close>

definition toDecimalPlaces :: "nat \<Rightarrow> rat \<Rightarrow> rat" where
  "toDecimalPlaces d x = of_int (half_up (x * 10 ^ d)) / 10 ^ d"

definition is_multiple :: "nat \<Rightarrow> rat \<Rightarrow> bool" where
  "is_multiple d x \<longleftrightarrow> of_int \<lfloor>x * 10 ^ d\<rfloor> = x * 10 ^ d"

lemma is_multipleI: "x = of_int n / 10 ^ d \<Longrightarrow> is_multiple d x"
  by (simp add: is_multiple_def)

lemma is_multipleE:
  assumes "is_multiple d x"
  obtains n where "x = of_int n / 10 ^ d"
proof -
  have "of_int \<lfloor>x * 10 ^ d\<rfloor> = x * 10 ^ d"
    using assms unfolding is_multiple_def .
  then have "x = of_int \<lfloor>x * 10 ^ d\<rfloor> / 10 ^ d"
    by (simp only: nonzero_eq_divide_eq power_eq_0_iff) simp
  then show ?thesis by (rule that)
qed

lemma is_multiple_places [simp]: "is_multiple d (toDecimalPlaces d x)"
  by (rule is_multipleI) (simp add: toDecimalPlaces_def)

lemma is_multiple_0 [simp]: "is_multiple d 0"
  by (simp add: is_multiple_def)

lemma is_multiple_add: "is_multiple d x \<Longrightarrow> is_multiple d y \<Longrightarrow> is_multiple d (x + y)"
  by (elim is_multipleE, rule_tac n = "n + na" in is_multipleI) (simp add: add_divide_distrib)

lemma is_multiple_minus: "is_multiple d x \<Longrightarrow> is_multiple d (- x)"
  by (elim is_multipleE, rule_tac n = "- n" in is_multipleI) simp

lemma is_multiple_diff: "is_multiple d x \<Longrightarrow> is_multiple d y \<Longrightarrow> is_multiple d (x - y)"
  using is_multiple_add [of d x "- y"] is_multiple_minus by auto

lemma places_id: "is_multiple d x \<Longrightarrow> toDecimalPlaces d x = x"
  by (elim is_multipleE) (simp add: toDecimalPlaces_def half_up.rd_int)

lemma places_idem [simp]: "toDecimalPlaces d (toDecimalPlaces d x) = toDecimalPlaces d x"
  by (rule places_id) simp

lemma places_0 [simp]: "toDecimalPlaces d 0 = 0"
  by (rule places_id) simp

lemma places_mono: "x \<le> y \<Longrightarrow> toDecimalPlaces d x \<le> toDecimalPlaces d y"
  by (simp add: toDecimalPlaces_def divide_right_mono half_up_mono)

lemma places_minus: "toDecimalPlaces d (- x) = - toDecimalPlaces d x"
  using half_up.rd_minus [of "x * 10 ^ d"] by (simp add: toDecimalPlaces_def)

lemma places_nonneg: "0 \<le> x \<Longrightarrow> 0 \<le> toDecimalPlaces d x"
  using places_mono [of 0 x d] by simp

lemma abs_diff_scaled: "0 < (t :: rat) \<Longrightarrow> \<bar>a - x * t\<bar> / t = \<bar>a / t - x\<bar>"
proof -
  assume t: "0 < t"
  then have "a / t - x = (a - x * t) / t" by (simp add: field_simps)
  with t show ?thesis by (simp add: abs_divide)
qed

lemma places_near: "\<bar>toDecimalPlaces d x - x\<bar> \<le> 1 / (2 * 10 ^ d)"
proof -
  have "\<bar>of_int (half_up (x * 10 ^ d)) - x * 10 ^ d\<bar> / 10 ^ d \<le> 1/2 / (10 ^ d :: rat)"
    by (intro divide_right_mono half_up.rd_near) simp
  also have "\<bar>of_int (half_up (x * 10 ^ d)) - x * 10 ^ d\<bar> / 10 ^ d
      = \<bar>toDecimalPlaces d x - x\<bar>"
    unfolding toDecimalPlaces_def by (rule abs_diff_scaled) simp
  finally show ?thesis by (simp add: mult.commute)
qed

section \<open>Rounding to significant digits\<close>

text \<open>\<open>expo b x\<close> is the exponent of the leading digit of \<open>x\<close> in base \<open>b\<close>.\<close>

definition expo :: "nat \<Rightarrow> rat \<Rightarrow> int" where
  "expo b x = (if 1 \<le> \<bar>x\<bar> then int (floorlog b (nat \<lfloor>\<bar>x\<bar>\<rfloor>)) - 1
               else - int (floorlog b (nat (\<lceil>1 / \<bar>x\<bar>\<rceil> - 1))))"

definition round_sig :: "(rat \<Rightarrow> int) \<Rightarrow> nat \<Rightarrow> nat \<Rightarrow> rat \<Rightarrow> rat" where
  "round_sig rd b p x = (if x = 0 then 0 else
     (let u = of_nat b powi (expo b x - int p + 1) in of_int (rd (x / u)) * u))"

lemma floorlog_le: "1 < b \<Longrightarrow> 0 < n \<Longrightarrow> b ^ (floorlog b n - 1) \<le> n"
  using floorlog_bounds [of n b] by simp

lemma floorlog_gt: "1 < b \<Longrightarrow> n < b ^ floorlog b n"
  using floorlog_bounds [of n b] by (cases "n = 0") (simp_all add: floorlog_def)

lemma powi_diff_nat: "(b :: rat) \<noteq> 0 \<Longrightarrow> b powi (int m - int n) = b ^ m / b ^ n"
  by (simp add: power_int_diff)

lemma expo_bounds_ge1:
  assumes b: "1 < b" and x: "1 \<le> \<bar>x\<bar>"
  shows "of_nat b powi expo b x \<le> \<bar>x\<bar> \<and> \<bar>x\<bar> < of_nat b powi (expo b x + 1)"
proof -
  let ?n = "nat \<lfloor>\<bar>x\<bar>\<rfloor>"
  have n: "0 < ?n" "of_nat ?n \<le> \<bar>x\<bar>" "\<bar>x\<bar> < of_nat ?n + 1"
    using x by (simp_all, linarith+)
  obtain k where k: "floorlog b ?n = Suc k"
    using floorlog_gt [OF b, of ?n] n(1) by (cases "floorlog b ?n") auto
  have e: "expo b x = int k"
    using x k by (simp add: expo_def)
  have "(of_nat (b ^ k) :: rat) \<le> of_nat ?n"
    using floorlog_le [OF b n(1)] k by (subst of_nat_le_iff) simp
  moreover have "(of_nat (Suc ?n) :: rat) \<le> of_nat (b ^ Suc k)"
    using floorlog_gt [OF b, of ?n] k by (subst of_nat_le_iff) simp
  ultimately have "of_nat (b ^ k) \<le> \<bar>x\<bar>" "\<bar>x\<bar> < of_nat (b ^ Suc k)"
    using n(2,3) by (linarith, simp only: of_nat_Suc)
  then show ?thesis
    using b by (simp add: e power_int_add mult.commute)
qed

lemma expo_bounds_lt1:
  assumes b: "1 < b" and x: "\<bar>x\<bar> < 1" "x \<noteq> 0"
  shows "of_nat b powi expo b x \<le> \<bar>x\<bar> \<and> \<bar>x\<bar> < of_nat b powi (expo b x + 1)"
proof -
  let ?y = "1 / \<bar>x\<bar>" and ?n = "nat (\<lceil>1 / \<bar>x\<bar>\<rceil> - 1)"
  have y: "1 < ?y" using x by simp
  then have n: "0 < ?n" "of_nat ?n < ?y" "?y \<le> of_nat ?n + 1"
    by (simp_all, linarith+)
  obtain k where k: "floorlog b ?n = Suc k"
    using floorlog_gt [OF b, of ?n] n(1) by (cases "floorlog b ?n") auto
  have e: "expo b x = - int (Suc k)"
    using x k by (simp add: expo_def)
  have "(of_nat (b ^ k) :: rat) \<le> of_nat ?n"
    using floorlog_le [OF b n(1)] k by (subst of_nat_le_iff) simp
  moreover have "(of_nat (Suc ?n) :: rat) \<le> of_nat (b ^ Suc k)"
    using floorlog_gt [OF b, of ?n] k by (subst of_nat_le_iff) simp
  ultimately have "of_nat (b ^ k) < ?y" "?y \<le> of_nat (b ^ Suc k)"
    using n(2,3) by (linarith, simp only: of_nat_Suc)
  then have "\<bar>x\<bar> < 1 / of_nat b ^ k" "1 / of_nat b ^ Suc k \<le> \<bar>x\<bar>"
    using x b by (simp_all add: field_simps)
  moreover have "(of_nat b :: rat) powi (expo b x + 1) = 1 / of_nat b ^ k"
    using b by (simp add: e power_int_minus divide_inverse)
  moreover have "(of_nat b :: rat) powi expo b x = 1 / of_nat b ^ Suc k"
    unfolding e power_int_minus power_int_of_nat by (simp add: divide_inverse)
  ultimately show ?thesis by simp
qed

lemma expo_bounds:
  "1 < b \<Longrightarrow> x \<noteq> 0 \<Longrightarrow>
   of_nat b powi expo b x \<le> \<bar>x\<bar> \<and> \<bar>x\<bar> < of_nat b powi (expo b x + 1)"
  by (cases "1 \<le> \<bar>x\<bar>") (simp_all add: expo_bounds_ge1 expo_bounds_lt1)

definition representable :: "nat \<Rightarrow> nat \<Rightarrow> rat \<Rightarrow> bool" where
  "representable b p x \<longleftrightarrow> (\<exists>m e. x = of_int m * of_nat b powi e \<and> \<bar>m\<bar> < int b ^ p)"

lemma powi_le_mono: "1 < b \<Longrightarrow> i \<le> j \<Longrightarrow> (of_nat b :: rat) powi i \<le> of_nat b powi j"
  by (rule power_int_increasing) simp_all

lemma powi_less_imp: "1 < b \<Longrightarrow> (of_nat b :: rat) powi i < of_nat b powi j \<Longrightarrow> i < j"
  using powi_le_mono [of b j i] by linarith

lemma scaled_powi_int:
  assumes "1 < b" "j \<le> i"
  shows "of_int m * (of_nat b :: rat) powi i / of_nat b powi j = of_int (m * int b ^ nat (i - j))"
proof -
  have "(of_nat b :: rat) powi i / of_nat b powi j = of_nat b powi (i - j)"
    using assms by (simp add: power_int_diff)
  also have "\<dots> = of_nat b ^ nat (i - j)"
    using assms by (simp add: power_int_def)
  finally show ?thesis by (simp flip: times_divide_eq_right)
qed

context tie_rule
begin

lemma rd_0 [simp]: "rd 0 = 0"
  using rd_int [of 0] by simp

lemma rd_nonneg: "0 \<le> x \<Longrightarrow> 0 \<le> rd x"
  using rd_mono [of 0 x] by simp

lemma sig_0 [simp]: "round_sig rd b p 0 = 0"
  by (simp add: round_sig_def)

lemma sig_minus: "round_sig rd b p (- x) = - round_sig rd b p x"
  by (simp add: round_sig_def expo_def Let_def rd_minus)

lemma sig_nonneg: "0 \<le> x \<Longrightarrow> 0 \<le> round_sig rd b p x"
  by (auto simp: round_sig_def Let_def intro!: mult_nonneg_nonneg rd_nonneg divide_nonneg_nonneg)

lemma sig_exact:
  assumes b: "1 < b" and "representable b p x"
  shows "round_sig rd b p x = x"
proof (cases "x = 0")
  case False
  obtain m e where x: "x = of_int m * of_nat b powi e" and m: "\<bar>m\<bar> < int b ^ p"
    using assms(2) unfolding representable_def by blast
  have p: "0 < (of_nat b :: rat) powi e" using b by simp
  have "\<bar>x\<bar> = of_int \<bar>m\<bar> * of_nat b powi e"
    using p by (simp add: x abs_mult)
  also have "\<dots> < of_int (int b ^ p) * of_nat b powi e"
    using m p by (simp only: mult_less_cancel_right of_int_less_iff) simp
  also have "\<dots> = of_nat b powi (int p + e)"
    using b by (simp add: power_int_add)
  finally have "of_nat b powi expo b x < (of_nat b :: rat) powi (int p + e)"
    using expo_bounds [OF b False] by linarith
  then have le: "expo b x - int p + 1 \<le> e"
    using powi_less_imp [OF b] by fastforce
  have "x / of_nat b powi (expo b x - int p + 1) =
      of_int (m * int b ^ nat (e - (expo b x - int p + 1)))" (is "_ = of_int ?k")
    unfolding x [symmetric] by (subst x, rule scaled_powi_int [OF b le])
  moreover from this have "x = of_int ?k * of_nat b powi (expo b x - int p + 1)"
    using b by (simp only: divide_eq_eq) simp
  ultimately show ?thesis
    using False by (simp add: round_sig_def Let_def rd_int del: of_int_mult)
qed simp

lemma sig_representable:
  assumes b: "1 < b" and p: "1 \<le> p"
  shows "representable b p (round_sig rd b p x)"
proof (cases "x = 0")
  case True
  then show ?thesis
    using b by (auto simp: representable_def intro!: exI [of _ "0 :: int"])
next
  case False
  define u where "u = (of_nat b :: rat) powi (expo b x - int p + 1)"
  have u: "0 < u" using b by (simp add: u_def)
  have up: "of_nat b powi (expo b x + 1) = of_int (int b ^ p) * u"
    using b by (simp add: u_def flip: power_int_of_nat power_int_add)
  have "\<bar>x / u\<bar> \<le> of_int (int b ^ p)"
    using expo_bounds [OF b False] u by (simp add: abs_divide up pos_divide_le_eq)
  then have "x / u \<le> of_int (int b ^ p)" "of_int (- (int b ^ p)) \<le> x / u"
    unfolding of_int_minus by linarith+
  from rd_mono [OF this(1)] rd_mono [OF this(2)]
  have "rd (x / u) \<le> int b ^ p" "- (int b ^ p) \<le> rd (x / u)"
    by (simp_all only: rd_int)
  then consider "\<bar>rd (x / u)\<bar> < int b ^ p" | "\<bar>rd (x / u)\<bar> = int b ^ p" by linarith
  then show ?thesis
  proof cases
    case 1
    then show ?thesis
      using False by (auto simp: representable_def round_sig_def Let_def u_def)
  next
    case 2
    define s where "s = sgn (rd (x / u))"
    have "rd (x / u) = s * int b ^ p"
      using 2 by (metis mult.commute mult_sgn_abs s_def)
    then have "round_sig rd b p x = of_int s * of_nat b powi (expo b x + 1)"
      using False by (simp add: round_sig_def Let_def u_def [symmetric] up)
    moreover have "\<bar>s\<bar> < int b ^ p"
    proof -
      have "1 < int b ^ p" using b p by (intro one_less_power) simp_all
      moreover have "\<bar>s\<bar> \<le> 1" by (simp add: s_def sgn_if)
      ultimately show ?thesis by linarith
    qed
    ultimately show ?thesis
      unfolding representable_def by blast
  qed
qed

lemma sig_idem: "1 < b \<Longrightarrow> 1 \<le> p \<Longrightarrow> round_sig rd b p (round_sig rd b p x) = round_sig rd b p x"
  by (simp add: sig_exact sig_representable)

lemma sig_mono_pos:
  assumes b: "1 < b" and p: "1 \<le> p" and x: "0 < x" "x \<le> y"
  shows "round_sig rd b p x \<le> round_sig rd b p y"
proof -
  define u where "u z = (of_nat b :: rat) powi (expo b z - int p + 1)" for z
  have u: "0 < u z" for z using b by (simp add: u_def)
  have y: "0 < y" using x by simp
  have bx: "of_nat b powi expo b x \<le> x" "x < of_nat b powi (expo b x + 1)"
    and y1: "of_nat b powi expo b y \<le> y" "y < of_nat b powi (expo b y + 1)"
    using expo_bounds [OF b, of x] expo_bounds [OF b, of y] x y by simp_all
  have rx: "round_sig rd b p x = of_int (rd (x / u x)) * u x"
    and ry: "round_sig rd b p y = of_int (rd (y / u y)) * u y"
    using x y by (simp_all add: round_sig_def u_def Let_def)
  have ex: "expo b x \<le> expo b y"
  proof -
    have "of_nat b powi expo b x < (of_nat b :: rat) powi (expo b y + 1)"
      using bx(1) y1(2) x by linarith
    then show ?thesis using powi_less_imp [OF b] by fastforce
  qed
  show ?thesis
  proof (cases "expo b x = expo b y")
    case True
    then have "u x = u y" by (simp add: u_def)
    moreover have "rd (x / u y) \<le> rd (y / u y)"
      using x u [of y] by (intro rd_mono divide_right_mono) simp_all
    ultimately show ?thesis
      unfolding rx ry using u [of y] by (simp add: mult_right_mono)
  next
    case False
    have int: "of_nat b powi (expo b z + int k) / u z = of_int (int b ^ (k + p - 1))" for z k
      using scaled_powi_int [OF b, of "expo b z - int p + 1" "expo b z + int k" 1] p
      by (simp add: u_def nat_add_distrib nat_diff_distrib algebra_simps)
    have "x / u x \<le> of_nat b powi (expo b x + 1) / u x"
      using bx(2) u [of x] by (intro divide_right_mono) simp_all
    also have "\<dots> = of_int (int b ^ p)"
      using int [of x 1] by simp
    finally have "x / u x \<le> of_int (int b ^ p)" .
    then have "rd (x / u x) \<le> int b ^ p"
      using rd_mono rd_int by metis
    then have "of_int (rd (x / u x)) * u x \<le> of_int (int b ^ p) * u x"
      using u [of x] by (intro mult_right_mono) (simp_all only: of_int_le_iff less_imp_le)
    also have "\<dots> = of_nat b powi (expo b x + 1)"
      using int [of x 1] u [of x] by (simp add: field_simps)
    also have "\<dots> \<le> of_nat b powi expo b y"
      using False ex by (intro powi_le_mono [OF b]) simp
    also have "\<dots> = of_int (int b ^ (p - 1)) * u y"
      using int [of y 0] u [of y] by (simp add: field_simps)
    also have "\<dots> \<le> of_int (rd (y / u y)) * u y"
    proof -
      have "of_nat b powi (expo b y) / u y \<le> y / u y"
        using y1(1) u [of y] by (intro divide_right_mono) simp_all
      then have "of_int (int b ^ (p - 1)) \<le> y / u y"
        using int [of y 0] by simp
      then have "int b ^ (p - 1) \<le> rd (y / u y)"
        using rd_mono rd_int by metis
      then show ?thesis
        using u [of y] by (intro mult_right_mono) (simp_all only: of_int_le_iff less_imp_le)
    qed
    finally show ?thesis unfolding rx ry .
  qed
qed

lemma sig_mono:
  assumes "1 < b" "1 \<le> p" "x \<le> y"
  shows "round_sig rd b p x \<le> round_sig rd b p y"
proof -
  consider "0 < x" | "y < 0" | "x \<le> 0" "0 \<le> y" by linarith
  then show ?thesis
  proof cases
    case 2
    then show ?thesis
      using sig_mono_pos [of b p "- y" "- x"] assms by (simp add: sig_minus)
  next
    case 3
    then show ?thesis
      using sig_nonneg [of "- x" b p] sig_nonneg [of y b p] by (simp add: sig_minus)
  qed (use assms sig_mono_pos in auto)
qed

end

section \<open>The decimal library and doubles\<close>

text \<open>
  \<open>Prisma.Decimal\<close> is code this repository only imports. The model takes the rounding of
  its operations as a parameter \<open>rnd\<close>; the locale states what its documentation promises:
  a result of at most 20 significant digits is exact, and rounding is monotone and symmetric.
\<close>

locale decimal_lib =
  fixes rnd :: "rat \<Rightarrow> rat"
  assumes rnd_exact: "representable 10 20 x \<Longrightarrow> rnd x = x"
    and rnd_mono: "x \<le> y \<Longrightarrow> rnd x \<le> rnd y"
    and rnd_minus: "rnd (- x) = - rnd x"
    and rnd_rnd: "rnd (rnd x) = rnd x"

context decimal_lib
begin

lemma rnd_multiple:
  assumes "is_multiple d x" "\<bar>x\<bar> * 10 ^ d < 10 ^ 20"
  shows "rnd x = x"
proof (rule rnd_exact)
  obtain n where n: "x = of_int n / 10 ^ d" using assms(1) by (rule is_multipleE)
  then have "(of_int \<bar>n\<bar> :: rat) < of_int (10 ^ 20)"
    using assms(2) by (simp add: abs_divide)
  then have "\<bar>n\<bar> < 10 ^ 20" by (simp only: of_int_less_iff)
  moreover have "x = of_int n * of_nat 10 powi (- int d)"
    by (simp add: n power_int_minus divide_inverse)
  ultimately show "representable 10 20 x"
    unfolding representable_def by (intro exI [of _ n] exI [of _ "- int d"]) simp
qed

lemma rnd_0 [simp]: "rnd 0 = 0"
  by (rule rnd_multiple [of 0]) simp_all

lemma rnd_nonneg: "0 \<le> x \<Longrightarrow> 0 \<le> rnd x"
  using rnd_mono [of 0 x] by simp

lemma rnd_cents: "is_multiple 2 x \<Longrightarrow> \<bar>x\<bar> < 10 ^ 18 \<Longrightarrow> rnd x = x"
  by (rule rnd_multiple [of 2]) simp_all

end

definition dec20 :: "rat \<Rightarrow> rat" where
  "dec20 x = round_sig half_up 10 20 x"

interpretation dec20: decimal_lib dec20
  unfolding dec20_def
  by unfold_locales
    (simp_all add: half_up.sig_exact half_up.sig_mono half_up.sig_minus half_up.sig_idem)

lemma dec20_small: "is_multiple 12 x \<Longrightarrow> \<bar>x\<bar> < 10 ^ 8 \<Longrightarrow> dec20 x = x"
  by (rule dec20.rnd_multiple [of 12]) simp_all

lemma is_multiple_12:
  "is_multiple 12 x \<longleftrightarrow> of_int \<lfloor>x * 1000000000000\<rfloor> = x * 1000000000000"
  by (simp add: is_multiple_def)

text \<open>The double nearest to a rational.\<close>

definition fl :: "rat \<Rightarrow> rat" where
  "fl x = round_sig half_even 2 53 x"

lemma fl_mono: "x \<le> y \<Longrightarrow> fl x \<le> fl y"
  by (simp add: fl_def half_even.sig_mono)

lemma fl_minus: "fl (- x) = - fl x"
  by (simp add: fl_def half_even.sig_minus)

lemma fl_int: "\<bar>n\<bar> < 2 ^ 53 \<Longrightarrow> fl (of_int n) = of_int n"
proof -
  assume "\<bar>n\<bar> < 2 ^ 53"
  then have "representable 2 53 (of_int n)"
    unfolding representable_def by (intro exI [of _ n] exI [of _ "0 :: int"]) simp
  then show ?thesis unfolding fl_def by (simp add: half_even.sig_exact)
qed

lemma fl_nat: "n < 2 ^ 53 \<Longrightarrow> fl (of_nat n) = of_nat n"
  using fl_int [of "int n"] by simp

lemma fl_0 [simp]: "fl 0 = 0"
  by (simp add: fl_def)

lemma fl_nonneg: "0 \<le> x \<Longrightarrow> 0 \<le> fl x"
  using fl_mono [of 0 x] by simp

lemma math_round_mono: "x \<le> y \<Longrightarrow> math_round x \<le> math_round y"
  by (simp add: math_round_def floor_mono)

lemma math_round_int [simp]: "math_round (of_int n) = n"
  by (simp add: math_round_def floor_eq_iff)

end
