(* ===== verification/Pricing.thy ===== *)
theory Pricing
  imports Rounding
begin

text \<open>
  The freight pricing engine (\<open>pricing/freight-pricing.engine.ts\<close>): package metrics, the
  price components of one option and their total. Amounts, weights and volumes are rationals;
  every arithmetic operation of the decimal library rounds its result by the parameter \<open>rnd\<close>.
  A \<open>Date\<close> is its number of milliseconds.
\<close>

section \<open>Data\<close>

datatype FreightChargeType = FIXED | AD_VALOREM | GRIS | TOLL | INSURANCE | ADDITION | DISCOUNT

datatype FreightPriceComponentType =
    C_BASE | C_MINIMUM_ADJUSTMENT | C_WEIGHT | C_EXCESS_WEIGHT | C_FIXED | C_AD_VALOREM | C_GRIS
  | C_TOLL | C_INSURANCE | C_ADDITION | C_DISCOUNT | C_TOTAL

type_synonym date = int

record PackageInput =
  heightCm :: rat
  lengthCm :: rat
  quantity :: rat
  weightKg :: rat
  widthCm :: rat

record ChargeInput =
  ch_fixedAmount :: "rat option"
  ch_name :: string
  ch_percentage :: "rat option"
  ch_type :: FreightChargeType

record RateInput =
  basePrice :: rat
  deadlineDays :: int
  excessPricePerKg :: "rat option"
  maxWeightKg :: rat
  minWeightKg :: rat
  pricePerKg :: rat

record FreightCalculationInput =
  in_cargoValue :: rat
  in_charges :: "ChargeInput list"
  in_cubicFactor :: rat
  in_desiredShipDate :: date
  in_distanceKm :: "rat option"
  in_minimumValue :: rat
  in_packages :: "PackageInput list"
  in_rate :: RateInput

record PriceComponent =
  pc_amount :: rat
  pc_label :: string
  pc_sortOrder :: nat
  pc_type :: FreightPriceComponentType

record PackageMetrics =
  m_cubicWeightKg :: rat
  m_realWeightKg :: rat
  m_totalVolumeM3 :: rat

record FreightCalculationResult =
  res_chargeableWeightKg :: rat
  res_components :: "PriceComponent list"
  res_cubicWeightKg :: rat
  res_deadlineDays :: int
  res_estimatedDeliveryAt :: date
  res_realWeightKg :: rat
  res_totalPrice :: rat
  res_totalVolumeM3 :: rat

section \<open>Operations\<close>

definition scale :: "rat \<Rightarrow> nat \<Rightarrow> rat" where
  "scale v decimals = toDecimalPlaces decimals v"

definition money :: "rat \<Rightarrow> rat" where
  "money v = scale v 2"

definition volume_of :: "(rat \<Rightarrow> rat) \<Rightarrow> PackageInput \<Rightarrow> rat" where
  "volume_of rnd item =
     rnd (rnd (rnd (rnd (lengthCm item / 100) * rnd (widthCm item / 100))
               * rnd (heightCm item / 100)) * quantity item)"

fun packages_loop :: "(rat \<Rightarrow> rat) \<Rightarrow> PackageInput list \<Rightarrow> rat \<Rightarrow> rat \<Rightarrow> rat \<times> rat" where
  "packages_loop rnd [] realWeight totalVolume = (realWeight, totalVolume)"
| "packages_loop rnd (item # rest) realWeight totalVolume =
     packages_loop rnd rest
       (rnd (realWeight + rnd (weightKg item * quantity item)))
       (rnd (totalVolume + volume_of rnd item))"

definition calculatePackageMetrics ::
  "(rat \<Rightarrow> rat) \<Rightarrow> PackageInput list \<Rightarrow> rat \<Rightarrow> PackageMetrics" where
  "calculatePackageMetrics rnd packages cubicFactor =
     (let (realWeight, totalVolume) = packages_loop rnd packages 0 0 in
      \<lparr> m_cubicWeightKg = scale (rnd (totalVolume * cubicFactor)) 3,
        m_realWeightKg = scale realWeight 3,
        m_totalVolumeM3 = scale totalVolume 6 \<rparr>)"

definition calculateChargeAmount :: "(rat \<Rightarrow> rat) \<Rightarrow> ChargeInput \<Rightarrow> rat \<Rightarrow> rat \<Rightarrow> rat" where
  "calculateChargeAmount rnd charge cargoValue subtotal =
     (let fixed = coalesce (ch_fixedAmount charge) 0;
          percentage = coalesce (ch_percentage charge) 0;
          basis = (if ch_type charge = AD_VALOREM \<or> ch_type charge = INSURANCE
                   then cargoValue else subtotal);
          percentageAmount = rnd (basis * percentage);
          amount = money (rnd (fixed + percentageAmount))
      in if ch_type charge = DISCOUNT then - amount else amount)"

definition component :: "FreightPriceComponentType \<Rightarrow> string \<Rightarrow> rat \<Rightarrow> nat \<Rightarrow> PriceComponent" where
  "component ty label amount sortOrder =
     \<lparr> pc_amount = money amount, pc_label = label, pc_sortOrder = sortOrder, pc_type = ty \<rparr>"

fun componentSort :: "FreightChargeType \<Rightarrow> nat" where
  "componentSort FIXED = 40"
| "componentSort AD_VALOREM = 50"
| "componentSort GRIS = 60"
| "componentSort TOLL = 70"
| "componentSort INSURANCE = 80"
| "componentSort ADDITION = 90"
| "componentSort DISCOUNT = 100"

fun toComponentType :: "FreightChargeType \<Rightarrow> FreightPriceComponentType" where
  "toComponentType FIXED = C_FIXED"
| "toComponentType AD_VALOREM = C_AD_VALOREM"
| "toComponentType GRIS = C_GRIS"
| "toComponentType TOLL = C_TOLL"
| "toComponentType INSURANCE = C_INSURANCE"
| "toComponentType ADDITION = C_ADDITION"
| "toComponentType DISCOUNT = C_DISCOUNT"

definition sumComponents :: "(rat \<Rightarrow> rat) \<Rightarrow> PriceComponent list \<Rightarrow> rat" where
  "sumComponents rnd components =
     money (foldl (\<lambda>total item. rnd (total + pc_amount item)) 0 components)"

definition maxDecimal :: "rat \<Rightarrow> rat \<Rightarrow> rat" where
  "maxDecimal left right = (if left > right then left else right)"

text \<open>\<open>setUTCDate(getUTCDate() + days)\<close> moves a date by whole days of 86400000 ms.\<close>

definition addDays :: "date \<Rightarrow> int \<Rightarrow> date" where
  "addDays date days = date + days * 86400000"

fun charges_loop ::
  "(rat \<Rightarrow> rat) \<Rightarrow> rat \<Rightarrow> rat \<Rightarrow> ChargeInput list \<Rightarrow> PriceComponent list \<Rightarrow> PriceComponent list"
where
  "charges_loop rnd cargoValue subtotal [] components = components"
| "charges_loop rnd cargoValue subtotal (charge # rest) components =
     (let amount = calculateChargeAmount rnd charge cargoValue subtotal in
      if amount = 0 then charges_loop rnd cargoValue subtotal rest components
      else charges_loop rnd cargoValue subtotal rest
             (components @ [component (toComponentType (ch_type charge)) (ch_name charge) amount
                              (componentSort (ch_type charge))]))"

text \<open>The components before the charges: base price, weight, adjustment to the minimum.\<close>

definition base_components :: "(rat \<Rightarrow> rat) \<Rightarrow> RateInput \<Rightarrow> rat \<Rightarrow> PriceComponent list" where
  "base_components rnd rate chargeableWeight =
     (let base = money (basePrice rate);
          components = [component C_BASE ''Frete base'' base 10];
          extraWeight = max (rnd (chargeableWeight - minWeightKg rate)) 0
      in if extraWeight > 0
         then components @ [component C_WEIGHT ''Peso cobrado''
                              (money (rnd (extraWeight * pricePerKg rate))) 20]
         else components)"

definition adjust_to_minimum ::
  "(rat \<Rightarrow> rat) \<Rightarrow> rat \<Rightarrow> PriceComponent list \<Rightarrow> PriceComponent list \<times> rat" where
  "adjust_to_minimum rnd minimumValue components =
     (let subtotal = sumComponents rnd components in
      if subtotal < minimumValue
      then (components @ [component C_MINIMUM_ADJUSTMENT ''Ajuste ao valor minimo''
                            (rnd (minimumValue - subtotal)) 30], minimumValue)
      else (components, subtotal))"

definition calculate ::
  "(rat \<Rightarrow> rat) \<Rightarrow> FreightCalculationInput \<Rightarrow> FreightCalculationResult" where
  "calculate rnd i =
     (let metrics = calculatePackageMetrics rnd (in_packages i) (in_cubicFactor i);
          minimumValue = money (in_minimumValue i);
          chargeableWeight = maxDecimal (m_realWeightKg metrics) (m_cubicWeightKg metrics);
          (components0, subtotal) =
            adjust_to_minimum rnd minimumValue (base_components rnd (in_rate i) chargeableWeight);
          components1 = charges_loop rnd (in_cargoValue i) subtotal (in_charges i) components0;
          total = sumComponents rnd components1
      in \<lparr> res_chargeableWeightKg = scale chargeableWeight 3,
           res_components = components1 @ [component C_TOTAL ''Total'' total 999],
           res_cubicWeightKg = scale (m_cubicWeightKg metrics) 3,
           res_deadlineDays = deadlineDays (in_rate i),
           res_estimatedDeliveryAt = addDays (in_desiredShipDate i) (deadlineDays (in_rate i)),
           res_realWeightKg = scale (m_realWeightKg metrics) 3,
           res_totalPrice = total,
           res_totalVolumeM3 = scale (m_totalVolumeM3 metrics) 6 \<rparr>)"

section \<open>Sums of components\<close>

definition amounts :: "PriceComponent list \<Rightarrow> rat" where
  "amounts cs = (\<Sum>c \<leftarrow> cs. pc_amount c)"

definition abs_amounts :: "PriceComponent list \<Rightarrow> rat" where
  "abs_amounts cs = (\<Sum>c \<leftarrow> cs. \<bar>pc_amount c\<bar>)"

definition in_cents :: "PriceComponent list \<Rightarrow> bool" where
  "in_cents cs \<longleftrightarrow> (\<forall>c \<in> set cs. is_multiple 2 (pc_amount c))"

lemma amounts_simps [simp]:
  "amounts [] = 0" "amounts (c # cs) = pc_amount c + amounts cs"
  "amounts (cs @ ds) = amounts cs + amounts ds"
  by (simp_all add: amounts_def)

lemma abs_amounts_simps [simp]:
  "abs_amounts [] = 0" "abs_amounts (c # cs) = \<bar>pc_amount c\<bar> + abs_amounts cs"
  "abs_amounts (cs @ ds) = abs_amounts cs + abs_amounts ds"
  by (simp_all add: abs_amounts_def)

lemma in_cents_simps [simp]:
  "in_cents []" "in_cents (c # cs) \<longleftrightarrow> is_multiple 2 (pc_amount c) \<and> in_cents cs"
  "in_cents (cs @ ds) \<longleftrightarrow> in_cents cs \<and> in_cents ds"
  by (auto simp: in_cents_def)

lemma abs_amounts_nonneg [simp]: "0 \<le> abs_amounts cs"
  by (induction cs) auto

lemma abs_amounts_le: "\<bar>amounts cs\<bar> \<le> abs_amounts cs"
  by (induction cs) auto

lemma amounts_cents: "in_cents cs \<Longrightarrow> is_multiple 2 (amounts cs)"
  by (induction cs) (auto simp: is_multiple_add)

lemma money_cents [simp]: "is_multiple 2 (money v)"
  by (simp add: money_def scale_def)

lemma money_id: "is_multiple 2 v \<Longrightarrow> money v = v"
  by (simp add: money_def scale_def places_id)

lemma money_idem [simp]: "money (money v) = money v"
  by (simp add: money_id)

lemma money_mono: "v \<le> w \<Longrightarrow> money v \<le> money w"
  by (simp add: money_def scale_def places_mono)

lemma money_0 [simp]: "money 0 = 0"
  by (simp add: money_def scale_def)

lemma money_nonneg: "0 \<le> v \<Longrightarrow> 0 \<le> money v"
  using money_mono [of 0 v] by simp

lemma component_amount [simp]: "pc_amount (component ty l a s) = money a"
  by (simp add: component_def)

lemma calculateChargeAmount_cents [simp]:
  "is_multiple 2 (calculateChargeAmount rnd c cargo sub)"
  by (simp add: calculateChargeAmount_def Let_def is_multiple_minus)

lemma base_components_cents: "in_cents (base_components rnd rate w)"
  by (simp add: base_components_def Let_def)

lemma adjust_cents: "in_cents cs \<Longrightarrow> in_cents (fst (adjust_to_minimum rnd m cs))"
  by (simp add: adjust_to_minimum_def Let_def)

lemma charges_loop_append:
  "charges_loop rnd cargo sub charges cs = cs @ charges_loop rnd cargo sub charges []"
proof (induction charges arbitrary: cs)
  case (Cons c charges)
  show ?case
    unfolding charges_loop.simps Let_def
    by (subst (1 2 3) Cons.IH) simp
qed simp

lemma charges_loop_cents: "in_cents (charges_loop rnd cargo sub charges [])"
proof (induction charges)
  case (Cons c charges)
  then show ?case
    by (simp add: Let_def) (subst charges_loop_append, simp)
qed simp

lemma charges_loop_amounts:
  "amounts (charges_loop rnd cargo sub charges []) =
     (\<Sum>c \<leftarrow> charges. calculateChargeAmount rnd c cargo sub)"
proof (induction charges)
  case (Cons c charges)
  then show ?case
    by (simp add: Let_def) (subst charges_loop_append, simp add: money_id)
qed simp

context decimal_lib
begin

lemma fold_exact:
  assumes "in_cents cs" "is_multiple 2 acc" "\<bar>acc\<bar> + abs_amounts cs < 10 ^ 18"
  shows "foldl (\<lambda>total item. rnd (total + pc_amount item)) acc cs = acc + amounts cs"
  using assms
proof (induction cs arbitrary: acc)
  case (Cons c cs)
  have "is_multiple 2 (acc + pc_amount c)" using Cons.prems by (simp add: is_multiple_add)
  moreover have bound: "\<bar>acc + pc_amount c\<bar> + abs_amounts cs < 10 ^ 18"
    using Cons.prems(3) by simp
  moreover have "\<bar>acc + pc_amount c\<bar> < 10 ^ 18"
    using bound abs_amounts_nonneg [of cs] by linarith
  ultimately show ?case
    using Cons.prems by (simp add: Cons.IH rnd_cents)
qed simp

lemma sumComponents_exact:
  assumes "in_cents cs" "abs_amounts cs < 10 ^ 18"
  shows "sumComponents rnd cs = amounts cs"
  using assms fold_exact [of cs 0] by (simp add: sumComponents_def money_id amounts_cents)

lemma adjust_exact:
  assumes "in_cents cs" "is_multiple 2 m"
    and "abs_amounts (fst (adjust_to_minimum rnd m cs)) < 10 ^ 18"
  shows "snd (adjust_to_minimum rnd m cs) = max m (amounts cs)"
    and "amounts (fst (adjust_to_minimum rnd m cs)) = max m (amounts cs)"
proof -
  have "abs_amounts cs \<le> abs_amounts (fst (adjust_to_minimum rnd m cs))"
    by (simp add: adjust_to_minimum_def Let_def)
  then have sub: "sumComponents rnd cs = amounts cs"
    using assms by (intro sumComponents_exact) linarith+
  have diff: "is_multiple 2 (m - amounts cs)"
    using assms by (simp add: is_multiple_diff amounts_cents)
  show "snd (adjust_to_minimum rnd m cs) = max m (amounts cs)"
    by (simp add: adjust_to_minimum_def sub Let_def)
  show "amounts (fst (adjust_to_minimum rnd m cs)) = max m (amounts cs)"
  proof (cases "amounts cs < m")
    case True
    have "money (rnd (m - amounts cs)) = rnd (m - amounts cs)" if "rnd (m - amounts cs) = m - amounts cs"
      using that diff by (simp add: money_id)
    moreover have "rnd (m - amounts cs) = m - amounts cs"
    proof (rule rnd_cents [OF diff], rule ccontr)
      assume "\<not> \<bar>m - amounts cs\<bar> < 10 ^ 18"
      then have "10 ^ 18 \<le> m - amounts cs" using True by simp
      then have "rnd (10 ^ 18) \<le> rnd (m - amounts cs)" by (rule rnd_mono)
      then have "money (10 ^ 18) \<le> money (rnd (m - amounts cs))"
        using rnd_multiple [of 0 "10 ^ 18"] by (intro money_mono) (simp add: is_multiple_def)
      moreover have "money (10 ^ 18) = 10 ^ 18"
        by (rule money_id) (simp add: is_multiple_def)
      ultimately show False
        using assms(3) True abs_amounts_nonneg [of cs]
        by (simp add: adjust_to_minimum_def sub Let_def)
    qed
    ultimately show ?thesis
      using True by (simp add: adjust_to_minimum_def sub Let_def)
  qed (simp add: adjust_to_minimum_def sub Let_def)
qed

end

section \<open>The price formula\<close>

text \<open>
  The abstract specification: a quote is the greater of the minimum value and the weight price,
  plus the charges, each computed on that subtotal or on the cargo value, in exact arithmetic.
\<close>

definition chargeable_weight :: "(rat \<Rightarrow> rat) \<Rightarrow> FreightCalculationInput \<Rightarrow> rat" where
  "chargeable_weight rnd i =
     (let m = calculatePackageMetrics rnd (in_packages i) (in_cubicFactor i)
      in max (m_realWeightKg m) (m_cubicWeightKg m))"

definition weight_price :: "(rat \<Rightarrow> rat) \<Rightarrow> RateInput \<Rightarrow> rat \<Rightarrow> rat" where
  "weight_price rnd rate w =
     money (basePrice rate) + money (rnd (max (rnd (w - minWeightKg rate)) 0 * pricePerKg rate))"

definition quoted_subtotal :: "(rat \<Rightarrow> rat) \<Rightarrow> FreightCalculationInput \<Rightarrow> rat" where
  "quoted_subtotal rnd i =
     max (money (in_minimumValue i)) (weight_price rnd (in_rate i) (chargeable_weight rnd i))"

definition quote :: "(rat \<Rightarrow> rat) \<Rightarrow> FreightCalculationInput \<Rightarrow> rat" where
  "quote rnd i = quoted_subtotal rnd i +
     (\<Sum>c \<leftarrow> in_charges i. calculateChargeAmount rnd c (in_cargoValue i) (quoted_subtotal rnd i))"

text \<open>The components of a result other than the closing total.\<close>

definition parts :: "FreightCalculationResult \<Rightarrow> PriceComponent list" where
  "parts r = butlast (res_components r)"

text \<open>
  A quote is in range when the absolute amounts of its components add up to less than
  \<open>10 ^ 18\<close>: then no sum of cents needs more than 20 digits.
\<close>

definition in_range :: "(rat \<Rightarrow> rat) \<Rightarrow> FreightCalculationInput \<Rightarrow> bool" where
  "in_range rnd i \<longleftrightarrow> abs_amounts (parts (calculate rnd i)) < 10 ^ 18"

definition adjusted ::
  "(rat \<Rightarrow> rat) \<Rightarrow> FreightCalculationInput \<Rightarrow> PriceComponent list \<times> rat" where
  "adjusted rnd i = adjust_to_minimum rnd (money (in_minimumValue i))
     (base_components rnd (in_rate i) (chargeable_weight rnd i))"

lemma maxDecimal_max: "maxDecimal a b = max a b"
  by (simp add: maxDecimal_def max_def)

lemma parts_eq:
  "parts (calculate rnd i) = fst (adjusted rnd i) @
     charges_loop rnd (in_cargoValue i) (snd (adjusted rnd i)) (in_charges i) []"
  by (simp add: parts_def calculate_def adjusted_def chargeable_weight_def maxDecimal_max Let_def
      split: prod.split) (subst charges_loop_append, simp)

lemma total_eq: "res_totalPrice (calculate rnd i) = sumComponents rnd (parts (calculate rnd i))"
  by (simp add: parts_def calculate_def Let_def split: prod.split)

lemma last_total:
  "last (res_components (calculate rnd i)) =
     component C_TOTAL ''Total'' (res_totalPrice (calculate rnd i)) 999"
  by (simp add: calculate_def Let_def split: prod.split)

lemma parts_cents: "in_cents (parts (calculate rnd i))"
  by (simp add: parts_eq adjusted_def adjust_cents base_components_cents charges_loop_cents)

context decimal_lib
begin

lemma base_amounts:
  "amounts (base_components rnd rate w) = weight_price rnd rate w"
  by (auto simp: base_components_def weight_price_def Let_def max_def)

lemma adjusted_exact:
  assumes "in_range rnd i"
  shows "snd (adjusted rnd i) = quoted_subtotal rnd i"
    and "amounts (fst (adjusted rnd i)) = quoted_subtotal rnd i"
proof -
  have "abs_amounts (fst (adjusted rnd i)) < 10 ^ 18"
    using assms abs_amounts_nonneg
      [of "charges_loop rnd (in_cargoValue i) (snd (adjusted rnd i)) (in_charges i) []"]
    by (simp only: in_range_def parts_eq abs_amounts_simps)
  note * = adjust_exact [OF base_components_cents money_cents this [unfolded adjusted_def],
      folded adjusted_def, unfolded base_amounts, folded quoted_subtotal_def]
  show "snd (adjusted rnd i) = quoted_subtotal rnd i"
    and "amounts (fst (adjusted rnd i)) = quoted_subtotal rnd i"
    by (rule *)+
qed

lemma total_amounts:
  "in_range rnd i \<Longrightarrow> res_totalPrice (calculate rnd i) = amounts (parts (calculate rnd i))"
  unfolding total_eq by (rule sumComponents_exact [OF parts_cents]) (simp add: in_range_def)

lemma total_quote: "in_range rnd i \<Longrightarrow> res_totalPrice (calculate rnd i) = quote rnd i"
  by (simp add: total_amounts) (simp add: parts_eq quote_def adjusted_exact charges_loop_amounts)

lemma charge_mono:
  assumes "s \<le> t" "ch_type c \<noteq> DISCOUNT" "0 \<le> coalesce (ch_percentage c) 0"
  shows "calculateChargeAmount rnd c cargo s \<le> calculateChargeAmount rnd c cargo t"
  using assms
  by (auto simp: calculateChargeAmount_def Let_def intro!: money_mono rnd_mono mult_right_mono)

lemma charge_nonneg:
  assumes "0 \<le> s" "0 \<le> cargo" "ch_type c \<noteq> DISCOUNT"
    and "0 \<le> coalesce (ch_percentage c) 0" "0 \<le> coalesce (ch_fixedAmount c) 0"
  shows "0 \<le> calculateChargeAmount rnd c cargo s"
  using assms by (auto simp: calculateChargeAmount_def Let_def intro!: money_nonneg rnd_nonneg add_nonneg_nonneg)

lemma weight_price_mono:
  "w \<le> w' \<Longrightarrow> 0 \<le> pricePerKg rate \<Longrightarrow> weight_price rnd rate w \<le> weight_price rnd rate w'"
  unfolding weight_price_def
  by (intro add_left_mono money_mono rnd_mono mult_right_mono max.mono) auto

end

text \<open>A surcharge: a charge that is no discount, with amounts that are not negative.\<close>

definition surcharge :: "ChargeInput \<Rightarrow> bool" where
  "surcharge c \<longleftrightarrow> ch_type c \<noteq> DISCOUNT \<and> 0 \<le> coalesce (ch_percentage c) 0
     \<and> 0 \<le> coalesce (ch_fixedAmount c) 0"

section \<open>Package metrics\<close>

text \<open>The constraints the request validator puts on a package (\<open>FreightPackageDto\<close>).\<close>

definition valid_package :: "PackageInput \<Rightarrow> bool" where
  "valid_package p \<longleftrightarrow> 1 \<le> quantity p \<and> quantity p \<le> 999 \<and> 1/1000 \<le> weightKg p
     \<and> 1 \<le> lengthCm p \<and> 1 \<le> widthCm p \<and> 1 \<le> heightCm p"

text \<open>A package whose numbers fit the scales of the columns that store it.\<close>

definition stored_scale :: "PackageInput \<Rightarrow> bool" where
  "stored_scale p \<longleftrightarrow> is_multiple 0 (quantity p) \<and> is_multiple 3 (weightKg p)
     \<and> is_multiple 2 (lengthCm p) \<and> is_multiple 2 (widthCm p) \<and> is_multiple 2 (heightCm p)"

definition exact_volume :: "PackageInput \<Rightarrow> rat" where
  "exact_volume p = lengthCm p * widthCm p * heightCm p * quantity p / 10 ^ 6"

definition exact_weight :: "PackageInput \<Rightarrow> rat" where
  "exact_weight p = weightKg p * quantity p"

lemma is_multiple_mult:
  "is_multiple d x \<Longrightarrow> is_multiple e y \<Longrightarrow> is_multiple (d + e) (x * y)"
  by (elim is_multipleE, rule_tac n = "n * na" in is_multipleI) (simp add: power_add)

lemma is_multiple_div: "is_multiple d x \<Longrightarrow> is_multiple (d + e) (x / 10 ^ e)"
  by (elim is_multipleE, rule_tac n = n in is_multipleI) (simp add: power_add)

lemma exact_volume_nonneg: "valid_package p \<Longrightarrow> 0 \<le> exact_volume p"
  by (simp add: valid_package_def exact_volume_def)

lemma exact_weight_nonneg: "valid_package p \<Longrightarrow> 0 \<le> exact_weight p"
  by (simp add: valid_package_def exact_weight_def)

lemma exact_weight_multiple: "stored_scale p \<Longrightarrow> is_multiple 3 (exact_weight p)"
  using is_multiple_mult [of 3 "weightKg p" 0 "quantity p"]
  by (simp add: stored_scale_def exact_weight_def)

context decimal_lib
begin

lemma volume_exact:
  assumes v: "valid_package p" and s: "stored_scale p" and b: "exact_volume p < 10 ^ 8"
  shows "volume_of rnd p = exact_volume p" and "is_multiple 12 (exact_volume p)"
proof -
  let ?l = "lengthCm p / 100" and ?w = "widthCm p / 100" and ?h = "heightCm p / 100"
  have ge: "1/100 \<le> ?l" "1/100 \<le> ?w" "1/100 \<le> ?h" "1 \<le> quantity p"
    using v by (simp_all add: valid_package_def)
  have vol: "exact_volume p = ?l * ?w * ?h * quantity p"
    by (simp add: exact_volume_def)
  have m: "is_multiple 4 ?l" "is_multiple 4 ?w" "is_multiple 4 ?h" "is_multiple 0 (quantity p)"
    using s is_multiple_div [of 2 _ 2] by (simp_all add: stored_scale_def)
  have m2: "is_multiple 8 (?l * ?w)" and m3: "is_multiple 12 (?l * ?w * ?h)"
    using is_multiple_mult [OF m(1,2)] is_multiple_mult [OF is_multiple_mult [OF m(1,2)] m(3)]
    by simp_all
  show m4: "is_multiple 12 (exact_volume p)"
    unfolding vol using is_multiple_mult [OF m3 m(4)] by simp
  have b3: "?l * ?w * ?h < 10 ^ 8"
  proof -
    have "?l * ?w * ?h * 1 \<le> ?l * ?w * ?h * quantity p"
      using ge by (intro mult_left_mono mult_nonneg_nonneg) linarith+
    then show ?thesis using b vol by simp
  qed
  have b2: "?l * ?w < 10 ^ 10"
  proof -
    have "?l * ?w * (1/100) \<le> ?l * ?w * ?h"
      using ge by (intro mult_left_mono mult_nonneg_nonneg) linarith+
    then show ?thesis using b3 by simp
  qed
  have b1: "?l < 10 ^ 12" "?w < 10 ^ 12" "?h < 10 ^ 12"
  proof -
    have "?l * (1/100) \<le> ?l * ?w" "(1/100) * ?w \<le> ?l * ?w"
      using ge by (intro mult_left_mono mult_right_mono; linarith)+
    moreover have "(1/10000) * ?h \<le> (?l * ?w) * ?h"
      using ge mult_mono [of "1/100" ?l "1/100" ?w] by (intro mult_right_mono) simp_all
    ultimately show "?l < 10 ^ 12" "?w < 10 ^ 12" "?h < 10 ^ 12"
      using b2 b3 by simp_all
  qed
  have r: "rnd ?l = ?l" "rnd ?w = ?w" "rnd ?h = ?h"
    using b1 ge rnd_multiple [OF m(1)] rnd_multiple [OF m(2)] rnd_multiple [OF m(3)]
    by simp_all
  have r2: "rnd (?l * ?w) = ?l * ?w"
    using b2 ge by (intro rnd_multiple [OF m2]) simp
  have r3: "rnd (?l * ?w * ?h) = ?l * ?w * ?h"
  proof (rule rnd_multiple [OF m3])
    have "0 \<le> ?l * ?w * ?h" using ge by (intro mult_nonneg_nonneg) linarith+
    moreover have "x * 10 ^ 12 < 10 ^ 20" if "x < 10 ^ 8" for x :: rat
      using that by simp
    ultimately show "\<bar>?l * ?w * ?h\<bar> * 10 ^ 12 < 10 ^ 20"
      using b3 abs_of_nonneg [of "?l * ?w * ?h"] by metis
  qed
  have r4: "rnd (?l * ?w * ?h * quantity p) = exact_volume p"
    unfolding vol [symmetric] using b exact_volume_nonneg [OF v] by (intro rnd_multiple [OF m4]) simp
  show "volume_of rnd p = exact_volume p"
    unfolding volume_of_def r r2 r3 r4 ..
qed

lemma packages_loop_exact:
  assumes "\<forall>p \<in> set ps. valid_package p \<and> stored_scale p"
    and "is_multiple 3 r" "is_multiple 12 v" "0 \<le> r" "0 \<le> v"
    and "r + (\<Sum>p \<leftarrow> ps. exact_weight p) < 10 ^ 17" "v + (\<Sum>p \<leftarrow> ps. exact_volume p) < 10 ^ 8"
  shows "packages_loop rnd ps r v =
    (r + (\<Sum>p \<leftarrow> ps. exact_weight p), v + (\<Sum>p \<leftarrow> ps. exact_volume p))"
  using assms
proof (induction ps arbitrary: r v)
  case (Cons p ps)
  have nn: "0 \<le> (\<Sum>p \<leftarrow> ps. exact_weight p)" "0 \<le> (\<Sum>p \<leftarrow> ps. exact_volume p)"
    using Cons.prems(1) by (auto intro!: sum_list_nonneg exact_weight_nonneg exact_volume_nonneg)
  have p: "valid_package p" "stored_scale p" "0 \<le> exact_weight p" "0 \<le> exact_volume p"
    using Cons.prems(1) exact_weight_nonneg exact_volume_nonneg by auto
  have "exact_volume p < 10 ^ 8" using Cons.prems(5,7) nn by simp
  note vol = volume_exact [OF p(1,2) this]
  have w: "rnd (weightKg p * quantity p) = exact_weight p"
    using rnd_multiple [OF exact_weight_multiple [OF p(2)]] p(3) Cons.prems(4,6) nn
    by (simp add: exact_weight_def)
  have mr: "is_multiple 3 (r + exact_weight p)" and mv: "is_multiple 12 (v + exact_volume p)"
    using Cons.prems(2,3) exact_weight_multiple [OF p(2)] vol(2) by (simp_all add: is_multiple_add)
  have "rnd (r + exact_weight p) = r + exact_weight p"
    using rnd_multiple [OF mr] p(3) Cons.prems(4,6) nn by simp
  moreover have "rnd (v + exact_volume p) = v + exact_volume p"
    using rnd_multiple [OF mv] p(4) Cons.prems(5,7) nn by simp
  ultimately show ?case
    using Cons.IH [OF _ mr mv] Cons.prems p by (simp add: vol(1) w add.assoc)
qed simp

lemma packages_loop_snoc:
  "packages_loop rnd (ps @ [p]) r v =
     (rnd (fst (packages_loop rnd ps r v) + rnd (weightKg p * quantity p)),
      rnd (snd (packages_loop rnd ps r v) + volume_of rnd p))"
  by (induction ps arbitrary: r v) simp_all

lemma packages_loop_rounded:
  "rnd r = r \<Longrightarrow> rnd v = v \<Longrightarrow>
   rnd (fst (packages_loop rnd ps r v)) = fst (packages_loop rnd ps r v)
   \<and> rnd (snd (packages_loop rnd ps r v)) = snd (packages_loop rnd ps r v)"
  by (induction ps arbitrary: r v) (simp_all add: rnd_rnd)

lemma volume_nonneg: "valid_package p \<Longrightarrow> 0 \<le> volume_of rnd p"
  by (auto simp: volume_of_def valid_package_def intro!: rnd_nonneg mult_nonneg_nonneg)

lemma chargeable_weight_snoc:
  assumes "valid_package p" "0 \<le> in_cubicFactor i"
  shows "chargeable_weight rnd i
      \<le> chargeable_weight rnd (i\<lparr>in_packages := in_packages i @ [p]\<rparr>)"
proof -
  let ?r = "fst (packages_loop rnd (in_packages i) 0 0)"
    and ?v = "snd (packages_loop rnd (in_packages i) 0 0)"
  have fx: "rnd ?r = ?r" "rnd ?v = ?v"
    using packages_loop_rounded [of 0 0] by simp_all
  have "0 \<le> rnd (weightKg p * quantity p)"
    using assms by (auto simp: valid_package_def intro!: rnd_nonneg mult_nonneg_nonneg)
  then have r: "?r \<le> rnd (?r + rnd (weightKg p * quantity p))"
    using rnd_mono [of ?r "?r + rnd (weightKg p * quantity p)"] fx by simp
  have v: "?v \<le> rnd (?v + volume_of rnd p)"
    using rnd_mono [of ?v "?v + volume_of rnd p"] fx volume_nonneg [OF assms(1)] by simp
  have "scale ?r 3 \<le> scale (rnd (?r + rnd (weightKg p * quantity p))) 3"
    unfolding scale_def by (rule places_mono [OF r])
  moreover have "scale (rnd (?v * in_cubicFactor i)) 3
      \<le> scale (rnd (rnd (?v + volume_of rnd p) * in_cubicFactor i)) 3"
    unfolding scale_def using v assms(2) by (intro places_mono rnd_mono mult_right_mono)
  ultimately show ?thesis
    unfolding chargeable_weight_def calculatePackageMetrics_def
    by (simp add: Let_def packages_loop_snoc split_beta) (simp add: le_max_iff_disj)
qed

end

section \<open>A worked example\<close>

text \<open>The input of the repository's unit test of the engine.\<close>

definition spec_rate :: RateInput where
  "spec_rate = \<lparr> basePrice = 85, deadlineDays = 2, excessPricePerKg = None, maxWeightKg = 300,
     minWeightKg = 1, pricePerKg = 12/5 \<rparr>"

definition spec_package :: PackageInput where
  "spec_package = \<lparr> heightCm = 45, lengthCm = 80, quantity = 1, weightKg = 85/2, widthCm = 60 \<rparr>"

definition spec_charges :: "ChargeInput list" where
  "spec_charges =
     [\<lparr> ch_fixedAmount = None, ch_name = ''Ad valorem'', ch_percentage = Some (1/250),
        ch_type = AD_VALOREM \<rparr>,
      \<lparr> ch_fixedAmount = Some 18, ch_name = ''Pedagio'', ch_percentage = None, ch_type = TOLL \<rparr>]"

definition spec_input :: "PackageInput list \<Rightarrow> ChargeInput list \<Rightarrow> FreightCalculationInput" where
  "spec_input ps cs = \<lparr> in_cargoValue = 2500, in_charges = cs, in_cubicFactor = 300,
     in_desiredShipDate = 1784980800000, in_distanceKm = None, in_minimumValue = 95,
     in_packages = ps, in_rate = spec_rate \<rparr>"

lemmas eval_decimal = money_def scale_def toDecimalPlaces_def half_up_def dec20_small is_multiple_12

lemma is_multiple_2: "is_multiple 2 x \<longleftrightarrow> of_int \<lfloor>x * 100\<rfloor> = x * 100"
  by (simp add: is_multiple_def)

lemma spec_metrics:
  "calculatePackageMetrics dec20 [spec_package] 300 =
     \<lparr> m_cubicWeightKg = 324/5, m_realWeightKg = 85/2, m_totalVolumeM3 = 27/125 \<rparr>"
  "calculatePackageMetrics dec20 [spec_package, spec_package] 300 =
     \<lparr> m_cubicWeightKg = 648/5, m_realWeightKg = 85, m_totalVolumeM3 = 54/125 \<rparr>"
  by (simp_all add: calculatePackageMetrics_def spec_package_def volume_of_def eval_decimal)

lemma spec_base:
  "base_components dec20 spec_rate (324/5) =
     [component C_BASE ''Frete base'' 85 10, component C_WEIGHT ''Peso cobrado'' (3828/25) 20]"
  "base_components dec20 spec_rate (648/5) =
     [component C_BASE ''Frete base'' 85 10, component C_WEIGHT ''Peso cobrado'' (7716/25) 20]"
  by (simp_all add: base_components_def spec_rate_def eval_decimal Let_def)

lemma spec_sum:
  "sumComponents dec20 (base_components dec20 spec_rate (324/5)) = 5953/25"
  "sumComponents dec20 (base_components dec20 spec_rate (648/5)) = 9841/25"
  by (simp_all only: spec_base)
    (subst dec20.sumComponents_exact; simp add: eval_decimal is_multiple_2)+

lemma spec_adjusted:
  "adjusted dec20 (spec_input [spec_package] cs) =
     (base_components dec20 spec_rate (324/5), 5953/25)"
  "adjusted dec20 (spec_input [spec_package, spec_package] cs) =
     (base_components dec20 spec_rate (648/5), 9841/25)"
  by (simp_all add: adjusted_def chargeable_weight_def spec_input_def spec_metrics
      adjust_to_minimum_def spec_sum) (simp_all add: eval_decimal)

lemma spec_in_range:
  "in_range dec20 (spec_input [spec_package] spec_charges)"
  "in_range dec20 (spec_input [spec_package, spec_package] spec_charges)"
  by (simp_all add: in_range_def parts_eq spec_adjusted spec_base)
    (simp_all add: spec_input_def spec_charges_def calculateChargeAmount_def Let_def eval_decimal)

lemma spec_surcharges: "\<forall>c \<in> set (in_charges (spec_input ps spec_charges)). surcharge c"
  by (simp add: spec_input_def spec_charges_def surcharge_def)

section \<open>Properties\<close>

text \<open>
  C4: The engine implements the price formula. While the amounts stay in range, the total it
  returns is the greater of minimum value and weight price plus every charge, each rounded to
  cents once, and so does the sum of the components it lists before the closing total.
\<close>

theorem total_is_quote:
  assumes "decimal_lib rnd" "in_range rnd i"
  shows "res_totalPrice (calculate rnd i) = quote rnd i
    \<and> amounts (parts (calculate rnd i)) = quote rnd i
    \<and> last (res_components (calculate rnd i)) =
           component C_TOTAL ''Total'' (quote rnd i) 999"
  using decimal_lib.total_quote [OF assms] decimal_lib.total_amounts [OF assms]
  by (simp_all add: last_total)

theorem total_is_quote_witness:
  "res_totalPrice (calculate dec20 (spec_input [spec_package] spec_charges)) = 6653/25"
  using total_is_quote [OF dec20.decimal_lib_axioms spec_in_range(1)]
  by (simp add: quote_def quoted_subtotal_def weight_price_def chargeable_weight_def)
    (simp add: spec_input_def spec_metrics spec_rate_def spec_charges_def calculateChargeAmount_def
      Let_def eval_decimal)

text \<open>
  C18: The minimum value is a floor: with surcharges only and values that are not negative, no
  quote is below the minimum value of the service.
\<close>

theorem minimum_is_floor:
  assumes "decimal_lib rnd" "in_range rnd i"
    and "\<forall>c \<in> set (in_charges i). surcharge c" "0 \<le> in_cargoValue i" "0 \<le> in_minimumValue i"
  shows "money (in_minimumValue i) \<le> res_totalPrice (calculate rnd i)"
proof -
  have min: "money (in_minimumValue i) \<le> quoted_subtotal rnd i"
    by (simp add: quoted_subtotal_def)
  then have "0 \<le> quoted_subtotal rnd i"
    using money_nonneg [OF assms(5)] by linarith
  then have "0 \<le> (\<Sum>c \<leftarrow> in_charges i.
      calculateChargeAmount rnd c (in_cargoValue i) (quoted_subtotal rnd i))"
    using assms(3,4) by (auto simp: surcharge_def intro!: sum_list_nonneg
        decimal_lib.charge_nonneg [OF assms(1)])
  then show ?thesis
    unfolding decimal_lib.total_quote [OF assms(1,2)] quote_def using min by linarith
qed

theorem minimum_is_floor_witness:
  "95 \<le> res_totalPrice (calculate dec20 (spec_input [spec_package] spec_charges))"
  using minimum_is_floor [OF dec20.decimal_lib_axioms spec_in_range(1) spec_surcharges]
  by (simp add: spec_input_def eval_decimal)

text \<open>
  Adding a package to a shipment never lowers its price, for a rate with a price per
  kilogram that is not negative and no discount among the charges.
\<close>

theorem more_packages_not_cheaper:
  assumes "decimal_lib rnd" "in_range rnd i"
    and "in_range rnd (i\<lparr>in_packages := in_packages i @ [p]\<rparr>)"
    and "valid_package p" "0 \<le> in_cubicFactor i" "0 \<le> pricePerKg (in_rate i)"
    and "\<forall>c \<in> set (in_charges i). surcharge c"
  shows "res_totalPrice (calculate rnd i)
      \<le> res_totalPrice (calculate rnd (i\<lparr>in_packages := in_packages i @ [p]\<rparr>))"
proof -
  let ?j = "i\<lparr>in_packages := in_packages i @ [p]\<rparr>"
  have sub: "quoted_subtotal rnd i \<le> quoted_subtotal rnd ?j"
    using decimal_lib.weight_price_mono [OF assms(1) decimal_lib.chargeable_weight_snoc
        [OF assms(1,4,5)] assms(6)]
    by (simp add: quoted_subtotal_def le_max_iff_disj) linarith
  have "(\<Sum>c \<leftarrow> in_charges i. calculateChargeAmount rnd c (in_cargoValue i) (quoted_subtotal rnd i))
      \<le> (\<Sum>c \<leftarrow> in_charges i. calculateChargeAmount rnd c (in_cargoValue i) (quoted_subtotal rnd ?j))"
    using assms(7) sub
    by (intro sum_list_mono decimal_lib.charge_mono [OF assms(1)]) (auto simp: surcharge_def)
  with sub show ?thesis
    unfolding decimal_lib.total_quote [OF assms(1,2)] decimal_lib.total_quote [OF assms(1,3)] quote_def
    by simp
qed

theorem more_packages_not_cheaper_witness:
  "res_totalPrice (calculate dec20 (spec_input [spec_package] spec_charges))
     \<le> res_totalPrice (calculate dec20 (spec_input [spec_package, spec_package] spec_charges))"
proof -
  have eq: "spec_input [spec_package] spec_charges
      \<lparr>in_packages := in_packages (spec_input [spec_package] spec_charges) @ [spec_package]\<rparr>
      = spec_input [spec_package, spec_package] spec_charges"
    by (simp add: spec_input_def)
  show ?thesis
    using more_packages_not_cheaper [OF dec20.decimal_lib_axioms spec_in_range(1)
        spec_in_range(2) [folded eq] _ _ _ spec_surcharges] eq
    by (simp add: valid_package_def spec_package_def spec_input_def spec_rate_def)
qed

text \<open>
  C28: The package metrics are the exact ones. For packages the request validator accepts, with
  numbers in the scale of their columns, the real weight and the volume the engine reports are
  the exact sums rounded once, in spite of the library rounding every intermediate product.
\<close>

theorem metrics_exact:
  assumes "decimal_lib rnd" "\<forall>p \<in> set ps. valid_package p \<and> stored_scale p"
    and "(\<Sum>p \<leftarrow> ps. exact_weight p) < 10 ^ 17" "(\<Sum>p \<leftarrow> ps. exact_volume p) < 10 ^ 8"
  shows "m_realWeightKg (calculatePackageMetrics rnd ps f) = (\<Sum>p \<leftarrow> ps. exact_weight p)
    \<and> m_totalVolumeM3 (calculatePackageMetrics rnd ps f) = scale (\<Sum>p \<leftarrow> ps. exact_volume p) 6"
proof -
  have loop: "packages_loop rnd ps 0 0 = (\<Sum>p \<leftarrow> ps. exact_weight p, \<Sum>p \<leftarrow> ps. exact_volume p)"
    using decimal_lib.packages_loop_exact [OF assms(1,2), of 0 0] assms(3,4) by simp
  have "is_multiple 3 (\<Sum>p \<leftarrow> ps. exact_weight p)"
    using assms(2) by (induction ps) (auto simp: is_multiple_add exact_weight_multiple)
  with loop show ?thesis
    by (simp_all add: calculatePackageMetrics_def scale_def places_id)
qed

theorem metrics_exact_witness:
  "m_realWeightKg (calculatePackageMetrics dec20 [spec_package] 300) = 85/2
   \<and> m_totalVolumeM3 (calculatePackageMetrics dec20 [spec_package] 300) = 27/125"
  using metrics_exact [OF dec20.decimal_lib_axioms, of "[spec_package]" 300]
  by (simp add: valid_package_def stored_scale_def is_multiple_def spec_package_def
      exact_weight_def exact_volume_def eval_decimal)

text \<open>
  The floor does not survive a discount. Discounts are taken after the adjustment to the
  minimum and nothing bounds them, so a fixed discount larger than the price produces a quote
  below the minimum value, and even a negative one.
\<close>

theorem discount_breaks_floor:
  "res_totalPrice (calculate dec20 (spec_input [spec_package]
     [\<lparr> ch_fixedAmount = Some 500, ch_name = ''Desconto'', ch_percentage = None,
        ch_type = DISCOUNT \<rparr>])) = - (6547/25)"
  (is "res_totalPrice (calculate dec20 ?i) = _")
proof -
  have "in_range dec20 ?i"
    by (simp add: in_range_def parts_eq spec_adjusted spec_base)
      (simp add: spec_input_def calculateChargeAmount_def Let_def eval_decimal)
  from dec20.total_quote [OF this] show ?thesis
    by (simp add: quote_def quoted_subtotal_def weight_price_def chargeable_weight_def)
      (simp add: spec_input_def spec_metrics spec_rate_def calculateChargeAmount_def
        Let_def eval_decimal)
qed

end
