(* ===== verification/Schema.thy ===== *)
theory Schema
  imports Store Pricing
begin

text \<open>
  The data model: the enumerations, the rows of each table and the state \<open>db\<close> that the
  services share, with the audit log and the realtime messages they append to, the queue of the
  import worker (identifier, payload and attempts left of each waiting job) and the files of the upload directories, by path. Dates are
  milliseconds since the epoch; the presenters' \<open>toISOString\<close> is left out, so a presented
  date is the date. Identifiers are drawn from the enumeration \<open>nat_str\<close>, which stands for
  the generator of universally unique identifiers. Rows that are only reached through their
  parent (addresses, packages and options of a simulation, ranges and charges of a rate table)
  are lists inside it.
\<close>

section \<open>Enumerations\<close>

datatype UserRole = ADMIN | MANAGER | OPERATOR

datatype UserStatus = INCOMPLETE | PENDING | ACTIVE | BLOCKED | INVITED | DISABLED | DELETED

datatype OAuthProvider = GOOGLE | GITHUB

datatype UserInvitationStatus = PENDING | ACCEPTED | REVOKED | EXPIRED

datatype ImportStatus = PENDING | PROCESSING | COMPLETED | FAILED | CANCELED

datatype ImportType = CUSTOMERS | CARRIERS

datatype ImportRowStatus = SUCCESS | ERROR | SKIPPED

datatype AuditAction =
    LOGIN | LOGOUT | AUTH_FAILURE | TENANT_REGISTERED | PASSWORD_RESET_REQUESTED
  | PASSWORD_RESET_COMPLETED | OAUTH_LINKED | OAUTH_UNLINKED | MFA_CHANGED | USER_INVITED
  | USER_CREATED | USER_UPDATED | ROLE_CHANGED | SESSION_REVOKED | ONBOARDING_UPDATED
  | CUSTOMER_CHANGED | CARRIER_CHANGED | FREIGHT_PRICING_CHANGED | FREIGHT_SIMULATION_CREATED
  | FREIGHT_OPTION_SELECTED | SHIPMENT_CREATED | IMPORT_CREATED | IMPORT_STARTED
  | IMPORT_COMPLETED | IMPORT_FAILED | IMPORT_CANCELED | IMPORT_RETRIED
  | IMPORT_FILE_DOWNLOADED | INSIGHT_GENERATED | INSIGHT_READ | INSIGHT_DISMISSED
  | ADMIN_OPERATION

datatype FreightSimulationStatus = DRAFT | QUEUED | CALCULATED | FAILED

datatype AddressType = MAIN | PICKUP | DELIVERY | BILLING | OTHER

datatype ShipmentStatus =
    CREATED | PICKUP_SCHEDULED | PICKED_UP | IN_TRANSIT | ARRIVED_AT_HUB | OUT_FOR_DELIVERY
  | DELIVERED | DELIVERY_FAILED | RETURNING | RETURNED | CANCELED

datatype TrackingEventType =
    STATUS_CHANGED | ETA_UPDATED | LOCATION_UPDATED | NOTE_ADDED | EXCEPTION_REPORTED
  | CORRECTION_CREATED

text \<open>The two-valued status of carrier services, coverages and rate tables.\<close>

datatype EntityStatus = ACTIVE | INACTIVE

datatype InsightCategory = COST | DEADLINE | CARRIER | ROUTE | CUSTOMER | OPERATION | IMPORT | DATA_QUALITY

datatype InsightSeverity = INFO | OPPORTUNITY | WARNING | CRITICAL

datatype InsightStatus = NEW | READ | DISMISSED | RESOLVED

datatype json =
    JNull | JBool bool | JNum rat | JStr string | JArr "json list" | JObj "(string \<times> json) list"

section \<open>Rows\<close>

record Tenant =
  t_id :: string
  t_name :: string
  t_document :: "string option"
  t_slug :: string
  t_active :: bool

record TenantSettings =
  ts_tenantId :: string
  ts_country :: string
  ts_currency :: string
  ts_timezone :: string
  ts_onboardingCompleted :: bool

record TenantOnboarding =
  to_tenantId :: string
  to_companyDone :: bool
  to_branchDone :: bool
  to_inviteDone :: bool
  to_completed :: bool
  to_currentStep :: string

record Branch =
  b_id :: string
  b_tenantId :: string
  b_name :: string
  b_code :: string
  b_postalCode :: "string option"
  b_street :: "string option"
  b_number :: "string option"
  b_complement :: "string option"
  b_district :: "string option"
  b_city :: "string option"
  b_state :: "string option"
  b_country :: string
  b_email :: "string option"
  b_phone :: "string option"
  b_main :: bool
  b_active :: bool
  b_createdAt :: date
  b_updatedAt :: date

record User =
  u_id :: string
  u_tenantId :: "string option"
  u_branchId :: "string option"
  u_name :: string
  u_email :: string
  u_passwordHash :: "string option"
  u_role :: UserRole
  u_status :: UserStatus
  u_mfaEnabled :: bool
  u_mfaSecret :: "string option"
  u_passwordChangeRequired :: bool
  u_lastLoginAt :: "date option"
  u_deletedAt :: "date option"
  u_createdAt :: date

record OAuthAccount =
  oa_id :: string
  oa_tenantId :: "string option"
  oa_userId :: string
  oa_provider :: OAuthProvider
  oa_providerUserId :: string
  oa_email :: string

record PasswordResetToken =
  pr_id :: string
  pr_tenantId :: "string option"
  pr_userId :: "string option"
  pr_emailHash :: string
  pr_tokenHash :: string
  pr_expiresAt :: date
  pr_usedAt :: "date option"

record UserInvitation =
  ui_id :: string
  ui_tenantId :: string
  ui_email :: string
  ui_role :: UserRole
  ui_tokenHash :: string
  ui_status :: UserInvitationStatus
  ui_invitedById :: string
  ui_acceptedById :: "string option"
  ui_expiresAt :: date
  ui_acceptedAt :: "date option"
  ui_revokedAt :: "date option"

record MfaRecoveryCode =
  mr_id :: string
  mr_tenantId :: string
  mr_userId :: string
  mr_codeHash :: string
  mr_usedAt :: "date option"

record MfaChallenge =
  mc_id :: string
  mc_tenantId :: string
  mc_userId :: string
  mc_challengeTokenHash :: string
  mc_expiresAt :: date
  mc_usedAt :: "date option"

record OAuthState =
  os_id :: string
  os_stateHash :: string
  os_provider :: OAuthProvider
  os_mode :: string
  os_tenantId :: "string option"
  os_userId :: "string option"
  os_metadata :: "json option"
  os_expiresAt :: date
  os_usedAt :: "date option"

record RefreshToken =
  rf_id :: string
  rf_tenantId :: string
  rf_userId :: string
  rf_tokenHash :: string
  rf_familyId :: string
  rf_userAgent :: "string option"
  rf_ipHash :: "string option"
  rf_expiresAt :: date
  rf_revokedAt :: "date option"
  rf_createdAt :: date
  rf_rotatedAt :: "date option"

record Customer =
  c_id :: string
  c_tenantId :: string
  c_name :: string
  c_document :: "string option"
  c_email :: "string option"
  c_phone :: "string option"
  c_active :: bool
  c_createdAt :: date
  c_updatedAt :: date

record CustomerAddress =
  ca_id :: string
  ca_tenantId :: string
  ca_customerId :: string
  ca_type :: AddressType
  ca_label :: "string option"
  ca_postalCode :: string
  ca_street :: string
  ca_number :: "string option"
  ca_complement :: "string option"
  ca_district :: "string option"
  ca_city :: string
  ca_state :: string
  ca_country :: string
  ca_latitude :: "rat option"
  ca_longitude :: "rat option"
  ca_main :: bool
  ca_pickup :: bool
  ca_delivery :: bool
  ca_active :: bool
  ca_createdAt :: date

record Carrier =
  cr_id :: string
  cr_tenantId :: string
  cr_name :: string
  cr_document :: "string option"
  cr_stateRegistration :: "string option"
  cr_code :: "string option"
  cr_legalName :: "string option"
  cr_email :: "string option"
  cr_phone :: "string option"
  cr_contactName :: "string option"
  cr_site :: "string option"
  cr_notes :: "string option"
  cr_logoUrl :: "string option"
  cr_logoStorageKey :: "string option"
  cr_active :: bool

record CarrierService =
  cs_id :: string
  cs_tenantId :: string
  cs_carrierId :: string
  cs_code :: string
  cs_name :: string
  cs_modality :: string
  cs_description :: "string option"
  cs_defaultDeadlineDays :: int
  cs_cubicFactor :: rat
  cs_minWeightKg :: "rat option"
  cs_maxWeightKg :: "rat option"
  cs_maxLengthCm :: "rat option"
  cs_maxWidthCm :: "rat option"
  cs_maxHeightCm :: "rat option"
  cs_minimumValue :: rat
  cs_status :: EntityStatus

record CarrierCoverage =
  cv_id :: string
  cv_tenantId :: string
  cv_carrierServiceId :: string
  cv_originState :: "string option"
  cv_destinationState :: "string option"
  cv_originPostalCodeStart :: "string option"
  cv_originPostalCodeEnd :: "string option"
  cv_destinationPostalCodeStart :: "string option"
  cv_destinationPostalCodeEnd :: "string option"
  cv_status :: EntityStatus
  cv_createdAt :: date

record FreightRateRange = RateInput +
  rr_id :: string
  rr_priority :: int

record FreightAdditionalCharge = ChargeInput +
  ac_id :: string
  ac_active :: bool
  ac_createdAt :: date

record FreightRateTable =
  rt_id :: string
  rt_tenantId :: string
  rt_carrierServiceId :: string
  rt_name :: string
  rt_version :: nat
  rt_currency :: string
  rt_validFrom :: date
  rt_validTo :: "date option"
  rt_notes :: "string option"
  rt_previousVersionId :: "string option"
  rt_status :: EntityStatus
  rt_ranges :: "FreightRateRange list"
  rt_charges :: "FreightAdditionalCharge list"
  rt_coverageIds :: "string list"

record FreightAddress =
  fa_id :: string
  fa_type :: AddressType
  fa_postalCode :: string
  fa_street :: string
  fa_number :: "string option"
  fa_complement :: "string option"
  fa_district :: "string option"
  fa_city :: string
  fa_state :: string
  fa_country :: string
  fa_latitude :: "rat option"
  fa_longitude :: "rat option"

record FreightPackage = PackageInput +
  fp_id :: string
  fp_simulationPackageId :: "string option"
  fp_volumeM3 :: rat
  fp_description :: "string option"

record FreightSimulationOption =
  fo_id :: string
  fo_carrierId :: string
  fo_carrierServiceId :: string
  fo_rateTableId :: string
  fo_rateRangeId :: string
  fo_carrierName :: string
  fo_serviceName :: string
  fo_serviceCode :: string
  fo_rateTableVersion :: nat
  fo_currency :: string
  fo_realWeightKg :: rat
  fo_cubicWeightKg :: rat
  fo_chargeableWeightKg :: rat
  fo_distanceKm :: "rat option"
  fo_deadlineDays :: int
  fo_estimatedDeliveryAt :: date
  fo_totalPrice :: rat
  fo_cheapest :: bool
  fo_fastest :: bool
  fo_selected :: bool
  fo_selectedAt :: "date option"
  fo_priceComponents :: "PriceComponent list"

record FreightSimulation =
  fs_id :: string
  fs_tenantId :: string
  fs_branchId :: "string option"
  fs_customerId :: "string option"
  fs_carrierId :: "string option"
  fs_createdById :: "string option"
  fs_originPostalCode :: string
  fs_destinationPostalCode :: string
  fs_realWeightKg :: rat
  fs_cubicWeightKg :: "rat option"
  fs_chargeableWeightKg :: "rat option"
  fs_totalVolumeM3 :: "rat option"
  fs_cargoValue :: "rat option"
  fs_distanceKm :: "rat option"
  fs_desiredShipDate :: "date option"
  fs_estimatedPrice :: "rat option"
  fs_estimatedDeadlineDays :: "int option"
  fs_status :: FreightSimulationStatus
  fs_metadata :: json
  fs_createdAt :: date
  fs_addresses :: "FreightAddress list"
  fs_packages :: "FreightPackage list"
  fs_options :: "FreightSimulationOption list"

record Shipment =
  sh_id :: string
  sh_tenantId :: string
  sh_simulationId :: string
  sh_selectedOptionId :: string
  sh_customerId :: "string option"
  sh_branchId :: "string option"
  sh_carrierId :: string
  sh_carrierServiceId :: string
  sh_createdById :: "string option"
  sh_trackingCode :: string
  sh_externalReference :: "string option"
  sh_realWeightKg :: rat
  sh_chargeableWeightKg :: rat
  sh_cargoValue :: "rat option"
  sh_freightValue :: rat
  sh_estimatedDeliveryAt :: date
  sh_deliveredAt :: "date option"
  sh_status :: ShipmentStatus
  sh_createdAt :: date
  sh_addresses :: "FreightAddress list"
  sh_packages :: "FreightPackage list"

record TrackingEvent =
  te_id :: string
  te_tenantId :: string
  te_shipmentId :: string
  te_createdById :: "string option"
  te_eventType :: TrackingEventType
  te_status :: "ShipmentStatus option"
  te_description :: "string option"
  te_occurredAt :: date
  te_receivedAt :: date
  te_location :: "string option"
  te_externalCode :: "string option"
  te_idempotencyKey :: "string option"

record ImportJob =
  ij_id :: string
  ij_tenantId :: string
  ij_createdById :: string
  ij_type :: ImportType
  ij_filename :: string
  ij_fileType :: string
  ij_storedFilename :: "string option"
  ij_mimeType :: "string option"
  ij_sizeBytes :: nat
  ij_fileHash :: "string option"
  ij_status :: ImportStatus
  ij_totalRows :: nat
  ij_processedRows :: nat
  ij_successRows :: nat
  ij_errorRows :: nat
  ij_skippedRows :: nat
  ij_progress :: int
  ij_mapping :: json
  ij_options :: json
  ij_errorSummary :: json
  ij_startedAt :: "date option"
  ij_finishedAt :: "date option"
  ij_failureReason :: "string option"
  ij_createdAt :: date
  ij_updatedAt :: date

record ImportRowResult =
  ir_id :: string
  ir_tenantId :: string
  ir_importJobId :: string
  ir_rowNumber :: nat
  ir_status :: ImportRowStatus
  ir_externalReference :: "string option"
  ir_normalizedData :: json
  ir_errorCode :: "string option"
  ir_errorMessage :: "string option"
  ir_createdResourceId :: "string option"

record Insight =
  in_id :: string
  in_tenantId :: string
  in_dedupeKey :: string
  in_type :: string
  in_category :: InsightCategory
  in_severity :: InsightSeverity
  in_title :: string
  in_description :: string
  in_evidence :: json
  in_metricValue :: "rat option"
  in_comparisonValue :: "rat option"
  in_percentageChange :: "rat option"
  in_periodStart :: date
  in_periodEnd :: date
  in_resourceType :: "string option"
  in_resourceId :: "string option"
  in_actionUrl :: "string option"
  in_status :: InsightStatus
  in_generatedAt :: date
  in_readAt :: "date option"
  in_dismissedAt :: "date option"
  in_metadata :: "json option"

record AuditLog =
  al_id :: string
  al_tenantId :: "string option"
  al_actorId :: "string option"
  al_action :: AuditAction
  al_entityType :: "string option"
  al_entityId :: "string option"
  al_requestId :: "string option"
  al_ipHash :: "string option"
  al_metadata :: "json option"
  al_createdAt :: date

text \<open>The payload of a job of the import queue.\<close>

record ImportQueuePayload =
  q_importJobId :: string
  q_tenantId :: string
  q_userId :: string

record Emission =
  em_room :: string
  em_event :: string
  em_payload :: json

section \<open>The state\<close>

record db =
  tenants :: "Tenant list"
  tenantSettings :: "TenantSettings list"
  tenantOnboarding :: "TenantOnboarding list"
  branches :: "Branch list"
  users :: "User list"
  oauthAccounts :: "OAuthAccount list"
  passwordResetTokens :: "PasswordResetToken list"
  userInvitations :: "UserInvitation list"
  mfaRecoveryCodes :: "MfaRecoveryCode list"
  mfaChallenges :: "MfaChallenge list"
  oauthStates :: "OAuthState list"
  refreshTokens :: "RefreshToken list"
  customers :: "Customer list"
  customerAddresses :: "CustomerAddress list"
  carriers :: "Carrier list"
  carrierServices :: "CarrierService list"
  carrierCoverages :: "CarrierCoverage list"
  freightRateTables :: "FreightRateTable list"
  freightSimulations :: "FreightSimulation list"
  shipments :: "Shipment list"
  trackingEvents :: "TrackingEvent list"
  importJobs :: "ImportJob list"
  importRowResults :: "ImportRowResult list"
  insights :: "Insight list"
  auditLogs :: "AuditLog list"
  emissions :: "Emission list"
  importQueue :: "(string \<times> ImportQueuePayload \<times> nat) list"
  storedFiles :: "(string \<times> string) list"
  next_id :: nat

definition empty_db :: db where
  "empty_db = \<lparr> tenants = [], tenantSettings = [], tenantOnboarding = [], branches = [], users = [],
     oauthAccounts = [], passwordResetTokens = [], userInvitations = [], mfaRecoveryCodes = [],
     mfaChallenges = [], oauthStates = [], refreshTokens = [], customers = [],
     customerAddresses = [], carriers = [], carrierServices = [], carrierCoverages = [],
     freightRateTables = [], freightSimulations = [], shipments = [], trackingEvents = [],
     importJobs = [], importRowResults = [], insights = [], auditLogs = [], emissions = [], importQueue = [],
     storedFiles = [], next_id = 0 \<rparr>"

type_synonym 'a handler = "db \<Rightarrow> 'a result \<times> db"

section \<open>Identifiers\<close>

definition new_id :: "db \<Rightarrow> string" where
  "new_id d = nat_str (next_id d)"

definition bump :: "db \<Rightarrow> db" where
  "bump d = d\<lparr>next_id := Suc (next_id d)\<rparr>"

text \<open>Identifiers for the rows of a nested creation.\<close>

fun with_ids :: "nat \<Rightarrow> (string \<Rightarrow> 'a \<Rightarrow> 'b) \<Rightarrow> 'a list \<Rightarrow> 'b list" where
  "with_ids n f [] = []"
| "with_ids n f (x # xs) = f (nat_str n) x # with_ids (Suc n) f xs"

definition old_id :: "db \<Rightarrow> string \<Rightarrow> bool" where
  "old_id d i = (i \<in> set (map nat_str [0 ..< next_id d]))"

lemma nat_str_digits: "\<forall>c \<in> set (nat_str n). is_digit c"
proof (induction n rule: nat_str.induct)
  case (1 n)
  have d: "is_digit (digit_char m)" if "m < 10" for m
    using that by (simp add: is_digit_def digit_char_def ccode_def)
  show ?case
    using 1 by (subst nat_str.simps) (auto intro: d)
qed

lemma number_of_nat_str [simp]: "number_of_digits (nat_str n) = n"
proof (induction n rule: nat_str.induct)
  case (1 n)
  have d: "digit_val (digit_char m) = m" if "m < 10" for m
    using that by (simp add: digit_val_def digit_char_def ccode_def)
  show ?case
    using 1 by (subst nat_str.simps) (auto simp: number_of_digits_def d)
qed

lemma nat_str_inject [simp]: "nat_str m = nat_str n \<longleftrightarrow> m = n"
  by (metis number_of_nat_str)

lemma bump_tables [simp]:
  "tenants (bump d) = tenants d"
  "tenantSettings (bump d) = tenantSettings d"
  "tenantOnboarding (bump d) = tenantOnboarding d"
  "branches (bump d) = branches d"
  "users (bump d) = users d"
  "oauthAccounts (bump d) = oauthAccounts d"
  "passwordResetTokens (bump d) = passwordResetTokens d"
  "userInvitations (bump d) = userInvitations d"
  "mfaRecoveryCodes (bump d) = mfaRecoveryCodes d"
  "mfaChallenges (bump d) = mfaChallenges d"
  "oauthStates (bump d) = oauthStates d"
  "refreshTokens (bump d) = refreshTokens d"
  "customers (bump d) = customers d"
  "customerAddresses (bump d) = customerAddresses d"
  "carriers (bump d) = carriers d"
  "carrierServices (bump d) = carrierServices d"
  "carrierCoverages (bump d) = carrierCoverages d"
  "freightRateTables (bump d) = freightRateTables d"
  "freightSimulations (bump d) = freightSimulations d"
  "shipments (bump d) = shipments d"
  "trackingEvents (bump d) = trackingEvents d"
  "importJobs (bump d) = importJobs d"
  "importRowResults (bump d) = importRowResults d"
  "insights (bump d) = insights d"
  "auditLogs (bump d) = auditLogs d"
  "emissions (bump d) = emissions d"
  "importQueue (bump d) = importQueue d"
  "storedFiles (bump d) = storedFiles d"
  by (simp_all add: bump_def)

lemma bump_next [simp]: "next_id (bump d) = Suc (next_id d)"
  by (simp add: bump_def)

lemma new_id_fresh: "\<not> old_id d (new_id d)"
  by (auto simp: old_id_def new_id_def)

lemma old_id_mono: "old_id d i \<Longrightarrow> next_id d \<le> next_id d' \<Longrightarrow> old_id d' i"
  by (auto simp: old_id_def)

lemma old_id_new_id: "next_id d < next_id d' \<Longrightarrow> old_id d' (new_id d)"
  by (auto simp: old_id_def new_id_def)

lemma length_with_ids [simp]: "length (with_ids n f xs) = length xs"
  by (induction xs arbitrary: n) auto

lemma map_with_ids: "(\<And>i x. g (f i x) = h x) \<Longrightarrow> map g (with_ids n f xs) = map h xs"
  by (induction xs arbitrary: n) auto

section \<open>Audit log\<close>

text \<open>
  \<open>AuditService.record\<close> appends one row; the optional fields of its argument are stored when
  present, and an empty identifier counts as absent.
\<close>

record AuditRecordInput =
  ai_action :: AuditAction
  ai_actorId :: "string option"
  ai_entityId :: "string option"
  ai_entityType :: "string option"
  ai_ipHash :: "string option"
  ai_metadata :: "json option"
  ai_requestId :: "string option"
  ai_tenantId :: "string option"

definition present :: "string option \<Rightarrow> string option" where
  "present v = (if truthy v then v else None)"

definition record_audit :: "date \<Rightarrow> AuditRecordInput \<Rightarrow> db \<Rightarrow> db" where
  "record_audit now i d = bump (d\<lparr>auditLogs := auditLogs d @
     [\<lparr> al_id = new_id d, al_tenantId = present (ai_tenantId i), al_actorId = present (ai_actorId i),
        al_action = ai_action i, al_entityType = present (ai_entityType i),
        al_entityId = present (ai_entityId i), al_requestId = present (ai_requestId i),
        al_ipHash = present (ai_ipHash i), al_metadata = ai_metadata i, al_createdAt = now \<rparr>]\<rparr>)"

definition audit_of ::
  "AuditAction \<Rightarrow> string \<Rightarrow> string \<Rightarrow> string \<Rightarrow> json \<Rightarrow> string \<Rightarrow> AuditRecordInput" where
  "audit_of action actorId entityId entityType metadata tenantId =
     \<lparr> ai_action = action, ai_actorId = Some actorId, ai_entityId = Some entityId,
       ai_entityType = Some entityType, ai_ipHash = None, ai_metadata = Some metadata,
       ai_requestId = None, ai_tenantId = Some tenantId \<rparr>"

section \<open>Realtime messages\<close>

definition tenantRoom :: "string \<Rightarrow> string" where
  "tenantRoom tenantId = ''tenant:'' @ tenantId"

definition userRoom :: "string \<Rightarrow> string \<Rightarrow> string" where
  "userRoom tenantId userId = ''tenant:'' @ tenantId @ '':user:'' @ userId"

definition emit :: "string \<Rightarrow> string \<Rightarrow> json \<Rightarrow> db \<Rightarrow> db" where
  "emit room event payload d = d\<lparr>emissions := emissions d @
     [\<lparr> em_room = room, em_event = event, em_payload = payload \<rparr>]\<rparr>"

definition emitImportProgress :: "string \<Rightarrow> json \<Rightarrow> db \<Rightarrow> db" where
  "emitImportProgress tenantId payload = emit (tenantRoom tenantId) ''import:progress'' payload"

definition emitImportEvent :: "string \<Rightarrow> string \<Rightarrow> json \<Rightarrow> string option \<Rightarrow> db \<Rightarrow> db" where
  "emitImportEvent tenantId eventName payload userId d =
     (let d1 = emit (tenantRoom tenantId) eventName payload d;
          d2 = emit (tenantRoom tenantId) ''import:progress'' payload d1 in
      if truthy userId then
        emit (userRoom tenantId (the userId)) ''import:progress'' payload
          (emit (userRoom tenantId (the userId)) eventName payload d2)
      else d2)"

definition emitDashboardRefresh :: "date \<Rightarrow> string \<Rightarrow> string \<Rightarrow> db \<Rightarrow> db" where
  "emitDashboardRefresh now tenantId reason =
     emit (tenantRoom tenantId) ''dashboard.refresh''
       (JObj [(''reason'', JStr reason), (''timestamp'', JNum (of_int now))])"

definition emitTrackingUpdate ::
  "date \<Rightarrow> string \<Rightarrow> string \<Rightarrow> (string \<times> json) list \<Rightarrow> db \<Rightarrow> db" where
  "emitTrackingUpdate now tenantId shipmentId payload d =
     emitDashboardRefresh now tenantId ''tracking-updated''
       (emit (tenantRoom tenantId) ''tracking.updated''
          (JObj ((''shipmentId'', JStr shipmentId) # payload)) d)"

lemmas emit_defs = emit_def emitImportProgress_def emitImportEvent_def emitDashboardRefresh_def
  emitTrackingUpdate_def

text \<open>Neither the audit log nor a message touches the tables.\<close>

lemma record_audit_tables [simp]:
  "tenants (record_audit now i d) = tenants d"
  "tenantSettings (record_audit now i d) = tenantSettings d"
  "tenantOnboarding (record_audit now i d) = tenantOnboarding d"
  "branches (record_audit now i d) = branches d"
  "users (record_audit now i d) = users d"
  "oauthAccounts (record_audit now i d) = oauthAccounts d"
  "passwordResetTokens (record_audit now i d) = passwordResetTokens d"
  "userInvitations (record_audit now i d) = userInvitations d"
  "mfaRecoveryCodes (record_audit now i d) = mfaRecoveryCodes d"
  "mfaChallenges (record_audit now i d) = mfaChallenges d"
  "oauthStates (record_audit now i d) = oauthStates d"
  "refreshTokens (record_audit now i d) = refreshTokens d"
  "customers (record_audit now i d) = customers d"
  "customerAddresses (record_audit now i d) = customerAddresses d"
  "carriers (record_audit now i d) = carriers d"
  "carrierServices (record_audit now i d) = carrierServices d"
  "carrierCoverages (record_audit now i d) = carrierCoverages d"
  "freightRateTables (record_audit now i d) = freightRateTables d"
  "freightSimulations (record_audit now i d) = freightSimulations d"
  "shipments (record_audit now i d) = shipments d"
  "trackingEvents (record_audit now i d) = trackingEvents d"
  "importJobs (record_audit now i d) = importJobs d"
  "importRowResults (record_audit now i d) = importRowResults d"
  "insights (record_audit now i d) = insights d"
  "emissions (record_audit now i d) = emissions d"
  "importQueue (record_audit now i d) = importQueue d"
  "storedFiles (record_audit now i d) = storedFiles d"
  by (simp_all add: record_audit_def)

lemma record_audit_next [simp]: "next_id (record_audit now i d) = Suc (next_id d)"
  by (simp add: record_audit_def)

lemma emit_tables [simp]:
  "tenants (emit room event payload d) = tenants d"
  "tenantSettings (emit room event payload d) = tenantSettings d"
  "tenantOnboarding (emit room event payload d) = tenantOnboarding d"
  "branches (emit room event payload d) = branches d"
  "users (emit room event payload d) = users d"
  "oauthAccounts (emit room event payload d) = oauthAccounts d"
  "passwordResetTokens (emit room event payload d) = passwordResetTokens d"
  "userInvitations (emit room event payload d) = userInvitations d"
  "mfaRecoveryCodes (emit room event payload d) = mfaRecoveryCodes d"
  "mfaChallenges (emit room event payload d) = mfaChallenges d"
  "oauthStates (emit room event payload d) = oauthStates d"
  "refreshTokens (emit room event payload d) = refreshTokens d"
  "customers (emit room event payload d) = customers d"
  "customerAddresses (emit room event payload d) = customerAddresses d"
  "carriers (emit room event payload d) = carriers d"
  "carrierServices (emit room event payload d) = carrierServices d"
  "carrierCoverages (emit room event payload d) = carrierCoverages d"
  "freightRateTables (emit room event payload d) = freightRateTables d"
  "freightSimulations (emit room event payload d) = freightSimulations d"
  "shipments (emit room event payload d) = shipments d"
  "trackingEvents (emit room event payload d) = trackingEvents d"
  "importJobs (emit room event payload d) = importJobs d"
  "importRowResults (emit room event payload d) = importRowResults d"
  "insights (emit room event payload d) = insights d"
  "auditLogs (emit room event payload d) = auditLogs d"
  "importQueue (emit room event payload d) = importQueue d"
  "storedFiles (emit room event payload d) = storedFiles d"
  "next_id (emit room event payload d) = next_id d"
  by (simp_all add: emit_def)

section \<open>Pages\<close>

record 'a PaginatedResult =
  pg_data :: "'a list"
  pg_page :: nat
  pg_perPage :: nat
  pg_total :: nat
  pg_totalPages :: nat

definition paginated :: "nat \<Rightarrow> nat \<Rightarrow> 'r list \<Rightarrow> ('r \<Rightarrow> 'a) \<Rightarrow> 'a PaginatedResult" where
  "paginated page perPage rows present_row =
     \<lparr> pg_data = map present_row (page_of page perPage rows), pg_page = page, pg_perPage = perPage,
       pg_total = length rows, pg_totalPages = ceil_div (length rows) perPage \<rparr>"

end
