(* ===== verification/Documents.thy ===== *)
theory Documents
  imports Store
begin

text \<open>
  CPF and CNPJ numbers. The program validates them twice: \<open>customers.service.ts\<close> rebuilds the
  document from its prefix and compares strings, \<open>customer-import.handler.ts\<close> compares the two
  check digits as numbers. Both versions are modelled; \<open>documents_agree\<close> shows that they
  accept the same documents, which is what keeps the two ways into the customers table
  consistent.
\<close>

section \<open>The customers service\<close>

definition normalizeOptional :: "string \<Rightarrow> string option" where
  "normalizeOptional v = or_null (trim v)"

definition normalizeDocument :: "string \<Rightarrow> string option" where
  "normalizeDocument v = or_null (onlyDigits v)"

text \<open>The pattern \<open>/^(\d)\1+$/\<close>: one digit, repeated at least twice.\<close>

definition repeated_digit :: "string \<Rightarrow> bool" where
  "repeated_digit s = (case s of [] \<Rightarrow> False | c # cs \<Rightarrow> is_digit c \<and> cs \<noteq> [] \<and> (\<forall>x \<in> set cs. x = c))"

definition calculateCpfDigit :: "string \<Rightarrow> nat" where
  "calculateCpfDigit input =
     (let sum = foldl (\<lambda>total (index, digit). total + digit_val digit * (length input + 1 - index)) 0
                  (enumerate 0 input);
          remainder = (sum * 10) mod 11
      in if remainder = 10 then 0 else remainder)"

definition isValidCpf :: "string \<Rightarrow> bool" where
  "isValidCpf document =
     (if repeated_digit document then False
      else let firstDigit = calculateCpfDigit (take 9 document);
               secondDigit = calculateCpfDigit (take 9 document @ nat_str firstDigit)
           in document = take 9 document @ nat_str firstDigit @ nat_str secondDigit)"

definition nth_or_zero :: "nat list \<Rightarrow> nat \<Rightarrow> nat" where
  "nth_or_zero weights index = (if index < length weights then weights ! index else 0)"

definition calculateCnpjDigit :: "string \<Rightarrow> nat list \<Rightarrow> nat" where
  "calculateCnpjDigit input weights =
     (let sum = foldl (\<lambda>total (index, digit). total + digit_val digit * nth_or_zero weights index) 0
                  (enumerate 0 input);
          remainder = sum mod 11
      in if remainder < 2 then 0 else 11 - remainder)"

definition isValidCnpj :: "string \<Rightarrow> bool" where
  "isValidCnpj document =
     (if repeated_digit document then False
      else let firstDigit = calculateCnpjDigit (take 12 document) [5, 4, 3, 2, 9, 8, 7, 6, 5, 4, 3, 2];
               secondDigit = calculateCnpjDigit (take 12 document @ nat_str firstDigit)
                               [6, 5, 4, 3, 2, 9, 8, 7, 6, 5, 4, 3, 2]
           in document = take 12 document @ nat_str firstDigit @ nat_str secondDigit)"

definition validateDocument :: "string option \<Rightarrow> unit result" where
  "validateDocument document =
     (case document of
        None \<Rightarrow> Inr ()
      | Some s \<Rightarrow>
          if length s = 11 \<and> isValidCpf s then Inr ()
          else if length s = 14 \<and> isValidCnpj s then Inr ()
          else Inl (BadRequestException ''Customer document must be a valid CPF or CNPJ.''))"

section \<open>The import handler\<close>

text \<open>\<open>digits[i]\<close> on a list of numbers; out of range it is \<open>undefined\<close>.\<close>

definition at :: "nat list \<Rightarrow> nat \<Rightarrow> nat option" where
  "at xs i = (if i < length xs then Some (xs ! i) else None)"

definition checksum :: "nat list \<Rightarrow> nat \<Rightarrow> nat" where
  "checksum numbers factor =
     (let sum = foldl (\<lambda>total (index, number). total + number * (factor - index)) 0
                  (enumerate 0 numbers);
          r = (sum * 10) mod 11
      in if r = 10 then 0 else r)"

definition cnpjChecksum :: "nat list \<Rightarrow> nat list \<Rightarrow> nat" where
  "cnpjChecksum numbers weights =
     (let sum = foldl (\<lambda>total (index, number). total + number * nth_or_zero weights index) 0
                  (enumerate 0 numbers);
          r = sum mod 11
      in if r < 2 then 0 else 11 - r)"

definition import_isValidCpf :: "string \<Rightarrow> bool" where
  "import_isValidCpf cpf =
     (if repeated_digit cpf then False
      else let digits = map digit_val cpf;
               first = checksum (take 9 digits) 10;
               second = checksum (take 9 digits @ [first]) 11
           in at digits 9 = Some first \<and> at digits 10 = Some second)"

definition import_isValidCnpj :: "string \<Rightarrow> bool" where
  "import_isValidCnpj cnpj =
     (if repeated_digit cnpj then False
      else let digits = map digit_val cnpj;
               first = cnpjChecksum (take 12 digits) [5, 4, 3, 2, 9, 8, 7, 6, 5, 4, 3, 2];
               second = cnpjChecksum (take 12 digits @ [first]) [6, 5, 4, 3, 2, 9, 8, 7, 6, 5, 4, 3, 2]
           in at digits 12 = Some first \<and> at digits 13 = Some second)"

definition isValidDocument :: "string \<Rightarrow> bool" where
  "isValidDocument document =
     (if length document = 11 then import_isValidCpf document
      else if length document = 14 then import_isValidCnpj document
      else False)"

section \<open>Digits and their numbers\<close>

lemma digit_char_val [simp]: "is_digit c \<Longrightarrow> digit_char (digit_val c) = c"
  by (simp add: digit_char_def digit_val_def is_digit_def ccode_def)

lemma digit_val_char [simp]: "n < 10 \<Longrightarrow> digit_val (digit_char n) = n"
  by (simp add: digit_char_def digit_val_def ccode_def)

lemma nat_str_digit: "n < 10 \<Longrightarrow> nat_str n = [digit_char n]"
  by (simp add: nat_str.simps)

lemma digit_eq_iff: "is_digit c \<Longrightarrow> n < 10 \<Longrightarrow> c = digit_char n \<longleftrightarrow> digit_val c = n"
  by auto

lemma enumerate_map: "enumerate n (map f xs) = map (\<lambda>(i, x). (i, f x)) (enumerate n xs)"
  by (induction xs arbitrary: n) auto

lemma cpf_digit_checksum:
  "calculateCpfDigit s = checksum (map digit_val s) (length s + 1)"
  by (simp add: calculateCpfDigit_def checksum_def enumerate_map foldl_map case_prod_unfold)

lemma cnpj_digit_checksum: "calculateCnpjDigit s ws = cnpjChecksum (map digit_val s) ws"
  by (simp add: calculateCnpjDigit_def cnpjChecksum_def enumerate_map foldl_map case_prod_unfold)

lemma checksum_less: "checksum ns k < 10"
proof -
  have "(if r = 10 then 0 else r) < 10" if "r < 11" for r :: nat
    using that by simp
  then show ?thesis by (simp only: checksum_def Let_def)
qed

lemma cnpjChecksum_less: "cnpjChecksum ns ws < 10"
  by (auto simp: cnpjChecksum_def Let_def)

lemma suffix_two:
  assumes "length s = n + 2" "\<forall>c \<in> set s. is_digit c" "a < 10" "b < 10"
  shows "s = take n s @ [digit_char a] @ [digit_char b]
    \<longleftrightarrow> at (map digit_val s) n = Some a \<and> at (map digit_val s) (Suc n) = Some b"
proof -
  have d: "is_digit (s ! n)" "is_digit (s ! Suc n)"
    using assms(1,2) by (simp_all add: nth_mem)
  have "s = take n s @ [s ! n] @ [s ! Suc n]"
    using assms(1) by (metis Cons_nth_drop_Suc append_Cons append_Nil append_take_drop_id
        add_2_eq_Suc' drop_all le_refl lessI less_SucI)
  then have "s = take n s @ [digit_char a] @ [digit_char b]
      \<longleftrightarrow> s ! n = digit_char a \<and> s ! Suc n = digit_char b"
    by (metis append.assoc append_same_eq last_snoc same_append_eq list.inject append_Cons append_Nil)
  then show ?thesis
    using assms d by (simp add: at_def digit_eq_iff)
qed

lemma cpf_agree:
  assumes "length s = 11" "\<forall>c \<in> set s. is_digit c"
  shows "isValidCpf s = import_isValidCpf s"
proof -
  define a where "a = checksum (take 9 (map digit_val s)) 10"
  define b where "b = checksum (take 9 (map digit_val s) @ [a]) 11"
  have ab: "a < 10" "b < 10"
    by (simp_all add: a_def b_def checksum_less)
  have a: "calculateCpfDigit (take 9 s) = a"
    using assms(1) by (simp add: cpf_digit_checksum a_def take_map)
  have b: "calculateCpfDigit (take 9 s @ [digit_char a]) = b"
    using assms(1) ab by (simp add: cpf_digit_checksum b_def take_map nat_str_digit)
  show ?thesis
    using suffix_two [of s 9 a b] assms ab
    by (simp add: isValidCpf_def import_isValidCpf_def Let_def a b nat_str_digit
        flip: a_def b_def)
qed

lemma cnpj_agree:
  assumes "length s = 14" "\<forall>c \<in> set s. is_digit c"
  shows "isValidCnpj s = import_isValidCnpj s"
proof -
  define a where "a = cnpjChecksum (take 12 (map digit_val s)) [5, 4, 3, 2, 9, 8, 7, 6, 5, 4, 3, 2]"
  define b where "b = cnpjChecksum (take 12 (map digit_val s) @ [a]) [6, 5, 4, 3, 2, 9, 8, 7, 6, 5, 4, 3, 2]"
  have ab: "a < 10" "b < 10"
    by (simp_all add: a_def b_def cnpjChecksum_less)
  have a: "calculateCnpjDigit (take 12 s) [5, 4, 3, 2, 9, 8, 7, 6, 5, 4, 3, 2] = a"
    by (simp add: cnpj_digit_checksum a_def take_map)
  have b: "calculateCnpjDigit (take 12 s @ [digit_char a]) [6, 5, 4, 3, 2, 9, 8, 7, 6, 5, 4, 3, 2] = b"
    using ab by (simp add: cnpj_digit_checksum b_def take_map nat_str_digit)
  show ?thesis
    using suffix_two [of s 12 a b] assms ab
    by (simp add: isValidCnpj_def import_isValidCnpj_def Let_def a b nat_str_digit
        flip: a_def b_def)
qed

text \<open>
  The customers service and the import handler agree on every document: a document typed in
  any format passes the service's validation exactly when it has no digits at all or the import
  handler accepts its digits.
\<close>

theorem documents_agree:
  "validateDocument (normalizeDocument s) = Inr ()
   \<longleftrightarrow> onlyDigits s = [] \<or> isValidDocument (onlyDigits s)"
  by (auto simp: validateDocument_def normalizeDocument_def or_null_def isValidDocument_def
      cpf_agree cnpj_agree onlyDigits_digits)

end
