(* ===== verification/Customers.thy ===== *)
theory Customers
  imports Schema Documents
begin

text \<open>
  \<open>customers.service.ts\<close> with its presenter and its request bodies: the customers of a tenant
  and their addresses. The invariant \<open>customers_ok\<close> collects what the rest of the program
  relies on: unique documents per tenant, valid documents, addresses of known customers, and
  at most one main address per customer.
\<close>

section \<open>Requests and responses\<close>

record ListCustomersDto =
  lc_search :: "string option"
  lc_active :: "bool option"
  lc_page :: nat
  lc_perPage :: nat

record CreateCustomerDto =
  cc_name :: string
  cc_document :: "string nullable"
  cc_email :: "string nullable"
  cc_phone :: "string nullable"

record UpdateCustomerDto =
  uc_name :: "string nullable"
  uc_document :: "string nullable"
  uc_email :: "string nullable"
  uc_phone :: "string nullable"

record CreateCustomerAddressDto =
  cad_label :: "string nullable"
  cad_type :: "string nullable"
  cad_postalCode :: string
  cad_street :: string
  cad_number :: "string nullable"
  cad_complement :: "string nullable"
  cad_district :: "string nullable"
  cad_city :: string
  cad_state :: string
  cad_main :: "bool nullable"
  cad_pickup :: "bool nullable"
  cad_delivery :: "bool nullable"

record CustomerDto =
  cd_active :: bool
  cd_createdAt :: date
  cd_document :: "string option"
  cd_email :: "string option"
  cd_id :: string
  cd_name :: string
  cd_phone :: "string option"
  cd_updatedAt :: date

record CustomerAddressDto =
  cao_active :: bool
  cao_city :: string
  cao_complement :: "string option"
  cao_country :: string
  cao_customerId :: string
  cao_delivery :: bool
  cao_district :: "string option"
  cao_id :: string
  cao_label :: "string option"
  cao_latitude :: "rat option"
  cao_longitude :: "rat option"
  cao_main :: bool
  cao_number :: "string option"
  cao_pickup :: bool
  cao_postalCode :: string
  cao_state :: string
  cao_street :: string
  cao_type :: AddressType

definition presentCustomer :: "Customer \<Rightarrow> CustomerDto" where
  "presentCustomer c =
     \<lparr> cd_active = c_active c, cd_createdAt = c_createdAt c, cd_document = c_document c,
       cd_email = c_email c, cd_id = c_id c, cd_name = c_name c, cd_phone = c_phone c,
       cd_updatedAt = c_updatedAt c \<rparr>"

definition presentAddress :: "CustomerAddress \<Rightarrow> CustomerAddressDto" where
  "presentAddress a =
     \<lparr> cao_active = ca_active a, cao_city = ca_city a, cao_complement = ca_complement a,
       cao_country = ca_country a, cao_customerId = ca_customerId a, cao_delivery = ca_delivery a,
       cao_district = ca_district a, cao_id = ca_id a, cao_label = ca_label a,
       cao_latitude = ca_latitude a, cao_longitude = ca_longitude a, cao_main = ca_main a,
       cao_number = ca_number a, cao_pickup = ca_pickup a, cao_postalCode = ca_postalCode a,
       cao_state = ca_state a, cao_street = ca_street a, cao_type = ca_type a \<rparr>"

fun address_type_name :: "AddressType \<Rightarrow> string" where
  "address_type_name MAIN = ''MAIN''"
| "address_type_name PICKUP = ''PICKUP''"
| "address_type_name DELIVERY = ''DELIVERY''"
| "address_type_name BILLING = ''BILLING''"
| "address_type_name OTHER = ''OTHER''"

definition toAddressType :: "string option \<Rightarrow> AddressType" where
  "toAddressType v = coalesce
     (find (\<lambda>t. v = Some (address_type_name t)) [MAIN, PICKUP, DELIVERY, BILLING, OTHER]) OTHER"

section \<open>Reads\<close>

text \<open>\<open>contains\<close> never matches a null column.\<close>

definition contains_opt :: "string option \<Rightarrow> string \<Rightarrow> bool" where
  "contains_opt column text = (case column of None \<Rightarrow> False | Some s \<Rightarrow> includes_str s text)"

definition customers_where :: "string \<Rightarrow> ListCustomersDto \<Rightarrow> Customer \<Rightarrow> bool" where
  "customers_where tenantId query c =
     (c_tenantId c = tenantId
      \<and> (case lc_active query of None \<Rightarrow> True | Some a \<Rightarrow> c_active c = a)
      \<and> (case lc_search query of
           None \<Rightarrow> True
         | Some search \<Rightarrow>
             if trim search = [] then True
             else includes_str (c_name c) (trim search)
                  \<or> contains_opt (c_document c) (onlyDigits search)))"

definition listCustomers :: "string \<Rightarrow> ListCustomersDto \<Rightarrow> db \<Rightarrow> CustomerDto PaginatedResult" where
  "listCustomers tenantId query d =
     paginated (lc_page query) (lc_perPage query)
       (orderBy (then_by (asc c_name) (asc c_id)) (findMany (customers_where tenantId query) (customers d)))
       presentCustomer"

definition getCustomerOrThrow :: "string \<Rightarrow> string \<Rightarrow> db \<Rightarrow> Customer result" where
  "getCustomerOrThrow tenantId customerId d =
     (case findFirst (\<lambda>c. c_id c = customerId \<and> c_tenantId c = tenantId) (customers d) of
        None \<Rightarrow> Inl (NotFoundException ''Customer was not found.'')
      | Some c \<Rightarrow> Inr c)"

definition getCustomer :: "string \<Rightarrow> string \<Rightarrow> db \<Rightarrow> CustomerDto result" where
  "getCustomer tenantId customerId d =
     bindE (getCustomerOrThrow tenantId customerId d) (\<lambda>c. Inr (presentCustomer c))"

definition listAddresses :: "string \<Rightarrow> string \<Rightarrow> db \<Rightarrow> CustomerAddressDto list result" where
  "listAddresses tenantId customerId d =
     bindE (getCustomerOrThrow tenantId customerId d) (\<lambda>_.
       Inr (map presentAddress
         (orderBy (then_by (desc ca_main) (then_by (desc ca_pickup)
                    (then_by (desc ca_delivery) (asc ca_createdAt))))
           (findMany (\<lambda>a. ca_customerId a = customerId \<and> ca_tenantId a = tenantId)
             (customerAddresses d)))))"

section \<open>Writes\<close>

definition customer_conflict :: "Customer \<Rightarrow> Customer \<Rightarrow> bool" where
  "customer_conflict r x =
     (c_tenantId r = c_tenantId x \<and> c_document r \<noteq> None \<and> c_document r = c_document x)"

definition handleCustomerPersistenceError :: "prisma_code \<Rightarrow> http_error" where
  "handleCustomerPersistenceError e =
     (if e = P2002 then ConflictException ''Customer document already exists in this tenant.''
      else PrismaKnownError e)"

text \<open>
  A field that is read with \<open>normalizeOptional\<close> when it is not \<open>undefined\<close>: on \<open>null\<close> the
  call of \<open>trim\<close> throws.
\<close>

definition optional_field :: "string nullable \<Rightarrow> string option option result" where
  "optional_field v =
     (case v of Undefined \<Rightarrow> Inr None | Null \<Rightarrow> Inl (InternalError ''TypeError'')
      | Value s \<Rightarrow> Inr (Some (normalizeOptional s)))"

definition document_field :: "string nullable \<Rightarrow> string option option" where
  "document_field v =
     (case v of Undefined \<Rightarrow> None | Null \<Rightarrow> Some None | Value s \<Rightarrow> Some (normalizeDocument s))"

definition validate_document_field :: "string option option \<Rightarrow> unit result" where
  "validate_document_field v = validateDocument (coalesce v None)"

definition customer_audit :: "date \<Rightarrow> string \<Rightarrow> string \<Rightarrow> string \<Rightarrow> string \<Rightarrow> json \<Rightarrow> db \<Rightarrow> db" where
  "customer_audit now tenantId actorId entityId entityType metadata =
     record_audit now (audit_of CUSTOMER_CHANGED actorId entityId entityType metadata tenantId)"

definition createCustomer ::
  "date \<Rightarrow> string \<Rightarrow> string \<Rightarrow> CreateCustomerDto \<Rightarrow> CustomerDto handler" where
  "createCustomer now tenantId actorId i d =
     (let document = document_field (cc_document i) in
      case validate_document_field document of Inl e \<Rightarrow> (Inl e, d) | Inr _ \<Rightarrow>
      case optional_field (cc_email i) of Inl e \<Rightarrow> (Inl e, d) | Inr email \<Rightarrow>
      case optional_field (cc_phone i) of Inl e \<Rightarrow> (Inl e, d) | Inr phone \<Rightarrow>
        let customer = \<lparr> c_id = new_id d, c_tenantId = tenantId, c_name = trim (cc_name i),
              c_document = coalesce document None, c_email = coalesce email None,
              c_phone = coalesce phone None, c_active = True, c_createdAt = now,
              c_updatedAt = now \<rparr> in
        case create_row customer_conflict customer (customers d) of
          Inl e \<Rightarrow> (Inl (handleCustomerPersistenceError e), d)
        | Inr t \<Rightarrow>
            (Inr (presentCustomer customer),
             customer_audit now tenantId actorId (c_id customer) ''Customer''
               (JObj [(''operation'', JStr ''create'')]) (bump (d\<lparr>customers := t\<rparr>))))"

definition apply_customer_update ::
  "date \<Rightarrow> string option option \<Rightarrow> string option option \<Rightarrow> string option \<Rightarrow> string option option
    \<Rightarrow> Customer \<Rightarrow> Customer" where
  "apply_customer_update now document email name phone c =
     c\<lparr>c_document := coalesce document (c_document c), c_email := coalesce email (c_email c),
       c_name := coalesce name (c_name c), c_phone := coalesce phone (c_phone c),
       c_updatedAt := now\<rparr>"

definition updateCustomer ::
  "date \<Rightarrow> string \<Rightarrow> string \<Rightarrow> string \<Rightarrow> UpdateCustomerDto \<Rightarrow> CustomerDto handler" where
  "updateCustomer now tenantId actorId customerId i d =
     (case getCustomerOrThrow tenantId customerId d of Inl e \<Rightarrow> (Inl e, d) | Inr current \<Rightarrow>
      let document = document_field (uc_document i) in
      case validate_document_field document of Inl e \<Rightarrow> (Inl e, d) | Inr _ \<Rightarrow>
      case optional_field (uc_email i) of Inl e \<Rightarrow> (Inl e, d) | Inr email \<Rightarrow>
      if uc_name i = Null then (Inl (InternalError ''TypeError''), d) else
      case optional_field (uc_phone i) of Inl e \<Rightarrow> (Inl e, d) | Inr phone \<Rightarrow>
      case update_row c_id customer_conflict (c_id current)
             (apply_customer_update now document email (map_option trim (to_option (uc_name i))) phone)
             (customers d) of
        Inl e \<Rightarrow> (Inl (handleCustomerPersistenceError e), d)
      | Inr (customer, t) \<Rightarrow>
          (Inr (presentCustomer customer),
           customer_audit now tenantId actorId (c_id customer) ''Customer''
             (JObj [(''operation'', JStr ''update'')]) (d\<lparr>customers := t\<rparr>)))"

definition updateCustomerStatus ::
  "date \<Rightarrow> string \<Rightarrow> string \<Rightarrow> string \<Rightarrow> bool \<Rightarrow> CustomerDto handler" where
  "updateCustomerStatus now tenantId actorId customerId active d =
     (case getCustomerOrThrow tenantId customerId d of Inl e \<Rightarrow> (Inl e, d) | Inr current \<Rightarrow>
      case update_row c_id customer_conflict (c_id current)
             (\<lambda>c. c\<lparr>c_active := active, c_updatedAt := now\<rparr>) (customers d) of
        Inl e \<Rightarrow> (Inl (PrismaKnownError e), d)
      | Inr (customer, t) \<Rightarrow>
          (Inr (presentCustomer customer),
           customer_audit now tenantId actorId (c_id customer) ''Customer''
             (JObj [(''operation'', JStr (if active then ''activate'' else ''deactivate''))])
             (d\<lparr>customers := t\<rparr>)))"

definition createAddress ::
  "date \<Rightarrow> string \<Rightarrow> string \<Rightarrow> string \<Rightarrow> CreateCustomerAddressDto \<Rightarrow> CustomerAddressDto handler" where
  "createAddress now tenantId actorId customerId i d =
     (case getCustomerOrThrow tenantId customerId d of Inl e \<Rightarrow> (Inl e, d) | Inr _ \<Rightarrow>
      let t = (if nn (cad_main i) False
               then updateMany (\<lambda>a. ca_tenantId a = tenantId \<and> ca_customerId a = customerId \<and> ca_main a)
                      (\<lambda>a. a\<lparr>ca_main := False\<rparr>) (customerAddresses d)
               else customerAddresses d);
          address = \<lparr> ca_id = new_id d, ca_tenantId = tenantId, ca_customerId = customerId,
            ca_type = toAddressType (to_option (cad_type i)),
            ca_label = normalizeOptional (nn (cad_label i) ''''),
            ca_postalCode = onlyDigits (cad_postalCode i), ca_street = trim (cad_street i),
            ca_number = normalizeOptional (nn (cad_number i) ''''),
            ca_complement = normalizeOptional (nn (cad_complement i) ''''),
            ca_district = normalizeOptional (nn (cad_district i) ''''),
            ca_city = trim (cad_city i), ca_state = toUpperCase (trim (cad_state i)),
            ca_country = ''BR'', ca_latitude = None, ca_longitude = None,
            ca_main = nn (cad_main i) False, ca_pickup = nn (cad_pickup i) False,
            ca_delivery = nn (cad_delivery i) False, ca_active = True, ca_createdAt = now \<rparr>
      in (Inr (presentAddress address),
          customer_audit now tenantId actorId customerId ''CustomerAddress''
            (JObj [(''operation'', JStr ''create_address''), (''addressId'', JStr (ca_id address))])
            (bump (d\<lparr>customerAddresses := t @ [address]\<rparr>))))"

lemmas customer_handlers =
  createCustomer_def updateCustomer_def updateCustomerStatus_def createAddress_def

section \<open>The invariant\<close>

interpretation customer_table: table c_id customer_conflict
  by unfold_locales (simp add: customer_conflict_def, metis)

definition valid_document :: "string option \<Rightarrow> bool" where
  "valid_document v = (case v of None \<Rightarrow> True | Some s \<Rightarrow> isValidDocument s)"

definition address_owner :: "CustomerAddress \<Rightarrow> string \<times> string" where
  "address_owner a = (ca_tenantId a, ca_customerId a)"

definition customer_key :: "Customer \<Rightarrow> string \<times> string" where
  "customer_key c = (c_tenantId c, c_id c)"

definition customers_ok :: "db \<Rightarrow> bool" where
  "customers_ok d \<longleftrightarrow>
     wf_table c_id customer_conflict (customers d)
     \<and> (\<forall>c \<in> set (customers d). old_id d (c_id c) \<and> valid_document (c_document c))
     \<and> address_owner ` set (customerAddresses d) \<subseteq> customer_key ` set (customers d)
     \<and> distinct (map address_owner (filter ca_main (customerAddresses d)))"

lemma customers_ok_cong:
  assumes "customers_ok d" "customers d' = customers d" "customerAddresses d' = customerAddresses d"
    "next_id d \<le> next_id d'"
  shows "customers_ok d'"
  using assms by (auto simp: customers_ok_def intro: old_id_mono)

text \<open>Adding a customer, changing one and adding an address, as the services and the import do.\<close>

lemma add_customer_ok:
  assumes "customers_ok d" "create_row customer_conflict c (customers d) = Inr t"
    "c_id c = new_id d" "valid_document (c_document c)"
  shows "customers_ok (bump (d\<lparr>customers := t\<rparr>))"
proof -
  have t: "t = customers d @ [c]"
    using assms(2) by (simp add: create_Inr)
  have "c_id c \<notin> c_id ` set (customers d)"
    using assms(1,3) new_id_fresh [of d] by (auto simp: customers_ok_def)
  then have "wf_table c_id customer_conflict t"
    using assms(1,2) customer_table.wf_create by (auto simp: customers_ok_def)
  then show ?thesis
    using assms(1,3,4) t old_id_mono [of d _ "bump (d\<lparr>customers := t\<rparr>)"]
      old_id_new_id [of d "bump (d\<lparr>customers := t\<rparr>)"]
    by (auto simp: customers_ok_def)
qed

lemma change_customer_ok:
  assumes "customers_ok d" "update_row c_id customer_conflict i f (customers d) = Inr (r, t)"
    "\<And>c. c_id (f c) = c_id c" "\<And>c. c_tenantId (f c) = c_tenantId c"
    "\<And>c. valid_document (c_document c) \<Longrightarrow> valid_document (c_document (f c))"
  shows "customers_ok (d\<lparr>customers := t\<rparr>)"
proof -
  have t: "t = map (\<lambda>x. if c_id x = i then f x else x) (customers d)"
    using update_InrD [OF assms(2)] by blast
  have keys: "customer_key ` set t = customer_key ` set (customers d)"
  proof -
    have "map customer_key t = map customer_key (customers d)"
      by (simp add: t customer_key_def assms(3,4))
    then show ?thesis by (metis set_map)
  qed
  have "wf_table c_id customer_conflict t"
    using customer_table.wf_update [OF assms(2) _ assms(3)] assms(1)
    by (simp add: customers_ok_def)
  then show ?thesis
    using assms(1,3,5) keys by (auto simp: customers_ok_def t old_id_def)
qed

lemma add_address_ok:
  assumes "customers_ok d" "c \<in> set (customers d)" "address_owner a = customer_key c"
    "t = (if ca_main a then updateMany (\<lambda>x. ca_tenantId x = c_tenantId c \<and> ca_customerId x = c_id c
           \<and> ca_main x) (\<lambda>x. x\<lparr>ca_main := False\<rparr>) (customerAddresses d) else customerAddresses d)"
  shows "customers_ok (bump (d\<lparr>customerAddresses := t @ [a]\<rparr>))"
proof -
  have own: "address_owner (x\<lparr>ca_main := v\<rparr>) = address_owner x" for x v
    by (simp add: address_owner_def)
  have owners: "address_owner ` set t = address_owner ` set (customerAddresses d)"
  proof -
    have "map address_owner t = map address_owner (customerAddresses d)"
      using assms(4) own by (simp add: map_updateMany)
    then show ?thesis by (metis set_map)
  qed
  define mains where "mains t = map address_owner (filter ca_main t)" for t
  have mains: "mains (updateMany p (\<lambda>x. x\<lparr>ca_main := False\<rparr>) xs)
      = map address_owner (filter (\<lambda>x. ca_main x \<and> \<not> p x) xs)" for p xs
    by (induction xs) (simp_all add: mains_def updateMany_def)
  have "distinct (mains t)"
  proof (cases "ca_main a")
    case True
    have "distinct (map address_owner (filter (\<lambda>x. ca_main x \<and> \<not> p x) (customerAddresses d)))" for p
      using assms(1) distinct_map_filter [of address_owner "filter ca_main (customerAddresses d)" "\<lambda>x. \<not> p x"]
      by (simp add: customers_ok_def conj_commute)
    then show ?thesis using True assms(4) by (simp only: mains if_True)
  next
    case False
    then show ?thesis using assms(1,4) by (simp add: customers_ok_def mains_def)
  qed
  moreover have "address_owner a \<notin> set (mains t)" if "ca_main a"
    using that assms(3,4) mains by (auto simp: address_owner_def customer_key_def)
  ultimately have "distinct (mains (t @ [a]))"
    by (simp add: mains_def)
  then show ?thesis
    using assms(1-3) owners by (auto simp: customers_ok_def mains_def old_id_def)
qed

section \<open>The handlers keep the invariant and stay in their tenant\<close>

lemma validate_document_field_valid:
  assumes "validate_document_field (document_field v) = Inr u"
  shows "valid_document (coalesce (document_field v) None)"
proof -
  have "valid_document (normalizeDocument s)" if "validateDocument (normalizeDocument s) = Inr u" for s
    using that by (auto simp: valid_document_def normalizeDocument_def or_null_def validateDocument_def
        isValidDocument_def cpf_agree cnpj_agree onlyDigits_digits split: if_splits)
  then show ?thesis
    using assms by (cases v) (auto simp: validate_document_field_def document_field_def valid_document_def)
qed

lemma getCustomerOrThrow_Inr:
  "getCustomerOrThrow tn i d = Inr c \<Longrightarrow> c \<in> set (customers d) \<and> c_id c = i \<and> c_tenantId c = tn"
  by (auto simp: getCustomerOrThrow_def split: option.splits dest: findFirst_SomeD)

lemma apply_customer_update_keeps:
  "c_id (apply_customer_update now doc email name phone c) = c_id c"
  "c_tenantId (apply_customer_update now doc email name phone c) = c_tenantId c"
  by (simp_all add: apply_customer_update_def)

lemma apply_customer_update_document:
  assumes "validate_document_field (document_field v) = Inr u" "valid_document (c_document c)"
  shows "valid_document (c_document (apply_customer_update now (document_field v) email name phone c))"
  using validate_document_field_valid [OF assms(1)] assms(2)
  by (cases v) (auto simp: apply_customer_update_def document_field_def)

lemma customer_audit_ok:
  "customers_ok d \<Longrightarrow> customers_ok (customer_audit now tn actor i t m d)"
  by (rule customers_ok_cong [of d]) (simp_all add: customer_audit_def)

lemma createCustomer_ok:
  "customers_ok d \<Longrightarrow> ensures (\<lambda>r. customers_ok) (createCustomer now tn actor i d)"
  unfolding createCustomer_def
  by (intro ensures_intros)
    (auto intro!: customer_audit_ok intro: add_customer_ok dest!: validate_document_field_valid)

lemma updateCustomer_ok:
  "customers_ok d \<Longrightarrow> ensures (\<lambda>r. customers_ok) (updateCustomer now tn actor i u d)"
  unfolding updateCustomer_def
  by (intro ensures_intros) (auto intro!: customer_audit_ok
      intro: change_customer_ok apply_customer_update_keeps apply_customer_update_document)

lemma updateCustomerStatus_ok:
  "customers_ok d \<Longrightarrow> ensures (\<lambda>r. customers_ok) (updateCustomerStatus now tn actor i active d)"
  unfolding updateCustomerStatus_def
  by (intro ensures_intros) (auto intro!: customer_audit_ok intro: change_customer_ok)

lemma createAddress_ok:
  "customers_ok d \<Longrightarrow> ensures (\<lambda>r. customers_ok) (createAddress now tn actor i u d)"
  unfolding createAddress_def
  by (intro ensures_intros) (auto intro!: customer_audit_ok add_address_ok
      dest!: getCustomerOrThrow_Inr simp: address_owner_def customer_key_def)

text \<open>The rows of other tenants a handler must leave alone.\<close>

definition foreign_customers :: "string \<Rightarrow> db \<Rightarrow> Customer list \<times> CustomerAddress list" where
  "foreign_customers tn d = (others c_tenantId tn (customers d), others ca_tenantId tn (customerAddresses d))"

lemma foreign_customers_bump [simp]:
  "foreign_customers tn (bump d) = foreign_customers tn d"
  "foreign_customers tn (record_audit now i d) = foreign_customers tn d"
  "foreign_customers tn (customer_audit now tn' actor j t m d) = foreign_customers tn d"
  by (simp_all add: foreign_customers_def customer_audit_def)

lemma change_customer_foreign:
  assumes "customers_ok d" "update_row c_id customer_conflict (c_id c) f (customers d) = Inr (r, t)"
    "getCustomerOrThrow tn i d = Inr c" "\<And>c. c_tenantId (f c) = c_tenantId c"
  shows "foreign_customers tn (d\<lparr>customers := t\<rparr>) = foreign_customers tn d"
  using others_update [OF assms(2)] getCustomerOrThrow_Inr [OF assms(3)] assms(1,4)
  by (auto simp: foreign_customers_def customers_ok_def)

lemma createCustomer_foreign:
  "ensures (\<lambda>r d'. foreign_customers tn d' = foreign_customers tn d) (createCustomer now tn actor i d)"
  unfolding createCustomer_def
  by (intro ensures_intros) (auto simp: foreign_customers_def customer_audit_def intro: others_create)

lemma updateCustomer_foreign:
  "customers_ok d \<Longrightarrow>
   ensures (\<lambda>r d'. foreign_customers tn d' = foreign_customers tn d) (updateCustomer now tn actor i u d)"
  unfolding updateCustomer_def
  by (intro ensures_intros) (auto intro: change_customer_foreign apply_customer_update_keeps)

lemma updateCustomerStatus_foreign:
  "customers_ok d \<Longrightarrow>
   ensures (\<lambda>r d'. foreign_customers tn d' = foreign_customers tn d)
     (updateCustomerStatus now tn actor i active d)"
  unfolding updateCustomerStatus_def
  by (intro ensures_intros) (auto intro: change_customer_foreign)

lemma others_reset_main [simp]:
  "others ca_tenantId tn (updateMany (\<lambda>a. ca_tenantId a = tn \<and> p a) (ca_main_update (\<lambda>_. v)) t)
   = others ca_tenantId tn t"
  by (rule others_updateMany) auto

lemma createAddress_foreign:
  "ensures (\<lambda>r d'. foreign_customers tn d' = foreign_customers tn d) (createAddress now tn actor i u d)"
  unfolding createAddress_def
  by (intro ensures_intros)
    (auto simp: foreign_customers_def customer_audit_def others_append others_single others_updateMany)

section \<open>Runs of the service\<close>

text \<open>The requests of tenant \<open>tn\<close> that change state.\<close>

inductive customer_step :: "string \<Rightarrow> db \<Rightarrow> db \<Rightarrow> bool" for tn where
  create: "customer_step tn d (snd (createCustomer now tn actor i d))"
| update: "customer_step tn d (snd (updateCustomer now tn actor customerId u d))"
| status: "customer_step tn d (snd (updateCustomerStatus now tn actor customerId active d))"
| address: "customer_step tn d (snd (createAddress now tn actor customerId a d))"

lemmas customer_handlers_ok =
  createCustomer_ok updateCustomer_ok updateCustomerStatus_ok createAddress_ok
lemmas customer_handlers_foreign =
  createCustomer_foreign updateCustomer_foreign updateCustomerStatus_foreign createAddress_foreign

lemma customer_step_ok: "customer_step tn d d' \<Longrightarrow> customers_ok d \<Longrightarrow> customers_ok d'"
  by (induction rule: customer_step.induct) (simp_all add: customer_handlers_ok flip: ensures_snd)

lemma customer_step_foreign:
  "customer_step tn d d' \<Longrightarrow> customers_ok d \<Longrightarrow> foreign_customers tn d' = foreign_customers tn d"
  by (induction rule: customer_step.induct)
    (simp_all add: customer_handlers_foreign [unfolded ensures_snd])

definition example_customer :: CreateCustomerDto where
  "example_customer = \<lparr> cc_name = ''Loja Beta'', cc_document = Value ''123.456.789-09'',
     cc_email = Undefined, cc_phone = Undefined \<rparr>"

definition example_row :: Customer where
  "example_row = \<lparr> c_id = nat_str 0, c_tenantId = ''t1'', c_name = ''Loja Beta'',
     c_document = Some ''12345678909'', c_email = None, c_phone = None, c_active = True,
     c_createdAt = 0, c_updatedAt = 0 \<rparr>"

lemma example_document: "document_field (cc_document example_customer) = Some (Some ''12345678909'')"
  by code_simp

lemma example_valid: "validate_document_field (Some (Some ''12345678909'')) = Inr ()"
  by code_simp

lemma example_create:
  "createCustomer 0 ''t1'' ''u1'' example_customer empty_db =
     (Inr (presentCustomer example_row),
      customer_audit 0 ''t1'' ''u1'' (nat_str 0) ''Customer'' (JObj [(''operation'', JStr ''create'')])
        (bump (empty_db\<lparr>customers := [example_row]\<rparr>)))"
proof -
  have t: "trim ''Loja Beta'' = ''Loja Beta''" by code_simp
  have c: "create_row customer_conflict c (customers empty_db) = Inr [c]" for c
    by (simp add: create_row_def empty_db_def)
  have n: "new_id empty_db = nat_str 0"
    by (simp add: new_id_def empty_db_def)
  have f: "cc_name example_customer = ''Loja Beta''" "cc_email example_customer = Undefined"
    "cc_phone example_customer = Undefined"
    by (simp_all add: example_customer_def)
  show ?thesis
    by (simp add: createCustomer_def Let_def example_document example_valid c n t f
        example_row_def optional_field_def)
qed

lemma empty_customers_ok: "customers_ok empty_db"
  by (simp add: customers_ok_def wf_table_def empty_db_def)

text \<open>
  C21: however the requests of one tenant are ordered, the customers table keeps its invariant
  (unique and valid documents, addresses of known customers, one main address each) and the
  rows of every other tenant stay as they are.
\<close>

theorem customer_service_safe:
  assumes "customers_ok d" "(customer_step tn)\<^sup>*\<^sup>* d d'"
  shows "customers_ok d' \<and> foreign_customers tn d' = foreign_customers tn d"
  using assms(2,1)
  by (induction rule: rtranclp_induct) (auto dest: customer_step_ok customer_step_foreign)

theorem customer_service_safe_witness:
  "customers_ok (snd (createCustomer 0 ''t1'' ''u1'' example_customer empty_db))
   \<and> map c_document (customers (snd (createCustomer 0 ''t1'' ''u1'' example_customer empty_db)))
     = [Some ''12345678909'']"
proof -
  have "(customer_step ''t1'')\<^sup>*\<^sup>* empty_db
      (snd (createCustomer 0 ''t1'' ''u1'' example_customer empty_db))"
    by (rule r_into_rtranclp) (rule customer_step.create)
  from customer_service_safe [OF empty_customers_ok this] show ?thesis
    by (simp add: example_create customer_audit_def) (simp add: example_row_def)
qed

text \<open>
  A created customer can be read back by its tenant, exactly as the response showed it, and
  by no other tenant; the response carries the normalised document.
\<close>

theorem create_then_get:
  assumes "customers_ok d" "createCustomer now tn actor i d = (Inr dto, d')"
  shows "getCustomer tn (cd_id dto) d' = Inr dto
    \<and> (\<forall>tn'. tn' \<noteq> tn \<longrightarrow>
         getCustomer tn' (cd_id dto) d' = Inl (NotFoundException ''Customer was not found.''))
    \<and> cd_document dto = coalesce (document_field (cc_document i)) None"
proof -
  have "ensures (\<lambda>r d'. \<forall>dto. r = Inr dto \<longrightarrow> (\<exists>c. customers d' = customers d @ [c] \<and> c_id c = new_id d
      \<and> c_tenantId c = tn \<and> dto = presentCustomer c
      \<and> c_document c = coalesce (document_field (cc_document i)) None))
      (createCustomer now tn actor i d)"
    unfolding createCustomer_def
    by (intro ensures_intros) (auto simp: create_Inr customer_audit_def)
  from ensuresD [OF this assms(2)] obtain c where c: "customers d' = customers d @ [c]"
    "c_id c = new_id d" "c_tenantId c = tn" "dto = presentCustomer c"
    "c_document c = coalesce (document_field (cc_document i)) None"
    by blast
  have "\<forall>x \<in> set (customers d). c_id x \<noteq> c_id c"
    using assms(1) c(2) new_id_fresh [of d] by (auto simp: customers_ok_def)
  then have "find (\<lambda>x. c_id x = c_id c \<and> c_tenantId x = tn') (customers d) = None" for tn'
    by (simp add: find_None_iff_set)
  then have "find (\<lambda>x. c_id x = c_id c \<and> c_tenantId x = tn') (customers d @ [c])
      = (if tn' = tn then Some c else None)" for tn'
    using c(3) by (simp add: find_append)
  then show ?thesis
    using c by (auto simp: getCustomer_def getCustomerOrThrow_def findFirst_def presentCustomer_def)
qed

theorem create_then_get_witness:
  "getCustomer ''t1'' (nat_str 0) (snd (createCustomer 0 ''t1'' ''u1'' example_customer empty_db))
     = Inr (presentCustomer example_row)"
proof -
  have "cd_id (presentCustomer example_row) = nat_str 0"
    by (simp add: presentCustomer_def example_row_def)
  then show ?thesis
    using create_then_get [OF empty_customers_ok example_create] by (simp add: example_create)
qed

text \<open>
  A search text without digits matches every customer that has a document, whatever its
  name, because the document filter looks for the digits of the text.
\<close>

theorem search_without_digits:
  assumes "onlyDigits text = []"
  shows "customers_where tn \<lparr> lc_search = Some text, lc_active = None, lc_page = p, lc_perPage = k \<rparr> c
    = (c_tenantId c = tn \<and> (trim text = [] \<or> c_document c \<noteq> None \<or> includes_str (c_name c) (trim text)))"
proof -
  have "includes_str s []" for s
    by (cases s) simp_all
  then show ?thesis
    using assms by (auto simp: customers_where_def contains_opt_def split: option.splits)
qed

theorem search_without_digits_witness:
  "customers_where ''t1'' \<lparr> lc_search = Some ''zzz'', lc_active = None, lc_page = 1, lc_perPage = 20 \<rparr>
     example_row"
  using search_without_digits [of "''zzz''" "''t1''" 1 20 example_row]
  by (simp add: onlyDigits_def is_digit_def ccode_def example_row_def)

text \<open>
  A body with a null e-mail passes the validation of optional fields but ends in an
  internal error when its document is valid.
\<close>

theorem null_email_fails:
  assumes "validate_document_field (document_field (cc_document i)) = Inr ()" "cc_email i = Null"
  shows "createCustomer now tn actor i d = (Inl (InternalError ''TypeError''), d)"
  using assms by (simp add: createCustomer_def optional_field_def)

theorem null_email_fails_witness:
  "createCustomer 0 ''t1'' ''u1'' (example_customer\<lparr>cc_email := Null\<rparr>) empty_db
     = (Inl (InternalError ''TypeError''), empty_db)"
  by (rule null_email_fails) (simp_all add: example_customer_def document_field_def
      validate_document_field_def normalizeDocument_def, code_simp)

end
