(* ===== verification/Dates.thy ===== *)
theory Dates
  imports Prelude
begin

text \<open>
  The part of JavaScript's \<open>Date\<close> the services use: reading the ISO forms \<open>YYYY-MM-DD\<close>
  (midnight UTC) and \<open>YYYY-MM-DDTHH:MM:SS.sssZ\<close>, and the year of a date. Dates are
  milliseconds since the epoch. A text in another form is an invalid date, here \<open>None\<close>.
\<close>

definition days_from_civil :: "int \<Rightarrow> int \<Rightarrow> int \<Rightarrow> int" where
  "days_from_civil y m d =
     (let y = (if m \<le> 2 then y - 1 else y);
          era = y div 400;
          yoe = y - era * 400;
          doy = (153 * (m + (if m > 2 then -3 else 9)) + 2) div 5 + d - 1;
          doe = yoe * 365 + yoe div 4 - yoe div 100 + doy
      in era * 146097 + doe - 719468)"

definition year_of_days :: "int \<Rightarrow> int" where
  "year_of_days days =
     (let z = days + 719468;
          era = z div 146097;
          doe = z - era * 146097;
          yoe = (doe - doe div 1460 + doe div 36524 - doe div 146096) div 365;
          doy = doe - (365 * yoe + yoe div 4 - yoe div 100);
          mp = (5 * doy + 2) div 153
      in yoe + era * 400 + (if mp < 10 then 0 else 1))"

definition getUTCFullYear :: "int \<Rightarrow> int" where
  "getUTCFullYear t = year_of_days (t div 86400000)"

definition num_at :: "string \<Rightarrow> nat \<Rightarrow> nat \<Rightarrow> int option" where
  "num_at s from len =
     (let w = take len (drop from s) in
      if length w = len \<and> list_all is_digit w then Some (int (number_of_digits w)) else None)"

definition parse_day :: "string \<Rightarrow> int option" where
  "parse_day s =
     (case (num_at s 0 4, num_at s 5 2, num_at s 8 2) of
        (Some y, Some m, Some d) \<Rightarrow>
          if take 1 (drop 4 s) = ''-'' \<and> take 1 (drop 7 s) = ''-'' \<and> 1 \<le> m \<and> m \<le> 12 \<and> 1 \<le> d \<and> d \<le> 31
          then Some (days_from_civil y m d * 86400000) else None
      | _ \<Rightarrow> None)"

definition parse_time :: "string \<Rightarrow> int option" where
  "parse_time s =
     (case (num_at s 1 2, num_at s 4 2, num_at s 7 2, num_at s 10 3) of
        (Some h, Some m, Some sec, Some ms) \<Rightarrow>
          if length s = 14 \<and> take 1 s = ''T'' \<and> take 1 (drop 3 s) = '':'' \<and> take 1 (drop 6 s) = '':''
             \<and> take 1 (drop 9 s) = ''.'' \<and> drop 13 s = ''Z'' \<and> h \<le> 23 \<and> m \<le> 59 \<and> sec \<le> 59
          then Some (((h * 60 + m) * 60 + sec) * 1000 + ms) else None
      | _ \<Rightarrow> None)"

definition new_Date :: "string \<Rightarrow> int option" where
  "new_Date s =
     (case parse_day s of
        None \<Rightarrow> None
      | Some day \<Rightarrow>
          if length s = 10 then Some day
          else map_option (\<lambda>t. day + t) (parse_time (drop 10 s)))"

lemma new_Date_day: "new_Date ''2026-07-24'' = Some 1784851200000"
  by code_simp

lemma new_Date_time: "new_Date ''2026-07-24T23:59:59.999Z'' = Some 1784937599999"
  by code_simp

lemma new_Date_day_end:
  assumes "length s = 10"
  shows "new_Date (s @ ''T23:59:59.999Z'') = map_option (\<lambda>day. day + 86399999) (parse_day s)"
proof -
  have t: "parse_time ''T23:59:59.999Z'' = Some 86399999"
    by code_simp
  have n: "num_at (s @ t) 0 4 = num_at s 0 4" "num_at (s @ t) 5 2 = num_at s 5 2"
    "num_at (s @ t) 8 2 = num_at s 8 2" for t
    using assms by (simp_all add: num_at_def Let_def)
  have c: "take 1 (drop 4 (s @ t)) = take 1 (drop 4 s)" "take 1 (drop 7 (s @ t)) = take 1 (drop 7 s)" for t
    using assms by simp_all
  have "parse_day (s @ t) = parse_day s" for t
    by (simp only: parse_day_def n c)
  then show ?thesis
    using assms by (simp add: new_Date_def t split: option.splits)
qed

lemma getUTCFullYear_example: "getUTCFullYear 1784937599999 = 2026"
  by code_simp

end
