(* ===== verification/Logistics.thy ===== *)
theory Logistics
  imports Schema Dates
begin

text \<open>
  \<open>logistics-admin.service.ts\<close>: rate tables and their versions, coverages, shipments and the
  tracking of a shipment. The status of a shipment moves along \<open>transitions\<close> only; a rate
  table that a simulation has used keeps its prices; validated weight ranges do not overlap.
\<close>

section \<open>Requests\<close>

record ListAdminLogisticsDto =
  la_search :: "string option"
  la_status :: "ShipmentStatus option"
  la_startDate :: "string option"
  la_endDate :: "string option"
  la_page :: nat
  la_perPage :: nat

text \<open>Date strings of a body are given as the instant they denote.\<close>

record CreateTrackingEventDto =
  ct_eventType :: TrackingEventType
  ct_status :: "ShipmentStatus option"
  ct_description :: "string option"
  ct_occurredAt :: date
  ct_location :: "string option"
  ct_externalCode :: "string option"
  ct_idempotencyKey :: "string option"

record CoverageDto =
  cvi_carrierServiceId :: string
  cvi_originState :: "string option"
  cvi_destinationState :: "string option"
  cvi_originPostalCodeStart :: "string option"
  cvi_originPostalCodeEnd :: "string option"
  cvi_destinationPostalCodeStart :: "string option"
  cvi_destinationPostalCodeEnd :: "string option"

record CoverageTestDto =
  cvt_originPostalCode :: string
  cvt_destinationPostalCode :: string
  cvt_carrierServiceId :: "string option"

record RateRangeInputDto = RateInput +
  rri_priority :: "int option"

record RateChargeInputDto = ChargeInput +
  rci_active :: "bool option"

record RateTableInputDto =
  rti_name :: string
  rti_carrierServiceId :: string
  rti_currency :: string
  rti_validFrom :: date
  rti_validTo :: "date option"
  rti_notes :: "string option"
  rti_status :: "EntityStatus option"
  rti_coverageIds :: "string list option"
  rti_ranges :: "RateRangeInputDto list"
  rti_charges :: "RateChargeInputDto list"

section \<open>Weight ranges\<close>

fun check_ranges :: "'a RateInput_scheme list \<Rightarrow> unit result" where
  "check_ranges [] = Inr ()"
| "check_ranges (r # rest) =
     (if maxWeightKg r \<le> minWeightKg r \<or> basePrice r < 0 \<or> pricePerKg r < 0
         \<or> deadlineDays r < 1
      then Inl (BadRequestException (''Faixa de peso inv'' @ [CHR 0xE1] @ ''lida.''))
      else check_ranges rest)"

fun check_overlap :: "'a RateInput_scheme list \<Rightarrow> unit result" where
  "check_overlap (previous # current # rest) =
     (if minWeightKg current \<le> maxWeightKg previous
      then Inl (BadRequestException ''Faixas de peso sobrepostas.'')
      else check_overlap (current # rest))"
| "check_overlap _ = Inr ()"

definition validateRanges :: "'a RateInput_scheme list \<Rightarrow> unit result" where
  "validateRanges ranges =
     (let ordered = orderBy (asc minWeightKg) ranges in
      bindE (check_ranges ordered) (\<lambda>_. check_overlap ordered))"

section \<open>Rate tables\<close>

definition rate_table_conflict :: "FreightRateTable \<Rightarrow> FreightRateTable \<Rightarrow> bool" where
  "rate_table_conflict r x =
     (rt_tenantId r = rt_tenantId x \<and> rt_carrierServiceId r = rt_carrierServiceId x
      \<and> rt_version r = rt_version x)"

record RateTableListItem =
  rl_id :: string
  rl_carrierServiceId :: string
  rl_carrierName :: string
  rl_serviceName :: string
  rl_name :: string
  rl_version :: nat
  rl_currency :: string
  rl_validFrom :: date
  rl_validTo :: "date option"
  rl_status :: EntityStatus
  rl_ranges :: "FreightRateRange list"
  rl_charges :: "FreightAdditionalCharge list"

record RateTableDetail =
  rd_id :: string
  rd_tenantId :: string
  rd_carrierServiceId :: string
  rd_carrierName :: string
  rd_serviceName :: string
  rd_name :: string
  rd_version :: nat
  rd_currency :: string
  rd_validFrom :: date
  rd_validTo :: "date option"
  rd_notes :: "string option"
  rd_status :: EntityStatus
  rd_usedInSimulations :: nat
  rd_previousVersion :: "(string \<times> nat) option"
  rd_versions :: "(string \<times> nat \<times> EntityStatus \<times> date) list"
  rd_coverages :: "CarrierCoverage list"
  rd_ranges :: "FreightRateRange list"
  rd_charges :: "FreightAdditionalCharge list"

instantiation EntityStatus :: linorder
begin

definition less_eq_EntityStatus :: "EntityStatus \<Rightarrow> EntityStatus \<Rightarrow> bool" where
  "less_eq_EntityStatus a b = (a = ACTIVE \<or> b = INACTIVE)"

definition less_EntityStatus :: "EntityStatus \<Rightarrow> EntityStatus \<Rightarrow> bool" where
  "less_EntityStatus a b = (a = ACTIVE \<and> b = INACTIVE)"

instance
proof
  fix a b c :: EntityStatus
  show "(a < b) = (a \<le> b \<and> \<not> b \<le> a)" "a \<le> a" "a \<le> b \<or> b \<le> a"
    by (cases a; cases b; simp add: less_eq_EntityStatus_def less_EntityStatus_def)+
  show "a \<le> b \<Longrightarrow> b \<le> c \<Longrightarrow> a \<le> c" "a \<le> b \<Longrightarrow> b \<le> a \<Longrightarrow> a = b"
    by (cases a; cases b; cases c; simp add: less_eq_EntityStatus_def)+
qed

end

definition order_ranges :: "FreightRateRange list \<Rightarrow> FreightRateRange list" where
  "order_ranges = orderBy (then_by (asc minWeightKg) (desc rr_priority))"

definition service_of :: "db \<Rightarrow> string \<Rightarrow> CarrierService option" where
  "service_of d i = findFirst (\<lambda>s. cs_id s = i) (carrierServices d)"

definition carrier_of :: "db \<Rightarrow> string \<Rightarrow> Carrier option" where
  "carrier_of d i = findFirst (\<lambda>c. cr_id c = i) (carriers d)"

definition carrier_name :: "db \<Rightarrow> string \<Rightarrow> string \<Rightarrow> string" where
  "carrier_name d tenantId i =
     (case findFirst (\<lambda>c. cr_tenantId c = tenantId \<and> cr_id c = i) (carriers d) of
        None \<Rightarrow> ''Transportadora'' | Some c \<Rightarrow> cr_name c)"

definition present_rate_table_item :: "db \<Rightarrow> string \<Rightarrow> FreightRateTable \<Rightarrow> RateTableListItem" where
  "present_rate_table_item d tenantId t =
     \<lparr> rl_id = rt_id t, rl_carrierServiceId = rt_carrierServiceId t,
       rl_carrierName = (case service_of d (rt_carrierServiceId t) of
          None \<Rightarrow> ''Transportadora'' | Some s \<Rightarrow> carrier_name d tenantId (cs_carrierId s)),
       rl_serviceName = (case service_of d (rt_carrierServiceId t) of None \<Rightarrow> [] | Some s \<Rightarrow> cs_name s),
       rl_name = rt_name t, rl_version = rt_version t, rl_currency = rt_currency t,
       rl_validFrom = rt_validFrom t, rl_validTo = rt_validTo t, rl_status = rt_status t,
       rl_ranges = order_ranges (rt_ranges t),
       rl_charges = orderBy (asc ac_createdAt) (filter ac_active (rt_charges t)) \<rparr>"

definition listRateTables ::
  "string \<Rightarrow> ListAdminLogisticsDto \<Rightarrow> db \<Rightarrow> RateTableListItem PaginatedResult" where
  "listRateTables tenantId query d =
     paginated (la_page query) (la_perPage query)
       (orderBy (then_by (asc rt_status) (desc rt_validFrom))
         (findMany (\<lambda>t. rt_tenantId t = tenantId
            \<and> (case la_search query of None \<Rightarrow> True
               | Some s \<Rightarrow> trim s = [] \<or> includes_str (rt_name t) (trim s))) (freightRateTables d)))
       (present_rate_table_item d tenantId)"

text \<open>The options of the tenant's simulations that were priced with a rate table.\<close>

definition used_in_simulations :: "string \<Rightarrow> string \<Rightarrow> db \<Rightarrow> nat" where
  "used_in_simulations tenantId i d =
     count_rows (\<lambda>opt. fo_rateTableId opt = i)
       (concat (map fs_options (findMany (\<lambda>s. fs_tenantId s = tenantId) (freightSimulations d))))"

definition presentRateTable ::
  "db \<Rightarrow> FreightRateTable \<Rightarrow> CarrierService \<Rightarrow> Carrier \<Rightarrow> nat \<Rightarrow> RateTableDetail" where
  "presentRateTable d t service carrier used =
     \<lparr> rd_id = rt_id t, rd_tenantId = rt_tenantId t, rd_carrierServiceId = rt_carrierServiceId t,
       rd_carrierName = cr_name carrier, rd_serviceName = cs_name service, rd_name = rt_name t,
       rd_version = rt_version t, rd_currency = rt_currency t, rd_validFrom = rt_validFrom t,
       rd_validTo = rt_validTo t, rd_notes = rt_notes t, rd_status = rt_status t,
       rd_usedInSimulations = used,
       rd_previousVersion = (case rt_previousVersionId t of None \<Rightarrow> None
          | Some i \<Rightarrow> map_option (\<lambda>p. (rt_id p, rt_version p))
                       (findFirst (\<lambda>p. rt_id p = i) (freightRateTables d))),
       rd_versions = map (\<lambda>p. (rt_id p, rt_version p, rt_status p, rt_validFrom p))
          (findMany (\<lambda>p. rt_previousVersionId p = Some (rt_id t)) (freightRateTables d)),
       rd_coverages = filter (\<lambda>c. cv_id c \<in> set (rt_coverageIds t)) (carrierCoverages d),
       rd_ranges = order_ranges (rt_ranges t),
       rd_charges = orderBy (then_by (desc ac_active) (asc ac_createdAt)) (rt_charges t) \<rparr>"

definition find_rate_table :: "string \<Rightarrow> string \<Rightarrow> db \<Rightarrow> FreightRateTable result" where
  "find_rate_table tenantId i d =
     (case findFirst (\<lambda>t. rt_id t = i \<and> rt_tenantId t = tenantId) (freightRateTables d) of
        None \<Rightarrow> Inl (NotFoundException ''Freight rate table was not found.'')
      | Some t \<Rightarrow> Inr t)"

definition getRateTable :: "string \<Rightarrow> string \<Rightarrow> db \<Rightarrow> RateTableDetail result" where
  "getRateTable tenantId i d =
     bindE (find_rate_table tenantId i d) (\<lambda>t.
       case service_of d (rt_carrierServiceId t) of None \<Rightarrow> Inl (InternalError ''TypeError'') | Some s \<Rightarrow>
       case carrier_of d (cs_carrierId s) of None \<Rightarrow> Inl (InternalError ''TypeError'') | Some c \<Rightarrow>
         Inr (presentRateTable d t s c (used_in_simulations tenantId i d)))"

text \<open>The checks \<open>createRateTable\<close> and \<open>updateRateTable\<close> make on their input.\<close>

definition active_service :: "string \<Rightarrow> string \<Rightarrow> db \<Rightarrow> bool" where
  "active_service tenantId i d =
     (case findFirst (\<lambda>s. cs_id s = i \<and> cs_tenantId s = tenantId) (carrierServices d) of
        None \<Rightarrow> False
      | Some s \<Rightarrow> (case carrier_of d (cs_carrierId s) of None \<Rightarrow> False | Some c \<Rightarrow> cr_active c))"

definition check_rate_table :: "string \<Rightarrow> RateTableInputDto \<Rightarrow> db \<Rightarrow> string list result" where
  "check_rate_table tenantId i d =
     (case validateRanges (rti_ranges i) of Inl e \<Rightarrow> Inl e | Inr _ \<Rightarrow>
      if (case rti_validTo i of None \<Rightarrow> False | Some validTo \<Rightarrow> validTo \<le> rti_validFrom i)
      then Inl (BadRequestException (''Vig'' @ [CHR 0xEA] @ ''ncia da tabela inv'' @ [CHR 0xE1] @ ''lida.''))
      else if \<not> active_service tenantId (rti_carrierServiceId i) d
      then Inl (NotFoundException ''Servico ou transportadora nao encontrado.'')
      else let coverageIds = coalesce (rti_coverageIds i) [];
               coverages = findMany (\<lambda>c. cv_tenantId c = tenantId \<and> cv_id c \<in> set coverageIds
                 \<and> cv_carrierServiceId c = rti_carrierServiceId i) (carrierCoverages d) in
           if length coverages \<noteq> length coverageIds
           then Inl (BadRequestException (''Uma ou mais coberturas n'' @ [CHR 0xE3] @ ''o pertencem ao servi''
                  @ [CHR 0xE7] @ ''o.''))
           else Inr coverageIds)"

definition to_range :: "string \<Rightarrow> RateRangeInputDto \<Rightarrow> FreightRateRange" where
  "to_range i r = RateInput.extend (RateInput.truncate r)
     (FreightRateRange.fields i (coalesce (rri_priority r) 0))"

definition to_charge :: "date \<Rightarrow> string \<Rightarrow> RateChargeInputDto \<Rightarrow> FreightAdditionalCharge" where
  "to_charge now i c = ChargeInput.extend ((ChargeInput.truncate c)\<lparr>ch_name := trim (ch_name c)\<rparr>)
     (FreightAdditionalCharge.fields i (coalesce (rci_active c) True) now)"

text \<open>The identifiers of the nested ranges and charges follow the table's own.\<close>

definition nested_ranges :: "nat \<Rightarrow> RateTableInputDto \<Rightarrow> FreightRateRange list" where
  "nested_ranges n i = with_ids n to_range (rti_ranges i)"

definition nested_charges :: "date \<Rightarrow> nat \<Rightarrow> RateTableInputDto \<Rightarrow> FreightAdditionalCharge list" where
  "nested_charges now n i = with_ids (n + length (rti_ranges i)) (to_charge now) (rti_charges i)"

definition nested_ids :: "RateTableInputDto \<Rightarrow> nat" where
  "nested_ids i = length (rti_ranges i) + length (rti_charges i)"

definition next_version :: "string \<Rightarrow> string \<Rightarrow> db \<Rightarrow> nat" where
  "next_version tenantId serviceId d =
     coalesce (max_of rt_version (findMany (\<lambda>t. rt_tenantId t = tenantId
       \<and> rt_carrierServiceId t = serviceId) (freightRateTables d))) 0 + 1"

definition createRateTable ::
  "date \<Rightarrow> string \<Rightarrow> string \<Rightarrow> RateTableInputDto \<Rightarrow> string option \<Rightarrow> RateTableDetail handler" where
  "createRateTable now tenantId actorId i previousVersionId d =
     (case check_rate_table tenantId i d of Inl e \<Rightarrow> (Inl e, d) | Inr coverageIds \<Rightarrow>
      let version = (if truthy previousVersionId
                     then next_version tenantId (rti_carrierServiceId i) d else 1);
          created = \<lparr> rt_id = new_id d, rt_tenantId = tenantId,
            rt_carrierServiceId = rti_carrierServiceId i, rt_name = trim (rti_name i),
            rt_version = version, rt_currency = toUpperCase (rti_currency i),
            rt_validFrom = rti_validFrom i, rt_validTo = rti_validTo i,
            rt_notes = map_option trim (rti_notes i), rt_previousVersionId = previousVersionId,
            rt_status = coalesce (rti_status i) INACTIVE,
            rt_ranges = nested_ranges (next_id d + 1) i,
            rt_charges = nested_charges now (next_id d + 1) i, rt_coverageIds = coverageIds \<rparr> in
      case create_row rate_table_conflict created (freightRateTables d) of
        Inl e \<Rightarrow> (Inl (PrismaKnownError e), d)
      | Inr t \<Rightarrow>
          let d' = record_audit now (audit_of FREIGHT_PRICING_CHANGED actorId (rt_id created)
                     ''FreightRateTable''
                     (JObj [(''operation'', JStr (if truthy previousVersionId then ''new_version'' else ''create'')),
                            (''version'', JNum (of_nat version))]) tenantId)
                   (d\<lparr>freightRateTables := t, next_id := next_id d + 1 + nested_ids i\<rparr>)
          in (getRateTable tenantId (rt_id created) d', d'))"

definition rewrite_rate_table ::
  "date \<Rightarrow> nat \<Rightarrow> RateTableInputDto \<Rightarrow> string list \<Rightarrow> FreightRateTable \<Rightarrow> FreightRateTable" where
  "rewrite_rate_table now n i coverageIds t =
     t\<lparr>rt_name := trim (rti_name i), rt_carrierServiceId := rti_carrierServiceId i,
       rt_currency := toUpperCase (rti_currency i), rt_validFrom := rti_validFrom i,
       rt_validTo := rti_validTo i,
       rt_notes := (case rti_notes i of None \<Rightarrow> rt_notes t | Some s \<Rightarrow> Some (trim s)),
       rt_status := coalesce (rti_status i) (rt_status t), rt_ranges := nested_ranges n i,
       rt_charges := nested_charges now n i, rt_coverageIds := coverageIds\<rparr>"

definition updateRateTable ::
  "date \<Rightarrow> string \<Rightarrow> string \<Rightarrow> string \<Rightarrow> RateTableInputDto \<Rightarrow> RateTableDetail handler" where
  "updateRateTable now tenantId actorId i input d =
     (case find_rate_table tenantId i d of Inl e \<Rightarrow> (Inl e, d) | Inr current \<Rightarrow>
      if used_in_simulations tenantId i d > 0
      then (Inl (BadRequestException (''Tabela j'' @ [CHR 0xE1] @ '' utilizada. Crie uma nova vers''
             @ [CHR 0xE3] @ ''o para preservar o hist'' @ [CHR 0xF3] @ ''rico.'')), d)
      else
      case check_rate_table tenantId input d of Inl e \<Rightarrow> (Inl e, d) | Inr coverageIds \<Rightarrow>
      case update_row rt_id rate_table_conflict i
             (rewrite_rate_table now (next_id d) input coverageIds) (freightRateTables d) of
        Inl e \<Rightarrow> (Inl (PrismaKnownError e), d)
      | Inr (updated, t) \<Rightarrow>
          let d' = record_audit now (audit_of FREIGHT_PRICING_CHANGED actorId i ''FreightRateTable''
                     (JObj [(''operation'', JStr ''update'')]) tenantId)
                   (d\<lparr>freightRateTables := t, next_id := next_id d + nested_ids input\<rparr>)
          in (getRateTable tenantId i d', d'))"

definition version_range :: "FreightRateRange \<Rightarrow> RateRangeInputDto" where
  "version_range r = RateInput.extend (RateInput.truncate r)
     (RateRangeInputDto.fields (Some (rr_priority r)))"

definition version_charge :: "FreightAdditionalCharge \<Rightarrow> RateChargeInputDto" where
  "version_charge c = ChargeInput.extend (ChargeInput.truncate c)
     (RateChargeInputDto.fields (Some (ac_active c)))"

definition version_input :: "FreightRateTable \<Rightarrow> RateTableInputDto" where
  "version_input t =
     \<lparr> rti_name = rt_name t, rti_carrierServiceId = rt_carrierServiceId t,
       rti_currency = rt_currency t, rti_validFrom = rt_validFrom t, rti_validTo = rt_validTo t,
       rti_notes = rt_notes t, rti_status = Some INACTIVE,
       rti_coverageIds = Some (rt_coverageIds t), rti_ranges = map version_range (rt_ranges t),
       rti_charges = map version_charge (rt_charges t) \<rparr>"

definition createRateTableVersion ::
  "date \<Rightarrow> string \<Rightarrow> string \<Rightarrow> string \<Rightarrow> RateTableDetail handler" where
  "createRateTableVersion now tenantId actorId i d =
     (case find_rate_table tenantId i d of Inl e \<Rightarrow> (Inl e, d) | Inr current \<Rightarrow>
      createRateTable now tenantId actorId (version_input current) (Some i) d)"

definition updateRateTableStatus ::
  "date \<Rightarrow> string \<Rightarrow> string \<Rightarrow> string \<Rightarrow> EntityStatus \<Rightarrow> (string \<times> EntityStatus) handler" where
  "updateRateTableStatus now tenantId actorId i status d =
     (case find_rate_table tenantId i d of Inl e \<Rightarrow> (Inl e, d) | Inr current \<Rightarrow>
      if status = ACTIVE \<and> rt_ranges current = []
      then (Inl (BadRequestException ''Tabela ativa precisa de ao menos uma faixa.''), d)
      else
      case update_row rt_id rate_table_conflict i (\<lambda>t. t\<lparr>rt_status := status\<rparr>) (freightRateTables d) of
        Inl e \<Rightarrow> (Inl (PrismaKnownError e), d)
      | Inr (updated, t) \<Rightarrow>
          (Inr (rt_id updated, rt_status updated),
           record_audit now (audit_of FREIGHT_PRICING_CHANGED actorId i ''FreightRateTable''
             (JObj [(''operation'', JStr (if status = ACTIVE then ''activate'' else ''deactivate''))]) tenantId)
           (d\<lparr>freightRateTables := t\<rparr>)))"

section \<open>Shipments\<close>

fun shipment_status_name :: "ShipmentStatus \<Rightarrow> string" where
  "shipment_status_name CREATED = ''CREATED''"
| "shipment_status_name PICKUP_SCHEDULED = ''PICKUP_SCHEDULED''"
| "shipment_status_name PICKED_UP = ''PICKED_UP''"
| "shipment_status_name IN_TRANSIT = ''IN_TRANSIT''"
| "shipment_status_name ARRIVED_AT_HUB = ''ARRIVED_AT_HUB''"
| "shipment_status_name OUT_FOR_DELIVERY = ''OUT_FOR_DELIVERY''"
| "shipment_status_name DELIVERED = ''DELIVERED''"
| "shipment_status_name DELIVERY_FAILED = ''DELIVERY_FAILED''"
| "shipment_status_name RETURNING = ''RETURNING''"
| "shipment_status_name RETURNED = ''RETURNED''"
| "shipment_status_name ShipmentStatus.CANCELED = ''CANCELED''"

fun tracking_event_name :: "TrackingEventType \<Rightarrow> string" where
  "tracking_event_name STATUS_CHANGED = ''STATUS_CHANGED''"
| "tracking_event_name ETA_UPDATED = ''ETA_UPDATED''"
| "tracking_event_name LOCATION_UPDATED = ''LOCATION_UPDATED''"
| "tracking_event_name NOTE_ADDED = ''NOTE_ADDED''"
| "tracking_event_name EXCEPTION_REPORTED = ''EXCEPTION_REPORTED''"
| "tracking_event_name CORRECTION_CREATED = ''CORRECTION_CREATED''"

text \<open>The period filter of the lists; an invalid date makes the database client throw.\<close>

definition in_period :: "string option \<Rightarrow> string option \<Rightarrow> (date \<Rightarrow> bool) result" where
  "in_period startDate endDate =
     (case (if truthy startDate then map_option Some (new_Date (the startDate)) else Some None) of
        None \<Rightarrow> Inl (InternalError ''PrismaClientValidationError'')
      | Some from \<Rightarrow>
        (case (if truthy endDate then map_option Some (new_Date (the endDate @ ''T23:59:59.999Z''))
               else Some None) of
           None \<Rightarrow> Inl (InternalError ''PrismaClientValidationError'')
         | Some until \<Rightarrow>
             Inr (\<lambda>t. (case from of None \<Rightarrow> True | Some f \<Rightarrow> f \<le> t)
                     \<and> (case until of None \<Rightarrow> True | Some u \<Rightarrow> t < u))))"

record ShipmentListItem =
  sl_id :: string
  sl_trackingCode :: string
  sl_externalReference :: "string option"
  sl_carrierName :: string
  sl_carrierServiceName :: string
  sl_status :: ShipmentStatus
  sl_freightValue :: rat
  sl_estimatedDeliveryAt :: date
  sl_createdAt :: date

definition present_shipment_item :: "db \<Rightarrow> string \<Rightarrow> Shipment \<Rightarrow> ShipmentListItem" where
  "present_shipment_item d tenantId s =
     \<lparr> sl_id = sh_id s, sl_trackingCode = sh_trackingCode s,
       sl_externalReference = sh_externalReference s,
       sl_carrierName = carrier_name d tenantId (sh_carrierId s),
       sl_carrierServiceName = (case findFirst (\<lambda>x. cs_tenantId x = tenantId
          \<and> cs_id x = sh_carrierServiceId s) (carrierServices d) of None \<Rightarrow> ''Servico'' | Some x \<Rightarrow> cs_name x),
       sl_status = sh_status s, sl_freightValue = sh_freightValue s,
       sl_estimatedDeliveryAt = sh_estimatedDeliveryAt s, sl_createdAt = sh_createdAt s \<rparr>"

definition listShipments ::
  "string \<Rightarrow> ListAdminLogisticsDto \<Rightarrow> db \<Rightarrow> ShipmentListItem PaginatedResult result" where
  "listShipments tenantId query d =
     bindE (in_period (la_startDate query) (la_endDate query)) (\<lambda>period.
       Inr (paginated (la_page query) (la_perPage query)
         (orderBy (then_by (desc sh_createdAt) (desc sh_id))
           (findMany (\<lambda>s. sh_tenantId s = tenantId
              \<and> (case la_status query of None \<Rightarrow> True | Some st \<Rightarrow> sh_status s = st)
              \<and> (case la_search query of None \<Rightarrow> True
                 | Some x \<Rightarrow> trim x = [] \<or> includes_str (sh_trackingCode s) (trim x)
                     \<or> (case sh_externalReference s of None \<Rightarrow> False
                        | Some r \<Rightarrow> includes_str r (trim x)))
              \<and> period (sh_createdAt s)) (shipments d)))
         (present_shipment_item d tenantId)))"

definition find_shipment :: "string \<Rightarrow> string \<Rightarrow> db \<Rightarrow> Shipment result" where
  "find_shipment tenantId i d =
     (case findFirst (\<lambda>s. sh_id s = i \<and> sh_tenantId s = tenantId) (shipments d) of
        None \<Rightarrow> Inl (NotFoundException ''Shipment was not found.'')
      | Some s \<Rightarrow> Inr s)"

record TrackingEventView =
  tv_id :: string
  tv_eventType :: TrackingEventType
  tv_status :: "ShipmentStatus option"
  tv_description :: "string option"
  tv_occurredAt :: date
  tv_receivedAt :: date
  tv_location :: "string option"
  tv_externalCode :: "string option"
  tv_source :: string

text \<open>The related rows of a shipment are given as identifier and name.\<close>

record ShipmentDetail =
  sd_shipment :: Shipment
  sd_carrier :: "(string \<times> string) option"
  sd_service :: "(string \<times> string) option"
  sd_customer :: "(string \<times> string) option"
  sd_branch :: "(string \<times> string) option"
  sd_tracking :: "TrackingEventView list"

definition present_event :: "db \<Rightarrow> TrackingEvent \<Rightarrow> TrackingEventView" where
  "present_event d e =
     \<lparr> tv_id = te_id e, tv_eventType = te_eventType e, tv_status = te_status e,
       tv_description = te_description e, tv_occurredAt = te_occurredAt e,
       tv_receivedAt = te_receivedAt e, tv_location = te_location e,
       tv_externalCode = te_externalCode e,
       tv_source = (case te_createdById e of None \<Rightarrow> ''Sistema''
          | Some i \<Rightarrow> (case findFirst (\<lambda>u. u_id u = i) (users d) of
              None \<Rightarrow> ''Sistema'' | Some u \<Rightarrow> u_name u)) \<rparr>"

definition getShipment :: "string \<Rightarrow> string \<Rightarrow> db \<Rightarrow> ShipmentDetail result" where
  "getShipment tenantId i d =
     bindE (find_shipment tenantId i d) (\<lambda>s.
       Inr \<lparr> sd_shipment = s,
         sd_carrier = map_option (\<lambda>c. (cr_id c, cr_name c))
           (findFirst (\<lambda>c. cr_id c = sh_carrierId s \<and> cr_tenantId c = tenantId) (carriers d)),
         sd_service = map_option (\<lambda>c. (cs_id c, cs_name c))
           (findFirst (\<lambda>c. cs_id c = sh_carrierServiceId s \<and> cs_tenantId c = tenantId) (carrierServices d)),
         sd_customer = (if truthy (sh_customerId s) then map_option (\<lambda>c. (c_id c, c_name c))
           (findFirst (\<lambda>c. Some (c_id c) = sh_customerId s \<and> c_tenantId c = tenantId) (customers d)) else None),
         sd_branch = (if truthy (sh_branchId s) then map_option (\<lambda>b. (b_id b, b_name b))
           (findFirst (\<lambda>b. Some (b_id b) = sh_branchId s \<and> b_tenantId b = tenantId) (branches d)) else None),
         sd_tracking = map (present_event d)
           (orderBy (asc te_occurredAt) (findMany (\<lambda>e. te_shipmentId e = sh_id s) (trackingEvents d))) \<rparr>)"

section \<open>Tracking\<close>

fun transitions :: "ShipmentStatus \<Rightarrow> ShipmentStatus list" where
  "transitions CREATED = [PICKUP_SCHEDULED, ShipmentStatus.CANCELED]"
| "transitions PICKUP_SCHEDULED = [PICKED_UP, ShipmentStatus.CANCELED]"
| "transitions PICKED_UP = [IN_TRANSIT, ShipmentStatus.CANCELED]"
| "transitions IN_TRANSIT = [ARRIVED_AT_HUB, OUT_FOR_DELIVERY, RETURNING, ShipmentStatus.CANCELED]"
| "transitions ARRIVED_AT_HUB = [OUT_FOR_DELIVERY, IN_TRANSIT, RETURNING]"
| "transitions OUT_FOR_DELIVERY = [DELIVERED, DELIVERY_FAILED, RETURNING]"
| "transitions DELIVERY_FAILED = [OUT_FOR_DELIVERY, RETURNING]"
| "transitions RETURNING = [RETURNED]"
| "transitions DELIVERED = []"
| "transitions RETURNED = []"
| "transitions ShipmentStatus.CANCELED = []"

definition isValidTransition :: "ShipmentStatus \<Rightarrow> ShipmentStatus \<Rightarrow> bool" where
  "isValidTransition current next = (current = next \<or> next \<in> set (transitions current))"

definition tracking_conflict :: "TrackingEvent \<Rightarrow> TrackingEvent \<Rightarrow> bool" where
  "tracking_conflict r x =
     (te_tenantId r = te_tenantId x \<and> te_shipmentId r = te_shipmentId x
      \<and> te_idempotencyKey r \<noteq> None \<and> te_idempotencyKey r = te_idempotencyKey x)"

definition shipment_conflict :: "Shipment \<Rightarrow> Shipment \<Rightarrow> bool" where
  "shipment_conflict r x =
     (sh_simulationId r = sh_simulationId x \<or> sh_selectedOptionId r = sh_selectedOptionId x
      \<or> sh_tenantId r = sh_tenantId x \<and> sh_trackingCode r = sh_trackingCode x)"

record TrackingEventResult =
  tr_id :: string
  tr_shipmentId :: string
  tr_status :: ShipmentStatus
  tr_eventType :: TrackingEventType
  tr_occurredAt :: date

definition move_shipment :: "date \<Rightarrow> ShipmentStatus \<Rightarrow> Shipment \<Rightarrow> Shipment" where
  "move_shipment now status s =
     s\<lparr>sh_status := status,
       sh_deliveredAt := (if status = DELIVERED then Some now else sh_deliveredAt s)\<rparr>"

definition tracking_event ::
  "date \<Rightarrow> string \<Rightarrow> string \<Rightarrow> string \<Rightarrow> string \<Rightarrow> CreateTrackingEventDto \<Rightarrow> TrackingEvent" where
  "tracking_event now i tenantId actorId shipmentId input =
     \<lparr> te_id = i, te_tenantId = tenantId, te_shipmentId = shipmentId, te_createdById = Some actorId,
       te_eventType = ct_eventType input, te_status = ct_status input,
       te_description = map_option trim (ct_description input), te_occurredAt = ct_occurredAt input,
       te_receivedAt = now, te_location = map_option trim (ct_location input),
       te_externalCode = map_option trim (ct_externalCode input),
       te_idempotencyKey = map_option trim (ct_idempotencyKey input) \<rparr>"

definition tracking_error :: "prisma_code \<Rightarrow> http_error" where
  "tracking_error e =
     (if e = P2002 then BadRequestException (''Evento duplicado para esta opera'' @ [CHR 0xE7, CHR 0xE3] @ ''o.'')
      else PrismaKnownError e)"

definition createTrackingEvent ::
  "date \<Rightarrow> string \<Rightarrow> string \<Rightarrow> string \<Rightarrow> CreateTrackingEventDto \<Rightarrow> TrackingEventResult handler" where
  "createTrackingEvent now tenantId actorId shipmentId input d =
     (case find_shipment tenantId shipmentId d of Inl e \<Rightarrow> (Inl e, d) | Inr current \<Rightarrow>
      if (case ct_status input of None \<Rightarrow> False | Some st \<Rightarrow> \<not> isValidTransition (sh_status current) st)
      then (Inl (BadRequestException (''Transi'' @ [CHR 0xE7, CHR 0xE3] @ ''o de tracking n'' @ [CHR 0xE3]
              @ ''o permitida.'')), d)
      else
      let event = tracking_event now (new_id d) tenantId actorId shipmentId input in
      case create_row tracking_conflict event (trackingEvents d) of
        Inl e \<Rightarrow> (Inl (tracking_error e), d)
      | Inr events \<Rightarrow>
      case (case ct_status input of
              None \<Rightarrow> Inr (current, shipments d)
            | Some st \<Rightarrow> update_row sh_id shipment_conflict shipmentId (move_shipment now st) (shipments d)) of
        Inl e \<Rightarrow> (Inl (tracking_error e), d)
      | Inr (shipment, t) \<Rightarrow>
          (Inr \<lparr> tr_id = te_id event, tr_shipmentId = shipmentId, tr_status = sh_status shipment,
                 tr_eventType = te_eventType event, tr_occurredAt = te_occurredAt event \<rparr>,
           emitTrackingUpdate now tenantId shipmentId
             [(''eventId'', JStr (te_id event)),
              (''status'', JStr (shipment_status_name (sh_status shipment))),
              (''eventType'', JStr (tracking_event_name (te_eventType event)))]
             (record_audit now (audit_of ADMIN_OPERATION actorId shipmentId ''TrackingEvent''
                (JObj [(''operation'', JStr ''create''), (''eventId'', JStr (te_id event)),
                  (''status'', (case ct_status input of None \<Rightarrow> JNull
                     | Some st \<Rightarrow> JStr (shipment_status_name st)))]) tenantId)
              (bump (d\<lparr>trackingEvents := events, shipments := t\<rparr>)))))"

definition updateShipmentStatus ::
  "date \<Rightarrow> string \<Rightarrow> string \<Rightarrow> string \<Rightarrow> ShipmentStatus \<Rightarrow> TrackingEventResult handler" where
  "updateShipmentStatus now tenantId actorId i status d =
     (case find_shipment tenantId i d of Inl e \<Rightarrow> (Inl e, d) | Inr current \<Rightarrow>
      createTrackingEvent now tenantId actorId i
        \<lparr> ct_eventType = STATUS_CHANGED, ct_status = Some status,
          ct_description = Some ''Atualizacao operacional registrada.'', ct_occurredAt = now,
          ct_location = None, ct_externalCode = None, ct_idempotencyKey = None \<rparr> d)"

section \<open>Audit trail\<close>

record AuditView =
  av_id :: string
  av_action :: AuditAction
  av_entityType :: "string option"
  av_entityId :: "string option"
  av_actor :: string
  av_actorEmail :: "string option"
  av_requestId :: "string option"
  av_createdAt :: date
  av_metadata :: "json option"

definition present_audit :: "db \<Rightarrow> AuditLog \<Rightarrow> AuditView" where
  "present_audit d l =
     (let actor = (case al_actorId l of None \<Rightarrow> None | Some i \<Rightarrow> findFirst (\<lambda>u. u_id u = i) (users d)) in
      \<lparr> av_id = al_id l, av_action = al_action l, av_entityType = al_entityType l,
        av_entityId = al_entityId l, av_actor = coalesce (map_option u_name actor) ''Sistema'',
        av_actorEmail = map_option u_email actor, av_requestId = al_requestId l,
        av_createdAt = al_createdAt l, av_metadata = al_metadata l \<rparr>)"

definition listAudit :: "string \<Rightarrow> ListAdminLogisticsDto \<Rightarrow> db \<Rightarrow> AuditView PaginatedResult result" where
  "listAudit tenantId query d =
     bindE (in_period (la_startDate query) (la_endDate query)) (\<lambda>period.
       Inr (paginated (la_page query) (la_perPage query)
         (orderBy (desc al_createdAt)
           (findMany (\<lambda>l. al_tenantId l = Some tenantId \<and> period (al_createdAt l)) (auditLogs d)))
         (present_audit d)))"

section \<open>Coverages\<close>

definition digits :: "string option \<Rightarrow> string" where
  "digits v = coalesce (map_option onlyDigits v) []"

text \<open>
  \<open>Number(s)\<close> on the stored postal codes: their digits as a number, and not a number when
  another character occurs.
\<close>

definition Number :: "string \<Rightarrow> nat option" where
  "Number s = (if list_all is_digit s then Some (number_of_digits s) else None)"

definition num_le :: "nat option \<Rightarrow> nat option \<Rightarrow> bool" where
  "num_le a b = (case (a, b) of (Some x, Some y) \<Rightarrow> x \<le> y | _ \<Rightarrow> False)"

definition inRange :: "string \<Rightarrow> string option \<Rightarrow> string option \<Rightarrow> bool" where
  "inRange v start stop =
     ((\<not> truthy start \<or> num_le (Number (the start)) (Number v))
      \<and> (\<not> truthy stop \<or> num_le (Number v) (Number (the stop))))"

record CoverageListItem =
  cl_coverage :: CarrierCoverage
  cl_carrierName :: string
  cl_serviceName :: string

definition listCoverages ::
  "string \<Rightarrow> ListAdminLogisticsDto \<Rightarrow> db \<Rightarrow> CoverageListItem PaginatedResult" where
  "listCoverages tenantId query d =
     paginated (la_page query) (la_perPage query)
       (orderBy (then_by (asc cv_status) (desc cv_createdAt))
         (findMany (\<lambda>c. cv_tenantId c = tenantId) (carrierCoverages d)))
       (\<lambda>c. let service = service_of d (cv_carrierServiceId c) in
         \<lparr> cl_coverage = c,
           cl_carrierName = (case service of None \<Rightarrow> []
             | Some s \<Rightarrow> coalesce (map_option cr_name (carrier_of d (cs_carrierId s))) []),
           cl_serviceName = coalesce (map_option cs_name service) [] \<rparr>)"

definition find_service :: "string \<Rightarrow> string \<Rightarrow> db \<Rightarrow> CarrierService result" where
  "find_service tenantId i d =
     (case findFirst (\<lambda>s. cs_id s = i \<and> cs_tenantId s = tenantId) (carrierServices d) of
        None \<Rightarrow> Inl (NotFoundException ''Carrier service was not found.'')
      | Some s \<Rightarrow> Inr s)"

definition createCoverage ::
  "date \<Rightarrow> string \<Rightarrow> string \<Rightarrow> CoverageDto \<Rightarrow> CarrierCoverage handler" where
  "createCoverage now tenantId actorId i d =
     (case find_service tenantId (cvi_carrierServiceId i) d of Inl e \<Rightarrow> (Inl e, d) | Inr service \<Rightarrow>
      let item = \<lparr> cv_id = new_id d, cv_tenantId = tenantId,
            cv_carrierServiceId = cvi_carrierServiceId i,
            cv_originState = map_option toUpperCase (cvi_originState i),
            cv_destinationState = map_option toUpperCase (cvi_destinationState i),
            cv_originPostalCodeStart = Some (digits (cvi_originPostalCodeStart i)),
            cv_originPostalCodeEnd = Some (digits (cvi_originPostalCodeEnd i)),
            cv_destinationPostalCodeStart = Some (digits (cvi_destinationPostalCodeStart i)),
            cv_destinationPostalCodeEnd = Some (digits (cvi_destinationPostalCodeEnd i)),
            cv_status = ACTIVE, cv_createdAt = now \<rparr>
      in (Inr item,
          record_audit now (audit_of ADMIN_OPERATION actorId (cv_id item) ''CarrierCoverage''
            (JObj [(''operation'', JStr ''create'')]) tenantId)
          (bump (d\<lparr>carrierCoverages := carrierCoverages d @ [item]\<rparr>))))"

definition updateCoverage ::
  "date \<Rightarrow> string \<Rightarrow> string \<Rightarrow> string \<Rightarrow> CoverageDto \<Rightarrow> CarrierCoverage handler" where
  "updateCoverage now tenantId actorId i input d =
     (case findFirst (\<lambda>c. cv_id c = i \<and> cv_tenantId c = tenantId) (carrierCoverages d) of
        None \<Rightarrow> (Inl (NotFoundException ''Coverage was not found.''), d)
      | Some current \<Rightarrow>
      case find_service tenantId (cvi_carrierServiceId input) d of Inl e \<Rightarrow> (Inl e, d) | Inr service \<Rightarrow>
      case update_row cv_id no_conflict i
             (\<lambda>c. c\<lparr>cv_carrierServiceId := cvi_carrierServiceId input,
                cv_originState := (case cvi_originState input of None \<Rightarrow> cv_originState c
                   | Some s \<Rightarrow> Some (toUpperCase s)),
                cv_destinationState := (case cvi_destinationState input of None \<Rightarrow> cv_destinationState c
                   | Some s \<Rightarrow> Some (toUpperCase s)),
                cv_originPostalCodeStart := Some (digits (cvi_originPostalCodeStart input)),
                cv_originPostalCodeEnd := Some (digits (cvi_originPostalCodeEnd input)),
                cv_destinationPostalCodeStart := Some (digits (cvi_destinationPostalCodeStart input)),
                cv_destinationPostalCodeEnd := Some (digits (cvi_destinationPostalCodeEnd input))\<rparr>)
             (carrierCoverages d) of
        Inl e \<Rightarrow> (Inl (PrismaKnownError e), d)
      | Inr (item, t) \<Rightarrow>
          (Inr item,
           record_audit now (audit_of ADMIN_OPERATION actorId i ''CarrierCoverage''
             (JObj [(''operation'', JStr ''update'')]) tenantId) (d\<lparr>carrierCoverages := t\<rparr>)))"

record CoverageMatch =
  cm_carrierServiceId :: string
  cm_carrierName :: string
  cm_serviceName :: string
  cm_ruleId :: string

definition coverage_carrier :: "db \<Rightarrow> CarrierCoverage \<Rightarrow> Carrier option" where
  "coverage_carrier d c =
     (case service_of d (cv_carrierServiceId c) of None \<Rightarrow> None | Some s \<Rightarrow> carrier_of d (cs_carrierId s))"

definition testCoverage :: "string \<Rightarrow> CoverageTestDto \<Rightarrow> db \<Rightarrow> bool \<times> CoverageMatch list" where
  "testCoverage tenantId i d =
     (let origin = onlyDigits (cvt_originPostalCode i);
          destination = onlyDigits (cvt_destinationPostalCode i);
          items = findMany (\<lambda>c. cv_tenantId c = tenantId \<and> cv_status c = ACTIVE
            \<and> (truthy (cvt_carrierServiceId i) \<longrightarrow> Some (cv_carrierServiceId c) = cvt_carrierServiceId i))
            (carrierCoverages d);
          matched = filter (\<lambda>c. inRange origin (cv_originPostalCodeStart c) (cv_originPostalCodeEnd c)
            \<and> inRange destination (cv_destinationPostalCodeStart c) (cv_destinationPostalCodeEnd c)) items
      in (matched \<noteq> [],
          map (\<lambda>c. \<lparr> cm_carrierServiceId = cv_carrierServiceId c,
                   cm_carrierName = coalesce (map_option cr_name (coverage_carrier d c)) [],
                   cm_serviceName = coalesce (map_option cs_name (service_of d (cv_carrierServiceId c))) [],
                   cm_ruleId = cv_id c \<rparr>)
            (filter (\<lambda>c. case coverage_carrier d c of None \<Rightarrow> False | Some k \<Rightarrow> cr_active k) matched)))"

end
