(* ===== verification/Freight.thy ===== *)
theory Freight
  imports Logistics
begin

text \<open>
  \<open>freight-simulations.service.ts\<close>: the lookup of an address, the creation of a simulation (the
  eligible carrier services, their coverage, the price of each), the selection of one option and
  the shipment made from it. The decimal library is the parameter \<open>rnd\<close> of the pricing engine;
  the trigonometric functions, which the language leaves implementation-defined, are fields of
  \<open>MathLib\<close>.
\<close>

section \<open>Postal codes\<close>

definition normalizePostalCode :: "string \<Rightarrow> string result" where
  "normalizePostalCode v =
     (let digits = onlyDigits v in
      if length digits \<noteq> 8 then Inl (BadRequestException ''Postal code must have 8 digits.'')
      else Inr digits)"

definition normalize_bound :: "string option \<Rightarrow> string option result" where
  "normalize_bound v =
     (if truthy v then bindE (normalizePostalCode (the v)) (\<lambda>s. Inr (Some s)) else Inr None)"

definition inPostalRange :: "string \<Rightarrow> string option \<Rightarrow> string option \<Rightarrow> bool result" where
  "inPostalRange postalCode start stop =
     bindE (normalize_bound start) (\<lambda>normalizedStart.
     bindE (normalize_bound stop) (\<lambda>normalizedEnd.
       Inr ((\<not> truthy normalizedStart \<or> the normalizedStart \<le> postalCode)
            \<and> (\<not> truthy normalizedEnd \<or> postalCode \<le> the normalizedEnd))))"

section \<open>Addresses\<close>

record AddressDto =
  ad_city :: string
  ad_complement :: "string option"
  ad_country :: string
  ad_district :: "string option"
  ad_latitude :: "rat option"
  ad_longitude :: "rat option"
  ad_number :: "string option"
  ad_postalCode :: string
  ad_state :: string
  ad_street :: string

text \<open>
  The optional fields of a body only go through \<open>??\<close>, so absent and null are the same here.
\<close>

record AddressInputDto =
  ai_postalCode :: string
  ai_street :: string
  ai_number :: "string option"
  ai_complement :: "string option"
  ai_district :: "string option"
  ai_city :: string
  ai_state :: string
  ai_country :: "string option"
  ai_latitude :: "rat option"
  ai_longitude :: "rat option"

definition toAddressDto :: "AddressInputDto \<Rightarrow> AddressDto" where
  "toAddressDto i =
     \<lparr> ad_city = ai_city i, ad_complement = ai_complement i, ad_country = coalesce (ai_country i) ''BR'',
       ad_district = ai_district i, ad_latitude = ai_latitude i, ad_longitude = ai_longitude i,
       ad_number = ai_number i, ad_postalCode = ai_postalCode i, ad_state = ai_state i,
       ad_street = ai_street i \<rparr>"

definition toSimulationAddress :: "string \<Rightarrow> AddressType \<Rightarrow> AddressDto \<Rightarrow> FreightAddress result" where
  "toSimulationAddress i ty a =
     bindE (normalizePostalCode (ad_postalCode a)) (\<lambda>postalCode. Inr
     \<lparr> fa_id = i, fa_type = ty, fa_postalCode = postalCode, fa_street = trim (ad_street a),
       fa_number = optionalText (ad_number a), fa_complement = optionalText (ad_complement a),
       fa_district = optionalText (ad_district a), fa_city = trim (ad_city a),
       fa_state = toUpperCase (trim (ad_state a)), fa_country = toUpperCase (trim (ad_country a)),
       fa_latitude = ad_latitude a, fa_longitude = ad_longitude a \<rparr>)"

definition manual_address :: "string \<Rightarrow> string \<Rightarrow> string \<Rightarrow> AddressDto" where
  "manual_address city state postalCode =
     \<lparr> ad_city = city, ad_complement = None, ad_country = ''BR'', ad_district = Some ''Centro'',
       ad_latitude = None, ad_longitude = None, ad_number = None, ad_postalCode = postalCode,
       ad_state = state, ad_street = ''Endereco informado manualmente'' \<rparr>"

definition fallbackAddress :: "string \<Rightarrow> AddressDto" where
  "fallbackAddress postalCode =
     (if startsWith postalCode ''2'' then manual_address ''Rio de Janeiro'' ''RJ'' postalCode
      else if startsWith postalCode ''3'' then manual_address ''Belo Horizonte'' ''MG'' postalCode
      else manual_address ''Sao Paulo'' ''SP'' postalCode)"

text \<open>
  The reply of the postal code service: no reply (network error, timeout, malformed body), an
  HTTP error, or a record of texts and flags.
\<close>

datatype viacep_value = VText string | VFlag bool

datatype viacep_reply = NoReply | NotOk | Payload "string \<Rightarrow> viacep_value option"

definition String_of :: "viacep_value \<Rightarrow> string" where
  "String_of v = (case v of VText s \<Rightarrow> s | VFlag b \<Rightarrow> if b then ''true'' else ''false'')"

definition payload_text :: "viacep_value option \<Rightarrow> string option" where
  "payload_text v = (case v of Some (VText s) \<Rightarrow> optionalText (Some s) | _ \<Rightarrow> None)"

definition lookupAddress :: "(string \<Rightarrow> viacep_reply) \<Rightarrow> string \<Rightarrow> AddressDto result" where
  "lookupAddress viacep postalCode =
     bindE (normalizePostalCode postalCode) (\<lambda>normalized.
       let fallback = fallbackAddress normalized in
       case viacep normalized of
         Payload p \<Rightarrow>
           if p ''erro'' = Some (VFlag True) then Inr fallback
           else Inr \<lparr> ad_city = coalesce (map_option String_of (p ''localidade'')) (ad_city fallback),
                  ad_complement = payload_text (p ''complemento''), ad_country = ''BR'',
                  ad_district = payload_text (p ''bairro''), ad_latitude = None, ad_longitude = None,
                  ad_number = None, ad_postalCode = normalized,
                  ad_state = toUpperCase (take 2 (coalesce (map_option String_of (p ''uf'')) (ad_state fallback))),
                  ad_street = coalesce (map_option String_of (p ''logradouro'')) (ad_street fallback) \<rparr>
       | _ \<Rightarrow> Inr fallback)"

section \<open>Distance\<close>

record MathLib =
  m_sin :: "rat \<Rightarrow> rat"
  m_cos :: "rat \<Rightarrow> rat"
  m_atan2 :: "rat \<Rightarrow> rat \<Rightarrow> rat"
  m_sqrt :: "rat \<Rightarrow> rat"
  m_pi :: rat

definition degreesToRadians :: "MathLib \<Rightarrow> rat \<Rightarrow> rat" where
  "degreesToRadians m v = fl (fl (v * m_pi m) / 180)"

definition haversineKm :: "MathLib \<Rightarrow> rat \<Rightarrow> rat \<Rightarrow> rat \<Rightarrow> rat \<Rightarrow> rat" where
  "haversineKm m originLat originLng destinationLat destinationLng =
     (let radius = 6371;
          dLat = degreesToRadians m (fl (destinationLat - originLat));
          dLng = degreesToRadians m (fl (destinationLng - originLng));
          sq = (\<lambda>x. fl (x * x));
          a = fl (sq (m_sin m (fl (dLat / 2)))
                + fl (fl (m_cos m (degreesToRadians m originLat) * m_cos m (degreesToRadians m destinationLat))
                      * sq (m_sin m (fl (dLng / 2)))))
      in fl (2 * radius * m_atan2 m (m_sqrt m a) (m_sqrt m (fl (1 - a)))))"

text \<open>A number is truthy when it is not zero.\<close>

definition nonzero :: "rat option \<Rightarrow> bool" where
  "nonzero v = (v \<noteq> None \<and> v \<noteq> Some 0)"

definition calculateDistanceKm :: "MathLib \<Rightarrow> AddressDto \<Rightarrow> AddressDto \<Rightarrow> rat result" where
  "calculateDistanceKm m origin destination =
     (if nonzero (ad_latitude origin) \<and> nonzero (ad_longitude origin)
         \<and> nonzero (ad_latitude destination) \<and> nonzero (ad_longitude destination)
      then Inr (scale (haversineKm m (the (ad_latitude origin)) (the (ad_longitude origin))
                  (the (ad_latitude destination)) (the (ad_longitude destination))) 2)
      else
        bindE (normalizePostalCode (ad_postalCode origin)) (\<lambda>o'.
        bindE (normalizePostalCode (ad_postalCode destination)) (\<lambda>d'.
          let originPrefix = of_nat (number_of_digits (take 3 o')) :: rat;
              destinationPrefix = of_nat (number_of_digits (take 3 d'));
              distance = max 25 (\<bar>destinationPrefix - originPrefix\<bar> * (15/2))
          in Inr (scale distance 2))))"

section \<open>Coverage\<close>

definition coverage_matches :: "AddressDto \<Rightarrow> AddressDto \<Rightarrow> CarrierCoverage \<Rightarrow> bool result" where
  "coverage_matches origin destination c =
     (let originStateMatches = (\<not> truthy (cv_originState c)
            \<or> cv_originState c = Some (toUpperCase (ad_state origin)));
          destinationStateMatches = (\<not> truthy (cv_destinationState c)
            \<or> cv_destinationState c = Some (toUpperCase (ad_state destination)))
      in
      bindE (normalizePostalCode (ad_postalCode origin)) (\<lambda>o'.
      bindE (inPostalRange o' (cv_originPostalCodeStart c) (cv_originPostalCodeEnd c)) (\<lambda>originPostalMatches.
      bindE (normalizePostalCode (ad_postalCode destination)) (\<lambda>d'.
      bindE (inPostalRange d' (cv_destinationPostalCodeStart c) (cv_destinationPostalCodeEnd c))
        (\<lambda>destinationPostalMatches.
        Inr (originStateMatches \<and> destinationStateMatches \<and> originPostalMatches \<and> destinationPostalMatches))))))"

fun matchesCoverage :: "CarrierCoverage list \<Rightarrow> AddressDto \<Rightarrow> AddressDto \<Rightarrow> bool result" where
  "matchesCoverage [] origin destination = Inr False"
| "matchesCoverage (c # cs) origin destination =
     bindE (coverage_matches origin destination c) (\<lambda>b.
       if b then Inr True else matchesCoverage cs origin destination)"

section \<open>Eligible services\<close>

record FreightPackageDto = PackageInput +
  pk_description :: "string option"

record CreateFreightSimulationDto =
  fi_customerId :: "string option"
  fi_carrierId :: "string option"
  fi_carrierServiceId :: "string option"
  fi_desiredShipDate :: "string option"
  fi_cargoValue :: rat
  fi_origin :: AddressInputDto
  fi_destination :: AddressInputDto
  fi_packages :: "FreightPackageDto list"

record EligibleCarrierService =
  es_service :: CarrierService
  es_carrier :: Carrier
  es_coverages :: "CarrierCoverage list"
  es_rateTables :: "FreightRateTable list"

record UnavailableService =
  un_carrier :: string
  un_reason :: string
  un_service :: string

record CandidateOption =
  co_calculated :: FreightCalculationResult
  co_rateRange :: FreightRateRange
  co_rateTable :: FreightRateTable
  co_service :: EligibleCarrierService

definition valid_table :: "date \<Rightarrow> FreightRateTable \<Rightarrow> bool" where
  "valid_table shipDate t =
     (rt_status t = ACTIVE \<and> rt_validFrom t \<le> shipDate
      \<and> (case rt_validTo t of None \<Rightarrow> True | Some validTo \<Rightarrow> shipDate \<le> validTo))"

definition included_table :: "FreightRateTable \<Rightarrow> FreightRateTable" where
  "included_table t =
     t\<lparr>rt_charges := filter ac_active (rt_charges t),
       rt_ranges := orderBy (then_by (asc rr_priority) (asc minWeightKg)) (rt_ranges t)\<rparr>"

definition include_service :: "db \<Rightarrow> date \<Rightarrow> CarrierService \<Rightarrow> Carrier \<Rightarrow> EligibleCarrierService" where
  "include_service d shipDate s c =
     \<lparr> es_service = s, es_carrier = c,
       es_coverages = findMany (\<lambda>v. cv_carrierServiceId v = cs_id s \<and> cv_status v = ACTIVE) (carrierCoverages d),
       es_rateTables = orderBy (desc rt_version) (map included_table
         (findMany (\<lambda>t. rt_carrierServiceId t = cs_id s \<and> valid_table shipDate t) (freightRateTables d))) \<rparr>"

definition eligible_services ::
  "string \<Rightarrow> CreateFreightSimulationDto \<Rightarrow> date \<Rightarrow> db \<Rightarrow> EligibleCarrierService list" where
  "eligible_services tenantId i shipDate d =
     orderBy (then_by (asc (\<lambda>e. cr_name (es_carrier e))) (asc (\<lambda>e. cs_name (es_service e))))
       (List.map_filter
         (\<lambda>s. case carrier_of d (cs_carrierId s) of
            None \<Rightarrow> None
          | Some c \<Rightarrow>
              if cs_status s = ACTIVE \<and> cs_tenantId s = tenantId
                 \<and> (truthy (fi_carrierServiceId i) \<longrightarrow> Some (cs_id s) = fi_carrierServiceId i)
                 \<and> cr_active c \<and> (truthy (fi_carrierId i) \<longrightarrow> Some (cr_id c) = fi_carrierId i)
              then Some (include_service d shipDate s c) else None)
         (carrierServices d))"

definition decimalMax :: "rat \<Rightarrow> rat \<Rightarrow> rat" where
  "decimalMax left right = (if left \<ge> right then left else right)"

definition toPackageInput :: "'a PackageInput_scheme \<Rightarrow> PackageInput" where
  "toPackageInput p =
     \<lparr> heightCm = heightCm p, lengthCm = lengthCm p, quantity = quantity p, weightKg = weightKg p,
       widthCm = widthCm p \<rparr>"

definition calculation_input ::
  "CreateFreightSimulationDto \<Rightarrow> date \<Rightarrow> rat \<Rightarrow> CarrierService \<Rightarrow> FreightRateTable \<Rightarrow> FreightRateRange
    \<Rightarrow> FreightCalculationInput" where
  "calculation_input i shipDate distanceKm s t r =
     \<lparr> in_cargoValue = fi_cargoValue i, in_charges = map ChargeInput.truncate (rt_charges t),
       in_cubicFactor = cs_cubicFactor s, in_desiredShipDate = shipDate, in_distanceKm = Some distanceKm,
       in_minimumValue = cs_minimumValue s, in_packages = map toPackageInput (fi_packages i),
       in_rate = RateInput.truncate r \<rparr>"

text \<open>The body of the loop over the services: a reason, or a priced candidate.\<close>

definition evaluate_service ::
  "(rat \<Rightarrow> rat) \<Rightarrow> CreateFreightSimulationDto \<Rightarrow> date \<Rightarrow> rat \<Rightarrow> EligibleCarrierService
    \<Rightarrow> (string + CandidateOption) result" where
  "evaluate_service rnd i shipDate distanceKm e =
     (let s = es_service e in
      bindE (matchesCoverage (es_coverages e) (toAddressDto (fi_origin i)) (toAddressDto (fi_destination i)))
        (\<lambda>covered.
        if \<not> covered then Inr (Inl ''Fora da cobertura cadastrada'')
        else
        let metrics = calculatePackageMetrics rnd (map toPackageInput (fi_packages i)) (cs_cubicFactor s);
            chargeable = decimalMax (m_realWeightKg metrics) (m_cubicWeightKg metrics) in
        if (case cs_minWeightKg s of None \<Rightarrow> False | Some w \<Rightarrow> chargeable < w)
        then Inr (Inl ''Peso abaixo do minimo do servico'')
        else if (case cs_maxWeightKg s of None \<Rightarrow> False | Some w \<Rightarrow> chargeable > w)
        then Inr (Inl ''Peso acima do maximo do servico'')
        else case es_rateTables e of
          [] \<Rightarrow> Inr (Inl ''Sem tabela vigente'')
        | t # _ \<Rightarrow>
          case find (\<lambda>r. minWeightKg r \<le> chargeable \<and> chargeable \<le> maxWeightKg r) (rt_ranges t) of
            None \<Rightarrow> Inr (Inl ''Sem faixa de peso compativel'')
          | Some r \<Rightarrow>
              Inr (Inr \<lparr> co_calculated = calculate rnd (calculation_input i shipDate distanceKm s t r),
                co_rateRange = r, co_rateTable = t, co_service = e \<rparr>)))"

fun services_loop ::
  "(rat \<Rightarrow> rat) \<Rightarrow> CreateFreightSimulationDto \<Rightarrow> date \<Rightarrow> rat \<Rightarrow> EligibleCarrierService list
    \<Rightarrow> CandidateOption list \<Rightarrow> UnavailableService list
    \<Rightarrow> (CandidateOption list \<times> UnavailableService list) result" where
  "services_loop rnd i shipDate distanceKm [] candidates unavailable = Inr (candidates, unavailable)"
| "services_loop rnd i shipDate distanceKm (e # es) candidates unavailable =
     bindE (evaluate_service rnd i shipDate distanceKm e) (\<lambda>r.
       case r of
         Inl reason \<Rightarrow> services_loop rnd i shipDate distanceKm es candidates
           (unavailable @ [\<lparr> un_carrier = cr_name (es_carrier e), un_reason = reason,
              un_service = cs_name (es_service e) \<rparr>])
       | Inr c \<Rightarrow> services_loop rnd i shipDate distanceKm es (candidates @ [c]) unavailable)"

section \<open>Simulations\<close>

record FreightSimulationDto =
  fd_cargoValue :: "rat option"
  fd_chargeableWeightKg :: "rat option"
  fd_createdAt :: date
  fd_customer :: "(string \<times> string) option"
  fd_destinationPostalCode :: string
  fd_distanceKm :: "rat option"
  fd_estimatedDeadlineDays :: "int option"
  fd_estimatedPrice :: "rat option"
  fd_id :: string
  fd_options :: "FreightSimulationOption list"
  fd_originPostalCode :: string
  fd_realWeightKg :: rat
  fd_status :: FreightSimulationStatus
  fd_totalVolumeM3 :: "rat option"

text \<open>An included relation: the simulation with its options and components in order.\<close>

definition order_options :: "FreightSimulationOption list \<Rightarrow> FreightSimulationOption list" where
  "order_options = orderBy (then_by (asc fo_totalPrice) (asc fo_deadlineDays))"

definition order_components :: "FreightSimulationOption \<Rightarrow> FreightSimulationOption" where
  "order_components opt = opt\<lparr>fo_priceComponents := orderBy (asc pc_sortOrder) (fo_priceComponents opt)\<rparr>"

definition loadSimulation :: "string \<Rightarrow> string \<Rightarrow> db \<Rightarrow> FreightSimulation result" where
  "loadSimulation tenantId i d =
     (case findFirst (\<lambda>s. fs_id s = i \<and> fs_tenantId s = tenantId) (freightSimulations d) of
        None \<Rightarrow> Inl (NotFoundException ''Freight simulation was not found.'')
      | Some s \<Rightarrow> Inr (s\<lparr>fs_options := map order_components (order_options (fs_options s))\<rparr>))"

text \<open>
  The presented option is the row without the columns a client does not see; it is given as the
  row.
\<close>

definition presentSimulation :: "db \<Rightarrow> FreightSimulation \<Rightarrow> FreightSimulationDto" where
  "presentSimulation d s =
     \<lparr> fd_cargoValue = fs_cargoValue s, fd_chargeableWeightKg = fs_chargeableWeightKg s,
       fd_createdAt = fs_createdAt s,
       fd_customer = (case fs_customerId s of None \<Rightarrow> None
          | Some i \<Rightarrow> map_option (\<lambda>c. (c_id c, c_name c)) (findFirst (\<lambda>c. c_id c = i) (customers d))),
       fd_destinationPostalCode = fs_destinationPostalCode s, fd_distanceKm = fs_distanceKm s,
       fd_estimatedDeadlineDays = fs_estimatedDeadlineDays s, fd_estimatedPrice = fs_estimatedPrice s,
       fd_id = fs_id s, fd_options = fs_options s, fd_originPostalCode = fs_originPostalCode s,
       fd_realWeightKg = fs_realWeightKg s, fd_status = fs_status s,
       fd_totalVolumeM3 = fs_totalVolumeM3 s \<rparr>"

definition getSimulation :: "string \<Rightarrow> string \<Rightarrow> db \<Rightarrow> FreightSimulationDto result" where
  "getSimulation tenantId i d =
     bindE (loadSimulation tenantId i d) (\<lambda>s. Inr (presentSimulation d s))"

record FreightSimulationListItemDto =
  fl_cargoValue :: "rat option"
  fl_createdAt :: date
  fl_customerName :: "string option"
  fl_destinationPostalCode :: string
  fl_id :: string
  fl_lowestPrice :: "rat option"
  fl_optionCount :: nat
  fl_originPostalCode :: string
  fl_selectedOption :: "string option"
  fl_status :: FreightSimulationStatus

record ListFreightSimulationsDto =
  lf_customerId :: "string option"
  lf_originPostalCode :: "string option"
  lf_destinationPostalCode :: "string option"
  lf_startDate :: "string option"
  lf_endDate :: "string option"
  lf_page :: nat
  lf_perPage :: nat

definition present_list_item :: "db \<Rightarrow> FreightSimulation \<Rightarrow> FreightSimulationListItemDto" where
  "present_list_item d s =
     (let options = order_options (fs_options s) in
      \<lparr> fl_cargoValue = fs_cargoValue s, fl_createdAt = fs_createdAt s,
        fl_customerName = (case fs_customerId s of None \<Rightarrow> None
          | Some i \<Rightarrow> map_option c_name (findFirst (\<lambda>c. c_id c = i) (customers d))),
        fl_destinationPostalCode = fs_destinationPostalCode s, fl_id = fs_id s,
        fl_lowestPrice = (case options of [] \<Rightarrow> None | opt # _ \<Rightarrow> Some (fo_totalPrice opt)),
        fl_optionCount = length options, fl_originPostalCode = fs_originPostalCode s,
        fl_selectedOption = map_option fo_id (find fo_selected options), fl_status = fs_status s \<rparr>)"

definition date_bound :: "string option \<Rightarrow> string \<Rightarrow> date option result" where
  "date_bound v suffix =
     (if truthy v then (case new_Date (the v @ suffix) of
         None \<Rightarrow> Inl (InternalError ''PrismaClientValidationError'') | Some t \<Rightarrow> Inr (Some t))
      else Inr None)"

definition listSimulations ::
  "string \<Rightarrow> ListFreightSimulationsDto \<Rightarrow> db \<Rightarrow> FreightSimulationListItemDto PaginatedResult result" where
  "listSimulations tenantId query d =
     bindE (normalize_bound (lf_originPostalCode query)) (\<lambda>origin.
     bindE (normalize_bound (lf_destinationPostalCode query)) (\<lambda>destination.
     bindE (date_bound (lf_startDate query) ''T00:00:00.000Z'') (\<lambda>from.
     bindE (date_bound (lf_endDate query) ''T23:59:59.999Z'') (\<lambda>until.
       Inr (paginated (lf_page query) (lf_perPage query)
         (orderBy (then_by (desc fs_createdAt) (desc fs_id))
           (findMany (\<lambda>s. fs_tenantId s = tenantId
              \<and> (truthy (lf_customerId query) \<longrightarrow> fs_customerId s = lf_customerId query)
              \<and> (case origin of None \<Rightarrow> True | Some p \<Rightarrow> fs_originPostalCode s = p)
              \<and> (case destination of None \<Rightarrow> True | Some p \<Rightarrow> fs_destinationPostalCode s = p)
              \<and> (case from of None \<Rightarrow> True | Some t \<Rightarrow> t \<le> fs_createdAt s)
              \<and> (case until of None \<Rightarrow> True | Some t \<Rightarrow> fs_createdAt s \<le> t)) (freightSimulations d)))
         (present_list_item d))))))"

definition resolveBranchId :: "db \<Rightarrow> string \<Rightarrow> string option" where
  "resolveBranchId d tenantId =
     (case orderBy (then_by (desc b_main) (asc b_name))
             (findMany (\<lambda>b. b_active b \<and> b_tenantId b = tenantId) (branches d)) of
        [] \<Rightarrow> None | b # _ \<Rightarrow> Some (b_id b))"

definition cheapest_price :: "CandidateOption \<Rightarrow> CandidateOption list \<Rightarrow> rat" where
  "cheapest_price first cs =
     foldl (\<lambda>current c. min current (res_totalPrice (co_calculated c)))
       (res_totalPrice (co_calculated first)) cs"

definition fastest_deadline :: "CandidateOption \<Rightarrow> CandidateOption list \<Rightarrow> int" where
  "fastest_deadline first cs =
     foldl (\<lambda>current c. min current (res_deadlineDays (co_calculated c)))
       (res_deadlineDays (co_calculated first)) cs"

definition to_option_row :: "rat \<Rightarrow> rat \<Rightarrow> int \<Rightarrow> string \<Rightarrow> CandidateOption \<Rightarrow> FreightSimulationOption" where
  "to_option_row distanceKm cheapestPrice fastestDeadline i c =
     (let r = co_calculated c; s = es_service (co_service c) in
      \<lparr> fo_id = i, fo_carrierId = cs_carrierId s, fo_carrierServiceId = cs_id s,
        fo_rateTableId = rt_id (co_rateTable c), fo_rateRangeId = rr_id (co_rateRange c),
        fo_carrierName = cr_name (es_carrier (co_service c)), fo_serviceName = cs_name s,
        fo_serviceCode = cs_code s, fo_rateTableVersion = rt_version (co_rateTable c),
        fo_currency = rt_currency (co_rateTable c), fo_realWeightKg = res_realWeightKg r,
        fo_cubicWeightKg = res_cubicWeightKg r, fo_chargeableWeightKg = res_chargeableWeightKg r,
        fo_distanceKm = Some distanceKm, fo_deadlineDays = res_deadlineDays r,
        fo_estimatedDeliveryAt = res_estimatedDeliveryAt r, fo_totalPrice = res_totalPrice r,
        fo_cheapest = (res_totalPrice r = cheapestPrice),
        fo_fastest = (res_deadlineDays r = fastestDeadline), fo_selected = False,
        fo_selectedAt = None, fo_priceComponents = res_components r \<rparr>)"

definition to_package_row :: "(rat \<Rightarrow> rat) \<Rightarrow> string \<Rightarrow> FreightPackageDto \<Rightarrow> FreightPackage" where
  "to_package_row rnd i p =
     PackageInput.extend (toPackageInput p)
       (FreightPackage.fields i None
         (m_totalVolumeM3 (calculatePackageMetrics rnd [toPackageInput p] 1))
         (optionalText (pk_description p)))"

definition unavailable_json :: "UnavailableService list \<Rightarrow> json" where
  "unavailable_json us = JObj [(''unavailable'', JArr (map (\<lambda>u. JObj
     [(''carrier'', JStr (un_carrier u)), (''reason'', JStr (un_reason u)),
      (''service'', JStr (un_service u))]) us))]"

definition no_service :: http_error where
  "no_service = BadRequestException ''No eligible carrier service was found for this simulation.''"

text \<open>
  The transaction of \<open>create\<close>: the row of the simulation with its addresses, packages and
  options. The identifiers of the price components, which no operation uses, are left out.
\<close>

definition simulation_row ::
  "(rat \<Rightarrow> rat) \<Rightarrow> date \<Rightarrow> string \<Rightarrow> string \<Rightarrow> CreateFreightSimulationDto \<Rightarrow> date \<Rightarrow> rat
    \<Rightarrow> Customer option \<Rightarrow> CandidateOption \<Rightarrow> CandidateOption list \<Rightarrow> UnavailableService list \<Rightarrow> CandidateOption
    \<Rightarrow> db \<Rightarrow> FreightSimulation result" where
  "simulation_row rnd now tenantId actorId i shipDate distanceKm customer first cs unavailable cheapest d =
     (let n = next_id d; r = co_calculated cheapest;
          carrierId = cs_carrierId (es_service (co_service cheapest)) in
      bindE (normalizePostalCode (ai_postalCode (fi_destination i))) (\<lambda>destinationPostalCode.
      bindE (normalizePostalCode (ai_postalCode (fi_origin i))) (\<lambda>originPostalCode.
      bindE (toSimulationAddress (nat_str (n + 1)) PICKUP (toAddressDto (fi_origin i))) (\<lambda>pickup.
      bindE (toSimulationAddress (nat_str (n + 2)) DELIVERY (toAddressDto (fi_destination i))) (\<lambda>delivery.
        Inr \<lparr> fs_id = nat_str n, fs_tenantId = tenantId, fs_branchId = resolveBranchId d tenantId,
          fs_customerId = map_option c_id customer,
          fs_carrierId = (if carrierId = [] then None else Some carrierId),
          fs_createdById = Some actorId, fs_originPostalCode = originPostalCode,
          fs_destinationPostalCode = destinationPostalCode, fs_realWeightKg = res_realWeightKg r,
          fs_cubicWeightKg = Some (res_cubicWeightKg r),
          fs_chargeableWeightKg = Some (res_chargeableWeightKg r),
          fs_totalVolumeM3 = Some (res_totalVolumeM3 r), fs_cargoValue = Some (money (fi_cargoValue i)),
          fs_distanceKm = Some distanceKm, fs_desiredShipDate = Some shipDate,
          fs_estimatedPrice = Some (res_totalPrice r),
          fs_estimatedDeadlineDays = Some (res_deadlineDays r), fs_status = CALCULATED,
          fs_metadata = unavailable_json unavailable, fs_createdAt = now,
          fs_addresses = [pickup, delivery],
          fs_packages = with_ids (n + 3) (to_package_row rnd) (fi_packages i),
          fs_options = with_ids (n + 3 + length (fi_packages i))
            (to_option_row distanceKm (cheapest_price first cs) (fastest_deadline first cs)) cs \<rparr>)))))"

definition find_customer_for ::
  "string \<Rightarrow> CreateFreightSimulationDto \<Rightarrow> db \<Rightarrow> Customer option result" where
  "find_customer_for tenantId i d =
     (if truthy (fi_customerId i) then
        (case findFirst (\<lambda>c. c_active c \<and> Some (c_id c) = fi_customerId i \<and> c_tenantId c = tenantId)
                (customers d) of
           None \<Rightarrow> Inl (NotFoundException ''Customer was not found.'')
         | Some c \<Rightarrow> Inr (Some c))
      else Inr None)"

definition ship_date :: "date \<Rightarrow> CreateFreightSimulationDto \<Rightarrow> date result" where
  "ship_date now i =
     (if truthy (fi_desiredShipDate i) then
        (case new_Date (the (fi_desiredShipDate i)) of
           None \<Rightarrow> Inl (BadRequestException ''Desired ship date is invalid.'')
         | Some t \<Rightarrow> Inr t)
      else Inr now)"

definition createSimulation ::
  "(rat \<Rightarrow> rat) \<Rightarrow> MathLib \<Rightarrow> date \<Rightarrow> string \<Rightarrow> string \<Rightarrow> CreateFreightSimulationDto
    \<Rightarrow> FreightSimulationDto handler" where
  "createSimulation rnd m now tenantId actorId i d =
     (case ship_date now i of Inl e \<Rightarrow> (Inl e, d) | Inr shipDate \<Rightarrow>
      case find_customer_for tenantId i d of Inl e \<Rightarrow> (Inl e, d) | Inr customer \<Rightarrow>
      case calculateDistanceKm m (toAddressDto (fi_origin i)) (toAddressDto (fi_destination i)) of
        Inl e \<Rightarrow> (Inl e, d) | Inr distanceKm \<Rightarrow>
      case services_loop rnd i shipDate distanceKm (eligible_services tenantId i shipDate d) [] [] of
        Inl e \<Rightarrow> (Inl e, d) | Inr (candidates, unavailable) \<Rightarrow>
      case candidates of [] \<Rightarrow> (Inl no_service, d) | first # _ \<Rightarrow>
      case find (\<lambda>c. res_totalPrice (co_calculated c) = cheapest_price first candidates) candidates of
        None \<Rightarrow> (Inl no_service, d) | Some cheapest \<Rightarrow>
      case simulation_row rnd now tenantId actorId i shipDate distanceKm customer first candidates
             unavailable cheapest d of
        Inl e \<Rightarrow> (Inl e, d)
      | Inr simulation \<Rightarrow>
          let d' = emitDashboardRefresh now tenantId ''freight-simulation''
            (record_audit now (audit_of FREIGHT_SIMULATION_CREATED actorId (fs_id simulation)
               ''FreightSimulation'' (JObj [(''optionCount'', JNum (of_nat (length candidates))),
                 (''unavailableCount'', JNum (of_nat (length unavailable)))]) tenantId)
             (d\<lparr>freightSimulations := freightSimulations d @ [simulation],
                next_id := next_id d + 3 + length (fi_packages i) + length candidates\<rparr>))
          in (getSimulation tenantId (fs_id simulation) d', d'))"

section \<open>Selection of an option\<close>

definition select_in :: "date \<Rightarrow> string \<Rightarrow> FreightSimulationOption \<Rightarrow> FreightSimulationOption" where
  "select_in now optionId opt =
     (let cleared = opt\<lparr>fo_selected := False, fo_selectedAt := None\<rparr> in
      if fo_id opt = optionId then cleared\<lparr>fo_selected := True, fo_selectedAt := Some now\<rparr> else cleared)"

definition selectOption ::
  "date \<Rightarrow> string \<Rightarrow> string \<Rightarrow> string \<Rightarrow> string \<Rightarrow> FreightSimulationDto handler" where
  "selectOption now tenantId actorId simulationId optionId d =
     (case findFirst (\<lambda>s. fs_id s = simulationId \<and> fs_tenantId s = tenantId
             \<and> (\<exists>opt \<in> set (fs_options s). fo_id opt = optionId)) (freightSimulations d) of
        None \<Rightarrow> (Inl (NotFoundException ''Simulation option was not found.''), d)
      | Some s \<Rightarrow>
          let d' = emitDashboardRefresh now tenantId ''freight-option-selected''
            (record_audit now (audit_of FREIGHT_OPTION_SELECTED actorId optionId ''FreightSimulationOption''
               (JObj [(''simulationId'', JStr simulationId)]) tenantId)
             (d\<lparr>freightSimulations := updateMany (\<lambda>s. fs_id s = simulationId \<and> fs_tenantId s = tenantId)
                (\<lambda>s. s\<lparr>fs_options := map (select_in now optionId) (fs_options s)\<rparr>) (freightSimulations d)\<rparr>))
          in (getSimulation tenantId simulationId d', d'))"

section \<open>Shipments\<close>

record ShipmentDto =
  sp_carrierName :: string
  sp_carrierServiceName :: string
  sp_createdAt :: date
  sp_estimatedDeliveryAt :: date
  sp_freightValue :: rat
  sp_id :: string
  sp_simulationId :: string
  sp_status :: ShipmentStatus
  sp_trackingCode :: string

definition presentShipment :: "string \<Rightarrow> string \<Rightarrow> db \<Rightarrow> ShipmentDto result" where
  "presentShipment shipmentId tenantId d =
     bindE (find_shipment tenantId shipmentId d) (\<lambda>s. Inr
       \<lparr> sp_carrierName = (case findFirst (\<lambda>c. cr_id c = sh_carrierId s \<and> cr_tenantId c = tenantId) (carriers d) of
           None \<Rightarrow> ''Transportadora historica'' | Some c \<Rightarrow> cr_name c),
         sp_carrierServiceName = (case findFirst (\<lambda>c. cs_id c = sh_carrierServiceId s \<and> cs_tenantId c = tenantId)
             (carrierServices d) of None \<Rightarrow> ''Servico historico'' | Some c \<Rightarrow> cs_name c),
         sp_createdAt = sh_createdAt s, sp_estimatedDeliveryAt = sh_estimatedDeliveryAt s,
         sp_freightValue = sh_freightValue s, sp_id = sh_id s, sp_simulationId = sh_simulationId s,
         sp_status = sh_status s, sp_trackingCode = sh_trackingCode s \<rparr>)"

definition int_str :: "int \<Rightarrow> string" where
  "int_str k = (if k < 0 then ''-'' @ nat_str (nat (- k)) else nat_str (nat k))"

definition tracking_code :: "FreightSimulation \<Rightarrow> string" where
  "tracking_code s = ''NF-'' @ int_str (getUTCFullYear (fs_createdAt s)) @ ''-''
     @ toUpperCase (take 8 (fs_id s))"

definition shipment_row ::
  "date \<Rightarrow> string \<Rightarrow> string \<Rightarrow> FreightSimulation \<Rightarrow> FreightSimulationOption \<Rightarrow> nat \<Rightarrow> Shipment" where
  "shipment_row now tenantId actorId s opt n =
     \<lparr> sh_id = nat_str n, sh_tenantId = tenantId, sh_simulationId = fs_id s, sh_selectedOptionId = fo_id opt,
       sh_customerId = fs_customerId s, sh_branchId = fs_branchId s, sh_carrierId = fo_carrierId opt,
       sh_carrierServiceId = fo_carrierServiceId opt, sh_createdById = Some actorId,
       sh_trackingCode = tracking_code s, sh_externalReference = None,
       sh_realWeightKg = fo_realWeightKg opt, sh_chargeableWeightKg = fo_chargeableWeightKg opt,
       sh_cargoValue = fs_cargoValue s, sh_freightValue = fo_totalPrice opt,
       sh_estimatedDeliveryAt = fo_estimatedDeliveryAt opt, sh_deliveredAt = None, sh_status = CREATED,
       sh_createdAt = now,
       sh_addresses = with_ids (n + 1) (\<lambda>i a. a\<lparr>fa_id := i, fa_latitude := None, fa_longitude := None\<rparr>)
         (fs_addresses s),
       sh_packages = with_ids (n + 1 + length (fs_addresses s))
         (\<lambda>i p. p\<lparr>fp_id := i, fp_simulationPackageId := Some (fp_id p)\<rparr>) (fs_packages s) \<rparr>"

definition shipment_error :: "prisma_code \<Rightarrow> http_error" where
  "shipment_error e =
     (if e = P2002 then ConflictException ''Shipment already exists for this simulation.''
      else PrismaKnownError e)"

definition createShipment :: "date \<Rightarrow> string \<Rightarrow> string \<Rightarrow> string \<Rightarrow> ShipmentDto handler" where
  "createShipment now tenantId actorId simulationId d =
     (case loadSimulation tenantId simulationId d of Inl e \<Rightarrow> (Inl e, d) | Inr simulation \<Rightarrow>
      case find fo_selected (fs_options simulation) of
        None \<Rightarrow> (Inl (BadRequestException ''Select a simulation option before creating a shipment.''), d)
      | Some selected \<Rightarrow>
      case findFirst (\<lambda>s. sh_simulationId s = simulationId) (shipments d) of
        Some existing \<Rightarrow> (presentShipment (sh_id existing) tenantId d, d)
      | None \<Rightarrow>
      case create_row shipment_conflict (shipment_row now tenantId actorId simulation selected (next_id d))
             (shipments d) of
        Inl e \<Rightarrow> (Inl (shipment_error e), d)
      | Inr t \<Rightarrow>
          let i = new_id d;
              d' = emitDashboardRefresh now tenantId ''shipment-created''
                (record_audit now (audit_of SHIPMENT_CREATED actorId i ''Shipment''
                   (JObj [(''simulationId'', JStr simulationId), (''selectedOptionId'', JStr (fo_id selected))])
                   tenantId)
                 (d\<lparr>shipments := t, next_id := next_id d + 1 + length (fs_addresses simulation)
                     + length (fs_packages simulation)\<rparr>))
          in (presentShipment i tenantId d', d'))"

end
