(* ===== verification/Tracking.thy ===== *)
theory Tracking
  imports Freight
begin

text \<open>
  What tracking promises. \<open>tracking_ok\<close> relates a shipment to the log of its events: the
  statuses in the log form a path of allowed transitions from \<open>CREATED\<close> that ends in the
  current status, and a delivery date is present exactly when the shipment is delivered. The
  shipments are the ones \<open>createShipment\<close> makes from a simulation.
\<close>

section \<open>Paths of statuses\<close>

fun status_path :: "ShipmentStatus \<Rightarrow> ShipmentStatus list \<Rightarrow> bool" where
  "status_path s [] = True"
| "status_path s (x # xs) = (isValidTransition s x \<and> status_path x xs)"

lemma status_path_append:
  "status_path s (xs @ ys) \<longleftrightarrow> status_path s xs \<and> status_path (last (s # xs)) ys"
  by (induction xs arbitrary: s) auto

definition terminal :: "ShipmentStatus \<Rightarrow> bool" where
  "terminal s = (transitions s = [])"

lemma terminal_path: "terminal s \<Longrightarrow> status_path s xs \<Longrightarrow> set xs \<subseteq> {s}"
  by (induction xs arbitrary: s) (auto simp: terminal_def isValidTransition_def)

definition history :: "db \<Rightarrow> string \<Rightarrow> ShipmentStatus list" where
  "history d i = List.map_filter te_status (filter (\<lambda>e. te_shipmentId e = i) (trackingEvents d))"

definition shipment_ok :: "db \<Rightarrow> Shipment \<Rightarrow> bool" where
  "shipment_ok d s \<longleftrightarrow>
     old_id d (sh_id s) \<and> status_path CREATED (history d (sh_id s))
     \<and> sh_status s = last (CREATED # history d (sh_id s))
     \<and> (sh_deliveredAt s \<noteq> None \<longleftrightarrow> sh_status s = DELIVERED)"

definition tracking_ok :: "db \<Rightarrow> bool" where
  "tracking_ok d \<longleftrightarrow>
     wf_table sh_id shipment_conflict (shipments d)
     \<and> wf_table te_id tracking_conflict (trackingEvents d)
     \<and> (\<forall>e \<in> set (trackingEvents d). old_id d (te_id e) \<and> te_shipmentId e \<in> sh_id ` set (shipments d))
     \<and> (\<forall>s \<in> set (shipments d). shipment_ok d s)"

interpretation shipment_table: table sh_id shipment_conflict
  by unfold_locales (auto simp: shipment_conflict_def)

interpretation event_table: table te_id tracking_conflict
  by unfold_locales (simp add: tracking_conflict_def, metis)

section \<open>One event\<close>

definition with_status :: "date \<Rightarrow> ShipmentStatus option \<Rightarrow> Shipment \<Rightarrow> Shipment" where
  "with_status now st s = (case st of None \<Rightarrow> s | Some x \<Rightarrow> move_shipment now x s)"

lemma with_status_simps:
  "with_status now (Some st) = move_shipment now st"
  "updateMany p (with_status now None) t = t"
proof -
  show "with_status now (Some st) = move_shipment now st"
    by (simp add: with_status_def fun_eq_iff)
  show "updateMany p (with_status now None) t = t"
    unfolding updateMany_def by (rule map_idI) (simp add: with_status_def)
qed

definition tracked ::
  "date \<Rightarrow> string \<Rightarrow> string \<Rightarrow> string \<Rightarrow> CreateTrackingEventDto \<Rightarrow> db \<Rightarrow> Shipment \<Rightarrow> db \<Rightarrow> bool" where
  "tracked now tn actor i input d s d' \<longleftrightarrow>
     s \<in> set (shipments d) \<and> sh_id s = i \<and> sh_tenantId s = tn
     \<and> (\<forall>st. ct_status input = Some st \<longrightarrow> isValidTransition (sh_status s) st)
     \<and> create_row tracking_conflict (tracking_event now (new_id d) tn actor i input) (trackingEvents d)
         = Inr (trackingEvents d')
     \<and> shipments d' = updateMany (\<lambda>x. sh_id x = i) (with_status now (ct_status input)) (shipments d)
     \<and> next_id d < next_id d'"

lemma find_shipment_Inr:
  "find_shipment tn i d = Inr s \<Longrightarrow> s \<in> set (shipments d) \<and> sh_id s = i \<and> sh_tenantId s = tn"
  by (auto simp: find_shipment_def split: option.splits dest: findFirst_SomeD)

lemma createTrackingEvent_effect:
  "ensures (\<lambda>r d'. if isl r then d' = d else \<exists>s. tracked now tn actor i input d s d')
     (createTrackingEvent now tn actor i input d)"
  unfolding createTrackingEvent_def
  by (intro ensures_intros)
    (auto simp: tracked_def with_status_simps emit_defs split: option.splits sum.splits
      dest!: find_shipment_Inr update_updateMany)

lemma createTrackingEvent_Inr:
  assumes "createTrackingEvent now tn actor i input d = (Inr v, d')"
  obtains s where "tracked now tn actor i input d s d'"
  using ensuresD [OF createTrackingEvent_effect assms] by auto

section \<open>The invariant is kept\<close>

lemma with_status_fields [simp]:
  "sh_id (with_status now st s) = sh_id s" "sh_tenantId (with_status now st s) = sh_tenantId s"
  "sh_status (with_status now st s) = coalesce st (sh_status s)"
  "shipment_conflict (with_status now st s) x = shipment_conflict s x"
  by (auto simp: with_status_def move_shipment_def shipment_conflict_def split: option.splits)

lemma history_append:
  "trackingEvents d' = trackingEvents d @ [e] \<Longrightarrow>
   history d' i = history d i @ (if te_shipmentId e = i then (case te_status e of None \<Rightarrow> [] | Some x \<Rightarrow> [x]) else [])"
  by (simp add: history_def List.map_filter_def split: option.splits)

lemma shipment_ok_step:
  assumes "shipment_ok d x" "trackingEvents d' = trackingEvents d @ [e]" "next_id d \<le> next_id d'"
    "\<forall>st. te_status e = Some st \<longrightarrow> sh_id x = te_shipmentId e \<longrightarrow> isValidTransition (sh_status x) st"
  shows "shipment_ok d' (if sh_id x = te_shipmentId e then with_status now (te_status e) x else x)"
proof (cases "sh_id x = te_shipmentId e \<and> te_status e \<noteq> None")
  case True
  then obtain st where st: "te_status e = Some st" by auto
  have h: "history d' (sh_id x) = history d (sh_id x) @ [st]"
    using True st history_append [OF assms(2)] by simp
  have v: "isValidTransition (sh_status x) st"
    using assms(4) st True by simp
  have "(sh_deliveredAt (with_status now (Some st) x) \<noteq> None) = (st = DELIVERED)"
    using assms(1) v by (auto simp: shipment_ok_def with_status_def move_shipment_def isValidTransition_def)
  then show ?thesis
    using True st h v assms(1,3) by (auto simp: shipment_ok_def status_path_append intro: old_id_mono)
next
  case False
  then have h: "history d' (sh_id x) = history d (sh_id x)"
    using history_append [OF assms(2)] by (auto split: option.splits)
  show ?thesis
    using False h assms(1,3) by (auto simp: shipment_ok_def with_status_def intro: old_id_mono)
qed

lemma tracked_ok:
  assumes "tracking_ok d" "tracked now tn actor i input d s d'"
  shows "tracking_ok d'"
proof -
  note t = assms(2) [unfolded tracked_def]
  define e where "e = tracking_event now (new_id d) tn actor i input"
  have e: "te_id e = new_id d" "te_shipmentId e = i" "te_status e = ct_status input"
    by (simp_all add: e_def tracking_event_def)
  have ev: "trackingEvents d' = trackingEvents d @ [e]"
    using t by (simp add: create_Inr e_def)
  have sh: "shipments d' = updateMany (\<lambda>x. sh_id x = i) (with_status now (ct_status input)) (shipments d)"
    using t by simp
  have ids: "sh_id ` set (shipments d') = sh_id ` set (shipments d)"
  proof -
    have "map sh_id (shipments d') = map sh_id (shipments d)"
      unfolding sh by (rule map_updateMany) simp
    then show ?thesis by (metis set_map)
  qed
  have nx: "next_id d \<le> next_id d'" using t by simp
  have one: "x = s" if "x \<in> set (shipments d)" "sh_id x = i" for x
    using that t assms(1) wf_table_unique [of sh_id shipment_conflict "shipments d" x s]
    by (auto simp: tracking_ok_def)
  have "wf_table sh_id shipment_conflict (shipments d')"
    using shipment_table.wf_updateMany [of "shipments d" "with_status now (ct_status input)" "\<lambda>x. sh_id x = i"]
      assms(1) by (simp add: tracking_ok_def sh)
  moreover have "wf_table te_id tracking_conflict (trackingEvents d')"
  proof -
    have "te_id e \<notin> te_id ` set (trackingEvents d)"
      using assms(1) e(1) new_id_fresh [of d] by (auto simp: tracking_ok_def)
    then show ?thesis
      using event_table.wf_create [of e "trackingEvents d" "trackingEvents d'"] t assms(1)
      by (simp add: tracking_ok_def e_def)
  qed
  moreover have owner: "i \<in> sh_id ` set (shipments d)"
    using t by auto
  moreover have "old_id d' (te_id x) \<and> te_shipmentId x \<in> sh_id ` set (shipments d')"
    if "x \<in> set (trackingEvents d')" for x
    using that t assms(1) e owner unfolding ids
    by (auto simp: ev tracking_ok_def intro: old_id_mono [OF _ nx] old_id_new_id)
  moreover have "shipment_ok d' x" if x: "x \<in> set (shipments d')" for x
  proof -
    obtain y where y: "y \<in> set (shipments d)" "x = (if sh_id y = i then with_status now (ct_status input) y else y)"
      using x unfolding sh set_updateMany by blast
    have "\<forall>st. te_status e = Some st \<longrightarrow> sh_id y = te_shipmentId e \<longrightarrow> isValidTransition (sh_status y) st"
      using t one [OF y(1)] e by auto
    then show ?thesis
      using shipment_ok_step [of d y d' e now] assms(1) y ev nx e by (auto simp: tracking_ok_def)
  qed
  ultimately show ?thesis by (auto simp: tracking_ok_def)
qed

section \<open>A new shipment\<close>

definition shipped :: "db \<Rightarrow> Shipment \<Rightarrow> db \<Rightarrow> bool" where
  "shipped d x d' \<longleftrightarrow>
     sh_id x = new_id d \<and> sh_status x = CREATED \<and> sh_deliveredAt x = None
     \<and> create_row shipment_conflict x (shipments d) = Inr (shipments d')
     \<and> trackingEvents d' = trackingEvents d \<and> next_id d < next_id d'"

lemma shipped_row:
  "create_row shipment_conflict (shipment_row now tn actor s opt (next_id d)) (shipments d) = Inr t
   \<Longrightarrow> shipments d' = t \<Longrightarrow> trackingEvents d' = trackingEvents d \<Longrightarrow> next_id d < next_id d'
   \<Longrightarrow> \<exists>x. shipped d x d'"
  by (rule exI [of _ "shipment_row now tn actor s opt (next_id d)"])
    (simp add: shipped_def, simp add: shipment_row_def new_id_def)

lemma createShipment_effect:
  "ensures (\<lambda>r d'. d' = d \<or> (\<exists>x. shipped d x d')) (createShipment now tn actor i d)"
  unfolding createShipment_def
  apply (intro ensures_intros)
      apply (simp; fail)+
  apply (rule disjI2, rule shipped_row, assumption)
    apply (simp_all add: emit_defs)
  done

lemma shipped_ok:
  assumes "tracking_ok d" "shipped d x d'"
  shows "tracking_ok d'"
proof -
  note x = assms(2) [unfolded shipped_def]
  have t: "shipments d' = shipments d @ [x]"
    using x by (simp add: create_Inr)
  have nx: "next_id d \<le> next_id d'" using x by simp
  have fresh: "sh_id x \<notin> sh_id ` set (shipments d)"
    using assms(1) x new_id_fresh [of d] by (auto simp: tracking_ok_def shipment_ok_def)
  have wf: "wf_table sh_id shipment_conflict (shipments d')"
    using shipment_table.wf_create [OF _ _ fresh] x assms(1) by (simp add: tracking_ok_def)
  have h: "history d' i = history d i" for i
    using x by (simp add: history_def)
  have none: "history d (sh_id x) = []"
  proof -
    have "filter (\<lambda>e. te_shipmentId e = sh_id x) (trackingEvents d) = []"
      using assms(1) fresh unfolding tracking_ok_def filter_empty_conv by metis
    then show ?thesis by (simp add: history_def List.map_filter_def)
  qed
  have "shipment_ok d' x"
    using x none h old_id_new_id [of d d'] by (simp add: shipment_ok_def)
  moreover have "shipment_ok d' y" if "y \<in> set (shipments d)" for y
    using that assms(1) h nx by (auto simp: tracking_ok_def shipment_ok_def intro: old_id_mono)
  ultimately show ?thesis
    using wf assms(1) x t old_id_mono [OF _ nx] by (auto simp: tracking_ok_def)
qed

section \<open>Runs\<close>

text \<open>The requests of any tenant on shipments and their events.\<close>

inductive tracking_step :: "db \<Rightarrow> db \<Rightarrow> bool" where
  event: "tracking_step d (snd (createTrackingEvent now tn actor i input d))"
| status: "tracking_step d (snd (updateShipmentStatus now tn actor i st d))"
| shipment: "tracking_step d (snd (createShipment now tn actor simulationId d))"

lemma tracking_step_cases:
  assumes "tracking_step d d'"
  shows "d' = d \<or> (\<exists>now tn actor i input s. tracked now tn actor i input d s d') \<or> (\<exists>x. shipped d x d')"
proof -
  have *: "snd p = d \<or> (\<exists>s. tracked now tn actor i input d s (snd p))"
    if "p = createTrackingEvent now tn actor i input d" for p now tn actor i input
    using createTrackingEvent_effect [of d now tn actor i input] that
    by (cases p) (auto simp: ensures_def split: if_splits)
  show ?thesis
    using assms
  proof cases
    case event
    then show ?thesis using * by blast
  next
    case (shipment now tn actor i)
    then show ?thesis
      using createShipment_effect [of d now tn actor i] by (auto simp: ensures_def case_prod_unfold)
  next
    case (status now tn actor i st)
    let ?input = "\<lparr> ct_eventType = STATUS_CHANGED, ct_status = Some st,
          ct_description = Some ''Atualizacao operacional registrada.'', ct_occurredAt = now,
          ct_location = None, ct_externalCode = None, ct_idempotencyKey = None \<rparr>"
    have "d' = d \<or> d' = snd (createTrackingEvent now tn actor i ?input d)"
      using status by (simp add: updateShipmentStatus_def split: sum.splits)
    then show ?thesis
      using * [OF refl, of now tn actor i ?input] by blast
  qed
qed

lemma tracking_step_ok: "tracking_step d d' \<Longrightarrow> tracking_ok d \<Longrightarrow> tracking_ok d'"
  using tracking_step_cases tracked_ok shipped_ok by blast

lemma tracking_step_status:
  assumes "tracking_step d d'" "tracking_ok d" "s \<in> set (shipments d)"
  shows "\<exists>s' \<in> set (shipments d'). sh_id s' = sh_id s \<and> isValidTransition (sh_status s) (sh_status s')"
  using tracking_step_cases [OF assms(1)]
proof (elim disjE exE)
  assume "d' = d"
  then show ?thesis using assms(3) by (auto simp: isValidTransition_def)
next
  fix x
  assume "shipped d x d'"
  then show ?thesis
    using assms(3) by (auto simp: shipped_def create_Inr isValidTransition_def intro!: bexI [of _ s])
next
  fix now tn actor i input r
  assume t: "tracked now tn actor i input d r d'"
  define s' where "s' = (if sh_id s = i then with_status now (ct_status input) s else s)"
  have in': "s' \<in> set (shipments d')"
    using t assms(3) by (auto simp: tracked_def s'_def set_updateMany)
  have "isValidTransition (sh_status s) (sh_status s')"
  proof (cases "sh_id s = i \<and> ct_status input \<noteq> None")
    case True
    then have "s = r"
      using t assms(2,3) wf_table_unique [of sh_id shipment_conflict "shipments d" s r]
      by (auto simp: tracked_def tracking_ok_def)
    then show ?thesis
      using True t by (auto simp: s'_def tracked_def)
  qed (auto simp: s'_def with_status_def isValidTransition_def)
  then show ?thesis
    using in' by (auto simp: s'_def intro!: bexI [of _ s'])
qed

lemma tracking_run:
  assumes "tracking_step\<^sup>*\<^sup>* d d'" "tracking_ok d" "s \<in> set (shipments d)"
  shows "tracking_ok d' \<and> (\<exists>s' \<in> set (shipments d'). sh_id s' = sh_id s
    \<and> isValidTransition\<^sup>*\<^sup>* (sh_status s) (sh_status s'))"
  using assms(1)
proof (induction rule: rtranclp_induct)
  case base
  show ?case using assms(2,3) by auto
next
  case (step y z)
  then obtain s1 where s1: "s1 \<in> set (shipments y)" "sh_id s1 = sh_id s"
    "isValidTransition\<^sup>*\<^sup>* (sh_status s) (sh_status s1)" "tracking_ok y"
    by blast
  then obtain s2 where s2: "s2 \<in> set (shipments z)" "sh_id s2 = sh_id s1"
    "isValidTransition (sh_status s1) (sh_status s2)"
    using tracking_step_status [OF step(2) s1(4,1)] by blast
  then show ?case
    using s1 tracking_step_ok [OF step(2) s1(4)] rtranclp.rtrancl_into_rtrancl by fastforce
qed

lemma terminal_stays: "isValidTransition\<^sup>*\<^sup>* s s' \<Longrightarrow> terminal s \<Longrightarrow> s' = s"
  by (induction rule: rtranclp_induct) (auto simp: terminal_def isValidTransition_def)

section \<open>Which events are accepted\<close>

lemma find_shipment_unique:
  assumes "tracking_ok d" "s \<in> set (shipments d)" "sh_id s = i" "sh_tenantId s = tn"
  shows "find_shipment tn i d = Inr s"
proof -
  have "find (\<lambda>x. sh_id x = i \<and> sh_tenantId x = tn) (shipments d) = Some y \<Longrightarrow> y = s" for y
    using wf_table_unique [of sh_id shipment_conflict "shipments d" y s] assms
    by (auto simp: tracking_ok_def dest!: find_SomeD)
  then show ?thesis
    using find_ex [of s "shipments d" "\<lambda>x. sh_id x = i \<and> sh_tenantId x = tn"] assms
    by (auto simp: find_shipment_def findFirst_def)
qed

lemma move_shipment_succeeds:
  assumes "tracking_ok d" "s \<in> set (shipments d)" "sh_id s = i"
  shows "update_row sh_id shipment_conflict i (move_shipment now st) (shipments d)
    = Inr (move_shipment now st s, updateMany (\<lambda>x. sh_id x = i) (move_shipment now st) (shipments d))"
proof -
  have "find (\<lambda>x. sh_id x = i) (shipments d) = Some s"
    using wf_table_find [of sh_id shipment_conflict "shipments d" s] assms by (simp add: tracking_ok_def)
  moreover have "\<not> shipment_conflict (move_shipment now st s) x"
    if "x \<in> set (shipments d)" "sh_id x \<noteq> i" for x
    using that assms by (auto simp: tracking_ok_def wf_table_def move_shipment_def shipment_conflict_def)
  ultimately show ?thesis by (auto simp: update_row_def updateMany_def)
qed

lemma createTrackingEvent_succeeds:
  assumes "tracking_ok d" "s \<in> set (shipments d)" "sh_id s = i" "sh_tenantId s = tn"
    "\<forall>st. ct_status input = Some st \<longrightarrow> isValidTransition (sh_status s) st"
    "create_row tracking_conflict (tracking_event now (new_id d) tn actor i input) (trackingEvents d) = Inr t"
  shows "\<exists>v d'. createTrackingEvent now tn actor i input d = (Inr v, d')
    \<and> tr_status v = coalesce (ct_status input) (sh_status s)
    \<and> with_status now (ct_status input) s \<in> set (shipments d')"
proof (cases "ct_status input")
  case None
  then show ?thesis
    using find_shipment_unique [OF assms(1-4)] assms(2,6)
    by (simp add: createTrackingEvent_def Let_def emit_defs with_status_def)
next
  case (Some st)
  then show ?thesis
    using find_shipment_unique [OF assms(1-4)] assms(2,3,5,6) move_shipment_succeeds [OF assms(1-3)]
    by (auto simp: createTrackingEvent_def Let_def emit_defs with_status_def set_updateMany)
      (simp add: move_shipment_def)
qed

section \<open>Properties\<close>

definition example_shipment :: Shipment where
  "example_shipment = \<lparr> sh_id = nat_str 0, sh_tenantId = ''t1'', sh_simulationId = ''s1'',
     sh_selectedOptionId = ''o1'', sh_customerId = None, sh_branchId = None, sh_carrierId = ''c1'',
     sh_carrierServiceId = ''v1'', sh_createdById = None, sh_trackingCode = ''NF-2026-S1'',
     sh_externalReference = None, sh_realWeightKg = 1, sh_chargeableWeightKg = 1,
     sh_cargoValue = None, sh_freightValue = 95, sh_estimatedDeliveryAt = 0, sh_deliveredAt = None,
     sh_status = CREATED, sh_createdAt = 0, sh_addresses = [], sh_packages = [] \<rparr>"

definition example_tracking :: db where
  "example_tracking = empty_db\<lparr>shipments := [example_shipment], next_id := 1\<rparr>"

definition example_event :: "ShipmentStatus option \<Rightarrow> string option \<Rightarrow> CreateTrackingEventDto" where
  "example_event st key = \<lparr> ct_eventType = STATUS_CHANGED, ct_status = st, ct_description = None,
     ct_occurredAt = 5, ct_location = None, ct_externalCode = None, ct_idempotencyKey = key \<rparr>"

lemma example_tracking_ok: "tracking_ok example_tracking"
  by (simp add: tracking_ok_def wf_table_def example_tracking_def empty_db_def shipment_ok_def
      old_id_def history_def example_shipment_def List.map_filter_def)

text \<open>
  C7: tracking requests, in any order and from any tenant, keep the log and the shipments in
  step: the recorded statuses of a shipment form a path of allowed transitions that ends in its
  status, it has a delivery date exactly when it is delivered, and no two of its events share an
  idempotency key.
\<close>

theorem tracking_safe:
  assumes "tracking_ok d" "tracking_step\<^sup>*\<^sup>* d d'"
  shows "tracking_ok d'"
  using assms(2,1) by (induction rule: rtranclp_induct) (auto dest: tracking_step_ok)

theorem tracking_safe_witness:
  "tracking_ok (snd (createTrackingEvent 9 ''t1'' ''u1'' (nat_str 0)
     (example_event (Some PICKUP_SCHEDULED) None) example_tracking))"
  by (rule tracking_safe [OF example_tracking_ok]) (rule r_into_rtranclp, rule tracking_step.event)


definition canceled_tracking :: db where
  "canceled_tracking = snd (createTrackingEvent 9 ''t1'' ''u1'' (nat_str 0)
     (example_event (Some ShipmentStatus.CANCELED) (Some ''k'')) example_tracking)"

lemma example_event_shipments:
  assumes "isValidTransition CREATED st"
  shows "shipments (snd (createTrackingEvent 9 ''t1'' ''u1'' (nat_str 0) (example_event (Some st) key)
      example_tracking)) = [move_shipment 9 st example_shipment]"
proof -
  have "find_shipment ''t1'' (nat_str 0) example_tracking = Inr example_shipment"
    by (simp add: find_shipment_def findFirst_def example_tracking_def example_shipment_def)
  moreover have "sh_status example_shipment = CREATED" "sh_id example_shipment = nat_str 0"
    by (simp_all add: example_shipment_def)
  moreover have "shipments example_tracking = [example_shipment]" "trackingEvents example_tracking = []"
    by (simp_all add: example_tracking_def empty_db_def)
  ultimately show ?thesis
    using assms by (simp add: createTrackingEvent_def example_event_def create_row_def update_row_def emit_defs Let_def)
qed

lemma canceled_tracking_ok: "tracking_ok canceled_tracking"
  unfolding canceled_tracking_def
  by (rule tracking_step_ok [OF tracking_step.event example_tracking_ok])

lemma canceled_shipments:
  "shipments canceled_tracking = [move_shipment 9 ShipmentStatus.CANCELED example_shipment]"
  unfolding canceled_tracking_def
  by (rule example_event_shipments) (simp add: isValidTransition_def)


text \<open>
  A tracking event with an idempotency key is recorded once: after a first success, sending
  it again is refused as a duplicate and changes nothing.
\<close>

theorem event_is_idempotent:
  assumes "tracking_ok d" "createTrackingEvent now tn actor i input d = (Inr v, d')"
    "ct_idempotencyKey input = Some k"
  shows "createTrackingEvent now' tn actor' i input d' = (Inl (tracking_error P2002), d')"
proof -
  obtain s where t: "tracked now tn actor i input d s d'"
    using createTrackingEvent_Inr [OF assms(2)] .
  define s' where "s' = with_status now (ct_status input) s"
  have ok': "tracking_ok d'"
    using tracked_ok [OF assms(1) t] .
  have s': "s' \<in> set (shipments d')" "sh_id s' = i" "sh_tenantId s' = tn"
    using t by (auto simp: tracked_def s'_def set_updateMany)
  have "find_shipment tn i d' = Inr s'"
    by (rule find_shipment_unique [OF ok' s'])
  moreover have "ct_status input = Some st \<Longrightarrow> isValidTransition (sh_status s') st" for st
    by (simp add: s'_def isValidTransition_def)
  moreover have "create_row tracking_conflict (tracking_event now' (new_id d') tn actor' i input)
      (trackingEvents d') = Inl P2002"
    using t assms(3) by (auto simp: tracked_def create_Inl create_Inr tracking_conflict_def tracking_event_def)
  ultimately show ?thesis
    by (simp add: createTrackingEvent_def split: option.splits)
qed

theorem event_is_idempotent_witness:
  "createTrackingEvent 10 ''t1'' ''u2'' (nat_str 0) (example_event (Some ShipmentStatus.CANCELED) (Some ''k''))
     canceled_tracking = (Inl (tracking_error P2002), canceled_tracking)"
proof -
  have "\<exists>v d'. createTrackingEvent 9 ''t1'' ''u1'' (nat_str 0)
      (example_event (Some ShipmentStatus.CANCELED) (Some ''k'')) example_tracking = (Inr v, d')"
  proof -
    have e: "shipments example_tracking = [example_shipment]" "trackingEvents example_tracking = []"
      by (simp_all add: example_tracking_def empty_db_def)
    have s: "sh_id example_shipment = nat_str 0" "sh_tenantId example_shipment = ''t1''"
      "sh_status example_shipment = CREATED"
      by (simp_all add: example_shipment_def)
    have i: "ct_status (example_event (Some ShipmentStatus.CANCELED) (Some ''k'')) = Some ShipmentStatus.CANCELED"
      by (simp add: example_event_def)
    show ?thesis
      using createTrackingEvent_succeeds [OF example_tracking_ok, of example_shipment "nat_str 0" "''t1''"
          "example_event (Some ShipmentStatus.CANCELED) (Some ''k'')" 9 "''u1''"]
      by (simp add: e s i isValidTransition_def create_row_def) blast
  qed
  then obtain v where "createTrackingEvent 9 ''t1'' ''u1'' (nat_str 0)
     (example_event (Some ShipmentStatus.CANCELED) (Some ''k'')) example_tracking = (Inr v, canceled_tracking)"
    unfolding canceled_tracking_def by force
  from event_is_idempotent [OF example_tracking_ok this] show ?thesis
    by (simp add: example_event_def)
qed

text \<open>
  A request to set the status of a shipment is accepted exactly when the transition table
  allows it, and answers with the requested status. In particular a second delivered event is
  accepted, and it moves the delivery date to the time of the request.
\<close>

theorem status_accepted_iff:
  assumes "tracking_ok d" "s \<in> set (shipments d)"
  shows "(\<exists>v d'. updateShipmentStatus now (sh_tenantId s) actor (sh_id s) st d = (Inr v, d')
            \<and> tr_status v = st \<and> move_shipment now st s \<in> set (shipments d'))
         \<longleftrightarrow> isValidTransition (sh_status s) st"
proof
  have f: "find_shipment (sh_tenantId s) (sh_id s) d = Inr s"
    using find_shipment_unique [OF assms] by simp
  assume "\<exists>v d'. updateShipmentStatus now (sh_tenantId s) actor (sh_id s) st d = (Inr v, d')
    \<and> tr_status v = st \<and> move_shipment now st s \<in> set (shipments d')"
  then show "isValidTransition (sh_status s) st"
    using f by (auto simp: updateShipmentStatus_def createTrackingEvent_def split: if_splits)
next
  have f: "find_shipment (sh_tenantId s) (sh_id s) d = Inr s"
    using find_shipment_unique [OF assms] by simp
  define input where "input = \<lparr> ct_eventType = STATUS_CHANGED, ct_status = Some st,
          ct_description = Some ''Atualizacao operacional registrada.'', ct_occurredAt = now,
          ct_location = None, ct_externalCode = None, ct_idempotencyKey = None \<rparr>"
  have "create_row tracking_conflict (tracking_event now (new_id d) (sh_tenantId s) actor (sh_id s) input)
      (trackingEvents d) = Inr (trackingEvents d @
        [tracking_event now (new_id d) (sh_tenantId s) actor (sh_id s) input])"
    by (simp add: create_Inr tracking_conflict_def tracking_event_def input_def)
  moreover assume "isValidTransition (sh_status s) st"
  ultimately show "\<exists>v d'. updateShipmentStatus now (sh_tenantId s) actor (sh_id s) st d = (Inr v, d')
    \<and> tr_status v = st \<and> move_shipment now st s \<in> set (shipments d')"
    using createTrackingEvent_succeeds [OF assms refl refl, of input now actor] f
    by (simp add: updateShipmentStatus_def with_status_def flip: input_def) (simp add: input_def)
qed

theorem status_accepted_iff_witness:
  "(\<exists>v d'. updateShipmentStatus 20 ''t1'' ''u1'' (nat_str 0) PICKUP_SCHEDULED example_tracking = (Inr v, d')
     \<and> tr_status v = PICKUP_SCHEDULED) \<and>
   \<not> (\<exists>v d'. updateShipmentStatus 20 ''t1'' ''u1'' (nat_str 0) DELIVERED example_tracking = (Inr v, d')
     \<and> tr_status v = DELIVERED \<and> move_shipment 20 DELIVERED example_shipment \<in> set (shipments d'))"
  using status_accepted_iff [OF example_tracking_ok, of example_shipment 20 "''u1''" PICKUP_SCHEDULED]
    status_accepted_iff [OF example_tracking_ok, of example_shipment 20 "''u1''" DELIVERED]
  by (auto simp: example_tracking_def example_shipment_def isValidTransition_def)

end
