(* ===== verification/RateTables.thy ===== *)
theory RateTables
  imports Logistics
begin

text \<open>
  What the rate tables promise: ranges that passed \<open>validateRanges\<close> select at most one price
  for a weight, versions of a table never collide, and a table that priced a simulation keeps
  its prices.
\<close>

section \<open>Validated ranges\<close>

definition covers :: "rat \<Rightarrow> 'a RateInput_scheme \<Rightarrow> bool" where
  "covers w r = (minWeightKg r \<le> w \<and> w \<le> maxWeightKg r)"

lemma check_ranges_Inr:
  "check_ranges rs = Inr u \<Longrightarrow> r \<in> set rs \<Longrightarrow>
   minWeightKg r < maxWeightKg r \<and> 0 \<le> basePrice r \<and> 0 \<le> pricePerKg r \<and> 1 \<le> deadlineDays r"
  by (induction rs) (auto split: if_splits)

lemma check_overlap_sorted:
  "check_overlap rs = Inr u \<Longrightarrow> \<forall>r \<in> set rs. minWeightKg r < maxWeightKg r
   \<Longrightarrow> sorted_wrt (\<lambda>a b. maxWeightKg a < minWeightKg b) rs"
proof (induction rs rule: check_overlap.induct)
  case (1 a b rs)
  then have ab: "maxWeightKg a < minWeightKg b" and
    IH: "sorted_wrt (\<lambda>a b. maxWeightKg a < minWeightKg b) (b # rs)"
    by (auto split: if_splits)
  moreover have "minWeightKg b < maxWeightKg b" using 1(3) by simp
  ultimately have "\<forall>x \<in> set (b # rs). maxWeightKg a < minWeightKg x" by auto
  then show ?case using IH by simp
qed simp_all

lemma sorted_covers_once:
  "sorted_wrt (\<lambda>a b. maxWeightKg a < minWeightKg b) rs \<Longrightarrow> length (filter (covers w) rs) \<le> 1"
proof (induction rs)
  case (Cons r rs)
  show ?case
  proof (cases "covers w r")
    case True
    then have "\<forall>x \<in> set rs. \<not> covers w x"
      using Cons.prems by (auto simp: covers_def)
    then show ?thesis using True by (simp add: filter_False)
  next
    case False
    then show ?thesis using Cons by simp
  qed
qed simp

lemma length_filter_insert_by:
  "length (filter p (insert_by lt x xs)) = length (filter p (x # xs))"
  by (induction xs) auto

lemma length_filter_orderBy: "length (filter p (orderBy lt xs)) = length (filter p xs)"
  by (induction xs) (simp_all add: orderBy_Cons length_filter_insert_by)

lemma validateRanges_Inr:
  assumes "validateRanges rs = Inr u"
  shows "length (filter (covers w) rs) \<le> 1"
    and "\<forall>r \<in> set rs. minWeightKg r < maxWeightKg r \<and> 0 \<le> basePrice r \<and> 0 \<le> pricePerKg r \<and> 1 \<le> deadlineDays r"
proof -
  let ?o = "orderBy (asc minWeightKg) rs"
  from assms have c: "check_ranges ?o = Inr ()" "check_overlap ?o = Inr ()"
    by (auto simp: validateRanges_def bindE_eq_Inr Let_def)
  show *: "\<forall>r \<in> set rs. minWeightKg r < maxWeightKg r \<and> 0 \<le> basePrice r \<and> 0 \<le> pricePerKg r \<and> 1 \<le> deadlineDays r"
    using check_ranges_Inr [OF c(1)] by simp
  then have "sorted_wrt (\<lambda>a b. maxWeightKg a < minWeightKg b) ?o"
    by (intro check_overlap_sorted [OF c(2)]) simp
  from sorted_covers_once [OF this] show "length (filter (covers w) rs) \<le> 1"
    by (simp add: length_filter_orderBy)
qed

section \<open>The invariant\<close>

interpretation rate_table: table rt_id rate_table_conflict
  by unfold_locales (simp add: rate_table_conflict_def)

definition valid_prices :: "FreightRateTable \<Rightarrow> bool" where
  "valid_prices t = (validateRanges (rt_ranges t) = Inr ())"

definition rate_tables_ok :: "db \<Rightarrow> bool" where
  "rate_tables_ok d \<longleftrightarrow>
     wf_table rt_id rate_table_conflict (freightRateTables d)
     \<and> (\<forall>t \<in> set (freightRateTables d). old_id d (rt_id t) \<and> valid_prices t)"

text \<open>A table, changed at most in its status.\<close>

definition same_prices :: "FreightRateTable \<Rightarrow> FreightRateTable \<Rightarrow> bool" where
  "same_prices t t' = (t' = t\<lparr>rt_status := rt_status t'\<rparr>)"

lemma same_prices_refl [simp]: "same_prices t t"
  by (simp add: same_prices_def)

lemma same_prices_trans:
  "same_prices t t' \<Longrightarrow> same_prices t' t'' \<Longrightarrow> same_prices t t''"
  unfolding same_prices_def
  by (metis FreightRateTable.surjective FreightRateTable.update_convs(11))

text \<open>Validation looks at the base record of a range only.\<close>

lemma check_ranges_truncate:
  "check_ranges (map RateInput.truncate rs) = check_ranges rs"
  by (induction rs) (simp_all add: RateInput.truncate_def)

lemma check_overlap_truncate:
  "check_overlap (map RateInput.truncate rs) = check_overlap rs"
  by (induction rs rule: check_overlap.induct) (simp_all add: RateInput.truncate_def)

lemma insert_by_map:
  "(\<And>a b. lt' (f a) (f b) = lt a b) \<Longrightarrow> map f (insert_by lt x xs) = insert_by lt' (f x) (map f xs)"
  by (induction xs) auto

lemma orderBy_map:
  "(\<And>a b. lt' (f a) (f b) = lt a b) \<Longrightarrow> map f (orderBy lt xs) = orderBy lt' (map f xs)"
  by (induction xs) (simp_all add: orderBy_Cons insert_by_map [where lt' = lt'])

lemma validateRanges_truncate:
  "validateRanges (map RateInput.truncate rs) = validateRanges rs"
proof -
  have "orderBy (asc minWeightKg) (map RateInput.truncate rs)
      = map RateInput.truncate (orderBy (asc minWeightKg) rs)"
    by (rule orderBy_map [symmetric]) (simp add: asc_def RateInput.truncate_def)
  then show ?thesis
    by (simp add: validateRanges_def check_ranges_truncate check_overlap_truncate Let_def)
qed

lemma truncate_to_range [simp]: "RateInput.truncate (to_range i r) = RateInput.truncate r"
  by (simp add: to_range_def RateInput.truncate_def RateInput.extend_def FreightRateRange.fields_def)

lemma nested_ranges_truncate:
  "map RateInput.truncate (nested_ranges n i) = map RateInput.truncate (rti_ranges i)"
  unfolding nested_ranges_def by (rule map_with_ids) simp

lemma nested_ranges_valid: "validateRanges (nested_ranges n i) = validateRanges (rti_ranges i)"
  by (metis validateRanges_truncate nested_ranges_truncate)

lemma check_rate_table_Inr:
  assumes "check_rate_table tn i d = Inr cov"
  shows "validateRanges (rti_ranges i) = Inr ()"
  using assms by (auto simp: check_rate_table_def split: sum.splits)

lemma next_version_fresh:
  assumes "t \<in> set (freightRateTables d)" "rt_tenantId t = tn" "rt_carrierServiceId t = s"
  shows "rt_version t < next_version tn s d"
proof -
  let ?ts = "findMany (\<lambda>t. rt_tenantId t = tn \<and> rt_carrierServiceId t = s) (freightRateTables d)"
  have "t \<in> set ?ts" using assms by (simp add: findMany_def)
  then show ?thesis
    using max_of_ge [of rt_version ?ts _ t]
    by (cases "max_of rt_version ?ts") (auto simp: next_version_def less_Suc_eq_le)
qed

section \<open>The handlers\<close>

definition table_run :: "db \<Rightarrow> db \<Rightarrow> bool" where
  "table_run d d' \<longleftrightarrow>
     rate_tables_ok d' \<and> freightSimulations d' = freightSimulations d
     \<and> (\<forall>t \<in> set (freightRateTables d). used_in_simulations (rt_tenantId t) (rt_id t) d > 0
          \<longrightarrow> (\<exists>t' \<in> set (freightRateTables d'). same_prices t t'))"

lemma table_run_refl: "rate_tables_ok d \<Longrightarrow> table_run d d"
  unfolding table_run_def using same_prices_refl by blast

lemma find_rate_table_Inr:
  "find_rate_table tn i d = Inr t \<Longrightarrow> t \<in> set (freightRateTables d) \<and> rt_id t = i \<and> rt_tenantId t = tn"
  by (auto simp: find_rate_table_def split: option.splits dest: findFirst_SomeD)

lemma add_table_run:
  assumes "rate_tables_ok d" "create_row rate_table_conflict x (freightRateTables d) = Inr t"
    "rt_id x = new_id d" "valid_prices x" "freightRateTables d' = t" "next_id d < next_id d'"
    "freightSimulations d' = freightSimulations d"
  shows "table_run d d'"
proof -
  have t: "t = freightRateTables d @ [x]" using assms(2) by (simp add: create_Inr)
  have "rt_id x \<notin> rt_id ` set (freightRateTables d)"
    using assms(1,3) new_id_fresh [of d] by (auto simp: rate_tables_ok_def)
  then have "wf_table rt_id rate_table_conflict t"
    using rate_table.wf_create [OF assms(2)] assms(1) by (simp add: rate_tables_ok_def)
  moreover have "old_id d' (rt_id x)"
    using assms(3,6) by (simp add: old_id_new_id)
  moreover have "\<forall>y \<in> set (freightRateTables d). old_id d' (rt_id y) \<and> valid_prices y"
    using assms(1,6) old_id_mono [of d _ d'] by (auto simp: rate_tables_ok_def)
  ultimately show ?thesis
    using assms(4,5,7) t same_prices_refl
    unfolding table_run_def rate_tables_ok_def by (metis Un_iff empty_iff empty_set insert_iff list.simps(15) set_append)
qed

lemma change_table_run:
  assumes "rate_tables_ok d" "find_rate_table tn i d = Inr c"
    "update_row rt_id rate_table_conflict i f (freightRateTables d) = Inr (r, t)"
    "\<And>x. rt_id (f x) = rt_id x" "\<And>x. valid_prices x \<Longrightarrow> valid_prices (f x)"
    "used_in_simulations tn i d > 0 \<Longrightarrow> same_prices c (f c)"
    "freightRateTables d' = t" "next_id d \<le> next_id d'" "freightSimulations d' = freightSimulations d"
  shows "table_run d d'"
proof -
  have c: "c \<in> set (freightRateTables d)" "rt_id c = i" "rt_tenantId c = tn"
    using find_rate_table_Inr [OF assms(2)] by auto
  have t: "t = updateMany (\<lambda>x. rt_id x = i) f (freightRateTables d)"
    using update_updateMany [OF assms(3)] by simp
  have "wf_table rt_id rate_table_conflict t"
    using rate_table.wf_update [OF assms(3) _ assms(4)] assms(1) by (simp add: rate_tables_ok_def)
  moreover have "old_id d' (rt_id x) \<and> valid_prices x" if "x \<in> set t" for x
    using that assms(1,4,5) old_id_mono [of d _ d', OF _ assms(8)]
    by (auto simp: t set_updateMany rate_tables_ok_def)
  moreover have "\<exists>t' \<in> set t. same_prices x t'"
    if x: "x \<in> set (freightRateTables d)" "used_in_simulations (rt_tenantId x) (rt_id x) d > 0" for x
  proof (cases "rt_id x = i")
    case True
    then have "x = c"
      using wf_table_unique [of rt_id rate_table_conflict _ x c] assms(1) c x(1)
      by (auto simp: rate_tables_ok_def)
    then have "same_prices x (f x)" "f x \<in> set t"
      using assms(6) c x by (auto simp: t set_updateMany)
    then show ?thesis by blast
  next
    case False
    then have "x \<in> set t" using x(1) by (force simp: t set_updateMany)
    then show ?thesis by (auto intro: bexI [of _ x])
  qed
  ultimately show ?thesis
    using assms(7,9) by (simp add: table_run_def rate_tables_ok_def)
qed

lemma createRateTable_run:
  assumes "rate_tables_ok d"
  shows "ensures (\<lambda>r. table_run d) (createRateTable now tn actor i prev d)"
  unfolding createRateTable_def
  by (intro ensures_intros)
    (auto intro!: table_run_refl [OF assms] add_table_run [OF assms]
      simp: valid_prices_def nested_ranges_valid dest: check_rate_table_Inr)

lemma rewrite_rate_table_fields:
  "rt_id (rewrite_rate_table now n i cov t) = rt_id t"
  "check_rate_table tn i d = Inr cov' \<Longrightarrow> valid_prices (rewrite_rate_table now n i cov t)"
  by (auto simp: rewrite_rate_table_def valid_prices_def nested_ranges_valid dest: check_rate_table_Inr)

lemma updateRateTable_run:
  assumes "rate_tables_ok d"
  shows "ensures (\<lambda>r. table_run d) (updateRateTable now tn actor i input d)"
  unfolding updateRateTable_def
  apply (intro ensures_intros)
     apply (simp_all add: table_run_refl [OF assms])
  apply (rule change_table_run [OF assms], assumption, assumption)
  apply (simp_all add: rewrite_rate_table_fields)
  done

lemma updateRateTableStatus_run:
  assumes "rate_tables_ok d"
  shows "ensures (\<lambda>r. table_run d) (updateRateTableStatus now tn actor i st d)"
proof -
  have *: "table_run d (record_audit now a (d\<lparr>freightRateTables := t\<rparr>))"
    if "find_rate_table tn i d = Inr c"
      "update_row rt_id rate_table_conflict i (\<lambda>t. t\<lparr>rt_status := st\<rparr>) (freightRateTables d) = Inr (r, t)"
    for c r t a
    by (rule change_table_run [OF assms that]) (simp_all add: valid_prices_def same_prices_def)
  show ?thesis
    unfolding updateRateTableStatus_def
    by (intro ensures_intros) (auto intro!: table_run_refl [OF assms] intro: *)
qed

lemma createRateTableVersion_run:
  assumes "rate_tables_ok d"
  shows "ensures (\<lambda>r. table_run d) (createRateTableVersion now tn actor i d)"
  unfolding createRateTableVersion_def
  by (intro ensures_intros table_run_refl [OF assms] createRateTable_run [OF assms])

section \<open>Runs\<close>

text \<open>The requests of any tenant that change rate tables.\<close>

inductive rate_step :: "db \<Rightarrow> db \<Rightarrow> bool" where
  create: "rate_step d (snd (createRateTable now tn actor input None d))"
| update: "rate_step d (snd (updateRateTable now tn actor i input d))"
| version: "rate_step d (snd (createRateTableVersion now tn actor i d))"
| status: "rate_step d (snd (updateRateTableStatus now tn actor i st d))"

lemma rate_step_run: "rate_step d d' \<Longrightarrow> rate_tables_ok d \<Longrightarrow> table_run d d'"
  by (induction rule: rate_step.induct)
    (simp_all add: createRateTable_run updateRateTable_run createRateTableVersion_run
      updateRateTableStatus_run flip: ensures_snd)

lemma used_cong: "freightSimulations d' = freightSimulations d \<Longrightarrow> used_in_simulations tn i d' = used_in_simulations tn i d"
  by (simp add: used_in_simulations_def)

lemma table_run_trans:
  assumes "table_run d d1" "table_run d1 d2"
  shows "table_run d d2"
proof -
  have "\<exists>t2 \<in> set (freightRateTables d2). same_prices t t2"
    if t: "t \<in> set (freightRateTables d)" "used_in_simulations (rt_tenantId t) (rt_id t) d > 0" for t
  proof -
    obtain t1 where t1: "t1 \<in> set (freightRateTables d1)" "same_prices t t1"
      using assms(1) t unfolding table_run_def by blast
    have "rt_id t1 = rt_id t" "rt_tenantId t1 = rt_tenantId t"
      using t1(2) unfolding same_prices_def by (metis FreightRateTable.simps(25,26) FreightRateTable.select_convs(1,2) FreightRateTable.surjective FreightRateTable.update_convs(11))+
    then have "used_in_simulations (rt_tenantId t1) (rt_id t1) d1 > 0"
      using t(2) assms(1) used_cong [of d1 d] by (simp add: table_run_def)
    then obtain t2 where "t2 \<in> set (freightRateTables d2)" "same_prices t1 t2"
      using assms(2) t1(1) unfolding table_run_def by blast
    then show ?thesis using same_prices_trans [OF t1(2)] by blast
  qed
  then show ?thesis
    using assms by (simp add: table_run_def)
qed

lemma rate_run: "rate_step\<^sup>*\<^sup>* d d' \<Longrightarrow> rate_tables_ok d \<Longrightarrow> table_run d d'"
proof (induction rule: rtranclp_induct)
  case base
  then show ?case by (rule table_run_refl)
next
  case (step y z)
  then have "table_run d y" by simp
  moreover from this have "table_run y z"
    using rate_step_run step(2) by (simp add: table_run_def)
  ultimately show ?case by (rule table_run_trans)
qed

section \<open>Properties\<close>

definition example_range :: "rat \<Rightarrow> rat \<Rightarrow> RateRangeInputDto" where
  "example_range a b = \<lparr> basePrice = 85, deadlineDays = 2, excessPricePerKg = None, maxWeightKg = b,
     minWeightKg = a, pricePerKg = 12/5, rri_priority = None \<rparr>"

definition example_rate_input :: RateTableInputDto where
  "example_rate_input = \<lparr> rti_name = ''Tabela'', rti_carrierServiceId = ''v1'', rti_currency = ''brl'',
     rti_validFrom = 0, rti_validTo = None, rti_notes = None, rti_status = None,
     rti_coverageIds = None, rti_ranges = [example_range 10 30, example_range 1 9], rti_charges = [] \<rparr>"

text \<open>
  C25: ranges that \<open>validateRanges\<close> accepts give every weight at most one price: whatever order
  they are listed in, no weight falls into two of them, so the order in which the simulation
  tries them cannot matter.
\<close>

theorem ranges_unambiguous:
  assumes "validateRanges rs = Inr ()"
  shows "length (filter (covers w) rs) \<le> 1
    \<and> (\<forall>r \<in> set rs. covers w r \<longrightarrow> find (covers w) (orderBy lt rs) = Some r)"
proof -
  have one: "length (filter (covers w) (orderBy lt rs)) \<le> 1"
    using validateRanges_Inr(1) [OF assms] by (simp add: length_filter_orderBy)
  have "find p xs = Some r" if "length (filter p xs) \<le> 1" "r \<in> set xs" "p r" for p xs and r :: "'a RateInput_scheme"
    using that by (induction xs) (auto simp: filter_empty_conv split: if_splits)
  then show ?thesis
    using one validateRanges_Inr(1) [OF assms] by simp
qed

theorem ranges_unambiguous_witness:
  "find (covers 20) (orderBy (desc minWeightKg) [example_range 10 30, example_range 1 9]) = Some (example_range 10 30)"
proof -
  have "validateRanges [example_range 10 30, example_range 1 9] = Inr ()"
    by (simp add: validateRanges_def Let_def orderBy_def asc_def example_range_def)
  from ranges_unambiguous [OF this, of 20 "desc minWeightKg"] show ?thesis
    by (simp add: covers_def example_range_def)
qed

text \<open>
  C12: a rate table that priced a simulation keeps its prices: after any sequence of requests on
  rate tables it is still there, changed at most in its status.
\<close>

theorem used_table_keeps_prices:
  assumes "rate_tables_ok d" "rate_step\<^sup>*\<^sup>* d d'" "t \<in> set (freightRateTables d)"
    "used_in_simulations (rt_tenantId t) (rt_id t) d > 0"
  shows "\<exists>t' \<in> set (freightRateTables d'). same_prices t t'"
  using rate_run [OF assms(2,1)] assms(3,4) by (simp add: table_run_def)

definition example_table :: FreightRateTable where
  "example_table = \<lparr> rt_id = nat_str 0, rt_tenantId = ''t1'', rt_carrierServiceId = ''v1'',
     rt_name = ''Tabela'', rt_version = 1, rt_currency = ''BRL'', rt_validFrom = 0, rt_validTo = None,
     rt_notes = None, rt_previousVersionId = None, rt_status = INACTIVE, rt_ranges = [],
     rt_charges = [], rt_coverageIds = [] \<rparr>"

definition example_option :: FreightSimulationOption where
  "example_option = \<lparr> fo_id = ''o1'', fo_carrierId = ''c1'', fo_carrierServiceId = ''v1'',
     fo_rateTableId = nat_str 0, fo_rateRangeId = ''r1'', fo_carrierName = ''C'', fo_serviceName = ''S'',
     fo_serviceCode = ''S'', fo_rateTableVersion = 1, fo_currency = ''BRL'', fo_realWeightKg = 1,
     fo_cubicWeightKg = 1, fo_chargeableWeightKg = 1, fo_distanceKm = None, fo_deadlineDays = 1,
     fo_estimatedDeliveryAt = 0, fo_totalPrice = 95, fo_cheapest = True, fo_fastest = True,
     fo_selected = False, fo_selectedAt = None, fo_priceComponents = [] \<rparr>"

definition example_simulation :: FreightSimulation where
  "example_simulation = \<lparr> fs_id = ''s1'', fs_tenantId = ''t1'', fs_branchId = None, fs_customerId = None,
     fs_carrierId = None, fs_createdById = None, fs_originPostalCode = ''01001000'',
     fs_destinationPostalCode = ''20040002'', fs_realWeightKg = 1, fs_cubicWeightKg = None,
     fs_chargeableWeightKg = None, fs_totalVolumeM3 = None, fs_cargoValue = None, fs_distanceKm = None,
     fs_desiredShipDate = None, fs_estimatedPrice = None, fs_estimatedDeadlineDays = None,
     fs_status = CALCULATED, fs_metadata = JNull, fs_createdAt = 0, fs_addresses = [],
     fs_packages = [], fs_options = [example_option] \<rparr>"

definition example_rates :: db where
  "example_rates = empty_db\<lparr>freightRateTables := [example_table],
     freightSimulations := [example_simulation], next_id := 1\<rparr>"

lemma example_rates_ok: "rate_tables_ok example_rates"
  by (simp add: rate_tables_ok_def wf_table_def example_rates_def empty_db_def example_table_def
      old_id_def valid_prices_def validateRanges_def Let_def)

theorem used_table_keeps_prices_witness:
  "\<exists>t' \<in> set (freightRateTables (snd (updateRateTable 5 ''t1'' ''u1'' (nat_str 0) example_rate_input example_rates))).
     same_prices example_table t'"
proof -
  have "used_in_simulations (rt_tenantId example_table) (rt_id example_table) example_rates > 0"
    by (simp add: used_in_simulations_def count_rows_def findMany_def example_rates_def empty_db_def
        example_table_def example_simulation_def example_option_def)
  moreover have "example_table \<in> set (freightRateTables example_rates)"
    by (simp add: example_rates_def)
  moreover have "rate_step\<^sup>*\<^sup>* example_rates
      (snd (updateRateTable 5 ''t1'' ''u1'' (nat_str 0) example_rate_input example_rates))"
    by (rule r_into_rtranclp, rule rate_step.update)
  ultimately show ?thesis
    using used_table_keeps_prices [OF example_rates_ok] by blast
qed


definition example_service :: CarrierService where
  "example_service = \<lparr> cs_id = ''v1'', cs_tenantId = ''t1'', cs_carrierId = ''c1'', cs_code = ''V1'',
     cs_name = ''Expresso'', cs_modality = ''RODOVIARIO'', cs_description = None, cs_defaultDeadlineDays = 2,
     cs_cubicFactor = 300, cs_minWeightKg = None, cs_maxWeightKg = None, cs_maxLengthCm = None,
     cs_maxWidthCm = None, cs_maxHeightCm = None, cs_minimumValue = 95, cs_status = ACTIVE \<rparr>"

definition example_carrier :: Carrier where
  "example_carrier = \<lparr> cr_id = ''c1'', cr_tenantId = ''t1'', cr_name = ''Rapida'', cr_document = None,
     cr_stateRegistration = None, cr_code = Some ''RAPIDA'', cr_legalName = None, cr_email = None,
     cr_phone = None, cr_contactName = None, cr_site = None, cr_notes = None, cr_logoUrl = None,
     cr_logoStorageKey = None, cr_active = True \<rparr>"

definition example_network :: db where
  "example_network = example_rates\<lparr>carriers := [example_carrier], carrierServices := [example_service]\<rparr>"

lemma example_network_ok: "rate_tables_ok example_network"
  using example_rates_ok by (simp add: rate_tables_ok_def example_network_def old_id_def)

lemma example_check: "check_rate_table ''t1'' example_rate_input example_network = Inr []"
proof -
  have "validateRanges (rti_ranges example_rate_input) = Inr ()"
    by (simp add: validateRanges_def Let_def orderBy_def asc_def example_range_def example_rate_input_def)
  moreover have "active_service ''t1'' ''v1'' example_network"
    by (simp add: active_service_def carrier_of_def findFirst_def example_network_def example_service_def
        example_carrier_def)
  ultimately show ?thesis
    by (simp add: check_rate_table_def Let_def findMany_def)
      (simp add: example_rate_input_def)
qed


text \<open>
  Without a previous version a table gets version 1, so a second table for the same service
  fails with the unhandled unique-constraint error of the database.
\<close>

theorem second_table_fails:
  assumes "check_rate_table tn i d = Inr cov" "t \<in> set (freightRateTables d)"
    "rt_tenantId t = tn" "rt_carrierServiceId t = rti_carrierServiceId i" "rt_version t = 1"
  shows "createRateTable now tn actor i None d = (Inl (PrismaKnownError P2002), d)"
proof -
  have "create_row rate_table_conflict x (freightRateTables d) = Inl P2002"
    if "rt_tenantId x = tn" "rt_carrierServiceId x = rti_carrierServiceId i" "rt_version x = 1" for x
    using assms(2-5) that by (auto simp: create_Inl rate_table_conflict_def)
  then show ?thesis
    using assms(1) by (simp add: createRateTable_def Let_def)
qed

theorem second_table_fails_witness:
  "createRateTable 5 ''t1'' ''u1'' example_rate_input None example_network
     = (Inl (PrismaKnownError P2002), example_network)"
  using second_table_fails [OF example_check, of example_table 5 "''u1''"]
  by (simp add: example_network_def example_rates_def example_table_def example_rate_input_def)

end
