(* ===== verification/Simulations.thy ===== *)
theory Simulations
  imports Tracking RateTables Documents
begin

text \<open>
  What the simulations promise. Every option of a simulation is a price of the engine for an
  active service of the tenant, from a rate table valid on the shipping date, and every eligible
  service is either an option or listed with a reason; the flags mark the minima; a simulation
  has at most one selected option.
\<close>

section \<open>Lists with fresh identifiers\<close>

lemma map_id_with_ids:
  "(\<And>i x. k (f i x) = i) \<Longrightarrow> map k (with_ids n f xs) = map nat_str [n ..< n + length xs]"
proof (induction xs arbitrary: n)
  case (Cons x xs)
  then show ?case
    by (simp add: upt_conv_Cons del: upt_Suc)
qed simp

lemma set_with_ids: "y \<in> set (with_ids n f xs) \<Longrightarrow> \<exists>i x. x \<in> set xs \<and> y = f i x"
  by (induction xs arbitrary: n) (simp, metis list.set_intros(1,2) set_ConsD with_ids.simps(2))

lemma with_ids_mem: "x \<in> set xs \<Longrightarrow> \<exists>i. f i x \<in> set (with_ids n f xs)"
  by (induction xs arbitrary: n) auto

lemma with_ids_empty [simp]: "with_ids n f xs = [] \<longleftrightarrow> xs = []"
  by (cases xs) auto

lemma distinct_nat_strs: "distinct (map nat_str [m ..< n])"
  by (simp add: distinct_map inj_on_def)

section \<open>The loop over the services\<close>

lemma services_loop_Inr:
  assumes "services_loop rnd i shipDate km es cs us = Inr (cs', us')"
  shows "set cs' = set cs \<union> {c. \<exists>e \<in> set es. evaluate_service rnd i shipDate km e = Inr (Inr c)}"
    and "length cs' + length us' = length cs + length us + length es"
proof -
  have "set cs' = set cs \<union> {c. \<exists>e \<in> set es. evaluate_service rnd i shipDate km e = Inr (Inr c)}
      \<and> length cs' + length us' = length cs + length us + length es"
    using assms
  proof (induction es arbitrary: cs us)
    case (Cons e es)
    then obtain r where r: "evaluate_service rnd i shipDate km e = Inr r"
      by (auto simp: bindE_eq_Inr)
    show ?case
    proof (cases r)
      case (Inl reason)
      then show ?thesis using Cons r by (auto split: sum.splits)
    next
      case (Inr c)
      then have "services_loop rnd i shipDate km es (cs @ [c]) us = Inr (cs', us')"
        using Cons.prems r by simp
      from Cons.IH [OF this] show ?thesis using r Inr by auto
    qed
  qed simp
  then show "set cs' = set cs \<union> {c. \<exists>e \<in> set es. evaluate_service rnd i shipDate km e = Inr (Inr c)}"
    "length cs' + length us' = length cs + length us + length es" by auto
qed

text \<open>What makes a candidate: a priced service, with the table and the range that priced it.\<close>

definition priced_by ::
  "(rat \<Rightarrow> rat) \<Rightarrow> CreateFreightSimulationDto \<Rightarrow> date \<Rightarrow> rat \<Rightarrow> EligibleCarrierService
    \<Rightarrow> FreightRateTable \<Rightarrow> FreightRateRange \<Rightarrow> bool" where
  "priced_by rnd i shipDate km e t r \<longleftrightarrow>
     (let m = calculatePackageMetrics rnd (map toPackageInput (fi_packages i)) (cs_cubicFactor (es_service e));
          w = max (m_realWeightKg m) (m_cubicWeightKg m) in
      matchesCoverage (es_coverages e) (toAddressDto (fi_origin i)) (toAddressDto (fi_destination i)) = Inr True
      \<and> (\<forall>k. cs_minWeightKg (es_service e) = Some k \<longrightarrow> k \<le> w)
      \<and> (\<forall>k. cs_maxWeightKg (es_service e) = Some k \<longrightarrow> w \<le> k)
      \<and> t \<in> set (es_rateTables e) \<and> r \<in> set (rt_ranges t) \<and> covers w r)"

lemma evaluate_service_candidate:
  assumes "evaluate_service rnd i shipDate km e = Inr (Inr c)"
  shows "co_service c = e \<and> priced_by rnd i shipDate km e (co_rateTable c) (co_rateRange c)
    \<and> co_calculated c = calculate rnd (calculation_input i shipDate km (es_service e)
        (co_rateTable c) (co_rateRange c))"
  using assms
  by (auto simp: evaluate_service_def bindE_eq_Inr Let_def priced_by_def decimalMax_def covers_def max_def
      split: if_splits option.splits list.splits dest: find_SomeD)

lemma map_filter_mem: "y \<in> set (List.map_filter f xs) \<longleftrightarrow> (\<exists>x \<in> set xs. f x = Some y)"
  by (induction xs) (auto simp: List.map_filter_def split: option.splits)

lemma eligible_services_mem:
  assumes "e \<in> set (eligible_services tenantId i shipDate d)"
  obtains s c where "s \<in> set (carrierServices d)" "carrier_of d (cs_carrierId s) = Some c"
    "cs_status s = ACTIVE" "cs_tenantId s = tenantId" "cr_active c" "e = include_service d shipDate s c"
  using assms
  by (auto simp: eligible_services_def map_filter_mem split: option.splits if_splits)

text \<open>
  A quote the tenant may be given: an active service of the tenant with an active carrier, a
  table of it valid on the date, and a range of the table that covers the chargeable weight.
\<close>

definition lawful_quote ::
  "(rat \<Rightarrow> rat) \<Rightarrow> string \<Rightarrow> CreateFreightSimulationDto \<Rightarrow> date \<Rightarrow> rat \<Rightarrow> db \<Rightarrow> CarrierService
    \<Rightarrow> FreightRateTable \<Rightarrow> FreightRateRange \<Rightarrow> FreightSimulationOption \<Rightarrow> bool" where
  "lawful_quote rnd tenantId i shipDate km d s t r opt \<longleftrightarrow>
     s \<in> set (carrierServices d) \<and> cs_tenantId s = tenantId \<and> cs_status s = ACTIVE
     \<and> (\<exists>c. carrier_of d (cs_carrierId s) = Some c \<and> cr_active c
          \<and> priced_by rnd i shipDate km (include_service d shipDate s c) (included_table t) r)
     \<and> t \<in> set (freightRateTables d) \<and> rt_carrierServiceId t = cs_id s \<and> valid_table shipDate t
     \<and> r \<in> set (rt_ranges t)
     \<and> fo_carrierServiceId opt = cs_id s \<and> fo_rateTableId opt = rt_id t \<and> fo_rateRangeId opt = rr_id r
     \<and> fo_totalPrice opt = res_totalPrice (calculate rnd (calculation_input i shipDate km s (included_table t) r))"

lemma candidate_lawful:
  assumes "e \<in> set (eligible_services tenantId i shipDate d)"
    "evaluate_service rnd i shipDate km e = Inr (Inr c)"
  shows "\<exists>s t r. lawful_quote rnd tenantId i shipDate km d s t r (to_option_row km p q j c)"
proof -
  obtain s k where s: "s \<in> set (carrierServices d)" "carrier_of d (cs_carrierId s) = Some k"
    "cs_status s = ACTIVE" "cs_tenantId s = tenantId" "cr_active k" "e = include_service d shipDate s k"
    by (rule eligible_services_mem [OF assms(1)])
  note c = evaluate_service_candidate [OF assms(2)]
  obtain t where t: "t \<in> set (freightRateTables d)" "rt_carrierServiceId t = cs_id s" "valid_table shipDate t"
    "co_rateTable c = included_table t"
    using c s(6) by (auto simp: priced_by_def Let_def include_service_def findMany_def)
  have "co_rateRange c \<in> set (rt_ranges t)"
    using c t(4) by (auto simp: priced_by_def Let_def included_table_def)
  then have "lawful_quote rnd tenantId i shipDate km d s t (co_rateRange c) (to_option_row km p q j c)"
    using s t c by (auto simp: lawful_quote_def to_option_row_def Let_def include_service_def included_table_def)
  then show ?thesis by blast
qed

section \<open>Minima\<close>

lemma foldl_min: "foldl (\<lambda>m x. min m (f x)) (a :: 'a::linorder) xs = Min (insert a (f ` set xs))"
proof (induction xs arbitrary: a)
  case (Cons x xs)
  then show ?case
    by (cases "xs = []") (simp_all add: insert_commute min.assoc Min_insert2)
qed simp

lemma cheapest_price_Min:
  assumes "c \<in> set cs"
  shows "cheapest_price c cs = Min (res_totalPrice ` co_calculated ` set cs)"
  using assms by (simp add: cheapest_price_def foldl_min insert_absorb image_image)

lemma fastest_deadline_Min:
  assumes "c \<in> set cs"
  shows "fastest_deadline c cs = Min (res_deadlineDays ` co_calculated ` set cs)"
  using assms by (simp add: fastest_deadline_def foldl_min insert_absorb image_image)

text \<open>The options of a new simulation: prices, flags and the headline figures.\<close>

definition flags_ok :: "FreightSimulation \<Rightarrow> bool" where
  "flags_ok s \<longleftrightarrow>
     (let opts = fs_options s in
      opts \<noteq> [] \<and> fs_estimatedPrice s = Some (Min (fo_totalPrice ` set opts))
      \<and> (\<forall>opt \<in> set opts. \<not> fo_selected opt
           \<and> fo_cheapest opt = (fo_totalPrice opt = Min (fo_totalPrice ` set opts))
           \<and> fo_fastest opt = (fo_deadlineDays opt = Min (fo_deadlineDays ` set opts))))"

lemma simulation_row_Inr:
  assumes "simulation_row rnd now tn actor i shipDate km customer first cs un cheapest d = Inr s"
  shows "fs_id s = new_id d \<and> fs_tenantId s = tn
    \<and> fs_options s = with_ids (next_id d + 3 + length (fi_packages i))
        (to_option_row km (cheapest_price first cs) (fastest_deadline first cs)) cs
    \<and> fs_estimatedPrice s = Some (res_totalPrice (co_calculated cheapest))
    \<and> fs_metadata s = unavailable_json un"
  using assms by (auto simp: simulation_row_def Let_def bindE_eq_Inr new_id_def)

lemma option_id: "fo_id (to_option_row km p q i c) = i"
  by (simp add: to_option_row_def Let_def)

lemma option_flags:
  "\<not> fo_selected (to_option_row km p q i c)"
  "fo_cheapest (to_option_row km p q i c) = (fo_totalPrice (to_option_row km p q i c) = p)"
  "fo_fastest (to_option_row km p q i c) = (fo_deadlineDays (to_option_row km p q i c) = q)"
  by (simp_all add: to_option_row_def Let_def)

lemma option_rows:
  "map fo_totalPrice (with_ids n (to_option_row km p q) cs) = map (res_totalPrice \<circ> co_calculated) cs"
  "map fo_deadlineDays (with_ids n (to_option_row km p q) cs) = map (res_deadlineDays \<circ> co_calculated) cs"
  by (simp_all add: map_with_ids to_option_row_def Let_def)

lemma option_ids: "distinct (map fo_id (with_ids n (to_option_row km p q) cs))"
  by (simp only: map_id_with_ids [of fo_id "to_option_row km p q", OF option_id] distinct_nat_strs)

lemma option_rows_set:
  "fo_totalPrice ` set (with_ids n (to_option_row km p q) cs) = res_totalPrice ` co_calculated ` set cs"
  "fo_deadlineDays ` set (with_ids n (to_option_row km p q) cs) = res_deadlineDays ` co_calculated ` set cs"
  using option_rows [of n km p q cs] by (metis image_comp set_map)+

lemma new_simulation_flags:
  assumes "simulation_row rnd now tn actor i shipDate km customer first cs un cheapest d = Inr s"
    "first \<in> set cs" "res_totalPrice (co_calculated cheapest) = cheapest_price first cs"
  shows "flags_ok s"
proof -
  note s = simulation_row_Inr [OF assms(1)]
  have "cs \<noteq> []" using assms(2) by auto
  have row: "\<not> fo_selected opt \<and> fo_cheapest opt = (fo_totalPrice opt = cheapest_price first cs)
      \<and> fo_fastest opt = (fo_deadlineDays opt = fastest_deadline first cs)" if "opt \<in> set (fs_options s)" for opt
  proof -
    have "opt \<in> set (with_ids (next_id d + 3 + length (fi_packages i))
        (to_option_row km (cheapest_price first cs) (fastest_deadline first cs)) cs)"
      using that s by simp
    from set_with_ids [OF this]
    obtain j c where "opt = to_option_row km (cheapest_price first cs) (fastest_deadline first cs) j c"
      by blast
    then show ?thesis by (simp only: option_flags) simp
  qed
  have opts: "fo_totalPrice ` set (fs_options s) = res_totalPrice ` co_calculated ` set cs"
    "fo_deadlineDays ` set (fs_options s) = res_deadlineDays ` co_calculated ` set cs" "fs_options s \<noteq> []"
    using s \<open>cs \<noteq> []\<close> by (simp_all add: option_rows_set)
  have e: "fs_estimatedPrice s = Some (cheapest_price first cs)"
    using s assms(3) by simp
  show ?thesis
    unfolding flags_ok_def Let_def opts(1,2) cheapest_price_Min [OF assms(2), symmetric]
      fastest_deadline_Min [OF assms(2), symmetric]
    using e row opts(3) by blast
qed

text \<open>
  What a successful \<open>createSimulation\<close> has done: the options are lawful quotes, and every
  eligible service is either an option or listed as unavailable.
\<close>

definition quoted_all ::
  "(rat \<Rightarrow> rat) \<Rightarrow> MathLib \<Rightarrow> date \<Rightarrow> string \<Rightarrow> CreateFreightSimulationDto \<Rightarrow> db \<Rightarrow> FreightSimulation \<Rightarrow> bool"
where
  "quoted_all rnd m now tenantId i d s \<longleftrightarrow>
     (\<exists>shipDate km unavailable. ship_date now i = Inr shipDate
        \<and> calculateDistanceKm m (toAddressDto (fi_origin i)) (toAddressDto (fi_destination i)) = Inr km
        \<and> (\<forall>opt \<in> set (fs_options s). \<exists>sv t r. lawful_quote rnd tenantId i shipDate km d sv t r opt)
        \<and> fs_metadata s = unavailable_json unavailable
        \<and> length (fs_options s) + length unavailable = length (eligible_services tenantId i shipDate d))"

definition simulated ::
  "(rat \<Rightarrow> rat) \<Rightarrow> MathLib \<Rightarrow> date \<Rightarrow> string \<Rightarrow> CreateFreightSimulationDto \<Rightarrow> db \<Rightarrow> FreightSimulation \<Rightarrow> db \<Rightarrow> bool"
where
  "simulated rnd m now tenantId i d s d' \<longleftrightarrow>
     freightSimulations d' = freightSimulations d @ [s] \<and> fs_id s = new_id d \<and> fs_tenantId s = tenantId
     \<and> next_id d < next_id d' \<and> distinct (map fo_id (fs_options s)) \<and> flags_ok s
     \<and> quoted_all rnd m now tenantId i d s"

lemma simulated_row:
  assumes "ship_date now i = Inr shipDate"
    "calculateDistanceKm m (toAddressDto (fi_origin i)) (toAddressDto (fi_destination i)) = Inr km"
    "services_loop rnd i shipDate km (eligible_services tn i shipDate d) [] [] = Inr (cs, un)"
    "first \<in> set cs"
    "find (\<lambda>c. res_totalPrice (co_calculated c) = cheapest_price first cs) cs = Some cheapest"
    "simulation_row rnd now tn actor i shipDate km customer first cs un cheapest d = Inr s"
    "freightSimulations d' = freightSimulations d @ [s]" "next_id d < next_id d'"
  shows "simulated rnd m now tn i d s d'"
proof -
  let ?rows = "with_ids (next_id d + 3 + length (fi_packages i))
    (to_option_row km (cheapest_price first cs) (fastest_deadline first cs)) cs"
  note s = simulation_row_Inr [OF assms(6)]
  have ids: "distinct (map fo_id (fs_options s))"
    using s option_ids by metis
  have flags: "flags_ok s"
    using new_simulation_flags [OF assms(6,4)] find_SomeD [OF assms(5)] by simp
  have lawful: "\<exists>sv t r. lawful_quote rnd tn i shipDate km d sv t r opt" if "opt \<in> set (fs_options s)" for opt
  proof -
    have "opt \<in> set ?rows" using that s by simp
    from set_with_ids [OF this] obtain j c where c: "c \<in> set cs"
      "opt = to_option_row km (cheapest_price first cs) (fastest_deadline first cs) j c"
      by blast
    then obtain e where "e \<in> set (eligible_services tn i shipDate d)"
      "evaluate_service rnd i shipDate km e = Inr (Inr c)"
      using services_loop_Inr(1) [OF assms(3)] by auto
    then show ?thesis using candidate_lawful c(2) by blast
  qed
  have "length (fs_options s) + length un = length (eligible_services tn i shipDate d)"
    using services_loop_Inr(2) [OF assms(3)] s by simp
  then have "quoted_all rnd m now tn i d s"
    unfolding quoted_all_def using assms(1,2) lawful s by blast
  then show ?thesis using s ids flags assms(7,8) unfolding simulated_def by blast
qed

lemma createSimulation_effect:
  "ensures (\<lambda>r d'. (d' = d \<and> isl r) \<or> (\<exists>s. simulated rnd m now tn i d s d'))
     (createSimulation rnd m now tn actor i d)"
  unfolding createSimulation_def
  apply (intro ensures_intros)
          apply (simp; fail)+
  apply (rule disjI2, rule exI, hypsubst, rule simulated_row, assumption, assumption, assumption,
      rule list.set_intros(1), assumption, assumption)
   apply (simp_all add: emit_defs)
  done

section \<open>The invariant\<close>

definition simulation_ok :: "db \<Rightarrow> FreightSimulation \<Rightarrow> bool" where
  "simulation_ok d s \<longleftrightarrow>
     old_id d (fs_id s) \<and> distinct (map fo_id (fs_options s))
     \<and> length (filter fo_selected (fs_options s)) \<le> 1"

definition freight_ok :: "db \<Rightarrow> bool" where
  "freight_ok d \<longleftrightarrow>
     distinct (map fs_id (freightSimulations d)) \<and> (\<forall>s \<in> set (freightSimulations d). simulation_ok d s)"

lemma select_in_simps [simp]:
  "fo_id (select_in now i opt) = fo_id opt"
  "fo_selected (select_in now i opt) = (fo_id opt = i)"
  "fo_totalPrice (select_in now i opt) = fo_totalPrice opt"
  by (simp_all add: select_in_def Let_def)

lemma selected_after:
  "map fo_id (filter fo_selected (map (select_in now i) opts)) = filter (\<lambda>k. k = i) (map fo_id opts)"
  by (induction opts) simp_all

lemma filter_eq_distinct: "distinct xs \<Longrightarrow> filter (\<lambda>k. k = i) xs = (if i \<in> set xs then [i] else [])"
  by (induction xs) auto

lemma simulated_ok:
  assumes "freight_ok d" "simulated rnd m now tn i d s d'"
  shows "freight_ok d'"
proof -
  note s = assms(2) [unfolded simulated_def]
  have nx: "next_id d \<le> next_id d'" using s by simp
  have "\<forall>opt \<in> set (fs_options s). \<not> fo_selected opt"
    using s by (auto simp: flags_ok_def Let_def)
  then have "simulation_ok d' s"
    using s old_id_new_id [of d d'] by (simp add: simulation_ok_def filter_False)
  moreover have "fs_id s \<notin> fs_id ` set (freightSimulations d)"
    using assms(1) s new_id_fresh [of d] by (auto simp: freight_ok_def simulation_ok_def)
  ultimately show ?thesis
    using assms(1) s old_id_mono [OF _ nx] by (auto simp: freight_ok_def simulation_ok_def)
qed

definition selected_option ::
  "date \<Rightarrow> string \<Rightarrow> string \<Rightarrow> string \<Rightarrow> db \<Rightarrow> FreightSimulation \<Rightarrow> db \<Rightarrow> bool" where
  "selected_option now tn simulationId optionId d s d' \<longleftrightarrow>
     s \<in> set (freightSimulations d) \<and> fs_id s = simulationId \<and> fs_tenantId s = tn
     \<and> optionId \<in> fo_id ` set (fs_options s)
     \<and> freightSimulations d' = updateMany (\<lambda>s. fs_id s = simulationId \<and> fs_tenantId s = tn)
         (\<lambda>s. s\<lparr>fs_options := map (select_in now optionId) (fs_options s)\<rparr>) (freightSimulations d)
     \<and> next_id d \<le> next_id d'"

lemma selectOption_effect:
  "ensures (\<lambda>r d'. (d' = d \<and> isl r)
      \<or> (\<exists>s. selected_option now tn simulationId optionId d s d' \<and> r = getSimulation tn simulationId d'))
     (selectOption now tn actor simulationId optionId d)"
  unfolding selectOption_def
  by (intro ensures_intros)
    (auto simp: selected_option_def emit_defs dest!: findFirst_SomeD)

lemma selected_option_ok:
  assumes "freight_ok d" "selected_option now tn i k d s d'"
  shows "freight_ok d'"
proof -
  note s = assms(2) [unfolded selected_option_def]
  have ids: "map fs_id (freightSimulations d') = map fs_id (freightSimulations d)"
    using s by (simp add: map_updateMany)
  have "simulation_ok d' x" if x: "x \<in> set (freightSimulations d')" for x
  proof -
    obtain y where y: "y \<in> set (freightSimulations d)"
      "x = y \<or> x = y\<lparr>fs_options := map (select_in now k) (fs_options y)\<rparr>"
      using x s by (auto simp: set_updateMany)
    have y': "simulation_ok d y" using assms(1) y(1) by (simp add: freight_ok_def)
    have dist: "distinct (map fo_id (fs_options y))"
      using y' by (simp add: simulation_ok_def)
    have "length (map fo_id (filter fo_selected (map (select_in now k) (fs_options y)))) \<le> 1"
      unfolding selected_after filter_eq_distinct [OF dist] by simp
    then have one: "length (filter fo_selected (map (select_in now k) (fs_options y))) \<le> 1"
      by (simp only: length_map)
    have "map fo_id (map (select_in now k) (fs_options y)) = map fo_id (fs_options y)"
      by simp
    then show ?thesis
      using y(2) y' one s old_id_mono [of d _ d'] by (auto simp: simulation_ok_def simp del: map_map)
  qed
  then show ?thesis using assms(1) ids by (simp add: freight_ok_def)
qed

inductive freight_step :: "(rat \<Rightarrow> rat) \<Rightarrow> MathLib \<Rightarrow> db \<Rightarrow> db \<Rightarrow> bool" for rnd m where
  create: "freight_step rnd m d (snd (createSimulation rnd m now tn actor i d))"
| select: "freight_step rnd m d (snd (selectOption now tn actor simulationId optionId d))"
| shipment: "freight_step rnd m d (snd (createShipment now tn actor simulationId d))"

lemma createShipment_simulations:
  "ensures (\<lambda>r d'. freightSimulations d' = freightSimulations d \<and> next_id d \<le> next_id d')
     (createShipment now tn actor simulationId d)"
  unfolding createShipment_def
  by (intro ensures_intros) (simp_all add: emit_defs)

lemma freight_ok_cong:
  "freight_ok d \<Longrightarrow> freightSimulations d' = freightSimulations d \<Longrightarrow> next_id d \<le> next_id d' \<Longrightarrow> freight_ok d'"
  by (auto simp: freight_ok_def simulation_ok_def intro: old_id_mono)

lemma freight_step_ok:
  assumes "freight_step rnd m d d'" "freight_ok d"
  shows "freight_ok d'"
  using assms(1)
proof cases
  case (create now tn actor i)
  then show ?thesis
    using createSimulation_effect [of d rnd m now tn i actor] assms(2) simulated_ok
    by (auto simp: ensures_def case_prod_unfold)
next
  case (select now tn actor simulationId optionId)
  then show ?thesis
    using selectOption_effect [of d now tn simulationId optionId actor] assms(2) selected_option_ok
    by (auto simp: ensures_def case_prod_unfold)
next
  case (shipment now tn actor simulationId)
  then show ?thesis
    using createShipment_simulations [of d now tn actor simulationId] freight_ok_cong [OF assms(2)]
    by (auto simp: ensures_def case_prod_unfold)
qed

section \<open>Loading a simulation\<close>

lemma distinct_orderBy: "distinct (map f (orderBy lt xs)) = distinct (map f xs)"
proof -
  have "set (map f (orderBy lt xs)) = set (map f xs)" "length (map f (orderBy lt xs)) = length (map f xs)"
    by simp_all
  then show ?thesis by (metis card_distinct distinct_card)
qed

lemma loadSimulation_unique:
  assumes "freight_ok d" "s \<in> set (freightSimulations d)" "fs_id s = i" "fs_tenantId s = tn"
  shows "loadSimulation tn i d = Inr (s\<lparr>fs_options := map order_components (order_options (fs_options s))\<rparr>)"
proof -
  have "y = s" if "find (\<lambda>x. fs_id x = i \<and> fs_tenantId x = tn) (freightSimulations d) = Some y" for y
    using find_SomeD [OF that] assms by (auto simp: freight_ok_def distinct_map inj_on_def)
  then have "find (\<lambda>x. fs_id x = i \<and> fs_tenantId x = tn) (freightSimulations d) = Some s"
    using find_ex [of s "freightSimulations d" "\<lambda>x. fs_id x = i \<and> fs_tenantId x = tn"] assms(2-4) by auto
  then show ?thesis by (simp add: loadSimulation_def findFirst_def)
qed

lemma order_components_simps [simp]:
  "fo_id (order_components opt) = fo_id opt" "fo_selected (order_components opt) = fo_selected opt"
  "fo_totalPrice (order_components opt) = fo_totalPrice opt"
  by (simp_all add: order_components_def)

lemma selected_loaded:
  "map fo_id (filter fo_selected (map order_components (order_options opts)))
   = map fo_id (filter fo_selected (order_options opts))"
proof -
  have "map fo_id (filter fo_selected (map order_components xs)) = map fo_id (filter fo_selected xs)" for xs
    by (induction xs) simp_all
  then show ?thesis .
qed

lemma one_selected_loaded:
  assumes "distinct (map fo_id opts)" "map fo_id (filter fo_selected opts) = [k]"
  shows "map fo_id (filter fo_selected (order_options opts)) = [k]"
proof -
  have "set (map fo_id (filter fo_selected (order_options opts))) = {k}"
    using assms(2) by (metis list.set(1,2) set_filter set_map set_orderBy order_options_def)
  moreover have "length (filter fo_selected (order_options opts)) = 1"
    using assms(2) by (metis length_filter_orderBy length_map length_0_conv length_Cons One_nat_def
        list.size(3) order_options_def)
  ultimately show ?thesis
    by (metis (no_types, lifting) length_0_conv length_Suc_conv length_map One_nat_def
        list.set_intros(1) singletonD)
qed

section \<open>Properties\<close>

definition example_address :: "string \<Rightarrow> AddressInputDto" where
  "example_address postalCode = \<lparr> ai_postalCode = postalCode, ai_street = ''Rua'', ai_number = None,
     ai_complement = None, ai_district = None, ai_city = ''Cidade'', ai_state = ''SP'',
     ai_country = None, ai_latitude = None, ai_longitude = None \<rparr>"

definition example_request :: CreateFreightSimulationDto where
  "example_request = \<lparr> fi_customerId = None, fi_carrierId = None, fi_carrierServiceId = None,
     fi_desiredShipDate = None, fi_cargoValue = 2500, fi_origin = example_address ''01001-000'',
     fi_destination = example_address ''20040-002'',
     fi_packages = [PackageInput.extend spec_package (FreightPackageDto.fields None)] \<rparr>"

definition example_coverage :: "string option \<Rightarrow> CarrierCoverage" where
  "example_coverage start = \<lparr> cv_id = ''cv1'', cv_tenantId = ''t1'', cv_carrierServiceId = ''v1'',
     cv_originState = None, cv_destinationState = None, cv_originPostalCodeStart = start,
     cv_originPostalCodeEnd = None, cv_destinationPostalCodeStart = None,
     cv_destinationPostalCodeEnd = None, cv_status = ACTIVE, cv_createdAt = 0 \<rparr>"

definition example_active_table :: FreightRateTable where
  "example_active_table = example_table\<lparr>rt_status := ACTIVE,
     rt_ranges := [RateInput.extend spec_rate (FreightRateRange.fields ''r1'' 0)]\<rparr>"

definition example_freight :: "string option \<Rightarrow> db" where
  "example_freight start = empty_db\<lparr>carriers := [example_carrier], carrierServices := [example_service],
     carrierCoverages := [example_coverage start], freightRateTables := [example_active_table],
     next_id := 1\<rparr>"

definition example_math :: MathLib where
  "example_math = \<lparr> m_sin = (\<lambda>x. x), m_cos = (\<lambda>x. 1), m_atan2 = (\<lambda>x y. x), m_sqrt = (\<lambda>x. x), m_pi = 22/7 \<rparr>"

lemma example_eligible:
  "eligible_services ''t1'' example_request 0 (example_freight start) =
     [include_service (example_freight start) 0 example_service example_carrier]"
  by (simp add: eligible_services_def List.map_filter_def example_freight_def example_service_def
      carrier_of_def findFirst_def example_carrier_def example_request_def orderBy_def)

lemma example_include:
  "include_service (example_freight start) 0 example_service example_carrier =
     \<lparr> es_service = example_service, es_carrier = example_carrier, es_coverages = [example_coverage start],
       es_rateTables = [example_active_table] \<rparr>"
  by (simp add: include_service_def findMany_def example_freight_def example_service_def
      example_coverage_def example_active_table_def example_table_def valid_table_def included_table_def
      orderBy_def)

lemma example_postal:
  "normalizePostalCode ''01001-000'' = Inr ''01001000''" "normalizePostalCode ''20040-002'' = Inr ''20040002''"
  by code_simp+

lemma example_distance:
  "calculateDistanceKm m (toAddressDto (fi_origin example_request)) (toAddressDto (fi_destination example_request))
     = Inr 1425"
proof -
  have n: "number_of_digits ''010'' = 10" "number_of_digits ''200'' = 200" by code_simp+
  show ?thesis
    by (simp add: calculateDistanceKm_def nonzero_def toAddressDto_def example_request_def example_address_def
        example_postal n Let_def scale_def toDecimalPlaces_def half_up_def)
qed

lemma example_matches:
  "coverage_matches (toAddressDto (fi_origin example_request))
     (toAddressDto (fi_destination example_request)) (example_coverage None) = Inr True"
  by (simp add: coverage_matches_def example_coverage_def toAddressDto_def example_request_def
      example_address_def example_postal inPostalRange_def normalize_bound_def Let_def)

lemma example_creates:
  "\<exists>dto d'. createSimulation dec20 example_math 0 ''t1'' ''u1'' example_request (example_freight None) = (Inr dto, d')"
proof -
  let ?e = "include_service (example_freight None) 0 example_service example_carrier"
  have pk: "map toPackageInput (fi_packages example_request) = [spec_package]"
    by (simp add: example_request_def toPackageInput_def PackageInput.extend_def spec_package_def
        FreightPackageDto.fields_def)
  have sv: "cs_cubicFactor example_service = 300" "cs_minWeightKg example_service = None"
    "cs_maxWeightKg example_service = None"
    by (simp_all add: example_service_def)
  have t: "find (\<lambda>r. minWeightKg r * 5 \<le> 324 \<and> 324 \<le> maxWeightKg r * 5) (rt_ranges example_active_table)
      = Some (RateInput.extend spec_rate (FreightRateRange.fields ''r1'' 0))"
    by (simp add: example_active_table_def spec_rate_def RateInput.extend_def FreightRateRange.fields_def)
  have "\<exists>c. evaluate_service dec20 example_request 0 1425 ?e = Inr (Inr c)"
    by (simp add: evaluate_service_def example_include example_matches pk Let_def sv spec_metrics decimalMax_def t)
  then obtain c where c: "evaluate_service dec20 example_request 0 1425 ?e = Inr (Inr c)"
    by blast
  have loop: "services_loop dec20 example_request 0 1425 [?e] [] [] = Inr ([c], [])"
    by (simp add: c)
  have cheap: "find (\<lambda>x. res_totalPrice (co_calculated x) = cheapest_price c [c]) [c] = Some c"
    by (simp add: cheapest_price_def)
  have row: "\<exists>s. simulation_row dec20 0 ''t1'' ''u1'' example_request 0 1425 None c [c] [] c
      (example_freight None) = Inr s \<and> fs_id s = nat_str 1 \<and> fs_tenantId s = ''t1''"
    by (simp add: simulation_row_def Let_def toSimulationAddress_def toAddressDto_def example_request_def
        example_address_def example_postal example_freight_def)
  then obtain s where s: "simulation_row dec20 0 ''t1'' ''u1'' example_request 0 1425 None c [c] [] c
      (example_freight None) = Inr s" "fs_id s = nat_str 1" "fs_tenantId s = ''t1''" by blast
  have pre: "ship_date 0 example_request = Inr 0"
    "find_customer_for ''t1'' example_request (example_freight None) = Inr None"
    "freightSimulations (example_freight None) = []"
    by (simp_all add: ship_date_def find_customer_for_def example_request_def example_freight_def empty_db_def)
  show ?thesis
    unfolding createSimulation_def
    by (simp add: pre(1,2) example_distance example_eligible loop cheap s Let_def getSimulation_def
        loadSimulation_def findFirst_def emit_defs pre(3) del: services_loop.simps find.simps(2))
      (simp add: s(2,3))
qed



text \<open>
  The cheapest flag marks exactly the options with the lowest total, the fastest flag those
  with the shortest deadline, the estimated price is the lowest total, there is at least one
  option and none is selected yet.
\<close>

theorem simulation_flags:
  assumes "createSimulation rnd m now tn actor i d = (Inr dto, d')"
  shows "flags_ok (last (freightSimulations d'))"
  using ensuresD [OF createSimulation_effect assms] by (auto simp: simulated_def)

theorem simulation_flags_witness:
  "\<exists>d'. snd (createSimulation dec20 example_math 0 ''t1'' ''u1'' example_request (example_freight None)) = d'
     \<and> flags_ok (last (freightSimulations d'))"
proof -
  obtain dto d' where c: "createSimulation dec20 example_math 0 ''t1'' ''u1'' example_request
      (example_freight None) = (Inr dto, d')"
    using example_creates by blast
  then show ?thesis using simulation_flags [OF c] by simp
qed

text \<open>
  C16: whatever simulations, selections and shipments are requested, no simulation ever has two
  selected options; and after a successful selection exactly the requested option is selected,
  in the answer and in the table, while the other simulations stay as they are.
\<close>

theorem one_option_selected:
  assumes "freight_ok d" "(freight_step rnd m)\<^sup>*\<^sup>* d d1"
    "selectOption now tn actor simulationId optionId d1 = (Inr dto, d2)"
  shows "freight_ok d2 \<and> map fo_id (filter fo_selected (fd_options dto)) = [optionId]
    \<and> filter (\<lambda>s. fs_id s \<noteq> simulationId) (freightSimulations d2)
        = filter (\<lambda>s. fs_id s \<noteq> simulationId) (freightSimulations d1)"
proof -
  have ok1: "freight_ok d1"
    using assms(2,1) by (induction rule: rtranclp_induct) (auto dest: freight_step_ok)
  obtain s where sel: "selected_option now tn simulationId optionId d1 s d2"
    and dto: "getSimulation tn simulationId d2 = Inr dto"
    using ensuresD [OF selectOption_effect assms(3)] by auto
  note s = sel [unfolded selected_option_def]
  have ok2: "freight_ok d2"
    by (rule selected_option_ok [OF ok1 sel])
  define s' where "s' = s\<lparr>fs_options := map (select_in now optionId) (fs_options s)\<rparr>"
  have s': "s' \<in> set (freightSimulations d2)" "fs_id s' = simulationId" "fs_tenantId s' = tn"
    using s by (auto simp: s'_def set_updateMany)
  have dist: "distinct (map fo_id (fs_options s))"
    using ok1 s by (simp add: freight_ok_def simulation_ok_def)
  have one: "map fo_id (filter fo_selected (fs_options s')) = [optionId]"
  proof -
    have "fs_options s' = map (select_in now optionId) (fs_options s)"
      by (simp add: s'_def)
    then have "map fo_id (filter fo_selected (fs_options s')) = filter (\<lambda>k. k = optionId) (map fo_id (fs_options s))"
      by (simp only: selected_after)
    also have "\<dots> = [optionId]"
      using s filter_eq_distinct [OF dist, of optionId] by simp
    finally show ?thesis .
  qed
  have "distinct (map fo_id (fs_options s'))"
    using dist by (simp add: s'_def comp_def)
  from one_selected_loaded [OF this one]
  have "map fo_id (filter fo_selected (fd_options dto)) = [optionId]"
    using dto loadSimulation_unique [OF ok2 s'] selected_loaded
    by (auto simp: getSimulation_def presentSimulation_def)
  moreover have "filter (\<lambda>s. fs_id s \<noteq> simulationId) (updateMany (\<lambda>s. fs_id s = simulationId \<and> p s)
      (\<lambda>s. s\<lparr>fs_options := f s\<rparr>) xs) = filter (\<lambda>s. fs_id s \<noteq> simulationId) xs" for p f xs
    by (induction xs) (simp_all add: updateMany_def)
  ultimately show ?thesis using ok2 s by simp
qed

definition example_selected :: db where
  "example_selected = empty_db\<lparr>freightSimulations := [example_simulation\<lparr>fs_id := nat_str 0\<rparr>], next_id := 1\<rparr>"

lemma example_selected_ok: "freight_ok example_selected"
  by (simp add: freight_ok_def simulation_ok_def example_selected_def empty_db_def old_id_def
      example_simulation_def example_option_def)

theorem one_option_selected_witness:
  "\<exists>dto d2. selectOption 7 ''t1'' ''u1'' (nat_str 0) ''o1'' example_selected = (Inr dto, d2)
     \<and> map fo_id (filter fo_selected (fd_options dto)) = [''o1'']"
proof -
  have "\<exists>dto d2. selectOption 7 ''t1'' ''u1'' (nat_str 0) ''o1'' example_selected = (Inr dto, d2)"
    by (simp add: selectOption_def Let_def findFirst_def example_selected_def example_simulation_def
        example_option_def getSimulation_def loadSimulation_def updateMany_def emit_defs empty_db_def)
  then obtain dto d2 where
    c: "selectOption 7 ''t1'' ''u1'' (nat_str 0) ''o1'' example_selected = (Inr dto, d2)" by blast
  have "(freight_step dec20 example_math)\<^sup>*\<^sup>* example_selected example_selected" by simp
  from one_option_selected [OF example_selected_ok this c] show ?thesis using c by auto
qed

text \<open>
  C26: making the shipment of a simulation again returns the same shipment and changes nothing;
  and a shipment that was created carries the price of the option that was selected.
\<close>

theorem shipment_once:
  assumes "createShipment now tn actor simulationId d = (Inr dto, d')"
  shows "createShipment now' tn actor' simulationId d' = (Inr dto, d')
    \<and> (shipments d' \<noteq> shipments d \<longrightarrow> (\<exists>s opt. loadSimulation tn simulationId d = Inr s
         \<and> find fo_selected (fs_options s) = Some opt
         \<and> sh_freightValue (last (shipments d')) = fo_totalPrice opt
         \<and> sh_selectedOptionId (last (shipments d')) = fo_id opt))"
proof -
  obtain s where s: "loadSimulation tn simulationId d = Inr s"
    using assms by (auto simp: createShipment_def split: sum.splits)
  obtain opt where opt: "find fo_selected (fs_options s) = Some opt"
    using assms s by (auto simp: createShipment_def split: option.splits)
  have load: "loadSimulation tn simulationId d' = loadSimulation tn simulationId d"
    using ensuresD [OF createShipment_simulations assms] by (simp add: loadSimulation_def)
  show ?thesis
  proof (cases "findFirst (\<lambda>x. sh_simulationId x = simulationId) (shipments d)")
    case (Some x)
    then have "d' = d" "presentShipment (sh_id x) tn d = Inr dto"
      using assms s opt by (auto simp: createShipment_def)
    then show ?thesis
      using Some s opt by (simp add: createShipment_def)
  next
    case None
    let ?x = "shipment_row now tn actor s opt (next_id d)"
    have x: "sh_id ?x = new_id d" "sh_simulationId ?x = simulationId" "sh_freightValue ?x = fo_totalPrice opt"
      "sh_selectedOptionId ?x = fo_id opt"
      using s by (auto simp: shipment_row_def new_id_def loadSimulation_def dest!: findFirst_SomeD
          split: option.splits)
    have row: "create_row shipment_conflict ?x (shipments d) = Inr (shipments d @ [?x])"
      and t: "shipments d' = shipments d @ [?x]" and dto: "presentShipment (new_id d) tn d' = Inr dto"
      using assms s opt None
      by (auto simp: createShipment_def Let_def emit_defs create_Inr split: sum.splits)
    have "findFirst (\<lambda>x. sh_simulationId x = simulationId) (shipments d') = Some ?x"
      using None x(2) by (simp add: t findFirst_def find_append)
    then have "createShipment now' tn actor' simulationId d' = (Inr dto, d')"
      using s opt load x(1) dto by (simp add: createShipment_def)
    then show ?thesis
      using s opt t x(3,4) by simp
  qed
qed

definition example_shipping :: db where
  "example_shipping = empty_db\<lparr>freightSimulations :=
     [example_simulation\<lparr>fs_id := nat_str 0, fs_options := [example_option\<lparr>fo_selected := True\<rparr>]\<rparr>], next_id := 1\<rparr>"

theorem shipment_once_witness:
  "\<exists>dto d'. createShipment 7 ''t1'' ''u1'' (nat_str 0) example_shipping = (Inr dto, d')
     \<and> createShipment 9 ''t1'' ''u2'' (nat_str 0) d' = (Inr dto, d')"
proof -
  have "\<exists>dto d'. createShipment 7 ''t1'' ''u1'' (nat_str 0) example_shipping = (Inr dto, d')"
    by (simp add: createShipment_def Let_def findFirst_def example_shipping_def example_simulation_def
        example_option_def loadSimulation_def empty_db_def order_options_def orderBy_def order_components_def
        create_row_def presentShipment_def find_shipment_def emit_defs shipment_row_def new_id_def)
  then show ?thesis using shipment_once by blast
qed

section \<open>Coverage\<close>

text \<open>On digit strings of the same length the order of the texts is the order of the numbers.\<close>

lemma number_of_digits_Cons:
  "number_of_digits (c # cs) = digit_val c * 10 ^ length cs + number_of_digits cs"
proof -
  have *: "foldl (\<lambda>n c. 10 * n + digit_val c) k cs = k * 10 ^ length cs + foldl (\<lambda>n c. 10 * n + digit_val c) 0 cs"
    for k
  proof (induction cs arbitrary: k)
    case (Cons c cs)
    show ?case
      using Cons [of "10 * k + digit_val c"] Cons [of "digit_val c"] by (simp add: algebra_simps)
  qed simp
  show ?thesis
    using * [of "digit_val c"] by (simp add: number_of_digits_def)
qed

lemma number_less: "\<forall>c \<in> set s. is_digit c \<Longrightarrow> number_of_digits s < 10 ^ length s"
proof (induction s)
  case (Cons c cs)
  then have "digit_val c \<le> 9" "number_of_digits cs < 10 ^ length cs"
    by (auto simp: digit_val_def is_digit_def)
  moreover from this(1) have "digit_val c * 10 ^ length cs \<le> 9 * 10 ^ length cs" by simp
  ultimately have "digit_val c * 10 ^ length cs + number_of_digits cs < 10 * 10 ^ length cs" by linarith
  then show ?case by (simp add: number_of_digits_Cons)
qed (simp add: number_of_digits_def)

lemma digit_less: "is_digit a \<Longrightarrow> is_digit b \<Longrightarrow> a < b \<longleftrightarrow> digit_val a < digit_val b"
  by (auto simp: is_digit_def digit_val_def ccode_def less_char_def)

lemma digit_eq: "is_digit a \<Longrightarrow> is_digit b \<Longrightarrow> a = b \<longleftrightarrow> digit_val a = digit_val b"
  by (metis digit_char_val)

lemma digits_order:
  assumes "length s = length t" "\<forall>c \<in> set s. is_digit c" "\<forall>c \<in> set t. is_digit c"
  shows "s \<le> t \<longleftrightarrow> number_of_digits s \<le> number_of_digits t"
  using assms
proof (induction s t rule: list_induct2)
  case (Cons a s b t)
  then have IH: "s \<le> t \<longleftrightarrow> number_of_digits s \<le> number_of_digits t" and d: "is_digit a" "is_digit b"
    by auto
  have bounds: "number_of_digits s < 10 ^ length s" "number_of_digits t < 10 ^ length s"
    using number_less [of s] number_less [of t] Cons by simp_all
  consider "digit_val a < digit_val b" | "digit_val a = digit_val b" | "digit_val b < digit_val a" by linarith
  then show ?case
  proof cases
    case 1
    then have "Suc (digit_val a) * 10 ^ length s \<le> digit_val b * 10 ^ length s"
      by (intro mult_right_mono) auto
    then show ?thesis
      using 1 d bounds Cons(1) by (simp add: number_of_digits_Cons digit_less)
  next
    case 2
    then show ?thesis
      using d IH Cons(1) by (simp add: number_of_digits_Cons digit_eq digit_less)
  next
    case 3
    then have "Suc (digit_val b) * 10 ^ length s \<le> digit_val a * 10 ^ length s"
      by (intro mult_right_mono) auto
    then have "number_of_digits (b # t) < number_of_digits (a # s)"
      using bounds Cons(1) by (simp add: number_of_digits_Cons)
    moreover have "\<not> a # s \<le> b # t"
      using 3 d by (simp add: digit_less digit_eq)
    ultimately show ?thesis by simp
  qed
qed simp

text \<open>The bounds a coverage should have: absent, empty or eight digits.\<close>

definition bound_ok :: "string option \<Rightarrow> bool" where
  "bound_ok b = (case b of None \<Rightarrow> True | Some s \<Rightarrow> s = [] \<or> (length s = 8 \<and> list_all is_digit s))"

definition bounds_ok :: "CarrierCoverage \<Rightarrow> bool" where
  "bounds_ok c \<longleftrightarrow> bound_ok (cv_originPostalCodeStart c) \<and> bound_ok (cv_originPostalCodeEnd c)
     \<and> bound_ok (cv_destinationPostalCodeStart c) \<and> bound_ok (cv_destinationPostalCodeEnd c)"

definition states_match :: "CarrierCoverage \<Rightarrow> AddressDto \<Rightarrow> AddressDto \<Rightarrow> bool" where
  "states_match c origin destination \<longleftrightarrow>
     (\<not> truthy (cv_originState c) \<or> cv_originState c = Some (toUpperCase (ad_state origin)))
     \<and> (\<not> truthy (cv_destinationState c) \<or> cv_destinationState c = Some (toUpperCase (ad_state destination)))"

lemma onlyDigits_id: "list_all is_digit s \<Longrightarrow> onlyDigits s = s"
  by (simp add: onlyDigits_def list_all_iff filter_id_conv)

lemma onlyDigits_all: "list_all is_digit (onlyDigits s)"
  by (simp add: onlyDigits_def list_all_iff)

lemma normalize_bound_ok: "bound_ok b \<Longrightarrow> normalize_bound b = Inr (if truthy b then b else None)"
  by (auto simp: normalize_bound_def bound_ok_def normalizePostalCode_def onlyDigits_id Let_def split: option.splits)

lemma inPostalRange_inRange:
  assumes "length p = 8" "list_all is_digit p" "bound_ok s" "bound_ok t"
  shows "inPostalRange p s t = Inr (inRange p s t)"
proof -
  have le: "x \<le> y \<longleftrightarrow> num_le (Number x) (Number y)"
    if "length x = 8" "list_all is_digit x" "length y = 8" "list_all is_digit y" for x y
    using that digits_order [of x y] by (simp add: Number_def num_le_def list_all_iff)
  have b: "truthy b \<Longrightarrow> bound_ok b \<Longrightarrow> length (the b) = 8 \<and> list_all is_digit (the b)" for b
    by (auto simp: bound_ok_def split: option.splits)
  show ?thesis
    using assms le [OF _ _ assms(1,2)] le [OF assms(1,2)] b [of s] b [of t]
    by (auto simp: inPostalRange_def normalize_bound_ok inRange_def)
qed

text \<open>
  For well-formed bounds the simulation and the coverage test compare postal codes the same
  way, one as texts and the other as numbers; the simulation also requires the states to match,
  which the test ignores.
\<close>

theorem coverage_test_agrees:
  assumes "length (onlyDigits (ad_postalCode origin)) = 8"
    "length (onlyDigits (ad_postalCode destination)) = 8" "bounds_ok c"
  shows "coverage_matches origin destination c = Inr (states_match c origin destination
    \<and> inRange (onlyDigits (ad_postalCode origin)) (cv_originPostalCodeStart c) (cv_originPostalCodeEnd c)
    \<and> inRange (onlyDigits (ad_postalCode destination)) (cv_destinationPostalCodeStart c)
        (cv_destinationPostalCodeEnd c))"
proof -
  have "normalizePostalCode (ad_postalCode origin) = Inr (onlyDigits (ad_postalCode origin))"
    "normalizePostalCode (ad_postalCode destination) = Inr (onlyDigits (ad_postalCode destination))"
    using assms(1,2) by (simp_all add: normalizePostalCode_def)
  moreover have "inPostalRange (onlyDigits (ad_postalCode origin)) (cv_originPostalCodeStart c) (cv_originPostalCodeEnd c)
      = Inr (inRange (onlyDigits (ad_postalCode origin)) (cv_originPostalCodeStart c) (cv_originPostalCodeEnd c))"
    "inPostalRange (onlyDigits (ad_postalCode destination)) (cv_destinationPostalCodeStart c) (cv_destinationPostalCodeEnd c)
      = Inr (inRange (onlyDigits (ad_postalCode destination)) (cv_destinationPostalCodeStart c) (cv_destinationPostalCodeEnd c))"
    using assms by (intro inPostalRange_inRange onlyDigits_all; simp add: bounds_ok_def)+
  ultimately show ?thesis
    by (simp only: coverage_matches_def Let_def bindE_simps states_match_def conj_assoc)
qed

theorem coverage_test_agrees_witness:
  "coverage_matches (toAddressDto (example_address ''01001-000'')) (toAddressDto (example_address ''20040-002''))
     (example_coverage (Some ''02000000'')) = Inr False"
proof -
  have d: "onlyDigits ''01001-000'' = ''01001000''" "onlyDigits ''20040-002'' = ''20040002''"
    "list_all is_digit ''02000000''" "list_all is_digit ''01001000''"
    by code_simp+
  have n: "num_le (Number ''02000000'') (Number ''01001000'') = False"
    unfolding Number_def using d(3,4) by (simp add: num_le_def number_of_digits_def digit_val_def ccode_def)
  show ?thesis
    using coverage_test_agrees [of "toAddressDto (example_address ''01001-000'')"
        "toAddressDto (example_address ''20040-002'')" "example_coverage (Some ''02000000'')"]
    by (simp add: toAddressDto_def example_address_def d n bounds_ok_def bound_ok_def example_coverage_def inRange_def
        is_digit_def ccode_def)
qed

lemma services_loop_error:
  "e \<in> set es \<Longrightarrow> evaluate_service rnd i shipDate km e = Inl x
   \<Longrightarrow> \<exists>y. services_loop rnd i shipDate km es cs us = Inl y"
proof (induction es arbitrary: cs us)
  case (Cons a es)
  show ?case
  proof (cases "evaluate_service rnd i shipDate km a")
    case (Inr r)
    then have "e \<in> set es" using Cons.prems by auto
    then show ?thesis using Inr Cons.IH Cons.prems(2) by (simp split: sum.split)
  qed simp
qed simp

text \<open>
  A coverage whose first postal code does not have eight digits makes every simulation that
  reaches it fail: even when other services could be quoted, the request is refused and nothing
  is stored.
\<close>

theorem malformed_coverage_blocks:
  assumes "ship_date now i = Inr shipDate" "e \<in> set (eligible_services tn i shipDate d)"
    "es_coverages e = c # cs" "truthy (cv_originPostalCodeStart c)"
    "length (onlyDigits (the (cv_originPostalCodeStart c))) \<noteq> 8"
  shows "\<exists>err. createSimulation rnd m now tn actor i d = (Inl err, d)"
proof -
  have "\<exists>x. coverage_matches o' d' c = Inl x" for o' d'
    using assms(4,5)
    by (cases "normalizePostalCode (ad_postalCode o')")
      (auto simp: coverage_matches_def Let_def inPostalRange_def normalize_bound_def normalizePostalCode_def)
  then obtain x where "coverage_matches (toAddressDto (fi_origin i)) (toAddressDto (fi_destination i)) c = Inl x"
    by blast
  then have "evaluate_service rnd i shipDate km e = Inl x" for km
    using assms(3) by (simp add: evaluate_service_def Let_def)
  then have "\<exists>y. services_loop rnd i shipDate km (eligible_services tn i shipDate d) [] [] = Inl y" for km
    using services_loop_error assms(2) by blast
  show ?thesis
  proof (cases "find_customer_for tn i d")
    case (Inr customer)
    show ?thesis
    proof (cases "calculateDistanceKm m (toAddressDto (fi_origin i)) (toAddressDto (fi_destination i))")
      case km: (Inr km)
      obtain y where "services_loop rnd i shipDate km (eligible_services tn i shipDate d) [] [] = Inl y"
        using \<open>\<And>km. \<exists>y. services_loop rnd i shipDate km (eligible_services tn i shipDate d) [] [] = Inl y\<close> by blast
      then show ?thesis using assms(1) Inr km by (simp add: createSimulation_def)
    qed (use assms(1) Inr in \<open>simp add: createSimulation_def\<close>)
  qed (use assms(1) in \<open>simp add: createSimulation_def\<close>)
qed

theorem malformed_coverage_blocks_witness:
  "\<exists>err. createSimulation dec20 example_math 0 ''t1'' ''u1'' example_request (example_freight (Some ''010''))
     = (Inl err, example_freight (Some ''010''))"
proof (rule malformed_coverage_blocks)
  show "ship_date 0 example_request = Inr 0"
    by (simp add: ship_date_def example_request_def)
  show "include_service (example_freight (Some ''010'')) 0 example_service example_carrier
      \<in> set (eligible_services ''t1'' example_request 0 (example_freight (Some ''010'')))"
    by (simp add: example_eligible)
  show "es_coverages (include_service (example_freight (Some ''010'')) 0 example_service example_carrier)
      = [example_coverage (Some ''010'')]"
    by (simp add: example_include)
  have "onlyDigits ''010'' = ''010''" by code_simp
  then show "truthy (cv_originPostalCodeStart (example_coverage (Some ''010'')))"
    "length (onlyDigits (the (cv_originPostalCodeStart (example_coverage (Some ''010''))))) \<noteq> 8"
    by (simp_all add: example_coverage_def)
qed

end
