(* ===== verification/Branches.thy ===== *)
theory Branches
  imports Schema
begin

text \<open>
  \<open>branches.service.ts\<close> with its request bodies: the branches of a tenant, at most one of which
  is its main branch. The database writes of one request are not a transaction, so a failed
  creation keeps the writes before it.
\<close>

section \<open>Requests and responses\<close>

record ListBranchesDto =
  lb_search :: "string option"
  lb_active :: "bool option"
  lb_state :: "string option"
  lb_page :: nat
  lb_perPage :: nat

record CreateBranchDto =
  cb_name :: string
  cb_code :: string
  cb_postalCode :: "string nullable"
  cb_email :: "string nullable"
  cb_phone :: "string nullable"
  cb_complement :: "string nullable"
  cb_country :: "string nullable"
  cb_active :: "bool nullable"
  cb_street :: "string nullable"
  cb_number :: "string nullable"
  cb_district :: "string nullable"
  cb_city :: "string nullable"
  cb_state :: "string nullable"
  cb_main :: "bool nullable"

record BranchDto =
  bd_active :: bool
  bd_city :: "string option"
  bd_code :: string
  bd_id :: string
  bd_main :: bool
  bd_name :: string
  bd_postalCode :: "string option"
  bd_state :: "string option"
  bd_street :: "string option"
  bd_number :: "string option"
  bd_district :: "string option"
  bd_email :: "string option"
  bd_phone :: "string option"
  bd_complement :: "string option"
  bd_country :: string
  bd_createdAt :: date
  bd_updatedAt :: date

definition presentBranch :: "Branch \<Rightarrow> BranchDto" where
  "presentBranch b =
     \<lparr> bd_active = b_active b, bd_city = b_city b, bd_code = b_code b, bd_id = b_id b,
       bd_main = b_main b, bd_name = b_name b, bd_postalCode = b_postalCode b, bd_state = b_state b,
       bd_street = b_street b, bd_number = b_number b, bd_district = b_district b,
       bd_email = b_email b, bd_phone = b_phone b, bd_complement = b_complement b,
       bd_country = b_country b, bd_createdAt = b_createdAt b, bd_updatedAt = b_updatedAt b \<rparr>"

text \<open>\<open>value?.trim() ?? ''\<close> and the like: an absent or null field reads as the empty text.\<close>

definition normalizePostal :: "string nullable \<Rightarrow> string option" where
  "normalizePostal v = or_null (coalesce (map_option onlyDigits (to_option v)) [])"

definition normalizeText :: "string nullable \<Rightarrow> string option" where
  "normalizeText v = or_null (coalesce (map_option trim (to_option v)) [])"

definition normalizeState :: "string nullable \<Rightarrow> string option" where
  "normalizeState v = or_null (coalesce (map_option (\<lambda>s. toUpperCase (trim s)) (to_option v)) [])"

section \<open>Reads\<close>

definition branches_where :: "string \<Rightarrow> ListBranchesDto \<Rightarrow> Branch \<Rightarrow> bool" where
  "branches_where tenantId query b =
     (b_tenantId b = tenantId
      \<and> (case lb_active query of None \<Rightarrow> True | Some a \<Rightarrow> b_active b = a)
      \<and> (if truthy (lb_state query) then b_state b = map_option toUpperCase (lb_state query) else True)
      \<and> (case lb_search query of
           None \<Rightarrow> True
         | Some search \<Rightarrow>
             if trim search = [] then True
             else includes_str (b_name b) (trim search) \<or> includes_str (b_code b) (trim search)))"

definition listBranches :: "string \<Rightarrow> ListBranchesDto \<Rightarrow> db \<Rightarrow> BranchDto PaginatedResult" where
  "listBranches tenantId query d =
     paginated (lb_page query) (lb_perPage query)
       (orderBy (then_by (desc b_main) (asc b_name)) (findMany (branches_where tenantId query) (branches d)))
       presentBranch"

definition find_branch :: "string \<Rightarrow> string \<Rightarrow> db \<Rightarrow> Branch result" where
  "find_branch tenantId i d =
     (case findFirst (\<lambda>b. b_id b = i \<and> b_tenantId b = tenantId) (branches d) of
        None \<Rightarrow> Inl (NotFoundException ''Branch was not found.'')
      | Some b \<Rightarrow> Inr b)"

definition getBranch :: "string \<Rightarrow> string \<Rightarrow> db \<Rightarrow> BranchDto result" where
  "getBranch tenantId i d = bindE (find_branch tenantId i d) (\<lambda>b. Inr (presentBranch b))"

section \<open>Writes\<close>

definition branch_conflict :: "Branch \<Rightarrow> Branch \<Rightarrow> bool" where
  "branch_conflict r x = (b_tenantId r = b_tenantId x \<and> b_code r = b_code x)"

text \<open>The columns creation and update take from the body.\<close>

definition branch_data :: "date \<Rightarrow> bool \<Rightarrow> CreateBranchDto \<Rightarrow> Branch \<Rightarrow> Branch" where
  "branch_data now active i b =
     b\<lparr>b_name := trim (cb_name i), b_code := trim (cb_code i), b_main := nn (cb_main i) False,
       b_active := active, b_city := normalizeText (cb_city i),
       b_district := normalizeText (cb_district i), b_email := normalizeText (cb_email i),
       b_number := normalizeText (cb_number i), b_complement := normalizeText (cb_complement i),
       b_postalCode := normalizePostal (cb_postalCode i), b_state := normalizeState (cb_state i),
       b_street := normalizeText (cb_street i), b_phone := normalizeText (cb_phone i),
       b_country := coalesce (normalizeState (cb_country i)) ''BR'', b_updatedAt := now\<rparr>"

definition blank_branch :: "date \<Rightarrow> string \<Rightarrow> string \<Rightarrow> Branch" where
  "blank_branch now i tenantId =
     \<lparr> b_id = i, b_tenantId = tenantId, b_name = [], b_code = [], b_postalCode = None, b_street = None,
       b_number = None, b_complement = None, b_district = None, b_city = None, b_state = None,
       b_country = [], b_email = None, b_phone = None, b_main = False, b_active = False,
       b_createdAt = now, b_updatedAt = now \<rparr>"

definition clear_main :: "date \<Rightarrow> (Branch \<Rightarrow> bool) \<Rightarrow> Branch list \<Rightarrow> Branch list" where
  "clear_main now p = updateMany (\<lambda>b. p b \<and> b_main b) (\<lambda>b. b\<lparr>b_main := False, b_updatedAt := now\<rparr>)"

definition createBranch :: "date \<Rightarrow> string \<Rightarrow> CreateBranchDto \<Rightarrow> BranchDto handler" where
  "createBranch now tenantId i d =
     (let d1 = (if nn (cb_main i) False
                then d\<lparr>branches := clear_main now (\<lambda>b. b_tenantId b = tenantId) (branches d)\<rparr> else d);
          branch = branch_data now (nn (cb_active i) True) i (blank_branch now (new_id d) tenantId) in
      case create_row branch_conflict branch (branches d1) of
        Inl e \<Rightarrow> (Inl (PrismaKnownError e), d1)
      | Inr t \<Rightarrow> (Inr (presentBranch branch), bump (d1\<lparr>branches := t\<rparr>)))"

definition branch_audit :: "date \<Rightarrow> string \<Rightarrow> string \<Rightarrow> string \<Rightarrow> string \<Rightarrow> db \<Rightarrow> db" where
  "branch_audit now tenantId actorId i operation =
     record_audit now (audit_of ADMIN_OPERATION actorId i ''Branch''
       (JObj [(''operation'', JStr operation)]) tenantId)"

definition updateBranch ::
  "date \<Rightarrow> string \<Rightarrow> string \<Rightarrow> string \<Rightarrow> CreateBranchDto \<Rightarrow> BranchDto handler" where
  "updateBranch now tenantId actorId i input d =
     (case find_branch tenantId i d of Inl e \<Rightarrow> (Inl e, d) | Inr current \<Rightarrow>
      let d1 = (if nn (cb_main input) False
                then d\<lparr>branches := clear_main now (\<lambda>b. b_tenantId b = tenantId \<and> b_id b \<noteq> i) (branches d)\<rparr>
                else d) in
      case update_row b_id branch_conflict i
             (branch_data now (nn (cb_active input) (b_active current)) input) (branches d1) of
        Inl e \<Rightarrow> (Inl (PrismaKnownError e), d1)
      | Inr (branch, t) \<Rightarrow>
          (Inr (presentBranch branch), branch_audit now tenantId actorId i ''update'' (d1\<lparr>branches := t\<rparr>)))"

definition updateBranchStatus ::
  "date \<Rightarrow> string \<Rightarrow> string \<Rightarrow> string \<Rightarrow> bool \<Rightarrow> BranchDto handler" where
  "updateBranchStatus now tenantId actorId i active d =
     (case find_branch tenantId i d of Inl e \<Rightarrow> (Inl e, d) | Inr branch \<Rightarrow>
      if \<not> active \<and> b_main branch
      then (Inl (NotFoundException ''Defina outra filial principal antes de desativar esta filial.''), d)
      else
      case update_row b_id branch_conflict i (\<lambda>b. b\<lparr>b_active := active, b_updatedAt := now\<rparr>) (branches d) of
        Inl e \<Rightarrow> (Inl (PrismaKnownError e), d)
      | Inr (updated, t) \<Rightarrow>
          (Inr (presentBranch updated),
           branch_audit now tenantId actorId i (if active then ''activate'' else ''deactivate'')
             (d\<lparr>branches := t\<rparr>)))"

section \<open>One main branch\<close>

interpretation branch_table: table b_id branch_conflict
  by unfold_locales (simp add: branch_conflict_def)

definition main_tenants :: "Branch list \<Rightarrow> string list" where
  "main_tenants t = map b_tenantId (filter b_main t)"

definition branches_ok :: "db \<Rightarrow> bool" where
  "branches_ok d \<longleftrightarrow> wf_table b_id branch_conflict (branches d)
     \<and> (\<forall>b \<in> set (branches d). old_id d (b_id b)) \<and> distinct (main_tenants (branches d))"

lemma branches_ok_cong:
  "branches_ok d \<Longrightarrow> branches d' = branches d \<Longrightarrow> next_id d \<le> next_id d' \<Longrightarrow> branches_ok d'"
  by (auto simp: branches_ok_def intro: old_id_mono)

lemma branch_audit_ok: "branches_ok d \<Longrightarrow> branches_ok (branch_audit now tn actor i op d)"
  by (rule branches_ok_cong [of d]) (simp_all add: branch_audit_def)

lemma main_tenants_clear:
  "main_tenants (clear_main now p t) = map b_tenantId (filter (\<lambda>b. b_main b \<and> \<not> p b) t)"
  by (induction t) (auto simp: main_tenants_def clear_main_def updateMany_def)

lemma clear_main_ids: "map b_id (clear_main now p t) = map b_id t"
  unfolding clear_main_def by (rule map_updateMany) simp

lemma clear_main_wf: "wf_table b_id branch_conflict t \<Longrightarrow> wf_table b_id branch_conflict (clear_main now p t)"
  unfolding clear_main_def by (rule branch_table.wf_updateMany) (simp_all add: branch_conflict_def)

lemma clear_main_ok:
  assumes "branches_ok d"
  shows "branches_ok (d\<lparr>branches := clear_main now p (branches d)\<rparr>)"
proof -
  have "distinct (map b_tenantId (filter (\<lambda>b. b_main b \<and> \<not> p b) (branches d)))"
    using assms distinct_map_filter [of b_tenantId "filter b_main (branches d)" "\<lambda>b. \<not> p b"]
    by (simp add: branches_ok_def main_tenants_def conj_commute)
  moreover have "old_id d (b_id b)" if "b \<in> set (clear_main now p (branches d))" for b
  proof -
    have "b_id b \<in> set (map b_id (clear_main now p (branches d)))"
      using that by simp
    then have "b_id b \<in> set (map b_id (branches d))"
      by (simp only: clear_main_ids)
    then show ?thesis using assms by (auto simp: branches_ok_def)
  qed
  ultimately show ?thesis
    using assms clear_main_wf by (simp add: branches_ok_def main_tenants_clear old_id_def)
qed

lemma branch_data_id [simp]:
  "b_id (branch_data now active i b) = b_id b" "b_tenantId (branch_data now active i b) = b_tenantId b"
  "b_main (branch_data now active i b) = nn (cb_main i) False"
  by (simp_all add: branch_data_def)

lemma blank_branch_id [simp]:
  "b_id (blank_branch now i tn) = i" "b_tenantId (blank_branch now i tn) = tn"
  by (simp_all add: blank_branch_def)

lemma add_branch_ok:
  assumes "branches_ok d" "create_row branch_conflict b (branches d) = Inr t" "b_id b = new_id d"
    and "b_main b \<Longrightarrow> b_tenantId b \<notin> set (main_tenants (branches d))"
  shows "branches_ok (bump (d\<lparr>branches := t\<rparr>))"
proof -
  have t: "t = branches d @ [b]"
    using assms(2) by (simp add: create_Inr)
  have "b_id b \<notin> b_id ` set (branches d)"
    using assms(1,3) new_id_fresh [of d] by (auto simp: branches_ok_def)
  then have "wf_table b_id branch_conflict t"
    using assms(1,2) branch_table.wf_create by (auto simp: branches_ok_def)
  then show ?thesis
    using assms(1,3,4) t old_id_mono [of d _ "bump (d\<lparr>branches := t\<rparr>)"]
      old_id_new_id [of d "bump (d\<lparr>branches := t\<rparr>)"]
    by (auto simp: branches_ok_def main_tenants_def)
qed

lemma insert_branch_ok:
  assumes "branches_ok d" "b_id b = new_id d" "b_main b \<Longrightarrow> b_tenantId b \<notin> set (main_tenants (branches d))"
  shows "ensures (\<lambda>r. branches_ok) (case create_row branch_conflict b (branches d) of
    Inl e \<Rightarrow> (Inl (f e), d) | Inr t \<Rightarrow> (Inr x, bump (d\<lparr>branches := t\<rparr>)))"
  using assms by (intro ensures_intros) (auto intro: add_branch_ok)

lemma createBranch_ok:
  assumes "branches_ok d"
  shows "ensures (\<lambda>r. branches_ok) (createBranch now tn i d)"
  unfolding createBranch_def Let_def
  by (rule insert_branch_ok) (use assms clear_main_ok in \<open>auto simp: main_tenants_clear new_id_def\<close>)

lemma distinct_main_update:
  assumes "distinct (map b_id t)" "distinct (map b_tenantId (filter (\<lambda>x. b_main x \<and> b_id x \<noteq> i) t))"
    and "\<And>x. x \<in> set t \<Longrightarrow> b_id x = i \<Longrightarrow> b_main (f x) \<Longrightarrow>
      b_tenantId (f x) \<notin> set (map b_tenantId (filter (\<lambda>x. b_main x \<and> b_id x \<noteq> i) t))"
    and "\<And>x. b_id (f x) = b_id x"
  shows "distinct (main_tenants (map (\<lambda>x. if b_id x = i then f x else x) t))"
  using assms(1-3)
proof (induction t)
  case (Cons a t)
  let ?g = "\<lambda>x. if b_id x = i then f x else x"
  have IH: "distinct (main_tenants (map ?g t))"
    using Cons.prems by (intro Cons.IH) (auto split: if_splits)
  have ne: "b_id x \<noteq> i" if "b_id a = i" "x \<in> set t" for x
    using imageI [OF that(2), of b_id] Cons.prems(1) that(1) by auto
  have same: "map ?g t = t" if "b_id a = i"
    using ne [OF that] by (intro map_idI) simp
  show ?case
  proof (cases "b_id a = i")
    case True
    have "filter (\<lambda>x. b_main x \<and> b_id x \<noteq> i) t = filter b_main t"
      using ne [OF True] by (intro filter_cong) auto
    then show ?thesis
      using Cons.prems(3) [of a] IH same True by (auto simp: main_tenants_def)
  next
    case False
    have "b_tenantId a \<notin> b_tenantId ` {x \<in> set (map ?g t). b_main x}" if "b_main a"
      using that False Cons.prems(2,3) assms(4) by (force split: if_splits)
    then show ?thesis using IH False by (simp add: main_tenants_def)
  qed
qed (simp add: main_tenants_def)

lemma change_branch_ok:
  assumes "branches_ok d" "update_row b_id branch_conflict i f (branches d) = Inr (r, t)"
    and "\<And>x. b_id (f x) = b_id x"
    and "distinct (map b_tenantId (filter (\<lambda>x. b_main x \<and> b_id x \<noteq> i) (branches d)))"
    and "\<And>x. x \<in> set (branches d) \<Longrightarrow> b_id x = i \<Longrightarrow> b_main (f x) \<Longrightarrow>
      b_tenantId (f x) \<notin> set (map b_tenantId (filter (\<lambda>x. b_main x \<and> b_id x \<noteq> i) (branches d)))"
  shows "branches_ok (d\<lparr>branches := t\<rparr>)"
proof -
  have t: "t = map (\<lambda>x. if b_id x = i then f x else x) (branches d)"
    using update_InrD [OF assms(2)] by blast
  have "wf_table b_id branch_conflict t"
    using branch_table.wf_update [OF assms(2) _ assms(3)] assms(1) by (simp add: branches_ok_def)
  moreover have "distinct (main_tenants t)"
    unfolding t
    by (rule distinct_main_update) (use assms in \<open>auto simp: branches_ok_def wf_table_def\<close>)
  ultimately show ?thesis
    using assms(1,3) by (auto simp: branches_ok_def t old_id_def)
qed

lemma find_branch_Inr:
  "find_branch tn i d = Inr b \<Longrightarrow> b \<in> set (branches d) \<and> b_id b = i \<and> b_tenantId b = tn"
  by (auto simp: find_branch_def split: option.splits dest: findFirst_SomeD)

text \<open>The other mains of a tenant, seen from branch \<open>i\<close>.\<close>

definition other_mains :: "string \<Rightarrow> Branch list \<Rightarrow> string list" where
  "other_mains i t = map b_tenantId (filter (\<lambda>x. b_main x \<and> b_id x \<noteq> i) t)"

lemma other_mains_distinct: "distinct (main_tenants t) \<Longrightarrow> distinct (other_mains i t)"
  using distinct_map_filter [of b_tenantId "filter b_main t" "\<lambda>x. b_id x \<noteq> i"]
  by (simp add: main_tenants_def other_mains_def conj_commute)

lemma other_mains_clear:
  "tn \<notin> set (other_mains i (clear_main now (\<lambda>b. b_tenantId b = tn \<and> b_id b \<noteq> i) t))"
  by (induction t) (auto simp: other_mains_def clear_main_def updateMany_def)

lemma rewrite_branch_ok:
  assumes "branches_ok d" "\<And>x. b_id (f x) = b_id x"
    and "\<And>x. x \<in> set (branches d) \<Longrightarrow> b_id x = i \<Longrightarrow> b_main (f x) \<Longrightarrow>
      b_tenantId (f x) \<notin> set (other_mains i (branches d))"
  shows "ensures (\<lambda>r. branches_ok) (case update_row b_id branch_conflict i f (branches d) of
    Inl e \<Rightarrow> (Inl (g e), d)
  | Inr (b, t) \<Rightarrow> (h b, branch_audit now tn actor i op (d\<lparr>branches := t\<rparr>)))"
proof (intro ensures_sum ensures_prod ensures_pair)
  fix e
  show "branches_ok d" by (rule assms(1))
next
  fix a b t assume a: "update_row b_id branch_conflict i f (branches d) = Inr a" "a = (b, t)"
  have "branches_ok (d\<lparr>branches := t\<rparr>)"
    using change_branch_ok [OF assms(1) a(1) [unfolded a(2)] assms(2)] assms(1,3)
      other_mains_distinct [of "branches d" i]
    by (simp add: other_mains_def branches_ok_def)
  then show "branches_ok (branch_audit now tn actor i op (d\<lparr>branches := t\<rparr>))"
    by (rule branch_audit_ok)
qed

lemma updateBranch_ok:
  assumes "branches_ok d"
  shows "ensures (\<lambda>r. branches_ok) (updateBranch now tn actor i input d)"
proof -
  have "b_tenantId x = tn" if "find_branch tn i d = Inr b" "x \<in> set (branches d')" "b_id x = i"
    "d' = d \<or> d' = d\<lparr>branches := clear_main now p (branches d)\<rparr>" for b x d' p
  proof -
    have key: "map (\<lambda>b. (b_id b, b_tenantId b)) (clear_main now p (branches d)) = map (\<lambda>b. (b_id b, b_tenantId b)) (branches d)"
      unfolding clear_main_def by (rule map_updateMany) simp
    have same: "map (\<lambda>b. (b_id b, b_tenantId b)) (branches d') = map (\<lambda>b. (b_id b, b_tenantId b)) (branches d)"
      using that(4) key by auto
    have "(i, b_tenantId x) \<in> set (map (\<lambda>b. (b_id b, b_tenantId b)) (branches d'))"
      using that(2,3) by force
    then have "(i, b_tenantId x) \<in> set (map (\<lambda>b. (b_id b, b_tenantId b)) (branches d))"
      by (simp only: same)
    then obtain y where "y \<in> set (branches d)" "b_id y = i" "b_tenantId y = b_tenantId x" by auto
    then show ?thesis
      using find_branch_Inr [OF that(1)] wf_table_unique [of b_id branch_conflict "branches d" y b] assms
      by (auto simp: branches_ok_def)
  qed
  note own = this
  show ?thesis
    unfolding updateBranch_def Let_def
    apply (rule ensures_sum)
     apply (simp add: ensures_def assms)
    apply (rule rewrite_branch_ok)
    subgoal using assms clear_main_ok by simp
    subgoal by simp
    subgoal for b x
      using own [of b x "d\<lparr>branches := clear_main now (\<lambda>b. b_tenantId b = tn \<and> b_id b \<noteq> i) (branches d)\<rparr>"
          "\<lambda>b. b_tenantId b = tn \<and> b_id b \<noteq> i"] other_mains_clear [of tn i now "branches d"] by simp
    done
qed

lemma updateBranchStatus_ok:
  assumes "branches_ok d"
  shows "ensures (\<lambda>r. branches_ok) (updateBranchStatus now tn actor i active d)"
proof -
  have "b_tenantId x \<notin> set (other_mains i (branches d))" if "x \<in> set (branches d)" "b_id x = i" "b_main x" for x
  proof
    assume "b_tenantId x \<in> set (other_mains i (branches d))"
    then obtain y where "y \<in> set (branches d)" "b_main y" "b_id y \<noteq> i" "b_tenantId y = b_tenantId x"
      by (auto simp: other_mains_def)
    then show False
      using that assms by (auto simp: branches_ok_def main_tenants_def distinct_map inj_on_def)
  qed
  note main = this
  show ?thesis
    unfolding updateBranchStatus_def
    apply (rule ensures_sum)
     apply (simp add: ensures_def assms)
    apply (rule ensures_if)
     apply (simp add: ensures_def assms)
    apply (rule rewrite_branch_ok)
    using assms main by simp_all
qed

inductive branch_step :: "db \<Rightarrow> db \<Rightarrow> bool" where
  create: "branch_step d (snd (createBranch now tn i d))"
| update: "branch_step d (snd (updateBranch now tn actor i input d))"
| status: "branch_step d (snd (updateBranchStatus now tn actor i active d))"

lemma branch_step_ok: "branch_step d d' \<Longrightarrow> branches_ok d \<Longrightarrow> branches_ok d'"
  using createBranch_ok updateBranch_ok updateBranchStatus_ok
  by (auto elim!: branch_step.cases simp: ensures_snd)

section \<open>Properties\<close>

definition example_branch :: "string \<Rightarrow> bool \<Rightarrow> CreateBranchDto" where
  "example_branch code main = \<lparr> cb_name = ''Matriz'', cb_code = code, cb_postalCode = Undefined,
     cb_email = Undefined, cb_phone = Null, cb_complement = Undefined, cb_country = Value ''br'',
     cb_active = Undefined, cb_street = Undefined, cb_number = Undefined, cb_district = Undefined,
     cb_city = Value ''Santos'', cb_state = Value '' sp'', cb_main = Value main \<rparr>"

lemma clear_main_unset:
  "\<forall>x \<in> set (clear_main now (\<lambda>b. b_tenantId b = tn) t). b_tenantId x = tn \<longrightarrow> \<not> b_main x"
proof (induction t)
  case (Cons a t)
  have "clear_main now (\<lambda>b. b_tenantId b = tn) (a # t)
      = (if b_tenantId a = tn \<and> b_main a then a\<lparr>b_main := False, b_updatedAt := now\<rparr> else a)
        # clear_main now (\<lambda>b. b_tenantId b = tn) t"
    by (simp add: clear_main_def updateMany_def)
  then show ?case using Cons.IH by simp
qed (simp add: clear_main_def updateMany_def)

lemma empty_branches_ok: "branches_ok empty_db"
  by (simp add: branches_ok_def empty_db_def wf_table_def main_tenants_def)

text \<open>
  C23: whatever requests are made, branch codes stay unique in each tenant and no tenant has two
  main branches.
\<close>

theorem one_main_branch:
  assumes "branches_ok d" "branch_step\<^sup>*\<^sup>* d d'"
  shows "branches_ok d'"
  using assms(2,1) by (induction rule: rtranclp_induct) (auto dest: branch_step_ok)

theorem one_main_branch_witness:
  "branches_ok (snd (createBranch 1 ''t1'' (example_branch ''B'' True)
     (snd (createBranch 0 ''t1'' (example_branch ''A'' True) empty_db))))"
proof (rule one_main_branch [OF empty_branches_ok])
  show "branch_step\<^sup>*\<^sup>* empty_db (snd (createBranch 1 ''t1'' (example_branch ''B'' True)
     (snd (createBranch 0 ''t1'' (example_branch ''A'' True) empty_db))))"
    by (rule rtranclp_trans [OF r_into_rtranclp [of branch_step, OF branch_step.create]
          r_into_rtranclp [of branch_step, OF branch_step.create]])
qed

text \<open>
  A request to create a main branch that fails on a code already in use still unsets the main
  branch the tenant had, because the two writes are not one transaction.
\<close>

theorem failed_branch_loses_main:
  assumes "b \<in> set (branches d)" "b_tenantId b = tn" "b_code b = trim (cb_code i)" "cb_main i = Value True"
  shows "fst (createBranch now tn i d) = Inl (PrismaKnownError P2002)
    \<and> (\<forall>x \<in> set (branches (snd (createBranch now tn i d))). b_tenantId x = tn \<longrightarrow> \<not> b_main x)"
proof -
  let ?t = "clear_main now (\<lambda>b. b_tenantId b = tn) (branches d)"
  have clear: "\<forall>x \<in> set ?t. b_tenantId x = tn \<longrightarrow> \<not> b_main x"
    by (rule clear_main_unset)
  let ?x = "if b_tenantId b = tn \<and> b_main b then b\<lparr>b_main := False, b_updatedAt := now\<rparr> else b"
  have "?x \<in> set ?t"
    unfolding clear_main_def set_updateMany using assms(1) by (rule imageI)
  moreover have "b_tenantId ?x = tn" "b_code ?x = trim (cb_code i)"
    using assms(2,3) by simp_all
  ultimately have "\<exists>x \<in> set ?t. branch_conflict (branch_data now (nn (cb_active i) True) i (blank_branch now (new_id d) tn)) x"
    by (intro bexI [of _ ?x]) (simp_all add: branch_conflict_def branch_data_def)
  then have "create_row branch_conflict (branch_data now (nn (cb_active i) True) i (blank_branch now (new_id d) tn)) ?t = Inl P2002"
    by (simp add: create_row_def)
  then show ?thesis
    using assms(4) clear by (simp add: createBranch_def)
qed

theorem failed_branch_loses_main_witness:
  "\<not> b_main (hd (branches (snd (createBranch 1 ''t1'' (example_branch ''A'' True)
     (empty_db\<lparr>branches := [(blank_branch 0 ''b1'' ''t1'')\<lparr>b_code := ''A'', b_main := True\<rparr>]\<rparr>)))))"
proof -
  let ?b = "(blank_branch 0 ''b1'' ''t1'')\<lparr>b_code := ''A'', b_main := True\<rparr>"
  let ?d = "empty_db\<lparr>branches := [?b]\<rparr>"
  have "trim ''A'' = ''A''" by code_simp
  then have "\<forall>x \<in> set (branches (snd (createBranch 1 ''t1'' (example_branch ''A'' True) ?d))). b_tenantId x = ''t1'' \<longrightarrow> \<not> b_main x"
    using failed_branch_loses_main [of ?b ?d "''t1''" "example_branch ''A'' True" 1]
    by (simp add: example_branch_def)
  moreover have "branches (snd (createBranch 1 ''t1'' (example_branch ''A'' True) ?d)) = [?b\<lparr>b_main := False, b_updatedAt := 1\<rparr>]"
    by code_simp
  ultimately show ?thesis by simp
qed

end
