(* ===== verification/Files.thy ===== *)
theory Files
  imports Schema "HOL-Library.Sublist"
begin

text \<open>
  The upload directories: \<open>import-file-storage.service.ts\<close> and
  \<open>carrier-image-storage.service.ts\<close>. A stored file is an entry of \<open>storedFiles\<close> under its
  path; the path functions of \<open>node:path\<close> (POSIX) are modelled on strings. The lemmas at the
  end show that a path built for a tenant lies under its directory.
\<close>

section \<open>Paths\<close>

abbreviation slash :: char where "slash \<equiv> CHR ''/''"

definition push_segment :: "bool \<Rightarrow> string list \<Rightarrow> string \<Rightarrow> string list" where
  "push_segment absolute acc seg =
     (if seg = [] \<or> seg = ''.'' then acc
      else if seg = ''..'' then
        (if acc \<noteq> [] \<and> last acc \<noteq> ''..'' then butlast acc
         else if absolute then acc else acc @ [''..''])
      else acc @ [seg])"

definition is_absolute :: "string \<Rightarrow> bool" where
  "is_absolute p = (case p of [] \<Rightarrow> False | c # _ \<Rightarrow> c = slash)"

definition segments :: "string \<Rightarrow> string list" where
  "segments p = foldl (push_segment (is_absolute p)) [] (split_on slash p)"

definition normalize_path :: "string \<Rightarrow> string" where
  "normalize_path p =
     (if p = [] then ''.''
      else let path = join [slash] (segments p) in
        if path = [] then (if is_absolute p then [slash] else if last p = slash then ''./'' else ''.'')
        else (if is_absolute p then [slash] else []) @ path @ (if last p = slash then [slash] else []))"

definition join_path :: "string list \<Rightarrow> string" where
  "join_path args =
     (let parts = filter (\<lambda>a. a \<noteq> []) args in
      if parts = [] then ''.'' else normalize_path (join [slash] parts))"

text \<open>\<open>extname\<close>: from the last dot of the last component, unless the component starts with it.\<close>

definition extname :: "string \<Rightarrow> string" where
  "extname p =
     (let base = last (split_on slash (rev (dropWhile (\<lambda>c. c = slash) (rev p))));
          post = takeWhile (\<lambda>c. c \<noteq> CHR ''.'') (rev base);
          pre = drop (length post + 1) (rev base)
      in if CHR ''.'' \<notin> set base \<or> pre = [] \<or> base = ''..'' then []
         else CHR ''.'' # rev post)"

section \<open>Stored files\<close>

definition read_file :: "string \<Rightarrow> db \<Rightarrow> string result" where
  "read_file p d =
     (case map_of (storedFiles d) p of None \<Rightarrow> Inl (InternalError ''ENOENT'') | Some b \<Rightarrow> Inr b)"

text \<open>The flag \<open>wx\<close> makes the write fail when the file exists.\<close>

definition write_new_file :: "string \<Rightarrow> string \<Rightarrow> db \<Rightarrow> db result" where
  "write_new_file p buffer d =
     (if p \<in> fst ` set (storedFiles d) then Inl (InternalError ''EEXIST'')
      else Inr (d\<lparr>storedFiles := (p, buffer) # storedFiles d\<rparr>))"

section \<open>Import files\<close>

record StoredImportFile =
  si_hash :: string
  si_key :: string
  si_size :: nat

definition safeExtension :: "string \<Rightarrow> string result" where
  "safeExtension filename =
     (let extension = toLowerCase (extname filename) in
      if extension = ''.csv'' \<or> extension = ''.xlsx'' then Inr extension
      else Inl (BadRequestException ''Formato nao suportado. Envie CSV ou XLSX.''))"

definition tenantDir :: "string \<Rightarrow> string \<Rightarrow> string" where
  "tenantDir dir tenantId = join_path [dir, tenantId]"

definition safePath :: "string \<Rightarrow> string \<Rightarrow> string \<Rightarrow> string result" where
  "safePath dir tenantId key =
     (if includes_str key ''/'' \<or> includes_str key [CHR 0x5C] \<or> includes_str key ''..''
      then Inl (BadRequestException ''Storage key invalida.'')
      else let base = tenantDir dir tenantId;
               fullPath = normalize_path (join_path [base, key])
           in if \<not> startsWith fullPath (normalize_path base)
              then Inl (BadRequestException ''Storage key invalida.'')
              else Inr fullPath)"

definition save_import_file ::
  "(string \<Rightarrow> string) \<Rightarrow> string \<Rightarrow> string \<Rightarrow> string \<Rightarrow> string \<Rightarrow> StoredImportFile handler" where
  "save_import_file sha256 dir buffer filename tenantId d =
     (case safeExtension filename of Inl e \<Rightarrow> (Inl e, d) | Inr extension \<Rightarrow>
      let key = new_id d @ extension in
      case safePath dir tenantId key of Inl e \<Rightarrow> (Inl e, d) | Inr target \<Rightarrow>
      case write_new_file target buffer (bump d) of Inl e \<Rightarrow> (Inl e, d) | Inr d' \<Rightarrow>
        (Inr \<lparr> si_hash = sha256 buffer, si_key = key, si_size = length buffer \<rparr>, d'))"

definition read_import_file :: "string \<Rightarrow> string \<Rightarrow> string \<Rightarrow> db \<Rightarrow> string result" where
  "read_import_file dir tenantId key d = bindE (safePath dir tenantId key) (\<lambda>p. read_file p d)"

section \<open>Carrier logos\<close>

definition safeImageExtension :: "string \<Rightarrow> string result" where
  "safeImageExtension filename =
     (let extension = toLowerCase (extname filename) in
      if extension \<in> {''.jpg'', ''.jpeg'', ''.png'', ''.webp''} then Inr extension
      else Inl (BadRequestException (''Formato n'' @ [CHR 0xE3] @ ''o suportado. Envie PNG, JPG ou WebP.'')))"

definition mimeByExtension :: "(string \<times> string) list" where
  "mimeByExtension = [(''.jpg'', ''image/jpeg''), (''.jpeg'', ''image/jpeg''), (''.png'', ''image/png''),
     (''.webp'', ''image/webp'')]"

definition contentTypeFor :: "string \<Rightarrow> string" where
  "contentTypeFor key =
     coalesce (map_of mimeByExtension (toLowerCase (extname key))) ''application/octet-stream''"

definition image_safePath :: "string \<Rightarrow> string \<Rightarrow> string \<Rightarrow> string result" where
  "image_safePath dir tenantId key =
     (let bad = BadRequestException (''Chave de imagem inv'' @ [CHR 0xE1] @ ''lida.'') in
      if includes_str key [CHR 0x5C] \<or> includes_str key ''..'' then Inl bad
      else let base = join_path [dir, tenantId];
               fullPath = normalize_path (join_path [base, key])
           in if \<not> startsWith fullPath (normalize_path base) then Inl bad else Inr fullPath)"

definition save_image ::
  "(string \<Rightarrow> string) \<Rightarrow> string \<Rightarrow> string \<Rightarrow> string \<Rightarrow> string \<Rightarrow> string \<Rightarrow> StoredImportFile handler" where
  "save_image sha256 dir buffer carrierId filename tenantId d =
     (case safeImageExtension filename of Inl e \<Rightarrow> (Inl e, d) | Inr extension \<Rightarrow>
      let key = carrierId @ ''/'' @ new_id d @ extension in
      case image_safePath dir tenantId key of Inl e \<Rightarrow> (Inl e, d) | Inr target \<Rightarrow>
      case write_new_file target buffer (bump d) of Inl e \<Rightarrow> (Inl e, d) | Inr d' \<Rightarrow>
        (Inr \<lparr> si_hash = sha256 buffer, si_key = key, si_size = length buffer \<rparr>, d'))"

definition read_image :: "string \<Rightarrow> string \<Rightarrow> string \<Rightarrow> db \<Rightarrow> (string \<times> string) result" where
  "read_image dir tenantId key d =
     bindE (image_safePath dir tenantId key) (\<lambda>p.
     bindE (read_file p d) (\<lambda>buffer. Inr (buffer, contentTypeFor key)))"

section \<open>Normalised paths\<close>

text \<open>A normalised list of segments: parent references only in front, and only in a relative path.\<close>

definition plain :: "string \<Rightarrow> bool" where
  "plain seg = (seg \<noteq> [] \<and> seg \<noteq> ''.'' \<and> seg \<noteq> ''..'' \<and> slash \<notin> set seg)"

definition normal :: "bool \<Rightarrow> string list \<Rightarrow> bool" where
  "normal absolute segs = (\<exists>n ps. segs = replicate n ''..'' @ ps \<and> (\<forall>p \<in> set ps. plain p)
     \<and> (absolute \<longrightarrow> n = 0))"

lemma normalI:
  "segs = replicate n ''..'' @ ps \<Longrightarrow> \<forall>p \<in> set ps. plain p \<Longrightarrow> (absolute \<longrightarrow> n = 0) \<Longrightarrow> normal absolute segs"
  by (auto simp: normal_def)

lemma push_normal:
  assumes "normal absolute acc" "slash \<notin> set seg"
  shows "normal absolute (push_segment absolute acc seg)"
proof -
  obtain n ps where acc: "acc = replicate n ''..'' @ ps" "\<forall>p \<in> set ps. plain p" "absolute \<longrightarrow> n = 0"
    using assms(1) by (auto simp: normal_def)
  consider (skip) "seg = [] \<or> seg = ''.''" | (up) "seg = ''..''" | (plain) "plain seg"
    using assms(2) by (auto simp: plain_def)
  then show ?thesis
  proof cases
    case skip
    then show ?thesis using assms(1) by (simp add: push_segment_def)
  next
    case up
    show ?thesis
    proof (cases "ps = []")
      case True
      have "push_segment absolute acc seg = (if absolute then acc else replicate (Suc n) ''..'' @ [])"
        using up acc True by (cases n) (auto simp: push_segment_def replicate_append_same)
      then show ?thesis
        using assms(1) normalI [of "replicate (Suc n) ''..''" "Suc n" "[]" absolute]
        by (cases absolute) simp_all
    next
      case False
      then have "plain (last ps)" "\<forall>p \<in> set (butlast ps). plain p"
        using acc(2) by (auto dest: in_set_butlastD)
      then show ?thesis
        using up acc False by (auto simp: push_segment_def normal_def plain_def butlast_append)
    qed
  next
    case plain
    then have "push_segment absolute acc seg = replicate n ''..'' @ (ps @ [seg])"
      using acc(1) by (simp add: push_segment_def plain_def)
    then show ?thesis
      unfolding normal_def using acc(2,3) plain by (intro exI [of _ n] exI [of _ "ps @ [seg]"]) auto
  qed
qed

lemma foldl_push_normal:
  "normal absolute acc \<Longrightarrow> \<forall>w \<in> set ws. slash \<notin> set w \<Longrightarrow> normal absolute (foldl (push_segment absolute) acc ws)"
  by (induction ws arbitrary: acc) (simp_all add: push_normal)

lemma segments_normal: "normal (is_absolute p) (segments p)"
  unfolding segments_def
  by (rule foldl_push_normal) (auto simp: normal_def dest: split_on_no_sep)

text \<open>Segments without parent references are appended.\<close>

definition kept :: "string \<Rightarrow> bool" where
  "kept w = (w \<noteq> [] \<and> w \<noteq> ''.'')"

lemma foldl_push_kept:
  "\<forall>w \<in> set ws. w \<noteq> ''..'' \<Longrightarrow> foldl (push_segment absolute) acc ws = acc @ filter kept ws"
  by (induction ws arbitrary: acc) (auto simp: push_segment_def kept_def)

lemma foldl_push_dots:
  "foldl (push_segment False) (replicate m ''..'') (replicate n ''..'') = replicate (m + n) ''..''"
proof (induction n arbitrary: m)
  case (Suc n)
  have "push_segment False (replicate m ''..'') ''..'' = replicate (Suc m) ''..''"
    by (cases m) (simp_all add: push_segment_def replicate_append_same)
  then show ?case using Suc.IH [of "Suc m"] by simp
qed simp

lemma foldl_push_id:
  assumes "normal absolute segs"
  shows "foldl (push_segment absolute) [] segs = segs"
proof -
  obtain n ps where segs: "segs = replicate n ''..'' @ ps" "\<forall>p \<in> set ps. plain p" "absolute \<longrightarrow> n = 0"
    using assms by (auto simp: normal_def)
  have "foldl (push_segment absolute) [] (replicate n ''..'') = replicate n ''..''"
    using segs(3) foldl_push_dots [of 0 n] by (cases absolute) auto
  moreover have "filter kept ps = ps" "\<forall>w \<in> set ps. w \<noteq> ''..''"
    using segs(2) by (auto simp: plain_def kept_def filter_id_conv)
  ultimately show ?thesis
    using foldl_push_kept [of ps absolute "replicate n ''..''"] by (simp add: segs(1))
qed

lemma split_join:
  "\<forall>w \<in> set ws. c \<notin> set w \<Longrightarrow> ws \<noteq> [] \<Longrightarrow> split_on c (join [c] ws) = ws"
proof (induction ws)
  case (Cons w ws)
  then show ?case
    by (cases ws) (simp_all add: split_on_single split_on_append)
qed simp

lemma normal_no_slash: "normal absolute segs \<Longrightarrow> w \<in> set segs \<Longrightarrow> slash \<notin> set w \<and> w \<noteq> []"
proof -
  assume "normal absolute segs" "w \<in> set segs"
  then obtain n ps where "w \<in> set (replicate n ''..'' @ ps)" "\<forall>p \<in> set ps. plain p"
    unfolding normal_def by blast
  then have "w = ''..'' \<or> plain w" by (auto simp only: set_append Un_iff in_set_replicate)
  then show ?thesis by (auto simp: plain_def)
qed

lemma join_absolute:
  assumes "normal absolute segs"
  shows "is_absolute (join [slash] segs @ rest) \<longleftrightarrow> segs = [] \<and> is_absolute rest"
proof (cases segs)
  case (Cons w ws)
  obtain c cs where w: "w = c # cs" "c \<noteq> slash"
    using normal_no_slash [OF assms, of w] Cons by (cases w) auto
  then show ?thesis
    using Cons by (cases ws) (simp_all add: is_absolute_def)
qed simp

lemma join_empty: "normal absolute segs \<Longrightarrow> join [slash] segs = [] \<longleftrightarrow> segs = []"
  using normal_no_slash [of absolute segs "hd segs"]
  by (cases segs; cases "tl segs") auto

lemma is_absolute_normalize [simp]: "is_absolute (normalize_path p) = is_absolute p"
  using join_absolute [OF segments_normal [of p]] join_empty [OF segments_normal [of p]]
  by (auto simp: normalize_path_def Let_def is_absolute_def split: list.splits)

lemma foldl_push_skip:
  "foldl (push_segment absolute) acc ([] # ws) = foldl (push_segment absolute) acc ws"
  "foldl (push_segment absolute) acc (ws @ [[]]) = foldl (push_segment absolute) acc ws"
  by (simp_all add: push_segment_def)

lemma segments_text:
  assumes "normal absolute segs" "segs \<noteq> []" "pre = [] \<or> pre = [slash]" "post = [] \<or> post = [slash]"
    and "is_absolute (pre @ join [slash] segs @ post) = absolute"
  shows "segments (pre @ join [slash] segs @ post) = segs"
proof -
  have sp: "split_on slash (join [slash] segs) = segs"
    using normal_no_slash [OF assms(1)] assms(2) by (intro split_join) auto
  have "split_on slash (join [slash] segs @ post) = segs @ (if post = [] then [] else [[]])"
    using assms(4) sp split_on_append [of slash "join [slash] segs" "[]"] by auto
  then have "split_on slash (pre @ join [slash] segs @ post)
      = (if pre = [] then [] else [[]]) @ segs @ (if post = [] then [] else [[]])"
    using assms(3) by auto
  then have "segments (pre @ join [slash] segs @ post) = foldl (push_segment absolute) [] segs"
    unfolding segments_def assms(5)
    using assms(3,4) foldl_push_skip by (auto simp del: foldl_append)
  then show ?thesis using foldl_push_id [OF assms(1)] by simp
qed

lemma segments_normalize [simp]: "segments (normalize_path p) = segments p"
proof -
  let ?path = "join [slash] (segments p)"
  show ?thesis
  proof (cases "segments p = []")
    case True
    have "segments [] = []" "segments [slash] = []" "segments ''.'' = []" "segments ''./'' = []"
      by code_simp+
    then show ?thesis using True by (auto simp: normalize_path_def Let_def)
  next
    case False
    then have p: "p \<noteq> []" "?path \<noteq> []"
      using join_empty [OF segments_normal [of p]] by (auto simp: segments_def push_segment_def)
    let ?pre = "if is_absolute p then [slash] else []" and ?post = "if last p = slash then [slash] else []"
    have "normalize_path p = ?pre @ ?path @ ?post"
      using p by (simp add: normalize_path_def Let_def)
    moreover have "is_absolute (?pre @ ?path @ ?post) = is_absolute p"
      using join_absolute [OF segments_normal [of p]] False by (simp add: is_absolute_def)
    ultimately show ?thesis
      using segments_text [OF segments_normal [of p] False, of ?pre ?post] by simp
  qed
qed

lemma normalize_nonempty [simp]: "normalize_path p \<noteq> []"
  by (simp add: normalize_path_def Let_def)

lemma segments_append:
  assumes "\<forall>w \<in> set (split_on slash b). w \<noteq> ''..''" "a \<noteq> []"
  shows "segments (a @ slash # b) = segments a @ filter kept (split_on slash b)"
proof -
  have "is_absolute (a @ slash # b) = is_absolute a"
    using assms(2) by (cases a) (simp_all add: is_absolute_def)
  then show ?thesis
    using assms(1) by (simp add: segments_def split_on_append foldl_push_kept)
qed

lemma segments_join_path:
  assumes "\<forall>w \<in> set (split_on slash b). w \<noteq> ''..''" "a \<noteq> []"
  shows "segments (join_path [a, b]) = segments a @ filter kept (split_on slash b)"
proof (cases "b = []")
  case True
  then show ?thesis using assms(2) by (simp add: join_path_def kept_def)
next
  case False
  then show ?thesis using assms segments_append [of b a] by (simp add: join_path_def)
qed

text \<open>The check for \<open>..\<close> covers every segment.\<close>

lemma startsWith_append: "startsWith (p @ s) p"
  by (induction p) auto

lemma startsWith_prefix: "startsWith s p \<longleftrightarrow> prefix p s"
  by (induction s p rule: startsWith.induct) auto

lemma includes_str_sublist: "includes_str s p \<longleftrightarrow> sublist p s"
proof (induction s)
  case (Cons c cs)
  then show ?case
    by (simp add: startsWith_prefix sublist_Cons_right)
qed simp

lemma split_on_sublist: "w \<in> set (split_on c s) \<Longrightarrow> prefix w s \<or> sublist w s"
proof (induction s arbitrary: w)
  case (Cons a s)
  obtain v vs where v: "split_on c s = v # vs" using split_on_nonempty [of c s] by (cases "split_on c s") auto
  have head: "prefix v s" using v
  proof (induction s arbitrary: v vs)
    case (Cons b s)
    then show ?case by (auto split: if_splits list.splits)
  qed simp
  show ?case
    using Cons.prems Cons.IH v head by (auto simp: sublist_Cons_right prefix_imp_sublist split: if_splits)
qed simp

lemma no_dots: "\<not> includes_str key ''..'' \<Longrightarrow> \<forall>w \<in> set (split_on slash key). w \<noteq> ''..''"
  using split_on_sublist [of _ slash key] by (auto simp: includes_str_sublist dest: prefix_imp_sublist)

lemma stored_segments:
  assumes "plain tn" "\<not> includes_str key ''..''" "dir \<noteq> []"
  shows "segments (normalize_path (join_path [join_path [dir, tn], key]))
    = segments dir @ tn # filter kept (split_on slash key)"
proof -
  have tn: "split_on slash tn = [tn]" "kept tn" "tn \<noteq> ''..''"
    using assms(1) by (auto simp: plain_def kept_def split_on_single)
  have base: "join_path [dir, tn] = normalize_path (dir @ slash # tn)"
    using assms(1,3) by (simp add: join_path_def plain_def)
  have "segments (join_path [dir, tn]) = segments dir @ [tn]"
    using segments_join_path [of tn dir] assms(3) tn by simp
  then show ?thesis
    using segments_join_path [OF no_dots [OF assms(2)], of "join_path [dir, tn]"] base by simp
qed

section \<open>Properties\<close>

text \<open>The two services, as one function from a key to a path.\<close>

definition stored_path :: "bool \<Rightarrow> string \<Rightarrow> string \<Rightarrow> string \<Rightarrow> string result" where
  "stored_path logo dir tenantId key =
     (if logo then image_safePath dir tenantId key else safePath dir tenantId key)"

lemma stored_path_segments:
  assumes "stored_path logo dir tn key = Inr p" "plain tn" "dir \<noteq> []"
  shows "segments p = segments dir @ tn # filter kept (split_on slash key)"
  using assms stored_segments [of tn key dir]
  by (auto simp: stored_path_def safePath_def image_safePath_def tenantDir_def Let_def split: if_splits)

text \<open>
  C17: the upload directories separate the tenants. Whatever keys are used, an accepted path lies
  under the directory of its tenant, and two tenants never reach the same path, so no tenant reads
  or overwrites a file of another.
\<close>

theorem tenant_files_apart:
  assumes "stored_path logo dir tn key = Inr p" "plain tn" "dir \<noteq> []"
  shows "prefix (segments dir @ [tn]) (segments p)
    \<and> (\<forall>tn' key'. plain tn' \<and> stored_path logo dir tn' key' = Inr p \<longrightarrow> tn' = tn)"
proof -
  have own: "segments p = segments dir @ tn # filter kept (split_on slash key)"
    by (rule stored_path_segments [OF assms])
  have "tn' = tn" if "plain tn'" "stored_path logo dir tn' key' = Inr p" for tn' key'
    using own stored_path_segments [OF that(2,1) assms(3)] by simp
  then show ?thesis using own by auto
qed

lemma example_path:
  "stored_path False ''./storage'' ''t1'' ''7.csv'' = Inr ''storage/t1/7.csv''"
  by code_simp

theorem tenant_files_apart_witness:
  "prefix (segments ''./storage'' @ [''t1'']) (segments ''storage/t1/7.csv'')
   \<and> stored_path False ''./storage'' ''t2'' ''7.csv'' \<noteq> Inr ''storage/t1/7.csv''"
proof -
  have "plain ''t1''" "plain ''t2''" by (simp_all add: plain_def)
  with tenant_files_apart [OF example_path] show ?thesis by auto
qed

end
