(* ===== verification/Carriers.thy ===== *)
theory Carriers
  imports Files Branches
begin

text \<open>
  \<open>carriers.service.ts\<close> with its request bodies: the carriers of a tenant, their transport
  services and their logos. Creation writes no audit row; the other writes do.
\<close>

section \<open>Requests and responses\<close>

record ListCarriersDto =
  lcr_search :: "string option"
  lcr_active :: "bool option"
  lcr_hasActiveService :: "bool option"
  lcr_page :: nat
  lcr_perPage :: nat

record CreateCarrierDto =
  crd_name :: string
  crd_code :: "string nullable"
  crd_document :: "string nullable"
  crd_stateRegistration :: "string nullable"
  crd_email :: "string nullable"
  crd_legalName :: "string nullable"
  crd_phone :: "string nullable"
  crd_contactName :: "string nullable"
  crd_site :: "string nullable"
  crd_notes :: "string nullable"

record CreateCarrierServiceDto =
  csd_code :: string
  csd_name :: string
  csd_modality :: string
  csd_defaultDeadlineDays :: int
  csd_cubicFactor :: rat
  csd_minWeightKg :: "rat nullable"
  csd_maxWeightKg :: "rat nullable"
  csd_maxLengthCm :: "rat nullable"
  csd_maxWidthCm :: "rat nullable"
  csd_maxHeightCm :: "rat nullable"
  csd_minimumValue :: rat
  csd_description :: "string nullable"
  csd_status :: "EntityStatus nullable"

record CarrierTransportServiceDto =
  cst_carrierId :: string
  cst_code :: string
  cst_cubicFactor :: rat
  cst_defaultDeadlineDays :: int
  cst_id :: string
  cst_maxWeightKg :: "rat option"
  cst_minWeightKg :: "rat option"
  cst_minimumValue :: rat
  cst_maxLengthCm :: "rat option"
  cst_maxWidthCm :: "rat option"
  cst_maxHeightCm :: "rat option"
  cst_modality :: string
  cst_name :: string
  cst_status :: EntityStatus
  cst_description :: "string option"

record CarrierDto =
  crt_active :: bool
  crt_code :: "string option"
  crt_document :: "string option"
  crt_id :: string
  crt_name :: string
  crt_services :: "CarrierTransportServiceDto list"
  crt_legalName :: "string option"
  crt_logoUrl :: "string option"
  crt_email :: "string option"
  crt_phone :: "string option"
  crt_contactName :: "string option"
  crt_site :: "string option"
  crt_notes :: "string option"
  crt_stateRegistration :: "string option"

definition presentService :: "CarrierService \<Rightarrow> CarrierTransportServiceDto" where
  "presentService s =
     \<lparr> cst_carrierId = cs_carrierId s, cst_code = cs_code s, cst_cubicFactor = cs_cubicFactor s,
       cst_defaultDeadlineDays = cs_defaultDeadlineDays s, cst_id = cs_id s,
       cst_maxWeightKg = cs_maxWeightKg s, cst_minWeightKg = cs_minWeightKg s,
       cst_minimumValue = cs_minimumValue s, cst_maxLengthCm = cs_maxLengthCm s,
       cst_maxWidthCm = cs_maxWidthCm s, cst_maxHeightCm = cs_maxHeightCm s,
       cst_modality = cs_modality s, cst_name = cs_name s, cst_status = cs_status s,
       cst_description = cs_description s \<rparr>"

definition presentCarrier :: "CarrierService list \<Rightarrow> Carrier \<Rightarrow> CarrierDto" where
  "presentCarrier services c =
     \<lparr> crt_active = cr_active c, crt_code = cr_code c, crt_document = cr_document c, crt_id = cr_id c,
       crt_name = cr_name c, crt_services = map presentService services,
       crt_legalName = cr_legalName c, crt_logoUrl = cr_logoUrl c, crt_email = cr_email c,
       crt_phone = cr_phone c, crt_contactName = cr_contactName c, crt_site = cr_site c,
       crt_notes = cr_notes c, crt_stateRegistration = cr_stateRegistration c \<rparr>"

text \<open>The list shows fewer fields.\<close>

definition list_carrier :: "CarrierService list \<Rightarrow> Carrier \<Rightarrow> CarrierDto" where
  "list_carrier services c =
     \<lparr> crt_active = cr_active c, crt_code = cr_code c, crt_document = cr_document c, crt_id = cr_id c,
       crt_name = cr_name c, crt_services = map presentService services,
       crt_legalName = None, crt_logoUrl = cr_logoUrl c, crt_email = None, crt_phone = None,
       crt_contactName = None, crt_site = None, crt_notes = None, crt_stateRegistration = None \<rparr>"

section \<open>Reads\<close>

definition services_of :: "db \<Rightarrow> Carrier \<Rightarrow> CarrierService list" where
  "services_of d c = orderBy (asc cs_name) (findMany (\<lambda>s. cs_carrierId s = cr_id c) (carrierServices d))"

definition active_services_of :: "db \<Rightarrow> Carrier \<Rightarrow> CarrierService list" where
  "active_services_of d c =
     orderBy (asc cs_name)
       (findMany (\<lambda>s. cs_carrierId s = cr_id c \<and> cs_status s = ACTIVE) (carrierServices d))"

definition code_contains :: "string option \<Rightarrow> string \<Rightarrow> bool" where
  "code_contains column text = (case column of None \<Rightarrow> False | Some s \<Rightarrow> includes_str s text)"

definition carriers_where :: "db \<Rightarrow> string \<Rightarrow> ListCarriersDto \<Rightarrow> Carrier \<Rightarrow> bool" where
  "carriers_where d tenantId query c =
     (cr_tenantId c = tenantId
      \<and> (case lcr_active query of None \<Rightarrow> True | Some a \<Rightarrow> cr_active c = a)
      \<and> (if lcr_hasActiveService query = Some True
         then \<exists>s \<in> set (carrierServices d). cs_carrierId s = cr_id c \<and> cs_status s = ACTIVE else True)
      \<and> (case lcr_search query of
           None \<Rightarrow> True
         | Some search \<Rightarrow>
             if trim search = [] then True
             else includes_str (cr_name c) (trim search) \<or> code_contains (cr_code c) (trim search)))"

definition listCarriers :: "string \<Rightarrow> ListCarriersDto \<Rightarrow> db \<Rightarrow> CarrierDto PaginatedResult" where
  "listCarriers tenantId query d =
     paginated (lcr_page query) (lcr_perPage query)
       (orderBy (then_by (desc cr_active) (asc cr_name))
         (findMany (carriers_where d tenantId query) (carriers d)))
       (\<lambda>c. list_carrier (active_services_of d c) c)"

definition find_carrier :: "string \<Rightarrow> string \<Rightarrow> db \<Rightarrow> Carrier result" where
  "find_carrier tenantId i d =
     (case findFirst (\<lambda>c. cr_id c = i \<and> cr_tenantId c = tenantId) (carriers d) of
        None \<Rightarrow> Inl (NotFoundException ''Carrier was not found.'')
      | Some c \<Rightarrow> Inr c)"

definition getCarrier :: "string \<Rightarrow> string \<Rightarrow> db \<Rightarrow> CarrierDto result" where
  "getCarrier tenantId i d =
     bindE (find_carrier tenantId i d) (\<lambda>c. Inr (presentCarrier (services_of d c) c))"

section \<open>Writes\<close>

definition carrier_conflict :: "Carrier \<Rightarrow> Carrier \<Rightarrow> bool" where
  "carrier_conflict r x =
     (cr_tenantId r = cr_tenantId x
      \<and> ((cr_document r \<noteq> None \<and> cr_document r = cr_document x)
         \<or> (cr_code r \<noteq> None \<and> cr_code r = cr_code x)))"

definition carrier_data :: "CreateCarrierDto \<Rightarrow> Carrier \<Rightarrow> Carrier" where
  "carrier_data i c =
     c\<lparr>cr_code := normalizeText (crd_code i), cr_document := normalizePostal (crd_document i),
       cr_stateRegistration := normalizeText (crd_stateRegistration i),
       cr_contactName := normalizeText (crd_contactName i), cr_email := normalizeText (crd_email i),
       cr_legalName := normalizeText (crd_legalName i), cr_name := trim (crd_name i),
       cr_notes := normalizeText (crd_notes i), cr_phone := normalizeText (crd_phone i),
       cr_site := normalizeText (crd_site i)\<rparr>"

definition blank_carrier :: "string \<Rightarrow> string \<Rightarrow> Carrier" where
  "blank_carrier i tenantId =
     \<lparr> cr_id = i, cr_tenantId = tenantId, cr_name = [], cr_document = None, cr_stateRegistration = None,
       cr_code = None, cr_legalName = None, cr_email = None, cr_phone = None, cr_contactName = None,
       cr_site = None, cr_notes = None, cr_logoUrl = None, cr_logoStorageKey = None, cr_active = True \<rparr>"

definition carrier_duplicate :: "string \<Rightarrow> prisma_code \<Rightarrow> http_error" where
  "carrier_duplicate msg e = (if e = P2002 then ConflictException msg else PrismaKnownError e)"

definition createCarrier :: "string \<Rightarrow> CreateCarrierDto \<Rightarrow> CarrierDto handler" where
  "createCarrier tenantId i d =
     (let carrier = carrier_data i (blank_carrier (new_id d) tenantId) in
      case create_row carrier_conflict carrier (carriers d) of
        Inl e \<Rightarrow> (Inl (carrier_duplicate ''Carrier code or document already exists in this tenant.'' e), d)
      | Inr t \<Rightarrow> (Inr (presentCarrier [] carrier), bump (d\<lparr>carriers := t\<rparr>)))"

definition carrier_audit :: "date \<Rightarrow> string \<Rightarrow> string \<Rightarrow> string \<Rightarrow> string \<Rightarrow> json \<Rightarrow> db \<Rightarrow> db" where
  "carrier_audit now tenantId actorId entityId entityType metadata =
     record_audit now (audit_of CARRIER_CHANGED actorId entityId entityType metadata tenantId)"

definition updateCarrier ::
  "date \<Rightarrow> string \<Rightarrow> string \<Rightarrow> string \<Rightarrow> CreateCarrierDto \<Rightarrow> CarrierDto handler" where
  "updateCarrier now tenantId actorId i input d =
     (case find_carrier tenantId i d of Inl e \<Rightarrow> (Inl e, d) | Inr current \<Rightarrow>
      case update_row cr_id carrier_conflict i (carrier_data input) (carriers d) of
        Inl e \<Rightarrow> (Inl (PrismaKnownError e), d)
      | Inr (carrier, t) \<Rightarrow>
          (Inr (presentCarrier (services_of d carrier) carrier),
           carrier_audit now tenantId actorId i ''Carrier'' (JObj [(''operation'', JStr ''update'')])
             (d\<lparr>carriers := t\<rparr>)))"

text \<open>An uploaded file: its bytes, its declared size, name and type.\<close>

record Upload =
  up_buffer :: string
  up_size :: nat
  up_originalname :: string
  up_mimetype :: string

definition validateLogo :: "Upload option \<Rightarrow> Upload result" where
  "validateLogo file =
     (case file of
        None \<Rightarrow> Inl (BadRequestException (''Arquivo de imagem obrigat'' @ [CHR 0xF3] @ ''rio.''))
      | Some f \<Rightarrow>
          if up_size f = 0 \<or> up_buffer f = [] then Inl (BadRequestException ''Arquivo de imagem vazio.'')
          else if up_size f > 2 * 1024 * 1024
          then Inl (BadRequestException (''Imagem excede o tamanho m'' @ [CHR 0xE1] @ ''ximo de 2 MB.''))
          else if up_mimetype f \<notin> {''image/png'', ''image/jpeg'', ''image/webp''}
          then Inl (BadRequestException (''Formato inv'' @ [CHR 0xE1] @ ''lido. Envie PNG, JPG ou WebP.''))
          else Inr f)"

text \<open>The settings the service reads: the image directory and the public address of the API.\<close>

record ImageConfig =
  imageStorageDir :: string
  apiPublicUrl :: string

definition uploadLogo ::
  "(string \<Rightarrow> string) \<Rightarrow> ImageConfig \<Rightarrow> date \<Rightarrow> string \<Rightarrow> string \<Rightarrow> string \<Rightarrow> Upload option
    \<Rightarrow> CarrierDto handler" where
  "uploadLogo sha256 cfg now tenantId actorId carrierId file d =
     (case validateLogo file of Inl e \<Rightarrow> (Inl e, d) | Inr upload \<Rightarrow>
      case findFirst (\<lambda>c. cr_id c = carrierId \<and> cr_tenantId c = tenantId) (carriers d) of
        None \<Rightarrow> (Inl (NotFoundException (''Transportadora n'' @ [CHR 0xE3] @ ''o encontrada.'')), d)
      | Some c \<Rightarrow>
      case save_image sha256 (imageStorageDir cfg) (up_buffer upload) carrierId (up_originalname upload)
             tenantId d of
        (Inl e, d1) \<Rightarrow> (Inl e, d1)
      | (Inr stored, d1) \<Rightarrow>
      case update_row cr_id carrier_conflict carrierId
             (\<lambda>c. c\<lparr>cr_logoStorageKey := Some (si_key stored),
                cr_logoUrl := Some (apiPublicUrl cfg @ ''/carriers/'' @ carrierId @ ''/logo'')\<rparr>)
             (carriers d1) of
        Inl e \<Rightarrow> (Inl (PrismaKnownError e), d1)
      | Inr (updated, t) \<Rightarrow>
          (Inr (presentCarrier (services_of d1 updated) updated),
           carrier_audit now tenantId actorId carrierId ''Carrier''
             (JObj [(''operation'', JStr ''logo_upload''), (''size'', JNum (of_nat (si_size stored)))])
             (d1\<lparr>carriers := t\<rparr>)))"

definition readLogo :: "ImageConfig \<Rightarrow> string \<Rightarrow> string \<Rightarrow> db \<Rightarrow> (string \<times> string) result" where
  "readLogo cfg tenantId carrierId d =
     (let missing = Inl (NotFoundException (''Logo da transportadora n'' @ [CHR 0xE3] @ ''o encontrado.'')) in
      case findFirst (\<lambda>c. cr_id c = carrierId \<and> cr_tenantId c = tenantId) (carriers d) of
        None \<Rightarrow> missing
      | Some c \<Rightarrow>
          if \<not> truthy (cr_logoStorageKey c) then missing
          else read_image (imageStorageDir cfg) tenantId (the (cr_logoStorageKey c)) d)"

definition updateCarrierStatus ::
  "date \<Rightarrow> string \<Rightarrow> string \<Rightarrow> string \<Rightarrow> bool \<Rightarrow> CarrierDto handler" where
  "updateCarrierStatus now tenantId actorId i active d =
     (case find_carrier tenantId i d of Inl e \<Rightarrow> (Inl e, d) | Inr current \<Rightarrow>
      case update_row cr_id carrier_conflict i (\<lambda>c. c\<lparr>cr_active := active\<rparr>) (carriers d) of
        Inl e \<Rightarrow> (Inl (PrismaKnownError e), d)
      | Inr (carrier, t) \<Rightarrow>
          (Inr (presentCarrier (services_of d carrier) carrier),
           carrier_audit now tenantId actorId i ''Carrier''
             (JObj [(''operation'', JStr (if active then ''activate'' else ''deactivate''))])
             (d\<lparr>carriers := t\<rparr>)))"

section \<open>Transport services\<close>

definition service_conflict :: "CarrierService \<Rightarrow> CarrierService \<Rightarrow> bool" where
  "service_conflict r x =
     (cs_tenantId r = cs_tenantId x \<and> cs_carrierId r = cs_carrierId x \<and> cs_code r = cs_code x)"

text \<open>
  \<open>max !== undefined && min !== undefined && max <= min\<close>: a null compares as zero.
\<close>

definition weights_disordered :: "rat nullable \<Rightarrow> rat nullable \<Rightarrow> bool" where
  "weights_disordered hi lo = (hi \<noteq> Undefined \<and> lo \<noteq> Undefined \<and> nn hi 0 \<le> nn lo 0)"

text \<open>A column of an update: \<open>undefined\<close> leaves it, null clears it.\<close>

definition set_column :: "'a nullable \<Rightarrow> 'a option \<Rightarrow> 'a option" where
  "set_column v old = (case v of Undefined \<Rightarrow> old | Null \<Rightarrow> None | Value a \<Rightarrow> Some a)"

definition service_data :: "EntityStatus \<Rightarrow> CreateCarrierServiceDto \<Rightarrow> CarrierService \<Rightarrow> CarrierService" where
  "service_data old_status i s =
     s\<lparr>cs_code := trim (csd_code i), cs_cubicFactor := csd_cubicFactor i,
       cs_defaultDeadlineDays := csd_defaultDeadlineDays i,
       cs_maxWeightKg := set_column (csd_maxWeightKg i) (cs_maxWeightKg s),
       cs_maxLengthCm := set_column (csd_maxLengthCm i) (cs_maxLengthCm s),
       cs_maxWidthCm := set_column (csd_maxWidthCm i) (cs_maxWidthCm s),
       cs_maxHeightCm := set_column (csd_maxHeightCm i) (cs_maxHeightCm s),
       cs_minWeightKg := set_column (csd_minWeightKg i) (cs_minWeightKg s),
       cs_minimumValue := csd_minimumValue i, cs_modality := trim (csd_modality i),
       cs_name := trim (csd_name i), cs_description := normalizeText (csd_description i),
       cs_status := nn (csd_status i) old_status\<rparr>"

definition blank_service :: "string \<Rightarrow> string \<Rightarrow> string \<Rightarrow> CarrierService" where
  "blank_service i tenantId carrierId =
     \<lparr> cs_id = i, cs_tenantId = tenantId, cs_carrierId = carrierId, cs_code = [], cs_name = [],
       cs_modality = [], cs_description = None, cs_defaultDeadlineDays = 0, cs_cubicFactor = 0,
       cs_minWeightKg = None, cs_maxWeightKg = None, cs_maxLengthCm = None, cs_maxWidthCm = None,
       cs_maxHeightCm = None, cs_minimumValue = 0, cs_status = ACTIVE \<rparr>"

definition createService :: "string \<Rightarrow> string \<Rightarrow> CreateCarrierServiceDto \<Rightarrow> CarrierTransportServiceDto handler" where
  "createService tenantId carrierId input d =
     (case find_carrier tenantId carrierId d of Inl e \<Rightarrow> (Inl e, d) | Inr _ \<Rightarrow>
      if weights_disordered (csd_maxWeightKg input) (csd_minWeightKg input)
      then (Inl (ConflictException ''Maximum weight must be greater than minimum weight.''), d)
      else
      let service = service_data ACTIVE input (blank_service (new_id d) tenantId carrierId) in
      case create_row service_conflict service (carrierServices d) of
        Inl e \<Rightarrow> (Inl (carrier_duplicate ([CHR ''C'', CHR 0xF3] @ ''digo de servi'' @ [CHR 0xE7] @ ''o j''
               @ [CHR 0xE1] @ '' existe nesta transportadora.'') e), d)
      | Inr t \<Rightarrow> (Inr (presentService service), bump (d\<lparr>carrierServices := t\<rparr>)))"

definition updateService ::
  "date \<Rightarrow> string \<Rightarrow> string \<Rightarrow> string \<Rightarrow> string \<Rightarrow> CreateCarrierServiceDto
    \<Rightarrow> CarrierTransportServiceDto handler" where
  "updateService now tenantId actorId carrierId serviceId input d =
     (case findFirst (\<lambda>s. cs_id s = serviceId \<and> cs_carrierId s = carrierId \<and> cs_tenantId s = tenantId)
             (carrierServices d) of
        None \<Rightarrow> (Inl (NotFoundException ''Carrier service was not found.''), d)
      | Some service \<Rightarrow>
      if weights_disordered (csd_maxWeightKg input) (csd_minWeightKg input)
      then (Inl (ConflictException ''Maximum weight must be greater than minimum weight.''), d)
      else
      case update_row cs_id service_conflict serviceId (service_data (cs_status service) input)
             (carrierServices d) of
        Inl e \<Rightarrow> (Inl (PrismaKnownError e), d)
      | Inr (updated, t) \<Rightarrow>
          (Inr (presentService updated),
           carrier_audit now tenantId actorId serviceId ''CarrierService''
             (JObj [(''operation'', JStr ''update''), (''carrierId'', JStr carrierId)])
             (d\<lparr>carrierServices := t\<rparr>)))"

lemmas carrier_handlers = createCarrier_def updateCarrier_def uploadLogo_def updateCarrierStatus_def
  createService_def updateService_def

section \<open>The invariant\<close>

interpretation carrier_table: table cr_id carrier_conflict
  by unfold_locales (simp add: carrier_conflict_def, metis)

interpretation service_table: table cs_id service_conflict
  by unfold_locales (auto simp: service_conflict_def)

definition carrier_key :: "Carrier \<Rightarrow> string \<times> string" where
  "carrier_key c = (cr_tenantId c, cr_id c)"

definition service_owner :: "CarrierService \<Rightarrow> string \<times> string" where
  "service_owner s = (cs_tenantId s, cs_carrierId s)"

definition carriers_ok :: "db \<Rightarrow> bool" where
  "carriers_ok d \<longleftrightarrow>
     wf_table cr_id carrier_conflict (carriers d) \<and> wf_table cs_id service_conflict (carrierServices d)
     \<and> (\<forall>c \<in> set (carriers d). old_id d (cr_id c)) \<and> (\<forall>s \<in> set (carrierServices d). old_id d (cs_id s))
     \<and> service_owner ` set (carrierServices d) \<subseteq> carrier_key ` set (carriers d)"

lemma carriers_ok_cong:
  "carriers_ok d \<Longrightarrow> carriers d' = carriers d \<Longrightarrow> carrierServices d' = carrierServices d
   \<Longrightarrow> next_id d \<le> next_id d' \<Longrightarrow> carriers_ok d'"
  by (auto simp: carriers_ok_def intro: old_id_mono)

lemma carrier_audit_ok: "carriers_ok d \<Longrightarrow> carriers_ok (carrier_audit now tn actor i t m d)"
  by (rule carriers_ok_cong [of d]) (simp_all add: carrier_audit_def)

lemma add_carrier_ok:
  assumes "carriers_ok d" "create_row carrier_conflict c (carriers d) = Inr t" "cr_id c = new_id d"
  shows "carriers_ok (bump (d\<lparr>carriers := t\<rparr>))"
proof -
  have t: "t = carriers d @ [c]"
    using assms(2) by (simp add: create_Inr)
  have "cr_id c \<notin> cr_id ` set (carriers d)"
    using assms(1,3) new_id_fresh [of d] by (auto simp: carriers_ok_def)
  then have "wf_table cr_id carrier_conflict t"
    using assms(1,2) carrier_table.wf_create by (auto simp: carriers_ok_def)
  then show ?thesis
    using assms(1,3) t old_id_mono [of d _ "bump (d\<lparr>carriers := t\<rparr>)"]
      old_id_new_id [of d "bump (d\<lparr>carriers := t\<rparr>)"]
    by (auto simp: carriers_ok_def)
qed

lemma change_carrier_ok:
  assumes "carriers_ok d" "update_row cr_id carrier_conflict i f (carriers d) = Inr (r, t)"
    "\<And>c. cr_id (f c) = cr_id c" "\<And>c. cr_tenantId (f c) = cr_tenantId c"
  shows "carriers_ok (d\<lparr>carriers := t\<rparr>)"
proof -
  have t: "t = map (\<lambda>x. if cr_id x = i then f x else x) (carriers d)"
    using update_InrD [OF assms(2)] by blast
  have "map carrier_key t = map carrier_key (carriers d)"
    by (simp add: t carrier_key_def assms(3,4))
  then have "carrier_key ` set t = carrier_key ` set (carriers d)"
    by (metis set_map)
  moreover have "wf_table cr_id carrier_conflict t"
    using carrier_table.wf_update [OF assms(2) _ assms(3)] assms(1) by (simp add: carriers_ok_def)
  ultimately show ?thesis
    using assms(1,3) by (auto simp: carriers_ok_def t old_id_def)
qed

lemma add_service_ok:
  assumes "carriers_ok d" "create_row service_conflict s (carrierServices d) = Inr t" "cs_id s = new_id d"
    and "service_owner s \<in> carrier_key ` set (carriers d)"
  shows "carriers_ok (bump (d\<lparr>carrierServices := t\<rparr>))"
proof -
  have t: "t = carrierServices d @ [s]"
    using assms(2) by (simp add: create_Inr)
  have "cs_id s \<notin> cs_id ` set (carrierServices d)"
    using assms(1,3) new_id_fresh [of d] by (auto simp: carriers_ok_def)
  then have "wf_table cs_id service_conflict t"
    using assms(1,2) service_table.wf_create by (auto simp: carriers_ok_def)
  then show ?thesis
    using assms(1,3,4) t old_id_mono [of d _ "bump (d\<lparr>carrierServices := t\<rparr>)"]
      old_id_new_id [of d "bump (d\<lparr>carrierServices := t\<rparr>)"]
    by (auto simp: carriers_ok_def)
qed

lemma change_service_ok:
  assumes "carriers_ok d" "update_row cs_id service_conflict i f (carrierServices d) = Inr (r, t)"
    "\<And>s. cs_id (f s) = cs_id s" "\<And>s. service_owner (f s) = service_owner s"
  shows "carriers_ok (d\<lparr>carrierServices := t\<rparr>)"
proof -
  have t: "t = map (\<lambda>x. if cs_id x = i then f x else x) (carrierServices d)"
    using update_InrD [OF assms(2)] by blast
  have "map service_owner t = map service_owner (carrierServices d)"
    by (simp add: t assms(4))
  then have "service_owner ` set t = service_owner ` set (carrierServices d)"
    by (metis set_map)
  moreover have "wf_table cs_id service_conflict t"
    using service_table.wf_update [OF assms(2) _ assms(3)] assms(1) by (simp add: carriers_ok_def)
  ultimately show ?thesis
    using assms(1,3) by (auto simp: carriers_ok_def t old_id_def)
qed

lemma carrier_data_keeps [simp]:
  "cr_id (carrier_data i c) = cr_id c" "cr_tenantId (carrier_data i c) = cr_tenantId c"
  by (simp_all add: carrier_data_def)

lemma service_data_keeps [simp]:
  "cs_id (service_data st i s) = cs_id s" "service_owner (service_data st i s) = service_owner s"
  by (simp_all add: service_data_def service_owner_def)

lemma blank_ids [simp]:
  "cr_id (blank_carrier i tn) = i" "cr_tenantId (blank_carrier i tn) = tn"
  "cs_id (blank_service i tn c) = i" "service_owner (blank_service i tn c) = (tn, c)"
  by (simp_all add: blank_carrier_def blank_service_def service_owner_def)

lemma find_carrier_Inr:
  "find_carrier tn i d = Inr c \<Longrightarrow> c \<in> set (carriers d) \<and> cr_id c = i \<and> cr_tenantId c = tn"
  by (auto simp: find_carrier_def split: option.splits dest: findFirst_SomeD)

lemma save_image_tables:
  "save_image sha dir b cid fn tn d = (r, d') \<Longrightarrow> carriers d' = carriers d \<and> carrierServices d' = carrierServices d
   \<and> next_id d \<le> next_id d'"
  by (auto simp: save_image_def write_new_file_def Let_def split: sum.splits if_splits)

lemma createCarrier_ok: "carriers_ok d \<Longrightarrow> ensures (\<lambda>r. carriers_ok) (createCarrier tn i d)"
  unfolding createCarrier_def by (intro ensures_intros) (auto intro: add_carrier_ok)

lemma updateCarrier_ok: "carriers_ok d \<Longrightarrow> ensures (\<lambda>r. carriers_ok) (updateCarrier now tn actor i u d)"
  unfolding updateCarrier_def
  by (intro ensures_intros) (auto intro!: carrier_audit_ok intro: change_carrier_ok)

lemma updateCarrierStatus_ok:
  "carriers_ok d \<Longrightarrow> ensures (\<lambda>r. carriers_ok) (updateCarrierStatus now tn actor i active d)"
  unfolding updateCarrierStatus_def
  by (intro ensures_intros) (auto intro!: carrier_audit_ok intro: change_carrier_ok)

lemma uploadLogo_ok:
  "carriers_ok d \<Longrightarrow> ensures (\<lambda>r. carriers_ok) (uploadLogo sha cfg now tn actor i file d)"
  unfolding uploadLogo_def
  by (intro ensures_intros)
    (auto intro!: carrier_audit_ok intro: change_carrier_ok carriers_ok_cong dest!: save_image_tables)

lemma createService_ok: "carriers_ok d \<Longrightarrow> ensures (\<lambda>r. carriers_ok) (createService tn c i d)"
  unfolding createService_def
  by (intro ensures_intros) (auto intro!: add_service_ok dest!: find_carrier_Inr simp: carrier_key_def image_iff)

lemma updateService_ok:
  "carriers_ok d \<Longrightarrow> ensures (\<lambda>r. carriers_ok) (updateService now tn actor c i u d)"
  unfolding updateService_def
  by (intro ensures_intros) (auto intro!: carrier_audit_ok intro: change_service_ok)

section \<open>The rows of other tenants\<close>

definition foreign_carriers :: "string \<Rightarrow> db \<Rightarrow> Carrier list \<times> CarrierService list" where
  "foreign_carriers tn d = (others cr_tenantId tn (carriers d), others cs_tenantId tn (carrierServices d))"

lemma foreign_carriers_bump [simp]:
  "foreign_carriers tn (bump d) = foreign_carriers tn d"
  "foreign_carriers tn (carrier_audit now tn' actor j t m d) = foreign_carriers tn d"
  by (simp_all add: foreign_carriers_def carrier_audit_def)

lemma change_carrier_foreign:
  assumes "carriers_ok d" "update_row cr_id carrier_conflict i f (carriers d) = Inr (r, t)"
    "c \<in> set (carriers d)" "cr_id c = i" "cr_tenantId c = tn" "\<And>c. cr_tenantId (f c) = cr_tenantId c"
  shows "foreign_carriers tn (d\<lparr>carriers := t\<rparr>) = foreign_carriers tn d"
  using others_update [OF assms(2), where ten = cr_tenantId and r = c and tn = tn] assms
  by (auto simp: foreign_carriers_def carriers_ok_def)

lemma change_service_foreign:
  assumes "carriers_ok d" "update_row cs_id service_conflict i f (carrierServices d) = Inr (r, t)"
    "s \<in> set (carrierServices d)" "cs_id s = i" "cs_tenantId s = tn" "\<And>s. cs_tenantId (f s) = cs_tenantId s"
  shows "foreign_carriers tn (d\<lparr>carrierServices := t\<rparr>) = foreign_carriers tn d"
  using others_update [OF assms(2), where ten = cs_tenantId and r = s and tn = tn] assms
  by (auto simp: foreign_carriers_def carriers_ok_def)

text \<open>The requests of tenant \<open>tn\<close> that change carriers.\<close>

inductive carrier_step :: "string \<Rightarrow> db \<Rightarrow> db \<Rightarrow> bool" where
  create: "carrier_step tn d (snd (createCarrier tn i d))"
| update: "carrier_step tn d (snd (updateCarrier now tn actor cid i d))"
| status: "carrier_step tn d (snd (updateCarrierStatus now tn actor cid active d))"
| logo: "carrier_step tn d (snd (uploadLogo sha cfg now tn actor cid file d))"
| service: "carrier_step tn d (snd (createService tn cid s d))"
| service_update: "carrier_step tn d (snd (updateService now tn actor cid sid s d))"

lemma carrier_step_ok: "carrier_step tn d d' \<Longrightarrow> carriers_ok d \<Longrightarrow> carriers_ok d'"
  using createCarrier_ok updateCarrier_ok updateCarrierStatus_ok uploadLogo_ok createService_ok updateService_ok
  by (auto elim!: carrier_step.cases simp: ensures_snd)

lemma updateCarrier_foreign:
  "carriers_ok d \<Longrightarrow> ensures (\<lambda>r d'. foreign_carriers tn d' = foreign_carriers tn d) (updateCarrier now tn actor i u d)"
  unfolding updateCarrier_def
  by (intro ensures_intros) (auto intro: change_carrier_foreign dest!: find_carrier_Inr)

lemma updateCarrierStatus_foreign:
  "carriers_ok d \<Longrightarrow>
   ensures (\<lambda>r d'. foreign_carriers tn d' = foreign_carriers tn d) (updateCarrierStatus now tn actor i active d)"
  unfolding updateCarrierStatus_def
  by (intro ensures_intros) (auto intro: change_carrier_foreign dest!: find_carrier_Inr)

lemma createCarrier_foreign:
  "ensures (\<lambda>r d'. foreign_carriers tn d' = foreign_carriers tn d) (createCarrier tn i d)"
  unfolding createCarrier_def
  by (intro ensures_intros) (auto simp: foreign_carriers_def intro: others_create)

lemma createService_foreign:
  "ensures (\<lambda>r d'. foreign_carriers tn d' = foreign_carriers tn d) (createService tn c i d)"
proof -
  have "cs_tenantId (service_data ACTIVE i (blank_service j tn c)) = tn" for j
    using service_data_keeps(2) [of ACTIVE i "blank_service j tn c"] by (simp add: service_owner_def blank_service_def)
  then show ?thesis
    unfolding createService_def
    by (intro ensures_intros) (auto simp: foreign_carriers_def intro: others_create)
qed

lemma uploadLogo_foreign:
  assumes "carriers_ok d"
  shows "ensures (\<lambda>r d'. foreign_carriers tn d' = foreign_carriers tn d) (uploadLogo sha cfg now tn actor i file d)"
proof -
  have "foreign_carriers tn d1 = foreign_carriers tn d" "carriers_ok d1" "carriers d1 = carriers d"
    if "save_image sha dir b cid fn tn d = (r, d1)" for r d1 dir b cid fn
    using save_image_tables [OF that] assms by (auto simp: foreign_carriers_def intro: carriers_ok_cong)
  then show ?thesis
    unfolding uploadLogo_def
    by (intro ensures_intros) (auto dest!: findFirst_SomeD simp: change_carrier_foreign)
qed

lemma updateService_foreign:
  "carriers_ok d \<Longrightarrow>
   ensures (\<lambda>r d'. foreign_carriers tn d' = foreign_carriers tn d) (updateService now tn actor c i u d)"
  unfolding updateService_def
  by (intro ensures_intros)
    (auto intro: change_service_foreign dest!: findFirst_SomeD simp: service_data_def)

lemma carrier_step_foreign:
  "carrier_step tn d d' \<Longrightarrow> carriers_ok d \<Longrightarrow> foreign_carriers tn d' = foreign_carriers tn d"
  using createCarrier_foreign updateCarrier_foreign updateCarrierStatus_foreign uploadLogo_foreign
    createService_foreign updateService_foreign
  by (auto elim!: carrier_step.cases simp: ensures_def case_prod_unfold)

section \<open>Properties\<close>

lemma empty_carriers_ok: "carriers_ok empty_db"
  by (simp add: carriers_ok_def wf_table_def empty_db_def)

definition example_carrier :: CreateCarrierDto where
  "example_carrier = \<lparr> crd_name = ''Rapida'', crd_code = Value '' R1 '', crd_document = Value ''22.333'',
     crd_stateRegistration = Undefined, crd_email = Undefined, crd_legalName = Undefined,
     crd_phone = Null, crd_contactName = Undefined, crd_site = Undefined, crd_notes = Undefined \<rparr>"

text \<open>
  C29: however the requests of one tenant are ordered, codes and documents of its carriers and
  codes of a carrier's services stay unique, every service belongs to a carrier of its tenant, and
  the carriers and services of every other tenant stay as they are.
\<close>

theorem carrier_service_safe:
  assumes "carriers_ok d" "(carrier_step tn)\<^sup>*\<^sup>* d d'"
  shows "carriers_ok d' \<and> foreign_carriers tn d' = foreign_carriers tn d"
  using assms(2,1)
  by (induction rule: rtranclp_induct) (auto dest: carrier_step_ok carrier_step_foreign)

theorem carrier_service_safe_witness:
  "carriers_ok (snd (createCarrier ''t1'' example_carrier empty_db))
   \<and> foreign_carriers ''t1'' (snd (createCarrier ''t1'' example_carrier empty_db)) = ([], [])"
proof -
  have "(carrier_step ''t1'')\<^sup>*\<^sup>* empty_db (snd (createCarrier ''t1'' example_carrier empty_db))"
    by (rule r_into_rtranclp) (rule carrier_step.create)
  from carrier_service_safe [OF empty_carriers_ok this] show ?thesis
    by (simp add: foreign_carriers_def others_def empty_db_def)
qed

text \<open>
  The weight check of an update looks at the request only. A request that leaves the minimum
  weight out is accepted with any maximum, and then no shipment fits the service.
\<close>

theorem update_disorders_weights:
  assumes "findFirst (\<lambda>s. cs_id s = sid \<and> cs_carrierId s = cid \<and> cs_tenantId s = tn) (carrierServices d) = Some s"
    and "wf_table cs_id service_conflict (carrierServices d)"
    and "csd_minWeightKg i = Undefined" "csd_maxWeightKg i = Value w"
    and "cs_minWeightKg s = Some m" "w < m" "trim (csd_code i) = cs_code s"
  shows "\<exists>dto d' s'. updateService now tn actor cid sid i d = (Inr dto, d')
    \<and> s' \<in> set (carrierServices d') \<and> cs_id s' = sid
    \<and> (\<forall>weight. \<not> ((\<forall>x. cs_minWeightKg s' = Some x \<longrightarrow> x \<le> weight) \<and> (\<forall>x. cs_maxWeightKg s' = Some x \<longrightarrow> weight \<le> x)))"
proof -
  have s: "s \<in> set (carrierServices d)" "cs_id s = sid"
    using findFirst_SomeD [OF assms(1)] by auto
  let ?f = "service_data (cs_status s) i"
  have find: "find (\<lambda>r. cs_id r = sid) (carrierServices d) = Some s"
    using wf_table_find [OF assms(2) s(1)] s(2) by simp
  have free: "\<not> (\<exists>x \<in> set (carrierServices d). cs_id x \<noteq> sid \<and> service_conflict (?f s) x)"
    using assms(2,7) s by (auto simp: wf_table_def service_conflict_def service_data_def)
  have up: "update_row cs_id service_conflict sid ?f (carrierServices d)
      = Inr (?f s, map (\<lambda>x. if cs_id x = sid then ?f x else x) (carrierServices d))"
    by (simp only: update_row_def find option.simps free if_False)
  have "?f s \<in> set (map (\<lambda>x. if cs_id x = sid then ?f x else x) (carrierServices d))"
    using s by force
  moreover have "cs_minWeightKg (?f s) = Some m" "cs_maxWeightKg (?f s) = Some w"
    using assms(3-5) by (simp_all add: service_data_def set_column_def)
  ultimately show ?thesis
    using assms(1,3,6) s(2) up
    by (intro exI [of _ "presentService (?f s)"] exI exI [of _ "?f s"])
      (auto simp: updateService_def weights_disordered_def carrier_audit_def)
qed

definition example_service_input :: CreateCarrierServiceDto where
  "example_service_input = \<lparr> csd_code = ''EXP'', csd_name = ''Expresso'', csd_modality = ''ROAD'',
     csd_defaultDeadlineDays = 3, csd_cubicFactor = 300, csd_minWeightKg = Undefined,
     csd_maxWeightKg = Value 5, csd_maxLengthCm = Undefined, csd_maxWidthCm = Undefined,
     csd_maxHeightCm = Undefined, csd_minimumValue = 10, csd_description = Undefined, csd_status = Undefined \<rparr>"

theorem update_disorders_weights_witness:
  "\<exists>dto d' s'. updateService 0 ''t1'' ''u1'' ''c1'' ''s1'' example_service_input
      (empty_db\<lparr>carrierServices := [(blank_service ''s1'' ''t1'' ''c1'')\<lparr>cs_code := ''EXP'', cs_minWeightKg := Some 10\<rparr>]\<rparr>)
    = (Inr dto, d') \<and> s' \<in> set (carrierServices d') \<and> cs_id s' = ''s1''
    \<and> (\<forall>weight. \<not> ((\<forall>x. cs_minWeightKg s' = Some x \<longrightarrow> x \<le> weight) \<and> (\<forall>x. cs_maxWeightKg s' = Some x \<longrightarrow> weight \<le> x)))"
proof -
  have "trim ''EXP'' = ''EXP''" by code_simp
  then show ?thesis
    by (intro update_disorders_weights [where m = 10 and w = 5
          and s = "(blank_service ''s1'' ''t1'' ''c1'')\<lparr>cs_code := ''EXP'', cs_minWeightKg := Some 10\<rparr>"])
      (simp_all add: findFirst_def wf_table_def blank_service_def example_service_input_def)
qed

end
