(* ===== verification/ImportParser.thy ===== *)
theory ImportParser
  imports Schema
begin

text \<open>
  \<open>import-parser.ts\<close>: the reader of uploaded files. A file is CSV, scanned here character by
  character as the code does, or XLSX, read by the \<open>xlsx\<close> package. What the parser takes from
  outside the repository is a parameter: the text of a buffer (with a flag for a leading byte
  order mark, which is not a Latin-1 code unit) and the rows of the first sheet of a workbook.
\<close>

section \<open>Parsed files\<close>

text \<open>
  An object used as a dictionary: its entries in order of first insertion, a later value for the
  same key replacing the earlier one.
\<close>

type_synonym string_record = "(string \<times> string) list"

fun obj_put :: "string \<Rightarrow> 'v \<Rightarrow> (string \<times> 'v) list \<Rightarrow> (string \<times> 'v) list" where
  "obj_put k v [] = [(k, v)]"
| "obj_put k v ((k', v') # xs) = (if k = k' then (k, v) # xs else (k', v') # obj_put k v xs)"

definition fromEntries :: "(string \<times> 'v) list \<Rightarrow> (string \<times> 'v) list" where
  "fromEntries es = foldl (\<lambda>r (k, v). obj_put k v r) [] es"

record ParsedImportRow =
  rowNumber :: nat
  row_values :: string_record

record ParsedImportFile =
  headers :: "string list"
  file_rows :: "ParsedImportRow list"

text \<open>
  The workbook reader is \<open>None\<close> when it throws, otherwise the rows of the first sheet, if any. The
  last field is the text of the errors that the database client and the runtime raise.
\<close>

record ImportLibs =
  lib_utf8 :: "string \<Rightarrow> bool \<times> string"
  lib_xlsx :: "string \<Rightarrow> string list list option option"
  lib_sha256 :: "string \<Rightarrow> string"
  lib_error_text :: "http_error \<Rightarrow> string"

section \<open>Headers and cells\<close>

text \<open>
  \<open>normalize('NFD')\<close> followed by the removal of combining marks: the base letter of each
  Latin-1 letter that has a canonical decomposition.
\<close>

definition strip_mark :: "char \<Rightarrow> char" where
  "strip_mark c =
     (let n = ccode c; b = (if 224 \<le> n then n - 32 else n);
          base = (if 192 \<le> b \<and> b \<le> 197 then 65 else if b = 199 then 67
                  else if 200 \<le> b \<and> b \<le> 203 then 69 else if 204 \<le> b \<and> b \<le> 207 then 73
                  else if b = 209 then 78 else if 210 \<le> b \<and> b \<le> 214 then 79
                  else if 217 \<le> b \<and> b \<le> 220 then 85 else if b = 221 then 89 else 0)
      in if n = 255 then char_of (121::nat)
         else if base = 0 then c
         else char_of (if 224 \<le> n then base + 32 else base :: nat))"

lemma strip_mark_code [code]:
  "strip_mark c = (if (of_char c :: int) < 192 then c else
     (let n = ccode c; b = (if 224 \<le> n then n - 32 else n);
          base = (if 192 \<le> b \<and> b \<le> 197 then 65 else if b = 199 then 67
                  else if 200 \<le> b \<and> b \<le> 203 then 69 else if 204 \<le> b \<and> b \<le> 207 then 73
                  else if b = 209 then 78 else if 210 \<le> b \<and> b \<le> 214 then 79
                  else if 217 \<le> b \<and> b \<le> 220 then 85 else if b = 221 then 89 else 0)
      in if n = 255 then char_of (121::nat)
         else if base = 0 then c
         else char_of (if 224 \<le> n then base + 32 else base :: nat)))"
proof (cases "ccode c < 192")
  case True
  then show ?thesis by (simp add: strip_mark_def Let_def ccode_int [symmetric])
next
  case False
  then have "\<not> (of_char c :: int) < 192" by (simp add: ccode_int [symmetric])
  then show ?thesis by (simp only: if_False strip_mark_def)
qed

definition header_char :: "char \<Rightarrow> bool" where
  "header_char c = (is_lower c \<or> is_digit c)"

text \<open>\<open>replace(/[^a-z0-9]+/g, '_')\<close>: each maximal run of other characters becomes one underscore.\<close>

fun squash :: "bool \<Rightarrow> string \<Rightarrow> string" where
  "squash run [] = []"
| "squash run (c # cs) =
     (if header_char c then c # squash False cs
      else if run then squash True cs else CHR ''_'' # squash True cs)"

text \<open>\<open>replace(/^_+|_+$/g, '')\<close>\<close>

definition strip_underscores :: "string \<Rightarrow> string" where
  "strip_underscores s =
     rev (dropWhile (\<lambda>c. c = CHR ''_'') (rev (dropWhile (\<lambda>c. c = CHR ''_'') s)))"

definition normalizeHeader :: "string \<Rightarrow> string" where
  "normalizeHeader v =
     strip_underscores (squash False (toLowerCase (trim (map strip_mark v))))"

definition normalizeCell :: "string option \<Rightarrow> string" where
  "normalizeCell v = (case v of None \<Rightarrow> [] | Some s \<Rightarrow> trim s)"

definition normalizeHeaders :: "string list \<Rightarrow> string list" where
  "normalizeHeaders cells =
     filter (\<lambda>h. h \<noteq> []) (map (\<lambda>cell. normalizeHeader (normalizeCell (Some cell))) cells)"

definition cell_at :: "string list \<Rightarrow> nat \<Rightarrow> string option" where
  "cell_at cells i = (if i < length cells then Some (cells ! i) else None)"

definition toParsedRow :: "string list \<Rightarrow> string list \<Rightarrow> nat \<Rightarrow> ParsedImportRow list" where
  "toParsedRow hs cells n =
     (let vs = fromEntries (map (\<lambda>(index, header). (header, normalizeCell (cell_at cells index)))
                 (enumerate 0 hs))
      in if \<exists>(k, v) \<in> set vs. trim v \<noteq> [] then [\<lparr> rowNumber = n, row_values = vs \<rparr>] else [])"

section \<open>CSV\<close>

definition stripBom :: "bool \<times> string \<Rightarrow> string" where
  "stripBom t = snd t"

abbreviation quote :: char where "quote \<equiv> CHR 0x22"
abbreviation LF :: char where "LF \<equiv> CHR 0x0A"
abbreviation CR :: char where "CR \<equiv> CHR 0x0D"

definition next_char :: "string \<Rightarrow> char option" where
  "next_char cs = (case cs of [] \<Rightarrow> None | c # _ \<Rightarrow> Some c)"

text \<open>\<open>input.split(/\r?\n/, 1)[0]\<close>\<close>

fun first_line :: "string \<Rightarrow> string" where
  "first_line [] = []"
| "first_line (c # cs) =
     (if c = LF \<or> (c = CR \<and> next_char cs = Some LF) then [] else c # first_line cs)"

definition detectDelimiter :: "string \<Rightarrow> char" where
  "detectDelimiter s =
     (let line = first_line s;
          commas = length (filter (\<lambda>c. c = CHR '','') line);
          semicolons = length (filter (\<lambda>c. c = CHR '';'') line)
      in if semicolons > commas then CHR '';'' else CHR '','')"

text \<open>The loop of \<open>parseDelimited\<close>: the rest of the input, the flag and the three buffers.\<close>

function scan :: "char \<Rightarrow> string \<Rightarrow> bool \<Rightarrow> string \<Rightarrow> string list \<Rightarrow> string list list \<Rightarrow> string list list" where
  "scan d [] quoted current row rows = rows @ [row @ [current]]"
| "scan d (c # cs) quoted current row rows =
     (if c = quote \<and> quoted \<and> next_char cs = Some quote then
        scan d (tl cs) quoted (current @ [quote]) row rows
      else if c = quote then scan d cs (\<not> quoted) current row rows
      else if \<not> quoted \<and> c = d then scan d cs quoted [] (row @ [current]) rows
      else if \<not> quoted \<and> (c = LF \<or> c = CR) then
        scan d (if c = CR \<and> next_char cs = Some LF then tl cs else cs) quoted [] []
          (rows @ [row @ [current]])
      else scan d cs quoted (current @ [c]) row rows)"
  by pat_completeness auto
termination
  by (relation "measure (\<lambda>(d, cs, quoted, current, row, rows). length cs)") auto

definition blank_row :: "string list \<Rightarrow> bool" where
  "blank_row cells = (\<forall>cell \<in> set cells. trim cell = [])"

definition parseDelimited :: "string \<Rightarrow> string list list" where
  "parseDelimited s = filter (\<lambda>cells. \<not> blank_row cells) (scan (detectDelimiter s) s False [] [] [])"

section \<open>Files\<close>

text \<open>Both readers end the same way: headers from the first row, data from the others.\<close>

definition rows_to_file :: "string list list \<Rightarrow> ParsedImportFile" where
  "rows_to_file rows =
     (case rows of
        [] \<Rightarrow> \<lparr> headers = [], file_rows = [] \<rparr>
      | first # rest \<Rightarrow>
          let hs = normalizeHeaders first in
          \<lparr> headers = hs,
            file_rows = concat (map (\<lambda>(index, cells). toParsedRow hs cells (index + 2))
                          (enumerate 0 rest)) \<rparr>)"

definition parseCsv :: "ImportLibs \<Rightarrow> string \<Rightarrow> ParsedImportFile" where
  "parseCsv libs buffer = rows_to_file (parseDelimited (stripBom (lib_utf8 libs buffer)))"

definition parseXlsx :: "ImportLibs \<Rightarrow> string \<Rightarrow> ParsedImportFile result" where
  "parseXlsx libs buffer =
     (case lib_xlsx libs buffer of
        None \<Rightarrow> Inl (BadRequestException ''Arquivo XLSX invalido ou corrompido.'')
      | Some None \<Rightarrow> Inr \<lparr> headers = [], file_rows = [] \<rparr>
      | Some (Some rows) \<Rightarrow> Inr (rows_to_file rows))"

fun find_duplicate_from :: "string list \<Rightarrow> string list \<Rightarrow> string option" where
  "find_duplicate_from seen [] = None"
| "find_duplicate_from seen (v # vs) =
     (if v \<in> set seen then Some v else find_duplicate_from (v # seen) vs)"

definition findDuplicate :: "string list \<Rightarrow> string option" where
  "findDuplicate vs = find_duplicate_from [] vs"

text \<open>\<open>/^[=+\-@]/.test(value.trim())\<close>\<close>

definition dangerous :: "string \<Rightarrow> bool" where
  "dangerous v = (case trim v of [] \<Rightarrow> False | c # _ \<Rightarrow> c \<in> {CHR ''='', CHR ''+'', CHR ''-'', CHR 0x40})"

fun check_formulas :: "ParsedImportRow list \<Rightarrow> unit result" where
  "check_formulas [] = Inr ()"
| "check_formulas (row # rows) =
     (if \<exists>(k, v) \<in> set (row_values row). dangerous v
      then Inl (BadRequestException (''Formula perigosa detectada na linha ''
             @ nat_str (rowNumber row) @ ''.''))
      else check_formulas rows)"

definition validateParsedFile :: "ParsedImportFile \<Rightarrow> nat \<Rightarrow> unit result" where
  "validateParsedFile parsed maxRows =
     (if headers parsed = [] then Inl (BadRequestException ''O arquivo precisa conter cabecalhos.'')
      else if file_rows parsed = [] then Inl (BadRequestException ''O arquivo nao contem linhas de dados.'')
      else if length (file_rows parsed) > maxRows
      then Inl (BadRequestException (''O arquivo excede o limite de '' @ nat_str maxRows @ '' linhas.''))
      else case findDuplicate (headers parsed) of
          Some duplicate \<Rightarrow> Inl (BadRequestException (''Cabecalho duplicado: '' @ duplicate @ ''.''))
        | None \<Rightarrow> check_formulas (file_rows parsed))"

datatype extension = CSV | XLSX

definition extensionOf :: "string \<Rightarrow> extension result" where
  "extensionOf filename =
     (let ext = toLowerCase (last (split_on (CHR ''.'') filename)) in
      if ext = ''csv'' then Inr CSV
      else if ext = ''xlsx'' then Inr XLSX
      else Inl (BadRequestException ''Formato nao suportado. Envie CSV ou XLSX.''))"

definition parse :: "ImportLibs \<Rightarrow> string \<Rightarrow> string \<Rightarrow> nat \<Rightarrow> ParsedImportFile result" where
  "parse libs buffer filename maxRows =
     bindE (extensionOf filename) (\<lambda>ext.
     bindE (case ext of CSV \<Rightarrow> Inr (parseCsv libs buffer) | XLSX \<Rightarrow> parseXlsx libs buffer) (\<lambda>parsed.
     bindE (validateParsedFile parsed maxRows) (\<lambda>_. Inr parsed)))"

section \<open>Writing CSV\<close>

text \<open>\<open>escapeCsv\<close> of the registry and of the imports service, and the text built with it.\<close>

definition escapeCsv :: "string \<Rightarrow> string" where
  "escapeCsv v =
     (if \<exists>c \<in> set v. c = quote \<or> c = CHR '','' \<or> c = LF
      then [quote] @ concat (map (\<lambda>c. if c = quote then [quote, quote] else [c]) v) @ [quote]
      else v)"

definition csv_text :: "string list list \<Rightarrow> string" where
  "csv_text rows = join [LF] (map (\<lambda>row. join '','' (map escapeCsv row)) rows)"

section \<open>Dictionaries\<close>

lemma obj_put_new: "k \<notin> fst ` set xs \<Longrightarrow> obj_put k v xs = xs @ [(k, v)]"
  by (induction xs) auto

lemma keys_obj_put: "fst ` set (obj_put k v xs) = insert k (fst ` set xs)"
  by (induction k v xs rule: obj_put.induct) (simp_all add: insert_commute)

lemma distinct_obj_put: "distinct (map fst xs) \<Longrightarrow> distinct (map fst (obj_put k v xs))"
proof (induction xs)
  case (Cons x xs)
  then show ?case
    using keys_obj_put [of k v xs] by (cases x) auto
qed simp

lemma map_of_obj_put: "map_of (obj_put k v xs) = (map_of xs)(k \<mapsto> v)"
  by (induction xs) auto

lemma fromEntries_distinct:
  assumes "distinct (map fst es)"
  shows "fromEntries es = es"
proof -
  have "foldl (\<lambda>r (k, v). obj_put k v r) acc es = acc @ es"
    if "distinct (map fst (acc @ es))" for acc
    using that
  proof (induction es arbitrary: acc)
    case (Cons e es)
    obtain k v where e: "e = (k, v)" by fastforce
    have "k \<notin> fst ` set acc" using Cons.prems e by auto
    then have "obj_put k v acc = acc @ [(k, v)]" by (rule obj_put_new)
    then show ?case using Cons.IH [of "acc @ [(k, v)]"] Cons.prems e by simp
  qed simp
  from this [of "[]"] assms show ?thesis by (simp add: fromEntries_def)
qed

section \<open>The scanner\<close>

lemma next_char_append: "next_char (xs @ ys) = (if xs = [] then next_char ys else Some (hd xs))"
  by (cases xs) (simp_all add: next_char_def)

lemma next_char_Cons [simp]: "next_char (c # cs) = Some c" "next_char [] = None"
  by (simp_all add: next_char_def)

text \<open>Inside quotes the scanner undoes the doubling of quotes and stops at the closing quote.\<close>

lemma scan_quoted:
  "next_char rest \<noteq> Some quote
   \<Longrightarrow> scan d (concat (map (\<lambda>c. if c = quote then [quote, quote] else [c]) v) @ quote # rest) True current row rows
     = scan d rest False (current @ v) row rows"
  by (induction v arbitrary: current) auto

lemma scan_plain:
  "\<forall>c \<in> set v. c \<noteq> quote \<and> c \<noteq> d \<and> c \<noteq> LF \<and> c \<noteq> CR
   \<Longrightarrow> scan d (v @ rest) False current row rows = scan d rest False (current @ v) row rows"
  by (induction v arbitrary: current) auto

lemma scan_escaped:
  assumes "CR \<notin> set v" "next_char rest \<noteq> Some quote"
  shows "scan (CHR '','') (escapeCsv v @ rest) False [] row rows = scan (CHR '','') rest False v row rows"
proof (cases "\<exists>c \<in> set v. c = quote \<or> c = CHR '','' \<or> c = LF")
  case True
  then show ?thesis
    using scan_quoted [OF assms(2), of "CHR '',''" v "[]"] by (simp add: escapeCsv_def)
next
  case False
  then have "\<forall>c \<in> set v. c \<noteq> quote \<and> c \<noteq> CHR '','' \<and> c \<noteq> LF \<and> c \<noteq> CR"
    using assms(1) by auto
  then show ?thesis
    using False scan_plain [of v "CHR '',''" rest "[]"] by (simp add: escapeCsv_def)
qed

definition line_end :: "string \<Rightarrow> bool" where
  "line_end rest = (rest = [] \<or> (\<exists>t. rest = LF # t))"

lemma line_end_not_quote: "line_end rest \<Longrightarrow> next_char rest \<noteq> Some quote"
  by (auto simp: line_end_def)

lemma scan_row:
  assumes "row \<noteq> []" "\<forall>cell \<in> set row. CR \<notin> set cell" "line_end rest"
  shows "scan (CHR '','') (join '','' (map escapeCsv row) @ rest) False [] acc rows
    = scan (CHR '','') rest False (last row) (acc @ butlast row) rows"
  using assms(1,2)
proof (induction row arbitrary: acc)
  case (Cons cell row)
  show ?case
  proof (cases row)
    case Nil
    then show ?thesis
      using Cons.prems scan_escaped [of cell rest acc rows] line_end_not_quote [OF assms(3)] by simp
  next
    case (Cons cell' row')
    then have "join '','' (map escapeCsv (cell # row)) @ rest
        = escapeCsv cell @ CHR '','' # join '','' (map escapeCsv row) @ rest"
      by simp
    then show ?thesis
      using Cons.prems Cons.IH [of "acc @ [cell]"] Cons
        scan_escaped [of cell "CHR '','' # join '','' (map escapeCsv row) @ rest" acc rows]
      by simp
  qed
qed simp

lemma scan_csv_text:
  assumes "rows \<noteq> []" "\<forall>row \<in> set rows. row \<noteq> [] \<and> (\<forall>cell \<in> set row. CR \<notin> set cell)"
  shows "scan (CHR '','') (csv_text rows) False [] [] acc = acc @ rows"
  using assms
proof (induction rows arbitrary: acc)
  case (Cons row rows)
  show ?case
  proof (cases rows)
    case Nil
    then show ?thesis
      using Cons.prems scan_row [of row "[]" "[]" acc] by (simp add: csv_text_def line_end_def)
  next
    case (Cons row' rows')
    then have "csv_text (row # rows) = join '','' (map escapeCsv row) @ LF # csv_text rows"
      by (simp add: csv_text_def)
    then show ?thesis
      using Cons.prems Cons.IH [of "acc @ [row]"] Cons
        scan_row [of row "LF # csv_text rows" "[]" acc]
      by (simp add: line_end_def)
  qed
qed simp

text \<open>Before the first line feed there is no more than the first row.\<close>

lemma set_first_line: "set (first_line s) \<subseteq> set s"
  by (induction s rule: first_line.induct) auto

lemma first_line_LF: "set (first_line (s @ LF # t)) \<subseteq> set s"
  by (induction s) auto

lemma set_join: "set (join sep ss) \<subseteq> set sep \<union> (\<Union>s \<in> set ss. set s)"
  by (induction sep ss rule: join.induct) auto

lemma set_escapeCsv: "set (escapeCsv v) \<subseteq> insert quote (set v)"
  by (auto simp: escapeCsv_def split: if_splits)

lemma row_text_no_semicolon:
  assumes "\<forall>cell \<in> set row. CHR '';'' \<notin> set cell"
  shows "CHR '';'' \<notin> set (join '','' (map escapeCsv row))"
proof
  assume "CHR '';'' \<in> set (join '','' (map escapeCsv row))"
  with set_join [of "'',''" "map escapeCsv row"]
  have "CHR '';'' \<in> set '','' \<union> (\<Union>s \<in> set (map escapeCsv row). set s)" by blast
  then obtain cell where cell: "cell \<in> set row" "CHR '';'' \<in> set (escapeCsv cell)" by auto
  then have "CHR '';'' \<in> insert quote (set cell)" using set_escapeCsv [of cell] by blast
  then show False using assms cell(1) by simp
qed

lemma detect_comma:
  assumes "rows \<noteq> []" "\<forall>cell \<in> set (hd rows). CHR '';'' \<notin> set cell"
  shows "detectDelimiter (csv_text rows) = CHR '',''"
proof -
  obtain row rest where rows: "rows = row # rest" using assms(1) by (cases rows) auto
  let ?line = "join '','' (map escapeCsv row)"
  have "set (first_line (csv_text rows)) \<subseteq> set ?line"
  proof (cases rest)
    case Nil
    then show ?thesis using set_first_line [of ?line] by (simp add: rows csv_text_def)
  next
    case (Cons r rs)
    then have "csv_text rows = ?line @ LF # csv_text rest" by (simp add: rows csv_text_def)
    then show ?thesis using first_line_LF [of ?line "csv_text rest"] by simp
  qed
  then have "filter (\<lambda>c. c = CHR '';'') (first_line (csv_text rows)) = []"
    using row_text_no_semicolon [of row] assms(2) by (auto simp: rows filter_empty_conv)
  then show ?thesis by (simp add: detectDelimiter_def)
qed

lemma parseDelimited_csv_text:
  assumes "rows \<noteq> []" "\<forall>row \<in> set rows. \<not> blank_row row"
    and "\<forall>row \<in> set rows. \<forall>cell \<in> set row. CR \<notin> set cell"
    and "\<forall>cell \<in> set (hd rows). CHR '';'' \<notin> set cell"
  shows "parseDelimited (csv_text rows) = rows"
proof -
  have "\<forall>row \<in> set rows. row \<noteq> []"
    using assms(2) by (auto simp: blank_row_def)
  then have "scan (detectDelimiter (csv_text rows)) (csv_text rows) False [] [] [] = rows"
    using assms detect_comma [OF assms(1,4)] scan_csv_text [of rows "[]"] by simp
  then show ?thesis
    using assms(2) by (simp add: parseDelimited_def)
qed

section \<open>Properties of the scanner\<close>



definition text_size :: "string list list \<Rightarrow> nat" where
  "text_size rows = sum_list (map (\<lambda>row. sum_list (map length row)) rows)"

lemma scan_size:
  "text_size (scan d cs quoted current row rows)
     \<le> length cs + length current + sum_list (map length row) + text_size rows"
proof (induction d cs quoted current row rows rule: scan.induct)
  case (2 d c cs quoted current row rows)
  show ?case
    by (simp only: scan.simps split: if_split, intro conjI impI)
      (insert 2, simp_all add: text_size_def split: if_splits del: scan.simps)
qed (simp add: text_size_def)

lemma scan_rows: "length (scan d cs quoted current row rows) \<le> length cs + length rows + 1"
proof (induction d cs quoted current row rows rule: scan.induct)
  case (2 d c cs quoted current row rows)
  show ?case
    by (simp only: scan.simps split: if_split, intro conjI impI)
      (insert 2, simp_all split: if_splits del: scan.simps)
qed simp

text \<open>
  The scanner invents nothing: the cells of all rows together are no longer than the input,
  and there are at most as many rows as characters.
\<close>

theorem scanner_bounds:
  "text_size (parseDelimited s) \<le> length s \<and> length (parseDelimited s) \<le> length s + 1"
proof -
  let ?rows = "scan (detectDelimiter s) s False [] [] []"
  have "text_size (filter P rs) \<le> text_size rs \<and> length (filter P rs) \<le> length rs" for P and rs :: "string list list"
    by (induction rs) (auto simp: text_size_def le_SucI)
  then have "text_size (parseDelimited s) \<le> text_size ?rows \<and> length (parseDelimited s) \<le> length ?rows"
    by (simp add: parseDelimited_def)
  moreover have "text_size ?rows \<le> length s"
    using scan_size [of "detectDelimiter s" s False "[]" "[]" "[]"] by (simp add: text_size_def)
  moreover have "length ?rows \<le> length s + 1"
    using scan_rows [of "detectDelimiter s" s False "[]" "[]" "[]"] by simp
  ultimately show ?thesis by linarith
qed

section \<open>Accepted files\<close>

lemma find_duplicate_None:
  "find_duplicate_from seen vs = None \<longleftrightarrow> distinct vs \<and> set vs \<inter> set seen = {}"
  by (induction seen vs rule: find_duplicate_from.induct) auto

lemma check_formulas_Inr:
  "check_formulas rows = Inr u \<longleftrightarrow> (\<forall>row \<in> set rows. \<forall>(k, v) \<in> set (row_values row). \<not> dangerous v)"
  by (induction rows) auto

lemma validate_Inr:
  "validateParsedFile p n = Inr u \<longleftrightarrow>
     headers p \<noteq> [] \<and> file_rows p \<noteq> [] \<and> length (file_rows p) \<le> n \<and> distinct (headers p)
     \<and> check_formulas (file_rows p) = Inr u"
  by (auto simp: validateParsedFile_def findDuplicate_def find_duplicate_None split: option.splits)
    (metis find_duplicate_None inf_bot_right list.set(1) option.distinct(1))+

text \<open>A row of an accepted file: one entry for each header, in order, and some data.\<close>

definition row_ok :: "string list \<Rightarrow> ParsedImportRow \<Rightarrow> bool" where
  "row_ok hs row \<longleftrightarrow> map fst (row_values row) = hs \<and> (\<exists>(k, v) \<in> set (row_values row). trim v \<noteq> [])
     \<and> (\<forall>(k, v) \<in> set (row_values row). \<not> dangerous v)"

lemma toParsedRow_values:
  assumes "row \<in> set (toParsedRow hs cells n)" "distinct hs"
  shows "rowNumber row = n \<and> row_values row = map (\<lambda>(i, h). (h, normalizeCell (cell_at cells i))) (enumerate 0 hs)
    \<and> (\<exists>(k, v) \<in> set (row_values row). trim v \<noteq> [])"
proof -
  have "map fst (map (\<lambda>(i, h). (h, normalizeCell (cell_at cells i))) (enumerate 0 hs)) = hs"
    by (simp add: case_prod_unfold comp_def)
  then have "fromEntries (map (\<lambda>(i, h). (h, normalizeCell (cell_at cells i))) (enumerate 0 hs))
      = map (\<lambda>(i, h). (h, normalizeCell (cell_at cells i))) (enumerate 0 hs)"
    using assms(2) by (intro fromEntries_distinct) simp
  then show ?thesis
    using assms(1) by (auto simp: toParsedRow_def Let_def split: if_splits)
qed

lemma numbered_rows:
  "sorted_wrt (<) (map rowNumber (concat (map (\<lambda>(i, cells). toParsedRow hs cells (i + 2)) (enumerate k rest))))
   \<and> (\<forall>row \<in> set (concat (map (\<lambda>(i, cells). toParsedRow hs cells (i + 2)) (enumerate k rest))). k + 2 \<le> rowNumber row)"
proof (induction rest arbitrary: k)
  case (Cons cells rest)
  have "toParsedRow hs cells (k + 2) = [] \<or> (\<exists>vs. toParsedRow hs cells (k + 2) = [\<lparr> rowNumber = k + 2, row_values = vs \<rparr>])"
    by (simp add: toParsedRow_def Let_def)
  then show ?case
    using Cons [of "Suc k"] by fastforce
qed simp

lemma rows_to_file_rows:
  assumes "distinct (headers (rows_to_file rows))" "row \<in> set (file_rows (rows_to_file rows))"
  shows "map fst (row_values row) = headers (rows_to_file rows) \<and> (\<exists>(k, v) \<in> set (row_values row). trim v \<noteq> [])"
proof (cases rows)
  case (Cons first rest)
  then obtain i cells where "row \<in> set (toParsedRow (normalizeHeaders first) cells (i + 2))"
    using assms(2) by (auto simp: rows_to_file_def Let_def)
  then show ?thesis
    using toParsedRow_values [of row "normalizeHeaders first" cells "i + 2"] assms(1) Cons
    by (auto simp: rows_to_file_def Let_def case_prod_unfold comp_def)
qed (use assms in \<open>simp add: rows_to_file_def\<close>)

lemma rows_to_file_numbers:
  "sorted_wrt (<) (map rowNumber (file_rows (rows_to_file rows))) \<and> (\<forall>row \<in> set (file_rows (rows_to_file rows)). 2 \<le> rowNumber row)"
proof (cases rows)
  case (Cons first rest)
  then show ?thesis
    using numbered_rows [of "normalizeHeaders first" 0 rest]
    unfolding rows_to_file_def Let_def by (simp del: set_concat add: numeral_2_eq_2)
qed (simp add: rows_to_file_def)

lemma parse_Inr:
  assumes "parse libs buffer filename maxRows = Inr p"
  shows "validateParsedFile p maxRows = Inr () \<and> (\<exists>rows. p = rows_to_file rows)"
proof -
  have empty: "\<exists>rows. \<lparr> headers = [], file_rows = [] \<rparr> = rows_to_file rows"
    by (rule exI [of _ "[]"]) (simp add: rows_to_file_def)
  obtain ext where "(case ext of CSV \<Rightarrow> Inr (parseCsv libs buffer) | XLSX \<Rightarrow> parseXlsx libs buffer) = Inr p"
    and v: "validateParsedFile p maxRows = Inr ()"
    using assms by (auto simp: parse_def bindE_eq_Inr)
  then have "\<exists>rows. p = rows_to_file rows"
    using empty by (cases ext) (auto simp: parseCsv_def parseXlsx_def split: option.splits, metis)
  with v show ?thesis by simp
qed

text \<open>
  What the rest of the import relies on. An accepted file has distinct, non-empty headers,
  between one row and the configured maximum, row numbers that increase from two, and in each row
  exactly one entry per header, some data, and no value that a spreadsheet would read as a formula.
\<close>

theorem parse_accepts:
  assumes "parse libs buffer filename maxRows = Inr p"
  shows "headers p \<noteq> [] \<and> [] \<notin> set (headers p) \<and> distinct (headers p)
    \<and> 0 < length (file_rows p) \<and> length (file_rows p) \<le> maxRows
    \<and> sorted_wrt (<) (map rowNumber (file_rows p)) \<and> (\<forall>row \<in> set (file_rows p). 2 \<le> rowNumber row)
    \<and> (\<forall>row \<in> set (file_rows p). row_ok (headers p) row)"
proof -
  obtain rows where rows: "p = rows_to_file rows" and v: "validateParsedFile p maxRows = Inr ()"
    using parse_Inr [OF assms] by blast
  have "[] \<notin> set (headers p)"
    by (cases rows) (auto simp: rows rows_to_file_def Let_def normalizeHeaders_def)
  moreover have "row_ok (headers p) row" if "row \<in> set (file_rows p)" for row
    using that v rows_to_file_rows [of rows row] by (auto simp: rows row_ok_def validate_Inr check_formulas_Inr)
  ultimately show ?thesis
    using v rows_to_file_numbers [of rows] by (auto simp: validate_Inr rows)
qed

definition text_libs :: ImportLibs where
  "text_libs = \<lparr> lib_utf8 = (\<lambda>s. (False, s)), lib_xlsx = (\<lambda>s. None), lib_sha256 = (\<lambda>s. s),
     lib_error_text = (\<lambda>e. ''error'') \<rparr>"

definition example_file :: ParsedImportFile where
  "example_file = \<lparr> headers = [''nome'', ''codigo''],
     file_rows = [\<lparr> rowNumber = 2, row_values = [(''nome'', ''Ana''), (''codigo'', ''A1'')] \<rparr>] \<rparr>"

lemma example_parse:
  "parse text_libs (''Nome,C'' @ [CHR 0xF3] @ ''digo'' @ [LF] @ ''Ana, A1'') ''a.CSV'' 10 = Inr example_file"
  by code_simp

theorem parse_accepts_witness:
  "headers example_file = [''nome'', ''codigo''] \<and> distinct (headers example_file)
   \<and> row_ok (headers example_file) (hd (file_rows example_file))"
  using parse_accepts [OF example_parse] by (simp add: example_file_def)

text \<open>
  An empty header shifts the columns after it. Empty headers are dropped before cells are
  matched by position, so every value to the right of one is read from the column on its left.
\<close>

theorem blank_header_shifts:
  assumes "normalizeHeader (trim b) = []" "\<forall>h \<in> set (a @ c). normalizeHeader (trim h) \<noteq> []"
    and "distinct (map (\<lambda>h. normalizeHeader (trim h)) (a @ c))"
    and "k < length c" "length a + k < length cells"
    and "row \<in> set (toParsedRow (normalizeHeaders (a @ b # c)) cells n)"
  shows "map_of (row_values row) (normalizeHeader (trim (c ! k))) = Some (trim (cells ! (length a + k)))"
proof -
  let ?hs = "map (\<lambda>h. normalizeHeader (trim h)) (a @ c)"
  have hs: "normalizeHeaders (a @ b # c) = ?hs"
    using assms(1,2) by (auto simp: normalizeHeaders_def normalizeCell_def filter_id_conv)
  have vals: "row_values row = map (\<lambda>(i, h). (h, normalizeCell (cell_at cells i))) (enumerate 0 ?hs)"
    using toParsedRow_values [of row ?hs cells n] assms(3,6) by (simp only: hs)
  let ?i = "length a + k"
  have "?hs ! ?i = normalizeHeader (trim (c ! k))" "?i < length ?hs"
    using assms(4) by (simp_all add: nth_append)
  then have "(normalizeHeader (trim (c ! k)), normalizeCell (cell_at cells ?i)) \<in> set (row_values row)"
    unfolding vals by (force simp: in_set_enumerate_eq)
  moreover have "distinct (map fst (row_values row))"
    using assms(3) by (simp add: vals case_prod_unfold comp_def)
  ultimately show ?thesis
    using assms(5) by (simp add: cell_at_def normalizeCell_def)
qed

theorem blank_header_shifts_witness:
  "map_of [(''nome'', ''Ana''), (''codigo'', ''x'')] ''codigo'' = Some ''x''"
proof -
  have p: "normalizeHeader (trim ''Nome'') = ''nome''" "normalizeHeader (trim ''Codigo'') = ''codigo''"
    "normalizeHeader (trim '' '') = []" "trim ''x'' = ''x''"
    by code_simp+
  have row: "\<lparr> rowNumber = 2, row_values = [(''nome'', ''Ana''), (''codigo'', ''x'')] \<rparr>
      \<in> set (toParsedRow (normalizeHeaders [''Nome'', '' '', ''Codigo'']) [''Ana'', ''x'', ''A1''] 2)"
    by code_simp
  show ?thesis
    using blank_header_shifts [of "'' ''" "[''Nome'']" "[''Codigo'']" 0 "[''Ana'', ''x'', ''A1'']" _ 2] row
    by (simp add: p)
qed

end
