(* ===== verification/ImportHandlers.thy ===== *)
theory ImportHandlers
  imports Customers Carriers ImportParser
begin

text \<open>
  The row handlers of the import: \<open>customer-import.handler.ts\<close>, \<open>carrier-import.handler.ts\<close>
  and the registry that selects one, detects the column mapping and writes the template file.
  A handler gets a parsed row and the references it has already seen in the file; it answers with
  the outcome of the row, or throws when the database refuses a write. The locale
  \<open>import_handler\<close> is what the worker relies on; both handlers interpret it.
\<close>

section \<open>The interface\<close>

datatype DuplicateStrategy = SKIP | UPDATE | FAIL

record ImportField =
  fld_aliases :: "string list"
  fld_key :: string
  fld_label :: string
  fld_required :: bool

record ImportRowProcessInput =
  pi_duplicateStrategy :: DuplicateStrategy
  pi_mapping :: string_record
  pi_row :: ParsedImportRow
  pi_tenantId :: string

record ImportRowProcessResult =
  rs_createdResourceId :: "string option"
  rs_errorCode :: "string option"
  rs_errorMessage :: "string option"
  rs_externalReference :: "string option"
  rs_normalizedData :: json
  rs_status :: ImportRowStatus

text \<open>The references seen so far are part of the state the handler changes.\<close>

type_synonym row_handler =
  "date \<Rightarrow> ImportRowProcessInput \<Rightarrow> string list \<Rightarrow> db
    \<Rightarrow> (ImportRowProcessResult \<times> string list) result \<times> db"

record ImportTypeHandler =
  ih_type :: ImportType
  ih_fields :: "ImportField list"
  ih_sampleRows :: "string list list"
  ih_processRow :: row_handler

definition row_value :: "ImportRowProcessInput \<Rightarrow> string \<Rightarrow> string" where
  "row_value i field =
     (case map_of (pi_mapping i) field of
        None \<Rightarrow> []
      | Some source \<Rightarrow>
          if source = [] then []
          else case map_of (row_values (pi_row i)) source of None \<Rightarrow> [] | Some v \<Rightarrow> trim v)"

definition row_error :: "string \<Rightarrow> string \<Rightarrow> string \<Rightarrow> json \<Rightarrow> ImportRowProcessResult" where
  "row_error code message reference normalized =
     \<lparr> rs_createdResourceId = None, rs_errorCode = Some code, rs_errorMessage = Some message,
       rs_externalReference = Some reference, rs_normalizedData = normalized, rs_status = ERROR \<rparr>"

definition row_done :: "ImportRowStatus \<Rightarrow> string \<Rightarrow> string \<Rightarrow> json \<Rightarrow> ImportRowProcessResult" where
  "row_done status resource reference normalized =
     \<lparr> rs_createdResourceId = Some resource, rs_errorCode = None, rs_errorMessage = None,
       rs_externalReference = Some reference, rs_normalizedData = normalized, rs_status = status \<rparr>"

definition import_normalizeEmail :: "string \<Rightarrow> string" where
  "import_normalizeEmail v = toLowerCase (trim v)"

text \<open>\<open>/^[^\s@]+@[^\s@]+\.[^\s@]+$/\<close>\<close>

definition email_pattern :: "string \<Rightarrow> bool" where
  "email_pattern s =
     ((\<forall>c \<in> set s. \<not> is_ws c)
      \<and> (case split_on (CHR 0x40) s of
           [l, r] \<Rightarrow> l \<noteq> [] \<and> CHR ''.'' \<in> set (butlast (tl r))
         | _ \<Rightarrow> False))"

section \<open>Customers\<close>

record CustomerRow =
  cw_city :: string
  cw_document :: string
  cw_email :: string
  cw_name :: string
  cw_phone :: string
  cw_postalCode :: string
  cw_state :: string

definition customer_fields :: "ImportField list" where
  "customer_fields =
     [\<lparr> fld_aliases = [''nome'', ''name'', ''cliente'', ''razao_social''], fld_key = ''name'', fld_label = ''Nome'', fld_required = True \<rparr>,
      \<lparr> fld_aliases = [''documento'', ''cpf_cnpj'', ''cpf'', ''cnpj'', ''document''], fld_key = ''document'', fld_label = ''CPF/CNPJ'', fld_required = True \<rparr>,
      \<lparr> fld_aliases = [''email'', ''e_mail''], fld_key = ''email'', fld_label = ''E-mail'', fld_required = False \<rparr>,
      \<lparr> fld_aliases = [''telefone'', ''phone'', ''celular''], fld_key = ''phone'', fld_label = ''Telefone'', fld_required = False \<rparr>,
      \<lparr> fld_aliases = [''cep'', ''postal_code''], fld_key = ''postalCode'', fld_label = ''CEP'', fld_required = False \<rparr>,
      \<lparr> fld_aliases = [''cidade'', ''city''], fld_key = ''city'', fld_label = ''Cidade'', fld_required = False \<rparr>,
      \<lparr> fld_aliases = [''estado'', ''uf'', ''state''], fld_key = ''state'', fld_label = ''Estado'', fld_required = False \<rparr>]"

definition customer_sampleRows :: "string list list" where
  "customer_sampleRows =
     [[''Mercado Alpha'', ''11222333000181'', ''operacoes@mercadoalpha.dev'', ''11999990000'', ''20040002'', ''Rio de Janeiro'', ''RJ''],
      [''Loja Beta'', ''12345678909'', ''contato@lojabeta.dev'', ''21988887777'', ''30140071'', ''Belo Horizonte'', ''MG'']]"

definition customer_row :: "ImportRowProcessInput \<Rightarrow> CustomerRow" where
  "customer_row i =
     \<lparr> cw_city = row_value i ''city'', cw_document = onlyDigits (row_value i ''document''),
       cw_email = import_normalizeEmail (row_value i ''email''), cw_name = row_value i ''name'',
       cw_phone = onlyDigits (row_value i ''phone''), cw_postalCode = onlyDigits (row_value i ''postalCode''),
       cw_state = toUpperCase (row_value i ''state'') \<rparr>"

definition customer_json :: "CustomerRow \<Rightarrow> json" where
  "customer_json r =
     JObj [(''city'', JStr (cw_city r)), (''document'', JStr (cw_document r)), (''email'', JStr (cw_email r)),
       (''name'', JStr (cw_name r)), (''phone'', JStr (cw_phone r)), (''postalCode'', JStr (cw_postalCode r)),
       (''state'', JStr (cw_state r))]"

definition validateCustomer :: "CustomerRow \<Rightarrow> (string \<times> string) option" where
  "validateCustomer r =
     (if length (cw_name r) < 2 then Some (''NAME_REQUIRED'', ''Nome obrigatorio.'')
      else if \<not> isValidDocument (cw_document r) then Some (''INVALID_DOCUMENT'', ''CPF/CNPJ invalido.'')
      else if cw_email r \<noteq> [] \<and> \<not> email_pattern (cw_email r) then Some (''INVALID_EMAIL'', ''E-mail invalido.'')
      else if cw_postalCode r \<noteq> [] \<and> length (cw_postalCode r) \<noteq> 8
      then Some (''INVALID_POSTAL_CODE'', ''CEP deve possuir 8 digitos.'')
      else if cw_state r \<noteq> [] \<and> length (cw_state r) \<noteq> 2
      then Some (''INVALID_STATE'', ''Estado deve possuir UF com 2 letras.'')
      else None)"

definition refresh_customer :: "date \<Rightarrow> CustomerRow \<Rightarrow> Customer \<Rightarrow> Customer" where
  "refresh_customer now r c =
     c\<lparr>c_active := True, c_email := or_null (cw_email r), c_name := cw_name r,
       c_phone := or_null (cw_phone r), c_updatedAt := now\<rparr>"

definition imported_customer :: "date \<Rightarrow> string \<Rightarrow> string \<Rightarrow> CustomerRow \<Rightarrow> Customer" where
  "imported_customer now i tenantId r =
     \<lparr> c_id = i, c_tenantId = tenantId, c_name = cw_name r, c_document = Some (cw_document r),
       c_email = or_null (cw_email r), c_phone = or_null (cw_phone r), c_active = True,
       c_createdAt = now, c_updatedAt = now \<rparr>"

definition imported_address :: "date \<Rightarrow> string \<Rightarrow> string \<Rightarrow> string \<Rightarrow> CustomerRow \<Rightarrow> CustomerAddress" where
  "imported_address now i tenantId customerId r =
     \<lparr> ca_id = i, ca_tenantId = tenantId, ca_customerId = customerId, ca_type = OTHER, ca_label = None,
       ca_postalCode = (if cw_postalCode r = [] then ''00000000'' else cw_postalCode r),
       ca_street = ''Endereco importado'', ca_number = None, ca_complement = None, ca_district = None,
       ca_city = (if cw_city r = [] then ''Nao informado'' else cw_city r),
       ca_state = (if cw_state r = [] then ''SP'' else cw_state r), ca_country = ''BR'',
       ca_latitude = None, ca_longitude = None, ca_main = True, ca_pickup = False, ca_delivery = True,
       ca_active = True, ca_createdAt = now \<rparr>"

definition write_customer ::
  "date \<Rightarrow> string \<Rightarrow> CustomerRow \<Rightarrow> Customer option \<Rightarrow> db \<Rightarrow> Customer result \<times> db" where
  "write_customer now tenantId data existing d =
     (case existing of
        Some e \<Rightarrow>
          (case update_row c_id customer_conflict (c_id e) (refresh_customer now data) (customers d) of
             Inl err \<Rightarrow> (Inl (PrismaKnownError err), d)
           | Inr (c, t) \<Rightarrow> (Inr c, d\<lparr>customers := t\<rparr>))
      | None \<Rightarrow>
          let c = imported_customer now (new_id d) tenantId data in
          case create_row customer_conflict c (customers d) of
            Inl err \<Rightarrow> (Inl (PrismaKnownError err), d)
          | Inr t \<Rightarrow> (Inr c, bump (d\<lparr>customers := t\<rparr>)))"

definition customer_processRow :: row_handler where
  "customer_processRow now i seen d =
     (let data = customer_row i; reference = cw_document data; normalized = customer_json data in
      case validateCustomer data of
        Some (code, message) \<Rightarrow> (Inr (row_error code message reference normalized, seen), d)
      | None \<Rightarrow>
      if reference \<in> set seen
      then (Inr (row_error ''DUPLICATE_IN_FILE'' ''Documento duplicado dentro do arquivo.'' reference normalized, seen), d)
      else
      let existing = findFirst (\<lambda>c. c_tenantId c = pi_tenantId i \<and> c_document c = Some reference) (customers d) in
      if existing \<noteq> None \<and> pi_duplicateStrategy i = FAIL
      then (Inr (row_error ''DUPLICATE_IN_TENANT'' ''Cliente ja existe neste tenant.'' reference normalized, reference # seen), d)
      else if existing \<noteq> None \<and> pi_duplicateStrategy i = SKIP
      then (Inr (row_done SKIPPED (c_id (the existing)) reference normalized, reference # seen), d)
      else
      case write_customer now (pi_tenantId i) data existing d of
        (Inl e, d1) \<Rightarrow> (Inl e, d1)
      | (Inr customer, d1) \<Rightarrow>
          let d2 = (if (cw_postalCode data \<noteq> [] \<or> cw_city data \<noteq> [] \<or> cw_state data \<noteq> []) \<and> existing = None
                    then bump (d1\<lparr>customerAddresses := customerAddresses d1
                           @ [imported_address now (new_id d1) (pi_tenantId i) (c_id customer) data]\<rparr>)
                    else d1)
          in (Inr (row_done SUCCESS (c_id customer) reference normalized, reference # seen), d2))"

definition CustomerImportHandler :: ImportTypeHandler where
  "CustomerImportHandler =
     \<lparr> ih_type = CUSTOMERS, ih_fields = customer_fields, ih_sampleRows = customer_sampleRows,
       ih_processRow = customer_processRow \<rparr>"

section \<open>Carriers\<close>

record CarrierRow =
  rw_code :: string
  rw_contactName :: string
  rw_document :: string
  rw_email :: string
  rw_legalName :: string
  rw_name :: string
  rw_phone :: string
  rw_site :: string

definition carrier_fields :: "ImportField list" where
  "carrier_fields =
     [\<lparr> fld_aliases = [''nome'', ''name'', ''transportadora'', ''carrier''], fld_key = ''name'', fld_label = ''Nome'', fld_required = True \<rparr>,
      \<lparr> fld_aliases = [''codigo'', ''code'', ''cod''], fld_key = ''code'', fld_label = ''Codigo'', fld_required = True \<rparr>,
      \<lparr> fld_aliases = [''cnpj'', ''documento'', ''document''], fld_key = ''document'', fld_label = ''CNPJ'', fld_required = False \<rparr>,
      \<lparr> fld_aliases = [''razao_social'', ''legal_name''], fld_key = ''legalName'', fld_label = ''Razao social'', fld_required = False \<rparr>,
      \<lparr> fld_aliases = [''email'', ''e_mail''], fld_key = ''email'', fld_label = ''E-mail'', fld_required = False \<rparr>,
      \<lparr> fld_aliases = [''telefone'', ''phone''], fld_key = ''phone'', fld_label = ''Telefone'', fld_required = False \<rparr>,
      \<lparr> fld_aliases = [''contato'', ''contact'', ''contact_name''], fld_key = ''contactName'', fld_label = ''Contato'', fld_required = False \<rparr>,
      \<lparr> fld_aliases = [''site'', ''website''], fld_key = ''site'', fld_label = ''Site'', fld_required = False \<rparr>]"

definition carrier_sampleRows :: "string list list" where
  "carrier_sampleRows =
     [[''Rapida Transportes'', ''RAPIDA'', ''22333444000191'', ''Rapida Transportes SA'', ''contato@rapida.dev'', ''1133334444'', ''Comercial'', ''https://rapida.dev''],
      [''Economica Cargo'', ''ECONOMICA'', ''33444555000144'', ''Economica Cargo LTDA'', ''ops@economica.dev'', ''1133335555'', ''Operacoes'', ''https://economica.dev'']]"

text \<open>\<open>replace(/[^A-Z0-9_-]/g, '')\<close> after upper-casing.\<close>

definition normalizeCode :: "string \<Rightarrow> string" where
  "normalizeCode v =
     filter (\<lambda>c. is_upper c \<or> is_digit c \<or> c = CHR ''_'' \<or> c = CHR ''-'') (toUpperCase (trim v))"

definition carrier_row :: "ImportRowProcessInput \<Rightarrow> CarrierRow" where
  "carrier_row i =
     \<lparr> rw_code = normalizeCode (row_value i ''code''), rw_contactName = row_value i ''contactName'',
       rw_document = onlyDigits (row_value i ''document''),
       rw_email = import_normalizeEmail (row_value i ''email''), rw_legalName = row_value i ''legalName'',
       rw_name = row_value i ''name'', rw_phone = onlyDigits (row_value i ''phone''),
       rw_site = row_value i ''site'' \<rparr>"

definition carrier_json :: "CarrierRow \<Rightarrow> json" where
  "carrier_json r =
     JObj [(''code'', JStr (rw_code r)), (''contactName'', JStr (rw_contactName r)),
       (''document'', JStr (rw_document r)), (''email'', JStr (rw_email r)),
       (''legalName'', JStr (rw_legalName r)), (''name'', JStr (rw_name r)), (''phone'', JStr (rw_phone r)),
       (''site'', JStr (rw_site r))]"

definition validateCarrier :: "CarrierRow \<Rightarrow> (string \<times> string) option" where
  "validateCarrier r =
     (if length (rw_name r) < 2 then Some (''NAME_REQUIRED'', ''Nome obrigatorio.'')
      else if length (rw_code r) < 2 then Some (''CODE_REQUIRED'', ''Codigo obrigatorio.'')
      else if rw_document r \<noteq> [] \<and> length (rw_document r) \<noteq> 14
      then Some (''INVALID_CNPJ'', ''CNPJ deve possuir 14 digitos.'')
      else if rw_email r \<noteq> [] \<and> \<not> email_pattern (rw_email r) then Some (''INVALID_EMAIL'', ''E-mail invalido.'')
      else if rw_site r \<noteq> [] \<and> \<not> (startsWith (toLowerCase (rw_site r)) ''http://''
                \<or> startsWith (toLowerCase (rw_site r)) ''https://'')
      then Some (''INVALID_SITE'', ''Site deve iniciar com http:// ou https://.'')
      else None)"

definition findExistingCarrier :: "string \<Rightarrow> CarrierRow \<Rightarrow> db \<Rightarrow> Carrier option" where
  "findExistingCarrier tenantId data d =
     (case (if rw_code data = [] then None
            else findFirst (\<lambda>c. cr_tenantId c = tenantId \<and> cr_code c = Some (rw_code data)) (carriers d)) of
        Some c \<Rightarrow> Some c
      | None \<Rightarrow>
          if rw_document data = [] then None
          else findFirst (\<lambda>c. cr_tenantId c = tenantId \<and> cr_document c = Some (rw_document data)) (carriers d))"

definition carrier_payload :: "string \<Rightarrow> CarrierRow \<Rightarrow> Carrier \<Rightarrow> Carrier" where
  "carrier_payload tenantId r c =
     c\<lparr>cr_active := True, cr_code := Some (rw_code r), cr_contactName := or_null (rw_contactName r),
       cr_document := or_null (rw_document r), cr_email := or_null (rw_email r),
       cr_legalName := or_null (rw_legalName r), cr_name := rw_name r, cr_phone := or_null (rw_phone r),
       cr_site := or_null (rw_site r), cr_tenantId := tenantId\<rparr>"

definition write_carrier ::
  "string \<Rightarrow> CarrierRow \<Rightarrow> Carrier option \<Rightarrow> db \<Rightarrow> Carrier result \<times> db" where
  "write_carrier tenantId data existing d =
     (case existing of
        Some e \<Rightarrow>
          (case update_row cr_id carrier_conflict (cr_id e) (carrier_payload tenantId data) (carriers d) of
             Inl err \<Rightarrow> (Inl (PrismaKnownError err), d)
           | Inr (c, t) \<Rightarrow> (Inr c, d\<lparr>carriers := t\<rparr>))
      | None \<Rightarrow>
          let c = carrier_payload tenantId data (blank_carrier (new_id d) tenantId) in
          case create_row carrier_conflict c (carriers d) of
            Inl err \<Rightarrow> (Inl (PrismaKnownError err), d)
          | Inr t \<Rightarrow> (Inr c, bump (d\<lparr>carriers := t\<rparr>)))"

definition carrier_processRow :: row_handler where
  "carrier_processRow now i seen d =
     (let data = carrier_row i; normalized = carrier_json data;
          reference = (if rw_code data = [] then rw_document data else rw_code data) in
      case validateCarrier data of
        Some (code, message) \<Rightarrow> (Inr (row_error code message reference normalized, seen), d)
      | None \<Rightarrow>
      if reference \<in> set seen
      then (Inr (row_error ''DUPLICATE_IN_FILE'' ''Transportadora duplicada dentro do arquivo.'' reference normalized, seen), d)
      else
      let existing = findExistingCarrier (pi_tenantId i) data d in
      if existing \<noteq> None \<and> pi_duplicateStrategy i = FAIL
      then (Inr (row_error ''DUPLICATE_IN_TENANT'' ''Transportadora ja existe neste tenant.'' reference normalized, reference # seen), d)
      else if existing \<noteq> None \<and> pi_duplicateStrategy i = SKIP
      then (Inr (row_done SKIPPED (cr_id (the existing)) reference normalized, reference # seen), d)
      else
      case write_carrier (pi_tenantId i) data existing d of
        (Inl e, d1) \<Rightarrow> (Inl e, d1)
      | (Inr carrier, d1) \<Rightarrow>
          (Inr (row_done SUCCESS (cr_id carrier) reference normalized, reference # seen), d1))"

definition CarrierImportHandler :: ImportTypeHandler where
  "CarrierImportHandler =
     \<lparr> ih_type = CARRIERS, ih_fields = carrier_fields, ih_sampleRows = carrier_sampleRows,
       ih_processRow = carrier_processRow \<rparr>"

section \<open>The registry\<close>

definition handlers :: "ImportTypeHandler list" where
  "handlers = [CustomerImportHandler, CarrierImportHandler]"

text \<open>The type comes from a path or a body, so it need not be one of the two: \<open>None\<close>.\<close>

definition get_handler :: "ImportType option \<Rightarrow> ImportTypeHandler result" where
  "get_handler type =
     (case find (\<lambda>h. Some (ih_type h) = type) handlers of
        None \<Rightarrow> Inl (BadRequestException ''Tipo de importacao nao suportado.'')
      | Some h \<Rightarrow> Inr h)"

definition import_fields :: "ImportType option \<Rightarrow> ImportField list result" where
  "import_fields type = bindE (get_handler type) (\<lambda>h. Inr (ih_fields h))"

definition match_field :: "string list \<Rightarrow> ImportField \<Rightarrow> string option" where
  "match_field hs f = find (\<lambda>alias. normalizeHeader alias \<in> set hs) (fld_key f # fld_aliases f)"

fun auto_mapping_loop :: "string list \<Rightarrow> ImportField list \<Rightarrow> string_record \<Rightarrow> string_record" where
  "auto_mapping_loop hs [] mapping = mapping"
| "auto_mapping_loop hs (f # fs) mapping =
     auto_mapping_loop hs fs
       (case match_field hs f of
          None \<Rightarrow> mapping
        | Some alias \<Rightarrow> obj_put (fld_key f) (normalizeHeader alias) mapping)"

definition autoMapping :: "ImportType option \<Rightarrow> string list \<Rightarrow> string_record result" where
  "autoMapping type hs = bindE (import_fields type) (\<lambda>fs. Inr (auto_mapping_loop hs fs []))"

record ImportTemplateDto =
  tpl_columns :: "string list"
  tpl_csv :: string
  tpl_fields :: "ImportField list"
  tpl_type :: "ImportType option"

definition import_template :: "ImportType option \<Rightarrow> ImportTemplateDto result" where
  "import_template type =
     bindE (get_handler type) (\<lambda>h.
       let columns = map (\<lambda>f. case fld_aliases f of [] \<Rightarrow> fld_key f | a # _ \<Rightarrow> a) (ih_fields h)
       in Inr \<lparr> tpl_columns = columns, tpl_csv = csv_text (columns # ih_sampleRows h),
                tpl_fields = ih_fields h, tpl_type = type \<rparr>)"

section \<open>What the worker relies on\<close>

text \<open>
  The effect of a row: the handler touches none of the worker's own tables, answers with a
  reference, marks it as seen unless the row is rejected before, accepts no reference twice, and
  changes nothing for a row that is not a success.
\<close>

definition row_effect ::
  "string list \<Rightarrow> db \<Rightarrow> (ImportRowProcessResult \<times> string list) result \<Rightarrow> db \<Rightarrow> bool" where
  "row_effect seen d r d' \<longleftrightarrow>
     importJobs d' = importJobs d \<and> importRowResults d' = importRowResults d \<and> auditLogs d' = auditLogs d
     \<and> emissions d' = emissions d \<and> importQueue d' = importQueue d \<and> users d' = users d
     \<and> storedFiles d' = storedFiles d \<and> next_id d \<le> next_id d'
     \<and> (\<forall>res seen'. r = Inr (res, seen') \<longrightarrow>
          (\<exists>reference. rs_externalReference res = Some reference \<and> (seen' = seen \<or> seen' = reference # seen)
             \<and> (rs_status res \<noteq> ERROR \<longrightarrow> reference \<notin> set seen \<and> reference \<in> set seen' \<and> rs_createdResourceId res \<noteq> None)
             \<and> (rs_status res \<noteq> SUCCESS \<longrightarrow> d' = d)))"

definition directory_ok :: "db \<Rightarrow> bool" where
  "directory_ok d \<longleftrightarrow> customers_ok d \<and> carriers_ok d"

lemma directory_ok_cong:
  assumes "directory_ok d" "customers d' = customers d" "customerAddresses d' = customerAddresses d"
    "carriers d' = carriers d" "carrierServices d' = carrierServices d" "next_id d \<le> next_id d'"
  shows "directory_ok d'"
  using assms customers_ok_cong carriers_ok_cong unfolding directory_ok_def by metis

locale import_handler =
  fixes process :: row_handler and inv :: "db \<Rightarrow> bool"
  assumes effect: "row_effect seen d (fst (process now i seen d)) (snd (process now i seen d))"
    and keeps: "inv d \<Longrightarrow> inv (snd (process now i seen d))"

lemma row_effect_error: "row_effect seen d (Inr (row_error c m r n, seen)) d"
  "row_effect seen d (Inr (row_error c m r n, r # seen)) d"
  "row_effect seen d (Inl e) d"
  by (simp_all add: row_effect_def row_error_def)

lemma row_effect_skipped:
  "r \<notin> set seen \<Longrightarrow> row_effect seen d (Inr (row_done SKIPPED x r n, r # seen)) d"
  by (simp add: row_effect_def row_done_def)

definition same_worker_tables :: "db \<Rightarrow> db \<Rightarrow> bool" where
  "same_worker_tables d d' \<longleftrightarrow>
     importJobs d' = importJobs d \<and> importRowResults d' = importRowResults d \<and> auditLogs d' = auditLogs d
     \<and> emissions d' = emissions d \<and> importQueue d' = importQueue d \<and> users d' = users d
     \<and> storedFiles d' = storedFiles d \<and> next_id d \<le> next_id d'"

lemma row_effect_success:
  "r \<notin> set seen \<Longrightarrow> same_worker_tables d d' \<Longrightarrow> row_effect seen d (Inr (row_done SUCCESS x r n, r # seen)) d'"
  by (simp add: row_effect_def row_done_def same_worker_tables_def)

lemma row_effect_throw: "same_worker_tables d d' \<Longrightarrow> row_effect seen d (Inl e) d'"
  by (simp add: row_effect_def same_worker_tables_def)

section \<open>The customer handler\<close>

lemma write_customer_tables: "ensures (\<lambda>r. same_worker_tables d) (write_customer now tn data existing d)"
  unfolding write_customer_def by (intro ensures_intros) (auto simp: same_worker_tables_def)

lemma customer_success_tables:
  "write_customer now tn data existing d = (r, d1)
   \<Longrightarrow> same_worker_tables d d1 \<and> (\<forall>x. same_worker_tables d (bump (d1\<lparr>customerAddresses := x\<rparr>)))"
  using ensuresD [OF write_customer_tables, of now tn data existing d r d1]
  by (simp add: same_worker_tables_def)

lemma customer_effect:
  "ensures (row_effect seen d) (customer_processRow now i seen d)"
  unfolding customer_processRow_def
  apply (intro ensures_intros)
  subgoal by (auto intro: row_effect_error)
  subgoal by (auto intro: row_effect_error)
  subgoal by (rule row_effect_skipped)
  subgoal using ensuresD [OF write_customer_tables] by (auto intro!: row_effect_throw)
  subgoal by (auto dest!: customer_success_tables intro!: row_effect_success)
  subgoal by (auto intro: row_effect_error)
  done

lemma refresh_customer_keeps [simp]:
  "c_id (refresh_customer now r c) = c_id c" "c_tenantId (refresh_customer now r c) = c_tenantId c"
  "c_document (refresh_customer now r c) = c_document c"
  by (simp_all add: refresh_customer_def)

lemma validateCustomer_None: "validateCustomer r = None \<Longrightarrow> isValidDocument (cw_document r)"
  by (auto simp: validateCustomer_def split: if_splits)

text \<open>What writing a customer leaves, and that it cannot fail on a well-formed table.\<close>

definition existing_customer :: "db \<Rightarrow> string \<Rightarrow> CustomerRow \<Rightarrow> Customer option" where
  "existing_customer d tn data =
     findFirst (\<lambda>c. c_tenantId c = tn \<and> c_document c = Some (cw_document data)) (customers d)"

lemma write_customer_new:
  assumes "existing_customer d tn data = None"
  shows "create_row customer_conflict (imported_customer now (new_id d) tn data) (customers d)
      = Inr (customers d @ [imported_customer now (new_id d) tn data])
    \<and> write_customer now tn data None d = (Inr (imported_customer now (new_id d) tn data),
    bump (d\<lparr>customers := customers d @ [imported_customer now (new_id d) tn data]\<rparr>))"
proof -
  have "\<not> (\<exists>x \<in> set (customers d). customer_conflict (imported_customer now (new_id d) tn data) x)"
    using assms by (auto simp: existing_customer_def findFirst_None customer_conflict_def imported_customer_def)
  then show ?thesis by (simp add: write_customer_def create_row_def Let_def)
qed

lemma write_customer_existing:
  assumes "customers_ok d" "e \<in> set (customers d)"
  shows "\<exists>t. update_row c_id customer_conflict (c_id e) (refresh_customer now data) (customers d)
      = Inr (refresh_customer now data e, t)
    \<and> write_customer now tn data (Some e) d = (Inr (refresh_customer now data e), d\<lparr>customers := t\<rparr>)"
proof -
  have wf: "wf_table c_id customer_conflict (customers d)"
    using assms(1) by (simp add: customers_ok_def)
  have "find (\<lambda>r. c_id r = c_id e) (customers d) = Some e"
    by (rule wf_table_find [OF wf assms(2)])
  moreover have "\<not> (\<exists>x \<in> set (customers d). c_id x \<noteq> c_id e \<and> customer_conflict (refresh_customer now data e) x)"
  proof -
    have "customer_conflict (refresh_customer now data e) x = customer_conflict e x" for x
      by (simp add: customer_conflict_def)
    then show ?thesis using wf assms(2) by (simp add: wf_table_def) metis
  qed
  ultimately have "update_row c_id customer_conflict (c_id e) (refresh_customer now data) (customers d)
      = Inr (refresh_customer now data e, map (\<lambda>x. if c_id x = c_id e then refresh_customer now data x else x) (customers d))"
    unfolding update_row_def by simp
  then show ?thesis by (simp add: write_customer_def)
qed

lemma write_customer_ok:
  assumes "customers_ok d" "isValidDocument (cw_document data)" "existing = existing_customer d tn data"
    and "write_customer now tn data existing d = (r, d')"
  shows "customers_ok d' \<and> (\<exists>c. r = Inr c \<and> c \<in> set (customers d') \<and> c_tenantId c = tn
    \<and> (existing = None \<longrightarrow> (\<forall>a \<in> set (customerAddresses d'). address_owner a \<noteq> customer_key c)))"
proof (cases existing)
  case None
  let ?c = "imported_customer now (new_id d) tn data"
  have d': "r = Inr ?c" "d' = bump (d\<lparr>customers := customers d @ [?c]\<rparr>)"
    using write_customer_new [of d tn data now] assms(3,4) None by simp_all
  have create: "create_row customer_conflict ?c (customers d) = Inr (customers d @ [?c])"
    using write_customer_new [of d tn data now] assms(3) None by simp
  have "customers_ok d'"
    using add_customer_ok [OF assms(1) create] assms(2) d'(2)
    by (simp add: imported_customer_def valid_document_def)
  moreover have "address_owner a \<noteq> customer_key ?c" if "a \<in> set (customerAddresses d)" for a
  proof
    assume eq: "address_owner a = customer_key ?c"
    have "address_owner a \<in> customer_key ` set (customers d)"
      using assms(1) that by (auto simp: customers_ok_def)
    then obtain x where "x \<in> set (customers d)" "c_id x = new_id d"
      using eq by (auto simp: customer_key_def imported_customer_def)
    then show False using assms(1) new_id_fresh [of d] by (auto simp: customers_ok_def)
  qed
  ultimately show ?thesis
    using d' by (auto simp: imported_customer_def)
next
  case (Some e)
  then have e: "e \<in> set (customers d)" "c_tenantId e = tn"
    using findFirst_SomeD [of _ "customers d" e] assms(3) by (auto simp: existing_customer_def)
  obtain t where t: "update_row c_id customer_conflict (c_id e) (refresh_customer now data) (customers d)
      = Inr (refresh_customer now data e, t)"
    "r = Inr (refresh_customer now data e)" "d' = d\<lparr>customers := t\<rparr>"
    using write_customer_existing [OF assms(1) e(1), of now data tn] assms(4) Some by auto
  have "customers_ok d'"
    unfolding t(3) by (rule change_customer_ok [OF assms(1) t(1)]) simp_all
  moreover have "refresh_customer now data e \<in> set t"
    using update_InrD [OF t(1)] e(1) by force
  ultimately show ?thesis using t(2,3) e(2) Some by simp
qed

lemma first_address_ok:
  assumes "customers_ok d" "c \<in> set (customers d)" "address_owner a = customer_key c"
    and "\<forall>x \<in> set (customerAddresses d). address_owner x \<noteq> customer_key c"
  shows "customers_ok (bump (d\<lparr>customerAddresses := customerAddresses d @ [a]\<rparr>))"
proof -
  have "updateMany (\<lambda>x. ca_tenantId x = c_tenantId c \<and> ca_customerId x = c_id c \<and> ca_main x)
      (\<lambda>x. x\<lparr>ca_main := False\<rparr>) (customerAddresses d) = customerAddresses d"
    unfolding updateMany_def using assms(4)
    by (intro map_idI) (auto simp: address_owner_def customer_key_def)
  then show ?thesis
    by (intro add_address_ok [OF assms(1,2,3)]) simp
qed

lemma customer_keeps:
  assumes "customers_ok d"
  shows "ensures (\<lambda>r d'. customers_ok d' \<and> (\<exists>a. r = Inr a)) (customer_processRow now i seen d)"
proof -
  note w = write_customer_ok [OF assms validateCustomer_None, of "customer_row i" _ "pi_tenantId i",
      unfolded existing_customer_def]
  show ?thesis
    unfolding customer_processRow_def
    apply (intro ensures_intros)
    subgoal using assms by simp
    subgoal using assms by simp
    subgoal using assms by simp
    subgoal using w by fastforce
    subgoal for data reference normalized existing a d1 c d2
      using w [of existing now a d1] first_address_ok [of d1 c]
      by (auto simp: imported_address_def address_owner_def customer_key_def)
    subgoal using assms by simp
    done
qed

lemma customer_keeps_directory:
  assumes "directory_ok d"
  shows "directory_ok (snd (customer_processRow now i seen d))"
proof -
  have "carriers d' = carriers d \<and> carrierServices d' = carrierServices d"
    if "write_customer now tn data ex d = (r, d')" for now tn data ex r d'
    using that by (auto simp: write_customer_def Let_def split: option.splits sum.splits prod.splits)
  note t = this
  have "ensures (\<lambda>r d'. carriers d' = carriers d \<and> carrierServices d' = carrierServices d)
      (customer_processRow now i seen d)"
    unfolding customer_processRow_def by (intro ensures_intros) (auto dest!: t)
  moreover have "ensures (row_effect seen d) (customer_processRow now i seen d)"
    by (rule customer_effect)
  ultimately show ?thesis
    using assms customer_keeps [of d now i seen] carriers_ok_cong [of d "snd (customer_processRow now i seen d)"]
    by (auto simp: directory_ok_def ensures_def row_effect_def case_prod_unfold)
qed

interpretation customer_import: import_handler customer_processRow directory_ok
proof
  show "row_effect seen d (fst (customer_processRow now i seen d)) (snd (customer_processRow now i seen d))"
    for now i seen d
    using customer_effect [of seen d now i] by (simp add: ensures_def case_prod_unfold)
qed (rule customer_keeps_directory)

section \<open>The carrier handler\<close>

lemma carrier_payload_keeps [simp]: "cr_id (carrier_payload tn r c) = cr_id c"
  "cr_tenantId (carrier_payload tn r c) = tn"
  by (simp_all add: carrier_payload_def)

lemma findExistingCarrier_Some:
  assumes "findExistingCarrier tn data d = Some c"
  shows "c \<in> set (carriers d) \<and> cr_tenantId c = tn"
proof -
  have *: "x \<in> set (carriers d) \<and> cr_tenantId x = tn"
    if "findFirst (\<lambda>c. cr_tenantId c = tn \<and> q c) (carriers d) = Some x" for x q
    using findFirst_SomeD [OF that] by simp
  show ?thesis
    using assms by (auto simp: findExistingCarrier_def split: option.splits if_splits dest: *)
qed

lemma write_carrier_tables: "ensures (\<lambda>r. same_worker_tables d) (write_carrier tn data existing d)"
  unfolding write_carrier_def by (intro ensures_intros) (auto simp: same_worker_tables_def)

lemma carrier_effect: "ensures (row_effect seen d) (carrier_processRow now i seen d)"
  unfolding carrier_processRow_def
  apply (intro ensures_intros)
  subgoal by (auto intro: row_effect_error)
  subgoal by (auto intro: row_effect_error)
  subgoal by (rule row_effect_skipped)
  subgoal using ensuresD [OF write_carrier_tables] by (auto intro!: row_effect_throw)
  subgoal using ensuresD [OF write_carrier_tables] by (auto intro!: row_effect_success)
  subgoal by (auto intro: row_effect_error)
  done

text \<open>An update by identifier changes the row's own tenant to the same tenant only.\<close>

lemma update_carrier_payload_ok:
  assumes "carriers_ok d" "e \<in> set (carriers d)" "cr_tenantId e = tn"
    and "update_row cr_id carrier_conflict (cr_id e) (carrier_payload tn data) (carriers d) = Inr (r, t)"
  shows "carriers_ok (d\<lparr>carriers := t\<rparr>)"
proof -
  let ?f = "\<lambda>c. if cr_id c = cr_id e then carrier_payload tn data c else c"
  have t: "t = map ?f (carriers d)"
    using update_InrD [OF assms(4)] by blast
  have wf: "wf_table cr_id carrier_conflict (carriers d)"
    using assms(1) by (simp add: carriers_ok_def)
  have "carrier_key (?f x) = carrier_key x" if "x \<in> set (carriers d)" for x
    using wf_table_unique [OF wf that assms(2)] assms(3) by (auto simp: carrier_key_def)
  then have "map carrier_key t = map carrier_key (carriers d)"
    by (simp add: t)
  then have "carrier_key ` set t = carrier_key ` set (carriers d)"
    by (metis set_map)
  moreover have "wf_table cr_id carrier_conflict t"
    using carrier_table.wf_update [OF assms(4) wf] by simp
  moreover have "\<forall>c \<in> set t. old_id d (cr_id c)"
    using assms(1) by (auto simp: t carriers_ok_def)
  ultimately show ?thesis
    using assms(1) by (simp add: carriers_ok_def old_id_def)
qed

lemma write_carrier_ok:
  assumes "carriers_ok d" "existing = findExistingCarrier tn data d"
  shows "ensures (\<lambda>r. carriers_ok) (write_carrier tn data existing d)"
  unfolding write_carrier_def using assms
  by (intro ensures_intros)
    (auto intro: update_carrier_payload_ok add_carrier_ok dest!: findExistingCarrier_Some [OF sym])

lemma carrier_keeps:
  assumes "carriers_ok d"
  shows "ensures (\<lambda>r. carriers_ok) (carrier_processRow now i seen d)"
  unfolding carrier_processRow_def using assms ensuresD [OF write_carrier_ok [OF assms refl]]
  by (intro ensures_intros) auto

lemma carrier_keeps_directory:
  assumes "directory_ok d"
  shows "directory_ok (snd (carrier_processRow now i seen d))"
proof -
  have "customers d' = customers d \<and> customerAddresses d' = customerAddresses d"
    if "write_carrier tn data ex d = (r, d')" for tn data ex r d'
    using that by (auto simp: write_carrier_def Let_def split: option.splits sum.splits prod.splits)
  note t = this
  have "ensures (\<lambda>r d'. customers d' = customers d \<and> customerAddresses d' = customerAddresses d)
      (carrier_processRow now i seen d)"
    unfolding carrier_processRow_def by (intro ensures_intros) (auto dest!: t)
  moreover have "ensures (row_effect seen d) (carrier_processRow now i seen d)"
    by (rule carrier_effect)
  ultimately show ?thesis
    using assms carrier_keeps [of d now i seen] customers_ok_cong [of d "snd (carrier_processRow now i seen d)"]
    by (auto simp: directory_ok_def ensures_def row_effect_def case_prod_unfold)
qed

interpretation carrier_import: import_handler carrier_processRow directory_ok
proof
  show "row_effect seen d (fst (carrier_processRow now i seen d)) (snd (carrier_processRow now i seen d))"
    for now i seen d
    using carrier_effect [of seen d now i] by (simp add: ensures_def case_prod_unfold)
qed (rule carrier_keeps_directory)

lemma get_handler_import:
  "get_handler type = Inr h \<Longrightarrow> import_handler (ih_processRow h) directory_ok"
  using customer_import.import_handler_axioms carrier_import.import_handler_axioms
  by (auto simp: get_handler_def handlers_def CustomerImportHandler_def CarrierImportHandler_def split: if_splits option.splits)

section \<open>Properties\<close>

text \<open>The customer a row describes is in the tenant's table, active.\<close>

definition imported_in :: "db \<Rightarrow> ImportRowProcessInput \<Rightarrow> bool" where
  "imported_in d i \<longleftrightarrow> (\<exists>c \<in> set (customers d). c_tenantId c = pi_tenantId i
     \<and> c_document c = Some (cw_document (customer_row i)) \<and> c_name c = row_value i ''name'' \<and> c_active c)"

lemma write_customer_imported:
  assumes "customers_ok d" "existing = existing_customer d (pi_tenantId i) (customer_row i)"
    and "write_customer now (pi_tenantId i) (customer_row i) existing d = (r, d')"
  shows "imported_in d' i"
proof (cases existing)
  case None
  then show ?thesis
    using write_customer_new [of d "pi_tenantId i" "customer_row i" now] assms(2,3)
    by (auto simp: imported_in_def imported_customer_def customer_row_def)
next
  case (Some e)
  then have e: "e \<in> set (customers d)" "c_tenantId e = pi_tenantId i"
    "c_document e = Some (cw_document (customer_row i))"
    using findFirst_SomeD [of _ "customers d" e] assms(2) by (auto simp: existing_customer_def)
  obtain t where t: "update_row c_id customer_conflict (c_id e) (refresh_customer now (customer_row i)) (customers d)
      = Inr (refresh_customer now (customer_row i) e, t)" "d' = d\<lparr>customers := t\<rparr>"
    using write_customer_existing [OF assms(1) e(1), of now "customer_row i" "pi_tenantId i"] assms(3) Some by auto
  have "refresh_customer now (customer_row i) e \<in> set t"
    using update_InrD [OF t(1)] e(1) by force
  then show ?thesis
    unfolding imported_in_def t(2)
    using e by (intro bexI [of _ "refresh_customer now (customer_row i) e"])
      (simp_all add: refresh_customer_def customer_row_def)
qed

lemma customer_success_imported:
  assumes "customers_ok d"
  shows "ensures (\<lambda>r d'. \<forall>res seen'. r = Inr (res, seen') \<and> rs_status res = SUCCESS \<longrightarrow> imported_in d' i)
    (customer_processRow now i seen d)"
proof -
  note w = write_customer_imported [OF assms, of _ i, unfolded existing_customer_def]
  have keep: "imported_in (bump (d1\<lparr>customerAddresses := x\<rparr>)) i = imported_in d1 i" for d1 x
    by (simp add: imported_in_def)
  show ?thesis
    unfolding customer_processRow_def
    apply (intro ensures_intros)
    subgoal by (simp add: row_error_def)
    subgoal by (simp add: row_error_def)
    subgoal by (simp add: row_done_def)
    subgoal by simp
    subgoal for data reference normalized existing a d1 c d2
      using w [of existing now a d1] by (auto simp: keep)
    subgoal by (simp add: row_error_def)
    done
qed


definition example_import_row :: "string_record \<Rightarrow> ImportRowProcessInput" where
  "example_import_row vs = \<lparr> pi_duplicateStrategy = UPDATE, pi_mapping = map (\<lambda>(k, v). (k, k)) vs,
     pi_row = \<lparr> rowNumber = 2, row_values = vs \<rparr>, pi_tenantId = ''t1'' \<rparr>"


text \<open>
  A carrier row can make the handler throw. When the row's code belongs to one carrier of the
  tenant and its document to another, the update breaks the unique document, the database error
  leaves the handler, and the worker turns it into the failure of the whole file.
\<close>

theorem carrier_row_throws:
  assumes "carriers_ok d" "pi_duplicateStrategy i = UPDATE"
    and "validateCarrier (carrier_row i) = None" "rw_code (carrier_row i) \<notin> set seen"
    and "a \<in> set (carriers d)" "cr_tenantId a = pi_tenantId i" "cr_code a = Some (rw_code (carrier_row i))"
    and "b \<in> set (carriers d)" "cr_tenantId b = pi_tenantId i" "cr_document b = Some (rw_document (carrier_row i))"
    and "cr_id a \<noteq> cr_id b" "rw_document (carrier_row i) \<noteq> []"
  shows "carrier_processRow now i seen d = (Inl (PrismaKnownError P2002), d)"
proof -
  let ?data = "carrier_row i" and ?tn = "pi_tenantId i"
  have wf: "wf_table cr_id carrier_conflict (carriers d)"
    using assms(1) by (simp add: carriers_ok_def)
  have code: "rw_code ?data \<noteq> []"
    using assms(3) by (auto simp: validateCarrier_def split: if_splits)
  obtain e where e: "findFirst (\<lambda>c. cr_tenantId c = ?tn \<and> cr_code c = Some (rw_code ?data)) (carriers d) = Some e"
    using assms(5-7) findFirst_None [of "\<lambda>c. cr_tenantId c = ?tn \<and> cr_code c = Some (rw_code ?data)" "carriers d"]
    by fastforce
  have e_props: "e \<in> set (carriers d)" "cr_tenantId e = ?tn" "cr_code e = Some (rw_code ?data)"
    using findFirst_SomeD [OF e] by auto
  have "cr_id e = cr_id a"
    using wf e_props assms(5-7) unfolding wf_table_def carrier_conflict_def by force
  then have "cr_id b \<noteq> cr_id e" using assms(11) by simp
  moreover have "carrier_conflict (carrier_payload ?tn ?data e) b"
    using assms(9,10,12) by (simp add: carrier_conflict_def carrier_payload_def or_null_def)
  ultimately have clash: "\<exists>x \<in> set (carriers d). cr_id x \<noteq> cr_id e \<and> carrier_conflict (carrier_payload ?tn ?data e) x"
    using assms(8) by blast
  have found: "find (\<lambda>r. cr_id r = cr_id e) (carriers d) = Some e"
    by (rule wf_table_find [OF wf e_props(1)])
  have existing: "findExistingCarrier ?tn ?data d = Some e"
    using e code by (simp add: findExistingCarrier_def)
  have "update_row cr_id carrier_conflict (cr_id e) (carrier_payload ?tn ?data) (carriers d) = Inl P2002"
    unfolding update_row_def found option.simps if_P [OF clash] ..
  then have "write_carrier ?tn ?data (Some e) d = (Inl (PrismaKnownError P2002), d)"
    by (simp add: write_carrier_def)
  then show ?thesis
    using assms(2-4) code existing by (simp add: carrier_processRow_def Let_def)
qed

lemma old_id_nat_str: "old_id d (nat_str n) \<longleftrightarrow> n < next_id d"
  by (auto simp: old_id_def)

definition clashing_carriers :: db where
  "clashing_carriers = empty_db\<lparr>next_id := 2, carriers :=
     [(blank_carrier (nat_str 0) ''t1'')\<lparr>cr_code := Some ''AB''\<rparr>,
      (blank_carrier (nat_str 1) ''t1'')\<lparr>cr_document := Some ''22333444000191''\<rparr>]\<rparr>"

theorem carrier_row_throws_witness:
  "fst (carrier_processRow 0 (example_import_row
      [(''name'', ''Ana''), (''code'', ''ab''), (''document'', ''22.333.444/0001-91'')]) [] clashing_carriers)
    = Inl (PrismaKnownError P2002)"
proof -
  let ?i = "example_import_row [(''name'', ''Ana''), (''code'', ''ab''), (''document'', ''22.333.444/0001-91'')]"
  have row: "rw_code (carrier_row ?i) = ''AB''" "rw_document (carrier_row ?i) = ''22333444000191''"
    "validateCarrier (carrier_row ?i) = None"
    by code_simp+
  have ok: "carriers_ok clashing_carriers"
    by (simp add: carriers_ok_def clashing_carriers_def wf_table_def blank_carrier_def
        carrier_conflict_def empty_db_def old_id_nat_str)
  let ?a = "(blank_carrier (nat_str 0) ''t1'')\<lparr>cr_code := Some ''AB''\<rparr>"
  let ?b = "(blank_carrier (nat_str 1) ''t1'')\<lparr>cr_document := Some ''22333444000191''\<rparr>"
  have i: "pi_duplicateStrategy ?i = UPDATE" "pi_tenantId ?i = ''t1''"
    by (simp_all add: example_import_row_def)
  have "?a \<in> set (carriers clashing_carriers)" "?b \<in> set (carriers clashing_carriers)"
    by (simp_all add: clashing_carriers_def)
  then have "carrier_processRow 0 ?i [] clashing_carriers = (Inl (PrismaKnownError P2002), clashing_carriers)"
    by (intro carrier_row_throws [OF ok i(1) row(3), where a = ?a and b = ?b])
      (simp_all only: row i, simp_all add: blank_carrier_def)
  then show ?thesis by simp
qed

end
