(* ===== verification/Imports.thy ===== *)
theory Imports
  imports ImportHandlers
begin

text \<open>
  \<open>imports.service.ts\<close> and \<open>imports.processor.ts\<close>: import jobs, from the upload to the last
  row. The service answers requests; the worker takes jobs from the queue. The worker is a state
  machine whose steps are the stretches between two reads of the job's status, so requests can be
  interleaved with it; \<open>run_worker\<close> is a run without interleaving.
\<close>

section \<open>Settings and requests\<close>

record ImportConfig =
  importMaxRows :: nat
  importMaxFileSizeBytes :: nat
  importStorageDir :: string

record ImportContext =
  ctx_role :: UserRole
  ctx_tenantId :: string
  ctx_userId :: string
  ctx_requestId :: "string option"

record ListImportsDto =
  li_search :: "string option"
  li_type :: "ImportType option"
  li_status :: "ImportStatus option"
  li_userId :: "string option"
  li_page :: nat
  li_perPage :: nat

record CreateImportDto =
  ci_type :: ImportType
  ci_mapping :: "(string \<times> json) list"
  ci_duplicateStrategy :: "DuplicateStrategy option"

record ImportRowsQueryDto =
  rq_status :: "string option"
  rq_page :: nat
  rq_perPage :: nat

record RetryImportDto =
  ri_mapping :: "(string \<times> json) list option"
  ri_duplicateStrategy :: "DuplicateStrategy option"

record ImportJobDto =
  jd_createdAt :: date
  jd_errorRows :: nat
  jd_failureReason :: "string option"
  jd_fileType :: string
  jd_filename :: string
  jd_finishedAt :: "date option"
  jd_id :: string
  jd_mimeType :: "string option"
  jd_processedRows :: nat
  jd_progress :: int
  jd_sizeBytes :: nat
  jd_skippedRows :: nat
  jd_startedAt :: "date option"
  jd_status :: ImportStatus
  jd_successRows :: nat
  jd_totalRows :: nat
  jd_type :: ImportType
  jd_updatedAt :: date
  jd_user :: "(string \<times> string \<times> string) option"

record ImportRowResultDto =
  rd_createdResourceId :: "string option"
  rd_errorCode :: "string option"
  rd_errorMessage :: "string option"
  rd_externalReference :: "string option"
  rd_id :: string
  rd_normalizedData :: "(string \<times> json) list"
  rd_rowNumber :: nat
  rd_status :: ImportRowStatus

record ImportJobDetailDto = ImportJobDto +
  jd_mapping :: string_record
  jd_options :: "(string \<times> json) list"
  jd_rows :: "ImportRowResultDto PaginatedResult"

record ImportPreviewDto =
  pv_detectedHeaders :: "string list"
  pv_duplicateHeaders :: "string list"
  pv_fields :: "ImportField list"
  pv_mapping :: string_record
  pv_previewRows :: "ParsedImportRow list"
  pv_structuralErrors :: "string list"
  pv_totalRows :: nat
  pv_type :: ImportType

section \<open>Reading stored JSON\<close>

definition asRecord :: "json \<Rightarrow> (string \<times> json) list" where
  "asRecord v = (case v of JObj es \<Rightarrow> es | _ \<Rightarrow> [])"

fun string_entries :: "(string \<times> json) list \<Rightarrow> string_record" where
  "string_entries [] = []"
| "string_entries ((k, v) # es) = (case v of JStr s \<Rightarrow> (k, s) # string_entries es | _ \<Rightarrow> string_entries es)"

definition asStringRecord :: "json \<Rightarrow> string_record" where
  "asStringRecord v = string_entries (asRecord v)"

definition record_json :: "string_record \<Rightarrow> json" where
  "record_json r = JObj (map (\<lambda>(k, v). (k, JStr v)) r)"

fun strategy_name :: "DuplicateStrategy \<Rightarrow> string" where
  "strategy_name SKIP = ''SKIP''"
| "strategy_name UPDATE = ''UPDATE''"
| "strategy_name FAIL = ''FAIL''"

definition strategy_option :: "string \<Rightarrow> json" where
  "strategy_option s = JObj [(''duplicateStrategy'', JStr s)]"

text \<open>
  The strategy stored with a job; the service only ever stores a string, so the conversion of
  other JSON values by \<open>String\<close> is left out.
\<close>

definition stored_strategy :: "json \<Rightarrow> string" where
  "stored_strategy v =
     (case map_of (asRecord v) ''duplicateStrategy'' of Some (JStr s) \<Rightarrow> s | _ \<Rightarrow> ''UPDATE'')"

definition readDuplicateStrategy :: "json \<Rightarrow> DuplicateStrategy" where
  "readDuplicateStrategy v =
     (case map_of (asRecord v) ''duplicateStrategy'' of
        Some (JStr s) \<Rightarrow> if s = ''SKIP'' then SKIP else if s = ''FAIL'' then FAIL else UPDATE
      | _ \<Rightarrow> UPDATE)"

section \<open>Checks and presentation\<close>

definition missingRequiredFields :: "ImportField list \<Rightarrow> string_record \<Rightarrow> string list" where
  "missingRequiredFields fs mapping =
     map (\<lambda>f. ''Campo obrigatorio sem mapeamento: '' @ fld_label f @ ''.'')
       (filter (\<lambda>f. fld_required f \<and> \<not> truthy (map_of mapping (fld_key f))) fs)"

definition normalizeMapping :: "(string \<times> json) list \<Rightarrow> string_record" where
  "normalizeMapping entries =
     map (\<lambda>(k, v). (k, normalizeHeader v)) (filter (\<lambda>(k, v). trim v \<noteq> []) (string_entries entries))"

definition word_char :: "char \<Rightarrow> bool" where
  "word_char c = (is_lower c \<or> is_upper c \<or> is_digit c \<or> c \<in> {CHR ''_'', CHR ''.'', CHR ''-'', CHR '' ''})"

fun replace_runs :: "bool \<Rightarrow> string \<Rightarrow> string" where
  "replace_runs run [] = []"
| "replace_runs run (c # cs) =
     (if word_char c then c # replace_runs False cs
      else if run then replace_runs True cs else CHR ''_'' # replace_runs True cs)"

definition sanitizeFilename :: "string \<Rightarrow> string" where
  "sanitizeFilename filename =
     (let s = take 255 (replace_runs False filename) in if s = [] then ''import.csv'' else s)"

definition fileExtension :: "string \<Rightarrow> string" where
  "fileExtension filename = toLowerCase (last (split_on (CHR ''.'') filename))"

definition validateUpload :: "ImportConfig \<Rightarrow> Upload option \<Rightarrow> Upload result" where
  "validateUpload cfg file =
     (case file of
        None \<Rightarrow> Inl (BadRequestException ''Arquivo obrigatorio.'')
      | Some f \<Rightarrow>
          if up_size f = 0 \<or> up_buffer f = [] then Inl (BadRequestException ''Arquivo vazio.'')
          else if up_size f > importMaxFileSizeBytes cfg
          then Inl (BadRequestException ''Arquivo excede o tamanho maximo.'')
          else if fileExtension (up_originalname f) \<notin> {''csv'', ''xlsx''}
            \<or> up_mimetype f \<notin> {''text/csv'', ''application/csv'', ''application/vnd.ms-excel'',
                ''application/vnd.openxmlformats-officedocument.spreadsheetml.sheet'',
                ''application/octet-stream''}
          then Inl (BadRequestException ''Formato de arquivo invalido. Envie CSV ou XLSX.'')
          else Inr f)"

text \<open>The user a job includes; a foreign key guarantees that there is one.\<close>

definition creator :: "db \<Rightarrow> ImportJob \<Rightarrow> (string \<times> string \<times> string) option" where
  "creator d job = map_option (\<lambda>u. (u_email u, u_id u, u_name u))
     (findFirst (\<lambda>u. u_id u = ij_createdById job) (users d))"

definition presentJob :: "db \<Rightarrow> ImportJob \<Rightarrow> ImportJobDto" where
  "presentJob d job =
     \<lparr> jd_createdAt = ij_createdAt job, jd_errorRows = ij_errorRows job,
       jd_failureReason = ij_failureReason job, jd_fileType = ij_fileType job,
       jd_filename = ij_filename job, jd_finishedAt = ij_finishedAt job, jd_id = ij_id job,
       jd_mimeType = ij_mimeType job, jd_processedRows = ij_processedRows job,
       jd_progress = ij_progress job, jd_sizeBytes = ij_sizeBytes job,
       jd_skippedRows = ij_skippedRows job, jd_startedAt = ij_startedAt job,
       jd_status = ij_status job, jd_successRows = ij_successRows job,
       jd_totalRows = ij_totalRows job, jd_type = ij_type job, jd_updatedAt = ij_updatedAt job,
       jd_user = creator d job \<rparr>"

definition presentRow :: "ImportRowResult \<Rightarrow> ImportRowResultDto" where
  "presentRow r =
     \<lparr> rd_createdResourceId = ir_createdResourceId r, rd_errorCode = ir_errorCode r,
       rd_errorMessage = ir_errorMessage r, rd_externalReference = ir_externalReference r,
       rd_id = ir_id r, rd_normalizedData = asRecord (ir_normalizedData r),
       rd_rowNumber = ir_rowNumber r, rd_status = ir_status r \<rparr>"

definition isCancelableStatus :: "ImportStatus \<Rightarrow> bool" where
  "isCancelableStatus status = (status = PENDING \<or> status = PROCESSING)"

definition isRetryableStatus :: "ImportStatus \<Rightarrow> bool" where
  "isRetryableStatus status = (status = ImportStatus.FAILED \<or> status = ImportStatus.CANCELED)"

section \<open>Reads\<close>

definition listWhere :: "ImportContext \<Rightarrow> ListImportsDto \<Rightarrow> ImportJob \<Rightarrow> bool" where
  "listWhere context query job =
     (ij_tenantId job = ctx_tenantId context
      \<and> (if ctx_role context = OPERATOR then ij_createdById job = ctx_userId context
         else if truthy (li_userId query) then Some (ij_createdById job) = li_userId query else True)
      \<and> (case li_status query of None \<Rightarrow> True | Some s \<Rightarrow> ij_status job = s)
      \<and> (case li_type query of None \<Rightarrow> True | Some t \<Rightarrow> ij_type job = t)
      \<and> (case li_search query of
           None \<Rightarrow> True
         | Some s \<Rightarrow> if trim s = [] then True else includes_str (ij_filename job) (trim s)))"

definition listImports :: "ImportContext \<Rightarrow> ListImportsDto \<Rightarrow> db \<Rightarrow> ImportJobDto PaginatedResult" where
  "listImports context query d =
     paginated (li_page query) (li_perPage query)
       (orderBy (then_by (desc ij_createdAt) (desc ij_id)) (findMany (listWhere context query) (importJobs d)))
       (presentJob d)"

definition getAuthorizedJob :: "ImportContext \<Rightarrow> string \<Rightarrow> db \<Rightarrow> ImportJob result" where
  "getAuthorizedJob context importJobId d =
     (case findFirst (\<lambda>j. ij_id j = importJobId \<and> ij_tenantId j = ctx_tenantId context) (importJobs d) of
        None \<Rightarrow> Inl (NotFoundException ''Importacao nao encontrada.'')
      | Some job \<Rightarrow>
          if ctx_role context = OPERATOR \<and> ij_createdById job \<noteq> ctx_userId context
          then Inl (ForbiddenException ''Voce nao pode acessar esta importacao.'')
          else Inr job)"

fun row_status_name :: "ImportRowStatus \<Rightarrow> string" where
  "row_status_name SUCCESS = ''SUCCESS''"
| "row_status_name ERROR = ''ERROR''"
| "row_status_name SKIPPED = ''SKIPPED''"

text \<open>A status filter that is no row status is refused by the database client.\<close>

definition row_filter :: "string option \<Rightarrow> (ImportRowResult \<Rightarrow> bool) result" where
  "row_filter status =
     (if \<not> truthy status then Inr (\<lambda>r. True)
      else if the status \<in> row_status_name ` {SUCCESS, ERROR, SKIPPED}
      then Inr (\<lambda>r. row_status_name (ir_status r) = the status)
      else Inl (InternalError ''PrismaClientValidationError''))"

definition getImport ::
  "ImportContext \<Rightarrow> string \<Rightarrow> ImportRowsQueryDto \<Rightarrow> db \<Rightarrow> ImportJobDetailDto result" where
  "getImport context importJobId query d =
     bindE (getAuthorizedJob context importJobId d) (\<lambda>job.
     bindE (row_filter (rq_status query)) (\<lambda>selected.
       let rows = orderBy (asc ir_rowNumber)
                    (findMany (\<lambda>r. ir_importJobId r = importJobId \<and> ir_tenantId r = ctx_tenantId context \<and> selected r)
                      (importRowResults d))
       in Inr (ImportJobDto.extend (presentJob d job)
            (ImportJobDetailDto.fields (asStringRecord (ij_mapping job)) (asRecord (ij_options job))
               (paginated (rq_page query) (rq_perPage query) rows presentRow)))))"

definition previewImport :: "ImportLibs \<Rightarrow> ImportConfig \<Rightarrow> Upload option \<Rightarrow> ImportType \<Rightarrow> ImportPreviewDto result" where
  "previewImport libs cfg file type =
     bindE (validateUpload cfg file) (\<lambda>upload.
     bindE (parse libs (up_buffer upload) (up_originalname upload) (importMaxRows cfg)) (\<lambda>parsed.
     bindE (autoMapping (Some type) (headers parsed)) (\<lambda>mapping.
     bindE (import_fields (Some type)) (\<lambda>fs.
       Inr \<lparr> pv_detectedHeaders = headers parsed, pv_duplicateHeaders = [], pv_fields = fs,
             pv_mapping = mapping, pv_previewRows = take 10 (file_rows parsed),
             pv_structuralErrors = missingRequiredFields fs mapping,
             pv_totalRows = length (file_rows parsed), pv_type = type \<rparr>))))"

section \<open>The queue\<close>

text \<open>
  \<open>add\<close> ignores an identifier that is already there; \<open>remove\<close> drops a waiting job and throws
  for an active one, which the caller catches. A job has three attempts.
\<close>

definition queue_add :: "string \<Rightarrow> ImportQueuePayload \<Rightarrow> db \<Rightarrow> db" where
  "queue_add jobId payload d =
     (if jobId \<in> fst ` set (importQueue d) then d
      else d\<lparr>importQueue := importQueue d @ [(jobId, payload, 3)]\<rparr>)"

definition queue_remove :: "string \<Rightarrow> db \<Rightarrow> db" where
  "queue_remove jobId d = d\<lparr>importQueue := filter (\<lambda>e. fst e \<noteq> jobId) (importQueue d)\<rparr>"

definition import_audit :: "date \<Rightarrow> AuditAction \<Rightarrow> string \<Rightarrow> string \<Rightarrow> string \<Rightarrow> json option \<Rightarrow> string option \<Rightarrow> db \<Rightarrow> db" where
  "import_audit now action tenantId actorId jobId metadata requestId =
     record_audit now \<lparr> ai_action = action, ai_actorId = Some actorId, ai_entityId = Some jobId,
       ai_entityType = Some ''ImportJob'', ai_ipHash = None, ai_metadata = metadata,
       ai_requestId = requestId, ai_tenantId = Some tenantId \<rparr>"

section \<open>Requests that change state\<close>

fun import_type_name :: "ImportType \<Rightarrow> string" where
  "import_type_name CUSTOMERS = ''CUSTOMERS''"
| "import_type_name CARRIERS = ''CARRIERS''"

definition new_import_job ::
  "date \<Rightarrow> string \<Rightarrow> ImportContext \<Rightarrow> Upload \<Rightarrow> CreateImportDto \<Rightarrow> string \<Rightarrow> string_record \<Rightarrow> nat
    \<Rightarrow> StoredImportFile \<Rightarrow> ImportJob" where
  "new_import_job now i context upload dto fileHash mapping rows stored =
     \<lparr> ij_id = i, ij_tenantId = ctx_tenantId context, ij_createdById = ctx_userId context,
       ij_type = ci_type dto, ij_filename = sanitizeFilename (up_originalname upload),
       ij_fileType = fileExtension (up_originalname upload), ij_storedFilename = Some (si_key stored),
       ij_mimeType = Some (up_mimetype upload), ij_sizeBytes = si_size stored,
       ij_fileHash = Some fileHash, ij_status = PENDING, ij_totalRows = rows, ij_processedRows = 0,
       ij_successRows = 0, ij_errorRows = 0, ij_skippedRows = 0, ij_progress = 0,
       ij_mapping = record_json mapping,
       ij_options = strategy_option (strategy_name (coalesce (ci_duplicateStrategy dto) UPDATE)),
       ij_errorSummary = JObj [(''structuralErrors'', JArr [])], ij_startedAt = None,
       ij_finishedAt = None, ij_failureReason = None, ij_createdAt = now, ij_updatedAt = now \<rparr>"

definition createImport ::
  "ImportLibs \<Rightarrow> ImportConfig \<Rightarrow> date \<Rightarrow> ImportContext \<Rightarrow> Upload option \<Rightarrow> CreateImportDto
    \<Rightarrow> ImportJobDto handler" where
  "createImport libs cfg now context file dto d =
     (case validateUpload cfg file of Inl e \<Rightarrow> (Inl e, d) | Inr upload \<Rightarrow>
      case parse libs (up_buffer upload) (up_originalname upload) (importMaxRows cfg) of
        Inl e \<Rightarrow> (Inl e, d) | Inr parsed \<Rightarrow>
      case import_fields (Some (ci_type dto)) of Inl e \<Rightarrow> (Inl e, d) | Inr fs \<Rightarrow>
      let mapping = normalizeMapping (ci_mapping dto);
          structuralErrors = missingRequiredFields fs mapping;
          fileHash = lib_sha256 libs (up_buffer upload) in
      if structuralErrors \<noteq> [] then (Inl (BadRequestException (join '' '' structuralErrors)), d)
      else
      case findFirst (\<lambda>j. True) (orderBy (desc ij_createdAt)
             (findMany (\<lambda>j. ij_fileHash j = Some fileHash \<and> ij_status j \<in> {PENDING, PROCESSING, COMPLETED}
                \<and> ij_tenantId j = ctx_tenantId context \<and> ij_type j = ci_type dto) (importJobs d))) of
        Some duplicate \<Rightarrow> (Inr (presentJob d duplicate), d)
      | None \<Rightarrow>
      case save_import_file (lib_sha256 libs) (importStorageDir cfg) (up_buffer upload)
             (up_originalname upload) (ctx_tenantId context) d of
        (Inl e, d1) \<Rightarrow> (Inl e, d1)
      | (Inr stored, d1) \<Rightarrow>
          let job = new_import_job now (new_id d1) context upload dto fileHash mapping
                      (length (file_rows parsed)) stored;
              d2 = bump (d1\<lparr>importJobs := importJobs d1 @ [job]\<rparr>);
              d3 = queue_add (''import:'' @ ij_id job)
                     \<lparr> q_importJobId = ij_id job, q_tenantId = ctx_tenantId context,
                       q_userId = ctx_userId context \<rparr> d2;
              d4 = import_audit now IMPORT_CREATED (ctx_tenantId context) (ctx_userId context) (ij_id job)
                     (Some (JObj [(''filename'', JStr (ij_filename job)),
                        (''rows'', JNum (of_nat (ij_totalRows job))),
                        (''type'', JStr (import_type_name (ij_type job)))]))
                     (ctx_requestId context) d3
          in (Inr (presentJob d4 job), d4))"

text \<open>The update of one job by its identifier, which every caller has just read.\<close>

definition update_job :: "date \<Rightarrow> string \<Rightarrow> (ImportJob \<Rightarrow> ImportJob) \<Rightarrow> db \<Rightarrow> (ImportJob \<times> db) result" where
  "update_job now i f d =
     (case update_row ij_id no_conflict i (\<lambda>j. (f j)\<lparr>ij_updatedAt := now\<rparr>) (importJobs d) of
        Inl e \<Rightarrow> Inl (PrismaKnownError e)
      | Inr (job, t) \<Rightarrow> Inr (job, d\<lparr>importJobs := t\<rparr>))"

definition cancelImport :: "date \<Rightarrow> ImportContext \<Rightarrow> string \<Rightarrow> ImportJobDto handler" where
  "cancelImport now context importJobId d =
     (case getAuthorizedJob context importJobId d of Inl e \<Rightarrow> (Inl e, d) | Inr job \<Rightarrow>
      if \<not> isCancelableStatus (ij_status job)
      then (Inl (BadRequestException ''Somente imports pendentes ou em processamento podem ser cancelados.''), d)
      else
      let d1 = queue_remove (''import:'' @ ij_id job) d in
      case update_job now (ij_id job)
             (\<lambda>j. j\<lparr>ij_failureReason := Some ''Cancelado pelo usuario.'', ij_finishedAt := Some now,
                ij_status := ImportStatus.CANCELED\<rparr>) d1 of
        Inl e \<Rightarrow> (Inl e, d1)
      | Inr (updated, d2) \<Rightarrow>
          let d3 = import_audit now IMPORT_CANCELED (ctx_tenantId context) (ctx_userId context)
                     (ij_id job) None None d2
          in (Inr (presentJob d3 updated), d3))"

definition reset_job :: "RetryImportDto \<Rightarrow> ImportJob \<Rightarrow> ImportJob \<Rightarrow> ImportJob" where
  "reset_job dto job j =
     j\<lparr>ij_errorRows := 0, ij_errorSummary := JNull, ij_failureReason := None, ij_finishedAt := None,
       ij_mapping := record_json (case ri_mapping dto of Some m \<Rightarrow> normalizeMapping m
                       | None \<Rightarrow> asStringRecord (ij_mapping job)),
       ij_options := strategy_option (case ri_duplicateStrategy dto of Some s \<Rightarrow> strategy_name s
                       | None \<Rightarrow> stored_strategy (ij_options job)),
       ij_processedRows := 0, ij_progress := 0, ij_skippedRows := 0, ij_startedAt := None,
       ij_status := PENDING, ij_successRows := 0\<rparr>"

definition retryImport :: "date \<Rightarrow> ImportContext \<Rightarrow> string \<Rightarrow> RetryImportDto \<Rightarrow> ImportJobDto handler" where
  "retryImport now context importJobId dto d =
     (case getAuthorizedJob context importJobId d of Inl e \<Rightarrow> (Inl e, d) | Inr job \<Rightarrow>
      if \<not> isRetryableStatus (ij_status job)
      then (Inl (BadRequestException ''Somente imports com falha ou cancelados podem ser repetidos.''), d)
      else
      case update_job now (ij_id job) (reset_job dto job)
             (d\<lparr>importRowResults := deleteMany (\<lambda>r. ir_importJobId r = ij_id job
                  \<and> ir_tenantId r = ctx_tenantId context) (importRowResults d)\<rparr>) of
        Inl e \<Rightarrow> (Inl e, d)
      | Inr (_, d1) \<Rightarrow>
          let d2 = queue_add (''import:'' @ ij_id job @ '':retry:'' @ nat_str (nat now))
                     \<lparr> q_importJobId = ij_id job, q_tenantId = ctx_tenantId context,
                       q_userId = ctx_userId context \<rparr> d1;
              d3 = import_audit now IMPORT_RETRIED (ctx_tenantId context) (ctx_userId context)
                     (ij_id job) None None d2
          in (bindE (getAuthorizedJob context (ij_id job) d3) (\<lambda>j. Inr (presentJob d3 j)), d3))"

definition errorReport :: "date \<Rightarrow> ImportContext \<Rightarrow> string \<Rightarrow> (string \<times> string) handler" where
  "errorReport now context importJobId d =
     (case getAuthorizedJob context importJobId d of Inl e \<Rightarrow> (Inl e, d) | Inr job \<Rightarrow>
      let rows = take 5000 (orderBy (asc ir_rowNumber)
                   (findMany (\<lambda>r. ir_importJobId r = ij_id job \<and> ir_status r = ERROR
                      \<and> ir_tenantId r = ctx_tenantId context) (importRowResults d)));
          csv = csv_text ([''linha'', ''referencia'', ''codigo'', ''erro'']
                  # map (\<lambda>r. [nat_str (ir_rowNumber r), coalesce (ir_externalReference r) [],
                        coalesce (ir_errorCode r) [], coalesce (ir_errorMessage r) []]) rows)
      in (Inr (csv, ''import-'' @ ij_id job @ ''-erros.csv''),
          import_audit now IMPORT_FILE_DOWNLOADED (ctx_tenantId context) (ctx_userId context) (ij_id job)
            (Some (JObj [(''report'', JStr ''errors'')])) None d))"

section \<open>The worker\<close>

definition progressPercent :: "nat \<Rightarrow> nat \<Rightarrow> int" where
  "progressPercent processed total_rows =
     (if total_rows = 0 then 0
      else min 100 (math_round (fl (fl (of_nat processed / of_nat total_rows) * 100))))"

fun import_status_name :: "ImportStatus \<Rightarrow> string" where
  "import_status_name ImportStatus.PENDING = ''PENDING''"
| "import_status_name PROCESSING = ''PROCESSING''"
| "import_status_name COMPLETED = ''COMPLETED''"
| "import_status_name ImportStatus.FAILED = ''FAILED''"
| "import_status_name ImportStatus.CANCELED = ''CANCELED''"

definition eventNameFor :: "ImportStatus \<Rightarrow> string" where
  "eventNameFor status =
     (if status = COMPLETED then ''import.completed''
      else if status = ImportStatus.FAILED then ''import.failed''
      else if status = ImportStatus.CANCELED then ''import.cancelled''
      else if status = PROCESSING then ''import.progress'' else ''import.started'')"

definition isFinalImportStatus :: "ImportStatus \<Rightarrow> bool" where
  "isFinalImportStatus status = (status \<in> {COMPLETED, ImportStatus.FAILED, ImportStatus.CANCELED})"

record ImportCounts =
  k_total :: nat
  k_processed :: nat
  k_success :: nat
  k_error :: nat
  k_skipped :: nat

definition eventPayload :: "date \<Rightarrow> string \<Rightarrow> ImportType \<Rightarrow> ImportStatus \<Rightarrow> ImportCounts \<Rightarrow> json" where
  "eventPayload now i type status k =
     JObj [(''errorRows'', JNum (of_nat (k_error k))), (''importJobId'', JStr i),
       (''processedRows'', JNum (of_nat (k_processed k))),
       (''progress'', JNum (of_int (progressPercent (k_processed k) (k_total k)))),
       (''skippedRows'', JNum (of_nat (k_skipped k))), (''status'', JStr (import_status_name status)),
       (''successRows'', JNum (of_nat (k_success k))), (''timestamp'', JNum (of_int now)),
       (''totalRows'', JNum (of_nat (k_total k))), (''type'', JStr (import_type_name type))]"

definition emit_progress ::
  "date \<Rightarrow> ImportQueuePayload \<Rightarrow> ImportJob \<Rightarrow> ImportStatus \<Rightarrow> ImportCounts \<Rightarrow> db \<Rightarrow> db" where
  "emit_progress now payload job status k d =
     (let d1 = emitImportEvent (q_tenantId payload) (eventNameFor status)
                 (eventPayload now (ij_id job) (ij_type job) status k) (Some (q_userId payload)) d
      in if isFinalImportStatus status then emitDashboardRefresh now (q_tenantId payload) ''import'' d1 else d1)"

text \<open>
  A worker that has taken a job: the job as it was read at the start, the rows still to do and
  the counts. It reads the file first, then checks the job's status before each row, and ends by
  returning or by throwing, in which case the queue tries again.
\<close>

record WorkerState =
  w_payload :: ImportQueuePayload
  w_job :: ImportJob
  w_rows :: "ParsedImportRow list"
  w_seen :: "string list"
  w_counts :: ImportCounts

datatype worker =
    Loading ImportQueuePayload ImportJob
  | Working WorkerState
  | Checked WorkerState ParsedImportRow "ParsedImportRow list"
  | Returned
  | Threw http_error

text \<open>The \<open>catch\<close> block: the message of the error, the status, an audit row and an event.\<close>

fun error_message :: "ImportLibs \<Rightarrow> http_error \<Rightarrow> string" where
  "error_message libs (BadRequestException m) = m"
| "error_message libs (UnauthorizedException m) = m"
| "error_message libs (ForbiddenException m) = m"
| "error_message libs (NotFoundException m) = m"
| "error_message libs (ConflictException m) = m"
| "error_message libs (TooManyRequests m) = m"
| "error_message libs (ServiceUnavailableException m) = m"
| "error_message libs (PrismaKnownError c) = lib_error_text libs (PrismaKnownError c)"
| "error_message libs (InternalError m) = lib_error_text libs (InternalError m)"

definition job_counts :: "ImportJob \<Rightarrow> ImportCounts" where
  "job_counts j = \<lparr> k_total = ij_totalRows j, k_processed = ij_processedRows j,
     k_success = ij_successRows j, k_error = ij_errorRows j, k_skipped = ij_skippedRows j \<rparr>"

definition fail_job :: "ImportLibs \<Rightarrow> date \<Rightarrow> ImportQueuePayload \<Rightarrow> ImportJob \<Rightarrow> http_error \<Rightarrow> db \<Rightarrow> worker \<times> db" where
  "fail_job libs now payload job e d =
     (let message = error_message libs e in
      case update_job now (ij_id job)
             (\<lambda>j. j\<lparr>ij_failureReason := Some (take 500 message), ij_finishedAt := Some now,
                ij_status := ImportStatus.FAILED\<rparr>) d of
        Inl e' \<Rightarrow> (Threw e', d)
      | Inr (_, d1) \<Rightarrow>
          (Threw e,
           emit_progress now payload job ImportStatus.FAILED (job_counts job)
             (import_audit now IMPORT_FAILED (q_tenantId payload) (q_userId payload) (ij_id job)
                (Some (JObj [(''message'', JStr (take 160 message))])) None d1)))"

text \<open>Taking a job from the queue: it must still exist and have a file.\<close>

definition begin_job :: "date \<Rightarrow> ImportQueuePayload \<Rightarrow> db \<Rightarrow> worker \<times> db" where
  "begin_job now payload d =
     (case findFirst (\<lambda>j. ij_id j = q_importJobId payload \<and> ij_tenantId j = q_tenantId payload) (importJobs d) of
        None \<Rightarrow> (Returned, d)
      | Some job \<Rightarrow>
      if \<not> truthy (ij_storedFilename job) then (Returned, d)
      else
      case update_job now (ij_id job) (\<lambda>j. j\<lparr>ij_startedAt := Some now, ij_status := PROCESSING\<rparr>) d of
        Inl e \<Rightarrow> (Threw e, d)
      | Inr (_, d1) \<Rightarrow>
          (Loading payload job,
           emit_progress now payload job PROCESSING
             \<lparr> k_total = ij_totalRows job, k_processed = 0, k_success = 0, k_error = 0, k_skipped = 0 \<rparr>
             (import_audit now IMPORT_STARTED (q_tenantId payload) (q_userId payload) (ij_id job) None None d1)))"

definition load_file ::
  "ImportLibs \<Rightarrow> ImportConfig \<Rightarrow> date \<Rightarrow> ImportQueuePayload \<Rightarrow> ImportJob \<Rightarrow> db \<Rightarrow> worker \<times> db" where
  "load_file libs cfg now payload job d =
     (case bindE (read_import_file (importStorageDir cfg) (q_tenantId payload)
                    (coalesce (ij_storedFilename job) []) d) (\<lambda>buffer.
           bindE (parse libs buffer (ij_filename job) (importMaxRows cfg)) (\<lambda>parsed.
           bindE (get_handler (Some (ij_type job))) (\<lambda>h. Inr parsed))) of
        Inl e \<Rightarrow> fail_job libs now payload job e d
      | Inr parsed \<Rightarrow>
          (Working \<lparr> w_payload = payload, w_job = job, w_rows = file_rows parsed, w_seen = [],
             w_counts = \<lparr> k_total = length (file_rows parsed), k_processed = 0, k_success = 0,
                k_error = 0, k_skipped = 0 \<rparr> \<rparr>, d))"

definition count_row :: "ImportRowStatus \<Rightarrow> ImportCounts \<Rightarrow> ImportCounts" where
  "count_row status k =
     k\<lparr>k_processed := k_processed k + 1,
       k_success := k_success k + (if status = SUCCESS then 1 else 0),
       k_error := k_error k + (if status = ERROR then 1 else 0),
       k_skipped := k_skipped k + (if status = SKIPPED then 1 else 0)\<rparr>"

definition row_result_conflict :: "ImportRowResult \<Rightarrow> ImportRowResult \<Rightarrow> bool" where
  "row_result_conflict r x =
     (ir_tenantId r = ir_tenantId x \<and> ir_importJobId r = ir_importJobId x \<and> ir_rowNumber r = ir_rowNumber x)"

definition row_result :: "string \<Rightarrow> string \<Rightarrow> string \<Rightarrow> ParsedImportRow \<Rightarrow> ImportRowProcessResult \<Rightarrow> ImportRowResult" where
  "row_result i tenantId jobId row res =
     \<lparr> ir_id = i, ir_tenantId = tenantId, ir_importJobId = jobId, ir_rowNumber = rowNumber row,
       ir_status = rs_status res, ir_externalReference = rs_externalReference res,
       ir_normalizedData = rs_normalizedData res, ir_errorCode = rs_errorCode res,
       ir_errorMessage = rs_errorMessage res, ir_createdResourceId = rs_createdResourceId res \<rparr>"

definition store_counts :: "ImportCounts \<Rightarrow> ImportJob \<Rightarrow> ImportJob" where
  "store_counts k j =
     j\<lparr>ij_errorRows := k_error k, ij_processedRows := k_processed k, ij_skippedRows := k_skipped k,
       ij_successRows := k_success k, ij_totalRows := k_total k\<rparr>"

definition do_row ::
  "ImportLibs \<Rightarrow> row_handler \<Rightarrow> date \<Rightarrow> WorkerState \<Rightarrow> ParsedImportRow \<Rightarrow> ParsedImportRow list \<Rightarrow> db
    \<Rightarrow> worker \<times> db" where
  "do_row libs process now w row rest d =
     (let payload = w_payload w; job = w_job w;
          i = \<lparr> pi_duplicateStrategy = readDuplicateStrategy (ij_options job),
                pi_mapping = asStringRecord (ij_mapping job), pi_row = row,
                pi_tenantId = q_tenantId payload \<rparr> in
      case process now i (w_seen w) d of
        (Inl e, d1) \<Rightarrow> fail_job libs now payload job e d1
      | (Inr (res, seen), d1) \<Rightarrow>
      let k = count_row (rs_status res) (w_counts w) in
      case create_row row_result_conflict
             (row_result (new_id d1) (q_tenantId payload) (ij_id job) row res) (importRowResults d1) of
        Inl e \<Rightarrow> fail_job libs now payload job (PrismaKnownError e) d1
      | Inr t \<Rightarrow>
      case update_job now (ij_id job)
             (\<lambda>j. (store_counts k j)\<lparr>ij_progress := progressPercent (k_processed k) (k_total k)\<rparr>)
             (bump (d1\<lparr>importRowResults := t\<rparr>)) of
        Inl e \<Rightarrow> fail_job libs now payload job e (bump (d1\<lparr>importRowResults := t\<rparr>))
      | Inr (_, d2) \<Rightarrow>
          (Working (w\<lparr>w_rows := rest, w_seen := seen, w_counts := k\<rparr>),
           emit_progress now payload job PROCESSING k d2))"

definition final_status :: "ImportCounts \<Rightarrow> ImportStatus" where
  "final_status k = (if k_error k > 0 \<and> k_success k = 0 then ImportStatus.FAILED else COMPLETED)"

definition finish_job :: "ImportLibs \<Rightarrow> date \<Rightarrow> WorkerState \<Rightarrow> db \<Rightarrow> worker \<times> db" where
  "finish_job libs now w d =
     (let payload = w_payload w; job = w_job w; k = w_counts w; status = final_status k in
      case update_job now (ij_id job)
             (\<lambda>j. (store_counts k j)\<lparr>ij_errorSummary := (if k_error k > 0
                     then JObj [(''message'', JStr (nat_str (k_error k) @ '' linha(s) com erro.''))] else JNull),
                   ij_failureReason := (if status = ImportStatus.FAILED then Some ''Todas as linhas falharam.'' else None),
                   ij_finishedAt := Some now, ij_progress := 100, ij_status := status\<rparr>) d of
        Inl e \<Rightarrow> fail_job libs now payload job e d
      | Inr (_, d1) \<Rightarrow>
          (Returned,
           emit_progress now payload job status k
             (import_audit now (if status = COMPLETED then IMPORT_COMPLETED else IMPORT_FAILED)
                (q_tenantId payload) (q_userId payload) (ij_id job)
                (Some (JObj [(''errorRows'', JNum (of_nat (k_error k))),
                   (''processedRows'', JNum (of_nat (k_processed k))),
                   (''skippedRows'', JNum (of_nat (k_skipped k))),
                   (''successRows'', JNum (of_nat (k_success k)))])) None d1)))"

definition job_canceled :: "string \<Rightarrow> db \<Rightarrow> bool" where
  "job_canceled i d =
     (case findFirst (\<lambda>j. ij_id j = i) (importJobs d) of
        None \<Rightarrow> False | Some j \<Rightarrow> ij_status j = ImportStatus.CANCELED)"

definition check_job ::
  "date \<Rightarrow> WorkerState \<Rightarrow> ParsedImportRow \<Rightarrow> ParsedImportRow list \<Rightarrow> db \<Rightarrow> worker \<times> db" where
  "check_job now w row rest d =
     (if job_canceled (ij_id (w_job w)) d
      then (Returned, emit_progress now (w_payload w) (w_job w) ImportStatus.CANCELED (w_counts w) d)
      else (Checked w row rest, d))"

text \<open>One step: what runs between two points where the worker waits for the status of its job.\<close>

fun worker_step :: "ImportLibs \<Rightarrow> ImportConfig \<Rightarrow> date \<Rightarrow> worker \<Rightarrow> db \<Rightarrow> worker \<times> db" where
  "worker_step libs cfg now (Loading payload job) d = load_file libs cfg now payload job d"
| "worker_step libs cfg now (Working w) d =
     (case w_rows w of [] \<Rightarrow> finish_job libs now w d | row # rest \<Rightarrow> check_job now w row rest d)"
| "worker_step libs cfg now (Checked w row rest) d =
     (case get_handler (Some (ij_type (w_job w))) of
        Inl e \<Rightarrow> fail_job libs now (w_payload w) (w_job w) e d
      | Inr h \<Rightarrow> do_row libs (ih_processRow h) now w row rest d)"
| "worker_step libs cfg now Returned d = (Returned, d)"
| "worker_step libs cfg now (Threw e) d = (Threw e, d)"

fun stopped :: "worker \<Rightarrow> bool" where
  "stopped Returned = True"
| "stopped (Threw e) = True"
| "stopped _ = False"

fun work_left :: "nat \<Rightarrow> worker \<Rightarrow> nat" where
  "work_left maxRows (Loading payload job) = 2 * maxRows + 2"
| "work_left maxRows (Working w) = 2 * length (w_rows w) + 1"
| "work_left maxRows (Checked w row rest) = 2 * length rest + 2"
| "work_left maxRows Returned = 0"
| "work_left maxRows (Threw e) = 0"

section \<open>A worker ends\<close>

lemma fail_job_stops: "stopped (fst (fail_job libs now payload job e d))"
  by (auto simp: fail_job_def Let_def split: sum.splits)

lemma parse_rows_le: "parse libs buffer filename maxRows = Inr p \<Longrightarrow> length (file_rows p) \<le> maxRows"
  using parse_Inr [of libs buffer filename maxRows p] by (simp add: validate_Inr)

lemma work_left_stopped [simp]: "stopped w \<Longrightarrow> work_left m w = 0"
  by (cases w) simp_all

lemma load_file_left: "ensures (\<lambda>w d. work_left (importMaxRows cfg) w < 2 * importMaxRows cfg + 2) (load_file libs cfg now payload job d)"
  unfolding load_file_def
proof (intro ensures_intros)
  fix e show "ensures (\<lambda>w d. work_left (importMaxRows cfg) w < 2 * importMaxRows cfg + 2) (fail_job libs now payload job e d)"
    using fail_job_stops [of libs now payload job e d] by (simp add: ensures_def case_prod_unfold)
qed (auto simp: bindE_eq_Inr dest!: parse_rows_le)

lemma do_row_left:
  "ensures (\<lambda>w' d. work_left m w' \<le> 2 * length rest + 1) (do_row libs process now w row rest d)"
proof -
  have f: "ensures (\<lambda>w' d. work_left m w' \<le> 2 * length rest + 1) (fail_job libs now payload job e d)" for payload job e d
    using fail_job_stops [of libs now payload job e d] by (simp add: ensures_def case_prod_unfold)
  show ?thesis
    unfolding do_row_def by (intro ensures_intros f) simp
qed

lemma finish_job_stops: "stopped (fst (finish_job libs now w d))"
  by (auto simp: finish_job_def Let_def fail_job_stops split: sum.splits)

lemma worker_step_less:
  assumes "\<not> stopped w"
  shows "work_left (importMaxRows cfg) (fst (worker_step libs cfg now w d)) < work_left (importMaxRows cfg) w"
proof (cases w)
  case (Loading payload job)
  then show ?thesis
    using load_file_left [of cfg libs now payload job d] by (simp add: ensures_def case_prod_unfold)
next
  case (Working s)
  then show ?thesis
    using finish_job_stops [of libs now s d] by (auto simp: check_job_def split: list.splits)
next
  case (Checked s row rest)
  then show ?thesis
    using do_row_left [of "importMaxRows cfg" rest libs _ now s row d] fail_job_stops [of libs now _ _ _ d]
    by (auto simp: ensures_def case_prod_unfold less_Suc_eq_le split: sum.splits)
qed (use assms in simp_all)

text \<open>The runs of a worker: alone, and with a database that others change between its steps.\<close>

function run_worker :: "ImportLibs \<Rightarrow> ImportConfig \<Rightarrow> date \<Rightarrow> worker \<Rightarrow> db \<Rightarrow> worker \<times> db" where
  "run_worker libs cfg now w d =
     (if stopped w then (w, d)
      else (case worker_step libs cfg now w d of (w', d') \<Rightarrow> run_worker libs cfg now w' d'))"
  by pat_completeness auto
termination
  apply (relation "measure (\<lambda>(libs, cfg, now, w, d). work_left (importMaxRows cfg) w)")
   apply (rule wf_measure)
  subgoal for libs cfg now w d w' d'
    using worker_step_less [of w cfg libs now d] by (cases "worker_step libs cfg now w d") simp
  done

declare run_worker.simps [simp del]

fun interleaved :: "ImportLibs \<Rightarrow> ImportConfig \<Rightarrow> (nat \<Rightarrow> date) \<Rightarrow> (nat \<Rightarrow> db) \<Rightarrow> worker \<Rightarrow> nat \<Rightarrow> worker" where
  "interleaved libs cfg clock dbs w 0 = w"
| "interleaved libs cfg clock dbs w (Suc n) =
     fst (worker_step libs cfg (clock n) (interleaved libs cfg clock dbs w n) (dbs n))"

lemma interleaved_left:
  "work_left (importMaxRows cfg) (interleaved libs cfg clock dbs w n) \<le> work_left (importMaxRows cfg) w - n
   \<or> stopped (interleaved libs cfg clock dbs w n)"
proof (induction n)
  case (Suc n)
  let ?w = "interleaved libs cfg clock dbs w n"
  show ?case
  proof (cases "stopped ?w")
    case True
    then show ?thesis by (cases ?w) simp_all
  next
    case False
    then show ?thesis
      using Suc worker_step_less [of ?w cfg libs "clock n" "dbs n"] by auto
  qed
qed simp

lemma work_left_0: "work_left m w = 0 \<Longrightarrow> stopped w"
  by (cases w) simp_all

section \<open>The invariant of the import\<close>

lemma progress_bounds: "0 \<le> progressPercent p t \<and> progressPercent p t \<le> 100"
proof -
  have "0 \<le> fl (fl (of_nat p / of_nat t) * 100)"
    by (intro fl_nonneg mult_nonneg_nonneg) simp_all
  then have "0 \<le> math_round (fl (fl (of_nat p / of_nat t) * 100))"
    using math_round_mono [of 0] by (simp add: math_round_def)
  then show ?thesis by (simp add: progressPercent_def)
qed

definition job_ok :: "ImportJob \<Rightarrow> bool" where
  "job_ok j \<longleftrightarrow> ij_processedRows j = ij_successRows j + ij_errorRows j + ij_skippedRows j
     \<and> ij_processedRows j \<le> ij_totalRows j \<and> 0 \<le> ij_progress j \<and> ij_progress j \<le> 100"

definition counts_ok :: "ImportCounts \<Rightarrow> ParsedImportRow list \<Rightarrow> bool" where
  "counts_ok k rows \<longleftrightarrow> k_processed k = k_success k + k_error k + k_skipped k
     \<and> k_processed k + length rows = k_total k"

fun worker_ok :: "worker \<Rightarrow> bool" where
  "worker_ok (Working w) = counts_ok (w_counts w) (w_rows w)"
| "worker_ok (Checked w row rest) = counts_ok (w_counts w) (row # rest)"
| "worker_ok _ = True"

definition imports_ok :: "db \<Rightarrow> bool" where
  "imports_ok d \<longleftrightarrow> directory_ok d
     \<and> wf_table ij_id no_conflict (importJobs d) \<and> (\<forall>j \<in> set (importJobs d). job_ok j \<and> old_id d (ij_id j))
     \<and> wf_table ir_id row_result_conflict (importRowResults d)
     \<and> (\<forall>r \<in> set (importRowResults d). old_id d (ir_id r))"

interpretation job_table: table ij_id no_conflict
  by unfold_locales (simp add: no_conflict_def)

interpretation row_result_table: table ir_id row_result_conflict
  by unfold_locales (auto simp: row_result_conflict_def)

text \<open>The tables the invariant of the import reads.\<close>

definition same_import_tables :: "db \<Rightarrow> db \<Rightarrow> bool" where
  "same_import_tables d d' \<longleftrightarrow> customers d' = customers d \<and> customerAddresses d' = customerAddresses d
     \<and> carriers d' = carriers d \<and> carrierServices d' = carrierServices d
     \<and> importJobs d' = importJobs d \<and> importRowResults d' = importRowResults d \<and> next_id d \<le> next_id d'"

lemma imports_ok_cong: "imports_ok d \<Longrightarrow> same_import_tables d d' \<Longrightarrow> imports_ok d'"
  using directory_ok_cong [of d d'] by (auto simp: imports_ok_def same_import_tables_def intro: old_id_mono)

lemma same_import_refl [simp]: "same_import_tables d d"
  by (simp add: same_import_tables_def)

lemma imports_ok_audit: "imports_ok d \<Longrightarrow> imports_ok (import_audit now a tn u j m r d)"
  by (rule imports_ok_cong [of d]) (simp_all add: same_import_tables_def import_audit_def)

lemma imports_ok_emit: "imports_ok d \<Longrightarrow> imports_ok (emit_progress now p j st k d)"
  by (rule imports_ok_cong [of d])
    (simp_all add: same_import_tables_def emit_progress_def emitImportEvent_def emitDashboardRefresh_def Let_def)

lemma imports_ok_queue: "imports_ok d \<Longrightarrow> imports_ok (queue_add i p d)" "imports_ok d \<Longrightarrow> imports_ok (queue_remove i d)"
  by (rule imports_ok_cong [of d], simp_all add: same_import_tables_def queue_add_def queue_remove_def)+

lemma update_job_ok:
  assumes "imports_ok d" "update_job now i f d = Inr (j, d')"
    and "\<And>j. ij_id (f j) = ij_id j" "\<And>j. job_ok j \<Longrightarrow> job_ok (f j)"
  shows "imports_ok d'"
proof -
  let ?g = "\<lambda>j. (f j)\<lparr>ij_updatedAt := now\<rparr>"
  obtain t where t: "update_row ij_id no_conflict i ?g (importJobs d) = Inr (j, t)" "d' = d\<lparr>importJobs := t\<rparr>"
    using assms(2) by (auto simp: update_job_def split: sum.splits)
  have "wf_table ij_id no_conflict t"
    using job_table.wf_update [OF t(1)] assms(1,3) by (simp add: imports_ok_def)
  moreover have "job_ok (?g x)" if "job_ok x" for x
    using assms(4) [OF that] by (simp add: job_ok_def)
  moreover have "t = map (\<lambda>x. if ij_id x = i then ?g x else x) (importJobs d)"
    using update_InrD [OF t(1)] by blast
  moreover have "directory_ok d'"
    using assms(1) directory_ok_cong [of d d'] by (simp add: imports_ok_def t(2))
  ultimately show ?thesis
    using assms(1,3) by (auto simp: imports_ok_def t(2) old_id_def)
qed

lemma store_counts_ok: "counts_ok k rows \<Longrightarrow> job_ok j \<Longrightarrow> job_ok (store_counts k j)"
  by (auto simp: job_ok_def store_counts_def counts_ok_def)

lemma store_counts_id [simp]: "ij_id (store_counts k j) = ij_id j"
  by (simp add: store_counts_def)

lemma job_ok_progress: "job_ok j \<Longrightarrow> 0 \<le> p \<Longrightarrow> p \<le> 100 \<Longrightarrow> job_ok (j\<lparr>ij_progress := p\<rparr>)"
  by (simp add: job_ok_def)

lemma final_job_ok:
  "job_ok j \<Longrightarrow> job_ok (j\<lparr>ij_errorSummary := a, ij_failureReason := b, ij_finishedAt := c, ij_progress := 100, ij_status := st\<rparr>)"
  by (simp add: job_ok_def)

lemma count_row_ok: "counts_ok k (row # rest) \<Longrightarrow> counts_ok (count_row st k) rest"
  by (cases st) (auto simp: counts_ok_def count_row_def)

section \<open>Every step keeps it\<close>

lemma fail_job_ok: "imports_ok d \<Longrightarrow> ensures (\<lambda>w d'. imports_ok d' \<and> worker_ok w) (fail_job libs now p job e d)"
  unfolding fail_job_def
  by (intro ensures_intros) (auto intro!: imports_ok_emit imports_ok_audit elim!: update_job_ok simp: job_ok_def)

lemma begin_job_ok: "imports_ok d \<Longrightarrow> ensures (\<lambda>w d'. imports_ok d' \<and> worker_ok w) (begin_job now p d)"
  unfolding begin_job_def
  by (intro ensures_intros) (auto intro!: imports_ok_emit imports_ok_audit elim!: update_job_ok simp: job_ok_def)

lemma load_file_ok: "imports_ok d \<Longrightarrow> ensures (\<lambda>w d'. imports_ok d' \<and> worker_ok w) (load_file libs cfg now p job d)"
  unfolding load_file_def by (intro ensures_intros fail_job_ok) (simp_all add: counts_ok_def)

lemma check_job_ok:
  "imports_ok d \<Longrightarrow> counts_ok (w_counts w) (row # rest) \<Longrightarrow>
   ensures (\<lambda>w d'. imports_ok d' \<and> worker_ok w) (check_job now w row rest d)"
  unfolding check_job_def by (intro ensures_intros) (simp_all add: imports_ok_emit)

lemma finish_job_ok:
  assumes "imports_ok d" "counts_ok (w_counts w) []"
  shows "ensures (\<lambda>w d'. imports_ok d' \<and> worker_ok w) (finish_job libs now w d)"
proof -
  have ok: "job_ok (store_counts (w_counts w) j)" if "job_ok j" for j
    by (rule store_counts_ok [OF assms(2) that])
  show ?thesis
    unfolding finish_job_def
    apply (intro ensures_intros fail_job_ok)
     apply (rule assms(1))
    apply (auto intro!: imports_ok_emit imports_ok_audit final_job_ok ok elim!: update_job_ok [OF assms(1)])
    done
qed

lemma add_row_result_ok:
  assumes "imports_ok d" "create_row row_result_conflict r (importRowResults d) = Inr t" "ir_id r = new_id d"
  shows "imports_ok (bump (d\<lparr>importRowResults := t\<rparr>))"
proof -
  have t: "t = importRowResults d @ [r]"
    using assms(2) by (simp add: create_Inr)
  have "ir_id r \<notin> ir_id ` set (importRowResults d)"
    using assms(1,3) new_id_fresh [of d] by (auto simp: imports_ok_def)
  then have "wf_table ir_id row_result_conflict t"
    using assms(1,2) row_result_table.wf_create by (auto simp: imports_ok_def)
  moreover have "directory_ok (bump (d\<lparr>importRowResults := t\<rparr>))"
    using assms(1) directory_ok_cong [of d] by (simp add: imports_ok_def)
  ultimately show ?thesis
    using assms(1,3) t old_id_mono [of d _ "bump (d\<lparr>importRowResults := t\<rparr>)"]
      old_id_new_id [of d "bump (d\<lparr>importRowResults := t\<rparr>)"]
    by (auto simp: imports_ok_def)
qed

context import_handler
begin

lemma process_ok:
  assumes "inv = directory_ok" "imports_ok d" "process now i seen d = (r, d')"
  shows "imports_ok d'"
  using assms keeps [of d now i seen] effect [of seen d now i]
  by (auto simp: imports_ok_def row_effect_def intro: old_id_mono)

lemma do_row_ok:
  assumes "inv = directory_ok" "imports_ok d" "counts_ok (w_counts w) (row # rest)"
  shows "ensures (\<lambda>w d'. imports_ok d' \<and> worker_ok w) (do_row libs process now w row rest d)"
proof -
  have k: "counts_ok (count_row st (w_counts w)) rest" for st
    by (rule count_row_ok [OF assms(3)])
  then have job: "job_ok ((store_counts (count_row st (w_counts w)) j)\<lparr>ij_progress :=
      progressPercent (k_processed (count_row st (w_counts w))) (k_total (count_row st (w_counts w)))\<rparr>)"
    if "job_ok j" for st j
    using that progress_bounds by (intro job_ok_progress store_counts_ok) auto
  note p = process_ok [OF assms(1,2)]
  have r: "imports_ok (bump (d1\<lparr>importRowResults := t\<rparr>))"
    if "process now i seen d = (x, d1)"
      "create_row row_result_conflict (row_result (new_id d1) tn jid row res) (importRowResults d1) = Inr t"
    for i seen x d1 tn jid res t
    by (rule add_row_result_ok [OF p [OF that(1)] that(2)]) (simp add: row_result_def)
  show ?thesis
    unfolding do_row_def
    apply (intro ensures_intros fail_job_ok)
    subgoal using p by auto
    subgoal using p by auto
    subgoal using r by auto
    subgoal using k job by (auto intro!: imports_ok_emit elim!: update_job_ok [OF r])
    done
qed

end

lemma worker_step_ok:
  assumes "imports_ok d" "worker_ok w"
  shows "ensures (\<lambda>w d'. imports_ok d' \<and> worker_ok w) (worker_step libs cfg now w d)"
proof (cases w)
  case (Loading p job)
  then show ?thesis using load_file_ok [OF assms(1)] by simp
next
  case (Working s)
  then show ?thesis
    using assms finish_job_ok [of d s] check_job_ok [of d s] by (cases "w_rows s") auto
next
  case (Checked s row rest)
  show ?thesis
  proof (cases "get_handler (Some (ij_type (w_job s)))")
    case (Inl e)
    then show ?thesis using Checked fail_job_ok [OF assms(1)] by simp
  next
    case (Inr h)
    then show ?thesis
      using Checked assms import_handler.do_row_ok [OF get_handler_import [OF Inr] refl, of d s row rest] by simp
  qed
qed (use assms in \<open>simp_all add: ensures_def\<close>)

section \<open>Requests keep it\<close>

lemma save_import_same: "save_import_file sha dir b fn tn d = (r, d') \<Longrightarrow> same_import_tables d d'"
  by (auto simp: save_import_file_def write_new_file_def Let_def same_import_tables_def split: sum.splits if_splits)

lemma add_job_ok:
  assumes "imports_ok d" "ij_id job = new_id d" "job_ok job"
  shows "imports_ok (bump (d\<lparr>importJobs := importJobs d @ [job]\<rparr>))"
proof -
  have "ij_id job \<notin> ij_id ` set (importJobs d)"
    using assms(1,2) new_id_fresh [of d] by (auto simp: imports_ok_def)
  then have "wf_table ij_id no_conflict (importJobs d @ [job])"
    using assms(1) by (auto simp: imports_ok_def wf_table_def no_conflict_def)
  moreover have "directory_ok (bump (d\<lparr>importJobs := importJobs d @ [job]\<rparr>))"
    using assms(1) directory_ok_cong [of d] by (simp add: imports_ok_def)
  ultimately show ?thesis
    using assms old_id_mono [of d _ "bump (d\<lparr>importJobs := importJobs d @ [job]\<rparr>)"]
      old_id_new_id [of d "bump (d\<lparr>importJobs := importJobs d @ [job]\<rparr>)"]
    by (auto simp: imports_ok_def)
qed

lemma new_import_job_ok [simp]:
  "job_ok (new_import_job now i c u dto h m n st)" "ij_id (new_import_job now i c u dto h m n st) = i"
  by (simp_all add: job_ok_def new_import_job_def)

lemma createImport_ok:
  "imports_ok d \<Longrightarrow> ensures (\<lambda>r. imports_ok) (createImport libs cfg now c file dto d)"
  unfolding createImport_def
  by (intro ensures_intros)
    (auto intro!: imports_ok_audit imports_ok_queue add_job_ok dest!: save_import_same intro: imports_ok_cong)

lemma cancelImport_ok: "imports_ok d \<Longrightarrow> ensures (\<lambda>r. imports_ok) (cancelImport now c i d)"
  unfolding cancelImport_def
  by (intro ensures_intros)
    (auto intro!: imports_ok_audit imports_ok_queue elim!: update_job_ok [OF imports_ok_queue(2)] simp: job_ok_def)

lemma drop_results_ok: "imports_ok d \<Longrightarrow> imports_ok (d\<lparr>importRowResults := deleteMany p (importRowResults d)\<rparr>)"
  using directory_ok_cong [of d "d\<lparr>importRowResults := deleteMany p (importRowResults d)\<rparr>"]
  by (auto simp: imports_ok_def wf_table_def deleteMany_def distinct_map_filter old_id_def)

lemma retryImport_ok: "imports_ok d \<Longrightarrow> ensures (\<lambda>r. imports_ok) (retryImport now c i dto d)"
  unfolding retryImport_def
  by (intro ensures_intros)
    (auto intro!: imports_ok_audit imports_ok_queue elim!: update_job_ok [OF drop_results_ok]
      simp: job_ok_def reset_job_def)

lemma errorReport_ok: "imports_ok d \<Longrightarrow> ensures (\<lambda>r. imports_ok) (errorReport now c i d)"
  unfolding errorReport_def by (intro ensures_intros) (auto intro!: imports_ok_audit)

section \<open>The system\<close>

text \<open>
  Requests and workers share the database. A worker has the identifier of its queue job and the
  attempts left; at most two run at a time, a job that throws is queued again while attempts are
  left, and the customers and carriers services work on the same tables.
\<close>

record import_system =
  sys_db :: db
  sys_workers :: "(string \<times> ImportQueuePayload \<times> nat \<times> worker) list"

inductive import_request :: "ImportLibs \<Rightarrow> ImportConfig \<Rightarrow> db \<Rightarrow> db \<Rightarrow> bool" for libs cfg where
  create: "import_request libs cfg d (snd (createImport libs cfg now c file dto d))"
| cancel: "import_request libs cfg d (snd (cancelImport now c i d))"
| retry: "import_request libs cfg d (snd (retryImport now c i dto d))"
| report: "import_request libs cfg d (snd (errorReport now c i d))"

definition requeue :: "string \<Rightarrow> nat \<Rightarrow> worker \<Rightarrow> ImportQueuePayload \<Rightarrow> db \<Rightarrow> db" where
  "requeue jid n w payload d =
     (case w of Threw e \<Rightarrow> if n > 1 then d\<lparr>importQueue := importQueue d @ [(jid, payload, n - 1)]\<rparr> else d
      | _ \<Rightarrow> d)"

inductive import_step :: "ImportLibs \<Rightarrow> ImportConfig \<Rightarrow> import_system \<Rightarrow> import_system \<Rightarrow> bool"
  for libs cfg where
  request: "import_request libs cfg (sys_db s) d' \<Longrightarrow> import_step libs cfg s (s\<lparr>sys_db := d'\<rparr>)"
| customers: "customer_step tn (sys_db s) d' \<Longrightarrow> import_step libs cfg s (s\<lparr>sys_db := d'\<rparr>)"
| carriers: "carrier_step tn (sys_db s) d' \<Longrightarrow> import_step libs cfg s (s\<lparr>sys_db := d'\<rparr>)"
| take: "importQueue (sys_db s) = xs @ (jid, payload, n) # ys \<Longrightarrow> length (sys_workers s) < 2
    \<Longrightarrow> begin_job now payload (sys_db s\<lparr>importQueue := xs @ ys\<rparr>) = (w, d')
    \<Longrightarrow> import_step libs cfg s \<lparr> sys_db = d', sys_workers = sys_workers s @ [(jid, payload, n, w)] \<rparr>"
| work: "sys_workers s = xs @ (jid, payload, n, w) # ys \<Longrightarrow> worker_step libs cfg now w (sys_db s) = (w', d')
    \<Longrightarrow> import_step libs cfg s \<lparr> sys_db = d', sys_workers = xs @ (jid, payload, n, w') # ys \<rparr>"
| leave: "sys_workers s = xs @ (jid, payload, n, w) # ys \<Longrightarrow> stopped w
    \<Longrightarrow> import_step libs cfg s \<lparr> sys_db = requeue jid n w payload (sys_db s), sys_workers = xs @ ys \<rparr>"

inductive_cases import_step_elim: "import_step libs cfg s s'"

definition system_ok :: "import_system \<Rightarrow> bool" where
  "system_ok s \<longleftrightarrow> imports_ok (sys_db s) \<and> (\<forall>(jid, payload, n, w) \<in> set (sys_workers s). worker_ok w)
     \<and> length (sys_workers s) \<le> 2"

lemma import_request_ok: "import_request libs cfg d d' \<Longrightarrow> imports_ok d \<Longrightarrow> imports_ok d'"
  using createImport_ok cancelImport_ok retryImport_ok errorReport_ok
  by (auto elim!: import_request.cases simp: ensures_snd)

text \<open>Requests of the other services leave the import tables alone.\<close>

lemma other_service_ok:
  assumes "imports_ok d" "directory_ok d'" "importJobs d' = importJobs d"
    "importRowResults d' = importRowResults d" "next_id d \<le> next_id d'"
  shows "imports_ok d'"
  using assms by (auto simp: imports_ok_def intro: old_id_mono)

definition other_tables :: "db \<Rightarrow> db \<Rightarrow> bool" where
  "other_tables d d' \<longleftrightarrow> importJobs d' = importJobs d \<and> importRowResults d' = importRowResults d \<and> next_id d \<le> next_id d'"

lemma customer_step_other:
  assumes "customer_step tn d d'"
  shows "other_tables d d' \<and> carriers d' = carriers d \<and> carrierServices d' = carrierServices d"
proof -
  let ?Q = "\<lambda>(r::CustomerDto result) d'. other_tables d d' \<and> carriers d' = carriers d \<and> carrierServices d' = carrierServices d"
  let ?R = "\<lambda>(r::CustomerAddressDto result) d'. other_tables d d' \<and> carriers d' = carriers d \<and> carrierServices d' = carrierServices d"
  have "ensures ?Q (createCustomer now tn actor i d)" "ensures ?Q (updateCustomer now tn actor cid u d)"
    "ensures ?Q (updateCustomerStatus now tn actor cid active d)" "ensures ?R (createAddress now tn actor cid a d)"
    for now actor i cid u active a
    unfolding customer_handlers by (intro ensures_intros, auto simp: other_tables_def customer_audit_def)+
  then show ?thesis using assms by (auto elim!: customer_step.cases simp: ensures_def case_prod_unfold)
qed

lemma carrier_step_other:
  assumes "carrier_step tn d d'"
  shows "other_tables d d' \<and> customers d' = customers d \<and> customerAddresses d' = customerAddresses d"
proof -
  let ?Q = "\<lambda>(r::CarrierDto result) d'. other_tables d d' \<and> customers d' = customers d \<and> customerAddresses d' = customerAddresses d"
  let ?R = "\<lambda>(r::CarrierTransportServiceDto result) d'. other_tables d d' \<and> customers d' = customers d \<and> customerAddresses d' = customerAddresses d"
  have save: "other_tables d d1 \<and> customers d1 = customers d \<and> customerAddresses d1 = customerAddresses d"
    if "save_image sha dir b c fn t d = (r, d1)" for sha dir b c fn t r d1
    using that by (auto simp: save_image_def write_new_file_def other_tables_def Let_def split: sum.splits if_splits)
  have "ensures ?Q (createCarrier tn i d)" "ensures ?Q (updateCarrier now tn actor cid i d)"
    "ensures ?Q (updateCarrierStatus now tn actor cid active d)" "ensures ?R (createService tn cid sv d)"
    "ensures ?R (updateService now tn actor cid sid sv d)"
    for now actor i cid sid sv active
    unfolding carrier_handlers by (intro ensures_intros, auto simp: other_tables_def carrier_audit_def)+
  moreover have "ensures ?Q (uploadLogo sha cfg now tn actor cid upload d)" for sha cfg now actor cid upload
    unfolding uploadLogo_def
    by (intro ensures_intros) (auto dest!: save simp: other_tables_def carrier_audit_def)
  ultimately show ?thesis using assms by (auto elim!: carrier_step.cases simp: ensures_def case_prod_unfold)
qed

lemma import_step_ok:
  assumes "import_step libs cfg s s'" "system_ok s"
  shows "system_ok s'"
  using assms
proof (cases rule: import_step.cases)
  case (request d')
  then show ?thesis using assms(2) import_request_ok by (auto simp: system_ok_def)
next
  case (customers tn d')
  then have "directory_ok d'"
    using assms(2) customer_step_other [OF customers(2)] customer_step_ok [OF customers(2)] carriers_ok_cong [of "sys_db s" d']
    by (auto simp: system_ok_def imports_ok_def directory_ok_def other_tables_def)
  then show ?thesis
    using assms(2) customers customer_step_other [OF customers(2)] other_service_ok [of "sys_db s" d']
    by (auto simp: system_ok_def other_tables_def)
next
  case (carriers tn d')
  then have "directory_ok d'"
    using assms(2) carrier_step_other [OF carriers(2)] carrier_step_ok [OF carriers(2)] customers_ok_cong [of "sys_db s" d']
    by (auto simp: system_ok_def imports_ok_def directory_ok_def other_tables_def)
  then show ?thesis
    using assms(2) carriers carrier_step_other [OF carriers(2)] other_service_ok [of "sys_db s" d']
    by (auto simp: system_ok_def other_tables_def)
next
  case (take xs jid payload n ys now w d')
  have "imports_ok (sys_db s\<lparr>importQueue := xs @ ys\<rparr>)"
    using assms(2) by (auto simp: system_ok_def same_import_tables_def intro: imports_ok_cong)
  then show ?thesis
    using take assms(2) ensuresD [OF begin_job_ok take(4)] by (auto simp: system_ok_def)
next
  case (work xs jid payload n w ys now w' d')
  then have "worker_ok w" "imports_ok (sys_db s)"
    using assms(2) by (auto simp: system_ok_def)
  then show ?thesis
    using work assms(2) ensuresD [OF worker_step_ok work(3)] by (auto simp: system_ok_def)
next
  case (leave xs jid payload n w ys)
  have "imports_ok (requeue jid n w payload (sys_db s))"
    using assms(2) by (auto simp: system_ok_def requeue_def same_import_tables_def intro: imports_ok_cong split: worker.splits)
  then show ?thesis using leave assms(2) by (auto simp: system_ok_def)
qed

end
