(* ===== verification/ImportRuns.thy ===== *)
theory ImportRuns
  imports Imports
begin

text \<open>
  What an import guarantees: a worker ends whatever the others do to the database, the system of
  requests, services and workers keeps the import tables consistent, an undisturbed customer
  import handles every row once, and the three places where cancellation and repetition do not do
  what they are for.
\<close>

section \<open>Termination and safety\<close>

text \<open>
  C19: a worker ends. Whatever database it finds at each of its steps, after at most two steps for
  each permitted row, one for loading the file and one for the final update, it has returned or
  thrown.
\<close>

theorem worker_ends:
  "stopped (interleaved libs cfg clock dbs (Loading payload job) (2 * importMaxRows cfg + 2))"
  using interleaved_left [of cfg libs clock dbs "Loading payload job" "2 * importMaxRows cfg + 2"] work_left_0
  by auto

text \<open>
  C11: the import system is safe. Any interleaving of the requests of the imports, customers and
  carriers services with the steps of at most two workers keeps every table well-formed, the
  counts of every job equal to the sum of its outcomes and within its total, its progress between
  0 and 100, one stored result for each row of a job, and at most two workers.
\<close>

theorem import_system_safe:
  assumes "(import_step libs cfg)\<^sup>*\<^sup>* s s'" "system_ok s"
  shows "system_ok s'"
  using assms by (induction rule: rtranclp_induct) (auto intro: import_step_ok)

definition empty_system :: import_system where
  "empty_system = \<lparr> sys_db = empty_db, sys_workers = [] \<rparr>"

lemma empty_imports_ok: "imports_ok empty_db"
  using empty_customers_ok empty_carriers_ok
  by (simp add: imports_ok_def directory_ok_def wf_table_def) (simp add: empty_db_def)

definition example_context :: ImportContext where
  "example_context = \<lparr> ctx_role = ADMIN, ctx_tenantId = ''t1'', ctx_userId = ''u1'', ctx_requestId = None \<rparr>"

definition example_config :: ImportConfig where
  "example_config = \<lparr> importMaxRows = 10, importMaxFileSizeBytes = 1000, importStorageDir = ''/data'' \<rparr>"

definition example_text :: string where
  "example_text = ''name,document'' @ [LF] @ ''Ana,12345678909''"

definition example_upload :: Upload where
  "example_upload = \<lparr> up_buffer = example_text, up_size = length example_text,
     up_originalname = ''a.csv'', up_mimetype = ''text/csv'' \<rparr>"

definition example_import :: CreateImportDto where
  "example_import = \<lparr> ci_type = CUSTOMERS, ci_mapping =
     [(''name'', JStr ''name''), (''document'', JStr ''document'')], ci_duplicateStrategy = None \<rparr>"

definition created_db :: db where
  "created_db = snd (createImport text_libs example_config 5 example_context (Some example_upload) example_import empty_db)"

theorem import_system_safe_witness: "system_ok (empty_system\<lparr>sys_db := created_db\<rparr>)"
proof -
  have step: "import_step text_libs example_config empty_system (empty_system\<lparr>sys_db := created_db\<rparr>)"
    unfolding created_db_def using import_step.request [of text_libs example_config empty_system] import_request.create
    by (simp add: empty_system_def)
  show ?thesis
    using import_system_safe [OF r_into_rtranclp, OF step] empty_imports_ok
    by (simp add: empty_system_def system_ok_def)
qed

section \<open>A run without interference\<close>

text \<open>The whole of \<open>process\<close>, when no other request comes between its steps.\<close>

definition process_job :: "ImportLibs \<Rightarrow> ImportConfig \<Rightarrow> date \<Rightarrow> ImportQueuePayload \<Rightarrow> db \<Rightarrow> worker \<times> db" where
  "process_job libs cfg now payload d = (case begin_job now payload d of (w, d1) \<Rightarrow> run_worker libs cfg now w d1)"

definition results_of :: "db \<Rightarrow> ImportJob \<Rightarrow> nat list" where
  "results_of d job = map ir_rowNumber
     (filter (\<lambda>r. ir_tenantId r = ij_tenantId job \<and> ir_importJobId r = ij_id job) (importRowResults d))"

definition job_in :: "db \<Rightarrow> string \<Rightarrow> (ImportJob \<Rightarrow> bool) \<Rightarrow> bool" where
  "job_in d i P \<longleftrightarrow> (\<exists>j \<in> set (importJobs d). ij_id j = i \<and> P j)"

definition active_job :: "db \<Rightarrow> ImportJob \<Rightarrow> bool" where
  "active_job d job \<longleftrightarrow> job_in d (ij_id job) (\<lambda>j. ij_status j \<noteq> ImportStatus.CANCELED)"

lemma imports_table: "imports_ok d \<Longrightarrow> wf_table ij_id no_conflict (importJobs d)"
  by (simp add: imports_ok_def)

lemma update_job_in:
  assumes "imports_ok d" "job_in d i Q"
    and "\<And>j. ij_id j = i \<Longrightarrow> Q j \<Longrightarrow> ij_id (f j) = i \<and> P ((f j)\<lparr>ij_updatedAt := now\<rparr>)"
  shows "\<exists>j d'. update_job now i f d = Inr (j, d') \<and> job_in d' i P \<and> importRowResults d' = importRowResults d
    \<and> importQueue d' = importQueue d"
proof -
  let ?g = "\<lambda>x. (f x)\<lparr>ij_updatedAt := now\<rparr>"
  let ?t = "map (\<lambda>x. if ij_id x = i then ?g x else x) (importJobs d)"
  obtain j where j: "j \<in> set (importJobs d)" "ij_id j = i" "Q j"
    using assms(2) by (auto simp: job_in_def)
  have "update_job now i f d = Inr (?g j, d\<lparr>importJobs := ?t\<rparr>)"
    using wf_table_find [OF imports_table [OF assms(1)] j(1)] j(2)
    by (simp add: update_job_def update_row_def no_conflict_def)
  moreover have "?g j \<in> set ?t"
    using j(1,2) unfolding set_map by (intro image_eqI [of _ _ j]) auto
  then have "job_in (d\<lparr>importJobs := ?t\<rparr>) i P"
    using assms(3) [OF j(2,3)] unfolding job_in_def by (intro bexI [of _ "?g j"]) simp_all
  ultimately show ?thesis by simp
qed

lemma emit_keeps [simp]:
  "importJobs (emit_progress now p j st k d) = importJobs d"
  "importRowResults (emit_progress now p j st k d) = importRowResults d"
  "importQueue (emit_progress now p j st k d) = importQueue d"
  "storedFiles (emit_progress now p j st k d) = storedFiles d"
  by (simp_all add: emit_progress_def emitImportEvent_def emitDashboardRefresh_def Let_def)

lemma import_audit_keeps [simp]:
  "importJobs (import_audit now a tn u j m r d) = importJobs d"
  "importRowResults (import_audit now a tn u j m r d) = importRowResults d"
  "importQueue (import_audit now a tn u j m r d) = importQueue d"
  "storedFiles (import_audit now a tn u j m r d) = storedFiles d"
  by (simp_all add: import_audit_def)

lemma job_not_canceled:
  assumes "imports_ok d" "active_job d job"
  shows "\<not> job_canceled (ij_id job) d"
proof -
  obtain j where j: "j \<in> set (importJobs d)" "ij_id j = ij_id job" "ij_status j \<noteq> ImportStatus.CANCELED"
    using assms(2) by (auto simp: active_job_def job_in_def)
  then show ?thesis
    using wf_table_find [OF imports_table [OF assms(1)] j(1)] by (simp add: job_canceled_def findFirst_def)
qed

lemma customers_handler: "get_handler (Some CUSTOMERS) = Inr CustomerImportHandler"
  by (simp add: get_handler_def handlers_def CustomerImportHandler_def CarrierImportHandler_def)

text \<open>One row of a customer file: its result is stored and counted.\<close>

lemma customer_row_done:
  assumes "imports_ok d" "active_job d job" "w_job w = job" "q_tenantId (w_payload w) = ij_tenantId job"
    and "rowNumber row \<notin> set (results_of d job)"
  shows "\<exists>d' seen st. do_row libs customer_processRow now w row rest d
      = (Working (w\<lparr>w_rows := rest, w_seen := seen, w_counts := count_row st (w_counts w)\<rparr>), d')
    \<and> active_job d' job \<and> results_of d' job = results_of d job @ [rowNumber row]"
proof -
  let ?i = "\<lparr> pi_duplicateStrategy = readDuplicateStrategy (ij_options job), pi_mapping = asStringRecord (ij_mapping job),
     pi_row = row, pi_tenantId = ij_tenantId job \<rparr>"
  obtain r d1 where p: "customer_processRow now ?i (w_seen w) d = (r, d1)" by fastforce
  have "customers_ok d" using assms(1) by (simp add: imports_ok_def directory_ok_def)
  then obtain res seen where r: "r = Inr (res, seen)"
    using ensuresD [OF customer_keeps p] by auto
  have same: "importJobs d1 = importJobs d" "importRowResults d1 = importRowResults d"
    using ensuresD [OF customer_effect p] by (simp_all add: row_effect_def)
  have ok: "imports_ok d1"
    by (rule customer_import.process_ok [OF refl assms(1) p])
  let ?r = "row_result (new_id d1) (ij_tenantId job) (ij_id job) row res"
  let ?d2 = "bump (d1\<lparr>importRowResults := importRowResults d1 @ [?r]\<rparr>)"
  have new: "create_row row_result_conflict ?r (importRowResults d1) = Inr (importRowResults d1 @ [?r])"
    using assms(5) by (auto simp: create_Inr row_result_conflict_def row_result_def results_of_def same)
  have ok2: "imports_ok ?d2"
    by (rule add_row_result_ok [OF ok new]) (simp add: row_result_def)
  let ?k = "count_row (rs_status res) (w_counts w)"
  let ?f = "\<lambda>j. (store_counts ?k j)\<lparr>ij_progress := progressPercent (k_processed ?k) (k_total ?k)\<rparr>"
  have "active_job ?d2 job" using assms(2) by (simp add: active_job_def job_in_def same)
  then obtain j d3 where u: "update_job now (ij_id job) ?f ?d2 = Inr (j, d3)" "active_job d3 job"
    "importRowResults d3 = importRowResults ?d2"
    using update_job_in [OF ok2, of "ij_id job" "\<lambda>j. ij_status j \<noteq> ImportStatus.CANCELED" ?f
        "\<lambda>j. ij_status j \<noteq> ImportStatus.CANCELED" now]
    unfolding active_job_def by (auto simp: store_counts_def)
  show ?thesis
    using u(2,3) unfolding do_row_def Let_def assms(3,4) p r prod.case sum.case new u(1)
    by (auto simp: active_job_def job_in_def results_of_def row_result_def same)
qed

text \<open>A worker that starts, as \<open>run_worker\<close> unfolds it.\<close>

lemma run_stopped: "stopped w \<Longrightarrow> run_worker libs cfg now w d = (w, d)"
  by (simp add: run_worker.simps)

lemma run_step:
  "\<not> stopped w \<Longrightarrow> worker_step libs cfg now w d = (w', d') \<Longrightarrow> run_worker libs cfg now w d = run_worker libs cfg now w' d'"
  by (subst run_worker.simps) simp

lemma do_row_counts:
  assumes "imports_ok d" "counts_ok (w_counts w) (row # rest)" "do_row libs customer_processRow now w row rest d = (w', d')"
  shows "imports_ok d' \<and> worker_ok w'"
  using ensuresD [OF customer_import.do_row_ok [OF refl assms(1,2)] assms(3)] by blast

definition job_done :: "ImportCounts \<Rightarrow> ImportJob \<Rightarrow> bool" where
  "job_done k j \<longleftrightarrow> ij_status j = final_status k \<and> ij_progress j = 100
     \<and> ij_processedRows j = k_total k \<and> ij_totalRows j = k_total k
     \<and> ij_successRows j = k_success k \<and> ij_errorRows j = k_error k \<and> ij_skippedRows j = k_skipped k"

definition run_done :: "db \<Rightarrow> ImportJob \<Rightarrow> ImportCounts \<Rightarrow> bool" where
  "run_done d job k \<longleftrightarrow> job_in d (ij_id job) (job_done k)"

lemma finish_done:
  assumes "imports_ok d" "active_job d (w_job w)" "counts_ok (w_counts w) []"
  shows "\<exists>d'. finish_job libs now w d = (Returned, d') \<and> results_of d' (w_job w) = results_of d (w_job w)
    \<and> run_done d' (w_job w) (w_counts w)"
proof -
  define job k where "job = w_job w" and "k = w_counts w"
  let ?f = "\<lambda>j. (store_counts k j)\<lparr>ij_errorSummary := (if k_error k > 0
      then JObj [(''message'', JStr (nat_str (k_error k) @ '' linha(s) com erro.''))] else JNull),
    ij_failureReason := (if final_status k = ImportStatus.FAILED then Some ''Todas as linhas falharam.'' else None),
    ij_finishedAt := Some now, ij_progress := 100, ij_status := final_status k\<rparr>"
  have processed: "k_processed k = k_total k"
    using assms(3) by (simp add: counts_ok_def k_def)
  obtain j d' where u: "update_job now (ij_id job) ?f d = Inr (j, d')" "run_done d' job k"
    "importRowResults d' = importRowResults d"
    using update_job_in [OF assms(1) assms(2) [unfolded active_job_def], of ?f "job_done k" now]
    by (auto simp: run_done_def job_done_def store_counts_def processed job_def)
  show ?thesis
    using u(2,3) unfolding finish_job_def Let_def job_def [symmetric] k_def [symmetric] u(1) sum.case prod.case
    by (auto simp: results_of_def run_done_def job_in_def)
qed

lemma customer_rows_done:
  assumes "imports_ok d" "active_job d job" "w_job w = job" "q_tenantId (w_payload w) = ij_tenantId job"
    and "ij_type job = CUSTOMERS" "counts_ok (w_counts w) (w_rows w)"
    and "distinct (map rowNumber (w_rows w))" "set (map rowNumber (w_rows w)) \<inter> set (results_of d job) = {}"
  shows "\<exists>d' k. run_worker libs cfg now (Working w) d = (Returned, d')
    \<and> results_of d' job = results_of d job @ map rowNumber (w_rows w)
    \<and> k_total k = k_total (w_counts w) \<and> run_done d' job k"
  using assms
proof (induction "w_rows w" arbitrary: w d)
  case Nil
  obtain d' where "finish_job libs now w d = (Returned, d')" "results_of d' job = results_of d job"
    "run_done d' job (w_counts w)"
    using finish_done [of d w libs now] Nil by auto
  then show ?case
    using Nil(1) run_step [of "Working w" libs cfg now d Returned d'] by (auto simp: run_stopped)
next
  case (Cons row rest)
  note rows = Cons(2) [symmetric]
  have notin: "rowNumber row \<notin> set (results_of d job)" using Cons(10) rows by auto
  obtain d1 seen st where row: "do_row libs customer_processRow now w row rest d
      = (Working (w\<lparr>w_rows := rest, w_seen := seen, w_counts := count_row st (w_counts w)\<rparr>), d1)"
    and d1: "active_job d1 job" "results_of d1 job = results_of d job @ [rowNumber row]"
    using customer_row_done [OF Cons(3-6) notin] by blast
  let ?w = "w\<lparr>w_rows := rest, w_seen := seen, w_counts := count_row st (w_counts w)\<rparr>"
  have ok: "imports_ok d1" "counts_ok (w_counts ?w) (w_rows ?w)"
    using do_row_counts [OF Cons(3) _ row] Cons(8) rows by auto
  have "check_job now w row rest d = (Checked w row rest, d)"
    using job_not_canceled [OF Cons(3,4)] Cons(5) by (simp add: check_job_def)
  then have "run_worker libs cfg now (Working w) d = run_worker libs cfg now (Checked w row rest) d"
    by (intro run_step) (simp_all add: rows)
  also have "\<dots> = run_worker libs cfg now (Working ?w) d1"
    using row Cons(5,7) customers_handler by (intro run_step) (simp_all add: CustomerImportHandler_def)
  finally have step: "run_worker libs cfg now (Working w) d = run_worker libs cfg now (Working ?w) d1" .
  have "\<exists>d' k. run_worker libs cfg now (Working ?w) d1 = (Returned, d')
      \<and> results_of d' job = results_of d1 job @ map rowNumber (w_rows ?w)
      \<and> k_total k = k_total (w_counts ?w) \<and> run_done d' job k"
    using Cons(5,6,7,9,10) rows d1 ok by (intro Cons(1)) auto
  then show ?case
    using step d1(2) rows by (simp add: count_row_def)
qed

text \<open>The start of a run: the job is found, its status is set, and the file is read.\<close>

lemma begin_job_active:
  assumes "imports_ok d" "begin_job now payload d = (Loading payload' job, d1)"
  shows "active_job d1 job \<and> ij_tenantId job = q_tenantId payload \<and> truthy (ij_storedFilename job)"
proof -
  obtain j0 where j0: "findFirst (\<lambda>j. ij_id j = q_importJobId payload \<and> ij_tenantId j = q_tenantId payload) (importJobs d) = Some j0"
    using assms(2) by (auto simp: begin_job_def split: option.splits)
  have j0_in: "j0 \<in> set (importJobs d)" "ij_tenantId j0 = q_tenantId payload"
    using findFirst_SomeD [OF j0] by auto
  then have "job_in d (ij_id j0) (\<lambda>j. True)" by (auto simp: job_in_def)
  then obtain j d2 where u: "update_job now (ij_id j0) (\<lambda>j. j\<lparr>ij_startedAt := Some now, ij_status := PROCESSING\<rparr>) d = Inr (j, d2)"
    "job_in d2 (ij_id j0) (\<lambda>j. ij_status j = PROCESSING)"
    using update_job_in [OF assms(1), of "ij_id j0" "\<lambda>j. True" "\<lambda>j. j\<lparr>ij_startedAt := Some now, ij_status := PROCESSING\<rparr>"
        "\<lambda>j. ij_status j = PROCESSING" now] by auto
  then show ?thesis
    using assms(2) j0 j0_in by (auto simp: begin_job_def active_job_def job_in_def split: if_splits)
qed

lemma load_file_parsed:
  assumes "read_import_file (importStorageDir cfg) (q_tenantId payload) (coalesce (ij_storedFilename job) []) d = Inr buffer"
    and "parse libs buffer (ij_filename job) (importMaxRows cfg) = Inr p"
  shows "\<exists>w. load_file libs cfg now payload job d = (Working w, d) \<and> w_job w = job \<and> w_payload w = payload
    \<and> w_rows w = file_rows p \<and> counts_ok (w_counts w) (file_rows p) \<and> k_total (w_counts w) = length (file_rows p)"
proof -
  have "\<exists>h. get_handler (Some (ij_type job)) = Inr h"
    by (cases "ij_type job") (auto simp: get_handler_def handlers_def CustomerImportHandler_def CarrierImportHandler_def)
  then show ?thesis using assms by (auto simp: load_file_def counts_ok_def)
qed

lemma parsed_numbers:
  assumes "parse libs buffer filename n = Inr p"
  shows "distinct (map rowNumber (file_rows p)) \<and> file_rows p \<noteq> []"
proof -
  obtain rows where "p = rows_to_file rows" "validateParsedFile p n = Inr ()"
    using parse_Inr [OF assms] by blast
  then show ?thesis
    using rows_to_file_numbers [of rows] by (auto simp: validate_Inr strict_sorted_iff)
qed


definition example_payload :: ImportQueuePayload where
  "example_payload = \<lparr> q_importJobId = ''1'', q_tenantId = ''t1'', q_userId = ''u1'' \<rparr>"

definition created_job :: ImportJob where
  "created_job = new_import_job 5 ''1'' example_context example_upload example_import ''hash''
     [(''name'', ''name''), (''document'', ''document'')] 1 \<lparr> si_hash = ''hash'', si_key = ''0.csv'', si_size = 35 \<rparr>"

definition waiting_db :: db where
  "waiting_db = empty_db\<lparr>next_id := 2, importJobs := [created_job],
     storedFiles := [(''/data/t1/0.csv'', example_text)]\<rparr>"

definition begun_db :: db where
  "begun_db = snd (begin_job 6 example_payload waiting_db)"

lemma waiting_ok: "imports_ok waiting_db"
proof -
  have "nat_str 1 = ''1''" by code_simp
  then have "old_id waiting_db ''1''"
    using old_id_nat_str [of waiting_db 1] by (simp add: waiting_db_def)
  then show ?thesis
    using directory_ok_cong [of empty_db waiting_db] empty_imports_ok
    by (auto simp: imports_ok_def waiting_db_def created_job_def wf_table_def empty_db_def)
qed

lemma begun_job: "begin_job 6 example_payload waiting_db = (Loading example_payload created_job, begun_db)"
proof -
  have "fst (begin_job 6 example_payload waiting_db) = Loading example_payload created_job"
    by (simp add: begin_job_def waiting_db_def created_job_def new_import_job_def example_payload_def example_context_def
        findFirst_def update_job_def update_row_def no_conflict_def truthy_def)
  then show ?thesis by (metis begun_db_def prod.collapse)
qed

lemma created_file:
  "ij_type created_job = CUSTOMERS" "results_of begun_db created_job = []"
  "read_import_file (importStorageDir example_config) (q_tenantId example_payload)
     (coalesce (ij_storedFilename created_job) []) begun_db = Inr example_text"
  "parse text_libs example_text (ij_filename created_job) (importMaxRows example_config) =
     Inr \<lparr> headers = [''name'', ''document''],
       file_rows = [\<lparr> rowNumber = 2, row_values = [(''name'', ''Ana''), (''document'', ''12345678909'')] \<rparr>] \<rparr>"
  by code_simp+


section \<open>Where cancellation and repetition fail\<close>

lemma fail_job_threw: "\<exists>e' d'. fail_job libs now p job e d = (Threw e', d')"
  by (simp add: fail_job_def Let_def split: sum.split)

context import_handler
begin

lemma stored_row_throws:
  assumes "rowNumber row \<in> set (results_of d (w_job w))" "ij_tenantId (w_job w) = q_tenantId (w_payload w)"
  shows "\<exists>e d'. do_row libs process now w row rest d = (Threw e, d')"
proof -
  let ?i = "\<lparr> pi_duplicateStrategy = readDuplicateStrategy (ij_options (w_job w)),
     pi_mapping = asStringRecord (ij_mapping (w_job w)), pi_row = row, pi_tenantId = q_tenantId (w_payload w) \<rparr>"
  obtain r d1 where p: "process now ?i (w_seen w) d = (r, d1)" by fastforce
  then have same: "importRowResults d1 = importRowResults d"
    using effect [of "w_seen w" d now ?i] by (simp add: row_effect_def)
  have "create_row row_result_conflict (row_result i (q_tenantId (w_payload w)) (ij_id (w_job w)) row res)
      (importRowResults d1) = Inl P2002" for i res
    using assms by (force simp: create_Inl same row_result_conflict_def row_result_def results_of_def)
  then show ?thesis
    using p fail_job_threw by (cases r) (auto simp: do_row_def Let_def)
qed

end

text \<open>
  The automatic repetition of a failed job cannot succeed. A worker that takes up a job whose
  first row already has a stored result throws, because the results of the last attempt are only
  deleted by a manual retry and a row has one result; so the queue's remaining attempts are used up.
\<close>

theorem repeated_attempt_fails:
  assumes "read_import_file (importStorageDir cfg) (q_tenantId payload) (coalesce (ij_storedFilename job) []) d = Inr buffer"
    and "parse libs buffer (ij_filename job) (importMaxRows cfg) = Inr p"
    and "rowNumber (hd (file_rows p)) \<in> set (results_of d job)"
    and "ij_tenantId job = q_tenantId payload" "\<not> job_canceled (ij_id job) d"
  shows "\<exists>e d'. run_worker libs cfg now (Loading payload job) d = (Threw e, d')"
proof -
  obtain w where w: "load_file libs cfg now payload job d = (Working w, d)" "w_job w = job" "w_payload w = payload"
    "w_rows w = file_rows p"
    using load_file_parsed [OF assms(1,2)] by blast
  obtain row rest where rows: "file_rows p = row # rest"
    using parsed_numbers [OF assms(2)] by (cases "file_rows p") auto
  have "run_worker libs cfg now (Loading payload job) d = run_worker libs cfg now (Working w) d"
    using w(1) by (intro run_step) simp_all
  also have "\<dots> = run_worker libs cfg now (Checked w row rest) d"
    using w rows assms(5) by (intro run_step) (simp_all add: check_job_def)
  finally have start: "run_worker libs cfg now (Loading payload job) d = run_worker libs cfg now (Checked w row rest) d" .
  obtain h where h: "get_handler (Some (ij_type job)) = Inr h"
    by (cases "ij_type job") (auto simp: get_handler_def handlers_def CustomerImportHandler_def CarrierImportHandler_def)
  obtain e d' where "worker_step libs cfg now (Checked w row rest) d = (Threw e, d')"
    using import_handler.stored_row_throws [OF get_handler_import [OF h], of row d w libs now rest] assms(3,4) w(2,3) h rows
    by auto
  then show ?thesis
    using start run_step [of "Checked w row rest" libs cfg now d "Threw e" d'] by (simp add: run_stopped)
qed

definition half_done_db :: db where
  "half_done_db = begun_db\<lparr>importRowResults := [row_result ''7'' ''t1'' ''1''
     \<lparr> rowNumber = 2, row_values = [] \<rparr> (row_error ''X'' ''x'' ''x'' JNull)]\<rparr>"

theorem repeated_attempt_fails_witness:
  "\<exists>e d'. run_worker text_libs example_config 6 (Loading example_payload created_job) half_done_db = (Threw e, d')"
proof (rule repeated_attempt_fails [where buffer = example_text])
  show "parse text_libs example_text (ij_filename created_job) (importMaxRows example_config) =
     Inr \<lparr> headers = [''name'', ''document''],
       file_rows = [\<lparr> rowNumber = 2, row_values = [(''name'', ''Ana''), (''document'', ''12345678909'')] \<rparr>] \<rparr>"
    by (rule created_file(4))
qed code_simp+

lemma getAuthorizedJob_Inr:
  "getAuthorizedJob context i d = Inr job \<Longrightarrow> job \<in> set (importJobs d) \<and> ij_id job = i \<and> ij_tenantId job = ctx_tenantId context"
  by (auto simp: getAuthorizedJob_def split: option.splits if_splits dest: findFirst_SomeD)

text \<open>The job a context is authorized for, with its file.\<close>

definition own_job :: "ImportContext \<Rightarrow> ImportJob \<Rightarrow> bool" where
  "own_job context j \<longleftrightarrow> ij_tenantId j = ctx_tenantId context \<and> truthy (ij_storedFilename j)"

lemma queue_add_in:
  "i \<notin> fst ` set (importQueue d) \<Longrightarrow> (i, p, 3) \<in> set (importQueue (queue_add i p d))"
  by (simp add: queue_add_def)

lemma retry_queued:
  assumes "imports_ok d" "retryImport t1 context i dto d = (Inr r1, d1)"
    and "''import:'' @ i @ '':retry:'' @ nat_str (nat t1) \<notin> fst ` set (importQueue d)"
    and "job_in d i (own_job context)"
  shows "(''import:'' @ i @ '':retry:'' @ nat_str (nat t1),
      \<lparr> q_importJobId = i, q_tenantId = ctx_tenantId context, q_userId = ctx_userId context \<rparr>, 3) \<in> set (importQueue d1)
    \<and> job_in d1 i (own_job context)"
proof -
  obtain job where job: "getAuthorizedJob context i d = Inr job" "isRetryableStatus (ij_status job)"
    using assms(2) by (auto simp: retryImport_def split: sum.splits if_splits)
  let ?d = "d\<lparr>importRowResults := deleteMany (\<lambda>r. ir_importJobId r = i \<and> ir_tenantId r = ctx_tenantId context) (importRowResults d)\<rparr>"
  have ok: "imports_ok ?d" by (rule drop_results_ok [OF assms(1)])
  have "job_in ?d i (own_job context)" using assms(4) by (simp add: job_in_def)
  then obtain j d' where u: "update_job t1 i (reset_job dto job) ?d = Inr (j, d')" "job_in d' i (own_job context)"
    "importQueue d' = importQueue d"
    using update_job_in [OF ok, where i = i and Q = "own_job context"
        and f = "reset_job dto job" and P = "own_job context" and now = t1]
    by (auto simp: own_job_def reset_job_def)
  then show ?thesis
    using assms(2,3) job getAuthorizedJob_Inr [OF job(1)] queue_add_in [of _ d']
    by (auto simp: retryImport_def Let_def job_in_def queue_add_def)
qed

lemma cancel_removes:
  assumes "imports_ok d" "cancelImport t2 context i d = (Inr r2, d2)" "job_in d i (own_job context)"
  shows "importQueue d2 = filter (\<lambda>e. fst e \<noteq> ''import:'' @ i) (importQueue d)
    \<and> job_in d2 i (\<lambda>j. own_job context j \<and> ij_status j = ImportStatus.CANCELED)"
proof -
  obtain job where job: "getAuthorizedJob context i d = Inr job" "isCancelableStatus (ij_status job)"
    using assms(2) by (auto simp: cancelImport_def Let_def split: sum.splits if_splits)
  let ?d = "queue_remove (''import:'' @ i) d"
  let ?f = "\<lambda>j. j\<lparr>ij_failureReason := Some ''Cancelado pelo usuario.'', ij_finishedAt := Some t2, ij_status := ImportStatus.CANCELED\<rparr>"
  have ok: "imports_ok ?d" by (rule imports_ok_queue(2) [OF assms(1)])
  have "job_in ?d i (own_job context)" using assms(3) by (simp add: job_in_def queue_remove_def)
  then obtain j d' where u: "update_job t2 i ?f ?d = Inr (j, d')"
    "job_in d' i (\<lambda>j. own_job context j \<and> ij_status j = ImportStatus.CANCELED)" "importQueue d' = importQueue ?d"
    using update_job_in [OF ok, where i = i and Q = "own_job context" and f = ?f
        and P = "\<lambda>j. own_job context j \<and> ij_status j = ImportStatus.CANCELED" and now = t2]
    by (auto simp: own_job_def)
  then show ?thesis
    using assms(2) job getAuthorizedJob_Inr [OF job(1)]
    by (auto simp: cancelImport_def Let_def job_in_def queue_remove_def)
qed

lemma begin_restarts:
  assumes "imports_ok d" "job_in d i (own_job context)"
  shows "\<exists>job d'. begin_job now \<lparr> q_importJobId = i, q_tenantId = ctx_tenantId context, q_userId = u \<rparr> d
      = (Loading \<lparr> q_importJobId = i, q_tenantId = ctx_tenantId context, q_userId = u \<rparr> job, d')
    \<and> job_in d' i (\<lambda>j. ij_status j = PROCESSING)"
proof -
  obtain j0 where j0: "j0 \<in> set (importJobs d)" "ij_id j0 = i" "own_job context j0"
    using assms(2) by (auto simp: job_in_def)
  obtain job where job: "findFirst (\<lambda>j. ij_id j = i \<and> ij_tenantId j = ctx_tenantId context) (importJobs d) = Some job"
    using j0 findFirst_None [of "\<lambda>j. ij_id j = i \<and> ij_tenantId j = ctx_tenantId context" "importJobs d"]
    by (fastforce simp: own_job_def)
  have "job \<in> set (importJobs d)" "ij_id job = i" using findFirst_SomeD [OF job] by auto
  then have "job = j0" using wf_table_unique [OF imports_table [OF assms(1)]] j0 by auto
  moreover obtain j d' where "update_job now i (\<lambda>j. j\<lparr>ij_startedAt := Some now, ij_status := PROCESSING\<rparr>) d = Inr (j, d')"
    "job_in d' i (\<lambda>j. ij_status j = PROCESSING)"
    using update_job_in [OF assms, of "\<lambda>j. j\<lparr>ij_startedAt := Some now, ij_status := PROCESSING\<rparr>" "\<lambda>j. ij_status j = PROCESSING" now]
    by auto
  ultimately show ?thesis
    using job j0(2,3) by (auto simp: begin_job_def own_job_def job_in_def)
qed


definition canceled_db :: db where
  "canceled_db = waiting_db\<lparr>importJobs := [created_job\<lparr>ij_status := ImportStatus.CANCELED\<rparr>]\<rparr>"

definition retried_db :: db where
  "retried_db = snd (retryImport 7 example_context ''1'' \<lparr> ri_mapping = None, ri_duplicateStrategy = None \<rparr> canceled_db)"


text \<open>
  A cancellation that arrives after the worker's last look at the status is overwritten by the
  final update, whatever the counts are.
\<close>

theorem finish_overwrites_cancel:
  assumes "imports_ok d" "job_in d (ij_id (w_job w)) (\<lambda>j. ij_status j = ImportStatus.CANCELED)"
  shows "\<exists>d'. finish_job libs now w d = (Returned, d')
    \<and> job_in d' (ij_id (w_job w)) (\<lambda>j. ij_status j = final_status (w_counts w) \<and> ij_status j \<noteq> ImportStatus.CANCELED)"
proof -
  have final: "final_status k \<noteq> ImportStatus.CANCELED" for k by (simp add: final_status_def)
  define k where "k = w_counts w"
  let ?f = "\<lambda>j. (store_counts k j)\<lparr>ij_errorSummary := (if k_error k > 0
      then JObj [(''message'', JStr (nat_str (k_error k) @ '' linha(s) com erro.''))] else JNull),
    ij_failureReason := (if final_status k = ImportStatus.FAILED then Some ''Todas as linhas falharam.'' else None),
    ij_finishedAt := Some now, ij_progress := 100, ij_status := final_status k\<rparr>"
  obtain j d' where u: "update_job now (ij_id (w_job w)) ?f d = Inr (j, d')"
    "job_in d' (ij_id (w_job w)) (\<lambda>j. ij_status j = final_status k \<and> ij_status j \<noteq> ImportStatus.CANCELED)"
    using update_job_in [OF assms, of ?f "\<lambda>j. ij_status j = final_status k \<and> ij_status j \<noteq> ImportStatus.CANCELED" now] final
    by (auto simp: store_counts_def)
  then show ?thesis
    unfolding finish_job_def Let_def k_def [symmetric] u(1) sum.case prod.case by (auto simp: job_in_def)
qed

section \<open>The template\<close>

text \<open>What the program does with a file: the mapping it proposes and the rows as its handler reads them.\<close>

definition row_input :: "string_record \<Rightarrow> ParsedImportRow \<Rightarrow> ImportRowProcessInput" where
  "row_input mapping row = \<lparr> pi_duplicateStrategy = UPDATE, pi_mapping = mapping, pi_row = row, pi_tenantId = ''t1'' \<rparr>"

fun rejection :: "ImportType \<Rightarrow> ImportRowProcessInput \<Rightarrow> (string \<times> string) option" where
  "rejection CUSTOMERS i = validateCustomer (customer_row i)"
| "rejection CARRIERS i = validateCarrier (carrier_row i)"

definition importable :: "ImportType \<Rightarrow> string list list \<Rightarrow> ParsedImportFile \<Rightarrow> bool" where
  "importable t samples p \<longleftrightarrow>
     (case import_fields (Some t) of Inl e \<Rightarrow> False | Inr fs \<Rightarrow>
      (case autoMapping (Some t) (headers p) of Inl e \<Rightarrow> False | Inr m \<Rightarrow>
        missingRequiredFields fs m = []
        \<and> map (\<lambda>r. map (\<lambda>f. row_value (row_input m r) (fld_key f)) fs) (file_rows p) = samples
        \<and> (\<forall>r \<in> set (file_rows p). rejection t (row_input m r) = None)))"

definition template_rows :: "ImportTypeHandler \<Rightarrow> string list list" where
  "template_rows h = map (\<lambda>f. case fld_aliases f of [] \<Rightarrow> fld_key f | a # _ \<Rightarrow> a) (ih_fields h) # ih_sampleRows h"

lemma template_text:
  assumes "h \<in> {CustomerImportHandler, CarrierImportHandler}"
  shows "parseDelimited (csv_text (template_rows h)) = template_rows h"
proof (rule parseDelimited_csv_text)
  let ?ok = "\<lambda>h. (\<forall>row \<in> set (template_rows h). \<not> blank_row row) \<and> (\<forall>row \<in> set (template_rows h). \<forall>cell \<in> set row. CR \<notin> set cell)
     \<and> (\<forall>cell \<in> set (hd (template_rows h)). CHR '';'' \<notin> set cell)"
  have "?ok CustomerImportHandler" "?ok CarrierImportHandler" by code_simp+
  with assms show "\<forall>row \<in> set (template_rows h). \<not> blank_row row"
    "\<forall>row \<in> set (template_rows h). \<forall>cell \<in> set row. CR \<notin> set cell"
    "\<forall>cell \<in> set (hd (template_rows h)). CHR '';'' \<notin> set cell" by blast+
qed (simp add: template_rows_def)

lemma template_file:
  assumes "h \<in> {CustomerImportHandler, CarrierImportHandler}"
    and "validateParsedFile (rows_to_file (template_rows h)) 2 = Inr ()"
  shows "parse text_libs (csv_text (template_rows h)) ''modelo.csv'' 2 = Inr (rows_to_file (template_rows h))"
proof -
  have "extensionOf ''modelo.csv'' = Inr CSV" by code_simp
  then show ?thesis
    using template_text [OF assms(1)] assms(2) by (simp add: parse_def parseCsv_def stripBom_def text_libs_def)
qed

lemma template_importable:
  "importable CUSTOMERS customer_sampleRows (rows_to_file (template_rows CustomerImportHandler))"
  "importable CARRIERS carrier_sampleRows (rows_to_file (template_rows CarrierImportHandler))"
  "validateParsedFile (rows_to_file (template_rows CustomerImportHandler)) 2 = Inr ()"
  "validateParsedFile (rows_to_file (template_rows CarrierImportHandler)) 2 = Inr ()"
  by code_simp+

lemma carriers_handler: "get_handler (Some CARRIERS) = Inr CarrierImportHandler"
  by (simp add: get_handler_def handlers_def CustomerImportHandler_def CarrierImportHandler_def)

text \<open>
  The template the program offers for download can be imported as it is. For both types the
  text parses, the automatic mapping leaves no required field without a column, every value
  of the sample rows reaches the field it was written for, and the handler accepts every row.
\<close>

theorem template_imports:
  "(\<exists>tpl p. import_template (Some CUSTOMERS) = Inr tpl \<and> parse text_libs (tpl_csv tpl) ''modelo.csv'' 2 = Inr p
      \<and> importable CUSTOMERS customer_sampleRows p)
   \<and> (\<exists>tpl p. import_template (Some CARRIERS) = Inr tpl \<and> parse text_libs (tpl_csv tpl) ''modelo.csv'' 2 = Inr p
      \<and> importable CARRIERS carrier_sampleRows p)"
  using template_file [of CustomerImportHandler] template_file [of CarrierImportHandler] template_importable
  by (simp add: import_template_def customers_handler carriers_handler template_rows_def Let_def)

end
