(* ===== verification/Base64.thy ===== *)
theory Base64
  imports Prelude
begin

text \<open>
  The base64url encoding of \<open>Buffer\<close>, which every token and hash of the program is written
  with. A buffer is a list of characters, one for each byte; the encoding goes through its bits,
  most significant first.
\<close>

section \<open>Bits\<close>

fun byte_bits :: "char \<Rightarrow> bool list" where
  "byte_bits (Char b0 b1 b2 b3 b4 b5 b6 b7) = [b7, b6, b5, b4, b3, b2, b1, b0]"

fun bits_byte :: "bool list \<Rightarrow> char" where
  "bits_byte [b7, b6, b5, b4, b3, b2, b1, b0] = Char b0 b1 b2 b3 b4 b5 b6 b7"
| "bits_byte _ = CHR 0x00"

definition buffer_bits :: "string \<Rightarrow> bool list" where
  "buffer_bits s = concat (map byte_bits s)"

fun octets :: "bool list \<Rightarrow> string" where
  "octets (b7 # b6 # b5 # b4 # b3 # b2 # b1 # b0 # bs) = Char b0 b1 b2 b3 b4 b5 b6 b7 # octets bs"
| "octets _ = []"

lemma octets_bits: "length pad < 8 \<Longrightarrow> octets (buffer_bits s @ pad) = s"
proof (induction s)
  case Nil
  then show ?case by (cases pad rule: octets.cases) (simp_all add: buffer_bits_def)
next
  case (Cons c s)
  then show ?case by (cases c) (simp add: buffer_bits_def)
qed

fun bits_nat :: "bool list \<Rightarrow> nat" where
  "bits_nat [] = 0"
| "bits_nat (b # bs) = (if b then 2 ^ length bs else 0) + bits_nat bs"

lemma bits_nat_less: "bits_nat bs < 2 ^ length bs"
  by (induction bs) auto

section \<open>Encoding\<close>

definition base64_alphabet :: string where
  "base64_alphabet = ''ABCDEFGHIJKLMNOPQRSTUVWXYZabcdefghijklmnopqrstuvwxyz0123456789-_''"

definition sextet_char :: "bool list \<Rightarrow> char" where
  "sextet_char bs = base64_alphabet ! bits_nat bs"

fun sextets :: "bool list \<Rightarrow> bool list list" where
  "sextets [] = []"
| "sextets (a # b # c # d # e # f # bs) = [a, b, c, d, e, f] # sextets bs"
| "sextets bs = [take 6 (bs @ replicate 6 False)]"

definition base64url :: "string \<Rightarrow> string" where
  "base64url s = map sextet_char (sextets (buffer_bits s))"

text \<open>
  Decoding accepts the characters of both alphabets and skips any other; what is left after the
  last whole byte is dropped.
\<close>

definition char_sextet :: "char \<Rightarrow> bool list" where
  "char_sextet c =
     (let c' = (if c = CHR ''+'' then CHR ''-'' else if c = CHR ''/'' then CHR ''_'' else c) in
      case find (\<lambda>bs. sextet_char bs = c') (List.n_lists 6 [False, True]) of
        None \<Rightarrow> [] | Some bs \<Rightarrow> bs)"

definition base64url_decode :: "string \<Rightarrow> string" where
  "base64url_decode s = octets (concat (map char_sextet s))"

section \<open>The round trip\<close>

lemma length_alphabet: "length base64_alphabet = 64"
  by (simp add: base64_alphabet_def)

lemma sextet_char_in: "length bs = 6 \<Longrightarrow> sextet_char bs \<in> set base64_alphabet"
  using bits_nat_less [of bs] by (simp add: sextet_char_def length_alphabet)

lemma sextets_length: "bs \<in> set (sextets xs) \<Longrightarrow> length bs = 6"
  by (induction xs rule: sextets.induct) auto

lemma sextets_concat: "\<exists>k < 6. concat (sextets xs) = xs @ replicate k False"
proof (induction xs rule: sextets.induct)
  case (2 a b c d e f bs)
  then show ?case by auto
qed (auto simp: numeral_eq_Suc intro: exI [of _ 5] exI [of _ 4] exI [of _ 3] exI [of _ 2] exI [of _ 1] exI [of _ 0])

lemma char_sextet_char: "\<forall>bs \<in> set (List.n_lists 6 [False, True]). char_sextet (sextet_char bs) = bs"
  by code_simp

lemma char_sextet [simp]: "length bs = 6 \<Longrightarrow> char_sextet (sextet_char bs) = bs"
proof -
  assume "length bs = 6"
  then have "bs \<in> set (List.n_lists 6 [False, True])"
    by (auto simp: set_n_lists)
  then show ?thesis using char_sextet_char by blast
qed

theorem base64url_inverse: "base64url_decode (base64url s) = s"
proof -
  have "map char_sextet (map sextet_char xs) = xs" if "\<forall>bs \<in> set xs. length bs = 6" for xs
    using that by (induction xs) simp_all
  then have "concat (map char_sextet (base64url s)) = concat (sextets (buffer_bits s))"
    using sextets_length by (simp add: base64url_def)
  moreover obtain k where "k < 6" "concat (sextets (buffer_bits s)) = buffer_bits s @ replicate k False"
    using sextets_concat by blast
  ultimately show ?thesis by (simp add: base64url_decode_def octets_bits)
qed

lemma base64url_alphabet: "set (base64url s) \<subseteq> set base64_alphabet"
  using sextet_char_in sextets_length by (auto simp: base64url_def)

lemma base64url_no_dot: "CHR ''.'' \<notin> set (base64url s)" "CHR ''$'' \<notin> set (base64url s)"
  using base64url_alphabet [of s] by (auto simp: base64_alphabet_def)

end
