(* ===== verification/Tokens.thy ===== *)
theory Tokens
  imports Schema Base64 "HOL-Library.Countable"
begin

text \<open>
  \<open>auth-token.service.ts\<close>, \<open>password.service.ts\<close> and the encryption of
  \<open>auth.service.ts\<close>: access tokens, hashes, passwords and sealed secrets. The primitives of
  \<open>node:crypto\<close> and the JSON reader and writer are parameters, collected in \<open>AuthLibs\<close>;
  texts stand for their UTF-8 bytes.
\<close>

record AuthConfig =
  jwtAccessSecret :: string
  jwtRefreshSecret :: string
  jwtAccessExpiresIn :: string
  jwtRefreshExpiresIn :: string
  authLoginMaxAttempts :: nat
  authLoginWindowSeconds :: nat
  webPublicUrl :: string
  authPublicUrl :: string
  totpIssuer :: string
  production :: bool
  googleClient :: "(string \<times> string) option"
  githubClient :: "(string \<times> string) option"

record AuthLibs =
  hmac_sha256 :: "string \<Rightarrow> string \<Rightarrow> string"
  hmac_sha1 :: "string \<Rightarrow> string \<Rightarrow> string"
  sha256_bytes :: "string \<Rightarrow> string"
  scrypt_key :: "string \<Rightarrow> string \<Rightarrow> nat \<Rightarrow> string"
  aes_seal :: "string \<Rightarrow> string \<Rightarrow> string \<Rightarrow> string \<times> string"
  aes_open :: "string \<Rightarrow> string \<Rightarrow> string \<Rightarrow> string \<Rightarrow> string option"
  json_write :: "json \<Rightarrow> string"
  json_read :: "string \<Rightarrow> json option"
  uri_component :: "string \<Rightarrow> string"
  qr_code :: "string \<Rightarrow> string"

text \<open>The documented behaviour of the parameters that the round trips below rely on.\<close>

definition lawful_libs :: "AuthLibs \<Rightarrow> bool" where
  "lawful_libs libs \<longleftrightarrow>
     (\<forall>j. json_read libs (json_write libs j) = Some j)
     \<and> (\<forall>j. json_write libs j \<noteq> [])
     \<and> (\<forall>p s n. length (scrypt_key libs p s n) = n)
     \<and> (\<forall>k t. hmac_sha256 libs k t \<noteq> [])
     \<and> (\<forall>k iv t. iv \<noteq> [] \<longrightarrow> t \<noteq> [] \<longrightarrow>
          fst (aes_seal libs k iv t) \<noteq> [] \<and> snd (aes_seal libs k iv t) \<noteq> []
          \<and> aes_open libs k iv (fst (aes_seal libs k iv t)) (snd (aes_seal libs k iv t)) = Some t)"

section \<open>Hashes\<close>

definition hex_char :: "bool list \<Rightarrow> char" where
  "hex_char bs = ''0123456789abcdef'' ! bits_nat bs"

definition hex :: "string \<Rightarrow> string" where
  "hex s = concat (map (\<lambda>c. [hex_char (take 4 (byte_bits c)), hex_char (drop 4 (byte_bits c))]) s)"

definition hashRefreshToken :: "AuthLibs \<Rightarrow> AuthConfig \<Rightarrow> string \<Rightarrow> string" where
  "hashRefreshToken libs cfg token = hex (hmac_sha256 libs (jwtRefreshSecret cfg) token)"

definition hashOpaqueToken :: "AuthLibs \<Rightarrow> AuthConfig \<Rightarrow> string \<Rightarrow> string" where
  "hashOpaqueToken libs cfg token = hex (hmac_sha256 libs (jwtRefreshSecret cfg) token)"

definition hashMetadata :: "AuthLibs \<Rightarrow> AuthConfig \<Rightarrow> string option \<Rightarrow> string option" where
  "hashMetadata libs cfg v =
     (if \<not> truthy v then None else Some (hex (hmac_sha256 libs (jwtRefreshSecret cfg) (the v))))"

section \<open>Durations\<close>

definition unit_seconds :: "char \<Rightarrow> nat option" where
  "unit_seconds c = (if c = CHR ''s'' then Some 1 else if c = CHR ''m'' then Some 60
     else if c = CHR ''h'' then Some 3600 else if c = CHR ''d'' then Some 86400 else None)"

definition parseDurationToSeconds :: "string \<Rightarrow> nat result" where
  "parseDurationToSeconds v =
     (let digits = butlast v in
      if v = [] \<or> digits = [] \<or> \<not> list_all is_digit digits then Inl (InternalError (''Invalid duration format: '' @ v))
      else (case unit_seconds (last v) of
              None \<Rightarrow> Inl (InternalError (''Invalid duration format: '' @ v))
            | Some u \<Rightarrow> Inr (number_of_digits digits * u)))"

definition accessTokenTtlSeconds :: "AuthConfig \<Rightarrow> nat result" where
  "accessTokenTtlSeconds cfg = parseDurationToSeconds (jwtAccessExpiresIn cfg)"

definition refreshTokenTtlSeconds :: "AuthConfig \<Rightarrow> nat result" where
  "refreshTokenTtlSeconds cfg = parseDurationToSeconds (jwtRefreshExpiresIn cfg)"

section \<open>Access tokens\<close>

record TenantRef =
  tr_id :: string
  tr_name :: string
  tr_slug :: string

record AuthenticatedUser =
  au_branchId :: "string option"
  au_email :: string
  au_id :: string
  au_name :: string
  au_role :: UserRole
  au_tenant :: TenantRef

record VerifiedAccessToken =
  vt_email :: string
  vt_exp :: rat
  vt_iat :: rat
  vt_role :: UserRole
  vt_sub :: string
  vt_tenantId :: string

fun role_name :: "UserRole \<Rightarrow> string" where
  "role_name ADMIN = ''ADMIN''"
| "role_name MANAGER = ''MANAGER''"
| "role_name OPERATOR = ''OPERATOR''"

definition role_of_name :: "string \<Rightarrow> UserRole option" where
  "role_of_name s = find (\<lambda>r. role_name r = s) [ADMIN, MANAGER, OPERATOR]"

definition payload_json :: "VerifiedAccessToken \<Rightarrow> json" where
  "payload_json p = JObj [(''email'', JStr (vt_email p)), (''exp'', JNum (vt_exp p)), (''iat'', JNum (vt_iat p)),
     (''role'', JStr (role_name (vt_role p))), (''sub'', JStr (vt_sub p)), (''tenantId'', JStr (vt_tenantId p)),
     (''type'', JStr ''access'')]"

definition json_str :: "json option \<Rightarrow> string option" where
  "json_str v = (case v of Some (JStr s) \<Rightarrow> Some s | _ \<Rightarrow> None)"

definition json_num :: "json option \<Rightarrow> rat option" where
  "json_num v = (case v of Some (JNum n) \<Rightarrow> Some n | _ \<Rightarrow> None)"

text \<open>
  The guard on the decoded payload, which also reads it. Reading a property of \<open>null\<close> throws;
  every other value that is no object has no properties.
\<close>

definition isAccessPayload :: "json \<Rightarrow> VerifiedAccessToken option result" where
  "isAccessPayload j =
     (case j of
        JNull \<Rightarrow> Inl (InternalError ''TypeError'')
      | JObj es \<Rightarrow>
          Inr (if json_str (map_of es ''type'') \<noteq> Some ''access'' then None
           else (case json_str (map_of es ''sub'') of None \<Rightarrow> None | Some sub \<Rightarrow>
                 case json_str (map_of es ''tenantId'') of None \<Rightarrow> None | Some tn \<Rightarrow>
                 case json_str (map_of es ''email'') of None \<Rightarrow> None | Some email \<Rightarrow>
                 case json_num (map_of es ''iat'') of None \<Rightarrow> None | Some iat \<Rightarrow>
                 case json_num (map_of es ''exp'') of None \<Rightarrow> None | Some ex \<Rightarrow>
                 case json_str (map_of es ''role'') of None \<Rightarrow> None | Some r \<Rightarrow>
                 case role_of_name r of None \<Rightarrow> None | Some role \<Rightarrow>
                   Some \<lparr> vt_email = email, vt_exp = ex, vt_iat = iat, vt_role = role, vt_sub = sub, vt_tenantId = tn \<rparr>))
      | _ \<Rightarrow> Inr None)"

definition sign :: "AuthLibs \<Rightarrow> AuthConfig \<Rightarrow> string \<Rightarrow> string" where
  "sign libs cfg v = base64url (hmac_sha256 libs (jwtAccessSecret cfg) v)"

definition signJwt :: "AuthLibs \<Rightarrow> AuthConfig \<Rightarrow> VerifiedAccessToken \<Rightarrow> string" where
  "signJwt libs cfg payload =
     (let encodedHeader = base64url (json_write libs (JObj [(''alg'', JStr ''HS256''), (''typ'', JStr ''JWT'')]));
          encodedPayload = base64url (json_write libs (payload_json payload));
          signature = sign libs cfg (encodedHeader @ ''.'' @ encodedPayload)
      in encodedHeader @ ''.'' @ encodedPayload @ ''.'' @ signature)"

definition seconds :: "date \<Rightarrow> int" where
  "seconds now = now div 1000"

definition access_payload :: "date \<Rightarrow> nat \<Rightarrow> AuthenticatedUser \<Rightarrow> VerifiedAccessToken" where
  "access_payload now ttl user =
     \<lparr> vt_email = au_email user, vt_exp = of_int (seconds now + int ttl), vt_iat = of_int (seconds now),
       vt_role = au_role user, vt_sub = au_id user, vt_tenantId = tr_id (au_tenant user) \<rparr>"

definition createAccessToken :: "AuthLibs \<Rightarrow> AuthConfig \<Rightarrow> date \<Rightarrow> AuthenticatedUser \<Rightarrow> (date \<times> string) result" where
  "createAccessToken libs cfg now user =
     bindE (accessTokenTtlSeconds cfg) (\<lambda>ttl.
       Inr ((seconds now + int ttl) * 1000, signJwt libs cfg (access_payload now ttl user)))"

definition verifyAccessToken :: "AuthLibs \<Rightarrow> AuthConfig \<Rightarrow> date \<Rightarrow> string \<Rightarrow> VerifiedAccessToken result" where
  "verifyAccessToken libs cfg now token =
     (case split_on (CHR ''.'') token of
        encodedHeader # encodedPayload # signature # rest \<Rightarrow>
          if encodedHeader = [] \<or> encodedPayload = [] \<or> signature = []
          then Inl (UnauthorizedException ''Authentication token is invalid.'')
          else if signature \<noteq> sign libs cfg (encodedHeader @ ''.'' @ encodedPayload)
          then Inl (UnauthorizedException ''Authentication token is invalid.'')
          else
          (case json_read libs (base64url_decode encodedPayload) of
             None \<Rightarrow> Inl (UnauthorizedException ''Authentication token is invalid.'')
           | Some j \<Rightarrow>
               bindE (isAccessPayload j) (\<lambda>p.
               case p of
                 None \<Rightarrow> Inl (UnauthorizedException ''Authentication token is invalid.'')
               | Some payload \<Rightarrow>
                   if vt_exp payload \<le> of_int (seconds now)
                   then Inl (UnauthorizedException ''Authentication token expired.'')
                   else Inr payload))
      | _ \<Rightarrow> Inl (UnauthorizedException ''Authentication token is invalid.''))"

section \<open>Passwords\<close>

definition hash_password :: "AuthLibs \<Rightarrow> string \<Rightarrow> string \<Rightarrow> string" where
  "hash_password libs saltBytes password =
     (let salt = base64url saltBytes; key = scrypt_key libs password salt 64
      in ''scrypt$'' @ salt @ ''$'' @ base64url key)"

definition verify_password :: "AuthLibs \<Rightarrow> string \<Rightarrow> string \<Rightarrow> bool" where
  "verify_password libs password storedHash =
     (case split_on (CHR ''$'') storedHash of
        format # salt # encodedKey # rest \<Rightarrow>
          if format \<noteq> ''scrypt'' \<or> salt = [] \<or> encodedKey = [] then False
          else let storedKey = base64url_decode encodedKey
               in storedKey = scrypt_key libs password salt (length storedKey)
      | _ \<Rightarrow> False)"

section \<open>Sealed secrets\<close>

definition encryptionKey :: "AuthLibs \<Rightarrow> AuthConfig \<Rightarrow> string" where
  "encryptionKey libs cfg = sha256_bytes libs (jwtRefreshSecret cfg)"

definition encrypt :: "AuthLibs \<Rightarrow> AuthConfig \<Rightarrow> string \<Rightarrow> string \<Rightarrow> string" where
  "encrypt libs cfg iv v =
     (case aes_seal libs (encryptionKey libs cfg) iv v of
        (tag, encrypted) \<Rightarrow> base64url iv @ ''.'' @ base64url tag @ ''.'' @ base64url encrypted)"

definition decrypt :: "AuthLibs \<Rightarrow> AuthConfig \<Rightarrow> string \<Rightarrow> string result" where
  "decrypt libs cfg v =
     (case split_on (CHR ''.'') v of
        iv # tag # encrypted # rest \<Rightarrow>
          if iv = [] \<or> tag = [] \<or> encrypted = [] then Inl (BadRequestException ''MFA secret is invalid.'')
          else (case aes_open libs (encryptionKey libs cfg) (base64url_decode iv) (base64url_decode tag)
                       (base64url_decode encrypted) of
                  None \<Rightarrow> Inl (InternalError ''decipher'')
                | Some t \<Rightarrow> Inr t)
      | _ \<Rightarrow> Inl (BadRequestException ''MFA secret is invalid.''))"

section \<open>Round trips\<close>

lemma split_three:
  assumes "c \<notin> set a" "c \<notin> set b" "c \<notin> set t"
  shows "split_on c (a @ c # b @ c # t) = [a, b, t]"
  using assms split_on_append [of c a "b @ c # t"] split_on_append [of c b t]
  by (simp add: split_on_single)

lemma base64url_Nil [simp]: "base64url s = [] \<longleftrightarrow> s = []"
  by (metis base64url_inverse base64url_def buffer_bits_def concat.simps(1) list.map(1) sextets.simps(1)
      base64url_decode_def octets.simps(2))

lemma isAccessPayload_json [simp]: "isAccessPayload (payload_json p) = Inr (Some p)"
  by (cases "vt_role p") (simp_all add: isAccessPayload_def payload_json_def json_str_def json_num_def role_of_name_def)

lemma verify_signed:
  assumes "lawful_libs libs"
  shows "verifyAccessToken libs cfg now (signJwt libs cfg p) =
    (if vt_exp p \<le> of_int (seconds now) then Inl (UnauthorizedException ''Authentication token expired.'') else Inr p)"
proof -
  let ?h = "base64url (json_write libs (JObj [(''alg'', JStr ''HS256''), (''typ'', JStr ''JWT'')]))"
  let ?p = "base64url (json_write libs (payload_json p))"
  let ?s = "sign libs cfg (?h @ ''.'' @ ?p)"
  have "split_on (CHR ''.'') (signJwt libs cfg p) = [?h, ?p, ?s]"
    unfolding signJwt_def Let_def
    using split_three [of "CHR ''.''" ?h ?p ?s] by (simp add: base64url_no_dot sign_def)
  then show ?thesis
    using assms by (simp add: verifyAccessToken_def lawful_libs_def base64url_inverse sign_def)
qed

lemma hash_verifies:
  assumes "lawful_libs libs" "saltBytes \<noteq> []"
  shows "verify_password libs q (hash_password libs saltBytes p)
    \<longleftrightarrow> scrypt_key libs q (base64url saltBytes) 64 = scrypt_key libs p (base64url saltBytes) 64"
proof -
  let ?salt = "base64url saltBytes"
  let ?key = "base64url (scrypt_key libs p ?salt 64)"
  have split: "split_on (CHR ''$'') (hash_password libs saltBytes p) = [''scrypt'', ?salt, ?key]"
    unfolding hash_password_def Let_def
    using split_three [of "CHR ''$''" "''scrypt''" ?salt ?key] by (simp add: base64url_no_dot)
  have len: "length (scrypt_key libs p ?salt 64) = 64"
    using assms(1) by (simp add: lawful_libs_def)
  then have "scrypt_key libs p ?salt 64 \<noteq> []" by auto
  then show ?thesis
    using assms(2) len by (auto simp: verify_password_def split base64url_inverse)
qed

lemma decrypt_encrypt:
  assumes "lawful_libs libs" "iv \<noteq> []" "v \<noteq> []"
  shows "decrypt libs cfg (encrypt libs cfg iv v) = Inr v"
proof -
  obtain tag enc where seal: "aes_seal libs (encryptionKey libs cfg) iv v = (tag, enc)" by fastforce
  have ok: "tag \<noteq> []" "enc \<noteq> []" "aes_open libs (encryptionKey libs cfg) iv tag enc = Some v"
  proof -
    have "fst (aes_seal libs (encryptionKey libs cfg) iv v) \<noteq> [] \<and> snd (aes_seal libs (encryptionKey libs cfg) iv v) \<noteq> []
        \<and> aes_open libs (encryptionKey libs cfg) iv (fst (aes_seal libs (encryptionKey libs cfg) iv v))
            (snd (aes_seal libs (encryptionKey libs cfg) iv v)) = Some v"
      using assms unfolding lawful_libs_def by blast
    then show "tag \<noteq> []" "enc \<noteq> []" "aes_open libs (encryptionKey libs cfg) iv tag enc = Some v"
      by (simp_all add: seal)
  qed
  have "split_on (CHR ''.'') (encrypt libs cfg iv v) = [base64url iv, base64url tag, base64url enc]"
    using split_three [of "CHR ''.''" "base64url iv" "base64url tag" "base64url enc"]
    by (simp add: encrypt_def seal base64url_no_dot)
  then show ?thesis
    using assms(2) ok by (simp add: decrypt_def base64url_inverse)
qed

text \<open>
  C27: an access token is read back as it was written, until it expires. The token created for a
  user verifies to a payload with that user, its role and tenant exactly before the whole second
  in which its lifetime ends.
\<close>

theorem access_token_roundtrip:
  assumes "lawful_libs libs" "createAccessToken libs cfg now user = Inr (expiresAt, token)"
  shows "verifyAccessToken libs cfg later token =
    (if expiresAt \<le> seconds later * 1000 then Inl (UnauthorizedException ''Authentication token expired.'')
     else Inr (access_payload now (nat ((expiresAt - seconds now * 1000) div 1000)) user))"
proof -
  obtain ttl where ttl: "accessTokenTtlSeconds cfg = Inr ttl" "expiresAt = (seconds now + int ttl) * 1000"
    "token = signJwt libs cfg (access_payload now ttl user)"
    using assms(2) by (auto simp: createAccessToken_def bindE_eq_Inr)
  have "expiresAt - seconds now * 1000 = int ttl * 1000" by (simp add: ttl(2) algebra_simps)
  then have "nat ((expiresAt - seconds now * 1000) div 1000) = ttl" by simp
  moreover have "vt_exp (access_payload now ttl user) = of_int (seconds now + int ttl)"
    by (simp add: access_payload_def)
  then have "vt_exp (access_payload now ttl user) \<le> of_int (seconds later) \<longleftrightarrow> expiresAt \<le> seconds later * 1000"
    unfolding ttl(2) by (simp only: of_int_le_iff mult_le_cancel_right) simp
  ultimately show ?thesis
    by (simp add: ttl(3) verify_signed [OF assms(1)])
qed

text \<open>Libraries with the documented laws: a JSON text is the number of the value, in unary.\<close>

instance json :: countable
  by countable_datatype

definition example_libs :: AuthLibs where
  "example_libs = \<lparr> hmac_sha256 = (\<lambda>k t. CHR ''h'' # k @ t), hmac_sha1 = (\<lambda>k t. replicate 20 (CHR ''m'')),
     sha256_bytes = (\<lambda>t. t), scrypt_key = (\<lambda>p s n. take n (p @ replicate n (CHR 0x00))),
     aes_seal = (\<lambda>k iv t. (''tag'', t)), aes_open = (\<lambda>k iv tag t. if tag = ''tag'' then Some t else None),
     json_write = (\<lambda>j. replicate (Suc (to_nat j)) (CHR ''1'')), json_read = (\<lambda>s. Some (from_nat (length s - 1))),
     uri_component = (\<lambda>s. s), qr_code = (\<lambda>s. s) \<rparr>"

lemma example_libs_lawful: "lawful_libs example_libs"
  by (auto simp: lawful_libs_def example_libs_def min_def)

definition example_auth :: AuthConfig where
  "example_auth = \<lparr> jwtAccessSecret = ''a'', jwtRefreshSecret = ''r'', jwtAccessExpiresIn = ''15m'',
     jwtRefreshExpiresIn = ''7d'', authLoginMaxAttempts = 5, authLoginWindowSeconds = 900,
     webPublicUrl = ''http://web'', authPublicUrl = ''http://api'', totpIssuer = ''app'', production = False,
     googleClient = None, githubClient = None \<rparr>"

definition example_user :: AuthenticatedUser where
  "example_user = \<lparr> au_branchId = None, au_email = ''a@b.c'', au_id = ''u1'', au_name = ''Ana'', au_role = ADMIN,
     au_tenant = \<lparr> tr_id = ''t1'', tr_name = ''T'', tr_slug = ''t'' \<rparr> \<rparr>"

lemma example_ttl: "accessTokenTtlSeconds example_auth = Inr 900"
  by code_simp

theorem access_token_roundtrip_witness:
  "verifyAccessToken example_libs example_auth 1500000 (snd (projr (createAccessToken example_libs example_auth 1000000 example_user)))
   = Inr (access_payload 1000000 900 example_user)"
proof -
  let ?t = "snd (projr (createAccessToken example_libs example_auth 1000000 example_user))"
  have "createAccessToken example_libs example_auth 1000000 example_user = Inr (1900000, ?t)"
    by (simp add: createAccessToken_def example_ttl seconds_def)
  from access_token_roundtrip [OF example_libs_lawful this, of 1500000] show ?thesis
    by (simp add: seconds_def)
qed

end
