(* ===== verification/Sessions.thy ===== *)
theory Sessions
  imports Tokens
begin

text \<open>
  The refresh sessions of \<open>auth.repository.ts\<close>, \<open>auth.presenter.ts\<close> and
  \<open>auth.service.ts\<close>: the rows of the table of refresh tokens, how a session is issued,
  rotated and revoked, and the invariant that a family of tokens has at most one live token.
  What the code draws at random is an argument: the token and the family of a new session.
\<close>

section \<open>Records\<close>

record AuthRequestMetadata =
  am_ip :: "string option"
  am_requestId :: "string option"
  am_userAgent :: "string option"

record AuthResult =
  ar_accessToken :: string
  ar_accessTokenExpiresAt :: date
  ar_user :: AuthenticatedUser
  ar_refreshToken :: string

text \<open>The random parts of a new refresh token.\<close>

record NewRefreshToken =
  nr_familyId :: string
  nr_token :: string

text \<open>A user with the tenant it includes, and a session with its user.\<close>

type_synonym AuthUserRecord = "User \<times> Tenant option"
type_synonym RefreshTokenRecord = "RefreshToken \<times> AuthUserRecord"

definition user_conflict :: "User \<Rightarrow> User \<Rightarrow> bool" where
  "user_conflict r x = (u_tenantId r \<noteq> None \<and> u_tenantId r = u_tenantId x \<and> u_email r = u_email x)"

definition refresh_conflict :: "RefreshToken \<Rightarrow> RefreshToken \<Rightarrow> bool" where
  "refresh_conflict r x = (rf_tenantId r = rf_tenantId x \<and> rf_tokenHash r = rf_tokenHash x)"

interpretation user_table: table u_id user_conflict
  by unfold_locales (auto simp: user_conflict_def)

interpretation refresh_table: table rf_id refresh_conflict
  by unfold_locales (auto simp: refresh_conflict_def)

definition tenant_of :: "db \<Rightarrow> string option \<Rightarrow> Tenant option" where
  "tenant_of d i = (case i of None \<Rightarrow> None | Some tn \<Rightarrow> findFirst (\<lambda>t. t_id t = tn) (tenants d))"

definition with_tenant :: "db \<Rightarrow> User \<Rightarrow> AuthUserRecord" where
  "with_tenant d u = (u, tenant_of d (u_tenantId u))"

definition hasActiveTenant :: "AuthUserRecord \<Rightarrow> bool" where
  "hasActiveTenant r = (case r of (u, t) \<Rightarrow> u_status u = UserStatus.ACTIVE \<and> (case t of None \<Rightarrow> False | Some tn \<Rightarrow> t_active tn))"

definition presentUser :: "User \<Rightarrow> Tenant \<Rightarrow> AuthenticatedUser" where
  "presentUser u t =
     \<lparr> au_branchId = present (u_branchId u), au_email = u_email u, au_id = u_id u, au_name = u_name u,
       au_role = u_role u, au_tenant = \<lparr> tr_id = t_id t, tr_name = t_name t, tr_slug = t_slug t \<rparr> \<rparr>"

definition expiresIn :: "date \<Rightarrow> nat \<Rightarrow> date" where
  "expiresIn now secs = now + int secs * 1000"

section \<open>The repository\<close>

definition findLoginCandidates :: "string \<Rightarrow> string option \<Rightarrow> db \<Rightarrow> AuthUserRecord list" where
  "findLoginCandidates email tenantSlug d =
     take 3 (filter (\<lambda>(u, t). case t of None \<Rightarrow> False | Some tn \<Rightarrow>
                       t_active tn \<and> (truthy tenantSlug \<longrightarrow> t_slug tn = the tenantSlug))
              (map (with_tenant d) (findMany (\<lambda>u. u_email u = email \<and> u_status u \<noteq> UserStatus.DELETED) (users d))))"

definition findActiveUserById :: "string \<Rightarrow> string \<Rightarrow> db \<Rightarrow> (User \<times> Tenant) option" where
  "findActiveUserById userId tenantId d =
     (case findFirst (\<lambda>u. u_id u = userId \<and> u_tenantId u = Some tenantId \<and> u_status u = UserStatus.ACTIVE
              \<and> (case tenant_of d (u_tenantId u) of None \<Rightarrow> False | Some t \<Rightarrow> t_active t)) (users d) of
        None \<Rightarrow> None
      | Some u \<Rightarrow> (case tenant_of d (u_tenantId u) of None \<Rightarrow> None | Some t \<Rightarrow> Some (u, t)))"

text \<open>Every refresh token has a user, by the foreign key.\<close>

definition findRefreshTokenByHash :: "string \<Rightarrow> db \<Rightarrow> RefreshTokenRecord option" where
  "findRefreshTokenByHash tokenHash d =
     (case findFirst (\<lambda>r. rf_tokenHash r = tokenHash) (refreshTokens d) of
        None \<Rightarrow> None
      | Some s \<Rightarrow> (case findFirst (\<lambda>u. u_id u = rf_userId s) (users d) of
                     None \<Rightarrow> None | Some u \<Rightarrow> Some (s, with_tenant d u)))"

definition createRefreshToken :: "RefreshToken \<Rightarrow> unit handler" where
  "createRefreshToken row d =
     (case create_row refresh_conflict row (refreshTokens d) of
        Inl e \<Rightarrow> (Inl (PrismaKnownError e), d)
      | Inr t \<Rightarrow> (Inr (), bump (d\<lparr>refreshTokens := t\<rparr>)))"

definition revoked :: "date \<Rightarrow> RefreshToken \<Rightarrow> RefreshToken" where
  "revoked now r = r\<lparr>rf_revokedAt := Some now\<rparr>"

definition rotateRefreshToken :: "date \<Rightarrow> string \<Rightarrow> RefreshToken \<Rightarrow> unit handler" where
  "rotateRefreshToken now currentTokenId row d =
     (case update_row rf_id refresh_conflict currentTokenId (\<lambda>r. r\<lparr>rf_revokedAt := Some now, rf_rotatedAt := Some now\<rparr>)
             (refreshTokens d) of
        Inl e \<Rightarrow> (Inl (PrismaKnownError e), d)
      | Inr (old, t) \<Rightarrow>
          (case create_row refresh_conflict row t of
             Inl e \<Rightarrow> (Inl (PrismaKnownError e), d)
           | Inr t2 \<Rightarrow> (Inr (), bump (d\<lparr>refreshTokens := t2\<rparr>))))"

definition revokeRefreshToken :: "date \<Rightarrow> string \<Rightarrow> unit handler" where
  "revokeRefreshToken now tokenId d =
     (case update_row rf_id refresh_conflict tokenId (revoked now) (refreshTokens d) of
        Inl e \<Rightarrow> (Inl (PrismaKnownError e), d)
      | Inr (r, t) \<Rightarrow> (Inr (), d\<lparr>refreshTokens := t\<rparr>))"

text \<open>\<open>updateMany\<close> with \<open>revokedAt: null\<close> among its conditions.\<close>

definition revoke_live :: "date \<Rightarrow> (RefreshToken \<Rightarrow> bool) \<Rightarrow> db \<Rightarrow> db" where
  "revoke_live now p d =
     d\<lparr>refreshTokens := updateMany (\<lambda>r. p r \<and> rf_revokedAt r = None) (revoked now) (refreshTokens d)\<rparr>"

definition revokeRefreshTokenFamily :: "date \<Rightarrow> string \<Rightarrow> db \<Rightarrow> db" where
  "revokeRefreshTokenFamily now familyId = revoke_live now (\<lambda>r. rf_familyId r = familyId)"

text \<open>A change of one user by its identifier.\<close>

definition set_user :: "string \<Rightarrow> (User \<Rightarrow> User) \<Rightarrow> User handler" where
  "set_user i f d =
     (case update_row u_id user_conflict i f (users d) of
        Inl e \<Rightarrow> (Inl (PrismaKnownError e), d)
      | Inr (u, t) \<Rightarrow> (Inr u, d\<lparr>users := t\<rparr>))"

definition updateLastLogin :: "date \<Rightarrow> string \<Rightarrow> User handler" where
  "updateLastLogin now userId = set_user userId (\<lambda>u. u\<lparr>u_lastLoginAt := Some now\<rparr>)"

section \<open>Issuing a session\<close>

definition recordAuthFailure ::
  "AuthLibs \<Rightarrow> AuthConfig \<Rightarrow> date \<Rightarrow> AuthRequestMetadata \<Rightarrow> string option \<Rightarrow> string option \<Rightarrow> string \<Rightarrow> db \<Rightarrow> db" where
  "recordAuthFailure libs cfg now m tenantId actorId reason =
     record_audit now \<lparr> ai_action = AUTH_FAILURE, ai_actorId = actorId, ai_entityId = actorId,
       ai_entityType = (if truthy actorId then Some ''User'' else None), ai_ipHash = hashMetadata libs cfg (am_ip m),
       ai_metadata = Some (JObj [(''reason'', JStr reason), (''result'', JStr ''failure'')]),
       ai_requestId = am_requestId m, ai_tenantId = tenantId \<rparr>"

definition session_row ::
  "AuthLibs \<Rightarrow> AuthConfig \<Rightarrow> date \<Rightarrow> nat \<Rightarrow> string \<Rightarrow> string \<Rightarrow> AuthenticatedUser \<Rightarrow> AuthRequestMetadata \<Rightarrow> string \<Rightarrow> RefreshToken" where
  "session_row libs cfg now ttl i familyId user m token =
     \<lparr> rf_id = i, rf_tenantId = tr_id (au_tenant user), rf_userId = au_id user,
       rf_tokenHash = hashRefreshToken libs cfg token, rf_familyId = familyId,
       rf_userAgent = present (am_userAgent m), rf_ipHash = hashMetadata libs cfg (am_ip m),
       rf_expiresAt = expiresIn now ttl, rf_revokedAt = None, rf_createdAt = now, rf_rotatedAt = None \<rparr>"

definition login_audit ::
  "AuthLibs \<Rightarrow> AuthConfig \<Rightarrow> date \<Rightarrow> AuthRequestMetadata \<Rightarrow> AuthenticatedUser \<Rightarrow> string \<Rightarrow> db \<Rightarrow> db" where
  "login_audit libs cfg now m user auditResult =
     record_audit now \<lparr> ai_action = LOGIN, ai_actorId = Some (au_id user), ai_entityId = Some (au_id user),
       ai_entityType = Some ''User'', ai_ipHash = hashMetadata libs cfg (am_ip m),
       ai_metadata = Some (JObj [(''result'', JStr auditResult)]), ai_requestId = am_requestId m,
       ai_tenantId = Some (tr_id (au_tenant user)) \<rparr>"

definition issueSession ::
  "AuthLibs \<Rightarrow> AuthConfig \<Rightarrow> date \<Rightarrow> NewRefreshToken \<Rightarrow> AuthUserRecord \<Rightarrow> AuthRequestMetadata \<Rightarrow> string
    \<Rightarrow> RefreshToken option \<Rightarrow> AuthResult handler" where
  "issueSession libs cfg now fresh user m auditResult rotatedSession d =
     (if \<not> hasActiveTenant user then (Inl (UnauthorizedException ''User is not active.''), d) else
      let authUser = presentUser (fst user) (the (snd user)) in
      case createAccessToken libs cfg now authUser of
        Inl e \<Rightarrow> (Inl e, d)
      | Inr (accessTokenExpiresAt, accessToken) \<Rightarrow>
      (case refreshTokenTtlSeconds cfg of
         Inl e \<Rightarrow> (Inl e, d)
       | Inr ttl \<Rightarrow>
      let familyId = (case rotatedSession of None \<Rightarrow> nr_familyId fresh | Some s \<Rightarrow> rf_familyId s);
          row = session_row libs cfg now ttl (new_id d) familyId authUser m (nr_token fresh) in
      (case (case rotatedSession of
               Some s \<Rightarrow> rotateRefreshToken now (rf_id s) row d
             | None \<Rightarrow> createRefreshToken row d) of
         (Inl e, d1) \<Rightarrow> (Inl e, d1)
       | (Inr _, d1) \<Rightarrow>
      (case updateLastLogin now (au_id authUser) d1 of
         (Inl e, d2) \<Rightarrow> (Inl e, d2)
       | (Inr _, d2) \<Rightarrow>
          (Inr \<lparr> ar_accessToken = accessToken, ar_accessTokenExpiresAt = accessTokenExpiresAt, ar_user = authUser,
                 ar_refreshToken = nr_token fresh \<rparr>,
           if auditResult \<noteq> ''refresh'' then login_audit libs cfg now m authUser auditResult d2 else d2)))))"

section \<open>Refresh and logout\<close>

definition getValidRefreshSession ::
  "AuthLibs \<Rightarrow> AuthConfig \<Rightarrow> date \<Rightarrow> string option \<Rightarrow> AuthRequestMetadata \<Rightarrow> RefreshTokenRecord handler" where
  "getValidRefreshSession libs cfg now refreshToken m d =
     (let invalid = Inl (UnauthorizedException ''Refresh session is invalid.'') in
      if \<not> truthy refreshToken then (invalid, recordAuthFailure libs cfg now m None None ''invalid_credentials'' d) else
      case findRefreshTokenByHash (hashRefreshToken libs cfg (the refreshToken)) d of
        None \<Rightarrow> (invalid, recordAuthFailure libs cfg now m None None ''invalid_credentials'' d)
      | Some (session, user) \<Rightarrow>
          if rf_revokedAt session \<noteq> None then
            (invalid, recordAuthFailure libs cfg now m (Some (rf_tenantId session)) (Some (rf_userId session))
               ''invalid_credentials'' (revokeRefreshTokenFamily now (rf_familyId session) d))
          else if rf_expiresAt session \<le> now \<or> \<not> hasActiveTenant user then
            (invalid, recordAuthFailure libs cfg now m (Some (rf_tenantId session)) (Some (rf_userId session))
               ''invalid_credentials'' d)
          else (Inr (session, user), d))"

definition refresh ::
  "AuthLibs \<Rightarrow> AuthConfig \<Rightarrow> date \<Rightarrow> NewRefreshToken \<Rightarrow> string option \<Rightarrow> AuthRequestMetadata \<Rightarrow> AuthResult handler" where
  "refresh libs cfg now fresh refreshToken m d =
     (case getValidRefreshSession libs cfg now refreshToken m d of
        (Inl e, d1) \<Rightarrow> (Inl e, d1)
      | (Inr (session, user), d1) \<Rightarrow> issueSession libs cfg now fresh user m ''refresh'' (Some session) d1)"

definition logout ::
  "AuthLibs \<Rightarrow> AuthConfig \<Rightarrow> date \<Rightarrow> string option \<Rightarrow> AuthRequestMetadata \<Rightarrow> unit handler" where
  "logout libs cfg now refreshToken m d =
     (if \<not> truthy refreshToken then (Inr (), d) else
      case findRefreshTokenByHash (hashRefreshToken libs cfg (the refreshToken)) d of
        None \<Rightarrow> (Inr (), d)
      | Some (session, user) \<Rightarrow>
          if rf_revokedAt session \<noteq> None then (Inr (), d) else
          (case revokeRefreshToken now (rf_id session) d of
             (Inl e, d1) \<Rightarrow> (Inl e, d1)
           | (Inr _, d1) \<Rightarrow>
               (Inr (), record_audit now \<lparr> ai_action = LOGOUT, ai_actorId = Some (rf_userId session),
                  ai_entityId = Some (rf_userId session), ai_entityType = Some ''User'',
                  ai_ipHash = hashMetadata libs cfg (am_ip m),
                  ai_metadata = Some (JObj [(''result'', JStr ''success'')]), ai_requestId = am_requestId m,
                  ai_tenantId = Some (rf_tenantId session) \<rparr> d1)))"

definition revokeSession :: "date \<Rightarrow> string \<Rightarrow> string \<Rightarrow> string \<Rightarrow> unit handler" where
  "revokeSession now userId tenantId sessionId d =
     (Inr (), record_audit now \<lparr> ai_action = SESSION_REVOKED, ai_actorId = Some userId, ai_entityId = Some sessionId,
        ai_entityType = Some ''RefreshToken'', ai_ipHash = None, ai_metadata = None, ai_requestId = None,
        ai_tenantId = Some tenantId \<rparr>
        (d\<lparr>refreshTokens := updateMany (\<lambda>r. rf_id r = sessionId \<and> rf_tenantId r = tenantId \<and> rf_userId r = userId)
             (revoked now) (refreshTokens d)\<rparr>))"

definition revokeOtherSessions ::
  "AuthLibs \<Rightarrow> AuthConfig \<Rightarrow> date \<Rightarrow> string \<Rightarrow> string \<Rightarrow> string option \<Rightarrow> unit handler" where
  "revokeOtherSessions libs cfg now userId tenantId currentRefreshToken d =
     (let currentHash = (if truthy currentRefreshToken
                         then Some (hashRefreshToken libs cfg (the currentRefreshToken)) else None) in
      (Inr (), record_audit now \<lparr> ai_action = SESSION_REVOKED, ai_actorId = Some userId, ai_entityId = None,
         ai_entityType = Some ''RefreshToken'', ai_ipHash = None,
         ai_metadata = Some (JObj [(''scope'', JStr ''others'')]), ai_requestId = None, ai_tenantId = Some tenantId \<rparr>
         (revoke_live now (\<lambda>r. rf_tenantId r = tenantId \<and> rf_userId r = userId
              \<and> (truthy currentHash \<longrightarrow> rf_tokenHash r \<noteq> the currentHash)) d)))"

section \<open>The sessions of a family\<close>

text \<open>
  Rows have distinct identifiers, all drawn before; the rows of a family belong to one
  user; and at most one of them is live.
\<close>

definition rows_ok :: "RefreshToken list \<Rightarrow> bool" where
  "rows_ok t \<longleftrightarrow> distinct (map rf_id t)
     \<and> (\<forall>r \<in> set t. \<forall>s \<in> set t. rf_familyId r = rf_familyId s \<longrightarrow>
          rf_userId r = rf_userId s
          \<and> (rf_revokedAt r = None \<longrightarrow> rf_revokedAt s = None \<longrightarrow> rf_id r = rf_id s))"

lemma rows_okD:
  "rows_ok t \<Longrightarrow> r \<in> set t \<Longrightarrow> s \<in> set t \<Longrightarrow> rf_familyId r = rf_familyId s \<Longrightarrow>
   rf_userId r = rf_userId s
   \<and> (rf_revokedAt r = None \<longrightarrow> rf_revokedAt s = None \<longrightarrow> rf_id r = rf_id s)"
  unfolding rows_ok_def by blast

lemma rows_okI:
  assumes "distinct (map rf_id t)"
    "\<And>r s. r \<in> set t \<Longrightarrow> s \<in> set t \<Longrightarrow> rf_familyId r = rf_familyId s \<Longrightarrow>
       rf_userId r = rf_userId s
       \<and> (rf_revokedAt r = None \<longrightarrow> rf_revokedAt s = None \<longrightarrow> rf_id r = rf_id s)"
  shows "rows_ok t"
  unfolding rows_ok_def using assms by blast

lemma rows_ok_distinct: "rows_ok t \<Longrightarrow> distinct (map rf_id t)"
  by (simp add: rows_ok_def)

definition sessions_ok :: "db \<Rightarrow> bool" where
  "sessions_ok d \<longleftrightarrow> rows_ok (refreshTokens d) \<and> (\<forall>r \<in> set (refreshTokens d). old_id d (rf_id r))"

lemma sessions_ok_cong:
  "refreshTokens d' = refreshTokens d \<Longrightarrow> next_id d \<le> next_id d' \<Longrightarrow> sessions_ok d \<Longrightarrow> sessions_ok d'"
  by (auto simp: sessions_ok_def intro: old_id_mono)

lemma sessions_ok_audit [simp]: "sessions_ok d \<Longrightarrow> sessions_ok (record_audit now i d)"
  by (rule sessions_ok_cong) simp_all

lemma rows_ok_revoke:
  assumes "rows_ok t" "\<And>r. rf_id (f r) = rf_id r \<and> rf_familyId (f r) = rf_familyId r \<and> rf_userId (f r) = rf_userId r
    \<and> rf_revokedAt (f r) \<noteq> None"
  shows "rows_ok (updateMany p f t)"
proof -
  let ?g = "\<lambda>r. if p r then f r else r"
  have g: "rf_id (?g r) = rf_id r" "rf_familyId (?g r) = rf_familyId r" "rf_userId (?g r) = rf_userId r"
    "rf_revokedAt (?g r) = None \<Longrightarrow> rf_revokedAt r = None" for r
    using assms(2) [of r] by (auto split: if_splits)
  have "map rf_id (updateMany p f t) = map rf_id t"
    using assms(2) by (simp add: map_updateMany)
  then have dist: "distinct (map rf_id (updateMany p f t))" using rows_ok_distinct [OF assms(1)] by simp
  have "rf_userId r = rf_userId s
      \<and> (rf_revokedAt r = None \<longrightarrow> rf_revokedAt s = None \<longrightarrow> rf_id r = rf_id s)"
    if rs: "r \<in> set (updateMany p f t)" "s \<in> set (updateMany p f t)" "rf_familyId r = rf_familyId s" for r s
  proof -
    obtain a b where ab: "a \<in> set t" "b \<in> set t" "r = ?g a" "s = ?g b"
      using rs(1,2) by (auto simp: set_updateMany)
    have "rf_familyId a = rf_familyId b" using rs(3) ab(3,4) g(2) by simp
    then have "rf_userId a = rf_userId b
        \<and> (rf_revokedAt a = None \<longrightarrow> rf_revokedAt b = None \<longrightarrow> rf_id a = rf_id b)"
      using rows_okD [OF assms(1) ab(1,2)] by blast
    then show ?thesis using ab(3,4) g by metis
  qed
  then show ?thesis by (rule rows_okI [OF dist])
qed

text \<open>A new row joins when no row of its family is live and the family, if any, has its owner.\<close>

lemma rows_ok_append:
  assumes "rows_ok t" "rf_id x \<notin> rf_id ` set t"
    "\<And>r. r \<in> set t \<Longrightarrow> rf_familyId r = rf_familyId x \<Longrightarrow>
       rf_userId r = rf_userId x \<and> rf_revokedAt r \<noteq> None"
  shows "rows_ok (t @ [x])"
proof -
  have "rf_userId r = rf_userId s
      \<and> (rf_revokedAt r = None \<longrightarrow> rf_revokedAt s = None \<longrightarrow> rf_id r = rf_id s)"
    if "r \<in> set (t @ [x])" "s \<in> set (t @ [x])" "rf_familyId r = rf_familyId s" for r s
  proof (cases "r = x \<or> s = x")
    case True
    then show ?thesis using that assms(3) [of r] assms(3) [of s] by auto
  next
    case False
    then show ?thesis using that rows_okD [OF assms(1), of r s] by simp
  qed
  moreover have "distinct (map rf_id (t @ [x]))" using rows_ok_distinct [OF assms(1)] assms(2) by simp
  ultimately show ?thesis by (intro rows_okI)
qed

lemma sessions_ok_updateMany:
  assumes "sessions_ok d" "\<And>r. rf_id (f r) = rf_id r \<and> rf_familyId (f r) = rf_familyId r \<and> rf_userId (f r) = rf_userId r
    \<and> rf_revokedAt (f r) \<noteq> None"
  shows "sessions_ok (d\<lparr>refreshTokens := updateMany p f (refreshTokens d)\<rparr>)"
proof -
  have "old_id d (rf_id r)" if r: "r \<in> set (updateMany p f (refreshTokens d))" for r
  proof -
    obtain a where "a \<in> set (refreshTokens d)" "r = (if p a then f a else a)"
      using r unfolding set_updateMany by blast
    then show ?thesis using assms by (simp add: sessions_ok_def split: if_splits)
  qed
  moreover have "rows_ok (updateMany p f (refreshTokens d))"
    using assms by (intro rows_ok_revoke) (simp_all add: sessions_ok_def)
  ultimately show ?thesis
    by (auto simp: sessions_ok_def old_id_def)
qed

lemma sessions_ok_revoke_live [simp]: "sessions_ok d \<Longrightarrow> sessions_ok (revoke_live now p d)"
  unfolding revoke_live_def by (rule sessions_ok_updateMany) (simp_all add: revoked_def)

lemma sessions_ok_append:
  assumes "rows_ok t" "\<forall>r \<in> set t. old_id d (rf_id r)" "rf_id x = new_id d"
    "\<And>r. r \<in> set t \<Longrightarrow> rf_familyId r = rf_familyId x \<Longrightarrow>
       rf_userId r = rf_userId x \<and> rf_revokedAt r \<noteq> None"
  shows "sessions_ok (bump (d\<lparr>refreshTokens := t @ [x]\<rparr>))"
proof -
  have "rf_id x \<notin> rf_id ` set t" using assms(2,3) new_id_fresh [of d] by auto
  then have "rows_ok (t @ [x])" using rows_ok_append [of t x] assms(1,4) by blast
  moreover have "old_id (bump (d\<lparr>refreshTokens := t @ [x]\<rparr>)) (rf_id r)" if "r \<in> set (t @ [x])" for r
    using that assms(2,3) old_id_mono [of d _ "bump (d\<lparr>refreshTokens := t @ [x]\<rparr>)"]
      old_id_new_id [of d "bump (d\<lparr>refreshTokens := t @ [x]\<rparr>)"] by auto
  ultimately show ?thesis by (simp add: sessions_ok_def)
qed

definition fresh_family :: "NewRefreshToken \<Rightarrow> db \<Rightarrow> bool" where
  "fresh_family fresh d \<longleftrightarrow> (\<forall>r \<in> set (refreshTokens d). rf_familyId r \<noteq> nr_familyId fresh)"

lemma createRefreshToken_ok:
  assumes "sessions_ok d" "\<forall>r \<in> set (refreshTokens d). rf_familyId r \<noteq> rf_familyId row" "rf_id row = new_id d"
  shows "ensures (\<lambda>r. sessions_ok) (createRefreshToken row d)"
  unfolding createRefreshToken_def
  using assms sessions_ok_append [of "refreshTokens d" d row]
  by (intro ensures_intros) (auto simp: create_Inr sessions_ok_def)

lemma rotateRefreshToken_ok:
  assumes "sessions_ok d" "s \<in> set (refreshTokens d)" "rf_revokedAt s = None"
    "rf_id row = new_id d" "rf_familyId row = rf_familyId s" "rf_userId row = rf_userId s"
  shows "ensures (\<lambda>r. sessions_ok) (rotateRefreshToken now (rf_id s) row d)"
  unfolding rotateRefreshToken_def
proof (intro ensures_intros)
  let ?f = "\<lambda>r. r\<lparr>rf_revokedAt := Some now, rf_rotatedAt := Some now\<rparr>"
  let ?p = "\<lambda>r. rf_id r = rf_id s"
  fix p old t t2
  assume up: "update_row rf_id refresh_conflict (rf_id s) ?f (refreshTokens d) = Inr p" "p = (old, t)"
    and create: "create_row refresh_conflict row t = Inr t2"
  have t: "t = updateMany ?p ?f (refreshTokens d)"
    using update_updateMany [OF up(1) [unfolded up(2)]] by blast
  have ok: "sessions_ok (d\<lparr>refreshTokens := t\<rparr>)"
    unfolding t by (rule sessions_ok_updateMany [OF assms(1)]) simp
  have "rf_userId r = rf_userId row \<and> rf_revokedAt r \<noteq> None"
    if r: "r \<in> set t" "rf_familyId r = rf_familyId row" for r
  proof -
    obtain a where a: "a \<in> set (refreshTokens d)" "r = (if ?p a then ?f a else a)"
      using r(1) unfolding t set_updateMany by blast
    then have "rf_familyId a = rf_familyId s" using r(2) assms(5) by (auto split: if_splits)
    then have "rf_userId a = rf_userId s" "rf_revokedAt a = None \<Longrightarrow> rf_id a = rf_id s"
      using rows_okD [of "refreshTokens d" a s] assms(1-3) a(1) by (simp_all add: sessions_ok_def)
    then show ?thesis using a(2) assms(6) by (auto split: if_splits)
  qed
  moreover have "rows_ok t" "\<forall>r \<in> set t. old_id d (rf_id r)"
    using ok by (auto simp: sessions_ok_def old_id_def)
  ultimately have "sessions_ok (bump (d\<lparr>refreshTokens := t @ [row]\<rparr>))"
    using sessions_ok_append [of t d row] assms(4) by blast
  then show "sessions_ok (bump (d\<lparr>refreshTokens := t2\<rparr>))"
    using create by (simp add: create_Inr)
qed (use assms(1) in auto)

lemma set_user_frame:
  "ensures (\<lambda>r d'. refreshTokens d' = refreshTokens d \<and> next_id d' = next_id d \<and> tenants d' = tenants d) (set_user i f d)"
  unfolding set_user_def by (intro ensures_intros) auto

lemma findRefreshTokenByHash_SomeD:
  assumes "findRefreshTokenByHash h d = Some (s, u)"
  shows "findFirst (\<lambda>r. rf_tokenHash r = h) (refreshTokens d) = Some s" "s \<in> set (refreshTokens d)"
    "rf_tokenHash s = h" "u_id (fst u) = rf_userId s" "u = with_tenant d (fst u)" "fst u \<in> set (users d)"
proof -
  obtain v where *: "findFirst (\<lambda>r. rf_tokenHash r = h) (refreshTokens d) = Some s"
    "findFirst (\<lambda>u. u_id u = rf_userId s) (users d) = Some v" "u = with_tenant d v"
    using assms by (auto simp: findRefreshTokenByHash_def split: option.splits)
  then show "findFirst (\<lambda>r. rf_tokenHash r = h) (refreshTokens d) = Some s" "s \<in> set (refreshTokens d)"
    "rf_tokenHash s = h" "u_id (fst u) = rf_userId s" "u = with_tenant d (fst u)" "fst u \<in> set (users d)"
    using findFirst_SomeD [OF *(1)] findFirst_SomeD [OF *(2)] by (auto simp: with_tenant_def)
qed

lemma getValidRefreshSession_InrD:
  assumes "getValidRefreshSession libs cfg now token m d = (Inr (s, u), d1)"
  shows "d1 = d" "truthy token" "findRefreshTokenByHash (hashRefreshToken libs cfg (the token)) d = Some (s, u)"
    "rf_revokedAt s = None" "now < rf_expiresAt s" "hasActiveTenant u"
  using assms by (auto simp: getValidRefreshSession_def Let_def split: if_splits option.splits)

text \<open>A session either joins a new family or replaces the live token of its own.\<close>

definition may_issue :: "NewRefreshToken \<Rightarrow> AuthUserRecord \<Rightarrow> RefreshToken option \<Rightarrow> db \<Rightarrow> bool" where
  "may_issue fresh user rotated d \<longleftrightarrow>
     (case rotated of
        None \<Rightarrow> fresh_family fresh d
      | Some s \<Rightarrow> s \<in> set (refreshTokens d) \<and> rf_revokedAt s = None \<and> rf_userId s = u_id (fst user))"

lemma set_user_ok: "sessions_ok d \<Longrightarrow> ensures (\<lambda>r. sessions_ok) (set_user i f d)"
  by (rule ensures_mono [OF set_user_frame]) (auto intro: sessions_ok_cong)

lemma updateLastLogin_ok: "sessions_ok d \<Longrightarrow> ensures (\<lambda>r. sessions_ok) (updateLastLogin now i d)"
  unfolding updateLastLogin_def by (rule set_user_ok)

lemma ensures_case_result:
  "ensures P x \<Longrightarrow> (\<And>e s. P (Inl e) s \<Longrightarrow> ensures Q (f e s)) \<Longrightarrow> (\<And>a s. P (Inr a) s \<Longrightarrow> ensures Q (g a s))
   \<Longrightarrow> ensures Q (case x of (Inl e, s) \<Rightarrow> f e s | (Inr a, s) \<Rightarrow> g a s)"
  by (cases x; cases "fst x") (simp_all add: ensures_def)

lemma new_row_ok:
  assumes "sessions_ok d" "may_issue fresh user rotated d" "rf_id row = new_id d" "rf_userId row = u_id (fst user)"
    "rf_familyId row = (case rotated of None \<Rightarrow> nr_familyId fresh | Some s \<Rightarrow> rf_familyId s)"
  shows "ensures (\<lambda>r. sessions_ok) (case rotated of
               Some s \<Rightarrow> rotateRefreshToken now (rf_id s) row d | None \<Rightarrow> createRefreshToken row d)"
proof (cases rotated)
  case None
  then show ?thesis
    using assms createRefreshToken_ok [of d row] by (simp add: may_issue_def fresh_family_def)
next
  case (Some s)
  then show ?thesis
    using assms rotateRefreshToken_ok [of d s row now] by (simp add: may_issue_def)
qed

lemma issueSession_ok:
  assumes "sessions_ok d" "may_issue fresh user rotated d"
  shows "ensures (\<lambda>r. sessions_ok) (issueSession libs cfg now fresh user m auditResult rotated d)"
  unfolding issueSession_def Let_def
  apply (intro ensures_if ensures_sum ensures_pair assms(1))
  apply (rule ensures_prod)
  apply (intro ensures_sum ensures_pair assms(1))
  apply (rule ensures_case_result [OF new_row_ok [OF assms]])
      apply (simp_all add: session_row_def presentUser_def ensures_pair)
  apply (rule ensures_case_result [OF updateLastLogin_ok])
  apply (auto simp: login_audit_def intro: ensures_pair)
  done

lemma refresh_ok: "sessions_ok d \<Longrightarrow> ensures (\<lambda>r. sessions_ok) (refresh libs cfg now fresh token m d)"
proof -
  assume ok: "sessions_ok d"
  have "ensures (\<lambda>r d1. sessions_ok d1 \<and> (\<forall>s u. r = Inr (s, u) \<longrightarrow> may_issue fresh u (Some s) d1))
      (getValidRefreshSession libs cfg now token m d)"
    unfolding getValidRefreshSession_def Let_def
    by (intro ensures_intros)
      (auto simp: ok recordAuthFailure_def revokeRefreshTokenFamily_def may_issue_def dest: findRefreshTokenByHash_SomeD)
  then show ?thesis
    unfolding refresh_def
    by (rule ensures_case_result) (auto intro!: ensures_intros issueSession_ok)
qed

lemma revokeRefreshToken_ok: "sessions_ok d \<Longrightarrow> ensures (\<lambda>r. sessions_ok) (revokeRefreshToken now i d)"
  unfolding revokeRefreshToken_def
  by (intro ensures_intros)
    (auto dest!: update_updateMany intro!: sessions_ok_updateMany simp: revoked_def)

lemma logout_ok: "sessions_ok d \<Longrightarrow> ensures (\<lambda>r. sessions_ok) (logout libs cfg now token m d)"
  unfolding logout_def
  by (intro ensures_if ensures_option ensures_prod ensures_pair ensures_case_result [OF revokeRefreshToken_ok]) auto

lemma revokeSession_ok: "sessions_ok d \<Longrightarrow> ensures (\<lambda>r. sessions_ok) (revokeSession now u tn i d)"
  unfolding revokeSession_def
  by (intro ensures_pair sessions_ok_audit sessions_ok_updateMany) (simp_all add: revoked_def)

lemma revokeOtherSessions_ok: "sessions_ok d \<Longrightarrow> ensures (\<lambda>r. sessions_ok) (revokeOtherSessions libs cfg now u tn token d)"
  unfolding revokeOtherSessions_def Let_def
  by (intro ensures_pair sessions_ok_audit sessions_ok_revoke_live)

section \<open>A token is good for one refresh\<close>

lemma find_updateMany: "(\<And>r. q (f r) = q r) \<Longrightarrow> findFirst q (updateMany p f t) = map_option (\<lambda>r. if p r then f r else r) (findFirst q t)"
  by (induction t) (auto simp: findFirst_def updateMany_def)

lemma findFirst_appendI: "findFirst q t = Some r \<Longrightarrow> findFirst q (t @ u) = Some r"
  by (induction t) (auto simp: findFirst_def split: if_splits)

lemma set_user_ids: "set_user i f d = (r, d1) \<Longrightarrow> (\<And>u. u_id (f u) = u_id u) \<Longrightarrow>
  map u_id (users d1) = map u_id (users d) \<and> refreshTokens d1 = refreshTokens d"
proof -
  assume *: "set_user i f d = (r, d1)" "\<And>u. u_id (f u) = u_id u"
  show "map u_id (users d1) = map u_id (users d) \<and> refreshTokens d1 = refreshTokens d"
  proof (cases "update_row u_id user_conflict i f (users d)")
    case (Inl e)
    then show ?thesis using *(1) by (simp add: set_user_def)
  next
    case (Inr p)
    then obtain u t where up: "update_row u_id user_conflict i f (users d) = Inr (u, t)" by (cases p) auto
    have "t = updateMany (\<lambda>x. u_id x = i) f (users d)" by (rule update_updateMany [OF up, THEN conjunct1])
    moreover have "d1 = d\<lparr>users := t\<rparr>" using *(1) up by (simp add: set_user_def)
    ultimately show ?thesis using *(2) by (simp add: map_updateMany)
  qed
qed

lemma find_user_exists:
  assumes "map u_id t' = map u_id t" "findFirst (\<lambda>u. u_id u = i) t = Some u"
  shows "\<exists>v. findFirst (\<lambda>u. u_id u = i) t' = Some v"
proof -
  have "i \<in> set (map u_id t)" using findFirst_SomeD [OF assms(2)] by auto
  then have "i \<in> set (map u_id t')" using assms(1) by simp
  then obtain v where "v \<in> set t'" "u_id v = i" by auto
  then show ?thesis
    using findFirst_None [of "\<lambda>u. u_id u = i" t'] by (cases "findFirst (\<lambda>u. u_id u = i) t'") auto
qed

text \<open>What a successful refresh leaves of the table.\<close>

lemma refresh_InrD:
  assumes "refresh libs cfg now fresh token m d = (Inr res, d')"
  shows "\<exists>s u row. findRefreshTokenByHash (hashRefreshToken libs cfg (the token)) d = Some (s, u)
    \<and> truthy token \<and> rf_revokedAt s = None \<and> now < rf_expiresAt s \<and> hasActiveTenant u
    \<and> refreshTokens d' = updateMany (\<lambda>r. rf_id r = rf_id s) (\<lambda>r. r\<lparr>rf_revokedAt := Some now, rf_rotatedAt := Some now\<rparr>)
        (refreshTokens d) @ [row]
    \<and> rf_tokenHash row = hashRefreshToken libs cfg (ar_refreshToken res) \<and> rf_familyId row = rf_familyId s
    \<and> rf_revokedAt row = None \<and> map u_id (users d') = map u_id (users d)"
proof -
  obtain s u where v: "getValidRefreshSession libs cfg now token m d = (Inr (s, u), d)"
    and i: "issueSession libs cfg now fresh u m ''refresh'' (Some s) d = (Inr res, d')"
    using assms getValidRefreshSession_InrD(1) by (fastforce simp: refresh_def split: prod.splits sum.splits)
  obtain row d1 d2 where r: "rotateRefreshToken now (rf_id s) row d = (Inr (), d1)"
    "updateLastLogin now (u_id (fst u)) d1 = (Inr d2, d')"
    "rf_tokenHash row = hashRefreshToken libs cfg (ar_refreshToken res)" "rf_familyId row = rf_familyId s"
    "rf_revokedAt row = None"
    using i by (auto simp: issueSession_def Let_def session_row_def presentUser_def split: if_splits sum.splits prod.splits)
  have "refreshTokens d1 = updateMany (\<lambda>r. rf_id r = rf_id s) (\<lambda>r. r\<lparr>rf_revokedAt := Some now, rf_rotatedAt := Some now\<rparr>)
        (refreshTokens d) @ [row]" "users d1 = users d"
    using r(1) by (auto simp: rotateRefreshToken_def create_Inr split: sum.splits prod.splits dest!: update_updateMany)
  moreover have "map u_id (users d') = map u_id (users d1)" "refreshTokens d' = refreshTokens d1"
    using set_user_ids [OF r(2) [unfolded updateLastLogin_def]] by simp_all
  ultimately show ?thesis
    using getValidRefreshSession_InrD [OF v] r(3-5) by (intro exI [of _ s] exI [of _ u] exI [of _ row]) simp
qed

text \<open>
  C10: a refresh token is good for one use. After it has been exchanged, presenting it again is
  refused, and that second use ends the session: no token of its family is live any more,
  the one the first exchange returned included.
\<close>

theorem refresh_token_single_use:
  assumes "refresh libs cfg now fresh (Some token) m d = (Inr res, d1)"
    "refresh libs cfg later fresh' (Some token) m' d1 = (r, d2)"
  shows "r = Inl (UnauthorizedException ''Refresh session is invalid.'')
    \<and> (\<exists>s u. findRefreshTokenByHash (hashRefreshToken libs cfg token) d = Some (s, u)
        \<and> list_ex (\<lambda>x. rf_tokenHash x = hashRefreshToken libs cfg (ar_refreshToken res)
             \<and> rf_familyId x = rf_familyId s \<and> rf_revokedAt x = None) (refreshTokens d1)
        \<and> list_all (\<lambda>x. rf_revokedAt x \<noteq> None) (filter (\<lambda>x. rf_familyId x = rf_familyId s) (refreshTokens d2)))"
proof -
  let ?h = "hashRefreshToken libs cfg token"
  obtain s u row where su: "findRefreshTokenByHash ?h d = Some (s, u)" "token \<noteq> []"
    and t: "refreshTokens d1 = updateMany (\<lambda>r. rf_id r = rf_id s) (\<lambda>r. r\<lparr>rf_revokedAt := Some now, rf_rotatedAt := Some now\<rparr>)
        (refreshTokens d) @ [row]"
    and row: "rf_tokenHash row = hashRefreshToken libs cfg (ar_refreshToken res)" "rf_familyId row = rf_familyId s"
      "rf_revokedAt row = None"
    and ids: "map u_id (users d1) = map u_id (users d)"
    using refresh_InrD [OF assms(1)] by auto
  let ?s = "s\<lparr>rf_revokedAt := Some now, rf_rotatedAt := Some now\<rparr>"
  have "findFirst (\<lambda>r. rf_tokenHash r = ?h) (refreshTokens d) = Some s"
    using findRefreshTokenByHash_SomeD [OF su(1)] by blast
  then have s: "findFirst (\<lambda>r. rf_tokenHash r = ?h) (refreshTokens d1) = Some ?s"
    unfolding t by (intro findFirst_appendI) (simp add: find_updateMany)
  obtain w where "findFirst (\<lambda>u. u_id u = rf_userId s) (users d) = Some w"
    using su(1) by (auto simp: findRefreshTokenByHash_def split: option.splits)
  then obtain v where "findFirst (\<lambda>u. u_id u = rf_userId s) (users d1) = Some v"
    using find_user_exists [OF ids] by blast
  then have "findRefreshTokenByHash ?h d1 = Some (?s, with_tenant d1 v)"
    using s by (simp add: findRefreshTokenByHash_def)
  then have r: "r = Inl (UnauthorizedException ''Refresh session is invalid.'')"
    "refreshTokens d2 = refreshTokens (revokeRefreshTokenFamily later (rf_familyId s) d1)"
    using assms(2) su(2) by (auto simp: refresh_def getValidRefreshSession_def recordAuthFailure_def)
  have "rf_revokedAt x \<noteq> None" if "x \<in> set (refreshTokens d2)" "rf_familyId x = rf_familyId s" for x
    using that unfolding r(2) revokeRefreshTokenFamily_def revoke_live_def
    by (auto simp: set_updateMany revoked_def split: if_splits)
  then have "list_all (\<lambda>x. rf_revokedAt x \<noteq> None) (filter (\<lambda>x. rf_familyId x = rf_familyId s) (refreshTokens d2))"
    by (simp add: list_all_iff)
  moreover have "list_ex (\<lambda>x. rf_tokenHash x = hashRefreshToken libs cfg (ar_refreshToken res)
      \<and> rf_familyId x = rf_familyId s \<and> rf_revokedAt x = None) (refreshTokens d1)"
    unfolding t using row by simp
  ultimately show ?thesis using r(1) su(1) by blast
qed

text \<open>A tenant with one user and one session, and its refresh.\<close>

definition session_user :: User where
  "session_user = \<lparr> u_id = ''u'', u_tenantId = Some ''t'', u_branchId = None, u_name = ''Ana'', u_email = ''a@b.c'',
     u_passwordHash = None, u_role = ADMIN, u_status = UserStatus.ACTIVE, u_mfaEnabled = False, u_mfaSecret = None,
     u_passwordChangeRequired = False, u_lastLoginAt = None, u_deletedAt = None, u_createdAt = 0 \<rparr>"

definition session_tenant :: Tenant where
  "session_tenant = \<lparr> t_id = ''t'', t_name = ''T'', t_document = None, t_slug = ''t'', t_active = True \<rparr>"

definition no_metadata :: AuthRequestMetadata where
  "no_metadata = \<lparr> am_ip = None, am_requestId = None, am_userAgent = None \<rparr>"

definition one_session :: db where
  "one_session = empty_db\<lparr>users := [session_user], tenants := [session_tenant],
     refreshTokens := [session_row example_libs example_auth 0 100 ''s'' ''f'' (presentUser session_user session_tenant)
       no_metadata ''one'']\<rparr>"

lemma example_refresh_ttl: "refreshTokenTtlSeconds example_auth = Inr 604800"
  by (simp add: refreshTokenTtlSeconds_def parseDurationToSeconds_def example_auth_def number_of_digits_def
      unit_seconds_def digit_val_def is_digit_def ccode_def)

lemma example_hashes: "hashRefreshToken example_libs example_auth ''two'' \<noteq> hashRefreshToken example_libs example_auth ''one''"
  by code_simp

lemma one_session_found:
  "findRefreshTokenByHash (hashRefreshToken example_libs example_auth ''one'') one_session
   = Some (session_row example_libs example_auth 0 100 ''s'' ''f'' (presentUser session_user session_tenant) no_metadata ''one'',
       session_user, Some session_tenant)"
  by (simp add: findRefreshTokenByHash_def findFirst_def one_session_def session_row_def presentUser_def
      session_user_def session_tenant_def with_tenant_def tenant_of_def)

lemma one_session_refresh:
  "\<exists>res d. refresh example_libs example_auth 1 \<lparr> nr_familyId = ''g'', nr_token = ''two'' \<rparr> (Some ''one'') no_metadata one_session
     = (Inr res, d)"
proof -
  have "\<exists>res d. issueSession example_libs example_auth 1 \<lparr> nr_familyId = ''g'', nr_token = ''two'' \<rparr>
      (session_user, Some session_tenant) no_metadata ''refresh''
      (Some (session_row example_libs example_auth 0 100 ''s'' ''f'' (presentUser session_user session_tenant) no_metadata ''one''))
      one_session = (Inr res, d)"
    using example_hashes
    by (simp add: issueSession_def hasActiveTenant_def createAccessToken_def example_ttl example_refresh_ttl
        rotateRefreshToken_def update_row_def create_row_def refresh_conflict_def session_row_def updateLastLogin_def
        set_user_def user_conflict_def one_session_def presentUser_def session_user_def session_tenant_def new_id_def Let_def)
  then show ?thesis
    by (simp add: refresh_def getValidRefreshSession_def one_session_found hasActiveTenant_def session_row_def
        expiresIn_def session_user_def session_tenant_def)
qed

lemma refresh_token_single_use_witness:
  "fst (refresh example_libs example_auth 2 \<lparr> nr_familyId = ''h'', nr_token = ''three'' \<rparr> (Some ''one'') no_metadata
     (snd (refresh example_libs example_auth 1 \<lparr> nr_familyId = ''g'', nr_token = ''two'' \<rparr> (Some ''one'') no_metadata one_session)))
   = Inl (UnauthorizedException ''Refresh session is invalid.'')"
proof -
  obtain res d where d: "refresh example_libs example_auth 1 \<lparr> nr_familyId = ''g'', nr_token = ''two'' \<rparr> (Some ''one'')
      no_metadata one_session = (Inr res, d)"
    using one_session_refresh by blast
  obtain r d2 where d2: "refresh example_libs example_auth 2 \<lparr> nr_familyId = ''h'', nr_token = ''three'' \<rparr> (Some ''one'')
      no_metadata d = (r, d2)"
    by fastforce
  show ?thesis using refresh_token_single_use [OF d d2] d d2 by simp
qed

end
