(* ===== verification/Mfa.thy ===== *)
theory Mfa
  imports Tokens "HOL-Library.Word"
begin

unbundle bit_operations_syntax

text \<open>
  \<open>mfa.service.ts\<close>: the secret of the second factor in base 32 and its one-time codes. The bit
  operations of the code work on 32-bit integers, so the accumulators are words that wrap; the
  lemmas show that the bits in use never do.
\<close>

section \<open>Base 32\<close>

definition base32_alphabet :: string where
  "base32_alphabet = ''ABCDEFGHIJKLMNOPQRSTUVWXYZ234567''"

definition base32_char :: "32 word \<Rightarrow> char" where
  "base32_char v = base32_alphabet ! unat (v AND 31)"

text \<open>The inner loop writes a character for every five bits that are waiting.\<close>

fun drain :: "32 word \<Rightarrow> nat \<Rightarrow> string \<Rightarrow> nat \<times> string" where
  "drain v bits out =
     (if bits \<ge> 5 then drain v (bits - 5) (out @ [base32_char (drop_bit (bits - 5) v)]) else (bits, out))"

declare drain.simps [simp del]

fun secret_loop :: "string \<Rightarrow> 32 word \<Rightarrow> nat \<Rightarrow> string \<Rightarrow> 32 word \<times> nat \<times> string" where
  "secret_loop [] v bits out = (v, bits, out)"
| "secret_loop (byte # bytes) v bits out =
     (let v' = push_bit 8 v OR of_char byte;
          (bits', out') = drain v' (bits + 8) out
      in secret_loop bytes v' bits' out')"

definition generateSecret :: "string \<Rightarrow> string" where
  "generateSecret bytes =
     (case secret_loop bytes 0 0 [] of
        (v, bits, out) \<Rightarrow> if bits > 0 then out @ [base32_char (push_bit (5 - bits) v)] else out)"

fun index_of :: "char \<Rightarrow> string \<Rightarrow> nat option" where
  "index_of c [] = None"
| "index_of c (x # xs) = (if c = x then Some 0 else map_option Suc (index_of c xs))"

fun decode_loop :: "string \<Rightarrow> 32 word \<Rightarrow> nat \<Rightarrow> string \<Rightarrow> string" where
  "decode_loop [] v bits out = out"
| "decode_loop (c # cs) v bits out =
     (case index_of c base32_alphabet of
        None \<Rightarrow> decode_loop cs v bits out
      | Some i \<Rightarrow>
          let v' = push_bit 5 v OR of_nat i; bits' = bits + 5 in
          if bits' \<ge> 8
          then decode_loop cs v' (bits' - 8) (out @ [char_of (unat (drop_bit (bits' - 8) v' AND 255))])
          else decode_loop cs v' bits' out)"

definition decodeBase32 :: "string \<Rightarrow> string" where
  "decodeBase32 v = decode_loop (toUpperCase (rev (dropWhile (\<lambda>c. c = CHR ''='') (rev v)))) 0 0 []"

section \<open>One-time codes\<close>

definition safeEqual :: "string \<Rightarrow> string \<Rightarrow> bool" where
  "safeEqual left right \<longleftrightarrow> length left = length right \<and> left = right"

text \<open>\<open>writeBigUInt64BE\<close> throws for a number that does not fit.\<close>

definition counter_bytes :: "int \<Rightarrow> string result" where
  "counter_bytes n =
     (if n < 0 \<or> n \<ge> 2 ^ 64 then Inl (InternalError ''ERR_OUT_OF_RANGE'')
      else Inr (map (\<lambda>i. char_of (nat n div 256 ^ i)) (rev [0 ..< 8])))"

definition byte_at :: "string \<Rightarrow> nat \<Rightarrow> 32 word option" where
  "byte_at s i = (if i < length s then Some (of_char (s ! i)) else None)"

definition padStart :: "nat \<Rightarrow> char \<Rightarrow> string \<Rightarrow> string" where
  "padStart n c s = replicate (n - length s) c @ s"

definition truncate_digest :: "string \<Rightarrow> string" where
  "truncate_digest digest =
     (if digest = [] then ''000000''
      else
      let offset = unat ((of_char (last digest) :: 32 word) AND 15) in
      case (byte_at digest offset, byte_at digest (offset + 1), byte_at digest (offset + 2), byte_at digest (offset + 3)) of
        (Some b0, Some b1, Some b2, Some b3) \<Rightarrow>
          let binary = push_bit 24 (b0 AND 127) OR push_bit 16 (b1 AND 255) OR push_bit 8 (b2 AND 255) OR (b3 AND 255)
          in padStart 6 (CHR ''0'') (nat_str (unat binary mod 1000000))
      | _ \<Rightarrow> ''000000'')"

definition generateTotp :: "AuthLibs \<Rightarrow> string \<Rightarrow> int \<Rightarrow> string result" where
  "generateTotp libs secret counter =
     bindE (counter_bytes counter) (\<lambda>buffer. Inr (truncate_digest (hmac_sha1 libs (decodeBase32 secret) buffer)))"

fun verify_offsets :: "AuthLibs \<Rightarrow> string \<Rightarrow> string \<Rightarrow> int \<Rightarrow> int list \<Rightarrow> bool result" where
  "verify_offsets libs secret normalized timeStep [] = Inr False"
| "verify_offsets libs secret normalized timeStep (offset # offsets) =
     bindE (generateTotp libs secret (timeStep + offset)) (\<lambda>code.
       if safeEqual normalized code then Inr True
       else verify_offsets libs secret normalized timeStep offsets)"

definition normalize_code :: "string \<Rightarrow> string" where
  "normalize_code code = toUpperCase (filter (\<lambda>c. \<not> is_ws c) code)"

definition verifyCode :: "AuthLibs \<Rightarrow> string \<Rightarrow> string \<Rightarrow> date \<Rightarrow> bool result" where
  "verifyCode libs secret code now = verify_offsets libs secret (normalize_code code) (now div 30000) [-1, 0, 1]"

definition randomChunk :: "string \<Rightarrow> string" where
  "randomChunk bytes = toUpperCase (hex bytes)"

text \<open>Ten codes from twenty draws of four random bytes.\<close>

definition generateRecoveryCodes :: "(string \<times> string) list \<Rightarrow> string list" where
  "generateRecoveryCodes draws = map (\<lambda>(a, b). randomChunk a @ ''-'' @ randomChunk b) draws"

definition otpauthUrl :: "AuthLibs \<Rightarrow> AuthConfig \<Rightarrow> string \<Rightarrow> string \<Rightarrow> string" where
  "otpauthUrl libs cfg accountName secret =
     (let label = uri_component libs (totpIssuer cfg @ '':'' @ accountName);
          issuer = uri_component libs (totpIssuer cfg)
      in ''otpauth://totp/'' @ label @ ''?secret='' @ secret @ ''&issuer='' @ issuer
         @ ''&algorithm=SHA1&digits=6&period=30'')"

section \<open>The bits in use\<close>

text \<open>The lowest \<open>n\<close> bits of a word, most significant first.\<close>

definition low :: "nat \<Rightarrow> 32 word \<Rightarrow> bool list" where
  "low n v = map (bit v) (rev [0 ..< n])"

lemma length_low [simp]: "length (low n v) = n"
  by (simp add: low_def)

lemma low_0 [simp]: "low 0 v = []"
  by (simp add: low_def)

lemma rev_upt_add: "rev [0 ..< n + k] = map (\<lambda>i. i + k) (rev [0 ..< n]) @ rev [0 ..< k]"
  by (induction n) simp_all

lemma low_push:
  assumes "n + k \<le> 32" "\<And>i. k \<le> i \<Longrightarrow> \<not> bit w i"
  shows "low (n + k) (push_bit k v OR w) = low n v @ low k w"
  unfolding low_def rev_upt_add map_append
  using assms by (intro arg_cong2 [where f = append]) (auto simp: bit_simps)

lemma bit_of_char: "bit (of_char c :: 32 word) i \<longleftrightarrow> i < 8
    \<and> [digit0 c, digit1 c, digit2 c, digit3 c, digit4 c, digit5 c, digit6 c, digit7 c] ! i"
  by (auto simp only: of_char_def bit_horner_sum_bit_word_iff) simp_all

lemma low_byte: "low 8 (of_char c) = byte_bits c"
proof -
  have "rev [0 ..< 8] = [7, 6, 5, 4, 3, 2, 1, 0::nat]" by code_simp
  then show ?thesis by (cases c) (simp add: low_def bit_of_char)
qed

lemma bit_byte: "8 \<le> i \<Longrightarrow> \<not> bit (of_char c :: 32 word) i"
  by (simp add: bit_of_char)

lemma low_add_byte: "n + 8 \<le> 32 \<Longrightarrow> low (n + 8) (push_bit 8 v OR of_char c) = low n v @ byte_bits c"
  using low_push [of n 8 "of_char c" v] bit_byte low_byte by simp

lemma low_take: "m \<le> n \<Longrightarrow> low n v = low (n - m) (drop_bit m v) @ low m v"
  using rev_upt_add [of "n - m" m] by (simp add: low_def bit_drop_bit_eq add.commute)

lemma bits_nat_low: "n \<le> 32 \<Longrightarrow> bits_nat (low n v) = unat (take_bit n v)"
proof (induction n)
  case (Suc n)
  have "low (Suc n) v = bit v n # low n v" by (simp add: low_def)
  moreover have "unat (take_bit (Suc n) v) = (if bit v n then 2 ^ n else 0) + unat (take_bit n v)"
    by (simp add: unsigned_take_bit_eq take_bit_Suc_from_most bit_unsigned_iff of_bool_def)
  ultimately show ?case using Suc by simp
qed simp

lemma base32_char_low: "base32_char v = base32_alphabet ! bits_nat (low 5 v)"
proof -
  have "v AND 31 = take_bit 5 v" by (simp add: take_bit_eq_mask mask_eq_exp_minus_1)
  then show ?thesis by (simp add: base32_char_def bits_nat_low)
qed

text \<open>The specification: groups of five bits, the last one filled with zeros.\<close>

fun quintets :: "bool list \<Rightarrow> bool list list" where
  "quintets (a # b # c # d # e # bs) = [a, b, c, d, e] # quintets bs"
| "quintets [] = []"
| "quintets bs = [take 5 (bs @ replicate 5 False)]"

definition quintet_char :: "bool list \<Rightarrow> char" where
  "quintet_char bs = base32_alphabet ! bits_nat bs"

definition base32_spec :: "string \<Rightarrow> string" where
  "base32_spec bytes = map quintet_char (quintets (buffer_bits bytes))"

lemma quintets_five: "length q = 5 \<Longrightarrow> quintets (q @ bs) = q # quintets bs"
  by (auto simp: numeral_eq_Suc length_Suc_conv)

lemma drain_spec:
  "drain v n out = (n mod 5, out @ map quintet_char (take (n div 5) (quintets (low n v))))
   \<and> (\<forall>bs. quintets (low n v @ bs) = take (n div 5) (quintets (low n v)) @ quintets (low (n mod 5) v @ bs))"
proof (induction n arbitrary: out rule: less_induct)
  case (less n)
  show ?case
  proof (cases "n \<ge> 5")
    case False
    then show ?thesis by (simp add: drain.simps)
  next
    case True
    let ?q = "low 5 (drop_bit (n - 5) v)"
    have low: "low n v = ?q @ low (n - 5) v"
      using low_take [of "n - 5" n v] True by simp
    have q: "quintets (low n v @ bs) = ?q # quintets (low (n - 5) v @ bs)" for bs
      using quintets_five [of ?q "low (n - 5) v @ bs"] by (simp add: low)
    have dm: "n div 5 = Suc ((n - 5) div 5)" "n mod 5 = (n - 5) mod 5"
      using True by (simp_all add: le_div_geq le_mod_geq)
    have "drain v n out = drain v (n - 5) (out @ [quintet_char ?q])"
      using True by (simp add: drain.simps [of v n] base32_char_low quintet_char_def)
    moreover have "drain v (n - 5) (out @ [quintet_char ?q])
        = ((n - 5) mod 5, (out @ [quintet_char ?q]) @ map quintet_char (take ((n - 5) div 5) (quintets (low (n - 5) v))))"
      using less [of "n - 5"] True by simp
    moreover have "quintets (low (n - 5) v @ bs)
        = take ((n - 5) div 5) (quintets (low (n - 5) v)) @ quintets (low ((n - 5) mod 5) v @ bs)" for bs
      using less [of "n - 5"] True by simp
    ultimately show ?thesis
      using q [of "[]"] q dm by simp
  qed
qed

lemma secret_loop_spec:
  assumes "n < 5"
  shows "case secret_loop bytes v n out of (v', n', out') \<Rightarrow> n' < 5
    \<and> out' @ map quintet_char (quintets (low n' v')) = out @ map quintet_char (quintets (low n v @ buffer_bits bytes))"
  using assms
proof (induction bytes arbitrary: v n out)
  case (Cons c bytes)
  let ?v = "push_bit 8 v OR of_char c :: 32 word"
  obtain n' out' where drain: "drain ?v (n + 8) out = (n', out')" by fastforce
  have n': "n' = (n + 8) mod 5" "out' = out @ map quintet_char (take ((n + 8) div 5) (quintets (low (n + 8) ?v)))"
    using drain_spec [of ?v "n + 8" out] drain by auto
  have low: "low (n + 8) ?v = low n v @ byte_bits c"
    using Cons(2) by (intro low_add_byte) simp
  have "quintets (low (n + 8) ?v @ buffer_bits bytes)
      = take ((n + 8) div 5) (quintets (low (n + 8) ?v)) @ quintets (low n' ?v @ buffer_bits bytes)"
    using drain_spec [of ?v "n + 8" out] n'(1) by blast
  then have "out' @ map quintet_char (quintets (low n' ?v @ buffer_bits bytes))
      = out @ map quintet_char (quintets (low n v @ buffer_bits (c # bytes)))"
    using n'(2) low by (simp add: buffer_bits_def flip: map_append)
  moreover have "n' < 5" using n'(1) by simp
  ultimately show ?case
    using Cons(1) [where n = n' and v = ?v and out = out'] drain by (simp add: Let_def split: prod.splits)
qed (simp add: buffer_bits_def)

lemma generateSecret_spec: "generateSecret bytes = base32_spec bytes"
proof -
  obtain v n out where loop: "secret_loop bytes 0 0 [] = (v, n, out)" by (metis prod_cases3)
  have spec: "n < 5" "out @ map quintet_char (quintets (low n v)) = base32_spec bytes"
    using secret_loop_spec [where n = 0 and v = 0 and out = "[]" and bytes = bytes] loop by (auto simp: base32_spec_def)
  show ?thesis
  proof (cases "n = 0")
    case True
    then show ?thesis using spec loop by (simp add: generateSecret_def)
  next
    case False
    have "low (5 - n) 0 = replicate (5 - n) False"
      by (intro replicate_eqI) (auto simp: low_def)
    then have "low 5 (push_bit (5 - n) v) = low n v @ replicate (5 - n) False"
      using low_push [of n "5 - n" 0 v] spec(1) by simp
    moreover have "quintets (low n v) = [low n v @ replicate (5 - n) False]"
    proof -
      have "quintets bs = [bs @ replicate (5 - length bs) False]" if "0 < length bs" "length bs < 5" for bs
        using that by (cases bs rule: quintets.cases) (auto simp: numeral_eq_Suc)
      from this [of "low n v"] show ?thesis using False spec(1) by simp
    qed
    ultimately show ?thesis
      using False spec(2) loop by (simp add: generateSecret_def base32_char_low quintet_char_def)
  qed
qed

section \<open>Reading a secret back\<close>

lemma quintet_index:
  "\<forall>q \<in> set (List.n_lists 5 [False, True]). index_of (quintet_char q) base32_alphabet = Some (bits_nat q)
     \<and> low 5 (of_nat (bits_nat q)) = q \<and> upper_char (quintet_char q) = [quintet_char q] \<and> quintet_char q \<noteq> CHR ''=''"
  by code_simp

lemma quintet_index_of:
  assumes "length q = 5"
  shows "index_of (quintet_char q) base32_alphabet = Some (bits_nat q)" "low 5 (of_nat (bits_nat q)) = q"
    "upper_char (quintet_char q) = [quintet_char q]" "quintet_char q \<noteq> CHR ''=''"
proof -
  have "q \<in> set (List.n_lists 5 [False, True])"
    using assms by (auto simp: set_n_lists)
  then show "index_of (quintet_char q) base32_alphabet = Some (bits_nat q)" "low 5 (of_nat (bits_nat q)) = q"
    "upper_char (quintet_char q) = [quintet_char q]" "quintet_char q \<noteq> CHR ''=''"
    using quintet_index by blast+
qed

lemma low_byte_char: "low 8 w = byte_bits (char_of (unat (w AND 255)))"
proof -
  have "bit (w AND 255) i \<longleftrightarrow> bit w i" if "i < 8" for i
  proof -
    have "w AND 255 = take_bit 8 w" by (simp add: take_bit_eq_mask mask_eq_exp_minus_1)
    then show ?thesis using that by (simp add: bit_take_bit_iff)
  qed
  moreover have "rev [0 ..< 8] = [7, 6, 5, 4, 3, 2, 1, 0::nat]" by code_simp
  ultimately show ?thesis by (simp add: low_def char_of_def bit_unsigned_iff)
qed

lemma octets_byte: "octets (byte_bits c @ bs) = c # octets bs"
  by (cases c) simp

lemma octets_short: "length bs < 8 \<Longrightarrow> octets bs = []"
  by (cases bs rule: octets.cases) simp_all

lemma bit_of_nat5:
  assumes "i < 32" "5 \<le> k"
  shows "\<not> bit (of_nat i :: 32 word) k"
proof -
  have "take_bit 5 i = i" using assms(1) by (simp add: take_bit_nat_eq_self)
  then have "(of_nat i :: 32 word) = take_bit 5 (of_nat i)" by (metis take_bit_of_nat)
  then show ?thesis using assms(2) by (metis bit_take_bit_iff leD)
qed

lemma decode_loop_spec:
  assumes "n < 8" "\<forall>q \<in> set qs. length q = 5"
  shows "decode_loop (map quintet_char qs) v n out = out @ octets (low n v @ concat qs)"
  using assms
proof (induction qs arbitrary: v n out)
  case (Cons q qs)
  let ?v = "push_bit 5 v OR of_nat (bits_nat q) :: 32 word"
  have q: "length q = 5" using Cons(3) by simp
  have "bits_nat q < 32" using bits_nat_less [of q] q by simp
  then have low: "low (n + 5) ?v = low n v @ q"
    using low_push [of n 5 "of_nat (bits_nat q)" v] bit_of_nat5 Cons(2) quintet_index_of(2) [OF q] by simp
  show ?case
  proof (cases "n + 5 \<ge> 8")
    case False
    then show ?thesis
      using Cons quintet_index_of(1) [OF q] low by (simp add: Let_def)
  next
    case True
    let ?c = "char_of (unat (drop_bit (n - 3) ?v AND 255))"
    have "low (n + 5) ?v = byte_bits ?c @ low (n - 3) ?v"
      using low_take [of "n - 3" "n + 5" ?v] True by (simp add: low_byte_char)
    then have "octets (low n v @ q @ concat qs) = ?c # octets (low (n - 3) ?v @ concat qs)"
      using low by (metis append.assoc octets_byte)
    moreover have "decode_loop (map quintet_char (q # qs)) v n out
        = decode_loop (map quintet_char qs) ?v (n - 3) (out @ [?c])"
      using True quintet_index_of(1) [OF q] by (simp add: Let_def)
    ultimately show ?thesis
      using Cons(1) [where n = "n - 3" and v = ?v and out = "out @ [?c]"] Cons(2,3) by simp
  qed
qed (simp add: octets_short)

lemma quintets_length: "q \<in> set (quintets xs) \<Longrightarrow> length q = 5"
  by (induction xs rule: quintets.induct) auto

lemma quintets_concat: "\<exists>k < 5. concat (quintets xs) = xs @ replicate k False"
proof (induction xs rule: quintets.induct)
  case (1 a b c d e bs)
  then show ?case by auto
qed (auto simp: numeral_eq_Suc intro: exI [of _ 4] exI [of _ 3] exI [of _ 2] exI [of _ 1] exI [of _ 0])

lemma strip_absent:
  assumes "c \<notin> set xs"
  shows "rev (dropWhile (\<lambda>x. x = c) (rev xs)) = xs"
proof -
  have "dropWhile (\<lambda>x. x = c) ys = ys" if "c \<notin> set ys" for ys
    using that by (cases ys) auto
  then show ?thesis using assms by simp
qed

text \<open>
  The secret of the second factor survives its text. Decoding what was encoded gives the same
  bytes, for any number of them, although both accumulators wrap at 32 bits.
\<close>

theorem base32_roundtrip: "decodeBase32 (generateSecret bytes) = bytes"
proof -
  let ?qs = "quintets (buffer_bits bytes)"
  have five: "\<forall>q \<in> set ?qs. length q = 5" using quintets_length by blast
  have "toUpperCase (map quintet_char xs) = map quintet_char xs" if "\<forall>q \<in> set xs. length q = 5" for xs
    using that by (induction xs) (simp_all add: toUpperCase_def quintet_index_of(3))
  with five have upper: "toUpperCase (map quintet_char ?qs) = map quintet_char ?qs" by blast
  have "CHR ''='' \<notin> set (map quintet_char ?qs)"
    using five quintet_index_of(4) by fastforce
  then have strip: "rev (dropWhile (\<lambda>c. c = CHR ''='') (rev (map quintet_char ?qs))) = map quintet_char ?qs"
    by (rule strip_absent)
  obtain k where "k < 5" "concat ?qs = buffer_bits bytes @ replicate k False"
    using quintets_concat by blast
  moreover have "decodeBase32 (generateSecret bytes) = octets (concat ?qs)"
    unfolding decodeBase32_def generateSecret_spec base32_spec_def strip upper
    using decode_loop_spec [where n = 0 and qs = ?qs and v = 0 and out = "[]"] five by simp
  ultimately show ?thesis by (simp add: octets_bits)
qed

section \<open>The window of a code\<close>

lemma nat_str_length: "n < 10 ^ k \<Longrightarrow> 0 < k \<Longrightarrow> length (nat_str n) \<le> k"
proof (induction k arbitrary: n)
  case (Suc k)
  show ?case
  proof (cases "n < 10")
    case True
    then show ?thesis by (subst nat_str.simps) simp
  next
    case False
    then have "0 < k" using Suc(2) by (cases k) auto
    moreover have "n div 10 < 10 ^ k" using Suc(2) by (simp add: less_mult_imp_div_less mult.commute)
    ultimately have "length (nat_str (n div 10)) \<le> k" using Suc(1) by blast
    then show ?thesis using False by (subst nat_str.simps) simp
  qed
qed simp

lemma six_digits:
  assumes "n < 1000000"
  shows "length (padStart 6 (CHR ''0'') (nat_str n)) = 6" "list_all is_digit (padStart 6 (CHR ''0'') (nat_str n))"
proof -
  have "length (nat_str n) \<le> 6" using assms nat_str_length [of n 6] by simp
  then show "length (padStart 6 (CHR ''0'') (nat_str n)) = 6" by (simp add: padStart_def)
  show "list_all is_digit (padStart 6 (CHR ''0'') (nat_str n))"
    using nat_str_digits by (auto simp: padStart_def list_all_iff is_digit_def ccode_def)
qed

lemma truncate_digest_digits: "length (truncate_digest s) = 6 \<and> list_all is_digit (truncate_digest s)"
proof -
  have zero: "length ''000000'' = 6 \<and> list_all is_digit ''000000''" by code_simp
  show ?thesis
    unfolding truncate_digest_def Let_def
    using zero six_digits by (auto split: option.splits)
qed

lemma normalize_digits:
  assumes "list_all is_digit code"
  shows "normalize_code code = code"
proof -
  have c: "\<not> is_ws c \<and> upper_char c = [c]" if "is_digit c" for c
    using that by (auto simp: upper_char_def char_class_defs)
  have "filter (\<lambda>c. \<not> is_ws c) code = code"
    using assms c by (auto simp: filter_id_conv list_all_iff)
  moreover have "toUpperCase code = code"
    using assms by (induction code) (simp_all add: toUpperCase_def c)
  ultimately show ?thesis by (simp add: normalize_code_def)
qed

definition code_at :: "AuthLibs \<Rightarrow> string \<Rightarrow> int \<Rightarrow> string" where
  "code_at libs secret step =
     truncate_digest (hmac_sha1 libs (decodeBase32 secret) (map (\<lambda>i. char_of (nat step div 256 ^ i)) (rev [0 ..< 8])))"

lemma generateTotp_ok: "0 \<le> n \<Longrightarrow> n < 2 ^ 64 \<Longrightarrow> generateTotp libs secret n = Inr (code_at libs secret n)"
  by (simp add: generateTotp_def counter_bytes_def code_at_def)

lemma verifyCode_spec:
  assumes "30000 \<le> now" "now < 2 ^ 64"
  shows "verifyCode libs secret code now
    = Inr (list_ex (\<lambda>k. normalize_code code = code_at libs secret (now div 30000 + k)) [-1, 0, 1])"
proof -
  have step: "1 \<le> now div 30000" "now div 30000 < 2 ^ 63" using assms by auto
  have g: "generateTotp libs secret (now div 30000 + k) = Inr (code_at libs secret (now div 30000 + k))"
    if "k \<in> {-1, 0, 1}" for k
    using step that by (intro generateTotp_ok) auto
  show ?thesis
    using g [of "-1"] g [of 0] g [of 1] by (auto simp: verifyCode_def safeEqual_def)
qed

text \<open>
  C30: a one-time code is accepted for the half minute it is issued in, the one before and the one
  after. It has six digits, so neither blanks nor case change it.
\<close>

theorem totp_accepted:
  assumes "30000 \<le> now" "now < 2 ^ 64" "0 \<le> issued" "\<bar>issued div 30000 - now div 30000\<bar> \<le> 1"
    "generateTotp libs secret (issued div 30000) = Inr code"
  shows "length code = 6 \<and> verifyCode libs secret code now = Inr True"
proof -
  have "issued div 30000 < 2 ^ 64" using assms(2,4) by auto
  moreover have "0 \<le> issued div 30000" using assms(3) by simp
  ultimately have code: "code = code_at libs secret (issued div 30000)"
    using assms(5) generateTotp_ok [of "issued div 30000" libs secret] by simp
  then have digits: "length code = 6" "normalize_code code = code"
    using truncate_digest_digits normalize_digits by (simp_all add: code_at_def)
  define k where "k = issued div 30000 - now div 30000"
  have "code = code_at libs secret (now div 30000 + k)" using code by (simp add: k_def)
  moreover have "k = -1 \<or> k = 0 \<or> k = 1" using assms(4) unfolding k_def by linarith
  ultimately have "list_ex (\<lambda>k. normalize_code code = code_at libs secret (now div 30000 + k)) [-1, 0, 1]"
    using digits(2) by auto
  then show ?thesis
    using digits(1) verifyCode_spec [OF assms(1,2), of libs secret code] by simp
qed

lemma totp_accepted_witness:
  "length (projr (generateTotp example_libs ''GEZDGNBV'' 3)) = 6
   \<and> verifyCode example_libs ''GEZDGNBV'' (projr (generateTotp example_libs ''GEZDGNBV'' 3)) 125000 = Inr True"
proof -
  have "generateTotp example_libs ''GEZDGNBV'' (100000 div 30000)
      = Inr (projr (generateTotp example_libs ''GEZDGNBV'' 3))"
    by (simp add: generateTotp_ok)
  from totp_accepted [OF _ _ _ _ this, of 125000] show ?thesis by simp
qed

end
