(* ===== verification/LoginAttempts.thy ===== *)
theory LoginAttempts
  imports Tokens
begin

text \<open>
  \<open>auth-login-attempt.service.ts\<close>: the limit on failed logins. The counters live in Redis and,
  while Redis does not answer, in a map of the process. \<open>redisUp\<close> says for each command
  whether it is carried out and answered; a counter with an expiry is gone from that moment on.
\<close>

record LocalAttemptState =
  attempts :: nat
  expiresAt :: date

record Limiter =
  redisCounters :: "string \<rightharpoonup> nat \<times> date option"
  localAttempts :: "string \<rightharpoonup> LocalAttemptState"

section \<open>The commands of Redis\<close>

definition redis_get :: "date \<Rightarrow> string \<Rightarrow> Limiter \<Rightarrow> (nat \<times> date option) option" where
  "redis_get now key l =
     (case redisCounters l key of
        None \<Rightarrow> None
      | Some (n, ttl) \<Rightarrow> (case ttl of None \<Rightarrow> Some (n, None) | Some t \<Rightarrow> if t \<le> now then None else Some (n, Some t)))"

definition redis_incr :: "date \<Rightarrow> string \<Rightarrow> Limiter \<Rightarrow> nat \<times> Limiter" where
  "redis_incr now key l =
     (case redis_get now key l of
        None \<Rightarrow> (1, l\<lparr>redisCounters := (redisCounters l)(key \<mapsto> (1, None))\<rparr>)
      | Some (n, ttl) \<Rightarrow> (Suc n, l\<lparr>redisCounters := (redisCounters l)(key \<mapsto> (Suc n, ttl))\<rparr>))"

definition redis_expire :: "date \<Rightarrow> string \<Rightarrow> nat \<Rightarrow> Limiter \<Rightarrow> Limiter" where
  "redis_expire now key secs l =
     (case redis_get now key l of
        None \<Rightarrow> l
      | Some (n, ttl) \<Rightarrow> l\<lparr>redisCounters := (redisCounters l)(key \<mapsto> (n, Some (now + int secs * 1000)))\<rparr>)"

definition redis_del :: "string \<Rightarrow> Limiter \<Rightarrow> Limiter" where
  "redis_del key l = l\<lparr>redisCounters := (redisCounters l)(key := None)\<rparr>"

section \<open>The service\<close>

definition tooManyLoginAttempts :: http_error where
  "tooManyLoginAttempts = TooManyRequests ''Too many login attempts. Try again later.''"

definition buildIdentifier :: "AuthLibs \<Rightarrow> AuthConfig \<Rightarrow> string \<Rightarrow> string option \<Rightarrow> string option \<Rightarrow> string" where
  "buildIdentifier libs cfg email ip tenantSlug =
     hex (hmac_sha256 libs (jwtRefreshSecret cfg)
       (toLowerCase (trim email) @ ''|''
        @ coalesce (map_option (\<lambda>s. toLowerCase (trim s)) tenantSlug) ''any'' @ ''|''
        @ coalesce ip ''unknown''))"

definition redisKey :: "string \<Rightarrow> string" where
  "redisKey ident = ''auth:login-attempts:'' @ ident"

definition recordLocalFailedAttempt :: "AuthConfig \<Rightarrow> date \<Rightarrow> string \<Rightarrow> Limiter \<Rightarrow> bool \<times> Limiter" where
  "recordLocalFailedAttempt cfg now ident l =
     (let fresh = \<lparr> attempts = 0, expiresAt = now + int (authLoginWindowSeconds cfg) * 1000 \<rparr>;
          state = (case localAttempts l ident of
                     None \<Rightarrow> fresh | Some current \<Rightarrow> if expiresAt current > now then current else fresh);
          state' = state\<lparr>attempts := attempts state + 1\<rparr>
      in (attempts state' \<ge> authLoginMaxAttempts cfg, l\<lparr>localAttempts := (localAttempts l)(ident \<mapsto> state')\<rparr>))"

definition isLocallyLocked :: "AuthConfig \<Rightarrow> date \<Rightarrow> string \<Rightarrow> Limiter \<Rightarrow> bool \<times> Limiter" where
  "isLocallyLocked cfg now ident l =
     (case localAttempts l ident of
        None \<Rightarrow> (False, l)
      | Some current \<Rightarrow>
          if expiresAt current \<le> now then (False, l\<lparr>localAttempts := (localAttempts l)(ident := None)\<rparr>)
          else (attempts current \<ge> authLoginMaxAttempts cfg, l))"

definition isLocked :: "AuthConfig \<Rightarrow> bool \<Rightarrow> date \<Rightarrow> string \<Rightarrow> Limiter \<Rightarrow> bool \<times> Limiter" where
  "isLocked cfg getUp now ident l =
     (if getUp then
        (case redis_get now (redisKey ident) l of
           None \<Rightarrow> (0 \<ge> authLoginMaxAttempts cfg, l)
         | Some (n, ttl) \<Rightarrow> (n \<ge> authLoginMaxAttempts cfg, l))
      else isLocallyLocked cfg now ident l)"

definition assertCanAttempt :: "AuthConfig \<Rightarrow> bool \<Rightarrow> date \<Rightarrow> string \<Rightarrow> Limiter \<Rightarrow> unit result \<times> Limiter" where
  "assertCanAttempt cfg getUp now ident l =
     (case isLocked cfg getUp now ident l of
        (locked, l1) \<Rightarrow> if locked then (Inl tooManyLoginAttempts, l1) else (Inr (), l1))"

text \<open>When the counter is new it gets its expiry; a failure of that call falls back to the map too.\<close>

definition recordFailedAttempt :: "AuthConfig \<Rightarrow> bool \<Rightarrow> bool \<Rightarrow> date \<Rightarrow> string \<Rightarrow> Limiter \<Rightarrow> bool \<times> Limiter" where
  "recordFailedAttempt cfg incrUp expireUp now ident l =
     (if \<not> incrUp then recordLocalFailedAttempt cfg now ident l
      else
      (case redis_incr now (redisKey ident) l of
         (n, l1) \<Rightarrow>
           if n = 1 then
             (if \<not> expireUp then recordLocalFailedAttempt cfg now ident l1
              else (n \<ge> authLoginMaxAttempts cfg,
                    redis_expire now (redisKey ident) (authLoginWindowSeconds cfg) l1))
           else (n \<ge> authLoginMaxAttempts cfg, l1)))"

definition clear_attempts :: "bool \<Rightarrow> string \<Rightarrow> Limiter \<Rightarrow> Limiter" where
  "clear_attempts delUp ident l =
     (let l1 = l\<lparr>localAttempts := (localAttempts l)(ident := None)\<rparr>
      in if delUp then redis_del (redisKey ident) l1 else l1)"

section \<open>The abstract limiter\<close>

text \<open>
  What both stores implement: the number of failures in the current window of an identifier and
  the end of that window.
\<close>

type_synonym window = "string \<Rightarrow> (nat \<times> date) option"

definition in_window :: "date \<Rightarrow> (nat \<times> date) option \<Rightarrow> (nat \<times> date) option" where
  "in_window now w = (case w of None \<Rightarrow> None | Some (n, t) \<Rightarrow> if t \<le> now then None else Some (n, t))"

definition abs_failed :: "AuthConfig \<Rightarrow> date \<Rightarrow> string \<Rightarrow> window \<Rightarrow> bool \<times> window" where
  "abs_failed cfg now ident w =
     (let entry = (case in_window now (w ident) of
            None \<Rightarrow> (1, now + int (authLoginWindowSeconds cfg) * 1000) | Some (n, t) \<Rightarrow> (Suc n, t))
      in (fst entry \<ge> authLoginMaxAttempts cfg, w(ident := Some entry)))"

definition abs_locked :: "AuthConfig \<Rightarrow> date \<Rightarrow> string \<Rightarrow> window \<Rightarrow> bool" where
  "abs_locked cfg now ident w \<longleftrightarrow>
     (case in_window now (w ident) of None \<Rightarrow> 0 | Some (n, t) \<Rightarrow> n) \<ge> authLoginMaxAttempts cfg"

text \<open>A login with one of these steps, at its time; all its calls reach Redis or none does.\<close>

datatype attempt = Failed string | Check string | Succeeded string

definition limiter_step :: "AuthConfig \<Rightarrow> bool \<Rightarrow> date \<times> attempt \<Rightarrow> Limiter \<Rightarrow> bool \<times> Limiter" where
  "limiter_step cfg redisUp e l =
     (case e of (now, a) \<Rightarrow>
        (case a of
           Failed ident \<Rightarrow> recordFailedAttempt cfg redisUp redisUp now ident l
         | Check ident \<Rightarrow> (case assertCanAttempt cfg redisUp now ident l of (r, l1) \<Rightarrow> (r = Inl tooManyLoginAttempts, l1))
         | Succeeded ident \<Rightarrow> (False, clear_attempts redisUp ident l)))"

definition abs_step :: "AuthConfig \<Rightarrow> date \<times> attempt \<Rightarrow> window \<Rightarrow> bool \<times> window" where
  "abs_step cfg e w =
     (case e of (now, a) \<Rightarrow>
        (case a of
           Failed ident \<Rightarrow> abs_failed cfg now ident w
         | Check ident \<Rightarrow> (abs_locked cfg now ident w, w)
         | Succeeded ident \<Rightarrow> (False, w(ident := None))))"

fun run_steps :: "('e \<Rightarrow> 's \<Rightarrow> bool \<times> 's) \<Rightarrow> 'e list \<Rightarrow> 's \<Rightarrow> bool list" where
  "run_steps f [] s = []"
| "run_steps f (e # es) s = (case f e s of (b, s1) \<Rightarrow> b # run_steps f es s1)"

section \<open>Refinement\<close>

text \<open>The contract between a store and the abstract limiter, for times from \<open>now\<close> on.\<close>

locale limiter_store =
  fixes rel :: "date \<Rightarrow> 's \<Rightarrow> window \<Rightarrow> bool"
    and step :: "date \<times> attempt \<Rightarrow> 's \<Rightarrow> bool \<times> 's"
    and cfg :: AuthConfig
  assumes rel_later: "rel now s w \<Longrightarrow> now \<le> later \<Longrightarrow> rel later s w"
    and step_simulates: "rel now s w \<Longrightarrow> step (now, a) s = (b, s') \<Longrightarrow>
      \<exists>w'. abs_step cfg (now, a) w = (b, w') \<and> rel now s' w'"
begin

lemma run_refines:
  assumes "rel now s w" "sorted (now # map fst es)"
  shows "run_steps step es s = run_steps (abs_step cfg) es w"
  using assms
proof (induction es arbitrary: now s w)
  case (Cons e es)
  obtain t a where e: "e = (t, a)" by fastforce
  have rel: "rel t s w" using Cons(2,3) rel_later by (simp add: e)
  obtain b s' where s': "step (t, a) s = (b, s')" by fastforce
  then obtain w' where "abs_step cfg (t, a) w = (b, w')" "rel t s' w'"
    using step_simulates [OF rel] by blast
  then show ?case using Cons(1) [of t s' w'] Cons(3) s' by (simp add: e)
qed simp

end

text \<open>
  An entry with nothing left in its window counts as none: the two stores forget such entries at
  different moments.
\<close>

definition redis_rel :: "date \<Rightarrow> Limiter \<Rightarrow> window \<Rightarrow> bool" where
  "redis_rel now l w \<longleftrightarrow>
     (\<forall>i. (\<forall>n ttl. redisCounters l (redisKey i) = Some (n, ttl) \<longrightarrow> 0 < n \<and> ttl \<noteq> None)
        \<and> in_window now (map_option (\<lambda>(n, t). (n, the t)) (redisCounters l (redisKey i))) = in_window now (w i))"

definition local_rel :: "AuthConfig \<Rightarrow> date \<Rightarrow> Limiter \<Rightarrow> window \<Rightarrow> bool" where
  "local_rel cfg now l w \<longleftrightarrow> 0 < authLoginMaxAttempts cfg
     \<and> (\<forall>i. in_window now (map_option (\<lambda>s. (attempts s, expiresAt s)) (localAttempts l i)) = in_window now (w i))"

lemma in_window_later: "now \<le> later \<Longrightarrow> in_window now x = in_window now y \<Longrightarrow> in_window later x = in_window later y"
  by (auto simp: in_window_def split: option.splits if_splits prod.splits)

lemma redisKey_inject [simp]: "redisKey i = redisKey j \<longleftrightarrow> i = j"
  by (simp add: redisKey_def)

lemma redis_get_rel:
  assumes "redis_rel now l w"
  shows "redis_get now (redisKey i) l = map_option (\<lambda>(n, t). (n, Some t)) (in_window now (w i))"
proof -
  have "in_window now (map_option (\<lambda>(n, t). (n, the t)) (redisCounters l (redisKey i))) = in_window now (w i)"
    "\<forall>n ttl. redisCounters l (redisKey i) = Some (n, ttl) \<longrightarrow> 0 < n \<and> ttl \<noteq> None"
    using assms by (simp_all add: redis_rel_def)
  then show ?thesis
    unfolding redis_get_def
    by (cases "redisCounters l (redisKey i)") (auto simp: in_window_def split: option.splits if_splits)
qed

lemma in_window_idem [simp]: "in_window now (in_window now x) = in_window now x"
  by (auto simp: in_window_def split: option.splits)

text \<open>One failure leaves the abstract entry in the store.\<close>

lemma redis_failed:
  assumes "redis_rel now l w" "abs_failed cfg now i w = (b, w')"
  shows "\<exists>n t. w' = w(i \<mapsto> (n, t)) \<and> 0 < n
    \<and> recordFailedAttempt cfg True True now i l = (b, l\<lparr>redisCounters := (redisCounters l)(redisKey i \<mapsto> (n, Some t))\<rparr>)"
proof (cases "in_window now (w i)")
  case None
  then have "redis_get now (redisKey i) l = None" using redis_get_rel [OF assms(1), of i] by simp
  then show ?thesis
    using assms(2) None
    by (auto simp: abs_failed_def Let_def recordFailedAttempt_def redis_incr_def redis_expire_def redis_get_def)
next
  case (Some p)
  obtain n t where p: "p = (n, t)" by fastforce
  then have get: "redis_get now (redisKey i) l = Some (n, Some t)"
    using redis_get_rel [OF assms(1), of i] Some by simp
  then have "redisCounters l (redisKey i) = Some (n, Some t)"
    by (auto simp: redis_get_def split: option.splits if_splits)
  then have "0 < n" using assms(1) unfolding redis_rel_def by blast
  then show ?thesis
    using assms(2) Some p get by (auto simp: abs_failed_def Let_def recordFailedAttempt_def redis_incr_def)
qed

lemma local_failed:
  assumes "local_rel cfg now l w" "abs_failed cfg now i w = (b, w')"
  shows "\<exists>n t. w' = w(i \<mapsto> (n, t))
    \<and> recordLocalFailedAttempt cfg now i l = (b, l\<lparr>localAttempts := (localAttempts l)(i \<mapsto> \<lparr> attempts = n, expiresAt = t \<rparr>)\<rparr>)"
proof -
  have rel: "in_window now (map_option (\<lambda>s. (attempts s, expiresAt s)) (localAttempts l i)) = in_window now (w i)"
    using assms(1) by (simp add: local_rel_def)
  show ?thesis
  proof (cases "localAttempts l i")
    case None
    then have "in_window now (w i) = None" using rel by (simp add: in_window_def)
    then show ?thesis
      using assms(2) None by (auto simp: abs_failed_def Let_def recordLocalFailedAttempt_def)
  next
    case (Some s)
    show ?thesis
    proof (cases "expiresAt s \<le> now")
      case True
      then have "in_window now (w i) = None" using rel Some by (simp add: in_window_def)
      then show ?thesis
        using assms(2) Some True by (auto simp: abs_failed_def Let_def recordLocalFailedAttempt_def)
    next
      case False
      then have "in_window now (w i) = Some (attempts s, expiresAt s)" using rel Some by (simp add: in_window_def)
      then show ?thesis
        using assms(2) Some False by (cases s) (auto simp: abs_failed_def Let_def recordLocalFailedAttempt_def)
    qed
  qed
qed

lemma local_locked:
  assumes "local_rel cfg now l w"
  shows "\<exists>l1. isLocallyLocked cfg now i l = (abs_locked cfg now i w, l1) \<and> local_rel cfg now l1 w"
proof -
  have rel: "in_window now (map_option (\<lambda>s. (attempts s, expiresAt s)) (localAttempts l i)) = in_window now (w i)"
    and pos: "0 < authLoginMaxAttempts cfg"
    using assms by (simp_all add: local_rel_def)
  show ?thesis
  proof (cases "localAttempts l i")
    case None
    then have "in_window now (w i) = None" using rel by (simp add: in_window_def)
    then show ?thesis using None assms pos by (simp add: isLocallyLocked_def abs_locked_def)
  next
    case (Some s)
    show ?thesis
    proof (cases "expiresAt s \<le> now")
      case True
      then have none: "in_window now (w i) = None" using rel Some by (simp add: in_window_def)
      have "local_rel cfg now (l\<lparr>localAttempts := (localAttempts l)(i := None)\<rparr>) w"
        using assms none by (simp add: local_rel_def in_window_def)
      then show ?thesis using Some True none pos by (simp add: isLocallyLocked_def abs_locked_def)
    next
      case False
      then have "in_window now (w i) = Some (attempts s, expiresAt s)" using rel Some by (simp add: in_window_def)
      then show ?thesis using Some False assms by (simp add: isLocallyLocked_def abs_locked_def)
    qed
  qed
qed

interpretation redis_limiter: limiter_store redis_rel "limiter_step cfg True" cfg for cfg
proof unfold_locales
  fix now later l w
  assume "redis_rel now l w" "now \<le> later"
  then show "redis_rel later l w"
    unfolding redis_rel_def using in_window_later by blast
next
  fix now l w a b l'
  assume rel: "redis_rel now l w" and s: "limiter_step cfg True (now, a) l = (b, l')"
  note get = redis_get_rel [OF rel]
  show "\<exists>w'. abs_step cfg (now, a) w = (b, w') \<and> redis_rel now l' w'"
  proof (cases a)
    case (Check i)
    then show ?thesis
      using s rel get [of i]
      by (auto simp: limiter_step_def assertCanAttempt_def isLocked_def abs_step_def abs_locked_def
          split: option.splits if_splits)
  next
    case (Succeeded i)
    then show ?thesis
      using s rel by (auto simp: limiter_step_def clear_attempts_def redis_del_def abs_step_def redis_rel_def)
  next
    case (Failed i)
    obtain b' w' where f: "abs_failed cfg now i w = (b', w')" by fastforce
    then obtain n t where "w' = w(i \<mapsto> (n, t))" "0 < n"
      "recordFailedAttempt cfg True True now i l = (b', l\<lparr>redisCounters := (redisCounters l)(redisKey i \<mapsto> (n, Some t))\<rparr>)"
      using redis_failed [OF rel] by blast
    then show ?thesis
      using s rel Failed f by (auto simp: limiter_step_def abs_step_def redis_rel_def)
  qed
qed

interpretation local_limiter: limiter_store "local_rel cfg" "limiter_step cfg False" cfg for cfg
proof unfold_locales
  fix now later l w
  assume "local_rel cfg now l w" "now \<le> later"
  then show "local_rel cfg later l w"
    unfolding local_rel_def using in_window_later by blast
next
  fix now l w a b l'
  assume rel: "local_rel cfg now l w" and s: "limiter_step cfg False (now, a) l = (b, l')"
  have get: "in_window now (map_option (\<lambda>s. (attempts s, expiresAt s)) (localAttempts l i)) = in_window now (w i)" for i
    using rel by (simp add: local_rel_def)
  show "\<exists>w'. abs_step cfg (now, a) w = (b, w') \<and> local_rel cfg now l' w'"
  proof (cases a)
    case (Check i)
    obtain l1 where l1: "isLocallyLocked cfg now i l = (abs_locked cfg now i w, l1)" "local_rel cfg now l1 w"
      using local_locked [OF rel] by blast
    then show ?thesis
      using s Check by (auto simp: limiter_step_def assertCanAttempt_def isLocked_def abs_step_def split: if_splits)
  next
    case (Succeeded i)
    then show ?thesis
      using s rel by (auto simp: limiter_step_def clear_attempts_def abs_step_def local_rel_def)
  next
    case (Failed i)
    obtain b' w' where f: "abs_failed cfg now i w = (b', w')" by fastforce
    then obtain n t where "w' = w(i \<mapsto> (n, t))"
      "recordLocalFailedAttempt cfg now i l = (b', l\<lparr>localAttempts := (localAttempts l)(i \<mapsto> \<lparr> attempts = n, expiresAt = t \<rparr>)\<rparr>)"
      using local_failed [OF rel] by blast
    then show ?thesis
      using s rel Failed f by (auto simp: limiter_step_def abs_step_def recordFailedAttempt_def local_rel_def)
  qed
qed

definition empty_limiter :: Limiter where
  "empty_limiter = \<lparr> redisCounters = Map.empty, localAttempts = Map.empty \<rparr>"

text \<open>
  C20: the map of the process is a faithful stand-in for Redis. For any sequence of failures,
  checks and successes in the order of time, the service answers the same whether Redis carries
  out all its commands or none of them.
\<close>

theorem local_fallback_equivalent:
  assumes "0 < authLoginMaxAttempts cfg" "sorted (map fst es)"
  shows "run_steps (limiter_step cfg True) es empty_limiter = run_steps (limiter_step cfg False) es empty_limiter"
proof (cases es)
  case (Cons e es')
  then have "sorted (fst e # map fst es)" using assms(2) by simp
  moreover have "redis_rel t empty_limiter Map.empty" "local_rel cfg t empty_limiter Map.empty" for t
    by (simp_all add: redis_rel_def local_rel_def empty_limiter_def in_window_def assms(1))
  ultimately show ?thesis
    using redis_limiter.run_refines [of "fst e" empty_limiter Map.empty es]
      local_limiter.run_refines [of cfg "fst e" empty_limiter Map.empty es] by simp
qed simp

lemma local_fallback_equivalent_witness:
  "run_steps (limiter_step (example_auth\<lparr>authLoginMaxAttempts := 2\<rparr>) True)
     [(0, Failed ''a''), (1, Check ''a''), (2, Failed ''a''), (3, Check ''a''), (900000, Check ''a'')] empty_limiter
   = run_steps (limiter_step (example_auth\<lparr>authLoginMaxAttempts := 2\<rparr>) False)
     [(0, Failed ''a''), (1, Check ''a''), (2, Failed ''a''), (3, Check ''a''), (900000, Check ''a'')] empty_limiter"
  by (rule local_fallback_equivalent) simp_all

section \<open>When the expiry is lost\<close>

text \<open>
  A counter whose expiry could not be set stays without one: no later failure sets it again, so
  the failures of any length of time add up.
\<close>

lemma lost_expiry:
  assumes "redis_get now (redisKey i) l = None" "recordFailedAttempt cfg True False now i l = (b, l')"
  shows "redis_get later (redisKey i) l' = Some (1, None)"
  using assms by (auto simp: recordFailedAttempt_def redis_incr_def redis_get_def recordLocalFailedAttempt_def Let_def)

lemma lost_expiry_stays:
  assumes "redisCounters l (redisKey i) = Some (n, None)" "0 < n" "recordFailedAttempt cfg up up' now i l = (b, l')"
  shows "\<exists>m. n \<le> m \<and> redisCounters l' (redisKey i) = Some (m, None)"
  using assms by (auto simp: recordFailedAttempt_def redis_incr_def redis_get_def recordLocalFailedAttempt_def Let_def
      split: if_splits)

end
