(* ===== verification/Login.thy ===== *)
theory Login
  imports Sessions Mfa LoginAttempts Branches ImportParser
begin

text \<open>
  The ways into the program in \<open>auth.service.ts\<close>: registration of a company, login by
  password with the second factor, and login and registration through an identity provider.
  The answer of the provider is an argument (\<open>OAuth\<close> computes it from the HTTP responses), as
  are the random tokens. Login runs on the database and the limiter of failed attempts.
\<close>

section \<open>Helpers\<close>

definition normalizeEmail :: "string \<Rightarrow> string" where
  "normalizeEmail email = toLowerCase (trim email)"

definition assertStrongPassword :: "string \<Rightarrow> string \<Rightarrow> unit result" where
  "assertStrongPassword password confirmation =
     (if password \<noteq> confirmation then Inl (BadRequestException ''Password confirmation does not match.'')
      else if length password < 10 \<or> \<not> list_ex is_lower password \<or> \<not> list_ex is_upper password
        \<or> \<not> list_ex is_digit password \<or> \<not> list_ex (\<lambda>c. \<not> is_lower c \<and> \<not> is_upper c \<and> \<not> is_digit c) password
      then Inl (BadRequestException ''Password must have uppercase, lowercase, number and special character.'')
      else Inr ())"

definition maskEmail :: "string \<Rightarrow> string" where
  "maskEmail email =
     (case split_on (CHR ''@'') email of
        name # domain # rest \<Rightarrow>
          if name = [] \<or> domain = [] then ''usuario autenticado'' else take 2 name @ ''***@'' @ domain
      | _ \<Rightarrow> ''usuario autenticado'')"

fun squash_dash :: "bool \<Rightarrow> string \<Rightarrow> string" where
  "squash_dash run [] = []"
| "squash_dash run (c # cs) =
     (if header_char c then c # squash_dash False cs
      else if run then squash_dash True cs else CHR ''-'' # squash_dash True cs)"

definition slugify :: "string \<Rightarrow> string \<Rightarrow> string" where
  "slugify randomHex v =
     (let s = squash_dash False (toLowerCase (map strip_mark v));
          slug = take 70 (rev (dropWhile (\<lambda>c. c = CHR ''-'') (rev (dropWhile (\<lambda>c. c = CHR ''-'') s))))
      in if slug = [] then ''tenant-'' @ randomHex else slug)"

definition uniqueTenantSlug :: "string \<Rightarrow> string \<Rightarrow> string \<Rightarrow> db \<Rightarrow> string" where
  "uniqueTenantSlug randomHex randomHex' companyName d =
     (let base = slugify randomHex companyName;
          candidates = map (\<lambda>index. if index = 0 then base else base @ ''-'' @ nat_str (index + 1)) [0 ..< 20]
      in case find (\<lambda>c. findFirst (\<lambda>t. t_slug t = c) (tenants d) = None) candidates of
           Some c \<Rightarrow> c
         | None \<Rightarrow> base @ ''-'' @ randomHex')"

section \<open>Registration of a company\<close>

record RegisterTenantDto =
  rg_name :: string
  rg_companyName :: string
  rg_email :: string
  rg_password :: string
  rg_passwordConfirmation :: string
  rg_acceptedTerms :: bool
  rg_acceptedPrivacy :: bool

definition tenant_conflict :: "Tenant \<Rightarrow> Tenant \<Rightarrow> bool" where
  "tenant_conflict r x = (t_slug r = t_slug x)"

text \<open>The columns of a new user that no creation sets.\<close>

definition new_user ::
  "date \<Rightarrow> string \<Rightarrow> string option \<Rightarrow> string \<Rightarrow> string \<Rightarrow> string option \<Rightarrow> UserRole \<Rightarrow> UserStatus \<Rightarrow> User" where
  "new_user now i tenantId email name passwordHash role status =
     \<lparr> u_id = i, u_tenantId = tenantId, u_branchId = None, u_name = name, u_email = email,
       u_passwordHash = passwordHash, u_role = role, u_status = status, u_mfaEnabled = False, u_mfaSecret = None,
       u_passwordChangeRequired = False, u_lastLoginAt = None, u_deletedAt = None, u_createdAt = now \<rparr>"

text \<open>\<open>auditLog.create\<close> inside a transaction.\<close>

definition log_row ::
  "date \<Rightarrow> AuditAction \<Rightarrow> string \<Rightarrow> string \<Rightarrow> string \<Rightarrow> json \<Rightarrow> string option \<Rightarrow> string \<Rightarrow> db \<Rightarrow> db" where
  "log_row now action actorId entityId entityType metadata requestId tenantId d =
     bump (d\<lparr>auditLogs := auditLogs d @
       [\<lparr> al_id = new_id d, al_tenantId = Some tenantId, al_actorId = Some actorId, al_action = action,
          al_entityType = Some entityType, al_entityId = Some entityId, al_requestId = requestId, al_ipHash = None,
          al_metadata = Some metadata, al_createdAt = now \<rparr>]\<rparr>)"

definition create_user :: "User \<Rightarrow> unit handler" where
  "create_user u d =
     (case create_row user_conflict u (users d) of
        Inl e \<Rightarrow> (Inl (PrismaKnownError e), d)
      | Inr t \<Rightarrow> (Inr (), bump (d\<lparr>users := t\<rparr>)))"

definition create_company ::
  "date \<Rightarrow> string \<Rightarrow> string \<Rightarrow> string \<Rightarrow> RegisterTenantDto \<Rightarrow> AuthRequestMetadata \<Rightarrow> User handler" where
  "create_company now email passwordHash tenantSlug dto m d =
     (let tenant = \<lparr> t_id = new_id d, t_name = trim (rg_companyName dto), t_document = None, t_slug = tenantSlug,
                     t_active = True \<rparr> in
      case create_row tenant_conflict tenant (tenants d) of
        Inl e \<Rightarrow> (Inl (PrismaKnownError e), d)
      | Inr t \<Rightarrow>
      let d1 = bump (d\<lparr>tenants := t,
            tenantSettings := tenantSettings d @ [\<lparr> ts_tenantId = t_id tenant, ts_country = ''BR'', ts_currency = ''BRL'',
              ts_timezone = ''America/Sao_Paulo'', ts_onboardingCompleted = False \<rparr>],
            tenantOnboarding := tenantOnboarding d @ [\<lparr> to_tenantId = t_id tenant, to_companyDone = True,
              to_branchDone = False, to_inviteDone = False, to_completed = False, to_currentStep = ''branch'' \<rparr>]\<rparr>);
          branch = (blank_branch now (new_id d1) (t_id tenant))\<lparr>b_active := True, b_code := ''MATRIZ'', b_country := ''BR'',
              b_main := True, b_name := ''Matriz''\<rparr> in
      case create_row branch_conflict branch (branches d1) of
        Inl e \<Rightarrow> (Inl (PrismaKnownError e), d)
      | Inr bs \<Rightarrow>
      let d2 = bump (d1\<lparr>branches := bs\<rparr>);
          user = (new_user now (new_id d2) (Some (t_id tenant)) email (trim (rg_name dto)) (Some passwordHash) ADMIN
                    UserStatus.ACTIVE)\<lparr>u_branchId := Some (b_id branch)\<rparr> in
      case create_user user d2 of
        (Inl e, d3) \<Rightarrow> (Inl e, d)
      | (Inr _, d3) \<Rightarrow>
          (Inr user, log_row now TENANT_REGISTERED (u_id user) (t_id tenant) ''Tenant''
             (JObj [(''source'', JStr ''public_register'')]) (am_requestId m) (t_id tenant) d3))"

definition registerTenant ::
  "AuthLibs \<Rightarrow> AuthConfig \<Rightarrow> date \<Rightarrow> NewRefreshToken \<Rightarrow> string \<Rightarrow> string \<times> string \<Rightarrow> RegisterTenantDto
    \<Rightarrow> AuthRequestMetadata \<Rightarrow> AuthResult handler" where
  "registerTenant libs cfg now fresh saltBytes randomHex dto m d =
     (let email = normalizeEmail (rg_email dto) in
      case assertStrongPassword (rg_password dto) (rg_passwordConfirmation dto) of
        Inl e \<Rightarrow> (Inl e, d)
      | Inr _ \<Rightarrow>
      if \<not> rg_acceptedTerms dto \<or> \<not> rg_acceptedPrivacy dto
      then (Inl (BadRequestException ''Terms and privacy policy must be accepted.''), d)
      else if findFirst (\<lambda>u. u_email u = email) (users d) \<noteq> None
      then (Inl (ConflictException ''This e-mail is already registered.''), d)
      else
      case create_company now email (hash_password libs saltBytes (rg_password dto))
             (uniqueTenantSlug (fst randomHex) (snd randomHex) (rg_companyName dto) d) dto m d of
        (Inl e, d1) \<Rightarrow> (Inl e, d1)
      | (Inr user, d1) \<Rightarrow> issueSession libs cfg now fresh (with_tenant d1 user) m ''register'' None d1)"

section \<open>Login\<close>

datatype LoginResponse =
    AuthResponse AuthResult
  | MfaRequiredResponse string date string
  | PendingApprovalResponse string
  | IncompleteRegistrationResponse string

definition oauth_state_conflict :: "OAuthState \<Rightarrow> OAuthState \<Rightarrow> bool" where
  "oauth_state_conflict r x = (os_stateHash r = os_stateHash x)"

definition challenge_conflict :: "MfaChallenge \<Rightarrow> MfaChallenge \<Rightarrow> bool" where
  "challenge_conflict r x = (mc_challengeTokenHash r = mc_challengeTokenHash x)"

definition create_state :: "OAuthState \<Rightarrow> unit handler" where
  "create_state s d =
     (case create_row oauth_state_conflict s (oauthStates d) of
        Inl e \<Rightarrow> (Inl (PrismaKnownError e), d)
      | Inr t \<Rightarrow> (Inr (), bump (d\<lparr>oauthStates := t\<rparr>)))"

definition create_challenge :: "MfaChallenge \<Rightarrow> unit handler" where
  "create_challenge c d =
     (case create_row challenge_conflict c (mfaChallenges d) of
        Inl e \<Rightarrow> (Inl (PrismaKnownError e), d)
      | Inr t \<Rightarrow> (Inr (), bump (d\<lparr>mfaChallenges := t\<rparr>)))"

definition createCompletionToken ::
  "AuthLibs \<Rightarrow> AuthConfig \<Rightarrow> date \<Rightarrow> string \<Rightarrow> string \<Rightarrow> OAuthProvider \<Rightarrow> AuthRequestMetadata \<Rightarrow> string handler" where
  "createCompletionToken libs cfg now completionToken userId provider m d =
     (case create_state \<lparr> os_id = new_id d, os_stateHash = hashOpaqueToken libs cfg completionToken,
             os_provider = provider, os_mode = ''complete_registration'', os_tenantId = None, os_userId = Some userId,
             os_metadata = Some (JObj [(''requestId'', case am_requestId m of None \<Rightarrow> JNull | Some r \<Rightarrow> JStr r)]),
             os_expiresAt = expiresIn now 3600, os_usedAt = None \<rparr> d of
        (Inl e, d1) \<Rightarrow> (Inl e, d1)
      | (Inr _, d1) \<Rightarrow> (Inr completionToken, d1))"

definition blockNonActiveLogin ::
  "AuthLibs \<Rightarrow> AuthConfig \<Rightarrow> date \<Rightarrow> string \<Rightarrow> User \<Rightarrow> OAuthProvider option \<Rightarrow> AuthRequestMetadata
    \<Rightarrow> LoginResponse option handler" where
  "blockNonActiveLogin libs cfg now completionToken user provider m d =
     (if u_status user = UserStatus.ACTIVE then (Inr None, d)
      else if u_status user = UserStatus.PENDING \<or> u_status user = INVITED
      then (Inr (Some (PendingApprovalResponse (''Aguardando aprova'' @ [CHR 0xE7, CHR 0xE3] @ ''o do Administrador.''))), d)
      else if u_status user = INCOMPLETE then
        (case createCompletionToken libs cfg now completionToken (u_id user) (coalesce provider GOOGLE) m d of
           (Inl e, d1) \<Rightarrow> (Inl e, d1)
         | (Inr token, d1) \<Rightarrow> (Inr (Some (IncompleteRegistrationResponse token)), d1))
      else (Inl (UnauthorizedException ''Invalid email or password.''), d))"

record LoginDto =
  lg_email :: string
  lg_password :: string
  lg_tenantSlug :: "string option"

text \<open>Which of the commands of Redis a login makes succeed.\<close>

record RedisUp =
  up_get :: bool
  up_incr :: bool
  up_expire :: bool
  up_del :: bool

text \<open>What is left of a login once the password is right.\<close>

definition admit ::
  "AuthLibs \<Rightarrow> AuthConfig \<Rightarrow> date \<Rightarrow> NewRefreshToken \<Rightarrow> string \<Rightarrow> string \<Rightarrow> AuthUserRecord \<Rightarrow> AuthRequestMetadata
    \<Rightarrow> LoginResponse handler" where
  "admit libs cfg now fresh challengeToken completionToken user m d =
     (case blockNonActiveLogin libs cfg now completionToken (fst user) None m d of
        (Inl e, d1) \<Rightarrow> (Inl e, d1)
      | (Inr (Some response), d1) \<Rightarrow> (Inr response, d1)
      | (Inr None, d1) \<Rightarrow>
      if \<not> hasActiveTenant user then
        (Inl (UnauthorizedException ''Invalid email or password.''),
         recordAuthFailure libs cfg now m (u_tenantId (fst user)) (Some (u_id (fst user))) ''inactive_tenant'' d1)
      else if u_mfaEnabled (fst user) \<and> truthy (u_mfaSecret (fst user)) then
        (case create_challenge \<lparr> mc_id = new_id d1, mc_tenantId = t_id (the (snd user)), mc_userId = u_id (fst user),
                mc_challengeTokenHash = hashOpaqueToken libs cfg challengeToken, mc_expiresAt = expiresIn now 300,
                mc_usedAt = None \<rparr> d1 of
           (Inl e, d2) \<Rightarrow> (Inl e, d2)
         | (Inr _, d2) \<Rightarrow>
             (Inr (MfaRequiredResponse challengeToken (expiresIn now 300) (maskEmail (u_email (fst user)))), d2))
      else
        (case issueSession libs cfg now fresh user m ''login'' None d1 of
           (Inl e, d2) \<Rightarrow> (Inl e, d2)
         | (Inr result, d2) \<Rightarrow> (Inr (AuthResponse result), d2)))"

definition login_candidate :: "string \<Rightarrow> string option \<Rightarrow> db \<Rightarrow> AuthUserRecord option" where
  "login_candidate email tenantSlug d =
     (case findLoginCandidates email tenantSlug d of [u] \<Rightarrow> Some u | _ \<Rightarrow> None)"

definition password_valid :: "AuthLibs \<Rightarrow> string \<Rightarrow> AuthUserRecord option \<Rightarrow> bool" where
  "password_valid libs password user =
     (case user of None \<Rightarrow> False
      | Some (u, t) \<Rightarrow> (case u_passwordHash u of None \<Rightarrow> False | Some h \<Rightarrow> verify_password libs password h))"

definition login ::
  "AuthLibs \<Rightarrow> AuthConfig \<Rightarrow> date \<Rightarrow> RedisUp \<Rightarrow> NewRefreshToken \<Rightarrow> string \<Rightarrow> string \<Rightarrow> LoginDto \<Rightarrow> AuthRequestMetadata
    \<Rightarrow> db \<times> Limiter \<Rightarrow> LoginResponse result \<times> (db \<times> Limiter)" where
  "login libs cfg now redis fresh challengeToken completionToken dto m s =
     (let d = fst s;
          email = normalizeEmail (lg_email dto);
          tenantSlug = map_option trim (lg_tenantSlug dto);
          attemptIdentifier = buildIdentifier libs cfg email (am_ip m) tenantSlug in
      case assertCanAttempt cfg (up_get redis) now attemptIdentifier (snd s) of
        (Inl e, l1) \<Rightarrow> (Inl e, (recordAuthFailure libs cfg now m None None ''rate_limited'' d, l1))
      | (Inr _, l1) \<Rightarrow>
      let user = login_candidate email tenantSlug d in
      if \<not> password_valid libs (lg_password dto) user then
        (case recordFailedAttempt cfg (up_incr redis) (up_expire redis) now attemptIdentifier l1 of
           (locked, l2) \<Rightarrow>
             (Inl (if locked then tooManyLoginAttempts else UnauthorizedException ''Invalid email or password.''),
              (recordAuthFailure libs cfg now m (case user of None \<Rightarrow> None | Some (u, t) \<Rightarrow> u_tenantId u)
                 (case user of None \<Rightarrow> None | Some (u, t) \<Rightarrow> Some (u_id u))
                 (if locked then ''rate_limited'' else ''invalid_credentials'') d, l2)))
      else
        (case admit libs cfg now fresh challengeToken completionToken (the user) m d of
           (r, d1) \<Rightarrow> (r, (d1, clear_attempts (up_del redis) attemptIdentifier l1))))"

definition listTenantOptions :: "string option \<Rightarrow> db \<Rightarrow> TenantRef list" where
  "listTenantOptions search d =
     (let term = map_option trim search in
      map (\<lambda>t. \<lparr> tr_id = t_id t, tr_name = t_name t, tr_slug = t_slug t \<rparr>)
        (take 25 (orderBy (asc t_name)
           (findMany (\<lambda>t. t_active t \<and> (truthy term \<longrightarrow>
               includes_str (t_name t) (the term) \<or> includes_str (t_slug t) (toLowerCase (the term)))) (tenants d)))))"

section \<open>The second factor\<close>

definition is_six_digits :: "string \<Rightarrow> bool" where
  "is_six_digits s \<longleftrightarrow> length s = 6 \<and> list_all is_digit s"

definition verifyMfaOrRecovery ::
  "AuthLibs \<Rightarrow> AuthConfig \<Rightarrow> date \<Rightarrow> string \<Rightarrow> string \<Rightarrow> string \<Rightarrow> string \<Rightarrow> bool handler" where
  "verifyMfaOrRecovery libs cfg now tenantId userId encryptedSecret code d =
     (let normalized = normalize_code code in
      case (if is_six_digits normalized
            then bindE (decrypt libs cfg encryptedSecret) (\<lambda>secret. verifyCode libs secret normalized now)
            else Inr False) of
        Inl e \<Rightarrow> (Inl e, d)
      | Inr verified \<Rightarrow>
      if verified then (Inr True, d)
      else
      case findFirst (\<lambda>r. mr_codeHash r = hashOpaqueToken libs cfg normalized \<and> mr_tenantId r = tenantId
              \<and> mr_userId r = userId \<and> mr_usedAt r = None) (mfaRecoveryCodes d) of
        None \<Rightarrow> (Inr False, d)
      | Some recovery \<Rightarrow>
      (case update_row mr_id no_conflict (mr_id recovery) (\<lambda>r. r\<lparr>mr_usedAt := Some now\<rparr>) (mfaRecoveryCodes d) of
         Inl e \<Rightarrow> (Inl (PrismaKnownError e), d)
       | Inr (r, t) \<Rightarrow> (Inr True, d\<lparr>mfaRecoveryCodes := t\<rparr>)))"

definition use_challenge :: "date \<Rightarrow> string \<Rightarrow> unit handler" where
  "use_challenge now i d =
     (case update_row mc_id challenge_conflict i (\<lambda>c. c\<lparr>mc_usedAt := Some now\<rparr>) (mfaChallenges d) of
        Inl e \<Rightarrow> (Inl (PrismaKnownError e), d)
      | Inr (c, t) \<Rightarrow> (Inr (), d\<lparr>mfaChallenges := t\<rparr>))"

definition find_challenge :: "AuthLibs \<Rightarrow> AuthConfig \<Rightarrow> date \<Rightarrow> string \<Rightarrow> db \<Rightarrow> (MfaChallenge \<times> AuthUserRecord) option" where
  "find_challenge libs cfg now challengeToken d =
     (case findFirst (\<lambda>c. mc_challengeTokenHash c = hashOpaqueToken libs cfg challengeToken \<and> now < mc_expiresAt c
              \<and> mc_usedAt c = None) (mfaChallenges d) of
        None \<Rightarrow> None
      | Some c \<Rightarrow> (case findFirst (\<lambda>u. u_id u = mc_userId c) (users d) of
                     None \<Rightarrow> None | Some u \<Rightarrow> Some (c, with_tenant d u)))"

definition verifyMfaLogin ::
  "AuthLibs \<Rightarrow> AuthConfig \<Rightarrow> date \<Rightarrow> NewRefreshToken \<Rightarrow> string \<Rightarrow> string \<Rightarrow> AuthRequestMetadata \<Rightarrow> AuthResult handler" where
  "verifyMfaLogin libs cfg now fresh challengeToken code m d =
     (case find_challenge libs cfg now challengeToken d of
        None \<Rightarrow> (Inl (UnauthorizedException ''MFA challenge is invalid.''),
                 recordAuthFailure libs cfg now m None None ''invalid_mfa_challenge'' d)
      | Some (challenge, user) \<Rightarrow>
      if \<not> truthy (u_mfaSecret (fst user)) \<or> \<not> u_mfaEnabled (fst user) \<or> \<not> hasActiveTenant user then
        (Inl (UnauthorizedException ''MFA challenge is invalid.''),
         recordAuthFailure libs cfg now m (Some (mc_tenantId challenge)) (Some (mc_userId challenge))
           ''invalid_mfa_challenge'' d)
      else
      case verifyMfaOrRecovery libs cfg now (mc_tenantId challenge) (mc_userId challenge) (the (u_mfaSecret (fst user)))
             code d of
        (Inl e, d1) \<Rightarrow> (Inl e, d1)
      | (Inr verified, d1) \<Rightarrow>
      if \<not> verified then
        (Inl (UnauthorizedException ''MFA code is invalid.''),
         recordAuthFailure libs cfg now m (Some (mc_tenantId challenge)) (Some (mc_userId challenge))
           ''invalid_mfa_code'' d1)
      else
      case use_challenge now (mc_id challenge) d1 of
        (Inl e, d2) \<Rightarrow> (Inl e, d2)
      | (Inr _, d2) \<Rightarrow> issueSession libs cfg now fresh user m ''login_mfa'' None d2)"

end
