(* ===== verification/OAuth.thy ===== *)
theory OAuth
  imports Login
begin

text \<open>
  \<open>oauth.service.ts\<close> and the identity providers of \<open>auth.service.ts\<close>: the exchange of an
  authorization code, the states a flow is bound to, the callback, the registration of a user who
  comes from a provider and the links between users and providers. The bodies of the HTTP
  responses are arguments, read by the fields the code reads; a list of addresses that is no array
  makes the call of \<open>find\<close> throw.
\<close>

section \<open>Providers\<close>

record OAuthIdentity =
  oi_email :: string
  oi_emailVerified :: bool
  oi_name :: string
  oi_provider :: OAuthProvider
  oi_providerUserId :: string

fun provider_path :: "OAuthProvider \<Rightarrow> string" where
  "provider_path GOOGLE = ''google''"
| "provider_path GITHUB = ''github''"

definition configured :: "(string \<times> string) option \<Rightarrow> bool" where
  "configured c = (case c of None \<Rightarrow> False | Some (i, s) \<Rightarrow> i \<noteq> [] \<and> s \<noteq> [])"

definition oauth_status :: "AuthConfig \<Rightarrow> (string \<times> bool) list" where
  "oauth_status cfg = [(''github'', configured (githubClient cfg)), (''google'', configured (googleClient cfg))]"

text \<open>\<open>URLSearchParams\<close>: the serialisation of a form.\<close>

definition form_char :: "char \<Rightarrow> string" where
  "form_char c = (if is_lower c \<or> is_upper c \<or> is_digit c \<or> c \<in> set ''*-._'' then [c]
     else if c = CHR '' '' then ''+'' else CHR 0x25 # toUpperCase (hex [c]))"

definition form_text :: "(string \<times> string) list \<Rightarrow> string" where
  "form_text params = join ''&'' (map (\<lambda>(k, v). concat (map form_char k) @ ''='' @ concat (map form_char v)) params)"

definition callbackUrl :: "AuthConfig \<Rightarrow> OAuthProvider \<Rightarrow> string" where
  "callbackUrl cfg provider = authPublicUrl cfg @ ''/auth/oauth/'' @ provider_path provider @ ''/callback''"

definition authorizationUrl :: "AuthConfig \<Rightarrow> OAuthProvider \<Rightarrow> string \<Rightarrow> string result" where
  "authorizationUrl cfg provider state =
     (case provider of
        GOOGLE \<Rightarrow>
          if \<not> configured (googleClient cfg) then Inl (ServiceUnavailableException ''Google OAuth is not configured.'')
          else Inr (''https://accounts.google.com/o/oauth2/v2/auth?'' @ form_text
            [(''client_id'', fst (the (googleClient cfg))), (''redirect_uri'', callbackUrl cfg provider),
             (''response_type'', ''code''), (''scope'', ''openid email profile''), (''state'', state)])
      | GITHUB \<Rightarrow>
          if \<not> configured (githubClient cfg) then Inl (ServiceUnavailableException ''GitHub OAuth is not configured.'')
          else Inr (''https://github.com/login/oauth/authorize?'' @ form_text
            [(''client_id'', fst (the (githubClient cfg))), (''redirect_uri'', callbackUrl cfg provider),
             (''scope'', ''read:user user:email''), (''state'', state)]))"

record GoogleProfile =
  gp_email :: "string option"
  gp_id :: "string option"
  gp_name :: "string option"
  gp_verified :: "bool option"

record GitHubUser =
  gu_email :: "string option"
  gu_id :: "int option"
  gu_name :: "string option"
  gu_login :: "string option"

record GitHubEmail =
  ge_email :: "string option"
  ge_primary :: "bool option"
  ge_verified :: "bool option"

definition exchangeGoogle ::
  "AuthConfig \<Rightarrow> bool \<times> string option \<Rightarrow> bool \<times> GoogleProfile \<Rightarrow> OAuthIdentity result" where
  "exchangeGoogle cfg tokenResponse profileResponse =
     (if \<not> configured (googleClient cfg) then Inl (ServiceUnavailableException ''Google OAuth is not configured.'')
      else if \<not> fst tokenResponse \<or> \<not> truthy (snd tokenResponse)
      then Inl (BadRequestException ''Google OAuth callback is invalid.'')
      else
      let profile = snd profileResponse in
      if \<not> fst profileResponse \<or> \<not> truthy (gp_id profile) \<or> \<not> truthy (gp_email profile)
        \<or> gp_verified profile \<noteq> Some True
      then Inl (BadRequestException ''Google account does not expose a verified e-mail.'')
      else Inr \<lparr> oi_email = toLowerCase (trim (the (gp_email profile))), oi_emailVerified = True,
                 oi_name = coalesce (gp_name profile) (the (gp_email profile)), oi_provider = GOOGLE,
                 oi_providerUserId = the (gp_id profile) \<rparr>)"

definition int_str :: "int \<Rightarrow> string" where
  "int_str n = (if n < 0 then ''-'' @ nat_str (nat (- n)) else nat_str (nat n))"

definition github_email :: "GitHubUser \<Rightarrow> GitHubEmail list \<Rightarrow> string option" where
  "github_email user emails =
     (case find (\<lambda>e. ge_primary e = Some True \<and> ge_verified e = Some True \<and> truthy (ge_email e)) emails of
        Some e \<Rightarrow> ge_email e
      | None \<Rightarrow>
     (case find (\<lambda>e. ge_verified e = Some True \<and> truthy (ge_email e)) emails of
        Some e \<Rightarrow> ge_email e
      | None \<Rightarrow> gu_email user))"

definition exchangeGitHub ::
  "AuthConfig \<Rightarrow> bool \<times> string option \<Rightarrow> bool \<times> GitHubUser \<Rightarrow> bool \<times> GitHubEmail list option
    \<Rightarrow> OAuthIdentity result" where
  "exchangeGitHub cfg tokenResponse userResponse emailsResponse =
     (if \<not> configured (githubClient cfg) then Inl (ServiceUnavailableException ''GitHub OAuth is not configured.'')
      else if \<not> fst tokenResponse \<or> \<not> truthy (snd tokenResponse)
      then Inl (BadRequestException ''GitHub OAuth callback is invalid.'')
      else if \<not> fst userResponse \<or> gu_id (snd userResponse) = None
      then Inl (BadRequestException ''GitHub OAuth profile is invalid.'')
      else
      let user = snd userResponse in
      case snd emailsResponse of
        None \<Rightarrow> Inl (InternalError ''TypeError'')
      | Some emails \<Rightarrow>
      let verifiedEmail = github_email user emails in
      if \<not> fst emailsResponse \<or> \<not> truthy verifiedEmail
      then Inl (BadRequestException ''GitHub account does not expose a verified e-mail.'')
      else Inr \<lparr> oi_email = toLowerCase (trim (the verifiedEmail)), oi_emailVerified = True,
                 oi_name = coalesce (gu_name user) (coalesce (gu_login user) (the verifiedEmail)),
                 oi_provider = GITHUB, oi_providerUserId = int_str (the (gu_id user)) \<rparr>)"

section \<open>States\<close>

definition startOAuth ::
  "AuthLibs \<Rightarrow> AuthConfig \<Rightarrow> date \<Rightarrow> string \<Rightarrow> OAuthProvider \<Rightarrow> string \<Rightarrow> string option \<Rightarrow> string option \<Rightarrow> string handler" where
  "startOAuth libs cfg now state provider mode tenantId userId d =
     (if mode = ''link'' \<and> (\<not> truthy tenantId \<or> \<not> truthy userId)
      then (Inl (UnauthorizedException ''Authentication is required to link providers.''), d)
      else
      case create_state \<lparr> os_id = new_id d, os_stateHash = hashOpaqueToken libs cfg state, os_provider = provider,
             os_mode = mode, os_tenantId = present tenantId, os_userId = present userId, os_metadata = None,
             os_expiresAt = expiresIn now 600, os_usedAt = None \<rparr> d of
        (Inl e, d1) \<Rightarrow> (Inl e, d1)
      | (Inr _, d1) \<Rightarrow> (authorizationUrl cfg provider state, d1))"

definition live_state :: "AuthLibs \<Rightarrow> AuthConfig \<Rightarrow> date \<Rightarrow> string \<Rightarrow> OAuthState \<Rightarrow> bool" where
  "live_state libs cfg now token s \<longleftrightarrow>
     now < os_expiresAt s \<and> os_stateHash s = hashOpaqueToken libs cfg token \<and> os_usedAt s = None"

definition update_state :: "string \<Rightarrow> (OAuthState \<Rightarrow> OAuthState) \<Rightarrow> unit handler" where
  "update_state i f d =
     (case update_row os_id oauth_state_conflict i f (oauthStates d) of
        Inl e \<Rightarrow> (Inl (PrismaKnownError e), d)
      | Inr (s, t) \<Rightarrow> (Inr (), d\<lparr>oauthStates := t\<rparr>))"

section \<open>Accounts\<close>

definition oauth_account_conflict :: "OAuthAccount \<Rightarrow> OAuthAccount \<Rightarrow> bool" where
  "oauth_account_conflict r x =
     ((oa_provider r = oa_provider x \<and> oa_providerUserId r = oa_providerUserId x)
      \<or> (oa_tenantId r \<noteq> None \<and> oa_tenantId r = oa_tenantId x \<and> oa_userId r = oa_userId x \<and> oa_provider r = oa_provider x))"

definition create_account :: "OAuthAccount \<Rightarrow> unit handler" where
  "create_account a d =
     (case create_row oauth_account_conflict a (oauthAccounts d) of
        Inl e \<Rightarrow> (Inl (PrismaKnownError e), d)
      | Inr t \<Rightarrow> (Inr (), bump (d\<lparr>oauthAccounts := t\<rparr>)))"

definition createIncompleteOAuthUser ::
  "AuthLibs \<Rightarrow> AuthConfig \<Rightarrow> date \<Rightarrow> string \<Rightarrow> OAuthIdentity \<Rightarrow> AuthRequestMetadata \<Rightarrow> string handler" where
  "createIncompleteOAuthUser libs cfg now completionToken identity m d =
     (if findFirst (\<lambda>u. u_email u = oi_email identity \<and> u_status u \<noteq> UserStatus.DELETED) (users d) \<noteq> None
      then (Inl (ConflictException ''This e-mail is already registered.''), d)
      else
      let user = new_user now (new_id d) None (oi_email identity) (oi_name identity) None OPERATOR INCOMPLETE in
      case create_user user d of
        (Inl e, d1) \<Rightarrow> (Inl e, d)
      | (Inr _, d1) \<Rightarrow>
      case create_account \<lparr> oa_id = new_id d1, oa_tenantId = None, oa_userId = u_id user, oa_provider = oi_provider identity,
             oa_providerUserId = oi_providerUserId identity, oa_email = oi_email identity \<rparr> d1 of
        (Inl e, d2) \<Rightarrow> (Inl e, d)
      | (Inr _, d2) \<Rightarrow>
      case create_state \<lparr> os_id = new_id d2, os_stateHash = hashOpaqueToken libs cfg completionToken,
             os_provider = oi_provider identity, os_mode = ''complete_registration'', os_tenantId = None,
             os_userId = Some (u_id user),
             os_metadata = Some (JObj ([(''email'', JStr (oi_email identity))]
               @ (case am_requestId m of None \<Rightarrow> [] | Some r \<Rightarrow> [(''requestId'', JStr r)]))),
             os_expiresAt = expiresIn now 3600, os_usedAt = None \<rparr> d2 of
        (Inl e, d3) \<Rightarrow> (Inl e, d)
      | (Inr _, d3) \<Rightarrow>
          (Inr completionToken, record_audit now \<lparr> ai_action = USER_CREATED, ai_actorId = Some (u_id user),
             ai_entityId = Some (u_id user), ai_entityType = Some ''User'', ai_ipHash = None,
             ai_metadata = Some (JObj [(''status'', JStr ''INCOMPLETE''), (''source'', JStr ''oauth_register'')]),
             ai_requestId = None, ai_tenantId = None \<rparr> d3))"

definition provider_name :: "OAuthProvider \<Rightarrow> string" where
  "provider_name provider = toUpperCase (provider_path provider)"

definition provider_audit :: "date \<Rightarrow> AuditAction \<Rightarrow> string \<Rightarrow> OAuthProvider \<Rightarrow> string \<Rightarrow> db \<Rightarrow> db" where
  "provider_audit now action userId provider tenantId =
     record_audit now (audit_of action userId userId ''User'' (JObj [(''provider'', JStr (provider_name provider))]) tenantId)"

definition linkProvider :: "date \<Rightarrow> string \<Rightarrow> string \<Rightarrow> OAuthIdentity \<Rightarrow> unit handler" where
  "linkProvider now userId tenantId identity d =
     (case findFirst (\<lambda>u. u_id u = userId \<and> u_tenantId u = Some tenantId \<and> u_status u = UserStatus.ACTIVE) (users d) of
        None \<Rightarrow> (Inl (UnauthorizedException ''Authentication context is required.''), d)
      | Some user \<Rightarrow>
      if normalizeEmail (u_email user) \<noteq> normalizeEmail (oi_email identity)
      then (Inl (ConflictException ''Provider e-mail must match the authenticated user e-mail.''), d)
      else
      case (case findFirst (\<lambda>a. oa_tenantId a = Some tenantId \<and> oa_userId a = userId \<and> oa_provider a = oi_provider identity)
                   (oauthAccounts d) of
              None \<Rightarrow> create_account \<lparr> oa_id = new_id d, oa_tenantId = Some tenantId, oa_userId = userId,
                        oa_provider = oi_provider identity, oa_providerUserId = oi_providerUserId identity,
                        oa_email = oi_email identity \<rparr> d
            | Some a \<Rightarrow>
                (case update_row oa_id oauth_account_conflict (oa_id a)
                        (\<lambda>a. a\<lparr>oa_email := oi_email identity, oa_providerUserId := oi_providerUserId identity\<rparr>)
                        (oauthAccounts d) of
                   Inl e \<Rightarrow> (Inl (PrismaKnownError e), d)
                 | Inr (a', t) \<Rightarrow> (Inr (), d\<lparr>oauthAccounts := t\<rparr>))) of
        (Inl e, d1) \<Rightarrow> (Inl e, d1)
      | (Inr _, d1) \<Rightarrow> (Inr (), provider_audit now OAUTH_LINKED userId (oi_provider identity) tenantId d1))"

definition unlinkProvider :: "date \<Rightarrow> string \<Rightarrow> string \<Rightarrow> OAuthProvider \<Rightarrow> unit handler" where
  "unlinkProvider now userId tenantId provider d =
     (case findFirst (\<lambda>u. u_id u = userId \<and> u_tenantId u = Some tenantId) (users d) of
        None \<Rightarrow> (Inl (UnauthorizedException ''Authentication context is required.''), d)
      | Some user \<Rightarrow>
      if \<not> truthy (u_passwordHash user)
        \<and> filter (\<lambda>a. oa_userId a = u_id user \<and> oa_provider a \<noteq> provider) (oauthAccounts d) = []
      then (Inl (ForbiddenException ''At least one sign-in method must remain active.''), d)
      else
      (Inr (), provider_audit now OAUTH_UNLINKED userId provider tenantId
         (d\<lparr>oauthAccounts := deleteMany (\<lambda>a. oa_tenantId a = Some tenantId \<and> oa_userId a = userId
              \<and> oa_provider a = provider) (oauthAccounts d)\<rparr>)))"

text \<open>
  \<open>updateMany\<close> under the unique constraints: it fails when two rows of the result are in
  conflict.
\<close>

definition move_accounts :: "string \<Rightarrow> string \<Rightarrow> OAuthAccount list \<Rightarrow> prisma_code + OAuthAccount list" where
  "move_accounts userId tenantId t =
     (let t' = updateMany (\<lambda>a. oa_userId a = userId) (\<lambda>a. a\<lparr>oa_tenantId := Some tenantId\<rparr>) t in
      if \<exists>r \<in> set t'. \<exists>x \<in> set t'. oa_id r \<noteq> oa_id x \<and> oauth_account_conflict r x then Inl P2002 else Inr t')"

definition completeOAuthRegistration ::
  "AuthLibs \<Rightarrow> AuthConfig \<Rightarrow> date \<Rightarrow> string \<Rightarrow> string \<Rightarrow> unit handler" where
  "completeOAuthRegistration libs cfg now token tenantSlug d =
     (case findFirst (\<lambda>s. os_mode s = ''complete_registration'' \<and> live_state libs cfg now token s) (oauthStates d) of
        None \<Rightarrow> (Inl (BadRequestException (''Cadastro OAuth inv'' @ [CHR 0xE1] @ ''lido ou expirado.'')), d)
      | Some state \<Rightarrow>
      if \<not> truthy (os_userId state)
      then (Inl (BadRequestException (''Cadastro OAuth inv'' @ [CHR 0xE1] @ ''lido ou expirado.'')), d)
      else
      let userId = the (os_userId state) in
      case findFirst (\<lambda>t. t_active t \<and> t_slug t = trim tenantSlug) (tenants d) of
        None \<Rightarrow> (Inl (NotFoundException (''Empresa n'' @ [CHR 0xE3] @ ''o encontrada.'')), d)
      | Some tenant \<Rightarrow>
      case set_user userId (\<lambda>u. u\<lparr>u_role := OPERATOR, u_status := UserStatus.PENDING, u_tenantId := Some (t_id tenant)\<rparr>) d of
        (Inl e, d1) \<Rightarrow> (Inl e, d)
      | (Inr _, d1) \<Rightarrow>
      case move_accounts userId (t_id tenant) (oauthAccounts d1) of
        Inl e \<Rightarrow> (Inl (PrismaKnownError e), d)
      | Inr accounts \<Rightarrow>
      case update_state (os_id state) (\<lambda>s. s\<lparr>os_tenantId := Some (t_id tenant), os_usedAt := Some now\<rparr>)
             (d1\<lparr>oauthAccounts := accounts\<rparr>) of
        (Inl e, d2) \<Rightarrow> (Inl e, d)
      | (Inr _, d2) \<Rightarrow>
          (Inr (), log_row now USER_UPDATED userId userId ''User''
             (JObj [(''operation'', JStr ''oauth_complete_registration''), (''status'', JStr ''PENDING'')]) None
             (t_id tenant) d2))"

section \<open>The callback\<close>

definition handleOAuthCallback ::
  "AuthLibs \<Rightarrow> AuthConfig \<Rightarrow> date \<Rightarrow> NewRefreshToken \<Rightarrow> string \<Rightarrow> OAuthProvider \<Rightarrow> OAuthIdentity result \<Rightarrow> string
    \<Rightarrow> AuthRequestMetadata \<Rightarrow> (string \<times> AuthResult option) handler" where
  "handleOAuthCallback libs cfg now fresh completionToken provider exchanged state m d =
     (case findFirst (\<lambda>s. os_provider s = provider \<and> live_state libs cfg now state s) (oauthStates d) of
        None \<Rightarrow> (Inl (BadRequestException ''OAuth state is invalid or expired.''), d)
      | Some storedState \<Rightarrow>
      case update_state (os_id storedState) (\<lambda>s. s\<lparr>os_usedAt := Some now\<rparr>) d of
        (Inl e, d1) \<Rightarrow> (Inl e, d1)
      | (Inr _, d1) \<Rightarrow>
      case exchanged of
        Inl e \<Rightarrow> (Inl e, d1)
      | Inr identity \<Rightarrow>
      if os_mode storedState = ''link'' then
        (if \<not> truthy (os_tenantId storedState) \<or> \<not> truthy (os_userId storedState)
         then (Inl (BadRequestException ''OAuth state is invalid.''), d1)
         else
         case linkProvider now (the (os_userId storedState)) (the (os_tenantId storedState)) identity d1 of
           (Inl e, d2) \<Rightarrow> (Inl e, d2)
         | (Inr _, d2) \<Rightarrow> (Inr (webPublicUrl cfg @ ''/settings/profile?linked='' @ provider_path provider, None), d2))
      else
      case findFirst (\<lambda>a. oa_provider a = provider \<and> oa_providerUserId a = oi_providerUserId identity) (oauthAccounts d1) of
        Some account \<Rightarrow>
          (case findFirst (\<lambda>u. u_id u = oa_userId account) (users d1) of
             None \<Rightarrow> (Inl (InternalError ''TypeError''), d1)
           | Some user \<Rightarrow>
           case blockNonActiveLogin libs cfg now completionToken user (Some provider) m d1 of
             (Inl e, d2) \<Rightarrow> (Inl e, d2)
           | (Inr (Some (PendingApprovalResponse msg)), d2) \<Rightarrow>
               (Inr (webPublicUrl cfg @ ''/login?reason=pending-approval'', None), d2)
           | (Inr (Some (IncompleteRegistrationResponse token)), d2) \<Rightarrow>
               (Inr (webPublicUrl cfg @ ''/completar-cadastro?token='' @ uri_component libs token, None), d2)
           | (Inr _, d2) \<Rightarrow>
               (case issueSession libs cfg now fresh (with_tenant d1 user) m ''oauth_login'' None d2 of
                  (Inl e, d3) \<Rightarrow> (Inl e, d3)
                | (Inr result, d3) \<Rightarrow> (Inr (webPublicUrl cfg @ ''/dashboard'', Some result), d3)))
      | None \<Rightarrow>
      if os_mode storedState = ''register'' then
        (case createIncompleteOAuthUser libs cfg now completionToken identity m d1 of
           (Inl e, d2) \<Rightarrow> (Inl e, d2)
         | (Inr token, d2) \<Rightarrow>
             (Inr (webPublicUrl cfg @ ''/completar-cadastro?token='' @ uri_component libs token, None), d2))
      else (Inl (NotFoundException ''No linked account was found for this provider.''), d1))"

end
