(* ===== verification/Account.thy ===== *)
theory Account
  imports OAuth
begin

text \<open>
  The account of a user in \<open>auth.service.ts\<close>: recovery and change of the password, the profile,
  the second factor and the onboarding of the tenant, with the links \<open>email-delivery.service.ts\<close>
  returns outside production.
\<close>

section \<open>Passwords\<close>

definition dev_url :: "AuthConfig \<Rightarrow> string \<Rightarrow> string option" where
  "dev_url cfg url = (if \<not> production cfg then Some url else None)"

definition reset_conflict :: "PasswordResetToken \<Rightarrow> PasswordResetToken \<Rightarrow> bool" where
  "reset_conflict r x = (pr_tokenHash r = pr_tokenHash x)"

definition reset_requested ::
  "AuthLibs \<Rightarrow> AuthConfig \<Rightarrow> date \<Rightarrow> AuthRequestMetadata \<Rightarrow> User option \<Rightarrow> db \<Rightarrow> db" where
  "reset_requested libs cfg now m user =
     record_audit now \<lparr> ai_action = PASSWORD_RESET_REQUESTED, ai_actorId = map_option u_id user,
       ai_entityId = map_option u_id user, ai_entityType = map_option (\<lambda>u. ''User'') user,
       ai_ipHash = hashMetadata libs cfg (am_ip m), ai_metadata = Some (JObj [(''result'', JStr ''accepted'')]),
       ai_requestId = am_requestId m, ai_tenantId = (case user of None \<Rightarrow> None | Some u \<Rightarrow> u_tenantId u) \<rparr>"

definition forgotPassword ::
  "AuthLibs \<Rightarrow> AuthConfig \<Rightarrow> date \<Rightarrow> string \<Rightarrow> string \<Rightarrow> AuthRequestMetadata \<Rightarrow> string option handler" where
  "forgotPassword libs cfg now token dtoEmail m d =
     (let email = normalizeEmail dtoEmail in
      case findFirst (\<lambda>u. u_email u = email \<and> u_status u = UserStatus.ACTIVE
             \<and> (case tenant_of d (u_tenantId u) of None \<Rightarrow> False | Some t \<Rightarrow> t_active t)) (users d) of
        None \<Rightarrow> (Inr None, reset_requested libs cfg now m None d)
      | Some user \<Rightarrow>
      let t = updateMany (\<lambda>r. pr_userId r = Some (u_id user) \<and> pr_tenantId r = u_tenantId user \<and> pr_usedAt r = None)
                (\<lambda>r. r\<lparr>pr_usedAt := Some now\<rparr>) (passwordResetTokens d);
          row = \<lparr> pr_id = new_id d, pr_tenantId = u_tenantId user, pr_userId = Some (u_id user),
                  pr_emailHash = hashOpaqueToken libs cfg email, pr_tokenHash = hashOpaqueToken libs cfg token,
                  pr_expiresAt = expiresIn now 3600, pr_usedAt = None \<rparr> in
      case create_row reset_conflict row t of
        Inl e \<Rightarrow> (Inl (PrismaKnownError e), d)
      | Inr t2 \<Rightarrow>
          (Inr (dev_url cfg (webPublicUrl cfg @ ''/reset-password?token='' @ uri_component libs token)),
           reset_requested libs cfg now m (Some user) (bump (d\<lparr>passwordResetTokens := t2\<rparr>))))"

definition set_password :: "date \<Rightarrow> string \<Rightarrow> string \<Rightarrow> (RefreshToken \<Rightarrow> bool) \<Rightarrow> unit handler" where
  "set_password now userId passwordHash p d =
     (case set_user userId (\<lambda>u. u\<lparr>u_passwordChangeRequired := False, u_passwordHash := Some passwordHash\<rparr>) d of
        (Inl e, d1) \<Rightarrow> (Inl e, d)
      | (Inr _, d1) \<Rightarrow> (Inr (), revoke_live now p d1))"

definition resetPassword ::
  "AuthLibs \<Rightarrow> AuthConfig \<Rightarrow> date \<Rightarrow> string \<Rightarrow> string \<Rightarrow> string \<Rightarrow> string \<Rightarrow> AuthRequestMetadata \<Rightarrow> unit handler" where
  "resetPassword libs cfg now saltBytes token password passwordConfirmation m d =
     (case assertStrongPassword password passwordConfirmation of
        Inl e \<Rightarrow> (Inl e, d)
      | Inr _ \<Rightarrow>
      let invalid = Inl (BadRequestException ''Password reset token is invalid or expired.'') in
      case findFirst (\<lambda>r. now < pr_expiresAt r \<and> pr_tokenHash r = hashOpaqueToken libs cfg token \<and> pr_usedAt r = None)
             (passwordResetTokens d) of
        None \<Rightarrow> (invalid, d)
      | Some reset \<Rightarrow>
      if \<not> truthy (pr_userId reset) \<or> \<not> truthy (pr_tenantId reset) then (invalid, d)
      else
      let userId = the (pr_userId reset) in
      case set_password now userId (hash_password libs saltBytes password) (\<lambda>r. rf_userId r = userId) d of
        (Inl e, d1) \<Rightarrow> (Inl e, d)
      | (Inr _, d1) \<Rightarrow>
      case update_row pr_id reset_conflict (pr_id reset) (\<lambda>r. r\<lparr>pr_usedAt := Some now\<rparr>) (passwordResetTokens d1) of
        Inl e \<Rightarrow> (Inl (PrismaKnownError e), d)
      | Inr (r, t) \<Rightarrow>
          (Inr (), record_audit now \<lparr> ai_action = PASSWORD_RESET_COMPLETED, ai_actorId = Some userId,
             ai_entityId = Some userId, ai_entityType = Some ''User'', ai_ipHash = hashMetadata libs cfg (am_ip m),
             ai_metadata = None, ai_requestId = am_requestId m, ai_tenantId = pr_tenantId reset \<rparr>
             (d1\<lparr>passwordResetTokens := t\<rparr>)))"

text \<open>An audit entry of a user about the account.\<close>

definition account_audit :: "date \<Rightarrow> AuditAction \<Rightarrow> string \<Rightarrow> json option \<Rightarrow> string \<Rightarrow> db \<Rightarrow> db" where
  "account_audit now action userId metadata tenantId =
     record_audit now \<lparr> ai_action = action, ai_actorId = Some userId, ai_entityId = Some userId,
       ai_entityType = Some ''User'', ai_ipHash = None, ai_metadata = metadata, ai_requestId = None,
       ai_tenantId = Some tenantId \<rparr>"

definition changePassword ::
  "AuthLibs \<Rightarrow> date \<Rightarrow> string \<Rightarrow> string \<Rightarrow> string \<Rightarrow> string \<Rightarrow> string \<Rightarrow> string \<Rightarrow> unit handler" where
  "changePassword libs now saltBytes userId tenantId currentPassword newPassword newPasswordConfirmation d =
     (case assertStrongPassword newPassword newPasswordConfirmation of
        Inl e \<Rightarrow> (Inl e, d)
      | Inr _ \<Rightarrow>
      let invalid = Inl (UnauthorizedException ''Current password is invalid.'') in
      case findFirst (\<lambda>u. u_id u = userId \<and> u_tenantId u = Some tenantId) (users d) of
        None \<Rightarrow> (invalid, d)
      | Some user \<Rightarrow>
      if \<not> truthy (u_passwordHash user) \<or> \<not> verify_password libs currentPassword (the (u_passwordHash user))
      then (invalid, d)
      else
      case set_password now userId (hash_password libs saltBytes newPassword)
             (\<lambda>r. rf_userId r = userId \<and> rf_tenantId r = tenantId) d of
        (Inl e, d1) \<Rightarrow> (Inl e, d)
      | (Inr _, d1) \<Rightarrow>
          (Inr (), account_audit now USER_UPDATED userId (Some (JObj [(''operation'', JStr ''change_password'')])) tenantId d1))"

section \<open>The profile\<close>

record SessionDto =
  sd_createdAt :: date
  sd_current :: bool
  sd_expiresAt :: date
  sd_id :: string
  sd_lastUsedAt :: "date option"
  sd_userAgent :: "string option"

record ProfileDto =
  pf_email :: string
  pf_id :: string
  pf_linkedProviders :: "(string \<times> OAuthProvider) list"
  pf_mfaEnabled :: bool
  pf_name :: string
  pf_role :: UserRole
  pf_sessions :: "SessionDto list"
  pf_tenant :: TenantRef

definition presentSession :: "string option \<Rightarrow> RefreshToken \<Rightarrow> SessionDto" where
  "presentSession currentHash s =
     \<lparr> sd_createdAt = rf_createdAt s,
       sd_current = (case currentHash of None \<Rightarrow> False | Some h \<Rightarrow> safeEqual (rf_tokenHash s) h),
       sd_expiresAt = rf_expiresAt s, sd_id = rf_id s, sd_lastUsedAt = rf_rotatedAt s, sd_userAgent = rf_userAgent s \<rparr>"

definition getCurrentUser :: "string \<Rightarrow> string \<Rightarrow> db \<Rightarrow> AuthenticatedUser result" where
  "getCurrentUser userId tenantId d =
     (case findActiveUserById userId tenantId d of
        None \<Rightarrow> Inl (UnauthorizedException ''Authentication context is required.'')
      | Some (u, t) \<Rightarrow> Inr (presentUser u t))"

definition active_user :: "string \<Rightarrow> string \<Rightarrow> db \<Rightarrow> User option" where
  "active_user userId tenantId d =
     findFirst (\<lambda>u. u_id u = userId \<and> u_tenantId u = Some tenantId \<and> u_status u = UserStatus.ACTIVE) (users d)"

definition getProfile :: "AuthLibs \<Rightarrow> AuthConfig \<Rightarrow> string \<Rightarrow> string \<Rightarrow> string option \<Rightarrow> db \<Rightarrow> ProfileDto result" where
  "getProfile libs cfg userId tenantId currentRefreshToken d =
     (case active_user userId tenantId d of
        None \<Rightarrow> Inl (UnauthorizedException ''Authentication context is required.'')
      | Some user \<Rightarrow>
     (case tenant_of d (u_tenantId user) of
        None \<Rightarrow> Inl (UnauthorizedException ''Authentication context is required.'')
      | Some t \<Rightarrow>
      let currentHash = (if truthy currentRefreshToken
                         then Some (hashRefreshToken libs cfg (the currentRefreshToken)) else None) in
      Inr \<lparr> pf_email = u_email user, pf_id = u_id user,
            pf_linkedProviders = map (\<lambda>a. (oa_email a, oa_provider a)) (findMany (\<lambda>a. oa_userId a = u_id user) (oauthAccounts d)),
            pf_mfaEnabled = u_mfaEnabled user, pf_name = u_name user, pf_role = u_role user,
            pf_sessions = map (presentSession currentHash)
              (take 20 (orderBy (desc rf_createdAt) (findMany (\<lambda>s. rf_userId s = u_id user) (refreshTokens d)))),
            pf_tenant = \<lparr> tr_id = t_id t, tr_name = t_name t, tr_slug = t_slug t \<rparr> \<rparr>))"

definition updateProfile ::
  "AuthLibs \<Rightarrow> AuthConfig \<Rightarrow> date \<Rightarrow> string \<Rightarrow> string \<Rightarrow> string \<Rightarrow> ProfileDto handler" where
  "updateProfile libs cfg now userId tenantId name d =
     (case set_user userId (\<lambda>u. u\<lparr>u_name := trim name\<rparr>) d of
        (Inl e, d1) \<Rightarrow> (Inl e, d1)
      | (Inr _, d1) \<Rightarrow>
          let d2 = account_audit now USER_UPDATED userId None tenantId d1
          in (getProfile libs cfg userId tenantId None d2, d2))"

section \<open>The second factor\<close>

record MfaSetupDto =
  ms_manualKey :: string
  ms_otpauthUrl :: string
  ms_qrCodeDataUrl :: string

definition beginMfaSetup ::
  "AuthLibs \<Rightarrow> AuthConfig \<Rightarrow> string \<Rightarrow> string \<Rightarrow> string \<Rightarrow> string \<Rightarrow> MfaSetupDto handler" where
  "beginMfaSetup libs cfg secretBytes iv userId tenantId d =
     (case active_user userId tenantId d of
        None \<Rightarrow> (Inl (UnauthorizedException ''Authentication context is required.''), d)
      | Some user \<Rightarrow>
      let secret = generateSecret secretBytes in
      case set_user userId (\<lambda>u. u\<lparr>u_mfaSecret := Some (encrypt libs cfg iv secret), u_mfaEnabled := False\<rparr>) d of
        (Inl e, d1) \<Rightarrow> (Inl e, d1)
      | (Inr _, d1) \<Rightarrow>
          let url = otpauthUrl libs cfg (u_email user) secret
          in (Inr \<lparr> ms_manualKey = secret, ms_otpauthUrl = url, ms_qrCodeDataUrl = qr_code libs url \<rparr>, d1))"

definition recovery_conflict :: "MfaRecoveryCode \<Rightarrow> MfaRecoveryCode \<Rightarrow> bool" where
  "recovery_conflict r x =
     (mr_tenantId r = mr_tenantId x \<and> mr_userId r = mr_userId x \<and> mr_codeHash r = mr_codeHash x)"

fun create_codes ::
  "AuthLibs \<Rightarrow> AuthConfig \<Rightarrow> string \<Rightarrow> string \<Rightarrow> string list \<Rightarrow> unit handler" where
  "create_codes libs cfg tenantId userId [] d = (Inr (), d)"
| "create_codes libs cfg tenantId userId (code # codes) d =
     (case create_row recovery_conflict \<lparr> mr_id = new_id d, mr_tenantId = tenantId, mr_userId = userId,
             mr_codeHash = hashOpaqueToken libs cfg code, mr_usedAt = None \<rparr> (mfaRecoveryCodes d) of
        Inl e \<Rightarrow> (Inl (PrismaKnownError e), d)
      | Inr t \<Rightarrow> create_codes libs cfg tenantId userId codes (bump (d\<lparr>mfaRecoveryCodes := t\<rparr>)))"

definition delete_codes :: "string \<Rightarrow> string \<Rightarrow> db \<Rightarrow> db" where
  "delete_codes userId tenantId d =
     d\<lparr>mfaRecoveryCodes := deleteMany (\<lambda>r. mr_userId r = userId \<and> mr_tenantId r = tenantId) (mfaRecoveryCodes d)\<rparr>"

definition confirmMfa ::
  "AuthLibs \<Rightarrow> AuthConfig \<Rightarrow> date \<Rightarrow> (string \<times> string) list \<Rightarrow> string \<Rightarrow> string \<Rightarrow> string \<Rightarrow> string list handler" where
  "confirmMfa libs cfg now draws userId tenantId code d =
     (case findFirst (\<lambda>u. u_id u = userId \<and> u_tenantId u = Some tenantId) (users d) of
        None \<Rightarrow> (Inl (BadRequestException ''MFA setup was not started.''), d)
      | Some user \<Rightarrow>
      if \<not> truthy (u_mfaSecret user) then (Inl (BadRequestException ''MFA setup was not started.''), d)
      else
      case bindE (decrypt libs cfg (the (u_mfaSecret user))) (\<lambda>secret. verifyCode libs secret code now) of
        Inl e \<Rightarrow> (Inl e, d)
      | Inr verified \<Rightarrow>
      if \<not> verified then (Inl (BadRequestException ''MFA code is invalid.''), d)
      else
      let recoveryCodes = generateRecoveryCodes draws in
      case set_user userId (\<lambda>u. u\<lparr>u_mfaEnabled := True\<rparr>) (delete_codes userId tenantId d) of
        (Inl e, d1) \<Rightarrow> (Inl e, d)
      | (Inr _, d1) \<Rightarrow>
      case create_codes libs cfg tenantId userId recoveryCodes d1 of
        (Inl e, d2) \<Rightarrow> (Inl e, d)
      | (Inr _, d2) \<Rightarrow>
          (Inr recoveryCodes, account_audit now MFA_CHANGED userId (Some (JObj [(''enabled'', JBool True)])) tenantId d2))"

definition disableMfa ::
  "AuthLibs \<Rightarrow> AuthConfig \<Rightarrow> date \<Rightarrow> string \<Rightarrow> string \<Rightarrow> string \<Rightarrow> unit handler" where
  "disableMfa libs cfg now userId tenantId code d =
     (case findFirst (\<lambda>u. u_id u = userId \<and> u_tenantId u = Some tenantId) (users d) of
        None \<Rightarrow> (Inl (BadRequestException ''MFA code is invalid.''), d)
      | Some user \<Rightarrow>
      if \<not> truthy (u_mfaSecret user) then (Inl (BadRequestException ''MFA code is invalid.''), d)
      else
      case bindE (decrypt libs cfg (the (u_mfaSecret user))) (\<lambda>secret. verifyCode libs secret code now) of
        Inl e \<Rightarrow> (Inl e, d)
      | Inr verified \<Rightarrow>
      if \<not> verified then (Inl (BadRequestException ''MFA code is invalid.''), d)
      else
      case set_user userId (\<lambda>u. u\<lparr>u_mfaEnabled := False, u_mfaSecret := None\<rparr>) d of
        (Inl e, d1) \<Rightarrow> (Inl e, d)
      | (Inr _, d1) \<Rightarrow>
          (Inr (), account_audit now MFA_CHANGED userId (Some (JObj [(''enabled'', JBool False)])) tenantId
             (delete_codes userId tenantId d1)))"

section \<open>Onboarding\<close>

record TenantOnboardingDto =
  od_branchDone :: bool
  od_companyDone :: bool
  od_completed :: bool
  od_currentStep :: string
  od_inviteDone :: bool

record UpdateOnboardingDto =
  uo_companyDone :: "bool nullable"
  uo_branchDone :: "bool nullable"
  uo_inviteDone :: "bool nullable"
  uo_completed :: "bool nullable"
  uo_currentStep :: "string nullable"

definition presentOnboarding :: "TenantOnboarding \<Rightarrow> TenantOnboardingDto" where
  "presentOnboarding i =
     \<lparr> od_branchDone = to_branchDone i, od_companyDone = to_companyDone i, od_completed = to_completed i,
       od_currentStep = to_currentStep i, od_inviteDone = to_inviteDone i \<rparr>"

text \<open>\<open>upsert\<close> by tenant, in either table.\<close>

definition upsert_onboarding ::
  "string \<Rightarrow> TenantOnboarding \<Rightarrow> (TenantOnboarding \<Rightarrow> TenantOnboarding) \<Rightarrow> db \<Rightarrow> TenantOnboarding \<times> db" where
  "upsert_onboarding tenantId row f d =
     (case findFirst (\<lambda>ob. to_tenantId ob = tenantId) (tenantOnboarding d) of
        None \<Rightarrow> (row, d\<lparr>tenantOnboarding := tenantOnboarding d @ [row]\<rparr>)
      | Some ob \<Rightarrow> (f ob, d\<lparr>tenantOnboarding := updateMany (\<lambda>ob. to_tenantId ob = tenantId) f (tenantOnboarding d)\<rparr>))"

definition complete_settings :: "string \<Rightarrow> db \<Rightarrow> db" where
  "complete_settings tenantId d =
     (case findFirst (\<lambda>s. ts_tenantId s = tenantId) (tenantSettings d) of
        None \<Rightarrow> d\<lparr>tenantSettings := tenantSettings d @ [\<lparr> ts_tenantId = tenantId, ts_country = ''BR'',
                  ts_currency = ''BRL'', ts_timezone = ''America/Sao_Paulo'', ts_onboardingCompleted = True \<rparr>]\<rparr>
      | Some s \<Rightarrow> d\<lparr>tenantSettings := updateMany (\<lambda>s. ts_tenantId s = tenantId)
                  (\<lambda>s. s\<lparr>ts_onboardingCompleted := True\<rparr>) (tenantSettings d)\<rparr>)"

definition getOnboarding :: "string \<Rightarrow> TenantOnboardingDto handler" where
  "getOnboarding tenantId d =
     (case upsert_onboarding tenantId \<lparr> to_tenantId = tenantId, to_companyDone = False, to_branchDone = False,
             to_inviteDone = False, to_completed = False, to_currentStep = ''company'' \<rparr> (\<lambda>ob. ob) d of
        (ob, d1) \<Rightarrow> (Inr (presentOnboarding ob), d1))"

text \<open>The client rejects a null for a column that has none, before it runs the query.\<close>

definition updateOnboarding :: "date \<Rightarrow> string \<Rightarrow> string \<Rightarrow> UpdateOnboardingDto \<Rightarrow> TenantOnboardingDto handler" where
  "updateOnboarding now tenantId actorId i d =
     (let completed = (nn (uo_completed i) False \<or> (nn (uo_companyDone i) False \<and> nn (uo_branchDone i) False)) in
      if uo_branchDone i = Null \<or> uo_companyDone i = Null \<or> uo_inviteDone i = Null \<or> uo_currentStep i = Null
      then (Inl (InternalError ''PrismaClientValidationError''), d)
      else
      case upsert_onboarding tenantId \<lparr> to_tenantId = tenantId, to_companyDone = nn (uo_companyDone i) False,
             to_branchDone = nn (uo_branchDone i) False, to_inviteDone = nn (uo_inviteDone i) False,
             to_completed = completed,
             to_currentStep = nn (uo_currentStep i) (if completed then ''done'' else ''branch'') \<rparr>
             (\<lambda>ob. ob\<lparr>to_branchDone := nn (uo_branchDone i) (to_branchDone ob),
                to_companyDone := nn (uo_companyDone i) (to_companyDone ob),
                to_inviteDone := nn (uo_inviteDone i) (to_inviteDone ob),
                to_currentStep := nn (uo_currentStep i) (to_currentStep ob),
                to_completed := (if uo_completed i \<noteq> Undefined \<or> completed then completed else to_completed ob)\<rparr>) d of
        (ob, d1) \<Rightarrow>
          (Inr (presentOnboarding ob), record_audit now \<lparr> ai_action = ONBOARDING_UPDATED, ai_actorId = Some actorId,
             ai_entityId = Some tenantId, ai_entityType = Some ''TenantOnboarding'', ai_ipHash = None,
             ai_metadata = None, ai_requestId = None, ai_tenantId = Some tenantId \<rparr>
             (if completed then complete_settings tenantId d1 else d1)))"

end
