(* ===== verification/Users.thy ===== *)
theory Users
  imports OAuth Account
begin

text \<open>
  \<open>users.service.ts\<close>: the administration of the users of a tenant. Every handler but the
  acceptance of an invitation is reached by administrators of the tenant.
\<close>

section \<open>Requests and responses\<close>

record ListUsersDto =
  lu_search :: "string option"
  lu_role :: "UserRole option"
  lu_status :: "UserStatus option"
  lu_page :: nat
  lu_perPage :: nat

record CreateAdminUserDto =
  cu_name :: string
  cu_email :: string
  cu_role :: UserRole
  cu_password :: "string option"
  cu_passwordChangeRequired :: "bool option"

record AcceptInviteDto =
  av_token :: string
  av_name :: string
  av_password :: string
  av_passwordConfirmation :: string

record UpdateAdminUserDto =
  uu_name :: "string nullable"
  uu_role :: "UserRole nullable"
  uu_status :: "UserStatus nullable"

record AdminUserDto =
  ad_createdAt :: date
  ad_email :: string
  ad_id :: string
  ad_invited :: bool
  ad_lastLoginAt :: "date option"
  ad_mfaEnabled :: bool
  ad_name :: string
  ad_providers :: "(string \<times> OAuthProvider) list"
  ad_role :: UserRole
  ad_status :: UserStatus

definition presentAdminUser :: "db \<Rightarrow> User \<Rightarrow> AdminUserDto" where
  "presentAdminUser d u =
     \<lparr> ad_createdAt = u_createdAt u, ad_email = u_email u, ad_id = u_id u, ad_invited = (u_status u = INVITED),
       ad_lastLoginAt = u_lastLoginAt u, ad_mfaEnabled = u_mfaEnabled u, ad_name = u_name u,
       ad_providers = map (\<lambda>a. (oa_email a, oa_provider a)) (findMany (\<lambda>a. oa_userId a = u_id u) (oauthAccounts d)),
       ad_role = u_role u, ad_status = u_status u \<rparr>"

definition users_where :: "string \<Rightarrow> ListUsersDto \<Rightarrow> User \<Rightarrow> bool" where
  "users_where tenantId query u \<longleftrightarrow>
     u_tenantId u = Some tenantId
     \<and> (case lu_status query of Some s \<Rightarrow> u_status u = s | None \<Rightarrow> u_status u \<noteq> UserStatus.DELETED)
     \<and> (case lu_role query of Some r \<Rightarrow> u_role u = r | None \<Rightarrow> True)
     \<and> (truthy (map_option trim (lu_search query)) \<longrightarrow>
          includes_str (u_name u) (trim (the (lu_search query)))
          \<or> includes_str (u_email u) (toLowerCase (trim (the (lu_search query)))))"

definition listUsers :: "string \<Rightarrow> ListUsersDto \<Rightarrow> db \<Rightarrow> AdminUserDto PaginatedResult" where
  "listUsers tenantId query d =
     paginated (lu_page query) (lu_perPage query)
       (orderBy (then_by (desc u_createdAt) (asc u_id)) (findMany (users_where tenantId query) (users d)))
       (presentAdminUser d)"

section \<open>Guards\<close>

text \<open>An administrator of a tenant who may act.\<close>

definition active_admin :: "string \<Rightarrow> User \<Rightarrow> bool" where
  "active_admin tenantId u \<longleftrightarrow> u_tenantId u = Some tenantId \<and> u_role u = ADMIN \<and> u_status u = UserStatus.ACTIVE"

definition assertActorIsAdmin :: "string \<Rightarrow> string \<Rightarrow> db \<Rightarrow> unit result" where
  "assertActorIsAdmin tenantId actorId d =
     (case findFirst (\<lambda>u. u_id u = actorId \<and> active_admin tenantId u) (users d) of
        None \<Rightarrow> Inl (ForbiddenException ''Only administrators can perform this action.'')
      | Some u \<Rightarrow> Inr ())"

definition assertLastAdminSafe :: "string \<Rightarrow> User \<Rightarrow> UpdateAdminUserDto \<Rightarrow> db \<Rightarrow> unit result" where
  "assertLastAdminSafe tenantId current i d =
     (if u_role current \<noteq> ADMIN \<or> u_status current \<noteq> UserStatus.ACTIVE then Inr ()
      else
      let demotesAdmin = (uu_role i \<noteq> Undefined \<and> uu_role i \<noteq> Value ADMIN);
          disablesAdmin = (uu_status i \<noteq> Undefined \<and> uu_status i \<noteq> Value UserStatus.ACTIVE) in
      if \<not> demotesAdmin \<and> \<not> disablesAdmin then Inr ()
      else if count_rows (active_admin tenantId) (users d) \<le> 1
      then Inl (ForbiddenException ''The last active administrator cannot be removed.'')
      else Inr ())"

definition assertTargetUserExists :: "string \<Rightarrow> string \<Rightarrow> db \<Rightarrow> unit result" where
  "assertTargetUserExists tenantId targetUserId d =
     (case findFirst (\<lambda>u. u_id u = targetUserId \<and> u_tenantId u = Some tenantId \<and> u_status u \<noteq> UserStatus.DELETED) (users d) of
        None \<Rightarrow> Inl (NotFoundException ''User was not found.'')
      | Some u \<Rightarrow> Inr ())"

definition find_target :: "string \<Rightarrow> string \<Rightarrow> db \<Rightarrow> User result" where
  "find_target tenantId targetUserId d =
     (case findFirst (\<lambda>u. u_id u = targetUserId \<and> u_tenantId u = Some tenantId) (users d) of
        None \<Rightarrow> Inl (NotFoundException ''User was not found.'')
      | Some u \<Rightarrow> Inr u)"

section \<open>Creation and invitation\<close>

definition user_audit :: "date \<Rightarrow> AuditAction \<Rightarrow> string \<Rightarrow> string \<Rightarrow> json \<Rightarrow> string \<Rightarrow> db \<Rightarrow> db" where
  "user_audit now action actorId entityId metadata tenantId =
     record_audit now (audit_of action actorId entityId ''User'' metadata tenantId)"

definition createUser ::
  "AuthLibs \<Rightarrow> date \<Rightarrow> string \<Rightarrow> string \<Rightarrow> string \<Rightarrow> CreateAdminUserDto \<Rightarrow> AdminUserDto handler" where
  "createUser libs now saltBytes tenantId actorId i d =
     (case (if cu_role i = ADMIN then assertActorIsAdmin tenantId actorId d else Inr ()) of
        Inl e \<Rightarrow> (Inl e, d)
      | Inr _ \<Rightarrow>
      let passwordHash = (if truthy (cu_password i) then Some (hash_password libs saltBytes (the (cu_password i))) else None);
          user = (new_user now (new_id d) (Some tenantId) (normalizeEmail (cu_email i)) (trim (cu_name i)) passwordHash
                    (cu_role i) (if passwordHash \<noteq> None then UserStatus.ACTIVE else INVITED))
                 \<lparr>u_passwordChangeRequired := coalesce (cu_passwordChangeRequired i) (truthy (cu_password i))\<rparr> in
      case create_user user d of
        (Inl e, d1) \<Rightarrow>
          (Inl (if e = PrismaKnownError P2002 then ConflictException ''User e-mail already exists in this tenant.'' else e), d1)
      | (Inr _, d1) \<Rightarrow>
          let d2 = user_audit now USER_CREATED actorId (u_id user)
                (JObj [(''role'', JStr (role_name (u_role user))), (''directCreate'', JBool True)]) tenantId d1
          in (Inr (presentAdminUser d2 user), d2))"

definition invitation_conflict :: "UserInvitation \<Rightarrow> UserInvitation \<Rightarrow> bool" where
  "invitation_conflict r x =
     (ui_tokenHash r = ui_tokenHash x
      \<or> (ui_tenantId r = ui_tenantId x \<and> ui_email r = ui_email x \<and> ui_status r = ui_status x))"

definition inviteUser ::
  "AuthLibs \<Rightarrow> AuthConfig \<Rightarrow> date \<Rightarrow> string \<Rightarrow> string \<Rightarrow> string \<Rightarrow> string \<Rightarrow> UserRole \<Rightarrow> (string \<times> string option) handler" where
  "inviteUser libs cfg now token tenantId actorId dtoEmail role d =
     (let email = normalizeEmail dtoEmail in
      if findFirst (\<lambda>u. u_tenantId u = Some tenantId \<and> u_email u = email \<and> u_status u \<noteq> UserStatus.DELETED) (users d) \<noteq> None
      then (Inl (ConflictException ''User e-mail already exists in this tenant.''), d)
      else
      case (case findFirst (\<lambda>i. ui_tenantId i = tenantId \<and> ui_email i = email \<and> ui_status i = UserInvitationStatus.PENDING)
                   (userInvitations d) of
              None \<Rightarrow>
                (case create_row invitation_conflict \<lparr> ui_id = new_id d, ui_tenantId = tenantId, ui_email = email,
                        ui_role = role, ui_tokenHash = hashOpaqueToken libs cfg token, ui_status = UserInvitationStatus.PENDING,
                        ui_invitedById = actorId, ui_acceptedById = None, ui_expiresAt = expiresIn now (7 * 24 * 3600),
                        ui_acceptedAt = None, ui_revokedAt = None \<rparr> (userInvitations d) of
                   Inl e \<Rightarrow> (Inl (PrismaKnownError e), d)
                 | Inr t \<Rightarrow> (Inr (new_id d), bump (d\<lparr>userInvitations := t\<rparr>)))
            | Some i \<Rightarrow>
                (case update_row ui_id invitation_conflict (ui_id i)
                        (\<lambda>i. i\<lparr>ui_expiresAt := expiresIn now (7 * 24 * 3600), ui_invitedById := actorId, ui_role := role,
                               ui_tokenHash := hashOpaqueToken libs cfg token\<rparr>) (userInvitations d) of
                   Inl e \<Rightarrow> (Inl (PrismaKnownError e), d)
                 | Inr (r, t) \<Rightarrow> (Inr (ui_id i), d\<lparr>userInvitations := t\<rparr>))) of
        (Inl e, d1) \<Rightarrow> (Inl e, d1)
      | (Inr invitationId, d1) \<Rightarrow>
          (Inr (invitationId, dev_url cfg (webPublicUrl cfg @ ''/accept-invite?token='' @ uri_component libs token)),
           record_audit now (audit_of USER_INVITED actorId invitationId ''UserInvitation''
             (JObj [(''email'', JStr email), (''role'', JStr (role_name role))]) tenantId) d1))"

text \<open>The session of an accepted invitation.\<close>

definition issue_invited_session ::
  "AuthLibs \<Rightarrow> AuthConfig \<Rightarrow> date \<Rightarrow> NewRefreshToken \<Rightarrow> User \<Rightarrow> Tenant \<Rightarrow> AuthRequestMetadata \<Rightarrow> AuthResult handler" where
  "issue_invited_session libs cfg now fresh user t m d =
     (let authUser = presentUser user t in
      case createAccessToken libs cfg now authUser of
        Inl e \<Rightarrow> (Inl e, d)
      | Inr (accessTokenExpiresAt, accessToken) \<Rightarrow>
      case refreshTokenTtlSeconds cfg of
        Inl e \<Rightarrow> (Inl e, d)
      | Inr ttl \<Rightarrow>
      case createRefreshToken ((session_row libs cfg now ttl (new_id d) (nr_familyId fresh) authUser m (nr_token fresh))
             \<lparr>rf_ipHash := None\<rparr>) d of
        (Inl e, d1) \<Rightarrow> (Inl e, d1)
      | (Inr _, d1) \<Rightarrow>
          (Inr \<lparr> ar_accessToken = accessToken, ar_accessTokenExpiresAt = accessTokenExpiresAt, ar_user = authUser,
                 ar_refreshToken = nr_token fresh \<rparr>, d1))"

definition acceptInvite ::
  "AuthLibs \<Rightarrow> AuthConfig \<Rightarrow> date \<Rightarrow> NewRefreshToken \<Rightarrow> string \<Rightarrow> AcceptInviteDto \<Rightarrow> AuthRequestMetadata \<Rightarrow> AuthResult handler" where
  "acceptInvite libs cfg now fresh saltBytes i m d =
     (case assertStrongPassword (av_password i) (av_passwordConfirmation i) of
        Inl e \<Rightarrow> (Inl e, d)
      | Inr _ \<Rightarrow>
      case findFirst (\<lambda>v. now < ui_expiresAt v \<and> ui_status v = UserInvitationStatus.PENDING
             \<and> ui_tokenHash v = hashOpaqueToken libs cfg (av_token i)) (userInvitations d) of
        None \<Rightarrow> (Inl (BadRequestException ''Invitation is invalid or expired.''), d)
      | Some invitation \<Rightarrow>
      let user = new_user now (new_id d) (Some (ui_tenantId invitation)) (ui_email invitation) (trim (av_name i))
                   (Some (hash_password libs saltBytes (av_password i))) (ui_role invitation) UserStatus.ACTIVE in
      case create_user user d of
        (Inl e, d1) \<Rightarrow> (Inl e, d)
      | (Inr _, d1) \<Rightarrow>
      case update_row ui_id invitation_conflict (ui_id invitation)
             (\<lambda>v. v\<lparr>ui_acceptedAt := Some now, ui_acceptedById := Some (u_id user), ui_status := ACCEPTED\<rparr>)
             (userInvitations d1) of
        Inl e \<Rightarrow> (Inl (PrismaKnownError e), d)
      | Inr (r, t) \<Rightarrow>
      let d2 = log_row now USER_CREATED (u_id user) (u_id user) ''User'' (JObj [(''invited'', JBool True)]) (am_requestId m)
                 (ui_tenantId invitation) (d1\<lparr>userInvitations := t\<rparr>) in
      case tenant_of d2 (u_tenantId user) of
        None \<Rightarrow> (Inl (BadRequestException ''Invitation tenant is invalid.''), d2)
      | Some tn \<Rightarrow> issue_invited_session libs cfg now fresh user tn m d2)"

section \<open>Changes\<close>

definition user_change :: "date \<Rightarrow> UpdateAdminUserDto \<Rightarrow> User \<Rightarrow> User" where
  "user_change now i u =
     u\<lparr>u_name := (case uu_name i of Value n \<Rightarrow> trim n | _ \<Rightarrow> u_name u),
       u_role := nn (uu_role i) (u_role u),
       u_deletedAt := (case uu_status i of Value s \<Rightarrow> if s = UserStatus.DELETED then Some now else None | _ \<Rightarrow> u_deletedAt u),
       u_status := nn (uu_status i) (u_status u)\<rparr>"

fun status_name :: "UserStatus \<Rightarrow> string" where
  "status_name INCOMPLETE = ''INCOMPLETE''"
| "status_name UserStatus.PENDING = ''PENDING''"
| "status_name UserStatus.ACTIVE = ''ACTIVE''"
| "status_name BLOCKED = ''BLOCKED''"
| "status_name INVITED = ''INVITED''"
| "status_name DISABLED = ''DISABLED''"
| "status_name UserStatus.DELETED = ''DELETED''"

definition role_status_json :: "User \<Rightarrow> json" where
  "role_status_json u = JObj [(''role'', JStr (role_name (u_role u))), (''status'', JStr (status_name (u_status u)))]"

text \<open>A null name has no \<open>trim\<close>; a null role or status is rejected by the client.\<close>

definition updateUser ::
  "date \<Rightarrow> string \<Rightarrow> string \<Rightarrow> string \<Rightarrow> UpdateAdminUserDto \<Rightarrow> AdminUserDto handler" where
  "updateUser now tenantId actorId targetUserId i d =
     (case find_target tenantId targetUserId d of
        Inl e \<Rightarrow> (Inl e, d)
      | Inr current \<Rightarrow>
      case (if uu_role i = Value ADMIN then assertActorIsAdmin tenantId actorId d else Inr ()) of
        Inl e \<Rightarrow> (Inl e, d)
      | Inr _ \<Rightarrow>
      let role_changes = (case uu_role i of Value r \<Rightarrow> r \<noteq> u_role current | _ \<Rightarrow> False);
          status_changes = (case uu_status i of Value s \<Rightarrow> s \<noteq> u_status current | _ \<Rightarrow> False) in
      case (if role_changes \<or> status_changes then assertLastAdminSafe tenantId current i d else Inr ()) of
        Inl e \<Rightarrow> (Inl e, d)
      | Inr _ \<Rightarrow>
      if uu_name i = Null then (Inl (InternalError ''TypeError''), d)
      else if uu_role i = Null \<or> uu_status i = Null then (Inl (InternalError ''PrismaClientValidationError''), d)
      else
      case set_user targetUserId (user_change now i) d of
        (Inl e, d1) \<Rightarrow> (Inl e, d1)
      | (Inr user, d1) \<Rightarrow>
      let d2 = (case uu_status i of
                  Value s \<Rightarrow> if s \<noteq> UserStatus.ACTIVE
                    then revoke_live now (\<lambda>r. rf_tenantId r = tenantId \<and> rf_userId r = targetUserId) d1 else d1
                | _ \<Rightarrow> d1);
          d3 = user_audit now (if role_changes then ROLE_CHANGED else USER_UPDATED) actorId targetUserId
                 (JObj [(''after'', role_status_json user), (''before'', role_status_json current)]) tenantId d2
      in (Inr (presentAdminUser d3 user), d3))"

definition approveUser :: "date \<Rightarrow> string \<Rightarrow> string \<Rightarrow> string \<Rightarrow> UserRole \<Rightarrow> AdminUserDto handler" where
  "approveUser now tenantId actorId targetUserId role d =
     (case find_target tenantId targetUserId d of
        Inl e \<Rightarrow> (Inl e, d)
      | Inr current \<Rightarrow>
      if u_status current \<noteq> UserStatus.PENDING \<and> u_status current \<noteq> INVITED
      then (Inl (BadRequestException ''Only pending or invited users can be approved.''), d)
      else
      case set_user targetUserId (\<lambda>u. u\<lparr>u_role := role, u_status := UserStatus.ACTIVE\<rparr>) d of
        (Inl e, d1) \<Rightarrow> (Inl e, d1)
      | (Inr user, d1) \<Rightarrow>
      let d2 = user_audit now USER_UPDATED actorId targetUserId
                 (JObj [(''operation'', JStr ''approve''), (''role'', JStr (role_name role))]) tenantId d1
      in (Inr (presentAdminUser d2 user), d2))"

definition revokeSessions :: "date \<Rightarrow> string \<Rightarrow> string \<Rightarrow> string \<Rightarrow> unit handler" where
  "revokeSessions now tenantId actorId targetUserId d =
     (case assertTargetUserExists tenantId targetUserId d of
        Inl e \<Rightarrow> (Inl e, d)
      | Inr _ \<Rightarrow>
          (Inr (), record_audit now \<lparr> ai_action = SESSION_REVOKED, ai_actorId = Some actorId,
             ai_entityId = Some targetUserId, ai_entityType = Some ''User'', ai_ipHash = None, ai_metadata = None,
             ai_requestId = None, ai_tenantId = Some tenantId \<rparr>
             (revoke_live now (\<lambda>r. rf_tenantId r = tenantId \<and> rf_userId r = targetUserId) d)))"

definition resetMfa :: "date \<Rightarrow> string \<Rightarrow> string \<Rightarrow> string \<Rightarrow> unit handler" where
  "resetMfa now tenantId actorId targetUserId d =
     (case assertTargetUserExists tenantId targetUserId d of
        Inl e \<Rightarrow> (Inl e, d)
      | Inr _ \<Rightarrow>
      case set_user targetUserId (\<lambda>u. u\<lparr>u_mfaEnabled := False, u_mfaSecret := None\<rparr>) d of
        (Inl e, d1) \<Rightarrow> (Inl e, d)
      | (Inr _, d1) \<Rightarrow>
      let d2 = delete_codes targetUserId tenantId d1;
          d3 = d2\<lparr>mfaChallenges := updateMany (\<lambda>c. mc_tenantId c = tenantId \<and> mc_userId c = targetUserId \<and> mc_usedAt c = None)
                 (\<lambda>c. c\<lparr>mc_usedAt := Some now\<rparr>) (mfaChallenges d2)\<rparr>
      in (Inr (), user_audit now MFA_CHANGED actorId targetUserId (JObj [(''resetByAdmin'', JBool True)]) tenantId d3))"

end
