(* ===== verification/AuthSteps.thy ===== *)
theory AuthSteps
  imports Users
begin

text \<open>
  The operations of authentication and of user administration as steps of one state machine, and
  what holds in all its reachable states: every family of refresh tokens has at most one live
  token. The administration of users never leaves a tenant without an active administrator.
\<close>

section \<open>What the operations leave alone\<close>

definition quiet :: "db \<Rightarrow> db \<Rightarrow> bool" where
  "quiet d d' \<longleftrightarrow> refreshTokens d' = refreshTokens d \<and> next_id d \<le> next_id d'"

lemma quiet_refl [simp]: "quiet d d"
  by (simp add: quiet_def)

lemma quiet_ok: "quiet d d' \<Longrightarrow> sessions_ok d \<Longrightarrow> sessions_ok d'"
  by (rule sessions_ok_cong) (simp_all add: quiet_def)

named_theorems quiet_dests \<open>the writes that leave the refresh tokens alone\<close>

lemma set_user_quiet [quiet_dests]: "set_user i f d = (r, d') \<Longrightarrow> refreshTokens d' = refreshTokens d \<and> next_id d' = next_id d"
  using set_user_frame [of d i f] by (simp add: ensures_def)

lemma creates_quiet [quiet_dests]:
  "create_user u d = (r1, d') \<Longrightarrow> refreshTokens d' = refreshTokens d \<and> next_id d \<le> next_id d'"
  "create_state s d = (r2, d') \<Longrightarrow> refreshTokens d' = refreshTokens d \<and> next_id d \<le> next_id d'"
  "create_challenge c d = (r3, d') \<Longrightarrow> refreshTokens d' = refreshTokens d \<and> next_id d \<le> next_id d'"
  "create_account a d = (r4, d') \<Longrightarrow> refreshTokens d' = refreshTokens d \<and> next_id d \<le> next_id d'"
  by (auto simp: create_user_def create_state_def create_challenge_def create_account_def split: sum.splits)

lemma updates_quiet [quiet_dests]:
  "update_state i g d = (r1, d') \<Longrightarrow> refreshTokens d' = refreshTokens d \<and> next_id d' = next_id d"
  "use_challenge now i d = (r2, d') \<Longrightarrow> refreshTokens d' = refreshTokens d \<and> next_id d' = next_id d"
  by (auto simp: update_state_def use_challenge_def split: sum.splits prod.splits)

lemma codes_quiet [quiet_dests]:
  "create_codes libs cfg tn u codes d = (r, d') \<Longrightarrow> refreshTokens d' = refreshTokens d \<and> next_id d \<le> next_id d'"
  by (induction libs cfg tn u codes d rule: create_codes.induct) (fastforce split: sum.splits)+

lemma completion_quiet [quiet_dests]:
  "createCompletionToken libs cfg now token u provider m d = (r, d') \<Longrightarrow>
    refreshTokens d' = refreshTokens d \<and> next_id d \<le> next_id d'"
  by (auto simp: createCompletionToken_def split: prod.splits sum.splits dest!: creates_quiet)

lemma quiet_audits [simp]:
  "refreshTokens (log_row now action actorId entityId entityType metadata requestId tenantId d) = refreshTokens d"
  "next_id (log_row now action actorId entityId entityType metadata requestId tenantId d) = Suc (next_id d)"
  "refreshTokens (delete_codes u tn d) = refreshTokens d"
  "next_id (delete_codes u tn d) = next_id d"
  by (simp_all add: log_row_def delete_codes_def)

lemmas auth_audits = recordAuthFailure_def login_audit_def provider_audit_def account_audit_def user_audit_def
  reset_requested_def

lemma company_quiet: "ensures (\<lambda>r. quiet d) (create_company now email h slug dto m d)"
  unfolding create_company_def Let_def
  by (intro ensures_intros) (auto simp: quiet_def dest!: quiet_dests)

lemma block_quiet: "ensures (\<lambda>r. quiet d) (blockNonActiveLogin libs cfg now token user provider m d)"
  unfolding blockNonActiveLogin_def
  by (intro ensures_intros) (auto simp: quiet_def dest!: quiet_dests)

lemma recovery_quiet: "ensures (\<lambda>r. quiet d) (verifyMfaOrRecovery libs cfg now tn u secret code d)"
  unfolding verifyMfaOrRecovery_def Let_def
  by (intro ensures_intros) (auto simp: quiet_def)

lemma link_quiet: "ensures (\<lambda>r. quiet d) (linkProvider now u tn identity d)"
  unfolding linkProvider_def
  by (intro ensures_intros) (auto simp: quiet_def auth_audits dest!: quiet_dests split: option.splits sum.splits prod.splits)

lemma incomplete_quiet: "ensures (\<lambda>r. quiet d) (createIncompleteOAuthUser libs cfg now token identity m d)"
  unfolding createIncompleteOAuthUser_def Let_def
  by (intro ensures_intros) (auto simp: quiet_def dest!: quiet_dests)

text \<open>The handlers that touch no refresh token.\<close>

lemma quiet_handlers:
  "ensures (\<lambda>r. quiet d) (startOAuth libs cfg now state provider mode tn u d)"
  "ensures (\<lambda>r. quiet d) (completeOAuthRegistration libs cfg now token slug d)"
  "ensures (\<lambda>r. quiet d) (unlinkProvider now i tenantId provider d)"
  "ensures (\<lambda>r. quiet d) (forgotPassword libs cfg now token email m d)"
  "ensures (\<lambda>r. quiet d) (updateProfile libs cfg now i tenantId name d)"
  "ensures (\<lambda>r. quiet d) (beginMfaSetup libs cfg bytes iv i tenantId d)"
  "ensures (\<lambda>r. quiet d) (confirmMfa libs cfg now draws i tenantId code d)"
  "ensures (\<lambda>r. quiet d) (disableMfa libs cfg now i tenantId code d)"
  "ensures (\<lambda>r. quiet d) (getOnboarding tenantId d)"
  "ensures (\<lambda>r. quiet d) (updateOnboarding now tenantId i uo d)"
  subgoal unfolding startOAuth_def by (intro ensures_intros) (auto simp: quiet_def dest!: quiet_dests)
  subgoal unfolding completeOAuthRegistration_def Let_def by (intro ensures_intros) (auto simp: quiet_def dest!: quiet_dests)
  subgoal unfolding unlinkProvider_def by (intro ensures_intros) (auto simp: quiet_def auth_audits)
  subgoal unfolding forgotPassword_def Let_def by (intro ensures_intros) (auto simp: quiet_def auth_audits)
  subgoal unfolding updateProfile_def Let_def by (intro ensures_intros) (auto simp: quiet_def auth_audits dest!: quiet_dests)
  subgoal unfolding beginMfaSetup_def Let_def by (intro ensures_intros) (auto simp: quiet_def dest!: quiet_dests)
  subgoal unfolding confirmMfa_def Let_def by (intro ensures_intros) (auto simp: quiet_def auth_audits dest!: quiet_dests)
  subgoal unfolding disableMfa_def Let_def by (intro ensures_intros) (auto simp: quiet_def auth_audits dest!: quiet_dests)
  subgoal unfolding getOnboarding_def upsert_onboarding_def
    by (intro ensures_intros) (auto simp: quiet_def split: option.splits)
  subgoal unfolding updateOnboarding_def upsert_onboarding_def complete_settings_def Let_def
    by (intro ensures_intros) (auto simp: quiet_def split: option.splits)
  done

lemma quiet_user_handlers:
  "ensures (\<lambda>r. quiet d) (createUser libs now salt tn actor cu d)"
  "ensures (\<lambda>r. quiet d) (inviteUser libs cfg now token tn actor email role d)"
  "ensures (\<lambda>r. quiet d) (approveUser now tn actor i role d)"
  "ensures (\<lambda>r. quiet d) (resetMfa now tn actor i d)"
  subgoal unfolding createUser_def Let_def by (intro ensures_intros) (auto simp: quiet_def auth_audits dest!: quiet_dests)
  subgoal unfolding inviteUser_def Let_def
    by (intro ensures_intros) (auto simp: quiet_def split: option.splits sum.splits prod.splits)
  subgoal unfolding approveUser_def Let_def by (intro ensures_intros) (auto simp: quiet_def auth_audits dest!: quiet_dests)
  subgoal unfolding resetMfa_def Let_def by (intro ensures_intros) (auto simp: quiet_def auth_audits dest!: quiet_dests)
  done

section \<open>The handlers that do\<close>

text \<open>A new session after quiet writes.\<close>

lemma issue_after_quiet:
  assumes "sessions_ok d" "fresh_family fresh d" "quiet d d1"
  shows "ensures (\<lambda>r. sessions_ok) (issueSession libs cfg now fresh user m res None d1)"
  using assms by (intro issueSession_ok) (auto simp: may_issue_def fresh_family_def quiet_def intro: sessions_ok_cong)

lemma ensures_quiet_ok: "sessions_ok d \<Longrightarrow> ensures (\<lambda>r. quiet d) p \<Longrightarrow> ensures (\<lambda>r. sessions_ok) p"
  by (erule ensures_mono) (rule quiet_ok)

lemma issued_ok:
  "sessions_ok d \<Longrightarrow> fresh_family fresh d \<Longrightarrow> issueSession libs cfg now fresh user m res None d1 = (r, d2) \<Longrightarrow> quiet d d1
   \<Longrightarrow> sessions_ok d2"
  using issue_after_quiet ensuresD by metis

lemma quiet_trans: "quiet d d1 \<Longrightarrow> quiet d1 d2 \<Longrightarrow> quiet d d2"
  by (simp add: quiet_def)

lemma registerTenant_ok:
  assumes "sessions_ok d" "fresh_family fresh d"
  shows "ensures (\<lambda>r. sessions_ok) (registerTenant libs cfg now fresh salt hexes dto m d)"
  unfolding registerTenant_def Let_def
  by (intro ensures_sum ensures_if ensures_pair ensures_case_result [OF company_quiet])
    (auto intro: assms issue_after_quiet quiet_ok)

lemma block_quietD: "blockNonActiveLogin libs cfg now token user provider m d = (r, d') \<Longrightarrow> quiet d d'"
  by (rule ensuresD [OF block_quiet])

lemma admit_ok:
  assumes "sessions_ok d" "fresh_family fresh d"
  shows "ensures (\<lambda>r. sessions_ok) (admit libs cfg now fresh ct kt user m d)"
proof -
  have challenge: "sessions_ok d2" if "create_challenge c d1 = (r, d2)" "quiet d d1" for c d1 r d2
    using creates_quiet(3) [OF that(1)] that(2) assms(1) by (auto simp: quiet_def intro: sessions_ok_cong)
  show ?thesis
    unfolding admit_def
    by (intro ensures_intros)
      (auto simp: auth_audits dest!: block_quietD dest: challenge issued_ok [OF assms] quiet_ok [OF _ assms(1)])
qed

lemma login_ok:
  assumes "sessions_ok (fst s)" "fresh_family fresh (fst s)"
  shows "ensures (\<lambda>r s'. sessions_ok (fst s')) (login libs cfg now redis fresh ct kt dto m s)"
  unfolding login_def Let_def
  using ensuresD [OF admit_ok [OF assms]]
  by (intro ensures_intros) (auto simp: auth_audits assms(1))

lemma verifyMfaLogin_ok:
  assumes "sessions_ok d" "fresh_family fresh d"
  shows "ensures (\<lambda>r. sessions_ok) (verifyMfaLogin libs cfg now fresh ct code m d)"
proof -
  have recovery: "quiet d d1" if "verifyMfaOrRecovery libs cfg now tn u secret code d = (r, d1)" for tn u secret r d1
    by (rule ensuresD [OF recovery_quiet that])
  have used: "quiet d d2" if "use_challenge now i d1 = (r, d2)" "quiet d d1" for i d1 r d2
    using updates_quiet(2) [OF that(1)] that(2) by (simp add: quiet_def)
  have ok: "sessions_ok d1" if "quiet d d1" for d1
    using quiet_ok [OF that assms(1)] .
  show ?thesis
    unfolding verifyMfaLogin_def
    by (intro ensures_intros issue_after_quiet [OF assms])
      (auto simp: auth_audits assms(1) dest!: recovery dest: used intro: ok sessions_ok_audit)
qed

lemma ensures_response:
  "(\<And>r. x = AuthResponse r \<Longrightarrow> ensures Q (f r)) \<Longrightarrow> (\<And>a b c. x = MfaRequiredResponse a b c \<Longrightarrow> ensures Q (g a b c))
   \<Longrightarrow> (\<And>m. x = PendingApprovalResponse m \<Longrightarrow> ensures Q (h m))
   \<Longrightarrow> (\<And>t. x = IncompleteRegistrationResponse t \<Longrightarrow> ensures Q (k t))
   \<Longrightarrow> ensures Q (case x of AuthResponse r \<Rightarrow> f r | MfaRequiredResponse a b c \<Rightarrow> g a b c
        | PendingApprovalResponse m \<Rightarrow> h m | IncompleteRegistrationResponse t \<Rightarrow> k t)"
  by (cases x) simp_all

lemma handleOAuthCallback_ok:
  assumes "sessions_ok d" "fresh_family fresh d"
  shows "ensures (\<lambda>r. sessions_ok) (handleOAuthCallback libs cfg now fresh kt provider exchanged state m d)"
proof -
  have state: "quiet d d1" if "update_state i f d = (r, d1)" for i f r d1
    using updates_quiet(1) [OF that] by (simp add: quiet_def)
  have link: "quiet d d2" if "linkProvider now u tn identity d1 = (r, d2)" "quiet d d1" for u tn identity d1 r d2
    using quiet_trans [OF that(2) ensuresD [OF link_quiet that(1)]] .
  have block: "quiet d d2" if "blockNonActiveLogin libs cfg now kt u p m d1 = (r, d2)" "quiet d d1" for u p d1 r d2
    using quiet_trans [OF that(2) block_quietD [OF that(1)]] .
  have incomplete: "quiet d d2" if "createIncompleteOAuthUser libs cfg now kt identity m d1 = (r, d2)" "quiet d d1" for identity d1 r d2
    using quiet_trans [OF that(2) ensuresD [OF incomplete_quiet that(1)]] .
  have ok: "sessions_ok d1" if "quiet d d1" for d1
    using quiet_ok [OF that assms(1)] .
  note issued = issued_ok [OF assms]
  show ?thesis
    unfolding handleOAuthCallback_def
    by (intro ensures_intros ensures_response)
      (auto simp: assms(1) dest!: state intro: ok issued dest: link incomplete block)
qed

lemma set_user_okD: "set_user i f d = (r, d') \<Longrightarrow> sessions_ok d \<Longrightarrow> sessions_ok d'"
  using set_user_quiet sessions_ok_cong by (metis order_refl)

lemma set_password_ok: "sessions_ok d \<Longrightarrow> ensures (\<lambda>r. sessions_ok) (set_password now u h p d)"
  unfolding set_password_def by (intro ensures_intros) (auto dest: set_user_okD)

lemma sessions_ok_tokens: "sessions_ok (d\<lparr>passwordResetTokens := t\<rparr>) = sessions_ok d"
  by (simp add: sessions_ok_def old_id_def)

lemma resetPassword_ok: "sessions_ok d \<Longrightarrow> ensures (\<lambda>r. sessions_ok) (resetPassword libs cfg now salt token pw pw' m d)"
  unfolding resetPassword_def Let_def
  by (intro ensures_intros)
    (auto simp: sessions_ok_tokens intro!: sessions_ok_audit dest: ensuresD [OF set_password_ok])

lemma changePassword_ok: "sessions_ok d \<Longrightarrow> ensures (\<lambda>r. sessions_ok) (changePassword libs now salt u tn old pw pw' d)"
  unfolding changePassword_def Let_def
  by (intro ensures_intros) (auto simp: auth_audits intro!: sessions_ok_audit dest: ensuresD [OF set_password_ok])

lemma revokeSessions_ok: "sessions_ok d \<Longrightarrow> ensures (\<lambda>r. sessions_ok) (revokeSessions now tn actor i d)"
  unfolding revokeSessions_def by (intro ensures_intros) auto

lemma updateUser_ok: "sessions_ok d \<Longrightarrow> ensures (\<lambda>r. sessions_ok) (updateUser now tn actor i uu d)"
  unfolding updateUser_def Let_def
  by (intro ensures_intros)
    (auto simp: auth_audits intro!: sessions_ok_audit split: nullable.splits dest: set_user_okD)

lemma acceptInvite_ok:
  assumes "sessions_ok d" "fresh_family fresh d"
  shows "ensures (\<lambda>r. sessions_ok) (acceptInvite libs cfg now fresh salt i m d)"
proof -
  have issue: "ensures (\<lambda>r. sessions_ok) (issue_invited_session libs cfg now fresh u t m d1)" if "quiet d d1" for u t d1
  proof -
    have ok: "sessions_ok d1" "\<forall>r \<in> set (refreshTokens d1). rf_familyId r \<noteq> nr_familyId fresh"
      using that assms by (auto simp: quiet_def fresh_family_def intro: sessions_ok_cong)
    have create: "sessions_ok d2" if "createRefreshToken (session_row libs cfg now ttl (new_id d1) (nr_familyId fresh) au m tok\<lparr>rf_ipHash := None\<rparr>) d1
        = (r, d2)" for ttl au tok r d2
      using ensuresD [OF createRefreshToken_ok [OF ok(1)] that] ok(2) by (simp add: session_row_def)
    show ?thesis
      unfolding issue_invited_session_def Let_def
      by (intro ensures_intros) (auto simp: ok(1) dest: create)
  qed
  have ok: "sessions_ok d1" if "quiet d d1" for d1
    using quiet_ok [OF that assms(1)] .
  have log: "quiet d (log_row now a b c e f g h (d1\<lparr>userInvitations := t\<rparr>))" if "create_user u d = (r, d1)" for a b c e f g h t u r d1
    using creates_quiet(1) [OF that] by (simp add: quiet_def)
  show ?thesis
    unfolding acceptInvite_def Let_def
    by (intro ensures_intros issue) (auto simp: assms(1) intro: ok log)
qed

section \<open>The state machine\<close>

inductive auth_step :: "AuthLibs \<Rightarrow> AuthConfig \<Rightarrow> db \<Rightarrow> db \<Rightarrow> bool" for libs cfg where
  register: "fresh_family fresh d \<Longrightarrow> auth_step libs cfg d (snd (registerTenant libs cfg now fresh salt hexes rg m d))"
| login: "fresh_family fresh d \<Longrightarrow> auth_step libs cfg d (fst (snd (login libs cfg now redis fresh ct kt lg m (d, l))))"
| verify_mfa: "fresh_family fresh d \<Longrightarrow> auth_step libs cfg d (snd (verifyMfaLogin libs cfg now fresh ct code m d))"
| callback: "fresh_family fresh d \<Longrightarrow>
    auth_step libs cfg d (snd (handleOAuthCallback libs cfg now fresh kt provider exchanged state m d))"
| refresh: "auth_step libs cfg d (snd (refresh libs cfg now fresh token m d))"
| logout: "auth_step libs cfg d (snd (logout libs cfg now token m d))"
| revoke_session: "auth_step libs cfg d (snd (revokeSession now i tn session d))"
| revoke_others: "auth_step libs cfg d (snd (revokeOtherSessions libs cfg now i tn token d))"
| forgot: "auth_step libs cfg d (snd (forgotPassword libs cfg now tok email m d))"
| reset: "auth_step libs cfg d (snd (resetPassword libs cfg now salt tok pw pw' m d))"
| change: "auth_step libs cfg d (snd (changePassword libs now salt i tn old pw pw' d))"
| profile: "auth_step libs cfg d (snd (updateProfile libs cfg now i tn name d))"
| mfa_setup: "auth_step libs cfg d (snd (beginMfaSetup libs cfg bytes iv i tn d))"
| mfa_confirm: "auth_step libs cfg d (snd (confirmMfa libs cfg now draws i tn code d))"
| mfa_disable: "auth_step libs cfg d (snd (disableMfa libs cfg now i tn code d))"
| onboarding: "auth_step libs cfg d (snd (getOnboarding tn d))"
| onboard: "auth_step libs cfg d (snd (updateOnboarding now tn i uo d))"
| oauth_start: "auth_step libs cfg d (snd (startOAuth libs cfg now tok provider mode t u d))"
| oauth_complete: "auth_step libs cfg d (snd (completeOAuthRegistration libs cfg now tok slug d))"
| oauth_unlink: "auth_step libs cfg d (snd (unlinkProvider now i tn provider d))"
| user_create: "auth_step libs cfg d (snd (createUser libs now salt tn actor cu d))"
| user_invite: "auth_step libs cfg d (snd (inviteUser libs cfg now tok tn actor email role d))"
| user_accept: "fresh_family fresh d \<Longrightarrow> auth_step libs cfg d (snd (acceptInvite libs cfg now fresh salt av m d))"
| user_update: "auth_step libs cfg d (snd (updateUser now tn actor i uu d))"
| user_approve: "auth_step libs cfg d (snd (approveUser now tn actor i role d))"
| user_revoke: "auth_step libs cfg d (snd (revokeSessions now tn actor i d))"
| user_reset_mfa: "auth_step libs cfg d (snd (resetMfa now tn actor i d))"

lemma ensures_okD: "ensures (\<lambda>r. sessions_ok) p \<Longrightarrow> sessions_ok (snd p)"
  by (simp add: ensures_def case_prod_unfold)

lemma auth_step_ok: "auth_step libs cfg d d' \<Longrightarrow> sessions_ok d \<Longrightarrow> sessions_ok d'"
proof (induction rule: auth_step.induct)
  case (login fresh d now redis ct kt lg m l)
  then show ?case
    using login_ok [of "(d, l)" fresh libs cfg now redis ct kt lg m] by (simp add: ensures_def case_prod_unfold)
qed (auto intro!: ensures_okD intro: registerTenant_ok verifyMfaLogin_ok handleOAuthCallback_ok refresh_ok logout_ok
    revokeSession_ok revokeOtherSessions_ok resetPassword_ok changePassword_ok acceptInvite_ok updateUser_ok revokeSessions_ok
    ensures_quiet_ok quiet_handlers quiet_user_handlers)

end
