(* ===== verification/Admins.thy ===== *)
theory Admins
  imports AuthSteps
begin

text \<open>
  What the operations of \<open>users.service.ts\<close> keep of the users: identifiers stay distinct, and a
  tenant with an active administrator keeps one. The handlers of the single operations are the
  steps; the guard that keeps the last administrator is \<open>assertLastAdminSafe\<close>.
\<close>

section \<open>The table of users\<close>

definition users_ok :: "db \<Rightarrow> bool" where
  "users_ok d \<longleftrightarrow> distinct (map u_id (users d)) \<and> (\<forall>i \<in> set (map u_id (users d)). old_id d i)"

definition has_admin :: "string \<Rightarrow> db \<Rightarrow> bool" where
  "has_admin tn d \<longleftrightarrow> list_ex (active_admin tn) (users d)"

definition admin_ok :: "string \<Rightarrow> db \<Rightarrow> bool" where
  "admin_ok tn d \<longleftrightarrow> users_ok d \<and> has_admin tn d"

lemma admin_ok_cong: "users d' = users d \<Longrightarrow> next_id d \<le> next_id d' \<Longrightarrow> admin_ok tn d \<Longrightarrow> admin_ok tn d'"
  by (auto simp: admin_ok_def users_ok_def has_admin_def intro: old_id_mono)

lemma admin_ok_audit [simp]: "admin_ok tn d \<Longrightarrow> admin_ok tn (record_audit now i d)"
  by (rule admin_ok_cong) simp_all

lemma admin_ok_revoke [simp]: "admin_ok tn (revoke_live now p d) = admin_ok tn d"
  by (simp add: revoke_live_def admin_ok_def users_ok_def has_admin_def old_id_def)

lemma revoke_case: "admin_ok tn (case st of Value s \<Rightarrow> if s \<noteq> a then revoke_live now p d else d | _ \<Rightarrow> d) = admin_ok tn d"
  by (cases st) simp_all

lemma create_user_admin:
  assumes "create_user u d = (r, d')" "admin_ok tn d" "u_id u = new_id d"
  shows "admin_ok tn d'"
proof -
  have "users d' = users d @ [u] \<and> next_id d' = Suc (next_id d) \<or> d' = d"
    using assms(1) by (auto simp: create_user_def create_Inr split: sum.splits)
  then show ?thesis
  proof
    assume d': "users d' = users d @ [u] \<and> next_id d' = Suc (next_id d)"
    have "u_id u \<notin> set (map u_id (users d))"
      using assms(2,3) new_id_fresh [of d] by (auto simp: admin_ok_def users_ok_def)
    moreover have "old_id d' (u_id u)" using d' assms(3) old_id_new_id [of d d'] by simp
    ultimately show ?thesis
      using assms(2) d' by (auto simp: admin_ok_def users_ok_def has_admin_def intro: old_id_mono)
  qed (use assms(2) in simp)
qed

text \<open>The change of one user keeps an administrator when there is another one or it stays one.\<close>

lemma admin_survives:
  assumes "distinct (map u_id us)" "c \<in> set us" "list_ex P us" "P c \<Longrightarrow> P (f c) \<or> 2 \<le> count_rows P us"
  shows "list_ex P (updateMany (\<lambda>u. u_id u = u_id c) f us)"
proof (cases "\<exists>u \<in> set us. P u \<and> u_id u \<noteq> u_id c")
  case True
  then obtain u where "u \<in> set us" "P u" "u_id u \<noteq> u_id c" by blast
  then have "u \<in> set (updateMany (\<lambda>u. u_id u = u_id c) f us)" by (force simp: set_updateMany)
  then show ?thesis using \<open>P u\<close> by (auto simp: list_ex_iff)
next
  case False
  have inj: "u = c" if "u \<in> set us" "u_id u = u_id c" for u
    using that assms(1,2) by (auto simp: distinct_map inj_on_def)
  then have only: "u = c" if "u \<in> set us" "P u" for u using that False by blast
  then have "P c" using assms(3) by (auto simp: list_ex_iff)
  have "set (filter P us) \<subseteq> {c}" using only by auto
  moreover have "distinct (filter P us)" using assms(1) by (simp add: distinct_map)
  ultimately have "count_rows P us \<le> 1"
    using distinct_card [of "filter P us"] card_mono [of "{c}" "set (filter P us)"] by (simp add: count_rows_def)
  then have "P (f c)" using assms(4) \<open>P c\<close> by simp
  moreover have "f c \<in> set (updateMany (\<lambda>u. u_id u = u_id c) f us)"
    using assms(2) by (force simp: set_updateMany)
  ultimately show ?thesis by (auto simp: list_ex_iff)
qed

lemma set_user_cases:
  assumes "set_user i f d = (r, d')"
  shows "users d' = updateMany (\<lambda>u. u_id u = i) f (users d) \<and> next_id d' = next_id d \<or> d' = d"
proof (cases "update_row u_id user_conflict i f (users d)")
  case (Inl e)
  then show ?thesis using assms by (simp add: set_user_def)
next
  case (Inr p)
  then obtain u t where up: "update_row u_id user_conflict i f (users d) = Inr (u, t)" by (cases p) auto
  then show ?thesis
    using assms update_updateMany [OF up, THEN conjunct1] by (auto simp: set_user_def)
qed

lemma set_user_admin:
  assumes "set_user (u_id c) f d = (r, d')" "admin_ok tn d" "c \<in> set (users d)" "\<And>u. u_id (f u) = u_id u"
    "active_admin tn c \<Longrightarrow> active_admin tn (f c) \<or> 2 \<le> count_rows (active_admin tn) (users d)"
  shows "admin_ok tn d'"
  using set_user_cases [OF assms(1)]
proof
  assume d': "users d' = updateMany (\<lambda>u. u_id u = u_id c) f (users d) \<and> next_id d' = next_id d"
  have ids: "map u_id (users d') = map u_id (users d)" using d' assms(4) by (simp add: map_updateMany)
  have "distinct (map u_id (users d))" "list_ex (active_admin tn) (users d)"
    using assms(2) by (simp_all add: admin_ok_def users_ok_def has_admin_def)
  then have "has_admin tn d'"
    using admin_survives [of "users d" c "active_admin tn" f] assms(3,5) d' by (simp add: has_admin_def)
  moreover have "users_ok d'"
    using assms(2) d' unfolding users_ok_def admin_ok_def ids old_id_def by simp
  ultimately show ?thesis by (simp add: admin_ok_def)
qed (use assms(2) in simp)

section \<open>The operations\<close>

lemma find_target_InrD: "find_target tn i d = Inr c \<Longrightarrow> c \<in> set (users d) \<and> u_id c = i \<and> u_tenantId c = Some tn"
  by (auto simp: find_target_def split: option.splits dest: findFirst_SomeD)

lemma updateUser_admin:
  assumes "admin_ok tn d"
  shows "ensures (\<lambda>r. admin_ok tn) (updateUser now tenantId actor i uu d)"
proof -
  have set: "admin_ok tn d1"
    if "find_target tenantId i d = Inr c" "set_user i (user_change now uu) d = (r, d1)"
      and safe: "(if (case uu_role uu of Value r \<Rightarrow> r \<noteq> u_role c | _ \<Rightarrow> False)
          \<or> (case uu_status uu of Value s \<Rightarrow> s \<noteq> u_status c | _ \<Rightarrow> False)
          then assertLastAdminSafe tenantId c uu d else Inr ()) = Inr y"
      and vals: "\<not> (uu_role uu = Null \<or> uu_status uu = Null)"
    for c r d1 and y :: unit
  proof -
    have c: "c \<in> set (users d)" "u_id c = i" "u_tenantId c = Some tenantId"
      using find_target_InrD [OF that(1)] by simp_all
    have "active_admin tn (user_change now uu c) \<or> 2 \<le> count_rows (active_admin tn) (users d)" if admin: "active_admin tn c"
    proof (cases "nn (uu_role uu) ADMIN = ADMIN \<and> nn (uu_status uu) UserStatus.ACTIVE = UserStatus.ACTIVE")
      case True
      then show ?thesis
        using admin vals by (cases "uu_role uu"; cases "uu_status uu") (auto simp: active_admin_def user_change_def)
    next
      case False
      have adm: "tn = tenantId" "u_role c = ADMIN" "u_status c = UserStatus.ACTIVE"
        using admin c(3) by (simp_all add: active_admin_def)
      then have "assertLastAdminSafe tenantId c uu d = Inr ()"
        using False safe by (cases "uu_role uu"; cases "uu_status uu") auto
      moreover have "(uu_role uu \<noteq> Undefined \<and> uu_role uu \<noteq> Value ADMIN)
          \<or> (uu_status uu \<noteq> Undefined \<and> uu_status uu \<noteq> Value UserStatus.ACTIVE)"
        using False by (cases "uu_role uu"; cases "uu_status uu") auto
      ultimately show ?thesis
        using adm by (auto simp: assertLastAdminSafe_def Let_def split: if_splits)
    qed
    then show ?thesis
      using set_user_admin [of c "user_change now uu" d r d1 tn] that(2) assms c by (simp add: user_change_def)
  qed
  show ?thesis
    unfolding updateUser_def Let_def auth_audits
    by (intro ensures_intros)
      (assumption | rule assms | rule admin_ok_audit | rule revoke_case [THEN iffD2] | rule set)+
qed

lemma approveUser_admin:
  assumes "admin_ok tn d"
  shows "ensures (\<lambda>r. admin_ok tn) (approveUser now tenantId actor i role d)"
proof -
  have set: "admin_ok tn d1"
    if "find_target tenantId i d = Inr c" "\<not> (u_status c \<noteq> UserStatus.PENDING \<and> u_status c \<noteq> INVITED)"
      "set_user i (\<lambda>u. u\<lparr>u_role := role, u_status := UserStatus.ACTIVE\<rparr>) d = (r, d1)" for c r d1
  proof -
    have "c \<in> set (users d)" "u_id c = i" using find_target_InrD [OF that(1)] by simp_all
    moreover have "\<not> active_admin tn c" using that(2) by (auto simp: active_admin_def)
    ultimately show ?thesis using set_user_admin [of c _ d r d1 tn] that(3) assms by fastforce
  qed
  show ?thesis
    unfolding approveUser_def Let_def auth_audits
    by (intro ensures_intros) (assumption | rule assms | rule admin_ok_audit | rule set)+
qed

lemma set_user_same_admin:
  assumes "set_user i f d = (r, d')" "admin_ok tn d"
    "\<And>u. u_id (f u) = u_id u \<and> u_role (f u) = u_role u \<and> u_status (f u) = u_status u \<and> u_tenantId (f u) = u_tenantId u"
  shows "admin_ok tn d'"
  using set_user_cases [OF assms(1)]
proof
  assume d': "users d' = updateMany (\<lambda>u. u_id u = i) f (users d) \<and> next_id d' = next_id d"
  have "map u_id (users d') = map u_id (users d)" using d' assms(3) by (simp add: map_updateMany)
  then have "users_ok d'" using assms(2) d' by (simp add: users_ok_def admin_ok_def old_id_def)
  moreover have "has_admin tn d'"
  proof -
    obtain u where u: "u \<in> set (users d)" "active_admin tn u"
      using assms(2) by (auto simp: admin_ok_def has_admin_def list_ex_iff)
    let ?v = "if u_id u = i then f u else u"
    have "?v \<in> set (users d')" using d' u(1) by (simp add: set_updateMany)
    moreover have "active_admin tn ?v" using u(2) assms(3) by (simp add: active_admin_def)
    ultimately show ?thesis unfolding has_admin_def list_ex_iff by blast
  qed
  ultimately show ?thesis by (simp add: admin_ok_def)
qed (use assms(2) in simp)

lemma resetMfa_admin:
  assumes "admin_ok tn d"
  shows "ensures (\<lambda>r. admin_ok tn) (resetMfa now tenantId actor i d)"
proof -
  have set: "admin_ok tn d1" if "set_user i (\<lambda>u. u\<lparr>u_mfaEnabled := False, u_mfaSecret := None\<rparr>) d = (r, d1)" for r d1
    by (rule set_user_same_admin [OF that assms]) simp
  have codes: "admin_ok tn ((delete_codes u t d1)\<lparr>mfaChallenges := x\<rparr>)" if "admin_ok tn d1" for u t d1 x
    using that by (auto simp: delete_codes_def intro: admin_ok_cong)
  show ?thesis
    unfolding resetMfa_def Let_def auth_audits
    by (intro ensures_intros) (assumption | rule assms | rule admin_ok_audit | rule codes | rule set)+
qed

lemma createUser_admin:
  assumes "admin_ok tn d"
  shows "ensures (\<lambda>r. admin_ok tn) (createUser libs now salt tenantId actor cu d)"
proof -
  have create: "admin_ok tn d1" if "create_user (new_user now (new_id d) a b c e f g\<lparr>u_passwordChangeRequired := h\<rparr>) d = (r, d1)"
    for a b c e f g h r d1
    using create_user_admin [OF that assms] by (simp add: new_user_def)
  show ?thesis
    unfolding createUser_def Let_def auth_audits
    by (intro ensures_intros) (assumption | rule assms | rule admin_ok_audit | rule create)+
qed

lemma inviteUser_admin:
  assumes "admin_ok tn d"
  shows "ensures (\<lambda>r. admin_ok tn) (inviteUser libs cfg now token tenantId actor email role d)"
  unfolding inviteUser_def Let_def
  using assms by (intro ensures_intros) (auto intro: admin_ok_cong split: option.splits sum.splits prod.splits)

lemma revokeSessions_admin: "admin_ok tn d \<Longrightarrow> ensures (\<lambda>r. admin_ok tn) (revokeSessions now tenantId actor i d)"
  unfolding revokeSessions_def by (intro ensures_intros) auto

lemma acceptInvite_admin:
  assumes "admin_ok tn d"
  shows "ensures (\<lambda>r. admin_ok tn) (acceptInvite libs cfg now fresh salt i m d)"
proof -
  have create: "admin_ok tn d1" if "create_user (new_user now (new_id d) a b c e f g) d = (r, d1)" for a b c e f g r d1
    using create_user_admin [OF that assms] by (simp add: new_user_def)
  have log: "admin_ok tn (log_row now a b c e f g h (d1\<lparr>userInvitations := t\<rparr>))" if "admin_ok tn d1" for a b c e f g h t d1
    using that by (auto simp: log_row_def intro: admin_ok_cong)
  have issue: "ensures (\<lambda>r. admin_ok tn) (issue_invited_session libs cfg now fresh u t m d1)" if "admin_ok tn d1" for u t d1
  proof -
    have "admin_ok tn d2" if "createRefreshToken row d1 = (r, d2)" for row r d2
      using that \<open>admin_ok tn d1\<close> by (auto simp: createRefreshToken_def intro: admin_ok_cong split: sum.splits)
    then show ?thesis
      unfolding issue_invited_session_def Let_def
      using that by (intro ensures_intros) auto
  qed
  show ?thesis
    unfolding acceptInvite_def Let_def
    by (intro ensures_intros issue) (assumption | rule assms | rule log | rule create)+
qed

inductive users_step :: "AuthLibs \<Rightarrow> AuthConfig \<Rightarrow> db \<Rightarrow> db \<Rightarrow> bool" for libs cfg where
  create: "users_step libs cfg d (snd (createUser libs now salt tenantId actor cu d))"
| invite: "users_step libs cfg d (snd (inviteUser libs cfg now tok tenantId actor email role d))"
| accept: "users_step libs cfg d (snd (acceptInvite libs cfg now fresh salt av m d))"
| update: "users_step libs cfg d (snd (updateUser now tenantId actor i uu d))"
| approve: "users_step libs cfg d (snd (approveUser now tenantId actor i role d))"
| revoke: "users_step libs cfg d (snd (revokeSessions now tenantId actor i d))"
| reset_mfa: "users_step libs cfg d (snd (resetMfa now tenantId actor i d))"

lemma users_step_admin: "users_step libs cfg d d' \<Longrightarrow> admin_ok tn d \<Longrightarrow> admin_ok tn d'"
proof (induction rule: users_step.induct)
qed (auto simp: ensures_snd [symmetric] createUser_admin inviteUser_admin acceptInvite_admin updateUser_admin
    approveUser_admin revokeSessions_admin resetMfa_admin)

text \<open>
  C13: a tenant keeps an administrator. From any state in which the users have distinct
  identifiers and a tenant has an active administrator, no sequence of creations, invitations,
  acceptances, changes, approvals and resets by anyone leaves the tenant without one.
\<close>

theorem active_admin_kept:
  assumes "(users_step libs cfg)\<^sup>*\<^sup>* d d'" "users_ok d" "has_admin tn d"
  shows "has_admin tn d'"
proof -
  have "admin_ok tn d'"
    using assms(1)
  proof (induction rule: rtranclp_induct)
    case base
    then show ?case using assms(2,3) by (simp add: admin_ok_def)
  next
    case (step d1 d2)
    then show ?case using users_step_admin by blast
  qed
  then show ?thesis by (simp add: admin_ok_def)
qed

text \<open>
  The completion of a registration by an identity provider is no such operation: whatever the user
  of its token has become in the meantime, it makes an operator who waits for approval of it.
\<close>

lemma completion_resets_user:
  assumes "completeOAuthRegistration libs cfg now token slug d = (Inr (), d')"
  shows "\<exists>s i. s \<in> set (oauthStates d) \<and> live_state libs cfg now token s \<and> os_userId s = Some i
    \<and> (\<forall>u \<in> set (users d'). u_id u = i \<longrightarrow> u_role u = OPERATOR \<and> u_status u = UserStatus.PENDING)"
proof -
  obtain s i t u ts where s: "findFirst (\<lambda>s. os_mode s = ''complete_registration'' \<and> live_state libs cfg now token s)
        (oauthStates d) = Some s" "os_userId s = Some i"
    and up: "update_row u_id user_conflict i
        (\<lambda>u. u\<lparr>u_role := OPERATOR, u_status := UserStatus.PENDING, u_tenantId := Some t\<rparr>) (users d) = Inr (u, ts)"
    and d': "users d' = ts"
    using assms
    by (auto simp: completeOAuthRegistration_def Let_def set_user_def update_state_def log_row_def truthy_def
        split: option.splits if_splits sum.splits prod.splits)
  have "u_role v = OPERATOR \<and> u_status v = UserStatus.PENDING" if v: "v \<in> set ts" "u_id v = i" for v
  proof -
    obtain w where "v = (if u_id w = i then w\<lparr>u_role := OPERATOR, u_status := UserStatus.PENDING, u_tenantId := Some t\<rparr> else w)"
      using v(1) unfolding update_updateMany [OF up, THEN conjunct1] set_updateMany by blast
    then show ?thesis using v(2) by (simp split: if_splits)
  qed
  then show ?thesis using findFirst_SomeD [OF s(1)] s(2) d' by blast
qed

definition admin_user :: User where
  "admin_user = session_user\<lparr>u_id := ''0''\<rparr>"

definition admin_db :: db where
  "admin_db = empty_db\<lparr>users := [admin_user], tenants := [session_tenant], next_id := 1\<rparr>"

lemma active_admin_kept_witness:
  "has_admin ''t'' (snd (updateUser 5 ''t'' ''0'' ''0'' \<lparr> uu_name = Undefined, uu_role = Value OPERATOR, uu_status = Undefined \<rparr>
     admin_db))"
proof (rule active_admin_kept)
  show "(users_step example_libs example_auth)\<^sup>*\<^sup>* admin_db
      (snd (updateUser 5 ''t'' ''0'' ''0'' \<lparr> uu_name = Undefined, uu_role = Value OPERATOR, uu_status = Undefined \<rparr> admin_db))"
    by (intro r_into_rtranclp users_step.update)
  have "nat_str 0 = ''0''" by code_simp
  then show "users_ok admin_db" by (simp add: users_ok_def admin_db_def admin_user_def old_id_def)
  show "has_admin ''t'' admin_db"
    by (simp add: has_admin_def admin_db_def admin_user_def active_admin_def session_user_def)
qed

end
