(* ===== verification/Access.thy ===== *)
theory Access
  imports Users
begin

text \<open>
  What stands between a request and a handler: the identifiers of the request, the cookies, the
  guards that attach the verified user and check the role, and the filter that turns an error
  into a response. \<open>decodeURIComponent\<close> is the argument \<open>decode\<close>, which fails on a malformed
  sequence.
\<close>

section \<open>Requests\<close>

record RequestContext =
  rc_requestId :: string
  rc_correlationId :: string
  rc_tenantId :: "string option"
  rc_userId :: "string option"
  rc_role :: "UserRole option"
  rc_user :: "AuthenticatedUser option"

record Request =
  rq_authorization :: "string option"
  rq_cookie :: "string option"
  rq_requestId :: "string option"
  rq_correlationId :: "string option"
  rq_url :: string
  rq_ip :: "string option"
  rq_userAgent :: "string option"

definition header_id_char :: "char \<Rightarrow> bool" where
  "header_id_char c = (is_lower c \<or> is_upper c \<or> is_digit c \<or> c \<in> set ''._:-'')"

definition readHeader :: "string option \<Rightarrow> string option" where
  "readHeader v =
     (let normalized = map_option trim v in
      if \<not> truthy normalized then None
      else if list_all header_id_char (the normalized) \<and> length (the normalized) \<le> 64 then normalized else None)"

definition request_context :: "string \<Rightarrow> Request \<Rightarrow> RequestContext" where
  "request_context randomUUID request =
     (let requestId = coalesce (readHeader (rq_requestId request)) randomUUID in
      \<lparr> rc_requestId = requestId, rc_correlationId = coalesce (readHeader (rq_correlationId request)) requestId,
        rc_tenantId = None, rc_userId = None, rc_role = None, rc_user = None \<rparr>)"

section \<open>Cookies\<close>

definition readCookie :: "(string \<Rightarrow> string option) \<Rightarrow> Request \<Rightarrow> string \<Rightarrow> string option result" where
  "readCookie decode request name =
     (if \<not> truthy (rq_cookie request) then Inr None
      else
      case find (\<lambda>c. startsWith c (name @ ''='')) (map trim (split_on (CHR '';'') (the (rq_cookie request)))) of
        None \<Rightarrow> Inr None
      | Some c \<Rightarrow> (case decode (drop (length name + 1) c) of
                     None \<Rightarrow> Inl (InternalError ''URIError'') | Some v \<Rightarrow> Inr (Some v)))"

definition readAccessToken :: "(string \<Rightarrow> string option) \<Rightarrow> Request \<Rightarrow> string option result" where
  "readAccessToken decode request = readCookie decode request ''nf_access_token''"

definition readRefreshToken :: "(string \<Rightarrow> string option) \<Rightarrow> Request \<Rightarrow> string option result" where
  "readRefreshToken decode request = readCookie decode request ''nf_refresh_token''"

record CookieOptions =
  co_domain :: "string option"
  co_httpOnly :: bool
  co_maxAge :: int
  co_path :: string
  co_sameSite :: string
  co_secure :: bool

definition cookieOptions :: "AuthConfig \<Rightarrow> string \<Rightarrow> nat \<Rightarrow> CookieOptions" where
  "cookieOptions cfg cookieDomain maxAgeSeconds =
     \<lparr> co_domain = (if cookieDomain = ''localhost'' then None else Some cookieDomain), co_httpOnly = True,
       co_maxAge = int maxAgeSeconds * 1000, co_path = ''/'',
       co_sameSite = (if production cfg then ''none'' else ''lax''), co_secure = production cfg \<rparr>"

record Cookie =
  ck_name :: string
  ck_value :: string
  ck_options :: CookieOptions

definition setAuthCookies :: "AuthConfig \<Rightarrow> string \<Rightarrow> string \<Rightarrow> nat \<Rightarrow> string \<Rightarrow> nat \<Rightarrow> Cookie list" where
  "setAuthCookies cfg cookieDomain accessToken accessTokenMaxAgeSeconds refreshToken refreshTokenMaxAgeSeconds =
     [\<lparr> ck_name = ''nf_access_token'', ck_value = accessToken,
        ck_options = cookieOptions cfg cookieDomain accessTokenMaxAgeSeconds \<rparr>,
      \<lparr> ck_name = ''nf_refresh_token'', ck_value = refreshToken,
        ck_options = cookieOptions cfg cookieDomain refreshTokenMaxAgeSeconds \<rparr>]"

text \<open>A cleared cookie is sent with an empty value.\<close>

definition clearAuthCookies :: "AuthConfig \<Rightarrow> string \<Rightarrow> Cookie list" where
  "clearAuthCookies cfg cookieDomain =
     [\<lparr> ck_name = ''nf_access_token'', ck_value = [], ck_options = cookieOptions cfg cookieDomain 0 \<rparr>,
      \<lparr> ck_name = ''nf_refresh_token'', ck_value = [], ck_options = cookieOptions cfg cookieDomain 0 \<rparr>]"

section \<open>Guards\<close>

definition readBearerToken :: "Request \<Rightarrow> string option" where
  "readBearerToken request =
     (case rq_authorization request of
        None \<Rightarrow> None
      | Some v \<Rightarrow> if startsWith v ''Bearer '' then Some (trim (drop 7 v)) else None)"

definition attachAuthenticatedContext ::
  "(string \<Rightarrow> string option) \<Rightarrow> AuthLibs \<Rightarrow> AuthConfig \<Rightarrow> date \<Rightarrow> Request \<Rightarrow> RequestContext \<Rightarrow> db \<Rightarrow> RequestContext result" where
  "attachAuthenticatedContext decode libs cfg now request context d =
     bindE (case readBearerToken request of Some t \<Rightarrow> Inr (Some t) | None \<Rightarrow> readAccessToken decode request) (\<lambda>token.
       if \<not> truthy token then Inl (UnauthorizedException ''Authentication context is required.'')
       else bindE (verifyAccessToken libs cfg now (the token)) (\<lambda>payload.
       case findActiveUserById (vt_sub payload) (vt_tenantId payload) d of
         None \<Rightarrow> Inl (UnauthorizedException ''Authentication context is required.'')
       | Some (u, t) \<Rightarrow>
           let presentedUser = presentUser u t in
           Inr (context\<lparr>rc_tenantId := Some (tr_id (au_tenant presentedUser)), rc_userId := Some (au_id presentedUser),
                        rc_role := Some (au_role presentedUser), rc_user := Some presentedUser\<rparr>)))"

definition privateGuard ::
  "(string \<Rightarrow> string option) \<Rightarrow> AuthLibs \<Rightarrow> AuthConfig \<Rightarrow> date \<Rightarrow> bool \<Rightarrow> Request \<Rightarrow> RequestContext \<Rightarrow> db \<Rightarrow> RequestContext result" where
  "privateGuard decode libs cfg now isPublic request context d =
     (if isPublic then Inr context
      else bindE (attachAuthenticatedContext decode libs cfg now request context d) (\<lambda>c.
        if \<not> truthy (rc_tenantId c) \<or> \<not> truthy (rc_userId c) \<or> rc_role c = None
        then Inl (UnauthorizedException ''Authentication context is required.'')
        else Inr c))"

definition rolesGuard :: "UserRole list option \<Rightarrow> RequestContext \<Rightarrow> unit result" where
  "rolesGuard requiredRoles context =
     (case requiredRoles of
        None \<Rightarrow> Inr ()
      | Some roles \<Rightarrow>
          if roles = [] then Inr ()
          else (case rc_role context of
                  None \<Rightarrow> Inl (ForbiddenException ''Required role is missing.'')
                | Some r \<Rightarrow> if r \<in> set roles then Inr () else Inl (ForbiddenException ''Required role is missing.'')))"

definition guards ::
  "(string \<Rightarrow> string option) \<Rightarrow> AuthLibs \<Rightarrow> AuthConfig \<Rightarrow> date \<Rightarrow> bool \<Rightarrow> UserRole list option \<Rightarrow> Request \<Rightarrow> RequestContext
    \<Rightarrow> db \<Rightarrow> RequestContext result" where
  "guards decode libs cfg now isPublic requiredRoles request context d =
     bindE (privateGuard decode libs cfg now isPublic request context d) (\<lambda>c.
       bindE (rolesGuard requiredRoles c) (\<lambda>u. Inr c))"

definition requireContext :: "RequestContext \<Rightarrow> (string \<times> string) result" where
  "requireContext context =
     (if \<not> truthy (rc_tenantId context) \<or> \<not> truthy (rc_userId context)
      then Inl (UnauthorizedException ''Authentication context is required.'')
      else Inr (the (rc_tenantId context), the (rc_userId context)))"

definition toProvider :: "string \<Rightarrow> OAuthProvider result" where
  "toProvider provider =
     (if toLowerCase provider = ''google'' then Inr GOOGLE
      else if toLowerCase provider = ''github'' then Inr GITHUB
      else Inl (UnauthorizedException ''OAuth provider is invalid.''))"

section \<open>Errors\<close>

datatype ErrorCode =
    VALIDATION_ERROR | UNAUTHORIZED | FORBIDDEN | NOT_FOUND | TENANT_REQUIRED | INTERNAL_ERROR | SERVICE_UNAVAILABLE

record ApiErrorResponse =
  ae_statusCode :: nat
  ae_code :: ErrorCode
  ae_message :: string
  ae_requestId :: string
  ae_timestamp :: date
  ae_path :: string

text \<open>The status and message of an exception of the framework; other errors have none.\<close>

fun http_status :: "http_error \<Rightarrow> (nat \<times> string) option" where
  "http_status (BadRequestException m) = Some (400, m)"
| "http_status (UnauthorizedException m) = Some (401, m)"
| "http_status (ForbiddenException m) = Some (403, m)"
| "http_status (NotFoundException m) = Some (404, m)"
| "http_status (ConflictException m) = Some (409, m)"
| "http_status (TooManyRequests m) = Some (429, m)"
| "http_status (ServiceUnavailableException m) = Some (503, m)"
| "http_status (PrismaKnownError c) = None"
| "http_status (InternalError m) = None"

definition codeForStatus :: "nat \<Rightarrow> ErrorCode" where
  "codeForStatus statusCode =
     (if statusCode = 401 then UNAUTHORIZED else if statusCode = 403 then FORBIDDEN
      else if statusCode = 404 then NOT_FOUND else if statusCode \<ge> 500 then INTERNAL_ERROR else VALIDATION_ERROR)"

definition toErrorResponse :: "date \<Rightarrow> http_error \<Rightarrow> Request \<Rightarrow> RequestContext option \<Rightarrow> ApiErrorResponse" where
  "toErrorResponse now exception request context =
     (let requestId = (case context of None \<Rightarrow> ''unavailable'' | Some c \<Rightarrow> rc_requestId c) in
      case http_status exception of
        Some (statusCode, message) \<Rightarrow>
          \<lparr> ae_statusCode = statusCode, ae_code = codeForStatus statusCode,
            ae_message = (if statusCode \<ge> 500 then ''Unexpected server error.'' else message),
            ae_requestId = requestId, ae_timestamp = now, ae_path = rq_url request \<rparr>
      | None \<Rightarrow>
          \<lparr> ae_statusCode = 500, ae_code = INTERNAL_ERROR, ae_message = ''Unexpected server error.'',
            ae_requestId = requestId, ae_timestamp = now, ae_path = rq_url request \<rparr>)"

definition sanitizeLogPayload :: "(string \<times> json) list \<Rightarrow> (string \<times> json) list" where
  "sanitizeLogPayload v =
     map (\<lambda>(key, entry). (key,
       if list_ex (includes_str (toLowerCase key)) [''password'', ''token'', ''secret'', ''cookie'', ''authorization'', ''totp'']
       then JStr ''[REDACTED]'' else entry)) v"

section \<open>Who a private handler serves\<close>

lemma findActiveUserById_SomeD:
  assumes "findActiveUserById i tn d = Some (u, t)"
  shows "u \<in> set (users d) \<and> u_id u = i \<and> u_tenantId u = Some tn \<and> u_status u = UserStatus.ACTIVE
    \<and> tenant_of d (Some tn) = Some t \<and> t_id t = tn \<and> t_active t"
proof -
  let ?p = "\<lambda>u. u_id u = i \<and> u_tenantId u = Some tn \<and> u_status u = UserStatus.ACTIVE
      \<and> (case tenant_of d (u_tenantId u) of None \<Rightarrow> False | Some t \<Rightarrow> t_active t)"
  have find: "findFirst ?p (users d) = Some u \<and> tenant_of d (u_tenantId u) = Some t"
  proof (cases "findFirst ?p (users d)")
    case None
    then show ?thesis using assms by (simp add: findActiveUserById_def)
  next
    case (Some v)
    then show ?thesis using assms by (cases "tenant_of d (u_tenantId v)") (simp_all add: findActiveUserById_def)
  qed
  have "u \<in> set (users d)" "?p u" using findFirst_SomeD [OF find [THEN conjunct1]] by blast+
  moreover have "t_id t = tn" using find \<open>?p u\<close> by (auto simp: tenant_of_def dest: findFirst_SomeD)
  ultimately show ?thesis using find by auto
qed

text \<open>What the guards of a private route have seen when they let a request through.\<close>

lemma guards_InrD:
  assumes "guards decode libs cfg now False required request context d = Inr c"
  shows "\<exists>u t token payload. u \<in> set (users d) \<and> u_status u = UserStatus.ACTIVE \<and> u_tenantId u = Some (t_id t)
    \<and> tenant_of d (u_tenantId u) = Some t \<and> t_active t
    \<and> rc_userId c = Some (u_id u) \<and> rc_tenantId c = Some (t_id t) \<and> rc_role c = Some (u_role u)
    \<and> (readBearerToken request = Some token \<or> readAccessToken decode request = Inr (Some token))
    \<and> verifyAccessToken libs cfg now token = Inr payload \<and> vt_sub payload = u_id u \<and> vt_tenantId payload = t_id t
    \<and> rolesGuard required c = Inr ()"
proof -
  obtain token where token: "truthy token"
    "(case readBearerToken request of Some t \<Rightarrow> Inr (Some t) | None \<Rightarrow> readAccessToken decode request) = Inr token"
    and c: "\<exists>payload u t. verifyAccessToken libs cfg now (the token) = Inr payload
      \<and> findActiveUserById (vt_sub payload) (vt_tenantId payload) d = Some (u, t)
      \<and> rc_userId c = Some (u_id u) \<and> rc_tenantId c = Some (t_id t) \<and> rc_role c = Some (u_role u)"
    and roles: "rolesGuard required c = Inr ()"
    using assms
    by (fastforce simp: guards_def privateGuard_def attachAuthenticatedContext_def bindE_eq_Inr Let_def presentUser_def
        split: option.splits if_splits)
  obtain payload u t where p: "verifyAccessToken libs cfg now (the token) = Inr payload"
    "findActiveUserById (vt_sub payload) (vt_tenantId payload) d = Some (u, t)"
    "rc_userId c = Some (u_id u)" "rc_tenantId c = Some (t_id t)" "rc_role c = Some (u_role u)"
    using c by blast
  have "readBearerToken request = Some (the token) \<or> readAccessToken decode request = Inr (Some (the token))"
    using token by (cases "readBearerToken request"; cases token) auto
  then show ?thesis
    using findActiveUserById_SomeD [OF p(2)] p roles
    by (intro exI [of _ u] exI [of _ t] exI [of _ "the token"] exI [of _ payload]) simp
qed

lemma verified_fresh: "verifyAccessToken libs cfg now token = Inr payload \<Longrightarrow> of_int (seconds now) < vt_exp payload"
  by (auto simp: verifyAccessToken_def bindE_eq_Inr not_le split: list.splits if_splits option.splits)

lemma rolesGuard_InrD: "rolesGuard (Some roles) c = Inr () \<Longrightarrow> rc_role c = Some r \<Longrightarrow> roles = [] \<or> r \<in> set roles"
  by (auto simp: rolesGuard_def split: if_splits)

text \<open>
  C6: a private handler runs only for a live user. The guards let a request through with the
  context of a user who is active in an active tenant at that moment, whose role is one of the
  required ones, and whom an access token of the request names that is signed and has not
  expired; the role is the one in the database, not the one in the token.
\<close>

theorem guards_admit_active_user:
  assumes "guards decode libs cfg now False (Some roles) request context d = Inr c"
  shows "\<exists>u t token payload. u \<in> set (users d) \<and> u_status u = UserStatus.ACTIVE \<and> u_tenantId u = Some (t_id t)
    \<and> tenant_of d (u_tenantId u) = Some t \<and> t_active t
    \<and> rc_userId c = Some (u_id u) \<and> rc_tenantId c = Some (t_id t) \<and> rc_role c = Some (u_role u)
    \<and> (roles = [] \<or> u_role u \<in> set roles)
    \<and> (readBearerToken request = Some token \<or> readAccessToken decode request = Inr (Some token))
    \<and> verifyAccessToken libs cfg now token = Inr payload
    \<and> of_int (seconds now) < vt_exp payload \<and> vt_sub payload = u_id u \<and> vt_tenantId payload = t_id t"
proof -
  obtain u t token payload where u: "u \<in> set (users d) \<and> u_status u = UserStatus.ACTIVE \<and> u_tenantId u = Some (t_id t)
      \<and> tenant_of d (u_tenantId u) = Some t \<and> t_active t
      \<and> rc_userId c = Some (u_id u) \<and> rc_tenantId c = Some (t_id t) \<and> rc_role c = Some (u_role u)"
    and token: "readBearerToken request = Some token \<or> readAccessToken decode request = Inr (Some token)"
      "verifyAccessToken libs cfg now token = Inr payload" "vt_sub payload = u_id u" "vt_tenantId payload = t_id t"
    and roles: "rolesGuard (Some roles) c = Inr ()"
    using guards_InrD [OF assms] by blast
  have "of_int (seconds now) < vt_exp payload" "roles = [] \<or> u_role u \<in> set roles"
    using verified_fresh [OF token(2)] rolesGuard_InrD [OF roles, of "u_role u"] u by simp_all
  then show ?thesis using u token by blast
qed

definition access_payload_example :: VerifiedAccessToken where
  "access_payload_example = \<lparr> vt_email = ''a@b.c'', vt_exp = 900, vt_iat = 0, vt_role = OPERATOR, vt_sub = ''u'', vt_tenantId = ''t'' \<rparr>"

definition access_libs :: AuthLibs where
  "access_libs = example_libs\<lparr>hmac_sha256 := (\<lambda>k t. ''abc''), json_read := (\<lambda>s. Some (payload_json access_payload_example))\<rparr>"

definition access_request :: Request where
  "access_request = \<lparr> rq_authorization = Some ''Bearer x.y.YWJj'', rq_cookie = None, rq_requestId = None,
     rq_correlationId = None, rq_url = ''/users'', rq_ip = None, rq_userAgent = None \<rparr>"

lemma access_bearer: "readBearerToken access_request = Some ''x.y.YWJj''"
  by code_simp

lemma access_token: "verifyAccessToken access_libs example_auth 0 ''x.y.YWJj'' = Inr access_payload_example"
proof -
  have "split_on (CHR ''.'') ''x.y.YWJj'' = [''x'', ''y'', ''YWJj'']" "base64url ''abc'' = ''YWJj''" by code_simp+
  then show ?thesis
    by (simp add: verifyAccessToken_def sign_def access_libs_def access_payload_example_def seconds_def)
qed

lemma guards_admit_active_user_witness:
  "\<exists>c. guards Some access_libs example_auth 0 False (Some [ADMIN]) access_request (request_context ''r'' access_request)
     one_session = Inr c \<and> rc_userId c = Some ''u'' \<and> rc_role c = Some ADMIN"
proof -
  have "findActiveUserById ''u'' ''t'' one_session = Some (session_user, session_tenant)"
    by (simp add: findActiveUserById_def findFirst_def one_session_def tenant_of_def session_user_def session_tenant_def)
  then obtain c where c: "guards Some access_libs example_auth 0 False (Some [ADMIN]) access_request
      (request_context ''r'' access_request) one_session = Inr c"
    by (simp add: guards_def privateGuard_def attachAuthenticatedContext_def access_bearer access_token
        rolesGuard_def presentUser_def access_payload_example_def session_user_def session_tenant_def Let_def)
  from guards_admit_active_user [OF c] c show ?thesis
    by (auto simp: one_session_def session_user_def)
qed

end
