(* ===== verification/LoginSafety.thy ===== *)
theory LoginSafety
  imports AuthSteps
begin

text \<open>
  Who a login lets in, what a new password puts an end to and, in all states the operations reach,
  how many tokens of a session are live.
\<close>

section \<open>Login\<close>

lemma issueSession_InrD:
  assumes "issueSession libs cfg now fresh user m res rotated d = (Inr result, d')"
  shows "hasActiveTenant user \<and> ar_user result = presentUser (fst user) (the (snd user))"
  using assms by (auto simp: issueSession_def Let_def split: if_splits sum.splits prod.splits)

lemma blockNonActiveLogin_NoneD:
  "blockNonActiveLogin libs cfg now token user provider m d = (Inr None, d') \<Longrightarrow> u_status user = UserStatus.ACTIVE \<and> d' = d"
  by (auto simp: blockNonActiveLogin_def split: if_splits sum.splits prod.splits)

lemma blockNonActiveLogin_SomeD:
  "blockNonActiveLogin libs cfg now token user provider m d = (Inr (Some r), d') \<Longrightarrow> r \<noteq> AuthResponse res"
  by (auto simp: blockNonActiveLogin_def split: if_splits sum.splits prod.splits)

lemma admit_AuthResponseD:
  assumes "admit libs cfg now fresh ct kt user m d = (Inr (AuthResponse res), d')"
  shows "hasActiveTenant user \<and> \<not> (u_mfaEnabled (fst user) \<and> truthy (u_mfaSecret (fst user)))
    \<and> ar_user res = presentUser (fst user) (the (snd user))"
  using assms blockNonActiveLogin_SomeD
  by (auto simp: admit_def split: prod.splits sum.splits option.splits if_splits dest!: issueSession_InrD)

lemma login_candidate_SomeD:
  assumes "login_candidate email slug d = Some user"
  shows "fst user \<in> set (users d) \<and> u_email (fst user) = email \<and> user = with_tenant d (fst user)"
proof -
  have "findLoginCandidates email slug d = [user]"
    using assms by (auto simp: login_candidate_def split: list.splits)
  then have "user \<in> set (findLoginCandidates email slug d)" by simp
  then show ?thesis
    by (auto simp: findLoginCandidates_def findMany_def with_tenant_def dest!: in_set_takeD)
qed

text \<open>
  C9: a password login opens a session only for its owner. When it answers with a session, the
  limiter was not locked, and the user the session is for has the e-mail of the request, a
  stored hash that the password verifies against, the status active in an active tenant, and no
  second factor.
\<close>

theorem login_session_only_for_owner:
  assumes "login libs cfg now redis fresh ct kt dto m (d, l) = (Inr (AuthResponse res), s')"
  shows "\<exists>u t h. u \<in> set (users d) \<and> u_email u = normalizeEmail (lg_email dto) \<and> u_passwordHash u = Some h
    \<and> verify_password libs (lg_password dto) h \<and> u_status u = UserStatus.ACTIVE
    \<and> tenant_of d (u_tenantId u) = Some t \<and> t_active t \<and> \<not> (u_mfaEnabled u \<and> truthy (u_mfaSecret u))
    \<and> ar_user res = presentUser u t
    \<and> fst (assertCanAttempt cfg (up_get redis) now (buildIdentifier libs cfg (normalizeEmail (lg_email dto)) (am_ip m)
          (map_option trim (lg_tenantSlug dto))) l) = Inr ()"
proof -
  let ?email = "normalizeEmail (lg_email dto)" and ?slug = "map_option trim (lg_tenantSlug dto)"
  let ?user = "login_candidate ?email ?slug d"
  obtain l1 where l1: "assertCanAttempt cfg (up_get redis) now (buildIdentifier libs cfg ?email (am_ip m) ?slug) l = (Inr (), l1)"
    and valid: "password_valid libs (lg_password dto) ?user"
    and admit: "fst (admit libs cfg now fresh ct kt (the ?user) m d) = Inr (AuthResponse res)"
    using assms by (auto simp: login_def Let_def split: prod.splits sum.splits if_splits)
  obtain u t h where u: "?user = Some (u, t)" "u_passwordHash u = Some h" "verify_password libs (lg_password dto) h"
    using valid by (auto simp: password_valid_def split: option.splits)
  have c: "u \<in> set (users d)" "u_email u = ?email" "t = tenant_of d (u_tenantId u)"
    using login_candidate_SomeD [OF u(1)] by (simp_all add: with_tenant_def)
  have a: "hasActiveTenant (u, t)" "\<not> (u_mfaEnabled u \<and> truthy (u_mfaSecret u))" "ar_user res = presentUser u (the t)"
    using admit_AuthResponseD [of libs cfg now fresh ct kt "(u, t)" m d res] admit u(1) by (auto simp: prod_eq_iff)
  obtain tn where "t = Some tn" "t_active tn" "u_status u = UserStatus.ACTIVE"
    using a(1) by (auto simp: hasActiveTenant_def split: option.splits)
  then show ?thesis
    using u(2,3) c a(2,3) l1 by (intro exI [of _ u] exI [of _ tn] exI [of _ h]) auto
qed

section \<open>A new password\<close>

lemma set_password_InrD:
  assumes "set_password now i h p d = (Inr x, d1)"
  shows "users d1 = updateMany (\<lambda>u. u_id u = i) (\<lambda>u. u\<lparr>u_passwordChangeRequired := False, u_passwordHash := Some h\<rparr>) (users d)
    \<and> refreshTokens d1 = updateMany (\<lambda>r. p r \<and> rf_revokedAt r = None) (revoked now) (refreshTokens d)
    \<and> passwordResetTokens d1 = passwordResetTokens d"
proof -
  let ?f = "\<lambda>u. u\<lparr>u_passwordChangeRequired := False, u_passwordHash := Some h\<rparr>"
  obtain u t where up: "update_row u_id user_conflict i ?f (users d) = Inr (u, t)"
    and d1: "d1 = revoke_live now p (d\<lparr>users := t\<rparr>)"
    using assms by (auto simp: set_password_def set_user_def split: sum.splits prod.splits)
  show ?thesis
    unfolding d1 revoke_live_def update_updateMany [OF up, THEN conjunct1, symmetric] by simp
qed

definition no_live :: "(RefreshToken \<Rightarrow> bool) \<Rightarrow> db \<Rightarrow> bool" where
  "no_live p d \<longleftrightarrow> list_all (\<lambda>r. p r \<longrightarrow> rf_revokedAt r \<noteq> None) (refreshTokens d)"

lemma no_live_revoked:
  "(\<And>r. p (revoked now r) = p r)
   \<Longrightarrow> list_all (\<lambda>r. p r \<longrightarrow> rf_revokedAt r \<noteq> None) (updateMany (\<lambda>r. p r \<and> rf_revokedAt r = None) (revoked now) t)"
  by (auto simp: list_all_iff set_updateMany revoked_def)

lemma used_token_gone:
  assumes "wf_table pr_id reset_conflict t" "r \<in> set t" "pr_tokenHash r = h"
  shows "findFirst (\<lambda>x. later < pr_expiresAt x \<and> pr_tokenHash x = h \<and> pr_usedAt x = None)
    (updateMany (\<lambda>x. pr_id x = pr_id r) (\<lambda>x. x\<lparr>pr_usedAt := Some now\<rparr>) t) = None"
proof -
  have "pr_id x = pr_id r" if "x \<in> set t" "pr_tokenHash x = h" for x
    using assms that by (auto simp: wf_table_def reset_conflict_def)
  then show ?thesis by (auto simp: findFirst_None set_updateMany)
qed

text \<open>
  C22: a reset link works once and ends every session. After a reset, the user of the token has the
  new password and no live refresh token, and a second reset with the same token is refused and
  changes nothing.
\<close>

theorem password_reset_once:
  assumes "wf_table pr_id reset_conflict (passwordResetTokens d)"
    "resetPassword libs cfg now salt token pw pw' m d = (Inr (), d1)"
  shows "\<exists>r i. r \<in> set (passwordResetTokens d) \<and> pr_tokenHash r = hashOpaqueToken libs cfg token \<and> now < pr_expiresAt r
    \<and> pr_usedAt r = None \<and> pr_userId r = Some i
    \<and> no_live (\<lambda>x. rf_userId x = i) d1
    \<and> list_all (\<lambda>u. u_id u = i \<longrightarrow> u_passwordHash u = Some (hash_password libs salt pw)) (users d1)
    \<and> resetPassword libs cfg later salt' token pw pw' m' d1
        = (Inl (BadRequestException ''Password reset token is invalid or expired.''), d1)"
proof -
  let ?h = "hashOpaqueToken libs cfg token"
  obtain r i d2 row t where strong: "assertStrongPassword pw pw' = Inr ()"
    and find: "findFirst (\<lambda>r. now < pr_expiresAt r \<and> pr_tokenHash r = ?h \<and> pr_usedAt r = None) (passwordResetTokens d) = Some r"
    and i: "pr_userId r = Some i"
    and set: "set_password now i (hash_password libs salt pw) (\<lambda>r. rf_userId r = i) d = (Inr (), d2)"
    and up: "update_row pr_id reset_conflict (pr_id r) (\<lambda>r. r\<lparr>pr_usedAt := Some now\<rparr>) (passwordResetTokens d2) = Inr (row, t)"
    and tables: "users d1 = users d2" "refreshTokens d1 = refreshTokens d2" "passwordResetTokens d1 = t"
    using assms(2) by (auto simp: resetPassword_def Let_def truthy_def split: sum.splits option.splits if_splits prod.splits)
  note s = set_password_InrD [OF set]
  have r: "r \<in> set (passwordResetTokens d)" "now < pr_expiresAt r" "pr_tokenHash r = ?h" "pr_usedAt r = None"
    using findFirst_SomeD [OF find] by simp_all
  have "t = updateMany (\<lambda>x. pr_id x = pr_id r) (\<lambda>x. x\<lparr>pr_usedAt := Some now\<rparr>) (passwordResetTokens d)"
    using update_updateMany [OF up, THEN conjunct1] s by simp
  then have "resetPassword libs cfg later salt' token pw pw' m' d1
      = (Inl (BadRequestException ''Password reset token is invalid or expired.''), d1)"
    using used_token_gone [OF assms(1) r(1,3)] strong tables by (simp add: resetPassword_def)
  moreover have "no_live (\<lambda>x. rf_userId x = i) d1"
    unfolding no_live_def tables s [THEN conjunct2, THEN conjunct1]
    by (rule no_live_revoked) (simp add: revoked_def)
  moreover have "list_all (\<lambda>u. u_id u = i \<longrightarrow> u_passwordHash u = Some (hash_password libs salt pw)) (users d1)"
  proof -
    have "u_passwordHash u = Some (hash_password libs salt pw)" if v: "u \<in> set (users d1)" "u_id u = i" for u
    proof -
      obtain v where "u = (if u_id v = i
          then v\<lparr>u_passwordChangeRequired := False, u_passwordHash := Some (hash_password libs salt pw)\<rparr> else v)"
        using v(1) unfolding tables s [THEN conjunct1] set_updateMany by blast
      then show ?thesis using v(2) by (simp split: if_splits)
    qed
    then show ?thesis unfolding list_all_iff by blast
  qed
  ultimately show ?thesis
    using r i by (intro exI [of _ r] exI [of _ i] conjI)
qed

section \<open>One live token\<close>

text \<open>
  C5: a session has at most one live token. In every state that registrations, logins, refreshes
  and all other operations of authentication and user administration lead to from the empty
  database, two live refresh tokens of a family are the same row, and all rows of a family
  belong to one user.
\<close>

theorem one_live_token_per_family:
  assumes "(auth_step libs cfg)\<^sup>*\<^sup>* empty_db d" "r \<in> set (refreshTokens d)" "s \<in> set (refreshTokens d)"
    "rf_familyId r = rf_familyId s"
  shows "rf_userId r = rf_userId s \<and> (rf_revokedAt r = None \<and> rf_revokedAt s = None \<longrightarrow> r = s)"
proof -
  have "sessions_ok d"
    using assms(1)
  proof (induction rule: rtranclp_induct)
    case base
    then show ?case by (simp add: sessions_ok_def rows_ok_def empty_db_def)
  next
    case (step d1 d2)
    then show ?case using auth_step_ok by blast
  qed
  then have ok: "rows_ok (refreshTokens d)" by (simp add: sessions_ok_def)
  moreover have "r = s" if "rf_id r = rf_id s"
    using that rows_ok_distinct [OF ok] assms(2,3) by (auto simp: distinct_map inj_on_def)
  ultimately show ?thesis using rows_okD [OF ok assms(2-4)] by blast
qed

section \<open>Examples\<close>

definition example_password :: string where
  "example_password = ''Secret-1234''"

definition password_user :: User where
  "password_user = session_user\<lparr>u_passwordHash := Some (hash_password example_libs ''salt'' example_password)\<rparr>"

definition password_db :: db where
  "password_db = empty_db\<lparr>users := [password_user], tenants := [session_tenant],
     passwordResetTokens := [\<lparr> pr_id = ''p'', pr_tenantId = Some ''t'', pr_userId = Some ''u'', pr_emailHash = [],
       pr_tokenHash = hashOpaqueToken example_libs example_auth ''tok'', pr_expiresAt = 10, pr_usedAt = None \<rparr>]\<rparr>"

definition all_up :: RedisUp where
  "all_up = \<lparr> up_get = True, up_incr = True, up_expire = True, up_del = True \<rparr>"

definition example_login :: LoginDto where
  "example_login = \<lparr> lg_email = ''A@b.c '', lg_password = example_password, lg_tenantSlug = None \<rparr>"

definition new_token :: NewRefreshToken where
  "new_token = \<lparr> nr_familyId = ''f'', nr_token = ''one'' \<rparr>"

lemma example_strong: "assertStrongPassword example_password example_password = Inr ()"
  by code_simp

lemma example_verifies: "verify_password example_libs example_password (hash_password example_libs ''salt'' example_password)"
  by (simp add: hash_verifies [OF example_libs_lawful])

lemma example_email: "normalizeEmail ''A@b.c '' = ''a@b.c''"
  by code_simp

lemma password_issue:
  "\<exists>res d. issueSession example_libs example_auth 0 new_token (password_user, Some session_tenant) no_metadata ''login'' None
     password_db = (Inr res, d)"
  by (simp add: issueSession_def hasActiveTenant_def createAccessToken_def example_ttl example_refresh_ttl createRefreshToken_def
      create_row_def updateLastLogin_def set_user_def update_row_def user_conflict_def password_db_def password_user_def
      presentUser_def session_user_def session_tenant_def Let_def empty_db_def)

lemma password_candidate: "login_candidate ''a@b.c'' None password_db = Some (password_user, Some session_tenant)"
  by (simp add: login_candidate_def findLoginCandidates_def findMany_def password_db_def password_user_def session_user_def
      session_tenant_def with_tenant_def tenant_of_def findFirst_def)

lemma password_login:
  "\<exists>res s. login example_libs example_auth 0 all_up new_token ''c'' ''k'' example_login no_metadata (password_db, empty_limiter)
     = (Inr (AuthResponse res), s)"
proof -
  obtain res d where "issueSession example_libs example_auth 0 new_token (password_user, Some session_tenant) no_metadata
      ''login'' None password_db = (Inr res, d)"
    using password_issue by blast
  moreover have "u_status password_user = UserStatus.ACTIVE" "\<not> u_mfaEnabled password_user"
    "u_passwordHash password_user = Some (hash_password example_libs ''salt'' example_password)" "t_active session_tenant"
    by (simp_all add: password_user_def session_user_def session_tenant_def)
  ultimately show ?thesis
    by (simp add: login_def example_login_def example_email password_candidate password_valid_def example_verifies admit_def
        blockNonActiveLogin_def hasActiveTenant_def assertCanAttempt_def isLocked_def redis_get_def empty_limiter_def
        all_up_def example_auth_def)
qed

lemma login_session_only_for_owner_witness:
  "\<exists>res s. login example_libs example_auth 0 all_up new_token ''c'' ''k'' example_login no_metadata (password_db, empty_limiter)
     = (Inr (AuthResponse res), s) \<and> au_id (ar_user res) = ''u''"
proof -
  obtain res s where l: "login example_libs example_auth 0 all_up new_token ''c'' ''k'' example_login no_metadata
      (password_db, empty_limiter) = (Inr (AuthResponse res), s)"
    using password_login by blast
  from login_session_only_for_owner [OF l] show ?thesis
    using l by (auto simp: password_db_def password_user_def session_user_def presentUser_def)
qed

lemma password_reset:
  "\<exists>d. resetPassword example_libs example_auth 0 ''pepper'' ''tok'' example_password example_password no_metadata password_db
     = (Inr (), d)"
  by (simp add: resetPassword_def example_strong findFirst_def password_db_def set_password_def set_user_def update_row_def
      user_conflict_def password_user_def session_user_def revoke_live_def Let_def empty_db_def)

lemma password_reset_once_witness:
  "fst (resetPassword example_libs example_auth 1 ''salt'' ''tok'' example_password example_password no_metadata
     (snd (resetPassword example_libs example_auth 0 ''pepper'' ''tok'' example_password example_password no_metadata
        password_db))) = Inl (BadRequestException ''Password reset token is invalid or expired.'')"
proof -
  obtain d where d: "resetPassword example_libs example_auth 0 ''pepper'' ''tok'' example_password example_password no_metadata
      password_db = (Inr (), d)"
    using password_reset by blast
  have "wf_table pr_id reset_conflict (passwordResetTokens password_db)"
    by (simp add: wf_table_def password_db_def)
  from password_reset_once [OF this d, of 1 "''salt''" no_metadata] d show ?thesis by auto
qed

definition example_company :: RegisterTenantDto where
  "example_company = \<lparr> rg_name = ''Ana'', rg_companyName = ''Acme'', rg_email = ''a@b.c'', rg_password = example_password,
     rg_passwordConfirmation = example_password, rg_acceptedTerms = True, rg_acceptedPrivacy = True \<rparr>"

definition registered :: db where
  "registered = snd (registerTenant example_libs example_auth 0 new_token ''salt'' (''aa'', ''bb'') example_company no_metadata
     empty_db)"

lemma registered_tokens: "\<exists>r. refreshTokens registered = [r]"
proof -
  have slug: "uniqueTenantSlug ''aa'' ''bb'' ''Acme'' empty_db = ''acme''" by code_simp
  have email: "normalizeEmail ''a@b.c'' = ''a@b.c''" by code_simp
  show ?thesis
    unfolding registered_def
    by (simp add: registerTenant_def example_company_def example_strong slug email findFirst_def create_company_def create_row_def
        create_user_def issueSession_def hasActiveTenant_def with_tenant_def tenant_of_def createAccessToken_def example_ttl
        example_refresh_ttl createRefreshToken_def updateLastLogin_def set_user_def update_row_def new_user_def log_row_def
        presentUser_def login_audit_def Let_def empty_db_def)
qed

lemma registered_reachable: "(auth_step example_libs example_auth)\<^sup>*\<^sup>* empty_db registered"
  unfolding registered_def
  by (intro r_into_rtranclp auth_step.register) (simp add: fresh_family_def empty_db_def)

lemma one_live_token_per_family_witness:
  "\<exists>r. refreshTokens registered = [r] \<and> rf_userId r = rf_userId (hd (refreshTokens registered))"
proof -
  obtain r where r: "refreshTokens registered = [r]" using registered_tokens by blast
  from one_live_token_per_family [OF registered_reachable, of r "hd (refreshTokens registered)"] r show ?thesis by simp
qed

end
