(* ===== verification/JsText.thy ===== *)
theory JsText
  imports Schema Dates
begin

text \<open>
  Texts that JavaScript makes of values: the decimal text of a number, \<open>JSON.stringify\<close>,
  \<open>toISOString\<close> and the amounts of \<open>Intl.NumberFormat\<close>. A number is the rational value
  of a double. Its text has the fewest significant digits that read back as the same double, at
  most seventeen, found by rounding to 1, 2, ... digits.
\<close>

section \<open>Numbers\<close>

definition shortest_digits :: "rat \<Rightarrow> nat" where
  "shortest_digits x = (case find (\<lambda>p. fl (round_sig half_even 10 p x) = x) [1 ..< 17] of
     Some p \<Rightarrow> p | None \<Rightarrow> 17)"

definition shortest :: "rat \<Rightarrow> rat" where
  "shortest x = round_sig half_even 10 (shortest_digits x) x"

text \<open>
  \<open>digits_text s k n\<close> is the text of \<open>s * 10 ^ (n - k)\<close> for an \<open>s\<close> of \<open>k\<close> digits.
\<close>

definition digits_text :: "string \<Rightarrow> int \<Rightarrow> int \<Rightarrow> string" where
  "digits_text s k n =
     (if k \<le> n \<and> n \<le> 21 then s @ replicate (nat (n - k)) CHR ''0''
      else if 0 < n \<and> n \<le> 21 then take (nat n) s @ ''.'' @ drop (nat n) s
      else if - 6 < n \<and> n \<le> 0 then ''0.'' @ replicate (nat (- n)) CHR ''0'' @ s
      else take 1 s @ (if k = 1 then '''' else ''.'' @ drop 1 s)
           @ (if 0 < n then ''e+'' else ''e-'') @ nat_str (nat \<bar>n - 1\<bar>))"

definition number_text :: "rat \<Rightarrow> string" where
  "number_text x =
     (if x = 0 then ''0'' else
      (let y = shortest \<bar>x\<bar>; n = expo 10 y + 1; k = int (shortest_digits \<bar>x\<bar>);
           t = digits_text (nat_str (nat \<lfloor>y * 10 powi (k - n)\<rfloor>)) k n
       in if x < 0 then ''-'' @ t else t))"

text \<open>The helper \<open>round\<close> of the reports: two decimal places, on doubles.\<close>

definition round2 :: "rat \<Rightarrow> rat" where
  "round2 v = fl (of_int (math_round (fl (v * 100))) / 100)"

lemma round2_0 [simp]: "round2 0 = 0"
  using math_round_int [of 0] by (simp add: round2_def)

lemma round2_mono: "x \<le> y \<Longrightarrow> round2 x \<le> round2 y"
  unfolding round2_def
  by (intro fl_mono divide_right_mono) (simp_all add: math_round_mono fl_mono mult_right_mono)

lemma round2_nonneg: "0 \<le> x \<Longrightarrow> 0 \<le> round2 x"
  using round2_mono [of 0 x] by simp

lemma round2_nat: "n < 2 ^ 40 \<Longrightarrow> round2 (of_nat n) = of_nat n"
proof -
  assume n: "n < 2 ^ 40"
  then have "n * 100 < 2 ^ 53" by simp
  then have "fl (of_nat (n * 100)) = of_nat (n * 100)" by (rule fl_nat)
  then have "math_round (fl (of_nat n * 100)) = int (n * 100)"
    using math_round_int [of "int (n * 100)"] by simp
  then show ?thesis using n fl_nat [of n] by (simp add: round2_def)
qed

section \<open>JSON\<close>

definition json_hex :: "nat \<Rightarrow> char" where
  "json_hex n = (if n < 10 then digit_char n else char_of (87 + n))"

definition json_escape :: "char \<Rightarrow> string" where
  "json_escape c = (let k = ccode c in
     if k = 34 then [char_of (92::nat), c] else if k = 92 then [c, c]
     else if k = 8 then [char_of (92::nat), CHR ''b''] else if k = 9 then [char_of (92::nat), CHR ''t'']
     else if k = 10 then [char_of (92::nat), CHR ''n''] else if k = 12 then [char_of (92::nat), CHR ''f'']
     else if k = 13 then [char_of (92::nat), CHR ''r'']
     else if k < 32 then char_of (92::nat) # ''u00'' @ [json_hex (k div 16), json_hex (k mod 16)]
     else [c])"

definition json_quote :: "string \<Rightarrow> string" where
  "json_quote s = CHR 0x22 # concat (map json_escape s) @ [CHR 0x22]"

fun stringify :: "json \<Rightarrow> string" where
  "stringify JNull = ''null''"
| "stringify (JBool b) = (if b then ''true'' else ''false'')"
| "stringify (JNum x) = number_text x"
| "stringify (JStr s) = json_quote s"
| "stringify (JArr xs) = ''['' @ join '','' (map stringify xs) @ '']''"
| "stringify (JObj kvs) = ''{'' @ join '','' (map (\<lambda>(k, v). json_quote k @ '':'' @ stringify v) kvs) @ ''}''"

section \<open>Dates\<close>

definition month_day_of_days :: "int \<Rightarrow> int \<times> int" where
  "month_day_of_days days =
     (let z = days + 719468;
          era = z div 146097;
          doe = z - era * 146097;
          yoe = (doe - doe div 1460 + doe div 36524 - doe div 146096) div 365;
          doy = doe - (365 * yoe + yoe div 4 - yoe div 100);
          mp = (5 * doy + 2) div 153
      in (if mp < 10 then mp + 3 else mp - 9, doy - (153 * mp + 2) div 5 + 1))"

definition pad0 :: "nat \<Rightarrow> int \<Rightarrow> string" where
  "pad0 w n = (let s = nat_str (nat n) in replicate (w - length s) CHR ''0'' @ s)"

definition toISOString :: "date \<Rightarrow> string" where
  "toISOString t =
     (let days = t div 86400000; ms = t mod 86400000; y = year_of_days days;
          (m, d) = month_day_of_days days
      in (if 0 \<le> y \<and> y \<le> 9999 then pad0 4 y else if y < 0 then ''-'' @ pad0 6 (- y) else ''+'' @ pad0 6 y)
         @ ''-'' @ pad0 2 m @ ''-'' @ pad0 2 d @ ''T''
         @ pad0 2 (ms div 3600000) @ '':'' @ pad0 2 (ms div 60000 mod 60) @ '':''
         @ pad0 2 (ms div 1000 mod 60) @ ''.'' @ pad0 3 (ms mod 1000) @ ''Z'')"

text \<open>\<open>parseDateBoundary\<close>: a bare day counts to its end when it is the end of a period.\<close>

definition is_day_text :: "string \<Rightarrow> bool" where
  "is_day_text s = (length s = 10 \<and> list_all is_digit (take 4 s) \<and> take 1 (drop 4 s) = ''-''
     \<and> list_all is_digit (take 2 (drop 5 s)) \<and> take 1 (drop 7 s) = ''-'' \<and> list_all is_digit (drop 8 s))"

definition parseDateBoundary :: "string \<Rightarrow> bool \<Rightarrow> date option" where
  "parseDateBoundary s boundary_end =
     map_option (\<lambda>t. if boundary_end \<and> is_day_text s then t + 86400000 else t) (new_Date s)"

section \<open>Amounts\<close>

text \<open>
  \<open>Intl.NumberFormat('pt-BR', currency BRL)\<close>: the shortest decimal text rounded to cents, a
  point between thousands, a comma before the cents and a no-break space after the sign.
\<close>

fun group_thousands :: "string \<Rightarrow> string" where
  "group_thousands s = (if length s \<le> 3 then s
     else group_thousands (take (length s - 3) s) @ ''.'' @ drop (length s - 3) s)"

declare group_thousands.simps [simp del]

definition formatMoney :: "rat \<Rightarrow> string" where
  "formatMoney v =
     (let cents = nat \<lfloor>toDecimalPlaces 2 (shortest \<bar>v\<bar>) * 100\<rfloor>
      in (if v < 0 then ''-'' else '''') @ ''R$'' @ [char_of (160::nat)]
         @ group_thousands (nat_str (cents div 100)) @ '','' @ pad0 2 (int (cents mod 100)))"

section \<open>A check against a known value\<close>

lemma toISOString_leap_day: "toISOString 951782400000 = ''2000-02-29T00:00:00.000Z''"
  by code_simp

end
