(* ===== verification/Grouping.thy ===== *)
theory Grouping
  imports JsText
begin

text \<open>
  The loops that fill a JavaScript \<open>Map\<close> with one accumulator per key, as the insight
  generators and the dashboard write them: a map keeps its keys in the order of their first
  insertion. The locale \<open>accumulator\<close> is the contract between such a loop and the
  reports: what one step of the loop keeps of a group holds of every group of the result.
\<close>

section \<open>Maps in insertion order\<close>

fun map_set :: "'k \<Rightarrow> 'v \<Rightarrow> ('k \<times> 'v) list \<Rightarrow> ('k \<times> 'v) list" where
  "map_set k v [] = [(k, v)]"
| "map_set k v ((k', v') # xs) = (if k' = k then (k, v) # xs else (k', v') # map_set k v xs)"

text \<open>
  One turn of \<open>const current = map.get(key) ?? init; ...; map.set(key, current)\<close>, and the loop.
\<close>

definition group_step ::
  "('a \<Rightarrow> 'k) \<Rightarrow> ('a \<Rightarrow> 'v) \<Rightarrow> ('a \<Rightarrow> 'v \<Rightarrow> 'v) \<Rightarrow> ('k \<times> 'v) list \<Rightarrow> 'a \<Rightarrow> ('k \<times> 'v) list" where
  "group_step key init upd m x = map_set (key x) (upd x (coalesce (map_of m (key x)) (init x))) m"

definition grouped ::
  "('a \<Rightarrow> 'k) \<Rightarrow> ('a \<Rightarrow> 'v) \<Rightarrow> ('a \<Rightarrow> 'v \<Rightarrow> 'v) \<Rightarrow> 'a list \<Rightarrow> ('k \<times> 'v) list" where
  "grouped key init upd xs = foldl (group_step key init upd) [] xs"

text \<open>The items of one key, and the keys in the order they appear in.\<close>

definition items_of :: "('a \<Rightarrow> 'k) \<Rightarrow> 'k \<Rightarrow> 'a list \<Rightarrow> 'a list" where
  "items_of key k xs = filter (\<lambda>x. key x = k) xs"

definition appearing :: "'k list \<Rightarrow> 'k list" where
  "appearing ks = foldl (\<lambda>seen k. if k \<in> set seen then seen else seen @ [k]) [] ks"

lemma map_of_map_set [simp]: "map_of (map_set k v m) = (map_of m)(k \<mapsto> v)"
  by (induction m) auto

lemma keys_map_set: "map fst (map_set k v m) = (if k \<in> set (map fst m) then map fst m else map fst m @ [k])"
  by (induction m) (auto simp del: set_map)

lemma distinct_map_set: "distinct (map fst m) \<Longrightarrow> distinct (map fst (map_set k v m))"
  by (simp add: keys_map_set)

lemma grouped_snoc: "grouped key init upd (xs @ [x]) = group_step key init upd (grouped key init upd xs) x"
  by (simp add: grouped_def)

lemma grouped_Nil [simp]: "grouped key init upd [] = []"
  by (simp add: grouped_def)

lemma items_of_snoc: "items_of key k (xs @ [x]) = items_of key k xs @ (if key x = k then [x] else [])"
  by (simp add: items_of_def)

lemma appearing_snoc: "appearing (ks @ [k]) = (if k \<in> set (appearing ks) then appearing ks else appearing ks @ [k])"
  by (simp add: appearing_def)

lemma set_appearing [simp]: "set (appearing ks) = set ks"
  by (induction ks rule: rev_induct) (auto simp: appearing_snoc, simp add: appearing_def)

lemma distinct_appearing [simp]: "distinct (appearing ks)"
  by (induction ks rule: rev_induct) (auto simp: appearing_snoc, simp add: appearing_def)

lemma grouped_keys: "map fst (grouped key init upd xs) = appearing (map key xs)"
proof (induction xs rule: rev_induct)
  case Nil
  then show ?case by (simp add: appearing_def)
next
  case (snoc x xs)
  then show ?case
    by (simp add: grouped_snoc group_step_def keys_map_set appearing_snoc del: set_map)
qed

lemma distinct_grouped [simp]: "distinct (map fst (grouped key init upd xs))"
  by (simp add: grouped_keys)

lemma grouped_keys_set: "fst ` set (grouped key init upd xs) = key ` set xs"
  by (metis grouped_keys set_appearing set_map)

section \<open>What the groups hold\<close>

locale accumulator =
  fixes key :: "'a \<Rightarrow> 'k" and init :: "'a \<Rightarrow> 'v" and upd :: "'a \<Rightarrow> 'v \<Rightarrow> 'v"
    and holds :: "'a list \<Rightarrow> 'v \<Rightarrow> bool"
  assumes start: "holds [x] (upd x (init x))"
    and extend: "ys \<noteq> [] \<Longrightarrow> holds ys v \<Longrightarrow> holds (ys @ [x]) (upd x v)"
begin

lemma lookup:
  "(items_of key k xs = [] \<and> map_of (grouped key init upd xs) k = None)
   \<or> (items_of key k xs \<noteq> [] \<and> (\<exists>v. map_of (grouped key init upd xs) k = Some v \<and> holds (items_of key k xs) v))"
proof (induction xs rule: rev_induct)
  case Nil
  show ?case by (simp add: items_of_def)
next
  case (snoc x xs)
  then show ?case
    using start [of x] extend
    by (cases "map_of (grouped key init upd xs) k")
      (auto simp: grouped_snoc group_step_def items_of_snoc)
qed

lemma group:
  assumes "(k, v) \<in> set (grouped key init upd xs)"
  shows "holds (items_of key k xs) v" "items_of key k xs \<noteq> []"
proof -
  have "map_of (grouped key init upd xs) k = Some v"
    using assms by simp
  then show "holds (items_of key k xs) v" "items_of key k xs \<noteq> []"
    using lookup [of k xs] by auto
qed

end

section \<open>Counts and averages\<close>

record CountGroup =
  cg_count :: nat
  cg_key :: string
  cg_label :: string

record AverageGroup =
  gr_average :: rat
  gr_count :: nat
  gr_key :: string
  gr_label :: string

definition countBy :: "'a list \<Rightarrow> ('a \<Rightarrow> string) \<Rightarrow> ('a \<Rightarrow> string) \<Rightarrow> CountGroup list" where
  "countBy items key label =
     map (\<lambda>(k, n, l). \<lparr> cg_count = n, cg_key = k, cg_label = l \<rparr>)
       (grouped key (\<lambda>x. (0, label x)) (\<lambda>x (n, l). (Suc n, l)) items)"

definition aggregate ::
  "'a list \<Rightarrow> ('a \<Rightarrow> string) \<Rightarrow> ('a \<Rightarrow> rat) \<Rightarrow> ('a \<Rightarrow> string) \<Rightarrow> AverageGroup list" where
  "aggregate items key amount label =
     map (\<lambda>(k, n, l, s). \<lparr> gr_average = fl (s / of_nat n), gr_count = n, gr_key = k, gr_label = l \<rparr>)
       (grouped key (\<lambda>x. (0, label x, 0)) (\<lambda>x (n, l, s). (Suc n, l, fl (s + amount x))) items)"

text \<open>The sum a loop makes of doubles, in the order of the list.\<close>

definition fl_sum :: "rat list \<Rightarrow> rat" where
  "fl_sum vs = foldl (\<lambda>s v. fl (s + v)) 0 vs"

lemma fl_sum_snoc: "fl_sum (vs @ [v]) = fl (fl_sum vs + v)"
  by (simp add: fl_sum_def)

lemma fl_sum_nonneg: "(\<And>v. v \<in> set vs \<Longrightarrow> 0 \<le> v) \<Longrightarrow> 0 \<le> fl_sum vs"
  by (induction vs rule: rev_induct) (auto simp: fl_sum_snoc intro!: fl_nonneg, simp add: fl_sum_def)

interpretation counting: accumulator key "\<lambda>x. (0, label x)" "\<lambda>x (n, l). (Suc n, l)"
  "\<lambda>ys (n, l). n = length ys \<and> l = label (hd ys)" for key label
  by unfold_locales (auto simp: hd_append)

interpretation averaging: accumulator key "\<lambda>x. (0, label x, 0)" "\<lambda>x (n, l, s). (Suc n, l, fl (s + amount x))"
  "\<lambda>ys (n, l, s). n = length ys \<and> l = label (hd ys) \<and> s = fl_sum (map amount ys)" for key label amount
  by unfold_locales (auto simp: hd_append fl_sum_snoc, simp_all add: fl_sum_def)

lemma countBy_group:
  assumes "g \<in> set (countBy items key label)"
  shows "cg_count g = length (items_of key (cg_key g) items)"
    "cg_label g = label (hd (items_of key (cg_key g) items))"
    "items_of key (cg_key g) items \<noteq> []"
  using assms counting.group [of _ _ key label items] by (fastforce simp: countBy_def)+

lemma aggregate_group:
  assumes "g \<in> set (aggregate items key amount label)"
  shows "gr_count g = length (items_of key (gr_key g) items)"
    "gr_average g = fl (fl_sum (map amount (items_of key (gr_key g) items)) / of_nat (gr_count g))"
    "gr_label g = label (hd (items_of key (gr_key g) items))"
    "items_of key (gr_key g) items \<noteq> []"
  using assms averaging.group [of _ _ key label amount items] by (fastforce simp: aggregate_def)+

lemma countBy_keys: "map cg_key (countBy items key label) = appearing (map key items)"
  by (simp add: countBy_def case_prod_unfold flip: grouped_keys [of key "\<lambda>x. (0, label x)" "\<lambda>x (n, l). (Suc n, l)"])

lemma aggregate_keys: "map gr_key (aggregate items key amount label) = appearing (map key items)"
  by (simp add: aggregate_def case_prod_unfold
    flip: grouped_keys [of key "\<lambda>x. (0, label x, 0)" "\<lambda>x (n, l, s). (Suc n, l, fl (s + amount x))"])

text \<open>The counts of the groups add up to the number of items.\<close>

lemma sum_items_of: "sum_list (map (\<lambda>k. length (items_of key k xs)) (appearing (map key xs))) = length xs"
proof -
  have "(\<Sum>k \<in> S. length (items_of key k xs)) = length xs" if "finite S" "key ` set xs \<subseteq> S" for S
    using that by (induction xs rule: rev_induct) 
        (auto simp: items_of_snoc sum.distrib if_distrib [of length] sum.delta cong: if_cong, simp add: items_of_def)
  then show ?thesis
    by (simp add: sum_list_distinct_conv_sum_set)
qed

lemma countBy_total: "sum_list (map cg_count (countBy items key label)) = length items"
proof -
  have "map cg_count (countBy items key label) = map (\<lambda>k. length (items_of key k items)) (map cg_key (countBy items key label))"
    by (simp add: countBy_group(1) [of _ items key label])
  then show ?thesis by (simp add: countBy_keys sum_items_of)
qed

end
