(* ===== verification/InsightRules.thy ===== *)
theory InsightRules
  imports Grouping Logistics
begin

text \<open>
  The generators of cost and performance insights: each rule reads rows of one tenant in a
  period and yields candidates. Prices become doubles by \<open>toNumber\<close>; sums and averages are
  computed on doubles in the order of the loops. The rows of a query without an order come in
  the order of the table. The option rows of a tenant are those of its simulations, created
  with them.
\<close>

section \<open>Periods and candidates\<close>

record InsightGenerationPeriod =
  currentEnd :: date
  currentStart :: date
  previousEnd :: date
  previousStart :: date

record InsightCandidate =
  ic_actionUrl :: "string option"
  ic_category :: InsightCategory
  ic_comparisonValue :: "rat option"
  ic_description :: string
  ic_evidence :: "(string \<times> json) list"
  ic_metricValue :: "rat option"
  ic_metadata :: "json option"
  ic_percentageChange :: "rat option"
  ic_resourceId :: "string option"
  ic_resourceType :: "string option"
  ic_severity :: InsightSeverity
  ic_title :: string
  ic_type :: string

text \<open>A candidate with the properties every rule gives; the others are undefined.\<close>

definition candidate ::
  "string \<Rightarrow> InsightCategory \<Rightarrow> InsightSeverity \<Rightarrow> string \<Rightarrow> string \<Rightarrow> string
    \<Rightarrow> (string \<times> json) list \<Rightarrow> InsightCandidate" where
  "candidate type category severity actionUrl title description evidence =
     \<lparr> ic_actionUrl = Some actionUrl, ic_category = category, ic_comparisonValue = None,
       ic_description = description, ic_evidence = evidence, ic_metricValue = None, ic_metadata = None,
       ic_percentageChange = None, ic_resourceId = None, ic_resourceType = None,
       ic_severity = severity, ic_title = title, ic_type = type \<rparr>"

definition between :: "date \<Rightarrow> date \<Rightarrow> date \<Rightarrow> bool" where
  "between from until t = (from \<le> t \<and> t < until)"

definition current :: "InsightGenerationPeriod \<Rightarrow> date \<Rightarrow> bool" where
  "current p = between (currentStart p) (currentEnd p)"

definition route_of :: "FreightSimulation \<Rightarrow> string" where
  "route_of s = fs_originPostalCode s @ ''->'' @ fs_destinationPostalCode s"

definition simulations_in :: "string \<Rightarrow> (date \<Rightarrow> bool) \<Rightarrow> db \<Rightarrow> FreightSimulation list" where
  "simulations_in tenantId period d =
     findMany (\<lambda>s. period (fs_createdAt s) \<and> fs_tenantId s = tenantId) (freightSimulations d)"

definition option_rows :: "db \<Rightarrow> (FreightSimulation \<times> FreightSimulationOption) list" where
  "option_rows d = concat (map (\<lambda>s. map (Pair s) (fs_options s)) (freightSimulations d))"

definition options_in ::
  "string \<Rightarrow> (date \<Rightarrow> bool) \<Rightarrow> db \<Rightarrow> (FreightSimulation \<times> FreightSimulationOption) list" where
  "options_in tenantId period d =
     findMany (\<lambda>(s, opt). period (fs_createdAt s) \<and> fs_tenantId s = tenantId) (option_rows d)"

definition percentageChange :: "rat \<Rightarrow> rat \<Rightarrow> rat" where
  "percentageChange now before = (if before = 0 then 0 else fl (fl (fl (now - before) / before) * 100))"

definition share_percent :: "nat \<Rightarrow> nat \<Rightarrow> rat" where
  "share_percent part whole = fl (fl (of_nat part / of_nat whole) * 100)"

definition topKey :: "(string \<times> nat) list \<Rightarrow> string option" where
  "topKey m = (case orderBy (desc snd) m of [] \<Rightarrow> None | e # es \<Rightarrow> Some (fst e))"

definition null_or_text :: "string option \<Rightarrow> json" where
  "null_or_text v = (case v of None \<Rightarrow> JNull | Some s \<Rightarrow> JStr s)"

definition JNat :: "nat \<Rightarrow> json" where
  "JNat n = JNum (of_nat n)"

section \<open>Costs\<close>

text \<open>The first of the cheapest options, by the loop of \<open>reduce\<close>.\<close>

definition cheapest_option :: "FreightSimulationOption list \<Rightarrow> FreightSimulationOption option" where
  "cheapest_option opts = foldl (\<lambda>best opt. case best of
       None \<Rightarrow> Some opt
     | Some b \<Rightarrow> if fo_totalPrice opt < fo_totalPrice b then Some opt else Some b) None opts"

record Savings =
  sv_occurrences :: nat
  sv_potentialSavings :: rat
  sv_selectedByCarrier :: "(string \<times> nat) list"
  sv_cheaperByCarrier :: "(string \<times> nat) list"

definition count_in :: "string \<Rightarrow> (string \<times> nat) list \<Rightarrow> (string \<times> nat) list" where
  "count_in k m = map_set k (Suc (coalesce (map_of m k) 0)) m"

definition savings_step :: "Savings \<Rightarrow> FreightSimulation \<Rightarrow> Savings" where
  "savings_step v s =
     (case (find fo_selected (fs_options s), cheapest_option (fs_options s)) of
        (Some selected, Some cheapest) \<Rightarrow>
          if fo_id selected = fo_id cheapest \<or> \<not> fo_totalPrice cheapest < fo_totalPrice selected then v
          else \<lparr> sv_occurrences = Suc (sv_occurrences v),
                 sv_potentialSavings =
                   fl (sv_potentialSavings v + fl (dec20 (fo_totalPrice selected - fo_totalPrice cheapest))),
                 sv_selectedByCarrier = count_in (fo_carrierName selected) (sv_selectedByCarrier v),
                 sv_cheaperByCarrier = count_in (fo_carrierName cheapest) (sv_cheaperByCarrier v) \<rparr>
      | _ \<Rightarrow> v)"

definition savings_of :: "FreightSimulation list \<Rightarrow> Savings" where
  "savings_of sims = foldl savings_step
     \<lparr> sv_occurrences = 0, sv_potentialSavings = 0, sv_selectedByCarrier = [], sv_cheaperByCarrier = [] \<rparr> sims"

definition savingsOpportunity :: "InsightGenerationPeriod \<Rightarrow> string \<Rightarrow> db \<Rightarrow> InsightCandidate list" where
  "savingsOpportunity p tenantId d =
     (let v = savings_of (take 500 (orderBy (desc fs_createdAt) (simulations_in tenantId (current p) d))) in
      if sv_occurrences v < 2 \<or> sv_potentialSavings v \<le> 0 then []
      else [(candidate ''COST_SAVINGS_NOT_SELECTED'' COST OPPORTUNITY ''/freight/history''
               ''Economia potencial em opcoes nao selecionadas''
               (''Em '' @ nat_str (sv_occurrences v)
                @ '' simulacoes, a opcao selecionada nao foi a mais barata. A economia potencial estimada no periodo e ''
                @ formatMoney (sv_potentialSavings v) @ ''.'')
               [(''cheaperCarrier'', null_or_text (topKey (sv_cheaperByCarrier v))),
                (''occurrences'', JNat (sv_occurrences v)),
                (''selectedCarrier'', null_or_text (topKey (sv_selectedByCarrier v)))])
             \<lparr> ic_metricValue := Some (round2 (sv_potentialSavings v)),
               ic_resourceType := Some ''FreightSimulation'' \<rparr>])"

definition routeAverages :: "string \<Rightarrow> date \<Rightarrow> date \<Rightarrow> db \<Rightarrow> AverageGroup list" where
  "routeAverages tenantId from until d =
     aggregate (take 1000 (findMany (\<lambda>s. between from until (fs_createdAt s) \<and> fs_estimatedPrice s \<noteq> None
                                        \<and> fs_tenantId s = tenantId) (freightSimulations d)))
       route_of (\<lambda>s. case fs_estimatedPrice s of None \<Rightarrow> 0 | Some price \<Rightarrow> fl price) route_of"

definition route_increase :: "AverageGroup \<Rightarrow> AverageGroup \<Rightarrow> InsightCandidate" where
  "route_increase r prior =
     (let change = percentageChange (gr_average r) (gr_average prior) in
      (candidate ''ROUTE_COST_INCREASE'' COST (if 30 \<le> change then WARNING else INFO) ''/freight/history''
         (''Custo medio subiu na rota '' @ gr_key r)
         (''A rota '' @ gr_key r @ '' teve aumento de '' @ number_text (round2 change)
          @ ''% no custo medio em relacao ao periodo anterior.'')
         [(''currentAverage'', JNum (round2 (gr_average r))), (''currentCount'', JNat (gr_count r)),
          (''previousAverage'', JNum (round2 (gr_average prior))), (''previousCount'', JNat (gr_count prior)),
          (''route'', JStr (gr_key r))])
      \<lparr> ic_comparisonValue := Some (round2 (gr_average prior)), ic_metricValue := Some (round2 (gr_average r)),
        ic_percentageChange := Some (round2 change), ic_resourceType := Some ''Route'' \<rparr>)"

definition routeCostIncrease :: "InsightGenerationPeriod \<Rightarrow> string \<Rightarrow> db \<Rightarrow> InsightCandidate list" where
  "routeCostIncrease p tenantId d =
     (let now = routeAverages tenantId (currentStart p) (currentEnd p) d;
          before = routeAverages tenantId (previousStart p) (previousEnd p) d
      in take 5 (concat (map (\<lambda>r.
           case find (\<lambda>x. gr_key x = gr_key r) before of
             None \<Rightarrow> []
           | Some prior \<Rightarrow>
               if gr_count r < 2 \<or> gr_count prior < 2 \<or> gr_average r \<le> gr_average prior
                  \<or> percentageChange (gr_average r) (gr_average prior) < 15
               then [] else [route_increase r prior]) now)))"

definition best_group :: "AverageGroup list \<Rightarrow> AverageGroup option" where
  "best_group groups = (case orderBy (asc gr_average) (filter (\<lambda>g. 2 \<le> gr_count g) groups) of
     [] \<Rightarrow> None | g # gs \<Rightarrow> Some g)"

definition cheapestCarrier :: "InsightGenerationPeriod \<Rightarrow> string \<Rightarrow> db \<Rightarrow> InsightCandidate list" where
  "cheapestCarrier p tenantId d =
     (let groups = aggregate (take 1000 (options_in tenantId (current p) d))
                     (\<lambda>(s, opt). fo_carrierId opt) (\<lambda>(s, opt). fl (fo_totalPrice opt))
                     (\<lambda>(s, opt). fo_carrierName opt)
      in case best_group groups of
           None \<Rightarrow> []
         | Some best \<Rightarrow>
             [(candidate ''CHEAPEST_CARRIER'' COST OPPORTUNITY ''/freight/simulate''
                 (gr_label best @ '' e a transportadora mais economica no periodo'')
                 (gr_label best @ '' apresentou o menor preco medio entre transportadoras com volume minimo no periodo (''
                  @ formatMoney (gr_average best) @ '').'')
                 [(''averagePrice'', JNum (round2 (gr_average best))), (''carrierName'', JStr (gr_label best)),
                  (''optionCount'', JNat (gr_count best))])
              \<lparr> ic_metricValue := Some (round2 (gr_average best)), ic_resourceId := Some (gr_key best),
                ic_resourceType := Some ''Carrier'' \<rparr>])"

definition price_outlier :: "string \<Rightarrow> rat list \<Rightarrow> InsightCandidate list" where
  "price_outlier route prices =
     (let average = fl (fl_sum prices / of_nat (length prices));
          threshold = fl (average * fl (135 / 100));
          high = filter (\<lambda>v. threshold < v) prices
      in if length prices < 4 \<or> high = [] then []
         else [(candidate ''FREIGHT_PRICE_OUTLIER'' COST WARNING ''/freight/history''
                  (''Fretes fora do padrao na rota '' @ route)
                  (nat_str (length high) @ '' opcao(oes) da rota '' @ route
                   @ '' ficaram mais de 35% acima da media da rota.'')
                  [(''average'', JNum (round2 average)), (''outliers'', JNat (length high)),
                   (''route'', JStr route), (''threshold'', JNum (round2 threshold))])
                \<lparr> ic_metricValue := Some (of_nat (length high)), ic_resourceType := Some ''Route'' \<rparr>])"

definition freightOutliers :: "InsightGenerationPeriod \<Rightarrow> string \<Rightarrow> db \<Rightarrow> InsightCandidate list" where
  "freightOutliers p tenantId d =
     (let byRoute = grouped (\<lambda>(s, opt). route_of s) (\<lambda>_. []) (\<lambda>(s, opt) vs. vs @ [fl (fo_totalPrice opt)])
                      (take 1000 (options_in tenantId (current p) d))
      in take 3 (concat (map (\<lambda>(route, prices). price_outlier route prices) byRoute)))"

definition cost_insights :: "InsightGenerationPeriod \<Rightarrow> string \<Rightarrow> db \<Rightarrow> InsightCandidate list" where
  "cost_insights p tenantId d =
     savingsOpportunity p tenantId d @ routeCostIncrease p tenantId d
     @ cheapestCarrier p tenantId d @ freightOutliers p tenantId d"

section \<open>Performance\<close>

definition fastestCarrier :: "InsightGenerationPeriod \<Rightarrow> string \<Rightarrow> db \<Rightarrow> InsightCandidate list" where
  "fastestCarrier p tenantId d =
     (let groups = aggregate (take 1000 (options_in tenantId (current p) d))
                     (\<lambda>(s, opt). fo_carrierId opt) (\<lambda>(s, opt). of_int (fo_deadlineDays opt))
                     (\<lambda>(s, opt). fo_carrierName opt)
      in case best_group groups of
           None \<Rightarrow> []
         | Some best \<Rightarrow>
             [(candidate ''FASTEST_CARRIER'' DEADLINE INFO ''/freight/simulate''
                 (gr_label best @ '' lidera em prazo medio'')
                 (gr_label best @ '' apresentou o menor prazo medio ofertado (''
                  @ number_text (round2 (gr_average best)) @ '' dia(s)) no periodo.'')
                 [(''averageDeadlineDays'', JNum (round2 (gr_average best))), (''carrierName'', JStr (gr_label best)),
                  (''optionCount'', JNat (gr_count best))])
              \<lparr> ic_metricValue := Some (round2 (gr_average best)), ic_resourceId := Some (gr_key best),
                ic_resourceType := Some ''Carrier'' \<rparr>])"

definition top_group :: "CountGroup list \<Rightarrow> CountGroup option" where
  "top_group groups = (case orderBy (desc cg_count) groups of [] \<Rightarrow> None | g # gs \<Rightarrow> Some g)"

definition carrierDependency :: "InsightGenerationPeriod \<Rightarrow> string \<Rightarrow> db \<Rightarrow> InsightCandidate list" where
  "carrierDependency p tenantId d =
     (let selected = take 1000 (filter (\<lambda>(s, opt). fo_selected opt) (options_in tenantId (current p) d)) in
      if length selected < 4 then []
      else case top_group (countBy selected (\<lambda>(s, opt). fo_carrierId opt) (\<lambda>(s, opt). fo_carrierName opt)) of
             None \<Rightarrow> []
           | Some lead \<Rightarrow>
               let share = share_percent (cg_count lead) (length selected) in
               if share < 65 then []
               else [(candidate ''CARRIER_DEPENDENCY'' CARRIER (if 80 \<le> share then WARNING else INFO)
                        ''/freight/history'' (''Dependencia elevada de '' @ cg_label lead)
                        (number_text (round2 share) @ ''% das opcoes selecionadas estao concentradas em '' @ cg_label lead
                         @ ''. Avalie alternativas para reduzir dependencia operacional.'')
                        [(''carrierName'', JStr (cg_label lead)), (''selectedCount'', JNat (cg_count lead)),
                         (''share'', JNum (round2 share)), (''totalSelected'', JNat (length selected))])
                     \<lparr> ic_metricValue := Some (round2 share), ic_resourceId := Some (cg_key lead),
                       ic_resourceType := Some ''Carrier'' \<rparr>])"

definition routeConcentration :: "InsightGenerationPeriod \<Rightarrow> string \<Rightarrow> db \<Rightarrow> InsightCandidate list" where
  "routeConcentration p tenantId d =
     (let simulations = take 1000 (simulations_in tenantId (current p) d) in
      case top_group (countBy simulations route_of route_of) of
        None \<Rightarrow> []
      | Some lead \<Rightarrow>
          if cg_count lead < 3 then []
          else [(candidate ''ROUTE_NEGOTIATION_POTENTIAL'' ROUTE OPPORTUNITY ''/freight/history''
                   ''Rota recorrente com potencial de negociacao''
                   (''A rota '' @ cg_label lead @ '' concentrou '' @ nat_str (cg_count lead)
                    @ '' simulacoes no periodo. Use esse volume para negociar tabela dedicada.'')
                   [(''route'', JStr (cg_label lead)), (''simulationCount'', JNat (cg_count lead)),
                    (''totalSimulations'', JNat (length simulations))])
                \<lparr> ic_metricValue := Some (of_nat (cg_count lead)), ic_resourceType := Some ''Route'' \<rparr>])"

definition customer_name :: "db \<Rightarrow> FreightSimulation \<Rightarrow> string" where
  "customer_name d s =
     (case find (\<lambda>c. Some (c_id c) = fs_customerId s) (customers d) of
        None \<Rightarrow> ''Cliente sem nome'' | Some c \<Rightarrow> c_name c)"

definition customerVolume :: "InsightGenerationPeriod \<Rightarrow> string \<Rightarrow> db \<Rightarrow> InsightCandidate list" where
  "customerVolume p tenantId d =
     (let simulations = take 1000 (filter (\<lambda>s. fs_customerId s \<noteq> None) (simulations_in tenantId (current p) d)) in
      case top_group (countBy simulations (\<lambda>s. coalesce (fs_customerId s) ''unknown'') (customer_name d)) of
        None \<Rightarrow> []
      | Some lead \<Rightarrow>
          if cg_count lead < 2 then []
          else [(candidate ''CUSTOMER_SIMULATION_VOLUME'' CUSTOMER INFO ''/customers''
                   (cg_label lead @ '' lidera volume de simulacoes'')
                   (cg_label lead @ '' concentrou '' @ nat_str (cg_count lead)
                    @ '' simulacoes. Vale revisar rotas recorrentes e condicoes comerciais desse cliente.'')
                   [(''customerName'', JStr (cg_label lead)), (''simulationCount'', JNat (cg_count lead))])
                \<lparr> ic_metricValue := Some (of_nat (cg_count lead)), ic_resourceId := Some (cg_key lead),
                  ic_resourceType := Some ''Customer'' \<rparr>])"

definition delayed_insight :: "nat \<Rightarrow> InsightCandidate list" where
  "delayed_insight delayed =
     (if delayed = 0 then []
      else [(candidate ''DELAYED_SHIPMENTS'' OPERATION (if 3 \<le> delayed then CRITICAL else WARNING) ''/dashboard''
               ''Shipments atrasados exigem acao''
               (nat_str delayed @ '' shipment(s) estao com previsao vencida e ainda nao possuem status terminal.'')
               [(''delayedShipments'', JNat delayed)])
            \<lparr> ic_metricValue := Some (of_nat delayed), ic_resourceType := Some ''Shipment'' \<rparr>])"

definition conversion_insight :: "nat \<Rightarrow> nat \<Rightarrow> InsightCandidate list" where
  "conversion_insight shipped simulated =
     (let conversion = share_percent shipped simulated in
      if simulated < 3 \<or> 40 \<le> conversion then []
      else [(candidate ''LOW_SIMULATION_CONVERSION'' OPERATION OPPORTUNITY ''/freight/history''
               ''Conversao de simulacao em operacao esta baixa''
               (''A conversao de simulacoes em shipments foi de '' @ number_text (round2 conversion)
                @ ''%. Revise follow-up comercial ou criterios de selecao.'')
               [(''conversionRate'', JNum (round2 conversion)), (''shipments'', JNat shipped),
                (''simulations'', JNat simulated)])
            \<lparr> ic_metricValue := Some (round2 conversion) \<rparr>])"

definition operationRisks :: "date \<Rightarrow> InsightGenerationPeriod \<Rightarrow> string \<Rightarrow> db \<Rightarrow> InsightCandidate list" where
  "operationRisks now p tenantId d =
     delayed_insight (count_rows (\<lambda>s. sh_estimatedDeliveryAt s < now
         \<and> sh_status s \<notin> {DELIVERED, CANCELED, RETURNED} \<and> sh_tenantId s = tenantId) (shipments d))
     @ conversion_insight
         (count_rows (\<lambda>s. current p (sh_createdAt s) \<and> sh_tenantId s = tenantId) (shipments d))
         (length (simulations_in tenantId (current p) d))"

definition import_errors :: "ImportJob \<Rightarrow> InsightCandidate list" where
  "import_errors j =
     (let rate = fl (of_nat (ij_errorRows j) / of_nat (ij_totalRows j)) in
      if ij_totalRows j = 0 \<or> rate < fl (1 / 5) then []
      else [(candidate ''IMPORT_HIGH_ERROR_RATE'' IMPORT (if 1 / 2 \<le> rate then WARNING else INFO)
               (''/imports/'' @ ij_id j) ''Importacao com alta taxa de erro''
               (''O arquivo '' @ ij_filename j @ '' teve '' @ nat_str (ij_errorRows j) @ '' erro(s) em ''
                @ nat_str (ij_totalRows j) @ '' linha(s).'')
               [(''errorRate'', JNum (round2 (fl (rate * 100)))), (''errorRows'', JNat (ij_errorRows j)),
                (''filename'', JStr (ij_filename j)), (''totalRows'', JNat (ij_totalRows j))])
            \<lparr> ic_metricValue := Some (round2 (fl (rate * 100))), ic_resourceId := Some (ij_id j),
              ic_resourceType := Some ''ImportJob'' \<rparr>])"

definition import_stalled :: "date \<Rightarrow> ImportJob \<Rightarrow> InsightCandidate list" where
  "import_stalled now j =
     (if ij_status j = PROCESSING \<and> ij_updatedAt j < now - 30 * 60 * 1000 then
        [(candidate ''IMPORT_STALLED'' IMPORT WARNING (''/imports/'' @ ij_id j) ''Importacao possivelmente travada''
            (''O job '' @ ij_filename j @ '' esta em processamento ha mais de 30 minutos sem conclusao.'')
            [(''filename'', JStr (ij_filename j)), (''updatedAt'', JStr (toISOString (ij_updatedAt j)))])
         \<lparr> ic_resourceId := Some (ij_id j), ic_resourceType := Some ''ImportJob'' \<rparr>]
      else [])"

definition importQuality :: "date \<Rightarrow> InsightGenerationPeriod \<Rightarrow> string \<Rightarrow> db \<Rightarrow> InsightCandidate list" where
  "importQuality now p tenantId d =
     take 5 (concat (map (\<lambda>j. import_errors j @ import_stalled now j)
       (take 200 (findMany (\<lambda>j. current p (ij_createdAt j) \<and> ij_tenantId j = tenantId) (importJobs d)))))"

definition performance_insights ::
  "date \<Rightarrow> InsightGenerationPeriod \<Rightarrow> string \<Rightarrow> db \<Rightarrow> InsightCandidate list" where
  "performance_insights now p tenantId d =
     fastestCarrier p tenantId d @ carrierDependency p tenantId d @ routeConcentration p tenantId d
     @ customerVolume p tenantId d @ operationRisks now p tenantId d @ importQuality now p tenantId d"

definition generate_insights ::
  "date \<Rightarrow> InsightGenerationPeriod \<Rightarrow> string \<Rightarrow> db \<Rightarrow> InsightCandidate list" where
  "generate_insights now p tenantId d = cost_insights p tenantId d @ performance_insights now p tenantId d"

section \<open>What the rules read and how much they yield\<close>

lemma at_most_21: "length (generate_insights now p tenantId d) \<le> 21"
proof -
  have "length (savingsOpportunity p tenantId d) \<le> 1" "length (cheapestCarrier p tenantId d) \<le> 1"
    "length (fastestCarrier p tenantId d) \<le> 1" "length (carrierDependency p tenantId d) \<le> 1"
    "length (routeConcentration p tenantId d) \<le> 1" "length (customerVolume p tenantId d) \<le> 1"
    by (simp_all add: savingsOpportunity_def cheapestCarrier_def fastestCarrier_def carrierDependency_def
      routeConcentration_def customerVolume_def Let_def split: option.split)
  moreover have "length (routeCostIncrease p tenantId d) \<le> 5" "length (freightOutliers p tenantId d) \<le> 3"
    "length (importQuality now p tenantId d) \<le> 5"
    by (simp_all add: routeCostIncrease_def freightOutliers_def importQuality_def Let_def)
  moreover have "length (operationRisks now p tenantId d) \<le> 2"
    by (simp add: operationRisks_def delayed_insight_def conversion_insight_def Let_def)
  ultimately show ?thesis
    by (simp add: generate_insights_def cost_insights_def performance_insights_def)
qed

text \<open>The rules read no insight: they give the same on databases that agree on the rest.\<close>

lemma generate_cong:
  assumes "freightSimulations d' = freightSimulations d" "customers d' = customers d"
    "shipments d' = shipments d" "importJobs d' = importJobs d"
  shows "generate_insights now p tenantId d' = generate_insights now p tenantId d"
proof -
  have "simulations_in t q d' = simulations_in t q d" "options_in t q d' = options_in t q d"
    "routeAverages t x y d' = routeAverages t x y d" for t q x y
    by (simp_all add: simulations_in_def options_in_def option_rows_def routeAverages_def assms)
  moreover have "customer_name d' = customer_name d"
    by (rule ext) (simp add: customer_name_def assms)
  ultimately show ?thesis
    by (simp only: generate_insights_def cost_insights_def savingsOpportunity_def routeCostIncrease_def
      cheapestCarrier_def freightOutliers_def performance_insights_def fastestCarrier_def
      carrierDependency_def routeConcentration_def customerVolume_def operationRisks_def
      importQuality_def assms)
qed

end
