(* ===== verification/Insights.thy ===== *)
theory Insights
  imports InsightRules
begin

text \<open>
  The insights service: the period of the rules, the deduplicated writing of their candidates,
  the states of an insight and the reads. The candidates of a refresh are written one after the
  other in their order. Numbers are stored with the four decimal places of their columns; the
  widths of the columns are not modelled.
\<close>

section \<open>Requests and answers\<close>

record ListInsightsDto =
  iq_page :: nat
  iq_perPage :: nat
  iq_category :: "InsightCategory option"
  iq_severity :: "InsightSeverity option"
  iq_status :: "InsightStatus option"
  iq_startDate :: "string option"
  iq_endDate :: "string option"

record InsightDto =
  id_actionUrl :: "string option"
  id_category :: InsightCategory
  id_comparisonValue :: "rat option"
  id_description :: string
  id_dismissedAt :: "date option"
  id_evidence :: "(string \<times> json) list"
  id_generatedAt :: date
  id_id :: string
  id_metadata :: "(string \<times> json) list option"
  id_metricValue :: "rat option"
  id_percentageChange :: "rat option"
  id_periodEnd :: date
  id_periodStart :: date
  id_readAt :: "date option"
  id_resourceId :: "string option"
  id_resourceType :: "string option"
  id_severity :: InsightSeverity
  id_status :: InsightStatus
  id_title :: string
  id_type :: string

record InsightSummaryDto =
  is_active :: nat
  is_byCategory :: "(InsightCategory \<times> nat) list"
  is_bySeverity :: "(InsightSeverity \<times> nat) list"
  is_generatedAt :: "date option"
  is_newCount :: nat
  is_opportunities :: nat

record RefreshInsightsResultDto =
  ri_generated :: nat
  ri_periodEnd :: date
  ri_periodStart :: date

text \<open>Severities are ordered as the schema lists them.\<close>

definition severities :: "InsightSeverity list" where
  "severities = [INFO, OPPORTUNITY, WARNING, CRITICAL]"

definition categories :: "InsightCategory list" where
  "categories = [COST, DEADLINE, CARRIER, ROUTE, CUSTOMER, OPERATION, IMPORT, DATA_QUALITY]"

fun severity_rank :: "InsightSeverity \<Rightarrow> nat" where
  "severity_rank INFO = 1"
| "severity_rank OPPORTUNITY = 2"
| "severity_rank WARNING = 3"
| "severity_rank CRITICAL = 4"

lemma severity_rank_inject [simp]: "severity_rank a = severity_rank b \<longleftrightarrow> a = b"
  by (cases a; cases b) simp_all

instantiation InsightSeverity :: linorder
begin

definition less_eq_InsightSeverity :: "InsightSeverity \<Rightarrow> InsightSeverity \<Rightarrow> bool" where
  "less_eq_InsightSeverity a b = (severity_rank a \<le> severity_rank b)"

definition less_InsightSeverity :: "InsightSeverity \<Rightarrow> InsightSeverity \<Rightarrow> bool" where
  "less_InsightSeverity a b = (severity_rank a < severity_rank b)"

instance
  by standard (auto simp: less_eq_InsightSeverity_def less_InsightSeverity_def dest: antisym)

end

section \<open>Periods\<close>

definition buildPeriod :: "date \<Rightarrow> InsightGenerationPeriod" where
  "buildPeriod now = (let start = addDays now (- 30) in
     \<lparr> currentEnd = now, currentStart = start, previousEnd = start, previousStart = addDays start (- 30) \<rparr>)"

definition parseOptionalPeriod ::
  "date \<Rightarrow> string option \<Rightarrow> string option \<Rightarrow> (date \<times> date) option result" where
  "parseOptionalPeriod now startDate endDate =
     (if \<not> truthy startDate \<and> \<not> truthy endDate then Inr None
      else
        case (if truthy startDate then parseDateBoundary (the startDate) False else Some 0,
              if truthy endDate then parseDateBoundary (the endDate) True else Some now) of
          (Some start, Some until) \<Rightarrow>
            if until < start then Inl (BadRequestException ''Periodo de insights invalido.'')
            else Inr (Some (start, until))
        | _ \<Rightarrow> Inl (BadRequestException ''Periodo de insights invalido.''))"

section \<open>Reads\<close>

definition asRecord_insight :: "json \<Rightarrow> (string \<times> json) list" where
  "asRecord_insight v = (case v of JObj kvs \<Rightarrow> kvs | _ \<Rightarrow> [])"

definition asRecordOrNull :: "json option \<Rightarrow> (string \<times> json) list option" where
  "asRecordOrNull v = (case v of Some (JObj kvs) \<Rightarrow> Some kvs | _ \<Rightarrow> None)"

definition presentInsight :: "Insight \<Rightarrow> InsightDto" where
  "presentInsight i =
     \<lparr> id_actionUrl = in_actionUrl i, id_category = in_category i,
       id_comparisonValue = map_option fl (in_comparisonValue i), id_description = in_description i,
       id_dismissedAt = in_dismissedAt i, id_evidence = asRecord_insight (in_evidence i),
       id_generatedAt = in_generatedAt i, id_id = in_id i, id_metadata = asRecordOrNull (in_metadata i),
       id_metricValue = map_option fl (in_metricValue i),
       id_percentageChange = map_option fl (in_percentageChange i),
       id_periodEnd = in_periodEnd i, id_periodStart = in_periodStart i, id_readAt = in_readAt i,
       id_resourceId = in_resourceId i, id_resourceType = in_resourceType i, id_severity = in_severity i,
       id_status = in_status i, id_title = in_title i, id_type = in_type i \<rparr>"

definition insights_where :: "string \<Rightarrow> ListInsightsDto \<Rightarrow> (date \<times> date) option \<Rightarrow> Insight \<Rightarrow> bool" where
  "insights_where tenantId q period i \<longleftrightarrow>
     in_tenantId i = tenantId
     \<and> (case iq_category q of None \<Rightarrow> True | Some c \<Rightarrow> in_category i = c)
     \<and> (case iq_severity q of None \<Rightarrow> True | Some s \<Rightarrow> in_severity i = s)
     \<and> (case iq_status q of None \<Rightarrow> in_status i \<noteq> DISMISSED | Some s \<Rightarrow> in_status i = s)
     \<and> (case period of None \<Rightarrow> True | Some (start, until) \<Rightarrow> start \<le> in_periodStart i \<and> in_periodEnd i \<le> until)"

definition listInsights :: "date \<Rightarrow> string \<Rightarrow> ListInsightsDto \<Rightarrow> db \<Rightarrow> InsightDto PaginatedResult result" where
  "listInsights now tenantId q d =
     bindE (parseOptionalPeriod now (iq_startDate q) (iq_endDate q)) (\<lambda>period.
       Inr (paginated (iq_page q) (iq_perPage q)
         (orderBy (then_by (desc in_severity) (desc in_generatedAt))
           (findMany (insights_where tenantId q period) (insights d))) presentInsight))"

definition enumCounts :: "'e list \<Rightarrow> 'e list \<Rightarrow> ('e \<times> nat) list" where
  "enumCounts members items =
     foldl (\<lambda>out v. map (\<lambda>(k, n). if k = v then (k, Suc n) else (k, n)) out)
       (map (\<lambda>k. (k, 0)) members) items"

definition insights_summary :: "string \<Rightarrow> db \<Rightarrow> InsightSummaryDto" where
  "insights_summary tenantId d =
     (let rows = take 500 (orderBy (desc in_generatedAt)
                   (findMany (\<lambda>i. in_status i \<noteq> DISMISSED \<and> in_tenantId i = tenantId) (insights d)))
      in \<lparr> is_active = length rows, is_byCategory = enumCounts categories (map in_category rows),
           is_bySeverity = enumCounts severities (map in_severity rows),
           is_generatedAt = (case rows of [] \<Rightarrow> None | r # rs \<Rightarrow> Some (in_generatedAt r)),
           is_newCount = length (filter (\<lambda>i. in_status i = NEW) rows),
           is_opportunities = length (filter (\<lambda>i. in_severity i = OPPORTUNITY) rows) \<rparr>)"

definition find_insight :: "string \<Rightarrow> string \<Rightarrow> db \<Rightarrow> Insight option" where
  "find_insight tenantId insightId d = findFirst (\<lambda>i. in_id i = insightId \<and> in_tenantId i = tenantId) (insights d)"

definition getInsight :: "string \<Rightarrow> string \<Rightarrow> db \<Rightarrow> InsightDto result" where
  "getInsight tenantId insightId d =
     (case find_insight tenantId insightId d of
        None \<Rightarrow> Inl (NotFoundException ''Insight nao encontrado.'') | Some i \<Rightarrow> Inr (presentInsight i))"

section \<open>Writing candidates\<close>

definition key_char :: "char \<Rightarrow> bool" where
  "key_char c = (is_lower c \<or> is_upper c \<or> is_digit c \<or> c = CHR ''_'' \<or> c = CHR ''-'')"

definition stableEvidenceKey :: "(string \<times> json) list \<Rightarrow> string" where
  "stableEvidenceKey evidence =
     (let s = take 60 (filter key_char (stringify (JObj evidence))) in if s = [] then ''global'' else s)"

definition dedupeKey :: "InsightGenerationPeriod \<Rightarrow> InsightCandidate \<Rightarrow> string" where
  "dedupeKey p c =
     take 180 (join '':'' [ic_type c, coalesce (ic_resourceType c) ''none'',
       (case ic_resourceId c of None \<Rightarrow> stableEvidenceKey (ic_evidence c) | Some i \<Rightarrow> i),
       take 10 (toISOString (currentStart p)), take 10 (toISOString (currentEnd p))])"

definition insight_key :: "Insight \<Rightarrow> string \<times> string" where
  "insight_key i = (in_tenantId i, in_dedupeKey i)"

definition new_insight ::
  "date \<Rightarrow> string \<Rightarrow> InsightGenerationPeriod \<Rightarrow> InsightCandidate \<Rightarrow> string \<Rightarrow> Insight" where
  "new_insight now tenantId p c i =
     \<lparr> in_id = i, in_tenantId = tenantId, in_dedupeKey = dedupeKey p c, in_type = ic_type c,
       in_category = ic_category c, in_severity = ic_severity c, in_title = ic_title c,
       in_description = ic_description c, in_evidence = JObj (ic_evidence c),
       in_metricValue = map_option (toDecimalPlaces 4) (ic_metricValue c),
       in_comparisonValue = map_option (toDecimalPlaces 4) (ic_comparisonValue c),
       in_percentageChange = map_option (toDecimalPlaces 4) (ic_percentageChange c),
       in_periodStart = currentStart p, in_periodEnd = currentEnd p,
       in_resourceType = ic_resourceType c, in_resourceId = ic_resourceId c,
       in_actionUrl = ic_actionUrl c, in_status = NEW, in_generatedAt = now, in_readAt = None,
       in_dismissedAt = None, in_metadata = ic_metadata c \<rparr>"

definition renew_insight ::
  "date \<Rightarrow> InsightGenerationPeriod \<Rightarrow> InsightCandidate \<Rightarrow> Insight \<Rightarrow> Insight" where
  "renew_insight now p c i =
     i\<lparr> in_actionUrl := ic_actionUrl c,
       in_comparisonValue := map_option (toDecimalPlaces 4) (ic_comparisonValue c),
       in_description := ic_description c, in_dismissedAt := None, in_evidence := JObj (ic_evidence c),
       in_generatedAt := now,
       in_metadata := (case ic_metadata c of None \<Rightarrow> in_metadata i | Some m \<Rightarrow> Some m),
       in_metricValue := map_option (toDecimalPlaces 4) (ic_metricValue c),
       in_percentageChange := map_option (toDecimalPlaces 4) (ic_percentageChange c),
       in_periodEnd := currentEnd p, in_periodStart := currentStart p, in_readAt := None,
       in_resourceId := ic_resourceId c, in_resourceType := ic_resourceType c,
       in_severity := ic_severity c, in_status := NEW, in_title := ic_title c \<rparr>"

definition persistCandidate ::
  "date \<Rightarrow> string \<Rightarrow> InsightGenerationPeriod \<Rightarrow> InsightCandidate \<Rightarrow> db \<Rightarrow> db" where
  "persistCandidate now tenantId p c d =
     (let key = (tenantId, dedupeKey p c) in
      case findFirst (\<lambda>i. insight_key i = key) (insights d) of
        None \<Rightarrow> bump (d\<lparr>insights := insights d @ [new_insight now tenantId p c (new_id d)]\<rparr>)
      | Some i \<Rightarrow> d\<lparr>insights := updateMany (\<lambda>i. insight_key i = key) (renew_insight now p c) (insights d)\<rparr>)"

definition insight_audit ::
  "date \<Rightarrow> AuditAction \<Rightarrow> string \<Rightarrow> string option \<Rightarrow> json option \<Rightarrow> string \<Rightarrow> db \<Rightarrow> db" where
  "insight_audit now action actorId insightId metadata tenantId =
     record_audit now \<lparr> ai_action = action, ai_actorId = Some actorId, ai_entityId = insightId,
       ai_entityType = Some ''Insight'', ai_ipHash = None, ai_metadata = metadata, ai_requestId = None,
       ai_tenantId = Some tenantId \<rparr>"

definition refreshInsights :: "date \<Rightarrow> string \<Rightarrow> string \<Rightarrow> RefreshInsightsResultDto handler" where
  "refreshInsights now tenantId actorId d =
     (let p = buildPeriod now;
          candidates = generate_insights now p tenantId d;
          d1 = foldl (\<lambda>d c. persistCandidate now tenantId p c d) d candidates;
          n = length candidates
      in (Inr \<lparr> ri_generated = n, ri_periodEnd = currentEnd p, ri_periodStart = currentStart p \<rparr>,
          insight_audit now INSIGHT_GENERATED actorId None
            (Some (JObj [(''generated'', JNat n), (''periodEnd'', JStr (toISOString (currentEnd p))),
                         (''periodStart'', JStr (toISOString (currentStart p)))])) tenantId d1))"

section \<open>States of an insight\<close>

definition updateTenantInsight :: "string \<Rightarrow> string \<Rightarrow> (Insight \<Rightarrow> Insight) \<Rightarrow> Insight handler" where
  "updateTenantInsight tenantId insightId change d =
     (let hit = (\<lambda>i. in_id i = insightId \<and> in_tenantId i = tenantId);
          d1 = d\<lparr>insights := updateMany hit change (insights d)\<rparr>
      in if count_rows hit (insights d) = 0 then (Inl (NotFoundException ''Insight nao encontrado.''), d1)
         else case find_insight tenantId insightId d1 of
                None \<Rightarrow> (Inl (NotFoundException ''Insight nao encontrado.''), d1)
              | Some i \<Rightarrow> (Inr i, d1))"

definition markRead :: "date \<Rightarrow> string \<Rightarrow> string \<Rightarrow> string \<Rightarrow> InsightDto handler" where
  "markRead now tenantId actorId insightId d =
     (case updateTenantInsight tenantId insightId (in_readAt_update (\<lambda>_. Some now) \<circ> in_status_update (\<lambda>_. READ)) d of
        (Inl e, d1) \<Rightarrow> (Inl e, d1)
      | (Inr i, d1) \<Rightarrow>
          (Inr (presentInsight i), insight_audit now INSIGHT_READ actorId (Some insightId) None tenantId d1))"

definition dismissInsight :: "date \<Rightarrow> string \<Rightarrow> string \<Rightarrow> string \<Rightarrow> InsightDto handler" where
  "dismissInsight now tenantId actorId insightId d =
     (case updateTenantInsight tenantId insightId
             (in_dismissedAt_update (\<lambda>_. Some now) \<circ> in_status_update (\<lambda>_. DISMISSED)) d of
        (Inl e, d1) \<Rightarrow> (Inl e, d1)
      | (Inr i, d1) \<Rightarrow>
          (Inr (presentInsight i), insight_audit now INSIGHT_DISMISSED actorId (Some insightId) None tenantId d1))"

end
