(* ===== verification/InsightSafety.thy ===== *)
theory InsightSafety
  imports Insights
begin

text \<open>
  The safety of the insights: the invariant of their table, the steps of the service, the
  deduplication of repeated refreshes and its limit.
\<close>

section \<open>The table of insights\<close>

definition insight_conflict :: "Insight \<Rightarrow> Insight \<Rightarrow> bool" where
  "insight_conflict i j = (insight_key i = insight_key j)"

interpretation insight_table: table in_id insight_conflict
  by unfold_locales (simp add: insight_conflict_def)

text \<open>
  What every stored insight satisfies: the dates that go with its status, the thirty days of
  its period and a key that fits its column. No operation ever resolves an insight.
\<close>

definition insight_ok :: "Insight \<Rightarrow> bool" where
  "insight_ok i \<longleftrightarrow>
     (case in_status i of
        NEW \<Rightarrow> in_readAt i = None \<and> in_dismissedAt i = None
      | READ \<Rightarrow> in_readAt i \<noteq> None
      | DISMISSED \<Rightarrow> in_dismissedAt i \<noteq> None
      | RESOLVED \<Rightarrow> False)
     \<and> in_periodStart i = addDays (in_periodEnd i) (- 30) \<and> length (in_dedupeKey i) \<le> 180"

definition insights_ok :: "db \<Rightarrow> bool" where
  "insights_ok d \<longleftrightarrow>
     wf_table in_id insight_conflict (insights d)
     \<and> (\<forall>i \<in> set (insights d). old_id d (in_id i) \<and> insight_ok i)"

lemma insights_ok_cong:
  "insights_ok d \<Longrightarrow> insights d' = insights d \<Longrightarrow> next_id d \<le> next_id d' \<Longrightarrow> insights_ok d'"
  by (auto simp: insights_ok_def intro: old_id_mono)

lemma insights_ok_audit: "insights_ok d \<Longrightarrow> insights_ok (insight_audit now a u i m t d)"
  by (rule insights_ok_cong [of d]) (simp_all add: insight_audit_def)

lemma insights_audit [simp]: "insights (insight_audit now a u i m t d) = insights d"
  by (simp add: insight_audit_def)

lemma insights_ok_updateMany:
  assumes "insights_ok d" "\<And>i. in_id (f i) = in_id i" "\<And>i. insight_key (f i) = insight_key i"
    and "\<And>i. insight_ok i \<Longrightarrow> insight_ok (f i)"
  shows "insights_ok (d\<lparr>insights := updateMany q f (insights d)\<rparr>)"
proof -
  have "wf_table in_id insight_conflict (updateMany q f (insights d))"
    using assms(1-3) insight_table.wf_updateMany [of "insights d" f q]
    by (simp add: insights_ok_def insight_conflict_def)
  then show ?thesis
    using assms by (auto simp: insights_ok_def set_updateMany old_id_def)
qed

lemma length_dedupeKey: "length (dedupeKey p c) \<le> 180"
  by (simp add: dedupeKey_def)

lemma renew_key [simp]: "insight_key (renew_insight now p c i) = insight_key i"
  by (simp add: insight_key_def renew_insight_def)

lemma new_key [simp]: "insight_key (new_insight now t p c i) = (t, dedupeKey p c)"
  by (simp add: insight_key_def new_insight_def)

lemma persistCandidate_ok:
  assumes ok: "insights_ok d" and p: "currentStart p = addDays (currentEnd p) (- 30)"
  shows "insights_ok (persistCandidate now t p c d)"
proof (cases "findFirst (\<lambda>i. insight_key i = (t, dedupeKey p c)) (insights d)")
  case None
  let ?i = "new_insight now t p c (new_id d)"
  have key: "insight_key ?i = (t, dedupeKey p c)" "insight_ok ?i" "in_id ?i = new_id d"
    using p by (simp_all add: insight_key_def new_insight_def insight_ok_def length_dedupeKey)
  have "create_row insight_conflict ?i (insights d) = Inr (insights d @ [?i])"
    using None by (auto simp: create_Inr insight_conflict_def key findFirst_None)
  moreover have "in_id ?i \<notin> in_id ` set (insights d)"
    using ok new_id_fresh [of d] by (auto simp: insights_ok_def key dest!: bspec)
  ultimately have "wf_table in_id insight_conflict (insights d @ [?i])"
    using ok insight_table.wf_create by (auto simp: insights_ok_def)
  then show ?thesis
    using ok None key by (auto simp: insights_ok_def persistCandidate_def old_id_new_id intro: old_id_mono)
next
  case (Some i)
  have "insight_ok (renew_insight now p c j)" if "insight_ok j" for j
    using that p by (simp add: insight_ok_def renew_insight_def)
  then show ?thesis
    using Some insights_ok_updateMany [OF ok, of "renew_insight now p c"]
    by (simp add: persistCandidate_def, simp add: renew_insight_def)
qed

text \<open>One candidate is written for its own tenant only.\<close>

lemma persistCandidate_others: "others in_tenantId t (insights (persistCandidate now t p c d)) = others in_tenantId t (insights d)"
proof -
  have "others in_tenantId t (updateMany (\<lambda>i. insight_key i = (t, k)) (renew_insight now p c) u) = others in_tenantId t u" for k u
    by (rule others_updateMany) (simp_all add: insight_key_def renew_insight_def)
  then show ?thesis
    by (simp add: persistCandidate_def Let_def others_append others_single new_insight_def split: option.split)
qed

lemma persistCandidate_tables [simp]:
  "freightSimulations (persistCandidate now t p c d) = freightSimulations d"
  "customers (persistCandidate now t p c d) = customers d"
  "shipments (persistCandidate now t p c d) = shipments d"
  "importJobs (persistCandidate now t p c d) = importJobs d"
  by (simp_all add: persistCandidate_def Let_def split: option.split)

lemma persistCandidate_next: "next_id d \<le> next_id (persistCandidate now t p c d)"
  by (simp add: persistCandidate_def Let_def split: option.split)

definition persist_all ::
  "date \<Rightarrow> string \<Rightarrow> InsightGenerationPeriod \<Rightarrow> InsightCandidate list \<Rightarrow> db \<Rightarrow> db" where
  "persist_all now t p cs d = foldl (\<lambda>d c. persistCandidate now t p c d) d cs"

lemma persist_all_snoc: "persist_all now t p (cs @ [c]) d = persistCandidate now t p c (persist_all now t p cs d)"
  by (simp add: persist_all_def)

lemma persist_all_Nil [simp]: "persist_all now t p [] d = d"
  by (simp add: persist_all_def)

lemma persist_all_tables [simp]:
  "freightSimulations (persist_all now t p cs d) = freightSimulations d"
  "customers (persist_all now t p cs d) = customers d"
  "shipments (persist_all now t p cs d) = shipments d"
  "importJobs (persist_all now t p cs d) = importJobs d"
  by (induction cs rule: rev_induct) (simp_all add: persist_all_snoc)

lemma persist_all_ok:
  "insights_ok d \<Longrightarrow> currentStart p = addDays (currentEnd p) (- 30)
   \<Longrightarrow> insights_ok (persist_all now t p cs d)"
  by (induction cs rule: rev_induct) (simp_all add: persist_all_snoc persistCandidate_ok)

lemma persist_all_others: "others in_tenantId t (insights (persist_all now t p cs d)) = others in_tenantId t (insights d)"
  by (induction cs rule: rev_induct) (simp_all add: persist_all_snoc persistCandidate_others)

lemma persist_all_next: "next_id d \<le> next_id (persist_all now t p cs d)"
  by (induction cs rule: rev_induct) (auto simp: persist_all_snoc intro: order_trans [OF _ persistCandidate_next])

lemma period_start [simp]: "currentStart (buildPeriod now) = addDays (currentEnd (buildPeriod now)) (- 30)"
  by (simp add: buildPeriod_def Let_def)

lemma refresh_eq:
  "snd (refreshInsights now t actor d)
   = insight_audit now INSIGHT_GENERATED actor None
       (Some (JObj [(''generated'', JNat (length (generate_insights now (buildPeriod now) t d))),
          (''periodEnd'', JStr (toISOString (currentEnd (buildPeriod now)))),
          (''periodStart'', JStr (toISOString (currentStart (buildPeriod now))))])) t
       (persist_all now t (buildPeriod now) (generate_insights now (buildPeriod now) t d) d)"
  by (simp add: refreshInsights_def persist_all_def Let_def)

section \<open>Sequences of requests\<close>

inductive insight_step :: "string \<Rightarrow> db \<Rightarrow> db \<Rightarrow> bool" for t where
  refresh: "insight_step t d (snd (refreshInsights now t actor d))"
| mark_read: "insight_step t d (snd (markRead now t actor i d))"
| dismiss: "insight_step t d (snd (dismissInsight now t actor i d))"
| other: "insights d' = insights d \<Longrightarrow> next_id d \<le> next_id d' \<Longrightarrow> insight_step t d d'"

lemma updateTenantInsight_ok:
  assumes "insights_ok d" "\<And>i. in_id (f i) = in_id i" "\<And>i. insight_key (f i) = insight_key i"
    and "\<And>i. insight_ok i \<Longrightarrow> insight_ok (f i)" "updateTenantInsight t i f d = (r, d1)"
  shows "insights_ok d1 \<and> others in_tenantId t (insights d1) = others in_tenantId t (insights d)"
proof -
  have d1: "d1 = d\<lparr>insights := updateMany (\<lambda>j. in_id j = i \<and> in_tenantId j = t) f (insights d)\<rparr>"
    using assms(5) by (auto simp: updateTenantInsight_def Let_def split: if_splits option.splits)
  have "in_tenantId (f j) = in_tenantId j" for j
    using assms(3) [of j] by (simp add: insight_key_def)
  then have "others in_tenantId t (updateMany (\<lambda>j. in_id j = i \<and> in_tenantId j = t) f (insights d))
    = others in_tenantId t (insights d)"
    by (intro others_updateMany) simp_all
  then show ?thesis
    using insights_ok_updateMany [OF assms(1-4)] by (simp add: d1)
qed

lemma mark_ok: "insight_ok i \<Longrightarrow> insight_ok ((in_readAt_update (\<lambda>_. Some now) \<circ> in_status_update (\<lambda>_. READ)) i)"
  "insight_ok i \<Longrightarrow> insight_ok ((in_dismissedAt_update (\<lambda>_. Some now) \<circ> in_status_update (\<lambda>_. DISMISSED)) i)"
  by (simp_all add: insight_ok_def)

lemma insight_step_ok:
  assumes "insight_step t d d'" "insights_ok d"
  shows "insights_ok d' \<and> others in_tenantId t (insights d') = others in_tenantId t (insights d)"
  using assms(1)
proof cases
  case (refresh now actor)
  then show ?thesis
    using persist_all_ok [OF assms(2) period_start]
    by (simp add: refresh_eq insights_ok_audit persist_all_others)
next
  case (mark_read now actor i)
  obtain r d1 where u: "updateTenantInsight t i (in_readAt_update (\<lambda>_. Some now) \<circ> in_status_update (\<lambda>_. READ)) d = (r, d1)"
    by fastforce
  have "insights_ok d1 \<and> others in_tenantId t (insights d1) = others in_tenantId t (insights d)"
    by (rule updateTenantInsight_ok [OF assms(2) _ _ mark_ok(1) u]) (simp_all add: insight_key_def)
  then show ?thesis
    by (cases r) (simp_all add: mark_read markRead_def u insights_ok_audit)
next
  case (dismiss now actor i)
  obtain r d1 where u: "updateTenantInsight t i (in_dismissedAt_update (\<lambda>_. Some now) \<circ> in_status_update (\<lambda>_. DISMISSED)) d = (r, d1)"
    by fastforce
  have "insights_ok d1 \<and> others in_tenantId t (insights d1) = others in_tenantId t (insights d)"
    by (rule updateTenantInsight_ok [OF assms(2) _ _ mark_ok(2) u]) (simp_all add: insight_key_def)
  then show ?thesis
    by (cases r) (simp_all add: dismiss dismissInsight_def u insights_ok_audit)
next
  case other
  then show ?thesis using insights_ok_cong [OF assms(2)] by simp
qed

lemma empty_insights_ok: "insights_ok empty_db"
  by (simp add: insights_ok_def empty_db_def wf_table_def)

text \<open>
  C36: Through any sequence of refreshes, readings and dismissals of a tenant, interleaved with
  requests of other services, an insight keeps a key of its own within its tenant, the dates
  that go with its status and the thirty days of its period, and the insights of the other
  tenants stay as they are.
\<close>

theorem insights_safe:
  assumes "(insight_step t)\<^sup>*\<^sup>* d d'" "insights_ok d"
  shows "insights_ok d' \<and> others in_tenantId t (insights d') = others in_tenantId t (insights d)"
  using assms
proof (induction rule: rtranclp_induct)
  case (step y z)
  then show ?case using insight_step_ok [of t y z] by simp
qed simp

theorem insights_safe_witness:
  "insights_ok (snd (dismissInsight 9 ''t'' ''u'' ''0'' (snd (refreshInsights 5 ''t'' ''u'' empty_db))))"
proof -
  have "(insight_step ''t'')\<^sup>*\<^sup>* empty_db
    (snd (dismissInsight 9 ''t'' ''u'' ''0'' (snd (refreshInsights 5 ''t'' ''u'' empty_db))))"
    by (meson insight_step.dismiss insight_step.refresh rtranclp.rtrancl_into_rtrancl rtranclp.rtrancl_refl)
  then show ?thesis
    using insights_safe [OF _ empty_insights_ok] by blast
qed

section \<open>Repeated refreshes\<close>

abbreviation insight_keys :: "db \<Rightarrow> (string \<times> string) list" where
  "insight_keys d \<equiv> map insight_key (insights d)"

lemma persistCandidate_keys:
  "insight_keys (persistCandidate now t p c d) =
     (if (t, dedupeKey p c) \<in> set (insight_keys d) then insight_keys d
      else insight_keys d @ [(t, dedupeKey p c)])"
proof (cases "findFirst (\<lambda>i. insight_key i = (t, dedupeKey p c)) (insights d)")
  case None
  then have "(t, dedupeKey p c) \<notin> set (insight_keys d)"
    by (fastforce simp: findFirst_None)
  then show ?thesis
    using None by (simp add: persistCandidate_def Let_def)
next
  case (Some i)
  then have "(t, dedupeKey p c) \<in> set (insight_keys d)"
    using findFirst_SomeD [OF Some] by force
  then show ?thesis
    using Some by (simp add: persistCandidate_def Let_def map_updateMany)
qed

lemma persist_all_keys_set:
  "set (insight_keys (persist_all now t p cs d)) = set (insight_keys d) \<union> (\<lambda>c. (t, dedupeKey p c)) ` set cs"
  by (induction cs rule: rev_induct) (auto simp: persist_all_snoc persistCandidate_keys simp del: set_map)

lemma persist_all_known:
  "(\<lambda>c. (t, dedupeKey p c)) ` set cs \<subseteq> set (insight_keys d)
   \<Longrightarrow> insight_keys (persist_all now t p cs d) = insight_keys d"
  by (induction cs rule: rev_induct) (simp_all add: persist_all_snoc persistCandidate_keys)

lemma persistCandidate_row:
  assumes "i \<in> set (insights (persistCandidate now t p c d))"
  shows "if insight_key i = (t, dedupeKey p c) then in_status i = NEW \<and> in_evidence i = JObj (ic_evidence c)
         else i \<in> set (insights d)"
proof (cases "findFirst (\<lambda>i. insight_key i = (t, dedupeKey p c)) (insights d)")
  case None
  show ?thesis
  proof -
    have "insights (persistCandidate now t p c d) = insights d @ [new_insight now t p c (new_id d)]"
      using None by (simp add: persistCandidate_def Let_def)
    then show ?thesis
      using assms None by (auto simp: findFirst_None) (simp_all add: new_insight_def)
  qed
next
  case (Some j)
  then show ?thesis
    using assms
    by (auto simp: persistCandidate_def Let_def set_updateMany split: if_splits) (simp_all add: renew_insight_def)
qed

lemma persist_all_new:
  "i \<in> set (insights (persist_all now t p cs d)) \<Longrightarrow> insight_key i \<in> (\<lambda>c. (t, dedupeKey p c)) ` set cs
   \<Longrightarrow> in_status i = NEW"
proof (induction cs arbitrary: i rule: rev_induct)
  case (snoc c cs)
  then show ?case
    using persistCandidate_row [of i now t p c "persist_all now t p cs d"]
    by (auto simp: persist_all_snoc split: if_splits)
qed simp

text \<open>The key of an insight depends on the days of its period only.\<close>

lemma length_pad0: "w \<le> length (pad0 w n)"
  by (simp add: pad0_def Let_def)

lemma take_day_text:
  assumes "a div 86400000 = b div (86400000 :: int)"
  shows "take 10 (toISOString a) = take 10 (toISOString b)"
proof -
  define y where "y = (if 0 \<le> year_of_days (a div 86400000) \<and> year_of_days (a div 86400000) \<le> 9999
    then pad0 4 (year_of_days (a div 86400000)) else if year_of_days (a div 86400000) < 0
    then ''-'' @ pad0 6 (- year_of_days (a div 86400000)) else ''+'' @ pad0 6 (year_of_days (a div 86400000)))"
  obtain m e where me: "month_day_of_days (a div 86400000) = (m, e)" by fastforce
  define u where "u = y @ ''-'' @ pad0 2 m @ ''-'' @ pad0 2 e"
  have "4 \<le> length y" by (simp add: y_def) (meson le_trans length_pad0 le_SucI numeral_le_iff semiring_norm)+
  then have "10 \<le> length u"
    using length_pad0 [of 2 m] length_pad0 [of 2 e] by (simp add: u_def)
  moreover have "\<exists>r. toISOString a = u @ r" "\<exists>r. toISOString b = u @ r"
    by (simp_all add: toISOString_def Let_def me u_def y_def flip: assms)
  ultimately show ?thesis by auto
qed

lemma dedupeKey_day:
  assumes "now' div 86400000 = now div 86400000"
  shows "dedupeKey (buildPeriod now') c = dedupeKey (buildPeriod now) c"
proof -
  have "addDays now' (- 30) div 86400000 = addDays now (- 30) div 86400000"
    using assms div_mult_self1 [of 86400000 now' "- 30"] div_mult_self1 [of 86400000 now "- 30"]
    by (simp add: addDays_def)
  then show ?thesis
    using take_day_text [OF assms] take_day_text [of "addDays now' (- 30)" "addDays now (- 30)"]
    by (simp add: dedupeKey_def buildPeriod_def Let_def)
qed

text \<open>
  C37: A second refresh on the same day whose rules yield the same candidates adds no insight:
  the keys stay as they were, and each candidate's insight is new again, also where it had
  been read or dismissed.
\<close>

theorem repeated_refresh:
  assumes "refreshInsights now t actor d = (r, d1)" "insight_keys d2 = insight_keys d1"
    and "now' div 86400000 = now div 86400000"
    and "generate_insights now' (buildPeriod now') t d2 = generate_insights now (buildPeriod now) t d"
  shows "insight_keys (snd (refreshInsights now' t actor' d2)) = insight_keys d1
    \<and> (\<forall>c \<in> set (generate_insights now (buildPeriod now) t d).
         \<exists>i \<in> set (insights (snd (refreshInsights now' t actor' d2))).
           insight_key i = (t, dedupeKey (buildPeriod now) c) \<and> in_status i = NEW)"
proof -
  let ?cs = "generate_insights now (buildPeriod now) t d" and ?p = "buildPeriod now'"
  let ?k = "\<lambda>c. (t, dedupeKey (buildPeriod now) c)"
  have k: "?k ` set ?cs \<subseteq> set (insight_keys d1)"
    using persist_all_keys_set [of now t "buildPeriod now" ?cs d] refresh_eq [of now t actor d]
    by (auto simp: assms(1) simp del: set_map)
  have e: "insights (snd (refreshInsights now' t actor' d2)) = insights (persist_all now' t ?p ?cs d2)"
    by (simp add: refresh_eq assms(4))
  have days: "(\<lambda>c. (t, dedupeKey ?p c)) = ?k"
    by (simp add: dedupeKey_day [OF assms(3)])
  have keys: "insight_keys (persist_all now' t ?p ?cs d2) = insight_keys d1"
    using persist_all_known [of t ?p ?cs d2 now'] k unfolding days assms(2) by simp
  moreover have "\<exists>i \<in> set (insights (persist_all now' t ?p ?cs d2)). insight_key i = ?k c \<and> in_status i = NEW"
    if "c \<in> set ?cs" for c
  proof -
    have "?k c \<in> set (insight_keys (persist_all now' t ?p ?cs d2))"
      using k that unfolding keys by blast
    then obtain i where "i \<in> set (insights (persist_all now' t ?p ?cs d2))" "insight_key i = ?k c"
      by fastforce
    then show ?thesis
      using persist_all_new [of i now' t ?p ?cs d2] that unfolding days by auto
  qed
  ultimately show ?thesis unfolding e by blast
qed

text \<open>A tenant with one import that has been processing for more than half an hour.\<close>

definition stalled_job :: ImportJob where
  "stalled_job = \<lparr> ij_id = ''j'', ij_tenantId = ''t'', ij_createdById = ''u'', ij_type = CUSTOMERS,
     ij_filename = ''a.csv'', ij_fileType = ''csv'', ij_storedFilename = None, ij_mimeType = None,
     ij_sizeBytes = 9, ij_fileHash = None, ij_status = PROCESSING, ij_totalRows = 0, ij_processedRows = 0,
     ij_successRows = 0, ij_errorRows = 0, ij_skippedRows = 0, ij_progress = 0, ij_mapping = JNull,
     ij_options = JNull, ij_errorSummary = JNull, ij_startedAt = Some 0, ij_finishedAt = None,
     ij_failureReason = None, ij_createdAt = 0, ij_updatedAt = 0 \<rparr>"

definition stalled_db :: db where
  "stalled_db = empty_db\<lparr>importJobs := [stalled_job]\<rparr>"

lemma stalled_candidates:
  assumes "importJobs d = [stalled_job]" "freightSimulations d = []" "shipments d = []"
    and "1800000 < now" "now < 86400000"
  shows "generate_insights now (buildPeriod now) ''t'' d = import_stalled 1800001 stalled_job"
  using assms
  by (simp add: generate_insights_def cost_insights_def savingsOpportunity_def savings_of_def routeCostIncrease_def
    routeAverages_def aggregate_def cheapestCarrier_def freightOutliers_def performance_insights_def
    fastestCarrier_def carrierDependency_def routeConcentration_def customerVolume_def operationRisks_def
    importQuality_def simulations_in_def options_in_def option_rows_def table_defs best_group_def top_group_def
    countBy_def delayed_insight_def conversion_insight_def import_errors_def import_stalled_def stalled_job_def
    current_def between_def buildPeriod_def addDays_def Let_def)

lemma dismiss_keys: "insight_keys (snd (dismissInsight now t actor i d)) = insight_keys d"
  by (auto simp: dismissInsight_def updateTenantInsight_def Let_def map_updateMany insight_key_def
    split: option.splits)

lemma dismiss_jobs:
  "importJobs (snd (dismissInsight now t actor i d)) = importJobs d"
  "freightSimulations (snd (dismissInsight now t actor i d)) = freightSimulations d"
  "shipments (snd (dismissInsight now t actor i d)) = shipments d"
  by (auto simp: dismissInsight_def updateTenantInsight_def Let_def insight_audit_def split: option.splits)

theorem repeated_refresh_witness:
  "insight_keys (snd (refreshInsights 1900000 ''t'' ''u'' (snd (dismissInsight 1850000 ''t'' ''u'' ''0''
     (snd (refreshInsights 1800001 ''t'' ''u'' stalled_db))))))
   = insight_keys (snd (refreshInsights 1800001 ''t'' ''u'' stalled_db))"
proof -
  let ?d1 = "snd (refreshInsights 1800001 ''t'' ''u'' stalled_db)"
  let ?d2 = "snd (dismissInsight 1850000 ''t'' ''u'' ''0'' ?d1)"
  have s: "importJobs stalled_db = [stalled_job]" "freightSimulations stalled_db = []" "shipments stalled_db = []"
    by (simp_all add: stalled_db_def empty_db_def)
  have "generate_insights 1900000 (buildPeriod 1900000) ''t'' ?d2
    = generate_insights 1800001 (buildPeriod 1800001) ''t'' stalled_db"
    using s by (simp add: stalled_candidates dismiss_jobs refresh_eq insight_audit_def)
  then show ?thesis
    using repeated_refresh [of 1800001 "''t''" "''u''" stalled_db "fst (refreshInsights 1800001 ''t'' ''u'' stalled_db)"
        ?d1 ?d2 1900000 "''u''"] dismiss_keys
    by simp
qed

section \<open>Insights that share a key\<close>

lemma code_less: "ccode c < 256"
  by (simp add: ccode_def)

lemma key_char_code: "key_char c \<Longrightarrow> 45 \<le> ccode c \<and> ccode c \<noteq> 92"
  by (auto simp: key_char_def is_lower_def is_upper_def is_digit_def ccode_def)

lemma not_key_char [simp]: "\<not> key_char CHR 0x22" "\<not> key_char CHR '':''" "\<not> key_char CHR '',''"
  "\<not> key_char CHR ''{''" "\<not> key_char CHR ''}''" "\<not> key_char CHR ''.''"
  by (simp_all add: key_char_def is_lower_def is_upper_def is_digit_def ccode_def)

lemma filter_quote:
  assumes "list_all key_char s"
  shows "filter key_char (json_quote s) = s"
proof -
  have "concat (map json_escape s) = s"
    using assms by (induction s) (auto simp: json_escape_def Let_def dest!: key_char_code)
  then show ?thesis
    using assms by (simp add: json_quote_def filter_id_conv list_all_iff)
qed

lemma filter_join: "filter q (join sep ws) = join (filter q sep) (map (filter q) ws)"
  by (induction sep ws rule: join.induct) simp_all

lemma join_Nil_sep: "join [] ws = concat ws"
  by (induction "[] :: string" ws rule: join.induct) simp_all

lemma filter_object:
  "filter key_char (stringify (JObj kvs)) =
     concat (map (\<lambda>(k, v). filter key_char (json_quote k) @ filter key_char (stringify v)) kvs)"
  by (simp add: filter_join join_Nil_sep comp_def case_prod_unfold)

lemma digits_key: "is_digit c \<Longrightarrow> key_char c"
  by (simp add: key_char_def)

lemma digits_text_key:
  assumes "s \<noteq> []" "\<forall>c \<in> set s. is_digit c"
  shows "\<exists>c \<in> set (digits_text s k n). key_char c"
proof -
  obtain c s' where s: "s = c # s'" using assms(1) by (cases s) auto
  have "key_char c" using assms(2) digits_key by (simp add: s)
  then show ?thesis
    by (auto simp: digits_text_def s take_Cons')
qed

lemma number_text_key: "filter key_char (number_text x) \<noteq> []"
proof -
  have "nat_str n \<noteq> []" for n by (subst nat_str.simps) simp
  then have "\<exists>c \<in> set (digits_text (nat_str n) k e). key_char c" for n k e
    by (intro digits_text_key) (simp_all add: nat_str_digits)
  then have "\<exists>c \<in> set (number_text x). key_char c"
    by (auto simp: number_text_def Let_def) (simp add: key_char_def is_digit_def ccode_def)
  then show ?thesis by (auto simp: filter_empty_conv)
qed

lemma take_prefix: "n \<le> length u \<Longrightarrow> take n (u @ v) = take n u"
  by simp

text \<open>
  C40: Cost increases of two routes share one key when their averages and counts are the same,
  because the key keeps sixty characters of the evidence and the route comes after them. The
  second route overwrites the first, and only its insight is left.
\<close>

theorem route_insights_collide:
  assumes "gr_average r' = gr_average r" "gr_count r' = gr_count r"
    and "gr_average q' = gr_average q" "gr_count q' = gr_count q"
  shows "dedupeKey p (route_increase r' q') = dedupeKey p (route_increase r q)
    \<and> insight_keys (persistCandidate now t p (route_increase r' q') (persistCandidate now t p (route_increase r q) d))
      = insight_keys (persistCandidate now t p (route_increase r q) d)
    \<and> (\<forall>i \<in> set (insights (persistCandidate now t p (route_increase r' q')
                (persistCandidate now t p (route_increase r q) d))).
         insight_key i = (t, dedupeKey p (route_increase r q))
         \<longrightarrow> (''route'', JStr (gr_key r')) \<in> set (asRecord_insight (in_evidence i)))"
proof -
  define k where "k x = filter key_char (number_text x)" for x
  define u where "u = ''currentAverage'' @ k (round2 (gr_average r)) @ ''currentCount'' @ k (of_nat (gr_count r))
    @ ''previousAverage'' @ k (round2 (gr_average q)) @ ''previousCount'' @ k (of_nat (gr_count q)) @ ''route''"
  have quoted: "filter key_char (json_quote ''currentAverage'') = ''currentAverage''"
    "filter key_char (json_quote ''currentCount'') = ''currentCount''"
    "filter key_char (json_quote ''previousAverage'') = ''previousAverage''"
    "filter key_char (json_quote ''previousCount'') = ''previousCount''"
    "filter key_char (json_quote ''route'') = ''route''"
    by (rule filter_quote, code_simp)+
  have "0 < length (k x)" for x
    using number_text_key [of x] by (simp add: k_def)
  then have "60 \<le> length u"
    using number_text_key by (simp add: u_def k_def Suc_le_eq)
  have ev: "filter key_char (stringify (JObj (ic_evidence (route_increase r q)))) = u @ filter key_char (json_quote (gr_key r))"
    "filter key_char (stringify (JObj (ic_evidence (route_increase r' q')))) = u @ filter key_char (json_quote (gr_key r'))"
    unfolding filter_object
    by (simp_all add: route_increase_def candidate_def Let_def quoted u_def k_def JNat_def assms)
  have "u \<noteq> []" by (simp add: u_def)
  then have "stableEvidenceKey (ic_evidence (route_increase r' q')) = stableEvidenceKey (ic_evidence (route_increase r q))"
    unfolding stableEvidenceKey_def ev take_prefix [OF \<open>60 \<le> length u\<close>] by simp
  then have key: "dedupeKey p (route_increase r' q') = dedupeKey p (route_increase r q)"
    by (simp add: dedupeKey_def) (simp add: route_increase_def candidate_def Let_def)
  have "(''route'', JStr (gr_key r')) \<in> set (ic_evidence (route_increase r' q'))"
    by (simp add: route_increase_def candidate_def Let_def)
  then show ?thesis
    using key persistCandidate_row [of _ now t p "route_increase r' q'"]
    by (fastforce simp: persistCandidate_keys asRecord_insight_def simp del: set_map)
qed

definition example_route :: "rat \<Rightarrow> nat \<Rightarrow> string \<Rightarrow> AverageGroup" where
  "example_route a n route = \<lparr> gr_average = a, gr_count = n, gr_key = route, gr_label = route \<rparr>"

theorem route_insights_collide_witness:
  "dedupeKey (buildPeriod 0) (route_increase (example_route 150 2 ''01000000->20000000'')
       (example_route 100 3 ''01000000->20000000''))
   = dedupeKey (buildPeriod 0) (route_increase (example_route 150 2 ''01000000->30000000'')
       (example_route 100 3 ''01000000->30000000''))"
  by (rule route_insights_collide [THEN conjunct1]) (simp_all add: example_route_def)

end
