(* ===== verification/Dashboard.thy ===== *)
theory Dashboard
  imports Insights Tokens
begin

text \<open>
  The dashboard summary: its filters and periods, the conditions of its queries, the series and
  rankings of its charts, the summary itself and its cache in Redis. The service only reads.
  The average the database computes is the parameter \<open>avg\<close>; a cached summary stands for
  its JSON text, which keeps every value of it. The conditions on the options of a simulation
  and on its own rows name the tenant of the simulation, which is the tenant of its options.
\<close>

section \<open>Filters and periods\<close>

record DashboardFilters =
  df_startDate :: "string option"
  df_endDate :: "string option"
  df_customerId :: "string option"
  df_carrierId :: "string option"
  df_carrierServiceId :: "string option"
  df_branchId :: "string option"
  df_status :: "ShipmentStatus option"

definition normalizeFilters :: "DashboardFilters \<Rightarrow> DashboardFilters" where
  "normalizeFilters q =
     \<lparr> df_startDate = present (df_startDate q), df_endDate = present (df_endDate q),
       df_customerId = present (df_customerId q), df_carrierId = present (df_carrierId q),
       df_carrierServiceId = present (df_carrierServiceId q), df_branchId = present (df_branchId q),
       df_status = df_status q \<rparr>"

definition opt_entry :: "string \<Rightarrow> string option \<Rightarrow> (string \<times> json) list" where
  "opt_entry k v = (case v of None \<Rightarrow> [] | Some s \<Rightarrow> [(k, JStr s)])"

definition filters_json :: "DashboardFilters \<Rightarrow> json" where
  "filters_json f = JObj
     (opt_entry ''startDate'' (df_startDate f) @ opt_entry ''endDate'' (df_endDate f)
      @ opt_entry ''customerId'' (df_customerId f) @ opt_entry ''carrierId'' (df_carrierId f)
      @ opt_entry ''carrierServiceId'' (df_carrierServiceId f) @ opt_entry ''branchId'' (df_branchId f)
      @ opt_entry ''status'' (map_option shipment_status_name (df_status f)))"

definition invalidPeriod :: http_error where
  "invalidPeriod = BadRequestException ''Periodo do dashboard invalido.''"

definition periodFromFilters :: "date \<Rightarrow> DashboardFilters \<Rightarrow> InsightGenerationPeriod result" where
  "periodFromFilters now f =
     (if \<not> truthy (df_startDate f) \<and> \<not> truthy (df_endDate f) then Inr (buildPeriod now)
      else
        case (if truthy (df_startDate f) then parseDateBoundary (the (df_startDate f)) False
              else Some (now - 30 * 24 * 60 * 60 * 1000),
              if truthy (df_endDate f) then parseDateBoundary (the (df_endDate f)) True else Some now) of
          (Some start, Some until) \<Rightarrow>
            if until \<le> start then Inl invalidPeriod
            else Inr \<lparr> currentEnd = until, currentStart = start, previousEnd = start,
                       previousStart = start - (until - start) \<rparr>
        | _ \<Rightarrow> Inl invalidPeriod)"

section \<open>Conditions of the queries\<close>

definition matches :: "string option \<Rightarrow> string option \<Rightarrow> bool" where
  "matches wanted v \<longleftrightarrow> \<not> truthy wanted \<or> v = wanted"

definition optionRelationFilter :: "DashboardFilters \<Rightarrow> FreightSimulationOption \<Rightarrow> bool" where
  "optionRelationFilter f opt \<longleftrightarrow>
     matches (df_carrierId f) (Some (fo_carrierId opt))
     \<and> matches (df_carrierServiceId f) (Some (fo_carrierServiceId opt))"

definition simulationWhereFor ::
  "string \<Rightarrow> DashboardFilters \<Rightarrow> (date \<Rightarrow> bool) \<Rightarrow> FreightSimulation \<Rightarrow> bool" where
  "simulationWhereFor tenantId f createdAt s \<longleftrightarrow>
     createdAt (fs_createdAt s) \<and> fs_tenantId s = tenantId
     \<and> matches (df_branchId f) (fs_branchId s) \<and> matches (df_customerId f) (fs_customerId s)
     \<and> ((truthy (df_carrierId f) \<or> truthy (df_carrierServiceId f))
        \<longrightarrow> list_ex (optionRelationFilter f) (fs_options s))"

definition optionWhereFor ::
  "string \<Rightarrow> DashboardFilters \<Rightarrow> (date \<Rightarrow> bool) \<Rightarrow> FreightSimulation \<times> FreightSimulationOption \<Rightarrow> bool" where
  "optionWhereFor tenantId f createdAt = (\<lambda>(s, opt).
     createdAt (fs_createdAt s) \<and> fs_tenantId s = tenantId
     \<and> matches (df_carrierId f) (Some (fo_carrierId opt))
     \<and> matches (df_carrierServiceId f) (Some (fo_carrierServiceId opt))
     \<and> matches (df_branchId f) (fs_branchId s) \<and> matches (df_customerId f) (fs_customerId s))"

definition shipmentWhereFor ::
  "string \<Rightarrow> DashboardFilters \<Rightarrow> (date \<Rightarrow> bool) \<Rightarrow> Shipment \<Rightarrow> bool" where
  "shipmentWhereFor tenantId f createdAt s \<longleftrightarrow>
     createdAt (sh_createdAt s) \<and> sh_tenantId s = tenantId
     \<and> matches (df_branchId f) (sh_branchId s) \<and> matches (df_carrierId f) (Some (sh_carrierId s))
     \<and> matches (df_carrierServiceId f) (Some (sh_carrierServiceId s))
     \<and> matches (df_customerId f) (sh_customerId s)
     \<and> (case df_status f of None \<Rightarrow> True | Some st \<Rightarrow> sh_status s = st)"

definition active_shipment_statuses :: "ShipmentStatus list" where
  "active_shipment_statuses =
     [CREATED, PICKUP_SCHEDULED, PICKED_UP, IN_TRANSIT, ARRIVED_AT_HUB, OUT_FOR_DELIVERY]"

definition terminal_shipment_statuses :: "ShipmentStatus list" where
  "terminal_shipment_statuses = [DELIVERED, CANCELED, RETURNED]"

definition statusMetricWhere ::
  "(Shipment \<Rightarrow> bool) \<Rightarrow> ShipmentStatus option \<Rightarrow> ShipmentStatus list \<Rightarrow> Shipment \<Rightarrow> bool" where
  "statusMetricWhere base requested allowed s =
     (case requested of
        Some st \<Rightarrow> if st \<in> set allowed then base s else base s \<and> sh_id s = ''__no_match__''
      | None \<Rightarrow> base s \<and> sh_status s \<in> set allowed)"

definition delayedMetricWhere ::
  "(Shipment \<Rightarrow> bool) \<Rightarrow> ShipmentStatus option \<Rightarrow> date \<Rightarrow> Shipment \<Rightarrow> bool" where
  "delayedMetricWhere base requested cutoff s =
     (case requested of
        Some st \<Rightarrow>
          if st \<in> set terminal_shipment_statuses then base s \<and> sh_id s = ''__no_match__''
          else base s \<and> sh_estimatedDeliveryAt s < cutoff
      | None \<Rightarrow> base s \<and> sh_estimatedDeliveryAt s < cutoff \<and> sh_status s \<notin> set terminal_shipment_statuses)"

section \<open>Numbers\<close>

definition percent :: "nat \<Rightarrow> nat \<Rightarrow> rat" where
  "percent numerator denominator =
     (if 0 < denominator then round2 (fl (fl (of_nat numerator / of_nat denominator) * 100)) else 0)"

definition change_percent :: "rat \<Rightarrow> rat \<Rightarrow> rat option" where
  "change_percent now before =
     (if before = 0 then (if now = 0 then Some 0 else None)
      else Some (round2 (fl (fl (fl (now - before) / before) * 100))))"

datatype Direction = UP | DOWN | FLAT | NONE

record DashboardTrendDto =
  tr_absoluteChange :: "rat option"
  tr_current :: "rat option"
  tr_direction :: Direction
  tr_favorable :: "bool option"
  tr_percentageChange :: "rat option"
  tr_previous :: "rat option"

definition trend :: "rat option \<Rightarrow> rat option \<Rightarrow> bool \<Rightarrow> DashboardTrendDto" where
  "trend now before higherIsGood =
     (case (now, before) of
        (Some c, Some p) \<Rightarrow>
          let change = round2 (fl (c - p));
              direction = (if 0 < change then UP else if change < 0 then DOWN else FLAT)
          in \<lparr> tr_absoluteChange = Some change, tr_current = now, tr_direction = direction,
               tr_favorable = Some (if direction = FLAT then True
                                    else if higherIsGood then direction = UP else direction = DOWN),
               tr_percentageChange = change_percent c p, tr_previous = before \<rparr>
      | _ \<Rightarrow> \<lparr> tr_absoluteChange = None, tr_current = now, tr_direction = NONE, tr_favorable = None,
               tr_percentageChange = None, tr_previous = before \<rparr>)"

definition estimateSavings :: "FreightSimulation list \<Rightarrow> rat" where
  "estimateSavings sims = foldl (\<lambda>total s.
     case (find fo_selected (fs_options s), cheapest_option (fs_options s)) of
       (Some selected, Some cheapest) \<Rightarrow>
         if fo_totalPrice cheapest < fo_totalPrice selected
         then fl (total + fl (dec20 (fo_totalPrice selected - fo_totalPrice cheapest))) else total
     | _ \<Rightarrow> total) 0 sims"

section \<open>Series and rankings\<close>

definition day_label :: "date \<Rightarrow> string" where
  "day_label t = take 5 (drop 5 (toISOString t))"

definition last_14 :: "'a list \<Rightarrow> 'a list" where
  "last_14 xs = drop (length xs - 14) xs"

definition tally :: "('a \<Rightarrow> string) \<Rightarrow> 'a list \<Rightarrow> (string \<times> nat) list" where
  "tally key xs = grouped key (\<lambda>_. 0) (\<lambda>_. Suc) xs"

definition simulationsByPeriod :: "FreightSimulation list \<Rightarrow> (string \<times> nat) list" where
  "simulationsByPeriod sims = last_14 (tally (\<lambda>s. day_label (fs_createdAt s)) sims)"

definition costByPeriod :: "FreightSimulation list \<Rightarrow> (string \<times> rat) list" where
  "costByPeriod sims =
     last_14 (map (\<lambda>(label, n, total). (label, round2 (fl (total / of_nat n))))
       (grouped (\<lambda>(t, price). day_label t) (\<lambda>_. (0, 0)) (\<lambda>(t, price) (n, total). (Suc n, fl (total + fl price)))
         (List.map_filter (\<lambda>s. map_option (Pair (fs_createdAt s)) (fs_estimatedPrice s)) sims)))"

record DashboardCarrierPerformanceDto =
  cp_averageDeadlineDays :: rat
  cp_averagePrice :: "rat option"
  cp_carrierId :: string
  cp_carrierName :: string
  cp_optionCount :: nat
  cp_selectedCount :: nat

record CarrierTotals =
  ct_deadline :: rat
  ct_name :: string
  ct_options :: nat
  ct_selected :: nat
  ct_total :: rat

definition add_option :: "FreightSimulationOption \<Rightarrow> CarrierTotals \<Rightarrow> CarrierTotals" where
  "add_option opt v = v\<lparr> ct_deadline := fl (ct_deadline v + of_int (fo_deadlineDays opt)),
     ct_options := Suc (ct_options v), ct_selected := ct_selected v + (if fo_selected opt then 1 else 0),
     ct_total := fl (ct_total v + fl (fo_totalPrice opt)) \<rparr>"

definition carrierPerformance ::
  "FreightSimulationOption list \<Rightarrow> bool \<Rightarrow> DashboardCarrierPerformanceDto list" where
  "carrierPerformance opts fullAccess =
     take 8 (orderBy (then_by (desc cp_selectedCount)
                        (asc (\<lambda>c. coalesce (cp_averagePrice c) (2 ^ 53 - 1))))
       (map (\<lambda>(carrierId, v).
          \<lparr> cp_averageDeadlineDays = round2 (fl (ct_deadline v / of_nat (ct_options v))),
            cp_averagePrice = (if fullAccess then Some (round2 (fl (ct_total v / of_nat (ct_options v)))) else None),
            cp_carrierId = carrierId, cp_carrierName = ct_name v, cp_optionCount = ct_options v,
            cp_selectedCount = ct_selected v \<rparr>)
         (grouped fo_carrierId
            (\<lambda>opt. \<lparr> ct_deadline = 0, ct_name = fo_carrierName opt, ct_options = 0, ct_selected = 0, ct_total = 0 \<rparr>)
            add_option opts)))"

record DashboardRoutePerformanceDto =
  rp_averagePrice :: "rat option"
  rp_optionCount :: nat
  rp_route :: string
  rp_simulationCount :: nat

definition routePerformance :: "FreightSimulation list \<Rightarrow> bool \<Rightarrow> DashboardRoutePerformanceDto list" where
  "routePerformance sims fullAccess =
     take 8 (orderBy (desc rp_simulationCount)
       (map (\<lambda>(route, n, opts, total).
          \<lparr> rp_averagePrice = (if fullAccess \<and> 0 < n then Some (round2 (fl (total / of_nat n))) else None),
            rp_optionCount = opts, rp_route = route, rp_simulationCount = n \<rparr>)
         (grouped route_of (\<lambda>_. (0, 0, 0))
            (\<lambda>s (n, opts, total). (Suc n, opts + length (fs_options s),
               fl (total + (case fs_estimatedPrice s of None \<Rightarrow> 0 | Some price \<Rightarrow> fl price)))) sims)))"

definition shipmentStatus :: "ShipmentStatus list \<Rightarrow> (string \<times> nat) list" where
  "shipmentStatus statuses = tally shipment_status_name statuses"

definition selectedCarriers :: "FreightSimulationOption list \<Rightarrow> (string \<times> nat) list" where
  "selectedCarriers opts = take 8 (orderBy (desc snd) (tally fo_carrierName (filter fo_selected opts)))"

definition conversionByPeriod :: "FreightSimulation list \<Rightarrow> Shipment list \<Rightarrow> (string \<times> rat) list" where
  "conversionByPeriod sims ships =
     (let shipped = tally (\<lambda>s. day_label (sh_createdAt s)) ships in
      last_14 (map (\<lambda>(label, total). (label, percent (coalesce (map_of shipped label) 0) total))
        (tally (\<lambda>s. day_label (fs_createdAt s)) sims)))"

section \<open>The summary\<close>

datatype AccessScope = FULL | OPERATIONAL

record DashboardComparisons =
  dc_costAverage :: DashboardTrendDto
  dc_delayedShipments :: DashboardTrendDto
  dc_freightSimulations :: DashboardTrendDto
  dc_importErrorRate :: DashboardTrendDto
  dc_shipments :: DashboardTrendDto

record DashboardFilterOptions =
  do_branches :: "(string \<times> string) list"
  do_carrierServices :: "(string \<times> string \<times> string) list"
  do_carriers :: "(string \<times> string) list"
  do_customers :: "(string \<times> string) list"
  do_shipmentStatuses :: "(string \<times> string) list"

record DashboardTotals =
  dt_activeCarriers :: nat
  dt_activeCustomers :: nat
  dt_activeUsers :: nat
  dt_auditEvents :: nat
  dt_freightSimulations :: nat
  dt_importJobs :: nat

record DashboardFreight =
  dg_averageEstimatedPrice :: "rat option"
  dg_averageLowestOption :: "rat option"
  dg_calculatedSimulations :: nat
  dg_conversionRate :: rat
  dg_estimatedSavings :: rat
  dg_selectedAveragePrice :: "rat option"
  dg_selectedOptions :: nat
  dg_shipmentsFromSimulations :: nat
  dg_simulationsChangePercent :: "rat option"

record DashboardImports =
  di_completed :: nat
  di_errorRate :: rat
  di_failed :: nat
  di_processing :: nat
  di_stalled :: nat

record DashboardOperations =
  dop_delayedShipments :: nat
  dop_deliveredShipments :: nat
  dop_failedShipments :: nat
  dop_inTransitShipments :: nat
  dop_successRate :: rat
  dop_totalShipments :: nat

record DashboardImportQualityDto =
  iqd_errorRows :: nat
  iqd_filename :: string
  iqd_id :: string
  iqd_successRows :: nat
  iqd_totalRows :: nat

record DashboardCharts =
  dh_carrierPerformance :: "DashboardCarrierPerformanceDto list"
  dh_conversionByPeriod :: "(string \<times> rat) list"
  dh_costByPeriod :: "(string \<times> rat) list"
  dh_importsQuality :: "DashboardImportQualityDto list"
  dh_routePerformance :: "DashboardRoutePerformanceDto list"
  dh_selectedCarriers :: "(string \<times> nat) list"
  dh_shipmentStatus :: "(string \<times> nat) list"
  dh_simulationsByPeriod :: "(string \<times> nat) list"

record DashboardDecisionHighlightDto =
  hl_actionUrl :: "string option"
  hl_category :: InsightCategory
  hl_severity :: InsightSeverity
  hl_title :: string
  hl_value :: string

record DashboardActivityDto =
  da_action :: AuditAction
  da_createdAt :: date
  da_entityId :: "string option"
  da_entityType :: "string option"
  da_id :: string

record DashboardSummaryDto =
  ds_accessScope :: AccessScope
  ds_comparisons :: DashboardComparisons
  ds_filterOptions :: DashboardFilterOptions
  ds_filters :: DashboardFilters
  ds_generatedAt :: date
  ds_period :: InsightGenerationPeriod
  ds_tenantId :: string
  ds_totals :: DashboardTotals
  ds_freight :: DashboardFreight
  ds_imports :: DashboardImports
  ds_operations :: DashboardOperations
  ds_charts :: DashboardCharts
  ds_decisionHighlights :: "DashboardDecisionHighlightDto list"
  ds_recentActivity :: "DashboardActivityDto list"

text \<open>The aggregates \<open>_avg\<close> and \<open>_sum\<close>: the average of no row is null.\<close>

definition average_of :: "(rat list \<Rightarrow> rat) \<Rightarrow> rat list \<Rightarrow> rat option" where
  "average_of avg vs = (if vs = [] then None else Some (fl (avg vs)))"

definition price_average ::
  "(rat list \<Rightarrow> rat) \<Rightarrow> (FreightSimulation \<Rightarrow> bool) \<Rightarrow> db \<Rightarrow> rat option" where
  "price_average avg cond d =
     average_of avg (List.map_filter fs_estimatedPrice (findMany cond (freightSimulations d)))"

definition option_average ::
  "(rat list \<Rightarrow> rat) \<Rightarrow> (FreightSimulation \<times> FreightSimulationOption \<Rightarrow> bool) \<Rightarrow> db \<Rightarrow> rat option" where
  "option_average avg cond d = average_of avg (map (\<lambda>(s, opt). fo_totalPrice opt) (findMany cond (option_rows d)))"

definition import_error_rate :: "(ImportJob \<Rightarrow> bool) \<Rightarrow> db \<Rightarrow> rat" where
  "import_error_rate cond d =
     (let jobs = findMany cond (importJobs d) in
      percent (sum_list (map ij_errorRows jobs)) (sum_list (map ij_totalRows jobs)))"

definition loadFilterOptions :: "string \<Rightarrow> db \<Rightarrow> DashboardFilterOptions" where
  "loadFilterOptions tenantId d =
     \<lparr> do_branches = map (\<lambda>b. (b_id b, b_name b))
         (take 50 (orderBy (then_by (desc b_main) (asc b_name))
            (findMany (\<lambda>b. b_active b \<and> b_tenantId b = tenantId) (branches d)))),
       do_carrierServices = map (\<lambda>s. (cs_carrierId s, cs_id s, cs_name s))
         (take 150 (orderBy (asc cs_name)
            (findMany (\<lambda>s. (case carrier_of d (cs_carrierId s) of None \<Rightarrow> False | Some c \<Rightarrow> cr_active c)
                            \<and> cs_status s = EntityStatus.ACTIVE \<and> cs_tenantId s = tenantId) (carrierServices d)))),
       do_carriers = map (\<lambda>c. (cr_id c, cr_name c))
         (take 100 (orderBy (asc cr_name) (findMany (\<lambda>c. cr_active c \<and> cr_tenantId c = tenantId) (carriers d)))),
       do_customers = map (\<lambda>c. (c_id c, c_name c))
         (take 100 (orderBy (asc c_name) (findMany (\<lambda>c. c_active c \<and> c_tenantId c = tenantId) (customers d)))),
       do_shipmentStatuses = map (\<lambda>s. (shipment_status_name s, shipment_status_name s))
         [CREATED, PICKUP_SCHEDULED, PICKED_UP, IN_TRANSIT, ARRIVED_AT_HUB, OUT_FOR_DELIVERY, DELIVERED,
          DELIVERY_FAILED, RETURNING, RETURNED, CANCELED] \<rparr>"

definition decision_highlights :: "string \<Rightarrow> (date \<Rightarrow> bool) \<Rightarrow> db \<Rightarrow> DashboardDecisionHighlightDto list" where
  "decision_highlights tenantId inside d =
     map (\<lambda>i. \<lparr> hl_actionUrl = in_actionUrl i, hl_category = in_category i, hl_severity = in_severity i,
               hl_title = in_title i,
               hl_value = (case in_metricValue i of
                  Some v \<Rightarrow> number_text (fl v)
                | None \<Rightarrow> (case in_percentageChange i of Some v \<Rightarrow> number_text (fl v) | None \<Rightarrow> [])) \<rparr>)
       (take 4 (orderBy (then_by (desc in_severity) (desc in_generatedAt))
          (findMany (\<lambda>i. inside (in_generatedAt i) \<and> in_status i \<noteq> DISMISSED \<and> in_tenantId i = tenantId) (insights d))))"

definition presentActivity :: "AuditLog \<Rightarrow> DashboardActivityDto" where
  "presentActivity l = \<lparr> da_action = al_action l, da_createdAt = al_createdAt l, da_entityId = al_entityId l,
     da_entityType = al_entityType l, da_id = al_id l \<rparr>"

definition recent_activity :: "string \<Rightarrow> (date \<Rightarrow> bool) \<Rightarrow> db \<Rightarrow> DashboardActivityDto list" where
  "recent_activity tenantId inside d =
     map presentActivity (take 8 (orderBy (desc al_createdAt)
       (findMany (\<lambda>l. al_action l \<in> {FREIGHT_SIMULATION_CREATED, FREIGHT_OPTION_SELECTED, SHIPMENT_CREATED,
                                      IMPORT_COMPLETED, IMPORT_FAILED}
                      \<and> inside (al_createdAt l) \<and> al_tenantId l = Some tenantId) (auditLogs d))))"

definition imports_quality :: "(ImportJob \<Rightarrow> bool) \<Rightarrow> db \<Rightarrow> DashboardImportQualityDto list" where
  "imports_quality cond d =
     map (\<lambda>j. \<lparr> iqd_errorRows = ij_errorRows j, iqd_filename = ij_filename j, iqd_id = ij_id j,
               iqd_successRows = ij_successRows j, iqd_totalRows = ij_totalRows j \<rparr>)
       (take 8 (orderBy (desc ij_createdAt) (findMany cond (importJobs d))))"

text \<open>The parts of the summary, each from its own queries.\<close>

definition import_where :: "string \<Rightarrow> (date \<Rightarrow> bool) \<Rightarrow> ImportJob \<Rightarrow> bool" where
  "import_where tenantId inside j = (inside (ij_createdAt j) \<and> ij_tenantId j = tenantId)"

definition summary_totals :: "string \<Rightarrow> DashboardFilters \<Rightarrow> (date \<Rightarrow> bool) \<Rightarrow> db \<Rightarrow> DashboardTotals" where
  "summary_totals tenantId f inside d =
     \<lparr> dt_activeCarriers = count_rows (\<lambda>c. cr_active c \<and> cr_tenantId c = tenantId) (carriers d),
       dt_activeCustomers = count_rows (\<lambda>c. c_active c \<and> c_tenantId c = tenantId) (customers d),
       dt_activeUsers = count_rows (\<lambda>u. u_status u = UserStatus.ACTIVE \<and> u_tenantId u = Some tenantId) (users d),
       dt_auditEvents = count_rows (\<lambda>l. al_tenantId l = Some tenantId) (auditLogs d),
       dt_freightSimulations = count_rows (simulationWhereFor tenantId f inside) (freightSimulations d),
       dt_importJobs = count_rows (import_where tenantId inside) (importJobs d) \<rparr>"

definition summary_operations ::
  "date \<Rightarrow> string \<Rightarrow> DashboardFilters \<Rightarrow> (date \<Rightarrow> bool) \<Rightarrow> db \<Rightarrow> DashboardOperations" where
  "summary_operations now tenantId f inside d =
     (let base = shipmentWhereFor tenantId f inside;
          n = count_rows base (shipments d);
          delivered = count_rows (statusMetricWhere base (df_status f) [DELIVERED]) (shipments d)
      in \<lparr> dop_delayedShipments = count_rows (delayedMetricWhere base (df_status f) now) (shipments d),
           dop_deliveredShipments = delivered,
           dop_failedShipments = count_rows (statusMetricWhere base (df_status f) [DELIVERY_FAILED]) (shipments d),
           dop_inTransitShipments = count_rows (statusMetricWhere base (df_status f) active_shipment_statuses) (shipments d),
           dop_successRate = percent delivered n, dop_totalShipments = n \<rparr>)"

definition summary_imports :: "date \<Rightarrow> string \<Rightarrow> (date \<Rightarrow> bool) \<Rightarrow> db \<Rightarrow> DashboardImports" where
  "summary_imports now tenantId inside d =
     (let cond = import_where tenantId inside in
      \<lparr> di_completed = count_rows (\<lambda>j. cond j \<and> ij_status j = COMPLETED) (importJobs d),
        di_errorRate = import_error_rate cond d,
        di_failed = count_rows (\<lambda>j. cond j \<and> ij_status j = ImportStatus.FAILED) (importJobs d),
        di_processing = count_rows (\<lambda>j. ij_status j = PROCESSING \<and> ij_tenantId j = tenantId) (importJobs d),
        di_stalled = count_rows (\<lambda>j. ij_status j = PROCESSING \<and> ij_tenantId j = tenantId
                       \<and> ij_updatedAt j < now - 30 * 60 * 1000) (importJobs d) \<rparr>)"

definition chart_simulations :: "string \<Rightarrow> DashboardFilters \<Rightarrow> (date \<Rightarrow> bool) \<Rightarrow> db \<Rightarrow> FreightSimulation list" where
  "chart_simulations tenantId f inside d =
     take 1000 (orderBy (asc fs_createdAt) (findMany (simulationWhereFor tenantId f inside) (freightSimulations d)))"

definition summary_freight ::
  "(rat list \<Rightarrow> rat) \<Rightarrow> bool \<Rightarrow> string \<Rightarrow> DashboardFilters \<Rightarrow> InsightGenerationPeriod \<Rightarrow> db \<Rightarrow> DashboardFreight" where
  "summary_freight avg fullAccess tenantId f p d =
     (let cond = simulationWhereFor tenantId f (current p);
          opts = optionWhereFor tenantId f (current p);
          n = count_rows cond (freightSimulations d);
          before = count_rows (simulationWhereFor tenantId f (between (previousStart p) (previousEnd p))) (freightSimulations d);
          shipped = count_rows (shipmentWhereFor tenantId f (current p)) (shipments d)
      in \<lparr> dg_averageEstimatedPrice = (if fullAccess then price_average avg cond d else None),
           dg_averageLowestOption =
             (if fullAccess then option_average avg (\<lambda>r. opts r \<and> fo_cheapest (snd r)) d else None),
           dg_calculatedSimulations = count_rows (\<lambda>s. cond s \<and> fs_status s = CALCULATED) (freightSimulations d),
           dg_conversionRate = percent shipped n,
           dg_estimatedSavings =
             (if fullAccess then round2 (estimateSavings (chart_simulations tenantId f (current p) d)) else 0),
           dg_selectedAveragePrice =
             (if fullAccess then option_average avg (\<lambda>r. opts r \<and> fo_selected (snd r)) d else None),
           dg_selectedOptions = count_rows (\<lambda>r. opts r \<and> fo_selected (snd r)) (option_rows d),
           dg_shipmentsFromSimulations = shipped,
           dg_simulationsChangePercent = change_percent (of_nat n) (of_nat before) \<rparr>)"

definition summary_comparisons ::
  "(rat list \<Rightarrow> rat) \<Rightarrow> date \<Rightarrow> string \<Rightarrow> DashboardFilters \<Rightarrow> InsightGenerationPeriod \<Rightarrow> db \<Rightarrow> DashboardComparisons" where
  "summary_comparisons avg now tenantId f p d =
     (let before = between (previousStart p) (previousEnd p);
          simulated = (\<lambda>inside. count_rows (simulationWhereFor tenantId f inside) (freightSimulations d));
          shipped = (\<lambda>inside. count_rows (shipmentWhereFor tenantId f inside) (shipments d));
          delayed = (\<lambda>inside cutoff. count_rows
             (delayedMetricWhere (shipmentWhereFor tenantId f inside) (df_status f) cutoff) (shipments d))
      in \<lparr> dc_costAverage = trend (price_average avg (simulationWhereFor tenantId f (current p)) d)
             (price_average avg (simulationWhereFor tenantId f before) d) False,
           dc_delayedShipments = trend (Some (of_nat (delayed (current p) now)))
             (Some (of_nat (delayed before (currentStart p)))) False,
           dc_freightSimulations = trend (Some (of_nat (simulated (current p)))) (Some (of_nat (simulated before))) True,
           dc_importErrorRate = trend (Some (import_error_rate (import_where tenantId (current p)) d))
             (Some (import_error_rate (import_where tenantId before) d)) False,
           dc_shipments = trend (Some (of_nat (shipped (current p)))) (Some (of_nat (shipped before))) True \<rparr>)"

definition summary_charts ::
  "bool \<Rightarrow> string \<Rightarrow> DashboardFilters \<Rightarrow> (date \<Rightarrow> bool) \<Rightarrow> db \<Rightarrow> DashboardCharts" where
  "summary_charts fullAccess tenantId f inside d =
     (let sims = chart_simulations tenantId f inside d;
          opts = map snd (take 1000 (orderBy (desc (\<lambda>(s, opt). fs_createdAt s))
                   (findMany (optionWhereFor tenantId f inside) (option_rows d))));
          ships = take 1000 (orderBy (asc sh_createdAt) (findMany (shipmentWhereFor tenantId f inside) (shipments d)))
      in \<lparr> dh_carrierPerformance = carrierPerformance opts fullAccess,
           dh_conversionByPeriod = conversionByPeriod sims ships,
           dh_costByPeriod = (if fullAccess then costByPeriod sims else []),
           dh_importsQuality = imports_quality (import_where tenantId inside) d,
           dh_routePerformance = routePerformance sims fullAccess,
           dh_selectedCarriers = selectedCarriers opts,
           dh_shipmentStatus = shipmentStatus (map sh_status ships),
           dh_simulationsByPeriod = simulationsByPeriod sims \<rparr>)"

definition calculateSummary ::
  "(rat list \<Rightarrow> rat) \<Rightarrow> date \<Rightarrow> string \<Rightarrow> UserRole \<Rightarrow> DashboardFilters \<Rightarrow> db \<Rightarrow> DashboardSummaryDto result" where
  "calculateSummary avg now tenantId role f d =
     bindE (periodFromFilters now f) (\<lambda>p.
       let fullAccess = (role \<noteq> OPERATOR) in
       Inr \<lparr> ds_accessScope = (if fullAccess then FULL else OPERATIONAL),
             ds_comparisons = summary_comparisons avg now tenantId f p d,
             ds_filterOptions = loadFilterOptions tenantId d, ds_filters = f, ds_generatedAt = now,
             ds_period = p, ds_tenantId = tenantId, ds_totals = summary_totals tenantId f (current p) d,
             ds_freight = summary_freight avg fullAccess tenantId f p d,
             ds_imports = summary_imports now tenantId (current p) d,
             ds_operations = summary_operations now tenantId f (current p) d,
             ds_charts = summary_charts fullAccess tenantId f (current p) d,
             ds_decisionHighlights = decision_highlights tenantId (current p) d,
             ds_recentActivity = recent_activity tenantId (current p) d \<rparr>)"

section \<open>The cache\<close>

type_synonym cache = "string \<rightharpoonup> DashboardSummaryDto \<times> date"

definition tenantKey :: "string \<Rightarrow> string \<Rightarrow> string" where
  "tenantKey tenantId key = ''tenant:'' @ tenantId @ '':'' @ key"

definition dashboard_key :: "string \<Rightarrow> UserRole \<Rightarrow> DashboardFilters \<Rightarrow> string" where
  "dashboard_key tenantId role f =
     tenantKey tenantId (''dashboard:'' @ role_name role @ '':'' @ stringify (filters_json f))"

definition readCache :: "bool \<Rightarrow> date \<Rightarrow> string \<Rightarrow> cache \<Rightarrow> DashboardSummaryDto option" where
  "readCache redisUp now key c =
     (if redisUp then (case c key of Some (v, expires) \<Rightarrow> if now < expires then Some v else None | None \<Rightarrow> None)
      else None)"

definition writeCache :: "bool \<Rightarrow> date \<Rightarrow> string \<Rightarrow> DashboardSummaryDto \<Rightarrow> cache \<Rightarrow> cache" where
  "writeCache redisUp now key v c = (if redisUp then c(key \<mapsto> (v, now + 20 * 1000)) else c)"

text \<open>Each of the two commands to Redis may fail, as \<open>readUp\<close> and \<open>writeUp\<close> say.\<close>

definition getSummary ::
  "(rat list \<Rightarrow> rat) \<Rightarrow> bool \<Rightarrow> bool \<Rightarrow> date \<Rightarrow> string \<Rightarrow> UserRole \<Rightarrow> DashboardFilters \<Rightarrow> db
    \<Rightarrow> cache \<Rightarrow> DashboardSummaryDto result \<times> cache" where
  "getSummary avg readUp writeUp now tenantId role query d c =
     (let f = normalizeFilters query; key = dashboard_key tenantId role f in
      case readCache readUp now key c of
        Some v \<Rightarrow> (Inr v, c)
      | None \<Rightarrow>
          (case calculateSummary avg now tenantId role f d of
             Inl e \<Rightarrow> (Inl e, c)
           | Inr v \<Rightarrow> (Inr v, writeCache writeUp now key v c)))"

end
