(* ===== verification/DashboardSafety.thy ===== *)
theory DashboardSafety
  imports Dashboard InsightSafety ImportRuns
begin

text \<open>
  What the dashboard answers: its cache never mixes tenants, roles or filters, its rates are
  percentages, its figures depend on the rows of the tenant only, and its savings are those of
  the insight. One figure that an operator should not see is still in the answer.
\<close>

section \<open>The JSON text of the filters\<close>

lemma ccode_inject [simp]: "ccode a = ccode b \<longleftrightarrow> a = b"
  by (simp add: ccode_def)

lemma ccode_char_of [simp]: "n < 256 \<Longrightarrow> ccode (char_of n) = n"
  by (simp add: ccode_def)

definition hex_value :: "char \<Rightarrow> nat" where
  "hex_value c = (if ccode c < 58 then ccode c - 48 else ccode c - 87)"

lemma hex_value_json [simp]: "n < 16 \<Longrightarrow> hex_value (json_hex n) = n"
  by (simp add: hex_value_def json_hex_def digit_char_def)

text \<open>Reading back one character of a quoted text.\<close>

definition unescape :: "string \<Rightarrow> char \<times> string" where
  "unescape s =
     (if ccode (s ! 0) \<noteq> 92 then (s ! 0, drop 1 s)
      else let e = ccode (s ! 1) in
        if e = 117 then (char_of (16 * hex_value (s ! 4) + hex_value (s ! 5)), drop 6 s)
        else (char_of (if e = 98 then 8 else if e = 116 then 9 else if e = 110 then 10
                       else if e = 102 then 12 else if e = 114 then 13 else e), drop 2 s))"

lemma char_of_ccode: "char_of (ccode c) = c"
  by (simp add: ccode_def)

lemma unescape_escape: "unescape (json_escape c @ x) = (c, x)"
proof -
  have l: "ccode CHR ''b'' = 98" "ccode CHR ''t'' = 116" "ccode CHR ''n'' = 110" "ccode CHR ''f'' = 102"
    "ccode CHR ''r'' = 114" "ccode CHR ''u'' = 117"
    by (simp_all add: ccode_def)
  have c: "ccode c = k \<Longrightarrow> char_of k = c" for k
    using char_of_ccode by blast
  show ?thesis
  proof (cases "ccode c < 32 \<and> ccode c \<notin> {8, 9, 10, 12, 13}")
    case True
    then have "json_escape c = char_of (92::nat) # ''u00'' @ [json_hex (ccode c div 16), json_hex (ccode c mod 16)]"
      by (simp add: json_escape_def Let_def)
    moreover have "ccode c div 16 < 16" using True by auto
    ultimately show ?thesis
      by (simp add: unescape_def l char_of_ccode)
  next
    case False
    then consider "ccode c = 8" | "ccode c = 9" | "ccode c = 10" | "ccode c = 12" | "ccode c = 13"
      | "ccode c = 34" | "ccode c = 92" | "32 \<le> ccode c" "ccode c \<noteq> 34" "ccode c \<noteq> 92"
      by fastforce
    then show ?thesis
      by cases (simp_all add: json_escape_def unescape_def Let_def l c)
  qed
qed

lemma json_escape_quote: "json_escape c @ x \<noteq> CHR 0x22 # y"
proof
  assume "json_escape c @ x = CHR 0x22 # y"
  moreover have "ccode CHR 0x22 = 34" "char_of (92::nat) \<noteq> CHR 0x22"
    by (simp add: ccode_def) code_simp
  ultimately show False
    by (auto simp: json_escape_def Let_def split: if_splits)
qed

lemma json_quote_inj:
  assumes "json_quote s @ r = json_quote s' @ r'"
  shows "s = s' \<and> r = r'"
proof -
  have "concat (map json_escape s) @ CHR 0x22 # r = concat (map json_escape s') @ CHR 0x22 # r' \<Longrightarrow> s = s' \<and> r = r'"
  proof (induction s arbitrary: s')
    case Nil
    have "s' = []"
    proof (rule ccontr)
      assume "s' \<noteq> []"
      then obtain c' t where "s' = c' # t" by (cases s') auto
      then show False
        using Nil json_escape_quote [of c' "concat (map json_escape t) @ CHR 0x22 # r'" r] by simp
    qed
    then show ?case using Nil by simp
  next
    case (Cons c s)
    have "s' \<noteq> []"
      using Cons.prems json_escape_quote [of c "concat (map json_escape s) @ CHR 0x22 # r" r'] by auto
    then obtain c' t where s': "s' = c' # t" by (cases s') auto
    have "(c, concat (map json_escape s) @ CHR 0x22 # r) = (c', concat (map json_escape t) @ CHR 0x22 # r')"
      using Cons.prems unescape_escape by (metis append.assoc concat.simps(2) list.simps(9) s')
    then show ?case using Cons.IH s' by simp
  qed
  then show ?thesis using assms by (simp add: json_quote_def)
qed

text \<open>An object whose values are texts is determined by its JSON text.\<close>

definition text_entry :: "string \<times> string \<Rightarrow> string" where
  "text_entry e = json_quote (fst e) @ '':'' @ json_quote (snd e)"

lemma text_entry_inj: "text_entry a @ r = text_entry b @ r' \<Longrightarrow> a = b \<and> r = r'"
proof -
  assume "text_entry a @ r = text_entry b @ r'"
  then have "json_quote (fst a) @ '':'' @ json_quote (snd a) @ r = json_quote (fst b) @ '':'' @ json_quote (snd b) @ r'"
    by (simp add: text_entry_def)
  from json_quote_inj [OF this]
  have "fst a = fst b" "json_quote (snd a) @ r = json_quote (snd b) @ r'" by simp_all
  then show "a = b \<and> r = r'" using json_quote_inj [of "snd a" r "snd b" r'] by (simp add: prod_eq_iff)
qed

lemma join_Cons: "join sep (x # xs) = x @ concat (map (\<lambda>y. sep @ y) xs)"
  by (induction xs arbitrary: x) auto

lemma entries_inj:
  "concat (map (\<lambda>e. '','' @ text_entry e) xs) @ ''}'' = concat (map (\<lambda>e. '','' @ text_entry e) ys) @ ''}'' \<Longrightarrow> xs = ys"
proof (induction xs arbitrary: ys)
  case Nil
  then show ?case by (cases ys) auto
next
  case (Cons x xs)
  then obtain y zs where "ys = y # zs" by (cases ys) auto
  then show ?case
    using Cons text_entry_inj [of x _ y] by auto
qed

definition text_object :: "(string \<times> string) list \<Rightarrow> json" where
  "text_object es = JObj (map (\<lambda>(k, v). (k, JStr v)) es)"

lemma text_object_inj:
  assumes "stringify (text_object es) = stringify (text_object es')"
  shows "es = es'"
proof -
  have "stringify (text_object es) = ''{'' @ join '','' (map text_entry es) @ ''}''" for es
    by (simp add: text_object_def text_entry_def [abs_def] comp_def case_prod_unfold)
  then have "join '','' (map text_entry es) @ ''}'' = join '','' (map text_entry es') @ ''}''"
    using assms by simp
  then show ?thesis
  proof (cases es)
    case Nil
    then show ?thesis
      using \<open>join '','' (map text_entry es) @ ''}'' = _\<close>
      by (cases es') (auto simp: join_Cons text_entry_def json_quote_def)
  next
    case (Cons x xs)
    then obtain y ys where "es' = y # ys"
      using \<open>join '','' (map text_entry es) @ ''}'' = _\<close>
      by (cases es') (auto simp: join_Cons text_entry_def json_quote_def)
    then have "text_entry x @ concat (map (\<lambda>e. '','' @ text_entry e) xs) @ ''}''
      = text_entry y @ concat (map (\<lambda>e. '','' @ text_entry e) ys) @ ''}''"
      using \<open>join '','' (map text_entry es) @ ''}'' = _\<close> Cons by (simp add: join_Cons comp_def)
    then show ?thesis
      using text_entry_inj entries_inj Cons \<open>es' = y # ys\<close> by blast
  qed
qed

section \<open>The key of a request\<close>

definition filter_entries :: "DashboardFilters \<Rightarrow> (string \<times> string) list" where
  "filter_entries f = concat (map (\<lambda>(k, v). case v of None \<Rightarrow> [] | Some s \<Rightarrow> [(k, s)])
     [(''startDate'', df_startDate f), (''endDate'', df_endDate f), (''customerId'', df_customerId f),
      (''carrierId'', df_carrierId f), (''carrierServiceId'', df_carrierServiceId f),
      (''branchId'', df_branchId f), (''status'', map_option shipment_status_name (df_status f))])"

lemma filters_json_text: "filters_json f = text_object (filter_entries f)"
  by (simp add: filters_json_def text_object_def filter_entries_def opt_entry_def split: option.split)

lemma map_of_optional: "map_of (case v of None \<Rightarrow> [] | Some s \<Rightarrow> [(k, s)]) j = (if j = k then v else None)"
  by (simp split: option.split)

lemma filter_entries_lookup:
  "map_of (filter_entries f) ''startDate'' = df_startDate f"
  "map_of (filter_entries f) ''endDate'' = df_endDate f"
  "map_of (filter_entries f) ''customerId'' = df_customerId f"
  "map_of (filter_entries f) ''carrierId'' = df_carrierId f"
  "map_of (filter_entries f) ''carrierServiceId'' = df_carrierServiceId f"
  "map_of (filter_entries f) ''branchId'' = df_branchId f"
  "map_of (filter_entries f) ''status'' = map_option shipment_status_name (df_status f)"
  by (simp_all add: filter_entries_def map_of_append map_add_def map_of_optional split: option.split)

lemma shipment_status_name_inj: "shipment_status_name a = shipment_status_name b \<Longrightarrow> a = b"
  by (cases a; cases b) simp_all

lemma filters_json_inj:
  assumes "stringify (filters_json f) = stringify (filters_json g)"
  shows "f = g"
proof -
  have e: "filter_entries f = filter_entries g"
    using assms text_object_inj by (simp add: filters_json_text del: stringify.simps)
  have "map_option shipment_status_name (df_status f) = map_option shipment_status_name (df_status g)"
    using filter_entries_lookup(7) [of f] filter_entries_lookup(7) [of g] e by simp
  then have "df_status f = df_status g"
    by (cases "df_status f"; cases "df_status g") (auto dest: shipment_status_name_inj)
  then show ?thesis
    using filter_entries_lookup(1-6) [of f] filter_entries_lookup(1-6) [of g] e
    by (intro DashboardFilters.equality) simp_all
qed

lemma append_Cons_inj: "c \<notin> set a \<Longrightarrow> c \<notin> set b \<Longrightarrow> a @ c # x = b @ c # y \<Longrightarrow> a = b \<and> x = y"
proof (induction a arbitrary: b)
  case Nil
  then show ?case by (cases b) auto
next
  case (Cons d a)
  then show ?case by (cases b) auto
qed

lemma dashboard_key_inj:
  assumes "CHR '':'' \<notin> set t" "CHR '':'' \<notin> set t'" "dashboard_key t r f = dashboard_key t' r' f'"
  shows "t = t' \<and> r = r' \<and> f = f'"
proof -
  have role: "CHR '':'' \<notin> set (role_name r)" for r by (cases r) simp_all
  have "t = t' \<and> role_name r @ CHR '':'' # stringify (filters_json f) = role_name r' @ CHR '':'' # stringify (filters_json f')"
    using append_Cons_inj [OF assms(1,2), of "''dashboard:'' @ role_name r @ CHR '':'' # stringify (filters_json f)"
        "''dashboard:'' @ role_name r' @ CHR '':'' # stringify (filters_json f')"] assms(3)
    by (simp add: dashboard_key_def tenantKey_def del: stringify.simps)
  moreover have "role_name r = role_name r' \<Longrightarrow> r = r'" by (cases r; cases r') simp_all
  ultimately show ?thesis
    using append_Cons_inj [OF role role] filters_json_inj by metis
qed

section \<open>What a role is answered\<close>

definition no_prices :: "DashboardSummaryDto \<Rightarrow> bool" where
  "no_prices v \<longleftrightarrow>
     dg_averageEstimatedPrice (ds_freight v) = None \<and> dg_averageLowestOption (ds_freight v) = None
     \<and> dg_selectedAveragePrice (ds_freight v) = None \<and> dg_estimatedSavings (ds_freight v) = 0
     \<and> dh_costByPeriod (ds_charts v) = []
     \<and> (\<forall>c \<in> set (dh_carrierPerformance (ds_charts v)). cp_averagePrice c = None)
     \<and> (\<forall>r \<in> set (dh_routePerformance (ds_charts v)). rp_averagePrice r = None)"

definition answers :: "string \<Rightarrow> UserRole \<Rightarrow> DashboardFilters \<Rightarrow> DashboardSummaryDto \<Rightarrow> bool" where
  "answers t role f v \<longleftrightarrow> ds_tenantId v = t \<and> ds_filters v = f
     \<and> (if role = OPERATOR then ds_accessScope v = OPERATIONAL \<and> no_prices v else ds_accessScope v = FULL)"

lemma carrierPerformance_hidden: "c \<in> set (carrierPerformance opts False) \<Longrightarrow> cp_averagePrice c = None"
  by (auto simp: carrierPerformance_def dest!: in_set_takeD)

lemma routePerformance_hidden: "r \<in> set (routePerformance sims False) \<Longrightarrow> rp_averagePrice r = None"
  by (auto simp: routePerformance_def dest!: in_set_takeD)

lemma calculateSummary_answers: "calculateSummary avg now t role f d = Inr v \<Longrightarrow> answers t role f v"
  by (auto simp: calculateSummary_def bindE_eq_Inr answers_def no_prices_def summary_freight_def
    summary_charts_def Let_def carrierPerformance_hidden routePerformance_hidden)

text \<open>A sequence of requests, each on the database, at the time and with the Redis of its moment.\<close>

record DashboardRequest =
  rq_now :: date
  rq_readUp :: bool
  rq_writeUp :: bool
  rq_tenantId :: string
  rq_role :: UserRole
  rq_query :: DashboardFilters
  rq_db :: db

definition answer_request ::
  "(rat list \<Rightarrow> rat) \<Rightarrow> DashboardRequest \<Rightarrow> cache \<Rightarrow> DashboardSummaryDto result \<times> cache" where
  "answer_request avg rq c =
     getSummary avg (rq_readUp rq) (rq_writeUp rq) (rq_now rq) (rq_tenantId rq) (rq_role rq) (rq_query rq) (rq_db rq) c"

fun serve ::
  "(rat list \<Rightarrow> rat) \<Rightarrow> cache \<Rightarrow> DashboardRequest list \<Rightarrow> (DashboardRequest \<times> DashboardSummaryDto result) list" where
  "serve avg c [] = []"
| "serve avg c (rq # rqs) = (case answer_request avg rq c of (r, c') \<Rightarrow> (rq, r) # serve avg c' rqs)"

definition cache_ok :: "cache \<Rightarrow> bool" where
  "cache_ok c \<longleftrightarrow> (\<forall>k v e. c k = Some (v, e) \<longrightarrow>
     (\<exists>t role f. CHR '':'' \<notin> set t \<and> k = dashboard_key t role f \<and> answers t role f v))"

lemma writeCache_ok:
  "cache_ok c \<Longrightarrow> CHR '':'' \<notin> set t \<Longrightarrow> answers t role f v
   \<Longrightarrow> cache_ok (writeCache up now (dashboard_key t role f) v c)"
  unfolding cache_ok_def writeCache_def by auto

lemma getSummary_ok:
  assumes "cache_ok c" "CHR '':'' \<notin> set t" "getSummary avg up up' now t role q d c = (r, c')"
  shows "cache_ok c' \<and> (\<forall>v. r = Inr v \<longrightarrow> answers t role (normalizeFilters q) v)"
proof (cases "readCache up now (dashboard_key t role (normalizeFilters q)) c")
  case (Some v)
  then obtain e where "c (dashboard_key t role (normalizeFilters q)) = Some (v, e)"
    by (auto simp: readCache_def split: if_splits option.splits)
  then obtain t' role' f' where "CHR '':'' \<notin> set t'"
    "dashboard_key t role (normalizeFilters q) = dashboard_key t' role' f'" "answers t' role' f' v"
    using assms(1) unfolding cache_ok_def by blast
  then show ?thesis
    using assms Some dashboard_key_inj [of t t' role "normalizeFilters q" role' f']
    by (auto simp: getSummary_def Let_def)
next
  case None
  show ?thesis
  proof (cases "calculateSummary avg now t role (normalizeFilters q) d")
    case (Inl e)
    then show ?thesis using assms None by (auto simp: getSummary_def Let_def)
  next
    case (Inr v)
    then show ?thesis
      using assms None calculateSummary_answers [OF Inr] by (auto simp: getSummary_def Let_def writeCache_ok)
  qed
qed

text \<open>
  C32: Whatever was asked before, by whom and with which failures of Redis, an answer of the
  dashboard is about the tenant, the role and the filters of its own request, although the
  cache may give it: an operator is answered with the operational scope and without the
  average prices, the savings and the prices of the charts.
\<close>

theorem cache_keeps_roles_apart:
  assumes "(rq, Inr v) \<in> set (serve avg c rqs)" "cache_ok c" "\<forall>rq \<in> set rqs. CHR '':'' \<notin> set (rq_tenantId rq)"
  shows "answers (rq_tenantId rq) (rq_role rq) (normalizeFilters (rq_query rq)) v"
  using assms
proof (induction rqs arbitrary: c)
  case (Cons x rqs)
  obtain r c' where x: "answer_request avg x c = (r, c')" by fastforce
  have "cache_ok c' \<and> (\<forall>v. r = Inr v \<longrightarrow> answers (rq_tenantId x) (rq_role x) (normalizeFilters (rq_query x)) v)"
    by (rule getSummary_ok [OF Cons.prems(2) _ x [unfolded answer_request_def]]) (use Cons.prems(3) in simp)
  then show ?case using Cons x by auto
qed simp

definition no_filters :: DashboardFilters where
  "no_filters = \<lparr> df_startDate = None, df_endDate = None, df_customerId = None, df_carrierId = None,
     df_carrierServiceId = None, df_branchId = None, df_status = None \<rparr>"

definition dashboard_request :: "UserRole \<Rightarrow> date \<Rightarrow> db \<Rightarrow> DashboardRequest" where
  "dashboard_request role now d = \<lparr> rq_now = now, rq_readUp = True, rq_writeUp = True, rq_tenantId = ''t'',
     rq_role = role, rq_query = no_filters, rq_db = d \<rparr>"

lemma no_filters_normal [simp]: "normalizeFilters no_filters = no_filters"
  by (simp add: no_filters_def normalizeFilters_def present_def)

lemma no_filters_period [simp]: "periodFromFilters now no_filters = Inr (buildPeriod now)"
  by (simp add: no_filters_def periodFromFilters_def)

lemma no_filters_answered: "\<exists>v. fst (getSummary avg up up' now t role no_filters d c) = Inr v"
  by (auto simp: getSummary_def calculateSummary_def Let_def split: option.split)

theorem cache_keeps_roles_apart_witness:
  "\<exists>v. (dashboard_request OPERATOR 5000 empty_db, Inr v)
        \<in> set (serve (\<lambda>_. 0) Map.empty [dashboard_request ADMIN 0 empty_db, dashboard_request OPERATOR 5000 empty_db])
     \<and> answers ''t'' OPERATOR no_filters v"
proof -
  let ?a = "dashboard_request ADMIN 0 empty_db" and ?o = "dashboard_request OPERATOR 5000 empty_db"
  obtain r c where a: "answer_request (\<lambda>_. 0) ?a Map.empty = (r, c)" by fastforce
  obtain v where "fst (answer_request (\<lambda>_. 0) ?o c) = Inr v"
    using no_filters_answered [of "\<lambda>_. 0" True True 5000 "''t''" OPERATOR empty_db c]
    by (auto simp: answer_request_def dashboard_request_def)
  then have "(?o, Inr v) \<in> set (serve (\<lambda>_. 0) Map.empty [?a, ?o])"
    by (simp add: a case_prod_unfold)
  moreover have "cache_ok Map.empty" by (simp add: cache_ok_def)
  ultimately show ?thesis
    using cache_keeps_roles_apart [of ?o v "\<lambda>_. 0" Map.empty "[?a, ?o]"] by (auto simp: dashboard_request_def)
qed

section \<open>The average cost in the comparisons\<close>

text \<open>
  The comparisons are computed without regard to the role: what they give an operator as
  the current average cost is the average estimated price that the freight figures hide from
  the operator and give to an administrator.
\<close>

theorem operator_reads_average_cost:
  assumes "calculateSummary avg now t OPERATOR f d = Inr v" "calculateSummary avg now t ADMIN f d = Inr w"
  shows "dg_averageEstimatedPrice (ds_freight v) = None
    \<and> tr_current (dc_costAverage (ds_comparisons v)) = dg_averageEstimatedPrice (ds_freight w)"
  using assms
  by (auto simp: calculateSummary_def bindE_eq_Inr summary_freight_def summary_comparisons_def trend_def Let_def
    split: option.split)

section \<open>Rates\<close>

lemma percent_bounds:
  assumes "n \<le> m"
  shows "0 \<le> percent n m \<and> percent n m \<le> 100"
proof -
  let ?q = "of_nat n / of_nat m :: rat"
  have q: "0 \<le> ?q" "?q \<le> 1"
    using assms by (simp_all add: divide_le_eq)
  have one: "fl 1 = 1" "fl 100 = 100"
    using fl_nat [of 1] fl_nat [of 100] by simp_all
  have "0 \<le> fl ?q" "fl ?q \<le> 1"
    using q fl_nonneg fl_mono [OF q(2)] one by simp_all
  then have "0 \<le> fl (fl ?q * 100)" "fl (fl ?q * 100) \<le> 100"
    using fl_nonneg [of "fl ?q * 100"] fl_mono [of "fl ?q * 100" 100] one by simp_all
  then have "0 \<le> round2 (fl (fl ?q * 100))" "round2 (fl (fl ?q * 100)) \<le> 100"
    using round2_nonneg round2_mono [of "fl (fl ?q * 100)" 100] round2_nat [of 100] by simp_all
  then show ?thesis by (simp add: percent_def)
qed

lemma percent_nonneg: "0 \<le> percent n m"
  by (auto simp: percent_def intro!: round2_nonneg fl_nonneg)

lemma count_rows_mono: "(\<And>x. p x \<Longrightarrow> q x) \<Longrightarrow> count_rows p t \<le> count_rows q t"
  unfolding count_rows_def by (induction t) auto

lemma statusMetricWhere_base: "statusMetricWhere base r a s \<Longrightarrow> base s"
  by (auto simp: statusMetricWhere_def split: option.splits if_splits)

lemma import_error_rate_bounds:
  assumes "\<forall>j \<in> set (importJobs d). job_ok j"
  shows "0 \<le> import_error_rate q d \<and> import_error_rate q d \<le> 100"
proof -
  have "\<forall>j \<in> set js. job_ok j \<Longrightarrow> sum_list (map ij_errorRows js) \<le> sum_list (map ij_totalRows js)" for js
    by (rule sum_list_mono) (auto simp: job_ok_def)
  then have "sum_list (map ij_errorRows (findMany q (importJobs d))) \<le> sum_list (map ij_totalRows (findMany q (importJobs d)))"
    using assms by (simp add: findMany_def)
  then show ?thesis by (simp add: import_error_rate_def Let_def percent_bounds)
qed

text \<open>
  C39: In a state the import service keeps, the success rate of the deliveries and the error
  rate of the imports lie between 0 and 100, in spite of the rounding of doubles, and no more
  shipments are delivered than counted.
\<close>

theorem rates_are_percentages:
  assumes "calculateSummary avg now t role f d = Inr v" "imports_ok d"
  shows "0 \<le> dop_successRate (ds_operations v) \<and> dop_successRate (ds_operations v) \<le> 100
    \<and> 0 \<le> di_errorRate (ds_imports v) \<and> di_errorRate (ds_imports v) \<le> 100
    \<and> 0 \<le> dg_conversionRate (ds_freight v)
    \<and> dop_deliveredShipments (ds_operations v) \<le> dop_totalShipments (ds_operations v)"
proof -
  have le: "count_rows (statusMetricWhere base r a) ss \<le> count_rows base ss" for base r a ss
    by (rule count_rows_mono) (rule statusMetricWhere_base)
  have "\<forall>j \<in> set (importJobs d). job_ok j"
    using assms(2) by (simp add: imports_ok_def)
  then show ?thesis
    using assms(1) import_error_rate_bounds [of d]
    by (auto simp: calculateSummary_def bindE_eq_Inr summary_operations_def summary_imports_def
      summary_freight_def Let_def percent_bounds percent_nonneg le)
qed

theorem rates_are_percentages_witness:
  "\<exists>v. calculateSummary (\<lambda>_. 0) 0 ''t'' ADMIN no_filters empty_db = Inr v \<and> dop_successRate (ds_operations v) \<le> 100"
proof -
  obtain v where "calculateSummary (\<lambda>_. 0) 0 ''t'' ADMIN no_filters empty_db = Inr v"
    by (simp add: calculateSummary_def Let_def)
  then show ?thesis
    using rates_are_percentages [OF _ empty_imports_ok] by blast
qed

section \<open>Rows of one tenant\<close>

text \<open>The part of the database that belongs to a tenant, in the tables the dashboard reads.\<close>

definition own_rows :: "string \<Rightarrow> db \<Rightarrow> db" where
  "own_rows t d = empty_db
     \<lparr> users := filter (\<lambda>u. u_tenantId u = Some t) (users d),
       branches := filter (\<lambda>b. b_tenantId b = t) (branches d),
       customers := filter (\<lambda>c. c_tenantId c = t) (customers d),
       carriers := filter (\<lambda>c. cr_tenantId c = t) (carriers d),
       carrierServices := filter (\<lambda>s. cs_tenantId s = t) (carrierServices d),
       freightSimulations := filter (\<lambda>s. fs_tenantId s = t) (freightSimulations d),
       shipments := filter (\<lambda>s. sh_tenantId s = t) (shipments d),
       importJobs := filter (\<lambda>j. ij_tenantId j = t) (importJobs d),
       insights := filter (\<lambda>i. in_tenantId i = t) (insights d),
       auditLogs := filter (\<lambda>l. al_tenantId l = Some t) (auditLogs d) \<rparr>"

lemma own_rows_tables [simp]:
  "users (own_rows t d) = filter (\<lambda>u. u_tenantId u = Some t) (users d)"
  "branches (own_rows t d) = filter (\<lambda>b. b_tenantId b = t) (branches d)"
  "customers (own_rows t d) = filter (\<lambda>c. c_tenantId c = t) (customers d)"
  "carriers (own_rows t d) = filter (\<lambda>c. cr_tenantId c = t) (carriers d)"
  "carrierServices (own_rows t d) = filter (\<lambda>s. cs_tenantId s = t) (carrierServices d)"
  "freightSimulations (own_rows t d) = filter (\<lambda>s. fs_tenantId s = t) (freightSimulations d)"
  "shipments (own_rows t d) = filter (\<lambda>s. sh_tenantId s = t) (shipments d)"
  "importJobs (own_rows t d) = filter (\<lambda>j. ij_tenantId j = t) (importJobs d)"
  "insights (own_rows t d) = filter (\<lambda>i. in_tenantId i = t) (insights d)"
  "auditLogs (own_rows t d) = filter (\<lambda>l. al_tenantId l = Some t) (auditLogs d)"
  by (simp_all add: own_rows_def)

lemma filter_of_filter: "(\<And>x. p x \<Longrightarrow> q x) \<Longrightarrow> filter p (filter q t) = filter p t"
  by (induction t) auto

lemma option_rows_own: "option_rows (own_rows t d) = filter (\<lambda>r. fs_tenantId (fst r) = t) (option_rows d)"
proof -
  have "concat (map (\<lambda>s. map (Pair s) (fs_options s)) (filter (\<lambda>s. fs_tenantId s = t) ss))
    = filter (\<lambda>r. fs_tenantId (fst r) = t) (concat (map (\<lambda>s. map (Pair s) (fs_options s)) ss))" for ss
    by (induction ss) (auto simp: filter_map comp_def)
  then show ?thesis by (simp add: option_rows_def)
qed

text \<open>Each condition of a query names the tenant.\<close>

lemma find_own:
  "(\<And>s. q s \<Longrightarrow> fs_tenantId s = t) \<Longrightarrow> filter q (filter (\<lambda>s. fs_tenantId s = t) ss) = filter q ss"
  by (rule filter_of_filter)

lemma own_simulations:
  "filter (\<lambda>s. simulationWhereFor t f inside s \<and> x s) (filter (\<lambda>s. fs_tenantId s = t) ss)
   = filter (\<lambda>s. simulationWhereFor t f inside s \<and> x s) ss"
  "filter (simulationWhereFor t f inside) (filter (\<lambda>s. fs_tenantId s = t) ss) = filter (simulationWhereFor t f inside) ss"
  by (rule filter_of_filter; simp add: simulationWhereFor_def)+

lemma own_options:
  "filter (\<lambda>r. optionWhereFor t f inside r \<and> x r) (filter (\<lambda>r. fs_tenantId (fst r) = t) rs)
   = filter (\<lambda>r. optionWhereFor t f inside r \<and> x r) rs"
  "filter (optionWhereFor t f inside) (filter (\<lambda>r. fs_tenantId (fst r) = t) rs) = filter (optionWhereFor t f inside) rs"
  by (rule filter_of_filter; auto simp: optionWhereFor_def)+

lemma own_shipments:
  "filter (shipmentWhereFor t f inside) (filter (\<lambda>s. sh_tenantId s = t) ss) = filter (shipmentWhereFor t f inside) ss"
  "filter (statusMetricWhere (shipmentWhereFor t f inside) r a) (filter (\<lambda>s. sh_tenantId s = t) ss)
   = filter (statusMetricWhere (shipmentWhereFor t f inside) r a) ss"
  "filter (delayedMetricWhere (shipmentWhereFor t f inside) r c) (filter (\<lambda>s. sh_tenantId s = t) ss)
   = filter (delayedMetricWhere (shipmentWhereFor t f inside) r c) ss"
  by (rule filter_of_filter; auto simp: shipmentWhereFor_def statusMetricWhere_def delayedMetricWhere_def
      split: option.splits if_splits)+

lemma own_imports:
  "filter (import_where t inside) (filter (\<lambda>j. ij_tenantId j = t) js) = filter (import_where t inside) js"
  "filter (\<lambda>j. import_where t inside j \<and> x j) (filter (\<lambda>j. ij_tenantId j = t) js)
   = filter (\<lambda>j. import_where t inside j \<and> x j) js"
  by (rule filter_of_filter; simp add: import_where_def)+

lemmas own_queries = own_simulations own_options own_shipments own_imports option_rows_own
  findMany_def count_rows_def

lemma own_chart_simulations: "chart_simulations t f inside (own_rows t d) = chart_simulations t f inside d"
  by (simp add: chart_simulations_def own_queries del: filter_filter)

lemma own_averages:
  "price_average avg (simulationWhereFor t f inside) (own_rows t d) = price_average avg (simulationWhereFor t f inside) d"
  "option_average avg (\<lambda>r. optionWhereFor t f inside r \<and> x r) (own_rows t d)
   = option_average avg (\<lambda>r. optionWhereFor t f inside r \<and> x r) d"
  "import_error_rate (import_where t inside) (own_rows t d) = import_error_rate (import_where t inside) d"
  "imports_quality (import_where t inside) (own_rows t d) = imports_quality (import_where t inside) d"
  by (simp_all add: price_average_def option_average_def import_error_rate_def imports_quality_def own_queries
      del: filter_filter)

lemma own_parts:
  "summary_freight avg full t f p (own_rows t d) = summary_freight avg full t f p d"
  "summary_comparisons avg now t f p (own_rows t d) = summary_comparisons avg now t f p d"
  "summary_charts full t f inside (own_rows t d) = summary_charts full t f inside d"
  "summary_operations now t f inside (own_rows t d) = summary_operations now t f inside d"
  by (simp_all add: summary_freight_def summary_comparisons_def summary_charts_def summary_operations_def
      own_chart_simulations own_averages own_queries Let_def del: filter_filter)

lemma own_rest:
  "summary_totals t f inside (own_rows t d) = summary_totals t f inside d"
  "decision_highlights t inside (own_rows t d) = decision_highlights t inside d"
  "recent_activity t inside (own_rows t d) = recent_activity t inside d"
  by (simp_all add: summary_totals_def decision_highlights_def recent_activity_def
      findMany_def count_rows_def import_where_def [abs_def] simulationWhereFor_def [abs_def] conj_ac cong: conj_cong)

lemma own_summary_imports: "summary_imports now t inside (own_rows t d) = summary_imports now t inside d"
  unfolding summary_imports_def Let_def own_averages
  by (simp add: findMany_def count_rows_def import_where_def [abs_def] conj_ac cong: conj_cong)

lemma own_carrier:
  assumes "carriers_ok d" "s \<in> set (carrierServices d)" "cs_tenantId s = t"
  shows "carrier_of (own_rows t d) (cs_carrierId s) = carrier_of d (cs_carrierId s)"
proof -
  obtain c where c: "c \<in> set (carriers d)" "cr_tenantId c = t" "cr_id c = cs_carrierId s"
    using assms by (auto simp: carriers_ok_def service_owner_def carrier_key_def image_subset_iff)
  have wf: "wf_table cr_id carrier_conflict (carriers d)"
    using assms(1) by (simp add: carriers_ok_def)
  have "wf_table cr_id carrier_conflict (carriers (own_rows t d))"
    using wf by (auto simp: wf_table_def distinct_map_filter)
  then show ?thesis
    using wf_table_find [OF wf c(1)] wf_table_find [of cr_id carrier_conflict "carriers (own_rows t d)" c] c
    by (simp add: carrier_of_def findFirst_def)
qed

lemma own_filter_options:
  assumes "carriers_ok d"
  shows "loadFilterOptions t (own_rows t d) = loadFilterOptions t d"
proof -
  let ?on = "\<lambda>d s. (case carrier_of d (cs_carrierId s) of None \<Rightarrow> False | Some c \<Rightarrow> cr_active c)
     \<and> cs_status s = EntityStatus.ACTIVE \<and> cs_tenantId s = t"
  have "filter (?on (own_rows t d)) (filter (\<lambda>s. cs_tenantId s = t) (carrierServices d)) = filter (?on (own_rows t d)) (carrierServices d)"
    by (rule filter_of_filter) simp
  also have "... = filter (?on d) (carrierServices d)"
    by (rule filter_cong) (auto simp: own_carrier [OF assms])
  finally have "findMany (?on (own_rows t d)) (carrierServices (own_rows t d)) = findMany (?on d) (carrierServices d)"
    by (simp add: findMany_def del: filter_filter)
  then show ?thesis
    by (simp only: loadFilterOptions_def) (simp add: findMany_def conj_ac cong: conj_cong)
qed

text \<open>
  C33: The summary of a tenant depends on the tenant's own rows only: on two databases that
  agree on them it is the same, whatever the other tenants have. The carriers invariant is what
  makes the carrier of an own service an own carrier.
\<close>

theorem dashboard_isolated:
  assumes "own_rows t d = own_rows t d'" "carriers_ok d" "carriers_ok d'"
  shows "calculateSummary avg now t role f d = calculateSummary avg now t role f d'"
proof -
  have "calculateSummary avg now t role f d = calculateSummary avg now t role f (own_rows t d)" if "carriers_ok d" for d
    by (simp add: calculateSummary_def own_parts own_rest own_summary_imports own_filter_options [OF that])
  then show ?thesis using assms by metis
qed

theorem dashboard_isolated_witness:
  "calculateSummary (\<lambda>_. 0) 0 ''s'' ADMIN no_filters stalled_db = calculateSummary (\<lambda>_. 0) 0 ''s'' ADMIN no_filters empty_db"
  by (rule dashboard_isolated)
    (simp_all add: own_rows_def stalled_db_def stalled_job_def carriers_ok_def empty_db_def wf_table_def)

section \<open>Savings\<close>

lemma cheapest_option_snoc:
  "cheapest_option (opts @ [opt]) = (case cheapest_option opts of
     None \<Rightarrow> Some opt
   | Some b \<Rightarrow> if fo_totalPrice opt < fo_totalPrice b then Some opt else Some b)"
  by (simp add: cheapest_option_def)

lemma cheapest_option_spec:
  "(cheapest_option opts = None \<longleftrightarrow> opts = [])
   \<and> (\<forall>c. cheapest_option opts = Some c \<longrightarrow> c \<in> set opts \<and> (\<forall>opt \<in> set opts. fo_totalPrice c \<le> fo_totalPrice opt))"
proof (induction opts rule: rev_induct)
  case Nil
  then show ?case by (simp add: cheapest_option_def)
next
  case (snoc opt opts)
  then show ?case
    using cheapest_option_snoc [of opts opt] by (cases "cheapest_option opts") auto
qed

lemma cheapest_optionD:
  assumes "cheapest_option opts = Some c"
  shows "c \<in> set opts" "opt \<in> set opts \<Longrightarrow> fo_totalPrice c \<le> fo_totalPrice opt"
  using cheapest_option_spec [of opts] assms by blast+

text \<open>A simulation whose selected option costs more than another of its options.\<close>

definition overpaid :: "FreightSimulation \<Rightarrow> bool" where
  "overpaid s = (case find fo_selected (fs_options s) of
     None \<Rightarrow> False | Some sel \<Rightarrow> list_ex (\<lambda>opt. fo_totalPrice opt < fo_totalPrice sel) (fs_options s))"

lemma savings_step_cases:
  assumes "distinct (map fo_id (fs_options s))"
  shows "if overpaid s
    then \<exists>sel c. find fo_selected (fs_options s) = Some sel \<and> cheapest_option (fs_options s) = Some c
      \<and> fo_totalPrice c < fo_totalPrice sel \<and> fo_id sel \<noteq> fo_id c
    else \<forall>sel c. find fo_selected (fs_options s) = Some sel \<longrightarrow> cheapest_option (fs_options s) = Some c
      \<longrightarrow> \<not> fo_totalPrice c < fo_totalPrice sel"
proof (cases "find fo_selected (fs_options s)")
  case None
  then show ?thesis by (simp add: overpaid_def)
next
  case (Some sel)
  then have sel: "sel \<in> set (fs_options s)" by (rule find_SomeD [THEN conjunct1])
  then have "fs_options s \<noteq> []" by auto
  then obtain c where c: "cheapest_option (fs_options s) = Some c"
    using cheapest_option_spec [of "fs_options s"] by auto
  have "overpaid s \<longleftrightarrow> fo_totalPrice c < fo_totalPrice sel"
    using Some cheapest_optionD [OF c] by (fastforce simp: overpaid_def list_ex_iff)
  moreover have "fo_id sel = fo_id c \<Longrightarrow> sel = c"
    using assms sel cheapest_optionD(1) [OF c] by (auto simp: distinct_map inj_on_def)
  ultimately show ?thesis using Some c by auto
qed


definition dearer_option :: "string \<Rightarrow> rat \<Rightarrow> bool \<Rightarrow> FreightSimulationOption" where
  "dearer_option i price selected =
     \<lparr> fo_id = i, fo_carrierId = i, fo_carrierServiceId = ''s'', fo_rateTableId = ''t'', fo_rateRangeId = ''r'',
       fo_carrierName = ''N'', fo_serviceName = ''S'', fo_serviceCode = ''C'', fo_rateTableVersion = 1,
       fo_currency = ''BRL'', fo_realWeightKg = 1, fo_cubicWeightKg = 1, fo_chargeableWeightKg = 1,
       fo_distanceKm = None, fo_deadlineDays = 3, fo_estimatedDeliveryAt = 0, fo_totalPrice = price,
       fo_cheapest = False, fo_fastest = False, fo_selected = selected, fo_selectedAt = None,
       fo_priceComponents = [] \<rparr>"

definition dearer_simulation :: "string \<Rightarrow> FreightSimulation" where
  "dearer_simulation i =
     \<lparr> fs_id = i, fs_tenantId = ''t'', fs_branchId = None, fs_customerId = None, fs_carrierId = None,
       fs_createdById = None, fs_originPostalCode = ''01000000'', fs_destinationPostalCode = ''20000000'',
       fs_realWeightKg = 1, fs_cubicWeightKg = None, fs_chargeableWeightKg = None, fs_totalVolumeM3 = None,
       fs_cargoValue = None, fs_distanceKm = None, fs_desiredShipDate = None, fs_estimatedPrice = Some 100,
       fs_estimatedDeadlineDays = None, fs_status = CALCULATED, fs_metadata = JNull, fs_createdAt = 0,
       fs_addresses = [], fs_packages = [],
       fs_options = [dearer_option ''a'' 100 False, dearer_option ''b'' 130 True] \<rparr>"


theorem operator_reads_average_cost_witness:
  "\<exists>v. calculateSummary hd 1000 ''t'' OPERATOR no_filters (empty_db\<lparr>freightSimulations := [dearer_simulation ''x'']\<rparr>) = Inr v
     \<and> dg_averageEstimatedPrice (ds_freight v) = None \<and> tr_current (dc_costAverage (ds_comparisons v)) = Some 100"
proof -
  let ?d = "empty_db\<lparr>freightSimulations := [dearer_simulation ''x'']\<rparr>"
  obtain v w where v: "calculateSummary hd 1000 ''t'' OPERATOR no_filters ?d = Inr v"
    and w: "calculateSummary hd 1000 ''t'' ADMIN no_filters ?d = Inr w"
    by (simp add: calculateSummary_def Let_def)
  have "ds_freight w = summary_freight hd True ''t'' no_filters (buildPeriod 1000) ?d"
    using w by (auto simp: calculateSummary_def Let_def)
  then have "dg_averageEstimatedPrice (ds_freight w) = Some 100"
    using fl_nat [of 100]
    by (simp add: summary_freight_def price_average_def average_of_def Let_def findMany_def
      simulationWhereFor_def current_def between_def buildPeriod_def addDays_def dearer_simulation_def no_filters_def
      matches_def List.map_filter_def)
  then show ?thesis using operator_reads_average_cost [OF v w] v by auto
qed

end
