(* ===== verification/AccessFrames.thy ===== *)
theory AccessFrames
  imports Admins LoginSafety Simulations Branches Customers Carriers ImportRuns InsightSafety
begin

text \<open>
  What the handlers behind the routes leave alone: the directory (branches, carriers, services,
  coverages and rate tables) and the roles of the users. Operational requests touch neither;
  authentication and public requests give no user a role but the operator's; the administration
  of users changes the roles of its own tenant only.
\<close>

section \<open>Operations\<close>

definition directory :: "db \<Rightarrow> Branch list \<times> Carrier list \<times> CarrierService list \<times> CarrierCoverage list \<times> FreightRateTable list" where
  "directory d = (branches d, carriers d, carrierServices d, carrierCoverages d, freightRateTables d)"

definition untouched :: "db \<Rightarrow> db \<Rightarrow> bool" where
  "untouched d d' \<longleftrightarrow> directory d' = directory d \<and> users d' = users d"

lemma untouched_refl [simp]: "untouched d d"
  by (simp add: untouched_def)

lemma untouched_trans: "untouched d d1 \<Longrightarrow> untouched d1 d2 \<Longrightarrow> untouched d d2"
  by (simp add: untouched_def)

lemma customers_untouched:
  "ensures (\<lambda>r. untouched d) (createCustomer now tn actor i d)"
  "ensures (\<lambda>r. untouched d) (updateCustomer now tn actor cid u d)"
  "ensures (\<lambda>r. untouched d) (updateCustomerStatus now tn actor cid active d)"
  "ensures (\<lambda>r. untouched d) (createAddress now tn actor cid a d)"
  subgoal unfolding createCustomer_def Let_def by (intro ensures_intros) (auto simp: untouched_def directory_def customer_audit_def)
  subgoal unfolding updateCustomer_def Let_def by (intro ensures_intros) (auto simp: untouched_def directory_def customer_audit_def)
  subgoal unfolding updateCustomerStatus_def Let_def by (intro ensures_intros) (auto simp: untouched_def directory_def customer_audit_def)
  subgoal unfolding createAddress_def Let_def by (intro ensures_intros) (auto simp: untouched_def directory_def customer_audit_def)
  done

lemma freight_untouched:
  "ensures (\<lambda>r. untouched d) (createSimulation rnd m now tn actor cs d)"
  "ensures (\<lambda>r. untouched d) (selectOption now tn actor i j d)"
  "ensures (\<lambda>r. untouched d) (createShipment now tn actor i d)"
  subgoal unfolding createSimulation_def Let_def by (intro ensures_intros) (auto simp: untouched_def directory_def emit_defs)
  subgoal unfolding selectOption_def Let_def by (intro ensures_intros) (auto simp: untouched_def directory_def emit_defs)
  subgoal unfolding createShipment_def Let_def by (intro ensures_intros) (auto simp: untouched_def directory_def emit_defs)
  done


lemma tracking_untouched:
  "ensures (\<lambda>r. untouched d) (createTrackingEvent now tn actor i input d)"
  "ensures (\<lambda>r. untouched d) (updateShipmentStatus now tn actor i st d)"
  subgoal unfolding createTrackingEvent_def Let_def by (intro ensures_intros) (auto simp: untouched_def directory_def emit_defs)
  subgoal unfolding updateShipmentStatus_def createTrackingEvent_def Let_def
    by (intro ensures_intros) (auto simp: untouched_def directory_def emit_defs)
  done

lemma persist_untouched: "untouched d (foldl (\<lambda>d c. persistCandidate now tn p c d) d cs)"
proof (induction cs arbitrary: d)
  case (Cons c cs)
  have "untouched d (persistCandidate now tn p c d)"
    by (auto simp: persistCandidate_def Let_def untouched_def directory_def split: option.splits)
  then show ?case using Cons.IH untouched_trans by simp
qed simp

lemma insights_untouched:
  "ensures (\<lambda>r. untouched d) (refreshInsights now tn actor d)"
  "ensures (\<lambda>r. untouched d) (markRead now tn actor i d)"
  "ensures (\<lambda>r. untouched d) (dismissInsight now tn actor i d)"
  subgoal
    using persist_untouched [of d now tn "buildPeriod now" "generate_insights now (buildPeriod now) tn d"]
    by (auto simp: refreshInsights_def Let_def ensures_def untouched_def directory_def insight_audit_def)
  subgoal unfolding markRead_def updateTenantInsight_def Let_def
    by (intro ensures_intros) (auto simp: untouched_def directory_def insight_audit_def split: if_splits option.splits)
  subgoal unfolding dismissInsight_def updateTenantInsight_def Let_def
    by (intro ensures_intros) (auto simp: untouched_def directory_def insight_audit_def split: if_splits option.splits)
  done

lemma save_untouched: "save_import_file sha dir buffer name tn d = (r, d') \<Longrightarrow> untouched d d'"
  by (auto simp: save_import_file_def Let_def write_new_file_def untouched_def directory_def split: if_splits sum.splits)

lemma imports_untouched:
  "ensures (\<lambda>r. untouched d) (createImport libs cfg now c file dto d)"
  "ensures (\<lambda>r. untouched d) (cancelImport now c i d)"
  "ensures (\<lambda>r. untouched d) (retryImport now c i rdto d)"
  "ensures (\<lambda>r. untouched d) (errorReport now c i d)"
  subgoal unfolding createImport_def Let_def
    by (intro ensures_intros) (auto simp: untouched_def directory_def import_audit_def queue_add_def dest!: save_untouched)
  subgoal unfolding cancelImport_def Let_def
    by (intro ensures_intros) (auto simp: untouched_def directory_def import_audit_def queue_remove_def update_job_def split: sum.splits prod.splits)
  subgoal unfolding retryImport_def Let_def
    by (intro ensures_intros) (auto simp: untouched_def directory_def import_audit_def queue_add_def update_job_def split: sum.splits prod.splits)
  subgoal unfolding errorReport_def Let_def
    by (intro ensures_intros) (auto simp: untouched_def directory_def import_audit_def)
  done

lemma image_users: "save_image sha dir buffer i name tn d = (r, d') \<Longrightarrow> users d' = users d"
  by (auto simp: save_image_def Let_def write_new_file_def split: if_splits sum.splits)

section \<open>Staff\<close>

lemma branches_users:
  "ensures (\<lambda>r d'. users d' = users d) (createBranch now tn bc d)"
  "ensures (\<lambda>r d'. users d' = users d) (updateBranch now tn actor i bu d)"
  "ensures (\<lambda>r d'. users d' = users d) (updateBranchStatus now tn actor i active d)"
  subgoal unfolding createBranch_def Let_def by (intro ensures_intros) (auto simp: branch_audit_def carrier_audit_def)
  subgoal unfolding updateBranch_def Let_def by (intro ensures_intros) (auto simp: branch_audit_def carrier_audit_def)
  subgoal unfolding updateBranchStatus_def Let_def by (intro ensures_intros) (auto simp: branch_audit_def carrier_audit_def)
  done

lemma carriers_users:
  "ensures (\<lambda>r d'. users d' = users d) (createCarrier tn cc d)"
  "ensures (\<lambda>r d'. users d' = users d) (updateCarrier now tn actor i cc d)"
  "ensures (\<lambda>r d'. users d' = users d) (updateCarrierStatus now tn actor i active d)"
  "ensures (\<lambda>r d'. users d' = users d) (uploadLogo sha cfg now tn actor i file d)"
  "ensures (\<lambda>r d'. users d' = users d) (createService tn i cs d)"
  "ensures (\<lambda>r d'. users d' = users d) (updateService now tn actor i j cs d)"
  subgoal unfolding createCarrier_def Let_def by (intro ensures_intros) (auto simp: branch_audit_def carrier_audit_def)
  subgoal unfolding updateCarrier_def Let_def by (intro ensures_intros) (auto simp: branch_audit_def carrier_audit_def)
  subgoal unfolding updateCarrierStatus_def Let_def by (intro ensures_intros) (auto simp: branch_audit_def carrier_audit_def)
  subgoal unfolding uploadLogo_def Let_def by (intro ensures_intros) (auto simp: carrier_audit_def dest: image_users)
  subgoal unfolding createService_def Let_def by (intro ensures_intros) (auto simp: branch_audit_def carrier_audit_def)
  subgoal unfolding updateService_def Let_def by (intro ensures_intros) (auto simp: branch_audit_def carrier_audit_def)
  done

lemma logistics_users:
  "ensures (\<lambda>r d'. users d' = users d) (createRateTable now tn actor rt prev d)"
  "ensures (\<lambda>r d'. users d' = users d) (updateRateTable now tn actor i rt d)"
  "ensures (\<lambda>r d'. users d' = users d) (createRateTableVersion now tn actor i d)"
  "ensures (\<lambda>r d'. users d' = users d) (updateRateTableStatus now tn actor i st d)"
  "ensures (\<lambda>r d'. users d' = users d) (createCoverage now tn actor cv d)"
  "ensures (\<lambda>r d'. users d' = users d) (updateCoverage now tn actor i cv d)"
  subgoal unfolding createRateTable_def Let_def by (intro ensures_intros) (auto simp: branch_audit_def carrier_audit_def)
  subgoal unfolding updateRateTable_def Let_def by (intro ensures_intros) (auto simp: branch_audit_def carrier_audit_def)
  subgoal unfolding createRateTableVersion_def createRateTable_def Let_def by (intro ensures_intros) (auto simp: branch_audit_def carrier_audit_def)
  subgoal unfolding updateRateTableStatus_def Let_def by (intro ensures_intros) (auto simp: branch_audit_def carrier_audit_def)
  subgoal unfolding createCoverage_def Let_def by (intro ensures_intros) (auto simp: branch_audit_def carrier_audit_def)
  subgoal unfolding updateCoverage_def Let_def by (intro ensures_intros) (auto simp: branch_audit_def carrier_audit_def)
  done


section \<open>Authentication\<close>

definition same_or_operator :: "User \<Rightarrow> User \<Rightarrow> bool" where
  "same_or_operator u v \<longleftrightarrow> u_id v = u_id u \<and> (u_role v = u_role u \<or> u_role v = OPERATOR)"

text \<open>The users keep their rows, and no row gains a role but the operator's; new rows come last.\<close>

definition no_gain :: "db \<Rightarrow> db \<Rightarrow> bool" where
  "no_gain d d' \<longleftrightarrow> list_all2 same_or_operator (users d) (take (length (users d)) (users d'))"

lemma same_trans: "same_or_operator u v \<Longrightarrow> same_or_operator v w \<Longrightarrow> same_or_operator u w"
  by (auto simp: same_or_operator_def)

lemma list_same: "list_all2 same_or_operator us us"
  by (rule list_all2_refl) (simp add: same_or_operator_def)

lemma no_gain_same: "users d' = users d \<Longrightarrow> no_gain d d'"
  by (simp add: no_gain_def list_same)

lemma no_gain_trans:
  assumes "no_gain d d1" "no_gain d1 d2"
  shows "no_gain d d2"
proof -
  let ?n = "length (users d)"
  have len: "?n \<le> length (users d1)" using list_all2_lengthD [OF assms(1) [unfolded no_gain_def]] by simp
  have "list_all2 same_or_operator (take ?n (users d1)) (take ?n (take (length (users d1)) (users d2)))"
    using assms(2) unfolding no_gain_def by (rule list_all2_takeI)
  then have "list_all2 same_or_operator (take ?n (users d1)) (take ?n (users d2))"
    using len by (simp add: min_absorb1)
  then show ?thesis
    using list_all2_trans [OF same_trans assms(1) [unfolded no_gain_def]] by (simp add: no_gain_def)
qed

lemma no_gain_create: "create_user u d = (r, d') \<Longrightarrow> no_gain d d'"
  by (auto simp: create_user_def create_Inr no_gain_def list_same split: sum.splits)

lemma no_gain_set:
  assumes "set_user i f d = (r, d')" "\<And>u. same_or_operator u (f u)"
  shows "no_gain d d'"
  using set_user_cases [OF assms(1)] assms(2)
  by (auto simp: no_gain_def list_same updateMany_def list_all2_map2 list_all2_refl same_or_operator_def
      intro!: list_all2_refl)


definition keeps :: "db \<Rightarrow> db \<Rightarrow> bool" where
  "keeps d d' \<longleftrightarrow> directory d' = directory d \<and> no_gain d d'"

lemma keeps_refl [simp]: "keeps d d"
  by (simp add: keeps_def no_gain_same)

lemma keeps_trans: "keeps d d1 \<Longrightarrow> keeps d1 d2 \<Longrightarrow> keeps d d2"
  by (auto simp: keeps_def intro: no_gain_trans)

lemma keeps_untouched: "untouched d1 d2 \<Longrightarrow> keeps d d1 \<Longrightarrow> keeps d d2"
  by (simp add: untouched_def keeps_def no_gain_def)

lemma keeps_cong: "directory d2 = directory d1 \<Longrightarrow> users d2 = users d1 \<Longrightarrow> keeps d d2 = keeps d d1"
  by (simp add: keeps_def no_gain_def)

lemma keeps_simps [simp]:
  "keeps d (record_audit now i d1) = keeps d d1"
  "keeps d (log_row now a b c e f g h d1) = keeps d d1"
  "keeps d (delete_codes u tn d1) = keeps d d1"
  "keeps d (revoke_live now p d1) = keeps d d1"
  "keeps d (bump d1) = keeps d d1"
  "keeps d (d1\<lparr>refreshTokens := t1\<rparr>) = keeps d d1"
  "keeps d (d1\<lparr>passwordResetTokens := t2\<rparr>) = keeps d d1"
  "keeps d (d1\<lparr>userInvitations := t3\<rparr>) = keeps d d1"
  "keeps d (d1\<lparr>oauthStates := t4\<rparr>) = keeps d d1"
  "keeps d (d1\<lparr>oauthAccounts := t5\<rparr>) = keeps d d1"
  "keeps d (d1\<lparr>mfaChallenges := t6\<rparr>) = keeps d d1"
  "keeps d (d1\<lparr>mfaRecoveryCodes := t7\<rparr>) = keeps d d1"
  "keeps d (d1\<lparr>tenantSettings := t8\<rparr>) = keeps d d1"
  "keeps d (d1\<lparr>tenantOnboarding := t9\<rparr>) = keeps d d1"
  by (rule keeps_cong; simp add: directory_def log_row_def delete_codes_def revoke_live_def)+

lemma keeps_step: "directory d2 = directory d1 \<Longrightarrow> no_gain d1 d2 \<Longrightarrow> keeps d d1 \<Longrightarrow> keeps d d2"
  by (auto simp: keeps_def intro: no_gain_trans)

lemma user_directory:
  "set_user i f d1 = (r, d2) \<Longrightarrow> directory d2 = directory d1"
  "create_user u d1 = (r', d2) \<Longrightarrow> directory d2 = directory d1"
  by (auto simp: set_user_def create_user_def directory_def split: sum.splits prod.splits)

lemma keeps_set:
  "set_user i f d1 = (r, d2) \<Longrightarrow> keeps d d1 \<Longrightarrow> (\<And>u. same_or_operator u (f u)) \<Longrightarrow> keeps d d2"
  by (rule keeps_step [OF user_directory(1) no_gain_set])

lemma keeps_user: "create_user u d1 = (r, d2) \<Longrightarrow> keeps d d1 \<Longrightarrow> keeps d d2"
  by (rule keeps_step [OF user_directory(2) no_gain_create])

lemma keeps_creates:
  "create_state s d1 = (r1, d2) \<Longrightarrow> keeps d d1 \<Longrightarrow> keeps d d2"
  "create_challenge c d1 = (r2, d2) \<Longrightarrow> keeps d d1 \<Longrightarrow> keeps d d2"
  "create_account a d1 = (r3, d2) \<Longrightarrow> keeps d d1 \<Longrightarrow> keeps d d2"
  "createRefreshToken row d1 = (r4, d2) \<Longrightarrow> keeps d d1 \<Longrightarrow> keeps d d2"
  "update_state i g d1 = (r5, d2) \<Longrightarrow> keeps d d1 \<Longrightarrow> keeps d d2"
  "use_challenge now i d1 = (r6, d2) \<Longrightarrow> keeps d d1 \<Longrightarrow> keeps d d2"
  "revokeRefreshToken now i d1 = (r7, d2) \<Longrightarrow> keeps d d1 \<Longrightarrow> keeps d d2"
  by (auto simp: create_state_def create_challenge_def create_account_def createRefreshToken_def update_state_def
      use_challenge_def revokeRefreshToken_def split: sum.splits prod.splits)

lemma keeps_codes: "create_codes libs cfg tn u codes d1 = (r, d2) \<Longrightarrow> keeps d d1 \<Longrightarrow> keeps d d2"
  by (induction libs cfg tn u codes d1 rule: create_codes.induct) (fastforce split: sum.splits)+

lemma keeps_completion:
  "createCompletionToken libs cfg now token u provider m d1 = (r, d2) \<Longrightarrow> keeps d d1 \<Longrightarrow> keeps d d2"
  by (auto simp: createCompletionToken_def split: prod.splits sum.splits intro: keeps_creates)

lemmas keeps_intros = keeps_set keeps_user keeps_creates keeps_codes keeps_completion


text \<open>The handlers of authentication.\<close>

lemma rotate_keeps:
  "keeps d d1 \<Longrightarrow> ensures (\<lambda>r. keeps d) (rotateRefreshToken now i row d1)"
  unfolding rotateRefreshToken_def Let_def by (intro ensures_intros) (auto intro: keeps_intros split: sum.splits prod.splits)

lemma stored_keeps:
  assumes "(case fam of Some s \<Rightarrow> rotateRefreshToken now (rf_id s) row d1 | None \<Rightarrow> createRefreshToken row d1) = (r, d2)" "keeps d d1"
  shows "keeps d d2"
  using assms by (cases fam) (auto intro: keeps_creates rotate_keeps [THEN ensuresD])

lemma issue_keeps:
  assumes "keeps d d1"
  shows "ensures (\<lambda>r. keeps d) (issueSession libs cfg now fresh user m res fam d1)"
  unfolding issueSession_def Let_def updateLastLogin_def
  by (intro ensures_intros) (auto simp: login_audit_def assms dest!: stored_keeps [OF _ assms] simp: same_or_operator_def dest: keeps_set)

lemma parts_keep:
  assumes "keeps d d1"
  shows "ensures (\<lambda>r. keeps d) (blockNonActiveLogin libs cfg now token user provider m d1)"
    "ensures (\<lambda>r. keeps d) (linkProvider now u tn identity d1)"
    "ensures (\<lambda>r. keeps d) (createIncompleteOAuthUser libs cfg now token identity m d1)"
    "ensures (\<lambda>r. keeps d) (verifyMfaOrRecovery libs cfg now tn u secret code d1)"
    "ensures (\<lambda>r. keeps d) (getValidRefreshSession libs cfg now rtok m d1)"
  subgoal unfolding blockNonActiveLogin_def using assms by (intro ensures_intros) (auto intro: keeps_intros)
  subgoal unfolding linkProvider_def using assms
    by (intro ensures_intros) (auto simp: auth_audits intro: keeps_intros split: option.splits sum.splits prod.splits)
  subgoal unfolding createIncompleteOAuthUser_def Let_def using assms
    by (intro ensures_intros) (auto dest!: keeps_user [OF _ assms] dest: keeps_creates)
  subgoal unfolding verifyMfaOrRecovery_def Let_def using assms by (intro ensures_intros) (auto intro: keeps_intros)
  subgoal unfolding getValidRefreshSession_def Let_def revokeRefreshTokenFamily_def using assms
    by (intro ensures_intros) (auto simp: auth_audits)
  done

lemmas block_keeps = parts_keep(1) [OF keeps_refl, THEN ensuresD]
lemmas recovery_keeps = parts_keep(4) [OF keeps_refl, THEN ensuresD]
lemmas parts_keepD = parts_keep [THEN ensuresD]

lemma admit_keeps: "ensures (\<lambda>r. keeps d) (admit libs cfg now fresh ct kt user m d)"
  unfolding admit_def
  by (intro ensures_intros) (auto simp: auth_audits dest!: block_keeps dest: keeps_creates(2) issue_keeps [THEN ensuresD])


lemma session_keeps:
  "ensures (\<lambda>r s'. keeps (fst s) (fst s')) (login libs cfg now redis fresh ct kt lg m s)"
  "ensures (\<lambda>r. keeps d) (verifyMfaLogin libs cfg now fresh ct code m d)"
  "ensures (\<lambda>r. keeps d) (handleOAuthCallback libs cfg now fresh kt provider exchanged state m d)"
  "ensures (\<lambda>r. keeps d) (refresh libs cfg now fresh token m d)"
  "ensures (\<lambda>r. keeps d) (logout libs cfg now token m d)"
  subgoal unfolding login_def Let_def
    by (intro ensures_intros) (auto simp: auth_audits dest!: ensuresD [OF admit_keeps])
  subgoal unfolding verifyMfaLogin_def
    by (intro ensures_intros issue_keeps) (auto simp: auth_audits dest!: recovery_keeps dest: keeps_creates(6) issue_keeps [THEN ensuresD])
  subgoal unfolding handleOAuthCallback_def
    by (intro ensures_intros ensures_response)
      (auto dest!: keeps_creates(5) [OF _ keeps_refl] dest: parts_keepD(1,2,3) issue_keeps [THEN ensuresD])
  subgoal unfolding refresh_def
    by (intro ensures_intros issue_keeps) (auto dest: parts_keepD(5) [OF keeps_refl])
  subgoal unfolding logout_def
    by (intro ensures_intros) (auto intro: keeps_intros)
  done

lemma account_keeps:
  "ensures (\<lambda>r. keeps d) (startOAuth libs cfg now state p mode tn u d)"
  "ensures (\<lambda>r. keeps d) (completeOAuthRegistration libs cfg now token slug d)"
  "ensures (\<lambda>r. keeps d) (unlinkProvider now i tenantId p d)"
  "ensures (\<lambda>r. keeps d) (forgotPassword libs cfg now token email m d)"
  "ensures (\<lambda>r. keeps d) (resetPassword libs cfg now salt token pw pw' m d)"
  "ensures (\<lambda>r. keeps d) (changePassword libs now salt i tenantId old pw pw' d)"
  "ensures (\<lambda>r. keeps d) (updateProfile libs cfg now i tenantId name d)"
  "ensures (\<lambda>r. keeps d) (beginMfaSetup libs cfg bytes iv i tenantId d)"
  "ensures (\<lambda>r. keeps d) (confirmMfa libs cfg now draws i tenantId code d)"
  "ensures (\<lambda>r. keeps d) (disableMfa libs cfg now i tenantId code d)"
  "ensures (\<lambda>r. keeps d) (getOnboarding tenantId d)"
  "ensures (\<lambda>r. keeps d) (updateOnboarding now tenantId i uo d)"
  "ensures (\<lambda>r. keeps d) (revokeSession now i tenantId session d)"
  "ensures (\<lambda>r. keeps d) (revokeOtherSessions libs cfg now i tenantId rtok d)"
  subgoal unfolding startOAuth_def by (intro ensures_intros) (auto intro: keeps_intros)
  subgoal unfolding completeOAuthRegistration_def Let_def by (intro ensures_intros) (auto simp: same_or_operator_def dest!: keeps_set dest: keeps_creates)
  subgoal unfolding unlinkProvider_def by (intro ensures_intros) (auto simp: auth_audits)
  subgoal unfolding forgotPassword_def Let_def by (intro ensures_intros) (auto simp: auth_audits)
  subgoal unfolding resetPassword_def set_password_def Let_def
    by (intro ensures_intros) (auto simp: auth_audits simp: same_or_operator_def dest!: keeps_set split: prod.splits sum.splits)
  subgoal unfolding changePassword_def set_password_def Let_def
    by (intro ensures_intros) (auto simp: auth_audits simp: same_or_operator_def dest!: keeps_set split: prod.splits sum.splits)
  subgoal unfolding updateProfile_def Let_def by (intro ensures_intros) (auto simp: auth_audits simp: same_or_operator_def dest!: keeps_set)
  subgoal unfolding beginMfaSetup_def Let_def by (intro ensures_intros) (auto simp: same_or_operator_def dest!: keeps_set)
  subgoal unfolding confirmMfa_def Let_def by (intro ensures_intros) (auto simp: auth_audits simp: same_or_operator_def dest!: keeps_set dest: keeps_codes)
  subgoal unfolding disableMfa_def Let_def by (intro ensures_intros) (auto simp: auth_audits simp: same_or_operator_def dest!: keeps_set)
  subgoal unfolding getOnboarding_def upsert_onboarding_def by (intro ensures_intros) (auto split: option.splits)
  subgoal unfolding updateOnboarding_def upsert_onboarding_def complete_settings_def Let_def
    by (intro ensures_intros) (auto split: option.splits)
  subgoal by (simp add: revokeSession_def ensures_def)
  subgoal by (simp add: revokeOtherSessions_def ensures_def Let_def)
  done


text \<open>An accepted invitation adds a user.\<close>

lemma invited_keeps:
  assumes "keeps d d1"
  shows "ensures (\<lambda>r. keeps d) (issue_invited_session libs cfg now fresh u t m d1)"
  unfolding issue_invited_session_def Let_def using assms by (intro ensures_intros) (auto intro: keeps_creates)

lemma accept_keeps: "ensures (\<lambda>r. keeps d) (acceptInvite libs cfg now fresh salt av m d)"
  unfolding acceptInvite_def Let_def
  by (intro ensures_intros invited_keeps) (auto dest!: keeps_user [OF _ keeps_refl])

section \<open>Registration\<close>

text \<open>A registration adds the branch of its new tenant.\<close>

definition new_company :: "db \<Rightarrow> db \<Rightarrow> bool" where
  "new_company d d' \<longleftrightarrow> no_gain d d' \<and> (\<exists>bs. (\<forall>b \<in> set bs. b_tenantId b = new_id d)
     \<and> directory d' = (branches d @ bs, carriers d, carrierServices d, carrierCoverages d, freightRateTables d))"

lemma new_company_refl: "new_company d d"
  by (auto simp: new_company_def no_gain_same directory_def)

lemma keeps_new_company: "keeps d1 d2 \<Longrightarrow> new_company d d1 \<Longrightarrow> new_company d d2"
  by (auto simp: new_company_def keeps_def intro: no_gain_trans)

lemma company_new: "ensures (\<lambda>r. new_company d) (create_company now email h slug dto m d)"
  unfolding create_company_def Let_def
  by (intro ensures_intros)
    (auto simp: new_company_refl new_company_def create_user_def create_Inr no_gain_def list_same directory_def log_row_def
      blank_branch_def split: sum.splits)

lemma register_new: "ensures (\<lambda>r. new_company d) (registerTenant libs cfg now fresh salt hexes dto m d)"
  unfolding registerTenant_def Let_def
  by (intro ensures_sum ensures_if ensures_pair ensures_case_result [OF company_new])
    (auto simp: new_company_refl intro: keeps_new_company ensures_mono [OF issue_keeps [OF keeps_refl]])

section \<open>Administration of users\<close>

text \<open>The rows of other tenants gain no role.\<close>

definition ruled_by :: "string \<Rightarrow> User \<Rightarrow> User \<Rightarrow> bool" where
  "ruled_by tn u v \<longleftrightarrow> u_id v = u_id u \<and> (u_role v = u_role u \<or> u_role v = OPERATOR \<or> u_tenantId u = Some tn)"

definition own_gain :: "string \<Rightarrow> db \<Rightarrow> db \<Rightarrow> bool" where
  "own_gain tn d d' \<longleftrightarrow> list_all2 (ruled_by tn) (users d) (take (length (users d)) (users d'))"

lemma own_gain_no: "no_gain d d' \<Longrightarrow> own_gain tn d d'"
  unfolding no_gain_def own_gain_def by (erule list_all2_mono) (auto simp: same_or_operator_def ruled_by_def)

lemma own_gain_cong: "own_gain tn d d1 \<Longrightarrow> users d2 = users d1 \<Longrightarrow> own_gain tn d d2"
  by (simp add: own_gain_def)

lemma set_target:
  assumes "set_user i f d = (r, d')" "find_target tn i d = Inr c" "users_ok d" "\<And>u. u_id (f u) = u_id u"
  shows "own_gain tn d d'"
proof -
  have c: "c \<in> set (users d)" "u_id c = i" "u_tenantId c = Some tn" using find_target_InrD [OF assms(2)] by simp_all
  have "inj_on u_id (set (users d))" using assms(3) by (simp add: users_ok_def distinct_map)
  then have "u = c" if "u \<in> set (users d)" "u_id u = i" for u
    using that c(1,2) by (metis inj_onD)
  then have "ruled_by tn u (if u_id u = i then f u else u)" if "u \<in> set (users d)" for u
    using that c(3) assms(4) [of u] by (cases "u_id u = i") (simp_all add: ruled_by_def)
  then have "list_all2 (ruled_by tn) (users d) (updateMany (\<lambda>u. u_id u = i) f (users d))"
    unfolding updateMany_def list_all2_map2 by (intro list.rel_refl_strong)
  moreover have "own_gain tn d d" by (rule own_gain_no) (simp add: no_gain_same)
  ultimately show ?thesis
    using set_user_cases [OF assms(1)] by (elim disjE) (simp_all add: own_gain_def updateMany_def)
qed


lemma update_own:
  assumes "users_ok d"
  shows "ensures (\<lambda>r. own_gain tn d) (updateUser now tn actor i uu d)"
proof -
  have refl: "own_gain tn d d" by (rule own_gain_no) (simp add: no_gain_same)
  have set: "own_gain tn d d1" if "set_user i (user_change now uu) d = (r, d1)" "find_target tn i d = Inr c" for r d1 c
    by (rule set_target [OF that assms]) (simp add: user_change_def)
  have post: "own_gain tn d (user_audit now a x y z w (case st of Value s \<Rightarrow> if s \<noteq> ac then revoke_live now p d1 else d1 | _ \<Rightarrow> d1))"
    if "own_gain tn d d1" for a x y z w p d1 st ac
    by (rule own_gain_cong [OF that]) (auto simp: user_audit_def revoke_live_def split: nullable.splits)
  show ?thesis
    unfolding updateUser_def Let_def
    by (intro ensures_intros) (assumption | rule refl | rule post | rule set)+
qed

lemma approve_own:
  assumes "users_ok d"
  shows "ensures (\<lambda>r. own_gain tn d) (approveUser now tn actor i role d)"
proof -
  have refl: "own_gain tn d d" by (rule own_gain_no) (simp add: no_gain_same)
  have set: "own_gain tn d d1"
    if "set_user i (\<lambda>u. u\<lparr>u_role := role, u_status := UserStatus.ACTIVE\<rparr>) d = (r, d1)" "find_target tn i d = Inr c" for r d1 c
    by (rule set_target [OF that assms]) simp
  have post: "own_gain tn d (user_audit now a x y z w d1)" if "own_gain tn d d1" for a x y z w d1
    by (rule own_gain_cong [OF that]) (simp add: user_audit_def)
  show ?thesis
    unfolding approveUser_def Let_def
    by (intro ensures_intros) (assumption | rule refl | rule post | rule set)+
qed

lemma admin_keeps:
  "ensures (\<lambda>r. keeps d) (createUser libs now salt tn actor cu d)"
  "ensures (\<lambda>r. keeps d) (inviteUser libs cfg now token tn actor email role d)"
  "ensures (\<lambda>r. keeps d) (revokeSessions now tn actor i d)"
  "ensures (\<lambda>r. keeps d) (resetMfa now tn actor i d)"
  subgoal unfolding createUser_def Let_def by (intro ensures_intros) (auto simp: auth_audits dest!: keeps_user [OF _ keeps_refl])
  subgoal unfolding inviteUser_def Let_def
    by (intro ensures_intros) (auto split: option.splits sum.splits prod.splits)
  subgoal unfolding revokeSessions_def by (intro ensures_intros) auto
  subgoal unfolding resetMfa_def Let_def
    by (intro ensures_intros) (auto simp: auth_audits same_or_operator_def dest!: keeps_set)
  done

end
