(* ===== verification/AuthController.thy ===== *)
theory AuthController
  imports Access LoginSafety
begin

text \<open>
  \<open>auth.controller.ts\<close> and \<open>users.controller.ts\<close>: every route as a function of the context the
  guards leave, to the service of the route, with the cookies a session sets. A route that
  answers with cookies returns them beside its body. The validation of the bodies by decorators
  is the types of the requests; the tenant of the context is there wherever a private route
  reads it.
\<close>

section \<open>The context of a request\<close>

definition currentTenant :: "RequestContext \<Rightarrow> string" where
  "currentTenant context = coalesce (rc_tenantId context) []"

definition requireUserId :: "RequestContext \<Rightarrow> string result" where
  "requireUserId context =
     (if \<not> truthy (rc_userId context) then Inl (UnauthorizedException ''Authentication context is required.'')
      else Inr (the (rc_userId context)))"

definition requireRole :: "RequestContext \<Rightarrow> UserRole result" where
  "requireRole context =
     (case rc_role context of None \<Rightarrow> Inl (UnauthorizedException ''Authentication context is required.'')
      | Some r \<Rightarrow> Inr r)"

text \<open>A step that may throw before the service is called.\<close>

definition before :: "'b result \<Rightarrow> ('b \<Rightarrow> ('s, 'a) Prelude.handler) \<Rightarrow> ('s, 'a) Prelude.handler" where
  "before r h s = (case r of Inl e \<Rightarrow> (Inl e, s) | Inr b \<Rightarrow> h b s)"

definition as_user :: "RequestContext \<Rightarrow> (string \<Rightarrow> ('s, 'a) Prelude.handler) \<Rightarrow> ('s, 'a) Prelude.handler" where
  "as_user context = before (requireUserId context)"

definition in_context :: "RequestContext \<Rightarrow> (string \<Rightarrow> string \<Rightarrow> ('s, 'a) Prelude.handler) \<Rightarrow> ('s, 'a) Prelude.handler" where
  "in_context context h = before (requireContext context) (\<lambda>(tenantId, userId). h tenantId userId)"

text \<open>What happens to the result of the service.\<close>

definition after :: "('a \<Rightarrow> 'b result) \<Rightarrow> 'a result \<times> 's \<Rightarrow> 'b result \<times> 's" where
  "after f p = (bindE (fst p) f, snd p)"

definition metadataFrom :: "Request \<Rightarrow> RequestContext \<Rightarrow> AuthRequestMetadata" where
  "metadataFrom request context =
     \<lparr> am_ip = rq_ip request, am_requestId = Some (rc_requestId context), am_userAgent = rq_userAgent request \<rparr>"

section \<open>Answers with a session\<close>

record AuthResponseDto =
  rd_accessToken :: string
  rd_accessTokenExpiresAt :: date
  rd_user :: AuthenticatedUser

definition stripRefresh :: "AuthResult \<Rightarrow> AuthResponseDto" where
  "stripRefresh r =
     \<lparr> rd_accessToken = ar_accessToken r, rd_accessTokenExpiresAt = ar_accessTokenExpiresAt r, rd_user = ar_user r \<rparr>"

definition setCookies :: "AuthConfig \<Rightarrow> string \<Rightarrow> AuthResult \<Rightarrow> Cookie list result" where
  "setCookies cfg cookieDomain r =
     bindE (accessTokenTtlSeconds cfg) (\<lambda>accessTtl.
     bindE (refreshTokenTtlSeconds cfg) (\<lambda>refreshTtl.
       Inr (setAuthCookies cfg cookieDomain (ar_accessToken r) accessTtl (ar_refreshToken r) refreshTtl)))"

definition with_cookies :: "AuthConfig \<Rightarrow> string \<Rightarrow> AuthResult \<Rightarrow> (AuthResponseDto \<times> Cookie list) result" where
  "with_cookies cfg cookieDomain r = bindE (setCookies cfg cookieDomain r) (\<lambda>cs. Inr (stripRefresh r, cs))"

datatype LoginReply = Session AuthResponseDto | NoSession LoginResponse

section \<open>The public routes of authentication\<close>

definition auth_login ::
  "AuthLibs \<Rightarrow> AuthConfig \<Rightarrow> string \<Rightarrow> date \<Rightarrow> RedisUp \<Rightarrow> NewRefreshToken \<Rightarrow> string \<Rightarrow> string \<Rightarrow> LoginDto \<Rightarrow> Request \<Rightarrow> RequestContext
    \<Rightarrow> (db \<times> Limiter, LoginReply \<times> Cookie list) Prelude.handler" where
  "auth_login libs cfg cookieDomain now redis fresh challengeToken completionToken dto request context s =
     after (\<lambda>r. case r of
              AuthResponse a \<Rightarrow>
                if ar_refreshToken a = [] then Inl (InternalError ''Authenticated session could not be created.'')
                else bindE (with_cookies cfg cookieDomain a) (\<lambda>(b, cs). Inr (Session b, cs))
            | other \<Rightarrow> Inr (NoSession other, []))
       (login libs cfg now redis fresh challengeToken completionToken dto (metadataFrom request context) s)"

definition auth_register ::
  "AuthLibs \<Rightarrow> AuthConfig \<Rightarrow> string \<Rightarrow> date \<Rightarrow> NewRefreshToken \<Rightarrow> string \<Rightarrow> string \<times> string \<Rightarrow> RegisterTenantDto \<Rightarrow> Request
    \<Rightarrow> RequestContext \<Rightarrow> (AuthResponseDto \<times> Cookie list) handler" where
  "auth_register libs cfg cookieDomain now fresh salt hexes dto request context d =
     after (with_cookies cfg cookieDomain) (registerTenant libs cfg now fresh salt hexes dto (metadataFrom request context) d)"

definition auth_verifyMfaLogin ::
  "AuthLibs \<Rightarrow> AuthConfig \<Rightarrow> string \<Rightarrow> date \<Rightarrow> NewRefreshToken \<Rightarrow> string \<Rightarrow> string \<Rightarrow> Request \<Rightarrow> RequestContext
    \<Rightarrow> (AuthResponseDto \<times> Cookie list) handler" where
  "auth_verifyMfaLogin libs cfg cookieDomain now fresh challengeToken code request context d =
     after (with_cookies cfg cookieDomain)
       (verifyMfaLogin libs cfg now fresh challengeToken code (metadataFrom request context) d)"

definition auth_forgotPassword ::
  "AuthLibs \<Rightarrow> AuthConfig \<Rightarrow> date \<Rightarrow> string \<Rightarrow> string \<Rightarrow> Request \<Rightarrow> RequestContext \<Rightarrow> string option handler" where
  "auth_forgotPassword libs cfg now token email request context =
     forgotPassword libs cfg now token email (metadataFrom request context)"

definition auth_resetPassword ::
  "AuthLibs \<Rightarrow> AuthConfig \<Rightarrow> date \<Rightarrow> string \<Rightarrow> string \<Rightarrow> string \<Rightarrow> string \<Rightarrow> Request \<Rightarrow> RequestContext \<Rightarrow> unit handler" where
  "auth_resetPassword libs cfg now salt token password passwordConfirmation request context =
     resetPassword libs cfg now salt token password passwordConfirmation (metadataFrom request context)"

definition auth_tenants :: "string option \<Rightarrow> db \<Rightarrow> TenantRef list" where
  "auth_tenants search d = listTenantOptions search d"

definition auth_completeOAuthRegistration :: "AuthLibs \<Rightarrow> AuthConfig \<Rightarrow> date \<Rightarrow> string \<Rightarrow> string \<Rightarrow> unit handler" where
  "auth_completeOAuthRegistration libs cfg now token slug = completeOAuthRegistration libs cfg now token slug"

definition auth_refresh ::
  "(string \<Rightarrow> string option) \<Rightarrow> AuthLibs \<Rightarrow> AuthConfig \<Rightarrow> string \<Rightarrow> date \<Rightarrow> NewRefreshToken \<Rightarrow> Request \<Rightarrow> RequestContext
    \<Rightarrow> (AuthResponseDto \<times> Cookie list) handler" where
  "auth_refresh decode libs cfg cookieDomain now fresh request context =
     before (readRefreshToken decode request) (\<lambda>token d.
       after (with_cookies cfg cookieDomain) (refresh libs cfg now fresh token (metadataFrom request context) d))"

definition auth_logout ::
  "(string \<Rightarrow> string option) \<Rightarrow> AuthLibs \<Rightarrow> AuthConfig \<Rightarrow> string \<Rightarrow> date \<Rightarrow> Request \<Rightarrow> RequestContext
    \<Rightarrow> (bool \<times> Cookie list) handler" where
  "auth_logout decode libs cfg cookieDomain now request context =
     before (readRefreshToken decode request) (\<lambda>token d.
       after (\<lambda>u. Inr (True, clearAuthCookies cfg cookieDomain))
         (logout libs cfg now token (metadataFrom request context) d))"

definition auth_oauthStatus :: "AuthConfig \<Rightarrow> (string \<times> bool) list" where
  "auth_oauthStatus cfg = oauth_status cfg"

definition auth_startOAuth ::
  "AuthLibs \<Rightarrow> AuthConfig \<Rightarrow> date \<Rightarrow> string \<Rightarrow> string \<Rightarrow> string \<Rightarrow> string handler" where
  "auth_startOAuth libs cfg now state provider mode =
     before (toProvider provider) (\<lambda>p. startOAuth libs cfg now state p mode None None)"

definition auth_oauthCallback ::
  "AuthLibs \<Rightarrow> AuthConfig \<Rightarrow> string \<Rightarrow> date \<Rightarrow> NewRefreshToken \<Rightarrow> string \<Rightarrow> string \<Rightarrow> OAuthIdentity result \<Rightarrow> string \<Rightarrow> Request
    \<Rightarrow> RequestContext \<Rightarrow> (string \<times> Cookie list) handler" where
  "auth_oauthCallback libs cfg cookieDomain now fresh completionToken provider exchanged state request context =
     before (toProvider provider) (\<lambda>p d.
       after (\<lambda>(redirectUrl, session).
           case session of
             None \<Rightarrow> Inr (redirectUrl, [])
           | Some a \<Rightarrow> bindE (setCookies cfg cookieDomain a) (\<lambda>cs. Inr (redirectUrl, cs)))
         (handleOAuthCallback libs cfg now fresh completionToken p exchanged state (metadataFrom request context) d))"

section \<open>The private routes of authentication\<close>

definition auth_me :: "RequestContext \<Rightarrow> db \<Rightarrow> AuthenticatedUser result" where
  "auth_me context d =
     (if \<not> truthy (rc_tenantId context) \<or> \<not> truthy (rc_userId context)
      then Inl (UnauthorizedException ''Authentication context is required.'')
      else getCurrentUser (the (rc_userId context)) (the (rc_tenantId context)) d)"

definition auth_profile ::
  "(string \<Rightarrow> string option) \<Rightarrow> AuthLibs \<Rightarrow> AuthConfig \<Rightarrow> Request \<Rightarrow> RequestContext \<Rightarrow> db \<Rightarrow> ProfileDto result" where
  "auth_profile decode libs cfg request context d =
     bindE (requireContext context) (\<lambda>(tenantId, userId).
     bindE (readRefreshToken decode request) (\<lambda>token. getProfile libs cfg userId tenantId token d))"

definition auth_updateProfile :: "AuthLibs \<Rightarrow> AuthConfig \<Rightarrow> date \<Rightarrow> string \<Rightarrow> RequestContext \<Rightarrow> ProfileDto handler" where
  "auth_updateProfile libs cfg now name context =
     in_context context (\<lambda>tenantId userId. updateProfile libs cfg now userId tenantId name)"

definition auth_changePassword ::
  "AuthLibs \<Rightarrow> date \<Rightarrow> string \<Rightarrow> string \<Rightarrow> string \<Rightarrow> string \<Rightarrow> RequestContext \<Rightarrow> unit handler" where
  "auth_changePassword libs now salt current new confirmation context =
     in_context context (\<lambda>tenantId userId. changePassword libs now salt userId tenantId current new confirmation)"

definition auth_setupMfa :: "AuthLibs \<Rightarrow> AuthConfig \<Rightarrow> string \<Rightarrow> string \<Rightarrow> RequestContext \<Rightarrow> MfaSetupDto handler" where
  "auth_setupMfa libs cfg secretBytes iv context =
     in_context context (\<lambda>tenantId userId. beginMfaSetup libs cfg secretBytes iv userId tenantId)"

definition auth_confirmMfa ::
  "AuthLibs \<Rightarrow> AuthConfig \<Rightarrow> date \<Rightarrow> (string \<times> string) list \<Rightarrow> string \<Rightarrow> RequestContext \<Rightarrow> string list handler" where
  "auth_confirmMfa libs cfg now draws code context =
     in_context context (\<lambda>tenantId userId. confirmMfa libs cfg now draws userId tenantId code)"

definition auth_disableMfa :: "AuthLibs \<Rightarrow> AuthConfig \<Rightarrow> date \<Rightarrow> string \<Rightarrow> RequestContext \<Rightarrow> unit handler" where
  "auth_disableMfa libs cfg now code context =
     in_context context (\<lambda>tenantId userId. disableMfa libs cfg now userId tenantId code)"

definition auth_revokeOtherSessions ::
  "(string \<Rightarrow> string option) \<Rightarrow> AuthLibs \<Rightarrow> AuthConfig \<Rightarrow> date \<Rightarrow> Request \<Rightarrow> RequestContext \<Rightarrow> unit handler" where
  "auth_revokeOtherSessions decode libs cfg now request context =
     in_context context (\<lambda>tenantId userId. before (readRefreshToken decode request) (\<lambda>token.
       revokeOtherSessions libs cfg now userId tenantId token))"

definition auth_revokeSession :: "date \<Rightarrow> string \<Rightarrow> RequestContext \<Rightarrow> unit handler" where
  "auth_revokeSession now sessionId context =
     in_context context (\<lambda>tenantId userId. revokeSession now userId tenantId sessionId)"

definition auth_onboarding :: "RequestContext \<Rightarrow> TenantOnboardingDto handler" where
  "auth_onboarding context = in_context context (\<lambda>tenantId userId. getOnboarding tenantId)"

definition auth_updateOnboarding :: "date \<Rightarrow> UpdateOnboardingDto \<Rightarrow> RequestContext \<Rightarrow> TenantOnboardingDto handler" where
  "auth_updateOnboarding now dto context =
     in_context context (\<lambda>tenantId userId. updateOnboarding now tenantId userId dto)"

definition auth_startOAuthLink ::
  "AuthLibs \<Rightarrow> AuthConfig \<Rightarrow> date \<Rightarrow> string \<Rightarrow> string \<Rightarrow> RequestContext \<Rightarrow> string handler" where
  "auth_startOAuthLink libs cfg now state provider context =
     in_context context (\<lambda>tenantId userId. before (toProvider provider) (\<lambda>p.
       startOAuth libs cfg now state p ''link'' (Some tenantId) (Some userId)))"

definition auth_unlinkOAuth :: "date \<Rightarrow> string \<Rightarrow> RequestContext \<Rightarrow> unit handler" where
  "auth_unlinkOAuth now provider context =
     in_context context (\<lambda>tenantId userId. before (toProvider provider) (\<lambda>p. unlinkProvider now userId tenantId p))"

section \<open>The administration of users\<close>

definition users_list :: "ListUsersDto \<Rightarrow> RequestContext \<Rightarrow> db \<Rightarrow> AdminUserDto PaginatedResult" where
  "users_list query context d = listUsers (currentTenant context) query d"

definition users_create :: "AuthLibs \<Rightarrow> date \<Rightarrow> string \<Rightarrow> CreateAdminUserDto \<Rightarrow> RequestContext \<Rightarrow> AdminUserDto handler" where
  "users_create libs now salt dto context =
     as_user context (\<lambda>userId. createUser libs now salt (currentTenant context) userId dto)"

definition users_invite ::
  "AuthLibs \<Rightarrow> AuthConfig \<Rightarrow> date \<Rightarrow> string \<Rightarrow> string \<Rightarrow> UserRole \<Rightarrow> RequestContext \<Rightarrow> (string \<times> string option) handler" where
  "users_invite libs cfg now token email role context =
     as_user context (\<lambda>userId. inviteUser libs cfg now token (currentTenant context) userId email role)"

definition users_acceptInvite ::
  "AuthLibs \<Rightarrow> AuthConfig \<Rightarrow> string \<Rightarrow> date \<Rightarrow> NewRefreshToken \<Rightarrow> string \<Rightarrow> AcceptInviteDto \<Rightarrow> Request \<Rightarrow> RequestContext
    \<Rightarrow> (AuthResponseDto \<times> Cookie list) handler" where
  "users_acceptInvite libs cfg cookieDomain now fresh salt dto request context d =
     after (with_cookies cfg cookieDomain) (acceptInvite libs cfg now fresh salt dto (metadataFrom request context) d)"

definition users_patch :: "date \<Rightarrow> string \<Rightarrow> UpdateAdminUserDto \<Rightarrow> RequestContext \<Rightarrow> AdminUserDto handler" where
  "users_patch now targetId dto context =
     as_user context (\<lambda>userId. updateUser now (currentTenant context) userId targetId dto)"

definition users_approve :: "date \<Rightarrow> string \<Rightarrow> UserRole \<Rightarrow> RequestContext \<Rightarrow> AdminUserDto handler" where
  "users_approve now targetId role context =
     as_user context (\<lambda>userId. approveUser now (currentTenant context) userId targetId role)"

definition users_revokeSessions :: "date \<Rightarrow> string \<Rightarrow> RequestContext \<Rightarrow> unit handler" where
  "users_revokeSessions now targetId context =
     as_user context (\<lambda>userId. revokeSessions now (currentTenant context) userId targetId)"

definition users_resetMfa :: "date \<Rightarrow> string \<Rightarrow> RequestContext \<Rightarrow> unit handler" where
  "users_resetMfa now targetId context =
     as_user context (\<lambda>userId. resetMfa now (currentTenant context) userId targetId)"

end
