(* ===== verification/Controllers.thy ===== *)
theory Controllers
  imports AuthController Simulations Branches Customers Carriers InsightSafety DashboardSafety
begin

text \<open>
  The controllers of the company's data: customers, branches, carriers, freight simulations,
  rate tables, shipments and coverages, imports, insights and the dashboard, route by route.
\<close>

section \<open>Customers\<close>

definition customers_list :: "ListCustomersDto \<Rightarrow> RequestContext \<Rightarrow> db \<Rightarrow> CustomerDto PaginatedResult" where
  "customers_list query context = listCustomers (currentTenant context) query"

definition customers_get :: "string \<Rightarrow> RequestContext \<Rightarrow> db \<Rightarrow> CustomerDto result" where
  "customers_get i context = getCustomer (currentTenant context) i"

definition customers_listAddresses :: "string \<Rightarrow> RequestContext \<Rightarrow> db \<Rightarrow> CustomerAddressDto list result" where
  "customers_listAddresses i context = listAddresses (currentTenant context) i"

definition customers_create :: "date \<Rightarrow> CreateCustomerDto \<Rightarrow> RequestContext \<Rightarrow> CustomerDto handler" where
  "customers_create now body context =
     as_user context (\<lambda>userId. createCustomer now (currentTenant context) userId body)"

definition customers_patch :: "date \<Rightarrow> string \<Rightarrow> UpdateCustomerDto \<Rightarrow> RequestContext \<Rightarrow> CustomerDto handler" where
  "customers_patch now i body context =
     as_user context (\<lambda>userId. updateCustomer now (currentTenant context) userId i body)"

definition customers_updateStatus :: "date \<Rightarrow> string \<Rightarrow> bool \<Rightarrow> RequestContext \<Rightarrow> CustomerDto handler" where
  "customers_updateStatus now i active context =
     as_user context (\<lambda>userId. updateCustomerStatus now (currentTenant context) userId i active)"

definition customers_createAddress ::
  "date \<Rightarrow> string \<Rightarrow> CreateCustomerAddressDto \<Rightarrow> RequestContext \<Rightarrow> CustomerAddressDto handler" where
  "customers_createAddress now i body context =
     as_user context (\<lambda>userId. createAddress now (currentTenant context) userId i body)"

section \<open>Branches\<close>

definition branches_list :: "ListBranchesDto \<Rightarrow> RequestContext \<Rightarrow> db \<Rightarrow> BranchDto PaginatedResult" where
  "branches_list query context = listBranches (currentTenant context) query"

definition branches_get :: "string \<Rightarrow> RequestContext \<Rightarrow> db \<Rightarrow> BranchDto result" where
  "branches_get i context = getBranch (currentTenant context) i"

definition branches_create :: "date \<Rightarrow> CreateBranchDto \<Rightarrow> RequestContext \<Rightarrow> BranchDto handler" where
  "branches_create now body context = createBranch now (currentTenant context) body"

definition branches_patch :: "date \<Rightarrow> string \<Rightarrow> CreateBranchDto \<Rightarrow> RequestContext \<Rightarrow> BranchDto handler" where
  "branches_patch now i body context =
     as_user context (\<lambda>userId. updateBranch now (currentTenant context) userId i body)"

definition branches_updateStatus :: "date \<Rightarrow> string \<Rightarrow> bool \<Rightarrow> RequestContext \<Rightarrow> BranchDto handler" where
  "branches_updateStatus now i active context =
     as_user context (\<lambda>userId. updateBranchStatus now (currentTenant context) userId i active)"

section \<open>Carriers\<close>

definition carriers_list :: "ListCarriersDto \<Rightarrow> RequestContext \<Rightarrow> db \<Rightarrow> CarrierDto PaginatedResult" where
  "carriers_list query context = listCarriers (currentTenant context) query"

definition carriers_get :: "string \<Rightarrow> RequestContext \<Rightarrow> db \<Rightarrow> CarrierDto result" where
  "carriers_get i context = getCarrier (currentTenant context) i"

definition carriers_logo :: "ImageConfig \<Rightarrow> string \<Rightarrow> RequestContext \<Rightarrow> db \<Rightarrow> (string \<times> string) result" where
  "carriers_logo cfg i context = readLogo cfg (currentTenant context) i"

definition carriers_create :: "CreateCarrierDto \<Rightarrow> RequestContext \<Rightarrow> CarrierDto handler" where
  "carriers_create body context = createCarrier (currentTenant context) body"

definition carriers_createService ::
  "string \<Rightarrow> CreateCarrierServiceDto \<Rightarrow> RequestContext \<Rightarrow> CarrierTransportServiceDto handler" where
  "carriers_createService carrierId body context = createService (currentTenant context) carrierId body"

definition carriers_uploadLogo ::
  "(string \<Rightarrow> string) \<Rightarrow> ImageConfig \<Rightarrow> date \<Rightarrow> string \<Rightarrow> Upload option \<Rightarrow> RequestContext \<Rightarrow> CarrierDto handler" where
  "carriers_uploadLogo sha cfg now i file context =
     as_user context (\<lambda>userId. uploadLogo sha cfg now (currentTenant context) userId i file)"

definition carriers_patch :: "date \<Rightarrow> string \<Rightarrow> CreateCarrierDto \<Rightarrow> RequestContext \<Rightarrow> CarrierDto handler" where
  "carriers_patch now i body context =
     as_user context (\<lambda>userId. updateCarrier now (currentTenant context) userId i body)"

definition carriers_updateStatus :: "date \<Rightarrow> string \<Rightarrow> bool \<Rightarrow> RequestContext \<Rightarrow> CarrierDto handler" where
  "carriers_updateStatus now i active context =
     as_user context (\<lambda>userId. updateCarrierStatus now (currentTenant context) userId i active)"

definition carriers_updateService ::
  "date \<Rightarrow> string \<Rightarrow> string \<Rightarrow> CreateCarrierServiceDto \<Rightarrow> RequestContext \<Rightarrow> CarrierTransportServiceDto handler" where
  "carriers_updateService now carrierId serviceId body context =
     as_user context (\<lambda>userId. updateService now (currentTenant context) userId carrierId serviceId body)"

section \<open>Freight simulations\<close>

definition freight_lookupAddress :: "(string \<Rightarrow> viacep_reply) \<Rightarrow> string \<Rightarrow> AddressDto result" where
  "freight_lookupAddress viacep postalCode = lookupAddress viacep postalCode"

definition freight_list ::
  "ListFreightSimulationsDto \<Rightarrow> RequestContext \<Rightarrow> db \<Rightarrow> FreightSimulationListItemDto PaginatedResult result" where
  "freight_list query context = listSimulations (currentTenant context) query"

definition freight_get :: "string \<Rightarrow> RequestContext \<Rightarrow> db \<Rightarrow> FreightSimulationDto result" where
  "freight_get i context = getSimulation (currentTenant context) i"

definition freight_create ::
  "(rat \<Rightarrow> rat) \<Rightarrow> MathLib \<Rightarrow> date \<Rightarrow> CreateFreightSimulationDto \<Rightarrow> RequestContext \<Rightarrow> FreightSimulationDto handler" where
  "freight_create rnd m now body context =
     as_user context (\<lambda>userId. createSimulation rnd m now (currentTenant context) userId body)"

definition freight_selectOption :: "date \<Rightarrow> string \<Rightarrow> string \<Rightarrow> RequestContext \<Rightarrow> FreightSimulationDto handler" where
  "freight_selectOption now simulationId optionId context =
     as_user context (\<lambda>userId. selectOption now (currentTenant context) userId simulationId optionId)"

definition freight_createShipment :: "date \<Rightarrow> string \<Rightarrow> RequestContext \<Rightarrow> ShipmentDto handler" where
  "freight_createShipment now simulationId context =
     as_user context (\<lambda>userId. createShipment now (currentTenant context) userId simulationId)"

section \<open>Rate tables, shipments, audit and coverages\<close>

definition logistics_listRateTables ::
  "ListAdminLogisticsDto \<Rightarrow> RequestContext \<Rightarrow> db \<Rightarrow> RateTableListItem PaginatedResult" where
  "logistics_listRateTables query context = listRateTables (currentTenant context) query"

definition logistics_getRateTable :: "string \<Rightarrow> RequestContext \<Rightarrow> db \<Rightarrow> RateTableDetail result" where
  "logistics_getRateTable i context = getRateTable (currentTenant context) i"

definition logistics_createRateTable :: "date \<Rightarrow> RateTableInputDto \<Rightarrow> RequestContext \<Rightarrow> RateTableDetail handler" where
  "logistics_createRateTable now body context =
     as_user context (\<lambda>userId. createRateTable now (currentTenant context) userId body None)"

definition logistics_updateRateTable ::
  "date \<Rightarrow> string \<Rightarrow> RateTableInputDto \<Rightarrow> RequestContext \<Rightarrow> RateTableDetail handler" where
  "logistics_updateRateTable now i body context =
     as_user context (\<lambda>userId. updateRateTable now (currentTenant context) userId i body)"

definition logistics_duplicateRateTable :: "date \<Rightarrow> string \<Rightarrow> RequestContext \<Rightarrow> RateTableDetail handler" where
  "logistics_duplicateRateTable now i context =
     as_user context (\<lambda>userId. createRateTableVersion now (currentTenant context) userId i)"

definition logistics_newRateTableVersion :: "date \<Rightarrow> string \<Rightarrow> RequestContext \<Rightarrow> RateTableDetail handler" where
  "logistics_newRateTableVersion now i context =
     as_user context (\<lambda>userId. createRateTableVersion now (currentTenant context) userId i)"

definition logistics_updateRateTableStatus ::
  "date \<Rightarrow> string \<Rightarrow> EntityStatus \<Rightarrow> RequestContext \<Rightarrow> (string \<times> EntityStatus) handler" where
  "logistics_updateRateTableStatus now i status context =
     as_user context (\<lambda>userId. updateRateTableStatus now (currentTenant context) userId i status)"

definition logistics_listShipments ::
  "ListAdminLogisticsDto \<Rightarrow> RequestContext \<Rightarrow> db \<Rightarrow> ShipmentListItem PaginatedResult result" where
  "logistics_listShipments query context = listShipments (currentTenant context) query"

definition logistics_getShipment :: "string \<Rightarrow> RequestContext \<Rightarrow> db \<Rightarrow> ShipmentDetail result" where
  "logistics_getShipment i context = getShipment (currentTenant context) i"

definition logistics_createTracking ::
  "date \<Rightarrow> string \<Rightarrow> CreateTrackingEventDto \<Rightarrow> RequestContext \<Rightarrow> TrackingEventResult handler" where
  "logistics_createTracking now i body context =
     as_user context (\<lambda>userId. createTrackingEvent now (currentTenant context) userId i body)"

definition logistics_updateShipmentStatus ::
  "date \<Rightarrow> string \<Rightarrow> ShipmentStatus \<Rightarrow> RequestContext \<Rightarrow> TrackingEventResult handler" where
  "logistics_updateShipmentStatus now i status context =
     as_user context (\<lambda>userId. updateShipmentStatus now (currentTenant context) userId i status)"

definition logistics_listAudit ::
  "ListAdminLogisticsDto \<Rightarrow> RequestContext \<Rightarrow> db \<Rightarrow> AuditView PaginatedResult result" where
  "logistics_listAudit query context = listAudit (currentTenant context) query"

definition logistics_listCoverages ::
  "ListAdminLogisticsDto \<Rightarrow> RequestContext \<Rightarrow> db \<Rightarrow> CoverageListItem PaginatedResult" where
  "logistics_listCoverages query context = listCoverages (currentTenant context) query"

definition logistics_createCoverage :: "date \<Rightarrow> CoverageDto \<Rightarrow> RequestContext \<Rightarrow> CarrierCoverage handler" where
  "logistics_createCoverage now body context =
     as_user context (\<lambda>userId. createCoverage now (currentTenant context) userId body)"

definition logistics_updateCoverage :: "date \<Rightarrow> string \<Rightarrow> CoverageDto \<Rightarrow> RequestContext \<Rightarrow> CarrierCoverage handler" where
  "logistics_updateCoverage now i body context =
     as_user context (\<lambda>userId. updateCoverage now (currentTenant context) userId i body)"

definition logistics_testCoverage :: "CoverageTestDto \<Rightarrow> RequestContext \<Rightarrow> db \<Rightarrow> bool \<times> CoverageMatch list" where
  "logistics_testCoverage body context = testCoverage (currentTenant context) body"

section \<open>Imports\<close>

text \<open>The context of an import; the creation passes no role, and its service reads none.\<close>

definition import_context :: "RequestContext \<Rightarrow> ImportContext result" where
  "import_context context =
     bindE (requireRole context) (\<lambda>role.
     bindE (requireUserId context) (\<lambda>userId.
       Inr \<lparr> ctx_role = role, ctx_tenantId = currentTenant context, ctx_userId = userId, ctx_requestId = None \<rparr>))"

definition imports_list ::
  "ListImportsDto \<Rightarrow> RequestContext \<Rightarrow> db \<Rightarrow> ImportJobDto PaginatedResult result" where
  "imports_list query context d = bindE (import_context context) (\<lambda>c. Inr (listImports c query d))"

definition imports_template :: "ImportType option \<Rightarrow> ImportTemplateDto result" where
  "imports_template type = import_template type"

definition imports_preview ::
  "ImportLibs \<Rightarrow> ImportConfig \<Rightarrow> Upload option \<Rightarrow> ImportType \<Rightarrow> ImportPreviewDto result" where
  "imports_preview libs cfg file type = previewImport libs cfg file type"

definition imports_create ::
  "ImportLibs \<Rightarrow> ImportConfig \<Rightarrow> date \<Rightarrow> Upload option \<Rightarrow> CreateImportDto \<Rightarrow> RequestContext \<Rightarrow> ImportJobDto handler" where
  "imports_create libs cfg now file body context =
     as_user context (\<lambda>userId.
       createImport libs cfg now
         \<lparr> ctx_role = coalesce (rc_role context) OPERATOR, ctx_tenantId = currentTenant context, ctx_userId = userId,
           ctx_requestId = Some (rc_requestId context) \<rparr> file body)"

definition imports_get ::
  "string \<Rightarrow> ImportRowsQueryDto \<Rightarrow> RequestContext \<Rightarrow> db \<Rightarrow> ImportJobDetailDto result" where
  "imports_get i query context d = bindE (import_context context) (\<lambda>c. getImport c i query d)"

definition imports_cancel :: "date \<Rightarrow> string \<Rightarrow> RequestContext \<Rightarrow> ImportJobDto handler" where
  "imports_cancel now i context = before (import_context context) (\<lambda>c. cancelImport now c i)"

definition imports_retry :: "date \<Rightarrow> string \<Rightarrow> RetryImportDto \<Rightarrow> RequestContext \<Rightarrow> ImportJobDto handler" where
  "imports_retry now i body context = before (import_context context) (\<lambda>c. retryImport now c i body)"

text \<open>The name of the file goes into a header, the content into the body.\<close>

definition imports_errorsCsv :: "date \<Rightarrow> string \<Rightarrow> RequestContext \<Rightarrow> (string \<times> string) handler" where
  "imports_errorsCsv now i context =
     before (import_context context) (\<lambda>c d.
       after (\<lambda>(filename, content). Inr (''attachment; filename=\"'' @ filename @ ''\"'', content)) (errorReport now c i d))"

section \<open>Insights and the dashboard\<close>

definition insights_list ::
  "date \<Rightarrow> ListInsightsDto \<Rightarrow> RequestContext \<Rightarrow> db \<Rightarrow> InsightDto PaginatedResult result" where
  "insights_list now query context = listInsights now (currentTenant context) query"

definition insights_overview :: "RequestContext \<Rightarrow> db \<Rightarrow> InsightSummaryDto" where
  "insights_overview context = insights_summary (currentTenant context)"

definition insights_refresh :: "date \<Rightarrow> RequestContext \<Rightarrow> RefreshInsightsResultDto handler" where
  "insights_refresh now context = as_user context (\<lambda>userId. refreshInsights now (currentTenant context) userId)"

definition insights_get :: "string \<Rightarrow> RequestContext \<Rightarrow> db \<Rightarrow> InsightDto result" where
  "insights_get i context = getInsight (currentTenant context) i"

definition insights_read :: "date \<Rightarrow> string \<Rightarrow> RequestContext \<Rightarrow> InsightDto handler" where
  "insights_read now i context = as_user context (\<lambda>userId. markRead now (currentTenant context) userId i)"

definition insights_dismiss :: "date \<Rightarrow> string \<Rightarrow> RequestContext \<Rightarrow> InsightDto handler" where
  "insights_dismiss now i context = as_user context (\<lambda>userId. dismissInsight now (currentTenant context) userId i)"

definition dashboard_getSummary ::
  "(rat list \<Rightarrow> rat) \<Rightarrow> bool \<Rightarrow> bool \<Rightarrow> date \<Rightarrow> DashboardFilters \<Rightarrow> RequestContext \<Rightarrow> db
    \<Rightarrow> cache \<Rightarrow> DashboardSummaryDto result \<times> cache" where
  "dashboard_getSummary avg readUp writeUp now query context d =
     before (requireRole context) (\<lambda>role. getSummary avg readUp writeUp now (currentTenant context) role query d)"

end
