(* ===== verification/Routes.thy ===== *)
theory Routes
  imports Controllers
begin

text \<open>
  The application of \<open>app.module.ts\<close>: the routes of the controllers with the roles their
  decorators ask for, the two global guards in their order, and the handler behind them. A
  decorator on a handler replaces the one on its class. The answer keeps only whether the
  handler returned or what it threw.
\<close>

section \<open>Routes\<close>

datatype AuthRoute =
    PostLogin LoginDto | PostRegister RegisterTenantDto | PostVerifyMfa string string | PostForgotPassword string
  | PostResetPassword string string string | GetTenants "string option" | PostCompleteRegistration string string
  | PostRefresh | PostLogout | GetMe | GetProfile | PatchProfile string | PostChangePassword string string string
  | PostMfaSetup | PostMfaConfirm string | PostMfaDisable string | PostRevokeOthers | PostRevokeSession string
  | GetOnboarding | PatchOnboarding UpdateOnboardingDto | GetOAuthStatus | GetStartOAuth string string
  | GetStartOAuthLink string | PostUnlinkOAuth string | GetOAuthCallback string string

datatype UsersRoute =
    GetUsers ListUsersDto | PostUser CreateAdminUserDto | PostInvite string UserRole | PostAcceptInvite AcceptInviteDto
  | PatchUser string UpdateAdminUserDto | PostApprove string UserRole | PostRevokeSessions string | PostResetMfa string

datatype CustomersRoute =
    GetCustomers ListCustomersDto | GetCustomer string | GetAddresses string | PostCustomer CreateCustomerDto
  | PatchCustomer string UpdateCustomerDto | PatchCustomerStatus string bool | PostAddress string CreateCustomerAddressDto

datatype BranchesRoute =
    GetBranches ListBranchesDto | GetBranch string | PostBranch CreateBranchDto | PatchBranch string CreateBranchDto
  | PatchBranchStatus string bool

datatype CarriersRoute =
    GetCarriers ListCarriersDto | GetCarrier string | GetLogo string | PostCarrier CreateCarrierDto
  | PostService string CreateCarrierServiceDto | PostLogo string "Upload option" | PatchCarrier string CreateCarrierDto
  | PatchCarrierStatus string bool | PatchService string string CreateCarrierServiceDto

datatype FreightRoute =
    GetAddressLookup string | GetSimulations ListFreightSimulationsDto | GetSimulation string
  | PostSimulation CreateFreightSimulationDto | PostSelect string string | PostShipment string

datatype LogisticsRoute =
    GetRateTables ListAdminLogisticsDto | GetRateTable string | PostRateTable RateTableInputDto
  | PatchRateTable string RateTableInputDto | PostDuplicate string | PostNewVersion string
  | PatchRateTableStatus string EntityStatus | GetShipments ListAdminLogisticsDto | GetShipment string
  | PostTracking string CreateTrackingEventDto | PatchShipmentStatus string ShipmentStatus
  | GetAudit ListAdminLogisticsDto | GetCoverages ListAdminLogisticsDto | PostCoverage CoverageDto
  | PatchCoverage string CoverageDto | PostCoverageTest CoverageTestDto

datatype ImportsRoute =
    GetImports ListImportsDto | GetTemplate "ImportType option" | PostPreview "Upload option" ImportType
  | PostImport "Upload option" CreateImportDto | GetImport string ImportRowsQueryDto | PostCancel string
  | PostRetry string RetryImportDto | GetErrors string

datatype InsightsRoute =
    GetInsights ListInsightsDto | GetInsightsSummary | PostRefreshInsights | GetInsight string | PatchRead string
  | PatchDismiss string

datatype Route =
    ToAuth AuthRoute | ToUsers UsersRoute | ToCustomers CustomersRoute | ToBranches BranchesRoute | ToCarriers CarriersRoute
  | ToFreight FreightRoute | ToLogistics LogisticsRoute | ToImports ImportsRoute | ToInsights InsightsRoute
  | ToDashboard DashboardFilters

section \<open>Decorators\<close>

abbreviation everyone :: "UserRole list option" where
  "everyone \<equiv> Some [ADMIN, MANAGER, OPERATOR]"

abbreviation staff :: "UserRole list option" where
  "staff \<equiv> Some [ADMIN, MANAGER]"

fun auth_public :: "AuthRoute \<Rightarrow> bool" where
  "auth_public (PostLogin dto) = True"
| "auth_public (PostRegister dto) = True"
| "auth_public (PostVerifyMfa token code) = True"
| "auth_public (PostForgotPassword email) = True"
| "auth_public (PostResetPassword token p c) = True"
| "auth_public (GetTenants search) = True"
| "auth_public (PostCompleteRegistration token slug) = True"
| "auth_public PostRefresh = True"
| "auth_public PostLogout = True"
| "auth_public GetOAuthStatus = True"
| "auth_public (GetStartOAuth provider mode) = True"
| "auth_public (GetOAuthCallback provider state) = True"
| "auth_public r = False"

fun users_public :: "UsersRoute \<Rightarrow> bool" where
  "users_public (PostAcceptInvite dto) = True"
| "users_public r = False"

fun users_roles :: "UsersRoute \<Rightarrow> UserRole list option" where
  "users_roles (GetUsers query) = staff"
| "users_roles (PostAcceptInvite dto) = None"
| "users_roles r = Some [ADMIN]"

fun branches_roles :: "BranchesRoute \<Rightarrow> UserRole list option" where
  "branches_roles (GetBranches query) = everyone"
| "branches_roles (GetBranch i) = everyone"
| "branches_roles r = staff"

fun carriers_roles :: "CarriersRoute \<Rightarrow> UserRole list option" where
  "carriers_roles (GetCarriers query) = everyone"
| "carriers_roles (GetCarrier i) = everyone"
| "carriers_roles (GetLogo i) = everyone"
| "carriers_roles r = staff"

fun logistics_roles :: "LogisticsRoute \<Rightarrow> UserRole list option" where
  "logistics_roles (PostRateTable body) = staff"
| "logistics_roles (PatchRateTable i body) = staff"
| "logistics_roles (PostDuplicate i) = staff"
| "logistics_roles (PostNewVersion i) = staff"
| "logistics_roles (PatchRateTableStatus i s) = staff"
| "logistics_roles (GetAudit query) = staff"
| "logistics_roles (PostCoverage body) = staff"
| "logistics_roles (PatchCoverage i body) = staff"
| "logistics_roles r = everyone"

fun is_public :: "Route \<Rightarrow> bool" where
  "is_public (ToAuth r) = auth_public r"
| "is_public (ToUsers r) = users_public r"
| "is_public r = False"

fun required_roles :: "Route \<Rightarrow> UserRole list option" where
  "required_roles (ToAuth r) = None"
| "required_roles (ToUsers r) = users_roles r"
| "required_roles (ToBranches r) = branches_roles r"
| "required_roles (ToCarriers r) = carriers_roles r"
| "required_roles (ToLogistics r) = logistics_roles r"
| "required_roles r = everyone"

section \<open>Handlers\<close>

text \<open>The configuration and the libraries of the process, and what a request draws or meets outside.\<close>

record Server =
  sv_decode :: "string \<Rightarrow> string option"
  sv_libs :: AuthLibs
  sv_auth :: AuthConfig
  sv_cookieDomain :: string
  sv_images :: ImageConfig
  sv_importLibs :: ImportLibs
  sv_importConfig :: ImportConfig
  sv_round :: "rat \<Rightarrow> rat"
  sv_math :: MathLib
  sv_avg :: "rat list \<Rightarrow> rat"

record Draws =
  dr_now :: date
  dr_uuid :: string
  dr_redis :: RedisUp
  dr_cacheUp :: "bool \<times> bool"
  dr_fresh :: NewRefreshToken
  dr_salt :: string
  dr_token :: string
  dr_token2 :: string
  dr_hexes :: "string \<times> string"
  dr_codes :: "(string \<times> string) list"
  dr_secret :: string
  dr_iv :: string
  dr_exchanged :: "OAuthIdentity result"
  dr_viacep :: "string \<Rightarrow> viacep_reply"

record Backend =
  bk_db :: db
  bk_limiter :: Limiter
  bk_cache :: cache

definition answered :: "'a result \<Rightarrow> unit result" where
  "answered r = (case r of Inl e \<Rightarrow> Inl e | Inr _ \<Rightarrow> Inr ())"

definition on_db :: "'a handler \<Rightarrow> Backend \<Rightarrow> unit result \<times> Backend" where
  "on_db h b = (case h (bk_db b) of (r, d) \<Rightarrow> (answered r, b\<lparr>bk_db := d\<rparr>))"

definition reads :: "(db \<Rightarrow> 'a result) \<Rightarrow> Backend \<Rightarrow> unit result \<times> Backend" where
  "reads f b = (answered (f (bk_db b)), b)"

fun perform_auth :: "Server \<Rightarrow> Draws \<Rightarrow> Request \<Rightarrow> RequestContext \<Rightarrow> AuthRoute \<Rightarrow> Backend \<Rightarrow> unit result \<times> Backend" where
  "perform_auth sv dr rq c (PostLogin dto) b =
     (case auth_login (sv_libs sv) (sv_auth sv) (sv_cookieDomain sv) (dr_now dr) (dr_redis dr) (dr_fresh dr) (dr_token dr)
             (dr_token2 dr) dto rq c (bk_db b, bk_limiter b) of
        (r, (d, l)) \<Rightarrow> (answered r, b\<lparr>bk_db := d, bk_limiter := l\<rparr>))"
| "perform_auth sv dr rq c (PostRegister dto) b =
     on_db (auth_register (sv_libs sv) (sv_auth sv) (sv_cookieDomain sv) (dr_now dr) (dr_fresh dr) (dr_salt dr) (dr_hexes dr) dto rq c) b"
| "perform_auth sv dr rq c (PostVerifyMfa token code) b =
     on_db (auth_verifyMfaLogin (sv_libs sv) (sv_auth sv) (sv_cookieDomain sv) (dr_now dr) (dr_fresh dr) token code rq c) b"
| "perform_auth sv dr rq c (PostForgotPassword email) b =
     on_db (auth_forgotPassword (sv_libs sv) (sv_auth sv) (dr_now dr) (dr_token dr) email rq c) b"
| "perform_auth sv dr rq c (PostResetPassword token p p') b =
     on_db (auth_resetPassword (sv_libs sv) (sv_auth sv) (dr_now dr) (dr_salt dr) token p p' rq c) b"
| "perform_auth sv dr rq c (GetTenants search) b = reads (\<lambda>d. Inr (auth_tenants search d)) b"
| "perform_auth sv dr rq c (PostCompleteRegistration token slug) b =
     on_db (auth_completeOAuthRegistration (sv_libs sv) (sv_auth sv) (dr_now dr) token slug) b"
| "perform_auth sv dr rq c PostRefresh b =
     on_db (auth_refresh (sv_decode sv) (sv_libs sv) (sv_auth sv) (sv_cookieDomain sv) (dr_now dr) (dr_fresh dr) rq c) b"
| "perform_auth sv dr rq c PostLogout b =
     on_db (auth_logout (sv_decode sv) (sv_libs sv) (sv_auth sv) (sv_cookieDomain sv) (dr_now dr) rq c) b"
| "perform_auth sv dr rq c GetMe b = reads (auth_me c) b"
| "perform_auth sv dr rq c GetProfile b = reads (auth_profile (sv_decode sv) (sv_libs sv) (sv_auth sv) rq c) b"
| "perform_auth sv dr rq c (PatchProfile name) b =
     on_db (auth_updateProfile (sv_libs sv) (sv_auth sv) (dr_now dr) name c) b"
| "perform_auth sv dr rq c (PostChangePassword old new confirmation) b =
     on_db (auth_changePassword (sv_libs sv) (dr_now dr) (dr_salt dr) old new confirmation c) b"
| "perform_auth sv dr rq c PostMfaSetup b =
     on_db (auth_setupMfa (sv_libs sv) (sv_auth sv) (dr_secret dr) (dr_iv dr) c) b"
| "perform_auth sv dr rq c (PostMfaConfirm code) b =
     on_db (auth_confirmMfa (sv_libs sv) (sv_auth sv) (dr_now dr) (dr_codes dr) code c) b"
| "perform_auth sv dr rq c (PostMfaDisable code) b =
     on_db (auth_disableMfa (sv_libs sv) (sv_auth sv) (dr_now dr) code c) b"
| "perform_auth sv dr rq c PostRevokeOthers b =
     on_db (auth_revokeOtherSessions (sv_decode sv) (sv_libs sv) (sv_auth sv) (dr_now dr) rq c) b"
| "perform_auth sv dr rq c (PostRevokeSession i) b = on_db (auth_revokeSession (dr_now dr) i c) b"
| "perform_auth sv dr rq c GetOnboarding b = on_db (auth_onboarding c) b"
| "perform_auth sv dr rq c (PatchOnboarding dto) b = on_db (auth_updateOnboarding (dr_now dr) dto c) b"
| "perform_auth sv dr rq c GetOAuthStatus b = reads (\<lambda>d. Inr (auth_oauthStatus (sv_auth sv))) b"
| "perform_auth sv dr rq c (GetStartOAuth provider mode) b =
     on_db (auth_startOAuth (sv_libs sv) (sv_auth sv) (dr_now dr) (dr_token dr) provider mode) b"
| "perform_auth sv dr rq c (GetStartOAuthLink provider) b =
     on_db (auth_startOAuthLink (sv_libs sv) (sv_auth sv) (dr_now dr) (dr_token dr) provider c) b"
| "perform_auth sv dr rq c (PostUnlinkOAuth provider) b = on_db (auth_unlinkOAuth (dr_now dr) provider c) b"
| "perform_auth sv dr rq c (GetOAuthCallback provider state) b =
     on_db (auth_oauthCallback (sv_libs sv) (sv_auth sv) (sv_cookieDomain sv) (dr_now dr) (dr_fresh dr) (dr_token dr) provider
       (dr_exchanged dr) state rq c) b"

fun perform_users :: "Server \<Rightarrow> Draws \<Rightarrow> Request \<Rightarrow> RequestContext \<Rightarrow> UsersRoute \<Rightarrow> Backend \<Rightarrow> unit result \<times> Backend" where
  "perform_users sv dr rq c (GetUsers query) b = reads (\<lambda>d. Inr (users_list query c d)) b"
| "perform_users sv dr rq c (PostUser dto) b = on_db (users_create (sv_libs sv) (dr_now dr) (dr_salt dr) dto c) b"
| "perform_users sv dr rq c (PostInvite email role) b =
     on_db (users_invite (sv_libs sv) (sv_auth sv) (dr_now dr) (dr_token dr) email role c) b"
| "perform_users sv dr rq c (PostAcceptInvite dto) b =
     on_db (users_acceptInvite (sv_libs sv) (sv_auth sv) (sv_cookieDomain sv) (dr_now dr) (dr_fresh dr) (dr_salt dr) dto rq c) b"
| "perform_users sv dr rq c (PatchUser i dto) b = on_db (users_patch (dr_now dr) i dto c) b"
| "perform_users sv dr rq c (PostApprove i role) b = on_db (users_approve (dr_now dr) i role c) b"
| "perform_users sv dr rq c (PostRevokeSessions i) b = on_db (users_revokeSessions (dr_now dr) i c) b"
| "perform_users sv dr rq c (PostResetMfa i) b = on_db (users_resetMfa (dr_now dr) i c) b"

fun perform_customers :: "Draws \<Rightarrow> RequestContext \<Rightarrow> CustomersRoute \<Rightarrow> Backend \<Rightarrow> unit result \<times> Backend" where
  "perform_customers dr c (GetCustomers query) b = reads (\<lambda>d. Inr (customers_list query c d)) b"
| "perform_customers dr c (GetCustomer i) b = reads (customers_get i c) b"
| "perform_customers dr c (GetAddresses i) b = reads (customers_listAddresses i c) b"
| "perform_customers dr c (PostCustomer body) b = on_db (customers_create (dr_now dr) body c) b"
| "perform_customers dr c (PatchCustomer i body) b = on_db (customers_patch (dr_now dr) i body c) b"
| "perform_customers dr c (PatchCustomerStatus i active) b = on_db (customers_updateStatus (dr_now dr) i active c) b"
| "perform_customers dr c (PostAddress i body) b = on_db (customers_createAddress (dr_now dr) i body c) b"

fun perform_branches :: "Draws \<Rightarrow> RequestContext \<Rightarrow> BranchesRoute \<Rightarrow> Backend \<Rightarrow> unit result \<times> Backend" where
  "perform_branches dr c (GetBranches query) b = reads (\<lambda>d. Inr (branches_list query c d)) b"
| "perform_branches dr c (GetBranch i) b = reads (branches_get i c) b"
| "perform_branches dr c (PostBranch body) b = on_db (branches_create (dr_now dr) body c) b"
| "perform_branches dr c (PatchBranch i body) b = on_db (branches_patch (dr_now dr) i body c) b"
| "perform_branches dr c (PatchBranchStatus i active) b = on_db (branches_updateStatus (dr_now dr) i active c) b"

fun perform_carriers :: "Server \<Rightarrow> Draws \<Rightarrow> RequestContext \<Rightarrow> CarriersRoute \<Rightarrow> Backend \<Rightarrow> unit result \<times> Backend" where
  "perform_carriers sv dr c (GetCarriers query) b = reads (\<lambda>d. Inr (carriers_list query c d)) b"
| "perform_carriers sv dr c (GetCarrier i) b = reads (carriers_get i c) b"
| "perform_carriers sv dr c (GetLogo i) b = reads (carriers_logo (sv_images sv) i c) b"
| "perform_carriers sv dr c (PostCarrier body) b = on_db (carriers_create body c) b"
| "perform_carriers sv dr c (PostService i body) b = on_db (carriers_createService i body c) b"
| "perform_carriers sv dr c (PostLogo i file) b =
     on_db (carriers_uploadLogo (lib_sha256 (sv_importLibs sv)) (sv_images sv) (dr_now dr) i file c) b"
| "perform_carriers sv dr c (PatchCarrier i body) b = on_db (carriers_patch (dr_now dr) i body c) b"
| "perform_carriers sv dr c (PatchCarrierStatus i active) b = on_db (carriers_updateStatus (dr_now dr) i active c) b"
| "perform_carriers sv dr c (PatchService i j body) b = on_db (carriers_updateService (dr_now dr) i j body c) b"

fun perform_freight :: "Server \<Rightarrow> Draws \<Rightarrow> RequestContext \<Rightarrow> FreightRoute \<Rightarrow> Backend \<Rightarrow> unit result \<times> Backend" where
  "perform_freight sv dr c (GetAddressLookup code) b = reads (\<lambda>d. freight_lookupAddress (dr_viacep dr) code) b"
| "perform_freight sv dr c (GetSimulations query) b = reads (freight_list query c) b"
| "perform_freight sv dr c (GetSimulation i) b = reads (freight_get i c) b"
| "perform_freight sv dr c (PostSimulation body) b =
     on_db (freight_create (sv_round sv) (sv_math sv) (dr_now dr) body c) b"
| "perform_freight sv dr c (PostSelect i optionId) b = on_db (freight_selectOption (dr_now dr) i optionId c) b"
| "perform_freight sv dr c (PostShipment i) b = on_db (freight_createShipment (dr_now dr) i c) b"

fun perform_logistics :: "Draws \<Rightarrow> RequestContext \<Rightarrow> LogisticsRoute \<Rightarrow> Backend \<Rightarrow> unit result \<times> Backend" where
  "perform_logistics dr c (GetRateTables query) b = reads (\<lambda>d. Inr (logistics_listRateTables query c d)) b"
| "perform_logistics dr c (GetRateTable i) b = reads (logistics_getRateTable i c) b"
| "perform_logistics dr c (PostRateTable body) b = on_db (logistics_createRateTable (dr_now dr) body c) b"
| "perform_logistics dr c (PatchRateTable i body) b = on_db (logistics_updateRateTable (dr_now dr) i body c) b"
| "perform_logistics dr c (PostDuplicate i) b = on_db (logistics_duplicateRateTable (dr_now dr) i c) b"
| "perform_logistics dr c (PostNewVersion i) b = on_db (logistics_newRateTableVersion (dr_now dr) i c) b"
| "perform_logistics dr c (PatchRateTableStatus i s) b = on_db (logistics_updateRateTableStatus (dr_now dr) i s c) b"
| "perform_logistics dr c (GetShipments query) b = reads (logistics_listShipments query c) b"
| "perform_logistics dr c (GetShipment i) b = reads (logistics_getShipment i c) b"
| "perform_logistics dr c (PostTracking i body) b = on_db (logistics_createTracking (dr_now dr) i body c) b"
| "perform_logistics dr c (PatchShipmentStatus i s) b = on_db (logistics_updateShipmentStatus (dr_now dr) i s c) b"
| "perform_logistics dr c (GetAudit query) b = reads (logistics_listAudit query c) b"
| "perform_logistics dr c (GetCoverages query) b = reads (\<lambda>d. Inr (logistics_listCoverages query c d)) b"
| "perform_logistics dr c (PostCoverage body) b = on_db (logistics_createCoverage (dr_now dr) body c) b"
| "perform_logistics dr c (PatchCoverage i body) b = on_db (logistics_updateCoverage (dr_now dr) i body c) b"
| "perform_logistics dr c (PostCoverageTest body) b = reads (\<lambda>d. Inr (logistics_testCoverage body c d)) b"

fun perform_imports :: "Server \<Rightarrow> Draws \<Rightarrow> RequestContext \<Rightarrow> ImportsRoute \<Rightarrow> Backend \<Rightarrow> unit result \<times> Backend" where
  "perform_imports sv dr c (GetImports query) b = reads (imports_list query c) b"
| "perform_imports sv dr c (GetTemplate type) b = reads (\<lambda>d. imports_template type) b"
| "perform_imports sv dr c (PostPreview file type) b =
     reads (\<lambda>d. imports_preview (sv_importLibs sv) (sv_importConfig sv) file type) b"
| "perform_imports sv dr c (PostImport file body) b =
     on_db (imports_create (sv_importLibs sv) (sv_importConfig sv) (dr_now dr) file body c) b"
| "perform_imports sv dr c (GetImport i query) b = reads (imports_get i query c) b"
| "perform_imports sv dr c (PostCancel i) b = on_db (imports_cancel (dr_now dr) i c) b"
| "perform_imports sv dr c (PostRetry i body) b = on_db (imports_retry (dr_now dr) i body c) b"
| "perform_imports sv dr c (GetErrors i) b = on_db (imports_errorsCsv (dr_now dr) i c) b"

fun perform_insights :: "Draws \<Rightarrow> RequestContext \<Rightarrow> InsightsRoute \<Rightarrow> Backend \<Rightarrow> unit result \<times> Backend" where
  "perform_insights dr c (GetInsights query) b = reads (insights_list (dr_now dr) query c) b"
| "perform_insights dr c GetInsightsSummary b = reads (\<lambda>d. Inr (insights_overview c d)) b"
| "perform_insights dr c PostRefreshInsights b = on_db (insights_refresh (dr_now dr) c) b"
| "perform_insights dr c (GetInsight i) b = reads (insights_get i c) b"
| "perform_insights dr c (PatchRead i) b = on_db (insights_read (dr_now dr) i c) b"
| "perform_insights dr c (PatchDismiss i) b = on_db (insights_dismiss (dr_now dr) i c) b"

definition perform_dashboard ::
  "Server \<Rightarrow> Draws \<Rightarrow> RequestContext \<Rightarrow> DashboardFilters \<Rightarrow> Backend \<Rightarrow> unit result \<times> Backend" where
  "perform_dashboard sv dr c query b =
     (case dashboard_getSummary (sv_avg sv) (fst (dr_cacheUp dr)) (snd (dr_cacheUp dr)) (dr_now dr) query c (bk_db b) (bk_cache b) of
        (r, cache) \<Rightarrow> (answered r, b\<lparr>bk_cache := cache\<rparr>))"

fun perform :: "Server \<Rightarrow> Draws \<Rightarrow> Request \<Rightarrow> RequestContext \<Rightarrow> Route \<Rightarrow> Backend \<Rightarrow> unit result \<times> Backend" where
  "perform sv dr rq c (ToAuth r) = perform_auth sv dr rq c r"
| "perform sv dr rq c (ToUsers r) = perform_users sv dr rq c r"
| "perform sv dr rq c (ToCustomers r) = perform_customers dr c r"
| "perform sv dr rq c (ToBranches r) = perform_branches dr c r"
| "perform sv dr rq c (ToCarriers r) = perform_carriers sv dr c r"
| "perform sv dr rq c (ToFreight r) = perform_freight sv dr c r"
| "perform sv dr rq c (ToLogistics r) = perform_logistics dr c r"
| "perform sv dr rq c (ToImports r) = perform_imports sv dr c r"
| "perform sv dr rq c (ToInsights r) = perform_insights dr c r"
| "perform sv dr rq c (ToDashboard query) = perform_dashboard sv dr c query"

text \<open>
  The middleware gives every request a context, the guard of privacy runs before the guard of
  roles, and a request that passes both reaches its handler.
\<close>

definition handle_request :: "Server \<Rightarrow> Draws \<Rightarrow> Request \<Rightarrow> Route \<Rightarrow> Backend \<Rightarrow> unit result \<times> Backend" where
  "handle_request sv dr rq route b =
     (case guards (sv_decode sv) (sv_libs sv) (sv_auth sv) (dr_now dr) (is_public route) (required_roles route) rq
             (request_context (dr_uuid dr) rq) (bk_db b) of
        Inl e \<Rightarrow> (Inl e, b)
      | Inr c \<Rightarrow> perform sv dr rq c route b)"

end
