(* ===== verification/AccessMatrix.thy ===== *)
theory AccessMatrix
  imports AccessFrames Routes
begin

text \<open>
  The access matrix of \<open>docs/security/access-control-matrix.md\<close> as theorems over the routes: who
  must have sent a request that changed the directory, gave a user a role or read the users and
  the audit log.
\<close>

section \<open>From services to routes\<close>

named_theorems route_intros \<open>rules from a service to the route that calls it\<close>

lemma on_db_rel [route_intros]: "ensures (\<lambda>r. R (bk_db b)) (h (bk_db b)) \<Longrightarrow> R (bk_db b) (bk_db (snd (on_db h b)))"
  by (auto simp: on_db_def ensures_def split: prod.splits)

lemma reads_rel [route_intros]: "R (bk_db b) (bk_db b) \<Longrightarrow> R (bk_db b) (bk_db (snd (reads f b)))"
  by (simp add: reads_def)

lemma before_ensures [route_intros]:
  "(\<And>e. Q (Inl e) d) \<Longrightarrow> (\<And>x. ensures Q (h x d)) \<Longrightarrow> ensures Q (before r h d)"
  by (cases r) (simp_all add: before_def ensures_def)

lemma as_user_ensures [route_intros]:
  "(\<And>e. Q (Inl e) d) \<Longrightarrow> (\<And>x. ensures Q (h x d)) \<Longrightarrow> ensures Q (as_user c h d)"
  by (simp add: as_user_def before_ensures)

lemma in_context_ensures [route_intros]:
  "(\<And>e. Q (Inl e) d) \<Longrightarrow> (\<And>t u. ensures Q (h t u d)) \<Longrightarrow> ensures Q (in_context c h d)"
  by (auto simp: in_context_def intro: before_ensures)

lemma after_ensures [route_intros]: "ensures (\<lambda>r. R) p \<Longrightarrow> ensures (\<lambda>r. R) (after f p)"
  by (auto simp: after_def ensures_def split: prod.splits)

lemma untouched_keeps: "untouched d d' \<Longrightarrow> keeps d d'"
  using keeps_untouched keeps_refl by blast

lemma users_no_gain: "ensures (\<lambda>r d'. users d' = users d) p \<Longrightarrow> ensures (\<lambda>r. no_gain d) p"
  by (erule ensures_mono) (rule no_gain_same)

lemma untouched_no_gain: "ensures (\<lambda>r. untouched d) p \<Longrightarrow> ensures (\<lambda>r. no_gain d) p"
  by (erule ensures_mono) (simp add: untouched_def no_gain_same)

section \<open>The routes of each controller\<close>

lemma customers_route: "untouched (bk_db b) (bk_db (snd (perform_customers dr c r b)))"
  by (cases r)
    (simp_all add: customers_create_def customers_patch_def customers_updateStatus_def customers_createAddress_def
      route_intros customers_untouched)

lemma freight_route: "untouched (bk_db b) (bk_db (snd (perform_freight sv dr c r b)))"
  by (cases r) (simp_all add: freight_create_def freight_selectOption_def freight_createShipment_def route_intros freight_untouched)

lemma imports_route: "untouched (bk_db b) (bk_db (snd (perform_imports sv dr c r b)))"
  by (cases r)
    (simp_all add: imports_create_def imports_cancel_def imports_retry_def imports_errorsCsv_def route_intros imports_untouched)

lemma insights_route: "untouched (bk_db b) (bk_db (snd (perform_insights dr c r b)))"
  by (cases r) (simp_all add: insights_refresh_def insights_read_def insights_dismiss_def route_intros insights_untouched)

lemma dashboard_route: "untouched (bk_db b) (bk_db (snd (perform_dashboard sv dr c query b)))"
  by (simp add: perform_dashboard_def split: prod.splits)

lemma logistics_route: "logistics_roles r = everyone \<Longrightarrow> untouched (bk_db b) (bk_db (snd (perform_logistics dr c r b)))"
  by (cases r) (simp_all add: logistics_createTracking_def logistics_updateShipmentStatus_def route_intros tracking_untouched)

lemma branches_route: "branches_roles r = everyone \<Longrightarrow> untouched (bk_db b) (bk_db (snd (perform_branches dr c r b)))"
  by (cases r) (simp_all add: route_intros)

lemma carriers_route: "carriers_roles r = everyone \<Longrightarrow> untouched (bk_db b) (bk_db (snd (perform_carriers sv dr c r b)))"
  by (cases r) (simp_all add: route_intros)

lemma staff_route:
  "no_gain (bk_db b) (bk_db (snd (perform_branches dr c br b)))"
  "no_gain (bk_db b) (bk_db (snd (perform_carriers sv dr c cr b)))"
  "no_gain (bk_db b) (bk_db (snd (perform_logistics dr c lr b)))"
  subgoal
    by (cases br)
      (simp_all add: branches_create_def branches_patch_def branches_updateStatus_def route_intros no_gain_same
        branches_users [THEN users_no_gain])
  subgoal
    by (cases cr)
      (simp_all add: carriers_create_def carriers_patch_def carriers_updateStatus_def carriers_uploadLogo_def
        carriers_createService_def carriers_updateService_def route_intros no_gain_same carriers_users [THEN users_no_gain])
  subgoal
    by (cases lr)
      (simp_all add: logistics_createRateTable_def logistics_updateRateTable_def logistics_duplicateRateTable_def
        logistics_newRateTableVersion_def logistics_updateRateTableStatus_def logistics_createTracking_def
        logistics_updateShipmentStatus_def logistics_createCoverage_def logistics_updateCoverage_def route_intros no_gain_same
        logistics_users [THEN users_no_gain] tracking_untouched [THEN untouched_no_gain])
  done

lemma login_route:
  "keeps (fst s) (fst (snd (auth_login libs cfg domain now redis fresh ct kt dto rq c s)))"
  using session_keeps(1) [of s libs cfg now redis fresh ct kt dto "metadataFrom rq c"]
  by (simp add: auth_login_def after_def ensures_def case_prod_unfold)

lemma auth_route:
  "(\<forall>dto. r \<noteq> PostRegister dto) \<Longrightarrow> keeps (bk_db b) (bk_db (snd (perform_auth sv dr rq c r b)))"
proof (cases r)
  case (PostLogin dto)
  then show ?thesis
    using login_route [of "(bk_db b, bk_limiter b)"] by (simp add: case_prod_unfold)
qed (simp_all add: auth_verifyMfaLogin_def auth_forgotPassword_def auth_resetPassword_def auth_completeOAuthRegistration_def
    auth_refresh_def auth_logout_def auth_updateProfile_def auth_changePassword_def auth_setupMfa_def auth_confirmMfa_def
    auth_disableMfa_def auth_revokeOtherSessions_def auth_revokeSession_def auth_onboarding_def auth_updateOnboarding_def
    auth_startOAuth_def auth_startOAuthLink_def auth_unlinkOAuth_def auth_oauthCallback_def route_intros session_keeps
    account_keeps)

lemma register_route: "new_company (bk_db b) (bk_db (snd (perform_auth sv dr rq c (PostRegister dto) b)))"
  by (simp add: auth_register_def route_intros register_new)

lemma auth_route_cases:
  "keeps (bk_db b) (bk_db (snd (perform_auth sv dr rq c r b)))
   \<or> (\<exists>dto. r = PostRegister dto) \<and> new_company (bk_db b) (bk_db (snd (perform_auth sv dr rq c r b)))"
  using auth_route register_route by (cases "\<exists>dto. r = PostRegister dto") (blast, simp)

lemma accept_route: "keeps (bk_db b) (bk_db (snd (perform_users sv dr rq c (PostAcceptInvite dto) b)))"
  by (simp add: users_acceptInvite_def route_intros accept_keeps)

lemma keeps_own: "ensures (\<lambda>r. keeps d) p \<Longrightarrow> ensures (\<lambda>r. own_gain tn d) p"
  by (erule ensures_mono) (auto simp: keeps_def intro: own_gain_no)

lemma own_refl: "own_gain tn d d"
  by (rule own_gain_no) (simp add: no_gain_same)

lemma users_route:
  assumes "users_ok (bk_db b)"
  shows "own_gain (currentTenant c) (bk_db b) (bk_db (snd (perform_users sv dr rq c r b)))"
  by (cases r)
    (simp_all add: users_create_def users_invite_def users_acceptInvite_def users_patch_def users_approve_def
      users_revokeSessions_def users_resetMfa_def route_intros own_refl update_own approve_own assms
      admin_keeps [THEN keeps_own] accept_keeps [THEN keeps_own])

section \<open>Who asks\<close>

text \<open>
  \<open>asks\<close> says that the request carries a token, valid now, of the user, and that the user is active
  in an active tenant.
\<close>

definition asks :: "Server \<Rightarrow> Draws \<Rightarrow> Request \<Rightarrow> db \<Rightarrow> User \<Rightarrow> bool" where
  "asks sv dr rq d u \<longleftrightarrow>
     u \<in> set (users d) \<and> u_status u = UserStatus.ACTIVE
     \<and> (\<exists>t. tenant_of d (u_tenantId u) = Some t \<and> t_active t)
     \<and> (\<exists>token payload. (readBearerToken rq = Some token \<or> readAccessToken (sv_decode sv) rq = Inr (Some token))
          \<and> verifyAccessToken (sv_libs sv) (sv_auth sv) (dr_now dr) token = Inr payload
          \<and> vt_sub payload = u_id u \<and> Some (vt_tenantId payload) = u_tenantId u)"

definition admitted :: "Server \<Rightarrow> Draws \<Rightarrow> Request \<Rightarrow> Route \<Rightarrow> db \<Rightarrow> RequestContext \<Rightarrow> bool" where
  "admitted sv dr rq route d c \<longleftrightarrow>
     guards (sv_decode sv) (sv_libs sv) (sv_auth sv) (dr_now dr) (is_public route) (required_roles route) rq
       (request_context (dr_uuid dr) rq) d = Inr c"

lemma admitted_asks:
  assumes "admitted sv dr rq route d c" "\<not> is_public route"
  obtains u where "asks sv dr rq d u" "u_tenantId u = Some (currentTenant c)"
    "\<And>roles. required_roles route = Some roles \<Longrightarrow> roles = [] \<or> u_role u \<in> set roles"
proof -
  obtain u t token payload where u: "u \<in> set (users d)" "u_status u = UserStatus.ACTIVE" "u_tenantId u = Some (t_id t)"
      "tenant_of d (u_tenantId u) = Some t" "t_active t" "rc_tenantId c = Some (t_id t)" "rc_role c = Some (u_role u)"
    and token: "readBearerToken rq = Some token \<or> readAccessToken (sv_decode sv) rq = Inr (Some token)"
      "verifyAccessToken (sv_libs sv) (sv_auth sv) (dr_now dr) token = Inr payload" "vt_sub payload = u_id u"
      "vt_tenantId payload = t_id t"
    and roles: "rolesGuard (required_roles route) c = Inr ()"
    using guards_InrD [OF assms(1) [unfolded admitted_def, simplified assms(2) [THEN eq_False [THEN iffD2]]]] by blast
  have "asks sv dr rq d u"
    using u token unfolding asks_def by auto
  moreover have "u_tenantId u = Some (currentTenant c)"
    using u by (simp add: currentTenant_def)
  moreover have "roles = [] \<or> u_role u \<in> set roles" if "required_roles route = Some roles" for roles
    using rolesGuard_InrD [OF _ u(7)] roles that by simp
  ultimately show ?thesis by (rule that)
qed

lemma handled:
  assumes "handle_request sv dr rq route b = (r, b')"
  shows "b' = b \<and> r \<noteq> Inr () \<or> (\<exists>c. admitted sv dr rq route (bk_db b) c \<and> perform sv dr rq c route b = (r, b'))"
  using assms by (auto simp: handle_request_def admitted_def split: sum.splits)

text \<open>The routes for everyone leave the directory and the users alone.\<close>

lemma open_route:
  assumes "required_roles route = everyone"
  shows "untouched (bk_db b) (bk_db (snd (perform sv dr rq c route b)))"
proof (cases route)
  case (ToUsers r)
  then show ?thesis using assms by (cases r) simp_all
qed (use assms in \<open>simp_all add: customers_route freight_route imports_route insights_route dashboard_route
    logistics_route branches_route carriers_route\<close>)

lemma roles_cases:
  obtains "required_roles route = everyone" | "required_roles route = staff" "\<not> is_public route"
  | "required_roles route = Some [ADMIN]" "\<not> is_public route"
  | r where "route = ToAuth r" | dto where "route = ToUsers (PostAcceptInvite dto)"
proof (cases route)
  case (ToUsers r)
  then show ?thesis using that by (cases r) auto
next
  case (ToBranches r)
  then show ?thesis using that by (cases r) auto
next
  case (ToCarriers r)
  then show ?thesis using that by (cases r) auto
next
  case (ToLogistics r)
  then show ?thesis using that by (cases r) auto
qed (use that in auto)

section \<open>Properties\<close>

lemma staff_asks:
  assumes "admitted sv dr rq route d c" "required_roles route = staff \<or> required_roles route = Some [ADMIN]" "\<not> is_public route"
  shows "\<exists>u. asks sv dr rq d u \<and> u_role u \<in> {ADMIN, MANAGER}"
  by (rule admitted_asks [OF assms(1,3)]) (use assms(2) in auto)

text \<open>
  C1: the access matrix of the directory. A request that changes branches, carriers, their services,
  coverages or rate tables, or that is answered with the users or the audit log, carries a valid
  token of an active administrator or manager. The one exception is the public registration of a
  company, which adds the branch of its own new tenant and nothing else.
\<close>

theorem directory_needs_staff:
  assumes "handle_request sv dr rq route b = (r, b')"
  shows "(directory (bk_db b') = directory (bk_db b) \<or> (\<exists>u. asks sv dr rq (bk_db b) u \<and> u_role u \<in> {ADMIN, MANAGER})
      \<or> (\<exists>dto. route = ToAuth (PostRegister dto) \<and> new_company (bk_db b) (bk_db b')))
    \<and> (r = Inr () \<and> ((\<exists>q. route = ToUsers (GetUsers q)) \<or> (\<exists>q. route = ToLogistics (GetAudit q)))
      \<longrightarrow> (\<exists>u. asks sv dr rq (bk_db b) u \<and> u_role u \<in> {ADMIN, MANAGER}))"
  using handled [OF assms]
proof (elim disjE exE conjE)
  fix c
  assume c: "admitted sv dr rq route (bk_db b) c" and p: "perform sv dr rq c route b = (r, b')"
  have b': "b' = snd (perform sv dr rq c route b)" using p by simp
  show ?thesis
  proof (cases rule: roles_cases [of route])
    case 1
    then show ?thesis using open_route [of route b sv dr rq c] b' by (auto simp: untouched_def)
  next
    case 2
    then show ?thesis using staff_asks [OF c] by blast
  next
    case 3
    then show ?thesis using staff_asks [OF c] by blast
  next
    case (4 x)
    then show ?thesis
      using auth_route_cases [of b sv dr rq c x] b' by (elim disjE) (auto simp: keeps_def)
  next
    case (5 dto)
    then show ?thesis using accept_route [of b sv dr rq c dto] b' by (auto simp: keeps_def)
  qed
qed simp

lemma admin_routes: "required_roles route = Some [ADMIN] \<Longrightarrow> (\<exists>x. route = ToUsers x) \<and> \<not> is_public route"
proof (cases route)
  case (ToUsers r)
  then show "required_roles route = Some [ADMIN] \<Longrightarrow> ?thesis" by (cases r) simp_all
next
  case (ToBranches r)
  then show "required_roles route = Some [ADMIN] \<Longrightarrow> ?thesis" by (cases r) simp_all
next
  case (ToCarriers r)
  then show "required_roles route = Some [ADMIN] \<Longrightarrow> ?thesis" by (cases r) simp_all
next
  case (ToLogistics r)
  then show "required_roles route = Some [ADMIN] \<Longrightarrow> ?thesis" by (cases r) simp_all
qed simp_all

lemma gain_nth:
  "own_gain tn d d' \<Longrightarrow> i < length (users d) \<Longrightarrow> i < length (users d') \<and> ruled_by tn (users d ! i) (users d' ! i)"
  by (auto simp: own_gain_def list_all2_conv_all_nth)

lemma no_gain_nth:
  "no_gain d d' \<Longrightarrow> i < length (users d) \<Longrightarrow> i < length (users d') \<and> same_or_operator (users d ! i) (users d' ! i)"
  by (auto simp: no_gain_def list_all2_conv_all_nth)

lemma perform_gain:
  assumes "users_ok (bk_db b)" "required_roles route \<noteq> Some [ADMIN]"
  shows "no_gain (bk_db b) (bk_db (snd (perform sv dr rq c route b)))"
proof (cases rule: roles_cases [of route])
  case 1
  then show ?thesis using open_route [of route b sv dr rq c] by (auto simp: untouched_def no_gain_same)
next
  case 2
  then show ?thesis
  proof (cases route)
    case (ToUsers r)
    then show ?thesis using 2 by (cases r) (simp_all add: reads_def no_gain_same)
  qed (use 2 in \<open>auto simp: staff_route\<close>)
next
  case (4 x)
  then show ?thesis
    using auth_route_cases [of b sv dr rq c x] by (elim disjE) (simp_all add: keeps_def new_company_def)
next
  case (5 dto)
  then show ?thesis using accept_route [of b sv dr rq c dto] by (simp add: keeps_def)
qed (use assms(2) in simp)


section \<open>Examples\<close>

definition matrix_payload :: VerifiedAccessToken where
  "matrix_payload = access_payload_example\<lparr>vt_sub := ''0''\<rparr>"

definition matrix_server :: Server where
  "matrix_server = \<lparr> sv_decode = Some, sv_libs = access_libs\<lparr>json_read := (\<lambda>s. Some (payload_json matrix_payload))\<rparr>,
     sv_auth = example_auth, sv_cookieDomain = ''localhost'', sv_images = \<lparr> imageStorageDir = ''/i'', apiPublicUrl = ''http://a'' \<rparr>,
     sv_importLibs = text_libs, sv_importConfig = example_config, sv_round = id,
     sv_math = \<lparr> m_sin = id, m_cos = id, m_atan2 = (\<lambda>y x. y), m_sqrt = id, m_pi = 3 \<rparr>, sv_avg = sum_list \<rparr>"

definition matrix_draws :: Draws where
  "matrix_draws = \<lparr> dr_now = 0, dr_uuid = ''r'', dr_redis = all_up, dr_cacheUp = (True, True), dr_fresh = new_token,
     dr_salt = ''salt'', dr_token = ''c'', dr_token2 = ''k'', dr_hexes = (''aa'', ''bb''), dr_codes = [], dr_secret = ''s'',
     dr_iv = ''i'', dr_exchanged = Inl (InternalError ''none''), dr_viacep = (\<lambda>c. NoReply) \<rparr>"

definition waiting_user :: User where
  "waiting_user = session_user\<lparr>u_id := ''1'', u_email := ''b@b.c'', u_role := OPERATOR, u_status := UserStatus.PENDING\<rparr>"

definition matrix_backend :: Backend where
  "matrix_backend = \<lparr> bk_db = empty_db\<lparr>users := [admin_user, waiting_user], tenants := [session_tenant], next_id := 2\<rparr>,
     bk_limiter = empty_limiter, bk_cache = Map.empty \<rparr>"

lemma matrix_token:
  "verifyAccessToken (sv_libs matrix_server) example_auth 0 ''x.y.YWJj'' = Inr matrix_payload"
proof -
  have "split_on (CHR ''.'') ''x.y.YWJj'' = [''x'', ''y'', ''YWJj'']" "base64url ''abc'' = ''YWJj''" by code_simp+
  then show ?thesis
    by (simp add: verifyAccessToken_def sign_def matrix_server_def access_libs_def matrix_payload_def access_payload_example_def
        seconds_def)
qed

lemma matrix_guards:
  assumes "\<not> is_public route" "rolesGuard (required_roles route) (request_context ''r'' access_request
      \<lparr>rc_tenantId := Some ''t'', rc_userId := Some ''0'', rc_role := Some ADMIN, rc_user := Some (presentUser admin_user session_tenant)\<rparr>)
      = Inr ()"
  shows "handle_request matrix_server matrix_draws access_request route matrix_backend
    = perform matrix_server matrix_draws access_request (request_context ''r'' access_request
      \<lparr>rc_tenantId := Some ''t'', rc_userId := Some ''0'', rc_role := Some ADMIN, rc_user := Some (presentUser admin_user session_tenant)\<rparr>)
      route matrix_backend"
proof -
  have "findActiveUserById ''0'' ''t'' (bk_db matrix_backend) = Some (admin_user, session_tenant)"
    by (simp add: findActiveUserById_def findFirst_def matrix_backend_def tenant_of_def admin_user_def session_user_def
        session_tenant_def)
  moreover have "sv_auth matrix_server = example_auth" "dr_now matrix_draws = 0" "dr_uuid matrix_draws = ''r''"
    by (simp_all add: matrix_server_def matrix_draws_def)
  ultimately show ?thesis
    using assms
    by (simp add: handle_request_def guards_def privateGuard_def attachAuthenticatedContext_def access_bearer matrix_token
        matrix_payload_def access_payload_example_def presentUser_def admin_user_def session_user_def session_tenant_def Let_def)
qed

lemma matrix_carrier:
  "\<exists>c b'. handle_request matrix_server matrix_draws access_request (ToCarriers (PostCarrier example_carrier)) matrix_backend
     = (Inr (), b') \<and> carriers (bk_db b') = [c]"
  by (subst matrix_guards)
    (simp_all add: rolesGuard_def on_db_def carriers_create_def createCarrier_def matrix_backend_def create_row_def empty_db_def
      answered_def Let_def)

theorem directory_needs_staff_witness:
  "\<exists>u. asks matrix_server matrix_draws access_request (bk_db matrix_backend) u \<and> u_role u \<in> {ADMIN, MANAGER}"
proof -
  obtain c b' where h: "handle_request matrix_server matrix_draws access_request (ToCarriers (PostCarrier example_carrier))
      matrix_backend = (Inr (), b')" and "carriers (bk_db b') = [c]"
    using matrix_carrier by blast
  then have "directory (bk_db b') \<noteq> directory (bk_db matrix_backend)"
    by (simp add: directory_def matrix_backend_def empty_db_def)
  then show ?thesis using directory_needs_staff [OF h] by auto
qed

lemma matrix_approve:
  "\<exists>b' u v. handle_request matrix_server matrix_draws access_request (ToUsers (PostApprove ''1'' MANAGER)) matrix_backend
     = (Inr (), b') \<and> users (bk_db b') = [u, v] \<and> u_role v = MANAGER"
  by (subst matrix_guards)
    (simp_all add: rolesGuard_def on_db_def users_approve_def approveUser_def find_target_def as_user_def before_def
      requireUserId_def truthy_def currentTenant_def matrix_backend_def waiting_user_def admin_user_def session_user_def
      findFirst_def set_user_def update_row_def user_conflict_def user_audit_def empty_db_def answered_def Let_def)


end
