(* ===== verification/Gateway.thy ===== *)
theory Gateway
  imports Access
begin

text \<open>
  The realtime gateway \<open>notifications.gateway.ts\<close>: the token of a handshake, the connection, the
  room a socket joins, and who receives the messages the services send. Sockets are numbers; the
  transport delivers a message to the sockets in its room and takes a disconnected socket out of
  every room. A parsed body is there whenever a socket asks to join.
\<close>

section \<open>The handshake\<close>

datatype HeaderValue = Missing | Single string | Several "string list"

record Handshake =
  hs_auth :: "json option"
  hs_authorization :: HeaderValue
  hs_cookie :: HeaderValue

fun header_value :: "HeaderValue \<Rightarrow> string option" where
  "header_value Missing = None"
| "header_value (Single v) = Some v"
| "header_value (Several []) = None"
| "header_value (Several (v # vs)) = Some v"

text \<open>An object has fields; an array is an object without the two that are read.\<close>

definition readSocketAuth :: "Handshake \<Rightarrow> (string \<times> json) list" where
  "readSocketAuth h = (case hs_auth h of Some (JObj kvs) \<Rightarrow> kvs | _ \<Rightarrow> [])"

definition socket_cookie :: "(string \<Rightarrow> string option) \<Rightarrow> string option \<Rightarrow> string \<Rightarrow> string option result" where
  "socket_cookie decode rawCookie name =
     (if \<not> truthy rawCookie then Inr None
      else
      let prefix = name @ ''='' in
      case find (\<lambda>cookie. startsWith cookie prefix) (map trim (split_on (CHR '';'') (the rawCookie))) of
        None \<Rightarrow> Inr None
      | Some match \<Rightarrow> (case decode (drop (length prefix) match) of
                        None \<Rightarrow> Inl (InternalError ''URIError'') | Some v \<Rightarrow> Inr (Some v)))"

definition handshake_token :: "(string \<times> json) list \<Rightarrow> json option" where
  "handshake_token auth =
     (case map_of auth ''accessToken'' of
        None \<Rightarrow> map_of auth ''token'' | Some JNull \<Rightarrow> map_of auth ''token'' | Some v \<Rightarrow> Some v)"

definition socket_bearer :: "(string \<Rightarrow> string option) \<Rightarrow> Handshake \<Rightarrow> string option result" where
  "socket_bearer decode h =
     (case header_value (hs_authorization h) of
        Some v \<Rightarrow> if startsWith v ''Bearer '' then Inr (Some (trim (drop 7 v)))
                 else socket_cookie decode (header_value (hs_cookie h)) ''nf_access_token''
      | None \<Rightarrow> socket_cookie decode (header_value (hs_cookie h)) ''nf_access_token'')"

definition readSocketToken :: "(string \<Rightarrow> string option) \<Rightarrow> Handshake \<Rightarrow> string option result" where
  "readSocketToken decode h =
     (case handshake_token (readSocketAuth h) of
        Some (JStr authToken) \<Rightarrow> if trim authToken \<noteq> [] then Inr (Some (trim authToken)) else socket_bearer decode h
      | _ \<Rightarrow> socket_bearer decode h)"

section \<open>Connections and rooms\<close>

record AuthenticatedSocketData =
  as_role :: UserRole
  as_tenantId :: string
  as_userId :: string

record Sockets =
  so_connected :: "nat list"
  so_auth :: "nat \<rightharpoonup> AuthenticatedSocketData"
  so_rooms :: "(nat \<times> string) list"

definition no_sockets :: Sockets where
  "no_sockets = \<lparr> so_connected = [], so_auth = Map.empty, so_rooms = [] \<rparr>"

definition disconnect :: "nat \<Rightarrow> Sockets \<Rightarrow> Sockets" where
  "disconnect n g =
     g\<lparr>so_connected := filter (\<lambda>m. m \<noteq> n) (so_connected g), so_rooms := filter (\<lambda>p. fst p \<noteq> n) (so_rooms g)\<rparr>"

text \<open>
  The token is read before the block that catches: a cookie that cannot be decoded leaves the
  socket connected, and the connection handler throws.
\<close>

definition handleConnection ::
  "(string \<Rightarrow> string option) \<Rightarrow> AuthLibs \<Rightarrow> AuthConfig \<Rightarrow> date \<Rightarrow> nat \<Rightarrow> Handshake \<Rightarrow> db \<Rightarrow> Sockets \<Rightarrow> unit result \<times> Sockets" where
  "handleConnection decode libs cfg now n h d g =
     (case readSocketToken decode h of
        Inl e \<Rightarrow> (Inl e, g)
      | Inr token \<Rightarrow>
      if \<not> truthy token then (Inr (), disconnect n g)
      else
      case verifyAccessToken libs cfg now (the token) of
        Inl e \<Rightarrow> (Inr (), disconnect n g)
      | Inr payload \<Rightarrow>
      case findActiveUserById (vt_sub payload) (vt_tenantId payload) d of
        None \<Rightarrow> (Inr (), disconnect n g)
      | Some user \<Rightarrow>
          (Inr (), g\<lparr>so_auth := (so_auth g)(n \<mapsto> \<lparr> as_role = vt_role payload, as_tenantId = vt_tenantId payload,
                                         as_userId = vt_sub payload \<rparr>)\<rparr>))"

definition joinTenantRoom :: "nat \<Rightarrow> string option \<Rightarrow> Sockets \<Rightarrow> bool \<times> Sockets" where
  "joinTenantRoom n tenantId g =
     (case so_auth g n of
        None \<Rightarrow> (False, g)
      | Some auth \<Rightarrow>
          if tenantId \<noteq> None \<and> tenantId \<noteq> Some (as_tenantId auth) then (False, g)
          else (True, g\<lparr>so_rooms := so_rooms g @
             [(n, if as_role auth = OPERATOR then userRoom (as_tenantId auth) (as_userId auth)
                  else tenantRoom (as_tenantId auth))]\<rparr>))"

definition receivers :: "Sockets \<Rightarrow> Emission \<Rightarrow> nat list" where
  "receivers g e = map fst (filter (\<lambda>p. snd p = em_room e) (so_rooms g))"

section \<open>Runs of the gateway\<close>

text \<open>
  Sockets connect at any time and on any state of the database, ask to join while they are
  connected, and leave; a number is used for one socket.
\<close>

inductive socket_step :: "(string \<Rightarrow> string option) \<Rightarrow> AuthLibs \<Rightarrow> AuthConfig \<Rightarrow> Sockets \<Rightarrow> Sockets \<Rightarrow> bool"
  for decode libs cfg where
  connect: "so_auth g n = None \<Longrightarrow> n \<notin> set (so_connected g) \<Longrightarrow>
    socket_step decode libs cfg g
      (snd (handleConnection decode libs cfg now n h d (g\<lparr>so_connected := so_connected g @ [n]\<rparr>)))"
| join: "n \<in> set (so_connected g) \<Longrightarrow> socket_step decode libs cfg g (snd (joinTenantRoom n tenantId g))"
| leave: "socket_step decode libs cfg g (disconnect n g)"

text \<open>What a socket holds was given by a valid token of a user who was active when it connected.\<close>

definition granted :: "AuthLibs \<Rightarrow> AuthConfig \<Rightarrow> AuthenticatedSocketData \<Rightarrow> bool" where
  "granted libs cfg a \<longleftrightarrow>
     (\<exists>now token payload d u t. verifyAccessToken libs cfg now token = Inr payload \<and> vt_role payload = as_role a
        \<and> findActiveUserById (as_userId a) (as_tenantId a) d = Some (u, t))"

definition room_of :: "AuthenticatedSocketData \<Rightarrow> string" where
  "room_of a = (if as_role a = OPERATOR then userRoom (as_tenantId a) (as_userId a) else tenantRoom (as_tenantId a))"

definition sockets_ok :: "AuthLibs \<Rightarrow> AuthConfig \<Rightarrow> Sockets \<Rightarrow> bool" where
  "sockets_ok libs cfg g \<longleftrightarrow>
     (\<forall>n a. so_auth g n = Some a \<longrightarrow> granted libs cfg a)
     \<and> (\<forall>(n, room) \<in> set (so_rooms g). n \<in> set (so_connected g) \<and> (\<exists>a. so_auth g n = Some a \<and> room = room_of a))"

lemma disconnect_ok: "sockets_ok libs cfg g \<Longrightarrow> sockets_ok libs cfg (disconnect n g)"
  by (auto simp: sockets_ok_def disconnect_def)

lemma opened_ok: "sockets_ok libs cfg g \<Longrightarrow> sockets_ok libs cfg (g\<lparr>so_connected := so_connected g @ [n]\<rparr>)"
  by (auto simp: sockets_ok_def)

lemma authenticated_ok:
  assumes "sockets_ok libs cfg g" "so_auth g n = None" "granted libs cfg a"
  shows "sockets_ok libs cfg (g\<lparr>so_auth := (so_auth g)(n \<mapsto> a)\<rparr>)"
  using assms by (fastforce simp: sockets_ok_def)

lemma handleConnection_ok:
  assumes "sockets_ok libs cfg g" "so_auth g n = None"
  shows "ensures (\<lambda>r. sockets_ok libs cfg) (handleConnection decode libs cfg now n h d g)"
proof -
  have "granted libs cfg \<lparr> as_role = vt_role p, as_tenantId = vt_tenantId p, as_userId = vt_sub p \<rparr>"
    if "verifyAccessToken libs cfg now token = Inr p" "findActiveUserById (vt_sub p) (vt_tenantId p) d = Some u" for token p u
    using that unfolding granted_def by (cases u) (metis AuthenticatedSocketData.select_convs)
  then show ?thesis
    unfolding handleConnection_def
    using assms by (intro ensures_intros) (auto intro: disconnect_ok authenticated_ok)
qed

lemma joinTenantRoom_cases:
  "snd (joinTenantRoom n tenantId g) = g
   \<or> (\<exists>a. so_auth g n = Some a \<and> snd (joinTenantRoom n tenantId g) = g\<lparr>so_rooms := so_rooms g @ [(n, room_of a)]\<rparr>)"
  by (cases "so_auth g n") (simp_all add: joinTenantRoom_def room_of_def)

lemma joined_ok:
  assumes "sockets_ok libs cfg g" "n \<in> set (so_connected g)" "so_auth g n = Some a"
  shows "sockets_ok libs cfg (g\<lparr>so_rooms := so_rooms g @ [(n, room_of a)]\<rparr>)"
  using assms by (simp add: sockets_ok_def)

lemma joinTenantRoom_ok:
  "sockets_ok libs cfg g \<Longrightarrow> n \<in> set (so_connected g) \<Longrightarrow> sockets_ok libs cfg (snd (joinTenantRoom n tenantId g))"
  using joinTenantRoom_cases [of n tenantId g] by (elim disjE exE conjE) (simp_all add: joined_ok)

lemma socket_step_ok: "socket_step decode libs cfg g g' \<Longrightarrow> sockets_ok libs cfg g \<Longrightarrow> sockets_ok libs cfg g'"
proof (induction rule: socket_step.induct)
  case (connect g n now h d)
  then show ?case
    using handleConnection_ok [OF opened_ok, of libs cfg g n n decode now h d] by (simp add: ensures_def case_prod_unfold)
qed (auto intro: joinTenantRoom_ok disconnect_ok)

lemma no_sockets_ok: "sockets_ok libs cfg no_sockets"
  by (simp add: sockets_ok_def no_sockets_def)

lemma reachable_ok: "(socket_step decode libs cfg)\<^sup>*\<^sup>* no_sockets g \<Longrightarrow> sockets_ok libs cfg g"
  by (induction rule: rtranclp_induct) (auto intro: no_sockets_ok socket_step_ok)

section \<open>Who receives a message\<close>

abbreviation plain_id :: "string \<Rightarrow> bool" where
  "plain_id i \<equiv> CHR '':'' \<notin> set i"

lemma split_at_colon: "plain_id a \<Longrightarrow> plain_id b \<Longrightarrow> a @ CHR '':'' # u = b @ CHR '':'' # v \<Longrightarrow> a = b \<and> u = v"
proof (induction a arbitrary: b)
  case (Cons x a)
  then show ?case by (cases b) auto
qed (auto simp: Cons_eq_append_conv)

lemma rooms_apart:
  assumes "plain_id t" "plain_id t'"
  shows "tenantRoom t = tenantRoom t' \<longleftrightarrow> t = t'" "tenantRoom t \<noteq> userRoom t' u"
    "userRoom t u = userRoom t' u' \<longleftrightarrow> t = t' \<and> u = u'"
proof -
  show "tenantRoom t = tenantRoom t' \<longleftrightarrow> t = t'" by (simp add: tenantRoom_def)
  show "tenantRoom t \<noteq> userRoom t' u"
    using assms by (auto simp: tenantRoom_def userRoom_def)
  show "userRoom t u = userRoom t' u' \<longleftrightarrow> t = t' \<and> u = u'"
    using split_at_colon [OF assms, of "''user:'' @ u" "''user:'' @ u'"] by (auto simp: userRoom_def)
qed


definition example_handshake :: Handshake where
  "example_handshake = \<lparr> hs_auth = Some (JObj [(''accessToken'', JNull), (''token'', JStr '' x.y.YWJj '')]),
     hs_authorization = Missing, hs_cookie = Missing \<rparr>"

definition example_sockets :: Sockets where
  "example_sockets =
     snd (joinTenantRoom 1 None
       (snd (handleConnection Some access_libs example_auth 0 1 example_handshake one_session
          (no_sockets\<lparr>so_connected := so_connected no_sockets @ [1]\<rparr>))))"

lemma example_connection:
  "handleConnection Some access_libs example_auth 0 1 example_handshake one_session (no_sockets\<lparr>so_connected := [1]\<rparr>)
   = (Inr (), \<lparr> so_connected = [1], so_auth = [1 \<mapsto> \<lparr> as_role = OPERATOR, as_tenantId = ''t'', as_userId = ''u'' \<rparr>],
       so_rooms = [] \<rparr>)"
proof -
  have token: "readSocketToken Some example_handshake = Inr (Some ''x.y.YWJj'')" by code_simp
  have "findActiveUserById ''u'' ''t'' one_session = Some (session_user, session_tenant)"
    by (simp add: findActiveUserById_def findFirst_def one_session_def tenant_of_def session_user_def session_tenant_def)
  then show ?thesis
    by (simp add: handleConnection_def token access_token access_payload_example_def no_sockets_def)
qed

lemma example_sockets_eq:
  "example_sockets = \<lparr> so_connected = [1], so_auth = [1 \<mapsto> \<lparr> as_role = OPERATOR, as_tenantId = ''t'', as_userId = ''u'' \<rparr>],
     so_rooms = [(1, userRoom ''t'' ''u'')] \<rparr>"
  using example_connection by (simp add: example_sockets_def joinTenantRoom_def no_sockets_def)

lemma example_sockets_reachable: "(socket_step Some access_libs example_auth)\<^sup>*\<^sup>* no_sockets example_sockets"
proof -
  let ?g = "snd (handleConnection Some access_libs example_auth 0 1 example_handshake one_session
    (no_sockets\<lparr>so_connected := so_connected no_sockets @ [1]\<rparr>))"
  have "socket_step Some access_libs example_auth no_sockets ?g"
    by (intro socket_step.connect) (simp_all add: no_sockets_def)
  moreover have "socket_step Some access_libs example_auth ?g example_sockets"
    unfolding example_sockets_def using example_connection by (intro socket_step.join) (simp add: no_sockets_def)
  ultimately show ?thesis by (meson r_into_rtranclp rtranclp.rtrancl_into_rtrancl)
qed


end
