(* ===== verification/Spec2Isabelle.thy ===== *)
theory Spec2Isabelle
  imports Customers Simulations Branches Carriers ImportRuns Admins Access LoginSafety InsightSafety DashboardSafety AccessMatrix Gateway
begin

text \<open>
  Verification development of the back end in \<open>src/apps/api\<close>: a multi-tenant service in which
  the users of a company keep customers, carriers, branches and rate tables, simulate freight,
  turn simulations into shipments, track them, and import customers and carriers from files.

  \<^bold>\<open>Parts and their interaction.\<close> A request passes the guards (\<open>common/guards\<close>,
  \<open>auth-context.service.ts\<close>), which attach the user of its access token, and reaches a service
  under \<open>modules/\<close>. The services share the database of \<open>prisma/schema.prisma\<close>; they append to
  the audit log, send realtime messages and, for imports, put jobs into a queue that a worker
  takes. Two workers and any number of requests run at once: the worker is a sequence of steps
  between which other steps may happen, a request is one step.

  \<^bold>\<open>State.\<close> \<open>Schema\<close> holds the state \<open>db\<close>, a record with one list of rows per table, the audit
  log, the messages sent, the queue, the stored files and the counter identifiers are drawn
  from. \<open>Store\<close> holds the operations of the database client on a table and the locale
  \<open>table\<close>, the contract of a unique constraint, interpreted for every table in the theory that
  declares its key. A handler is a function from its request to \<open>db \<Rightarrow> 'a result \<times> db\<close>; an
  error is a value of \<open>http_error\<close>, and the state a failed handler leaves is the one the code
  leaves (transactions roll back, sequences of writes do not). The time and whatever is drawn at
  random are arguments.

  \<^bold>\<open>Theories and sources.\<close>
  \<^item> \<open>Prelude\<close>: results, nullable fields, the rules \<open>ensures_intros\<close> for the bodies of handlers, the
    string operations of JavaScript.
  \<^item> \<open>Rounding\<close>, \<open>Pricing\<close>: \<open>freight-pricing.engine.ts\<close> on exact decimals with the rounding of each
    operation.
  \<^item> \<open>Documents\<close>, \<open>Customers\<close>: \<open>customers.service.ts\<close>, its presenter and request bodies.
  \<^item> \<open>Dates\<close>, \<open>Logistics\<close>, \<open>RateTables\<close>, \<open>Tracking\<close>: \<open>logistics-admin.service.ts\<close>.
  \<^item> \<open>Freight\<close>, \<open>Simulations\<close>: \<open>freight-simulations.service.ts\<close>.
  \<^item> \<open>Branches\<close>, \<open>Carriers\<close>, \<open>Files\<close>: \<open>branches.service.ts\<close>, \<open>carriers.service.ts\<close> and the two storage
    services.
  \<^item> \<open>ImportParser\<close>, \<open>ImportHandlers\<close>, \<open>Imports\<close>, \<open>ImportRuns\<close>: \<open>modules/imports\<close>, the parser, the
    handlers of rows, the service and the worker.
  \<^item> \<open>Base64\<close>, \<open>Tokens\<close>, \<open>Mfa\<close>, \<open>LoginAttempts\<close>: \<open>auth-token.service.ts\<close>, \<open>password.service.ts\<close>,
    \<open>mfa.service.ts\<close> and \<open>auth-login-attempt.service.ts\<close>.
  \<^item> \<open>Sessions\<close>, \<open>Login\<close>, \<open>OAuth\<close>, \<open>Account\<close>: \<open>auth.repository.ts\<close>, \<open>auth.presenter.ts\<close>,
    \<open>auth.service.ts\<close> and \<open>oauth.service.ts\<close>.
  \<^item> \<open>Users\<close>: \<open>users.service.ts\<close>. \<open>Access\<close>: the guards, cookies, request identifiers, error responses.
  \<^item> \<open>AuthSteps\<close>, \<open>LoginSafety\<close>, \<open>Admins\<close>: the operations of authentication and user administration
    as steps, and what they keep.
  \<^item> \<open>JsText\<close>, \<open>Grouping\<close>: what the reports use of JavaScript: numbers and dates as text, rounding,
    money, and the maps a loop groups rows in (locale \<open>accumulator\<close>, interpreted for the counters
    and the averages of the reports).
  \<^item> \<open>InsightRules\<close>, \<open>Insights\<close>, \<open>InsightSafety\<close>: \<open>modules/insights\<close>: the generators of insights,
    the service that stores, lists, reads and dismisses them, and what its operations keep.
  \<^item> \<open>Dashboard\<close>, \<open>DashboardSafety\<close>: \<open>modules/dashboard\<close>: the summary with its queries, its metrics
    for each role and its cache, and what a reader of it can learn.
  \<^item> \<open>AuthController\<close>, \<open>Controllers\<close>, \<open>Routes\<close>: the controllers under \<open>modules/\<close> route by route, and
    \<open>app.module.ts\<close>: the roles of the decorators, the guards and the handler behind them
    (\<open>handle_request\<close>). \<open>AccessFrames\<close>, \<open>AccessMatrix\<close>: what the handlers leave alone, and who must
    have sent a request that changed something.
  \<^item> \<open>Gateway\<close>: \<open>notifications.gateway.ts\<close>: connections of sockets, rooms, and who receives a message.

  \<^bold>\<open>What is shown.\<close>
  \<^item> Pricing: the engine computes the price formula; metrics are exact; the minimum is a floor.
  \<^item> Tables of a tenant: any sequence of requests keeps the constraints and the rows of other tenants.
  \<^item> Tracking: the events of a shipment are a path of the transition table; a final status stays.
  \<^item> Rate tables: accepted ranges are unambiguous; a table in use keeps its prices; a new version
    can always be made.
  \<^item> Simulations: every option is a lawful quote and every eligible service appears; at most one
    option is selected; a shipment is made once.
  \<^item> Imports: the tables stay consistent and the counts exact under any interleaving; a worker ends;
    an undisturbed import stores one result per row; the parser inverts the writer.
  \<^item> Authentication: tokens, secrets and sealed values are read back; the fallback of the limiter
    refines the same abstract limiter as Redis; a family of refresh tokens has at most one live
    token and each token is good for one exchange; a login and a private handler serve only active
    users; a reset ends all sessions; a tenant keeps an administrator.
  \<^item> Insights: a stored insight belongs to one tenant and one key, at most 21 are generated, and a
    refresh that finds the same data stores the same rows; two routes of a tenant can share a key.
  \<^item> Dashboard: the cache serves an entry only to the role it was made for; the rates are percentages;
    the answer depends on the reader's own tenant alone; the savings shown are those of the insights.
  \<^item> Access: the directory changes, and the users and the audit log are read, only for an active
    administrator or manager; no request gives a user more rights without an active administrator of
    the tenant; a socket receives the messages of its own tenant.

  \<^bold>\<open>Bounds.\<close> Every recursion is structural or has a proved measure; no fuel is used. The steps of a
  worker are bounded by the rows of its file. Words of 32 bits are used where the code computes
  bitwise (the second factor); counts and identifiers are natural numbers.

  \<^bold>\<open>Parameters.\<close> Code outside the repository is a parameter with its documented behaviour: the
  primitives of \<open>node:crypto\<close> and the JSON reader and writer (\<open>AuthLibs\<close>, with the laws
  \<open>lawful_libs\<close> where a property needs them), the decoder of UTF-8 and the reader of spreadsheets
  (\<open>ImportLibs\<close>), address and route lookups, the HTTP responses of identity providers,
  \<open>decodeURIComponent\<close>, the average the database computes (\<open>avg\<close>). Redis commands may fail, then without an effect. Strings are compared by
  code unit, which the collation of the database is coarser than.

  \<^bold>\<open>Not modelled.\<close> The framework itself: the matching of paths to routes, the validation of request
  bodies by decorators and the limits of uploads; the health checks, which keep no state;
  configuration and the clients of database, Redis and queue; the transport of realtime messages;
  log lines and the sending of e-mail; the seed of the database; the web application;
  columns no service reads and the indexes of the tables. A request is one step, so two requests
  whose reads and writes interleave are outside the invariants, except for the import worker.
\<close>

end
